(* ===== verification/Prelude.thy ===== *)
theory Prelude
  imports Main "HOL-Library.Word" "HOL-Library.Sublist" "HOL-Library.Signed_Division"
begin

text \<open>
  Shared ground of the development: the fixed-width integers of the Rust source, the
  operations of Rust's \<open>str\<close> it uses (a \<open>str\<close> is its list of UTF-8 bytes, one
  HOL character per byte, so \<open>length\<close> is Rust's \<open>len()\<close>), decimal printing and
  parsing, tables as lists of rows, and the generic lemmas on all of these.
\<close>

named_theorems table_simps
named_theorems num_simps

type_synonym uuid = "128 word"
type_synonym env_map = "string \<rightharpoonup> string"

section \<open>Integers of a fixed width\<close>

text \<open>An \<open>i64\<close> is an \<open>int\<close> in range; release-mode arithmetic wraps around.\<close>

definition in_i64 :: "int \<Rightarrow> bool" where
  "in_i64 x = (- (2 ^ 63) \<le> x \<and> x < 2 ^ 63)"

definition wrap_i64 :: "int \<Rightarrow> int" where
  "wrap_i64 x = (x + 2 ^ 63) mod 2 ^ 64 - 2 ^ 63"

definition wrap_i32 :: "int \<Rightarrow> int" where
  "wrap_i32 x = (x + 2 ^ 31) mod 2 ^ 32 - 2 ^ 31"

definition wrap_u16 :: "int \<Rightarrow> nat" where
  "wrap_u16 x = nat (x mod 2 ^ 16)"

definition wrap_u32 :: "int \<Rightarrow> nat" where
  "wrap_u32 x = nat (x mod 2 ^ 32)"

section \<open>Strings\<close>

definition code_of :: "char \<Rightarrow> nat" where
  "code_of c = of_char c"

definition is_ascii_digit :: "char \<Rightarrow> bool" where
  "is_ascii_digit c = (48 \<le> code_of c \<and> code_of c \<le> 57)"

definition is_ascii_upper :: "char \<Rightarrow> bool" where
  "is_ascii_upper c = (65 \<le> code_of c \<and> code_of c \<le> 90)"

definition is_ascii_lower :: "char \<Rightarrow> bool" where
  "is_ascii_lower c = (97 \<le> code_of c \<and> code_of c \<le> 122)"

definition is_ascii_alphanumeric :: "char \<Rightarrow> bool" where
  "is_ascii_alphanumeric c = (is_ascii_digit c \<or> is_ascii_upper c \<or> is_ascii_lower c)"

definition ascii_lower :: "char \<Rightarrow> char" where
  "ascii_lower c = (if is_ascii_upper c then char_of (code_of c + 32) else c)"

definition ascii_upper :: "char \<Rightarrow> char" where
  "ascii_upper c = (if is_ascii_lower c then char_of (code_of c - 32) else c)"

definition starts_with :: "string \<Rightarrow> string \<Rightarrow> bool" where
  "starts_with p s = (take (length p) s = p)"

definition ends_with :: "string \<Rightarrow> string \<Rightarrow> bool" where
  "ends_with p s = starts_with (rev p) (rev s)"

definition strip_prefix :: "string \<Rightarrow> string \<Rightarrow> string option" where
  "strip_prefix p s = (if starts_with p s then Some (drop (length p) s) else None)"

fun contains_str :: "string \<Rightarrow> string \<Rightarrow> bool" where
  "contains_str p [] = (p = [])"
| "contains_str p (c # s) = (starts_with p (c # s) \<or> contains_str p s)"

text \<open>\<open>str::split\<close> on one character: always at least one piece.\<close>

fun split_on :: "char \<Rightarrow> string \<Rightarrow> string list" where
  "split_on d [] = [[]]"
| "split_on d (c # s) =
     (if c = d then [] # split_on d s
      else (case split_on d s of [] \<Rightarrow> [[c]] | p # ps \<Rightarrow> (c # p) # ps))"

definition trim_end_char :: "char \<Rightarrow> string \<Rightarrow> string" where
  "trim_end_char d s = rev (dropWhile (\<lambda>c. c = d) (rev s))"

definition trim_char :: "char \<Rightarrow> string \<Rightarrow> string" where
  "trim_char d s = trim_end_char d (dropWhile (\<lambda>c. c = d) s)"

definition replace_char :: "char \<Rightarrow> char \<Rightarrow> string \<Rightarrow> string" where
  "replace_char a b s = map (\<lambda>c. if c = a then b else c) s"

text \<open>The UTF-8 bytes of the em dash the source uses in several messages.\<close>

definition em_dash :: string where
  "em_dash = [CHR 0xE2, CHR 0x80, CHR 0x94]"

fun find_map :: "('a \<Rightarrow> 'b option) \<Rightarrow> 'a list \<Rightarrow> 'b option" where
  "find_map f [] = None"
| "find_map f (x # xs) = (case f x of Some y \<Rightarrow> Some y | None \<Rightarrow> find_map f xs)"

section \<open>Decimal numbers\<close>

definition digit_char :: "nat \<Rightarrow> char" where
  "digit_char n = char_of (48 + n)"

fun show_nat :: "nat \<Rightarrow> string" where
  "show_nat n = (if n < 10 then [digit_char n] else show_nat (n div 10) @ [digit_char (n mod 10)])"

declare show_nat.simps [simp del]

definition show_int :: "int \<Rightarrow> string" where
  "show_int i = (if i < 0 then CHR ''-'' # show_nat (nat (- i)) else show_nat (nat i))"

fun digits_value :: "nat \<Rightarrow> string \<Rightarrow> nat" where
  "digits_value acc [] = acc"
| "digits_value acc (c # s) = digits_value (10 * acc + (code_of c - 48)) s"

text \<open>\<open>FromStr\<close> of the unsigned integers: an optional plus sign, then one or more
  digits, and a value that fits (\<open>bound\<close> is \<open>2 ^ width\<close>).\<close>

definition parse_unsigned :: "nat \<Rightarrow> string \<Rightarrow> nat option" where
  "parse_unsigned bound s =
     (let t = (case s of c # r \<Rightarrow> if c = CHR ''+'' then r else s | [] \<Rightarrow> s)
      in if t \<noteq> [] \<and> list_all is_ascii_digit t \<and> digits_value 0 t < bound
         then Some (digits_value 0 t) else None)"

text \<open>\<open>FromStr\<close> of \<open>i64\<close>: a minus sign is accepted too.\<close>

definition parse_i64 :: "string \<Rightarrow> int option" where
  "parse_i64 s =
     (case s of
        c # r \<Rightarrow>
          if c = CHR ''-'' then
            (if r \<noteq> [] \<and> list_all is_ascii_digit r \<and> digits_value 0 r \<le> 2 ^ 63
             then Some (- int (digits_value 0 r)) else None)
          else map_option int (parse_unsigned (2 ^ 63) s)
      | [] \<Rightarrow> None)"

section \<open>Tables\<close>

definition update_where :: "('r \<Rightarrow> bool) \<Rightarrow> ('r \<Rightarrow> 'r) \<Rightarrow> 'r list \<Rightarrow> 'r list" where
  "update_where p f rs = map (\<lambda>r. if p r then f r else r) rs"

definition delete_where :: "('r \<Rightarrow> bool) \<Rightarrow> 'r list \<Rightarrow> 'r list" where
  "delete_where p rs = filter (\<lambda>r. \<not> p r) rs"

section \<open>Lemmas on integers\<close>

lemma wrap_i64_id [num_simps]: "in_i64 x \<Longrightarrow> wrap_i64 x = x"
  by (simp add: in_i64_def wrap_i64_def)

lemma wrap_i64_range: "in_i64 (wrap_i64 x)"
  by (simp add: in_i64_def wrap_i64_def)

lemma wrap_u16_lt: "wrap_u16 x < 2 ^ 16"
  by (simp add: wrap_u16_def nat_less_iff)

lemma wrap_u16_id: "0 \<le> x \<Longrightarrow> x < 2 ^ 16 \<Longrightarrow> wrap_u16 x = nat x"
  by (simp add: wrap_u16_def)

lemma in_i64_neg: "in_i64 x \<Longrightarrow> x \<noteq> - (2 ^ 63) \<Longrightarrow> in_i64 (- x)"
  by (auto simp: in_i64_def)

lemma sdiv_nonneg: "0 \<le> a \<Longrightarrow> 0 < b \<Longrightarrow> (a::int) sdiv b = a div b"
  by (simp add: signed_divide_int_def sgn_if)

section \<open>Lemmas on strings\<close>

lemma code_of_char_of [simp]: "n < 256 \<Longrightarrow> code_of (char_of n) = n"
  by (simp add: code_of_def)

lemma code_of_lt: "code_of c < 256"
  by (simp add: code_of_def)

lemma code_of_inj: "code_of c = code_of d \<longleftrightarrow> c = d"
  by (simp add: code_of_def)

lemma ascii_lower_not_upper [simp]: "\<not> is_ascii_upper (ascii_lower c)"
  by (auto simp: ascii_lower_def is_ascii_upper_def)

lemma ascii_lower_idem [simp]: "ascii_lower (ascii_lower c) = ascii_lower c"
  using ascii_lower_not_upper [of c] unfolding ascii_lower_def [of "ascii_lower c"] by simp

lemma ascii_lower_alnum [simp]:
  "is_ascii_alphanumeric (ascii_lower c) = is_ascii_alphanumeric c"
  by (auto simp: is_ascii_alphanumeric_def is_ascii_digit_def is_ascii_upper_def
      is_ascii_lower_def ascii_lower_def)

lemma starts_with_append [simp]: "starts_with p (p @ s)"
  by (simp add: starts_with_def)

lemma starts_with_iff_prefix: "starts_with p s \<longleftrightarrow> prefix p s"
  by (metis append_eq_conv_conj prefix_def starts_with_def append_take_drop_id)

lemma ends_with_iff_suffix: "ends_with p s \<longleftrightarrow> suffix p s"
  by (simp add: ends_with_def starts_with_iff_prefix suffix_to_prefix)

lemma contains_str_iff: "contains_str p s \<longleftrightarrow> (\<exists>a b. s = a @ p @ b)"
proof (induction s)
  case Nil
  then show ?case by auto
next
  case (Cons c s)
  show ?case
  proof
    assume "contains_str p (c # s)"
    then consider "starts_with p (c # s)" | "contains_str p s" by auto
    then show "\<exists>a b. c # s = a @ p @ b"
    proof cases
      case 1
      then obtain b where "c # s = p @ b" by (auto simp: starts_with_iff_prefix prefix_def)
      then have "c # s = [] @ p @ b" by simp
      then show ?thesis by blast
    next
      case 2
      then obtain a b where "s = a @ p @ b" using Cons.IH by blast
      then have "c # s = (c # a) @ p @ b" by simp
      then show ?thesis by blast
    qed
  next
    assume "\<exists>a b. c # s = a @ p @ b"
    then obtain a b where ab: "c # s = a @ p @ b" by blast
    show "contains_str p (c # s)"
    proof (cases a)
      case Nil
      with ab have "starts_with p (c # s)" by simp
      then show ?thesis by simp
    next
      case (Cons x a')
      with ab have "s = a' @ p @ b" by simp
      then have "contains_str p s" using Cons.IH by blast
      then show ?thesis by simp
    qed
  qed
qed

lemma split_on_nonempty [simp]: "split_on d s \<noteq> []"
  by (induction s) (auto split: list.splits)

lemma split_on_no_sep: "d \<notin> set s \<Longrightarrow> split_on d s = [s]"
  by (induction s) auto

lemma split_on_hd: "hd (split_on d s) = takeWhile (\<lambda>c. c \<noteq> d) s"
proof (induction s)
  case (Cons c s)
  then show ?case by (cases "split_on d s") auto
qed simp

lemma split_on_append: "d \<notin> set a \<Longrightarrow> split_on d (a @ d # s) = a # split_on d s"
  by (induction a) auto

lemma split_on_pieces: "p \<in> set (split_on d s) \<Longrightarrow> d \<notin> set p"
proof (induction s arbitrary: p)
  case (Cons c s)
  then show ?case by (cases "split_on d s") (auto split: if_splits)
qed simp

section \<open>Lemmas on decimal numbers\<close>

lemma code_of_digit_char [simp]: "n < 10 \<Longrightarrow> code_of (digit_char n) = 48 + n"
  by (simp add: digit_char_def)

lemma is_digit_digit_char [simp]: "n < 10 \<Longrightarrow> is_ascii_digit (digit_char n)"
  by (simp add: is_ascii_digit_def)

lemma show_nat_digits: "list_all is_ascii_digit (show_nat n)"
proof (induction n rule: show_nat.induct)
  case (1 n)
  then show ?case by (subst show_nat.simps) auto
qed

lemma show_nat_nonempty [simp]: "show_nat n \<noteq> []"
  by (subst show_nat.simps) simp

lemma digits_value_append:
  "digits_value acc (s @ t) = digits_value (digits_value acc s) t"
  by (induction s arbitrary: acc) auto

lemma digits_value_show_nat: "digits_value 0 (show_nat n) = n"
proof (induction n rule: show_nat.induct)
  case (1 n)
  then show ?case
    by (subst show_nat.simps) (auto simp: digits_value_append)
qed

lemma show_nat_inj: "show_nat m = show_nat n \<longleftrightarrow> m = n"
  by (metis digits_value_show_nat)

lemma show_nat_not_mem: "\<not> is_ascii_digit c \<Longrightarrow> c \<notin> set (show_nat n)"
  using show_nat_digits [of n] by (auto simp: list_all_iff)

lemma show_nat_hd: "show_nat n = c # s \<Longrightarrow> is_ascii_digit c"
  using show_nat_digits [of n] by simp

lemma plus_not_digit: "\<not> is_ascii_digit (CHR ''+'')"
  by (simp add: is_ascii_digit_def code_of_def)

lemma minus_not_digit: "\<not> is_ascii_digit (CHR ''-'')"
  by (simp add: is_ascii_digit_def code_of_def)

lemma dot_not_digit: "\<not> is_ascii_digit (CHR ''.'')"
  by (simp add: is_ascii_digit_def code_of_def)

lemma parse_unsigned_show: "n < bound \<Longrightarrow> parse_unsigned bound (show_nat n) = Some n"
  using show_nat_digits [of n] show_nat_hd [of n] plus_not_digit digits_value_show_nat [of n]
  by (auto simp: parse_unsigned_def Let_def split: list.splits)

lemma parse_unsigned_lt: "parse_unsigned bound s = Some n \<Longrightarrow> n < bound"
  by (auto simp: parse_unsigned_def Let_def split: if_splits)

section \<open>Lemmas on tables\<close>

lemma update_where_Nil [table_simps]: "update_where p f [] = []"
  by (simp add: update_where_def)

lemma update_where_Cons [table_simps]:
  "update_where p f (r # rs) = (if p r then f r else r) # update_where p f rs"
  by (simp add: update_where_def)

lemma length_update_where [simp]: "length (update_where p f rs) = length rs"
  by (simp add: update_where_def)

lemma map_update_where:
  "(\<And>r. g (f r) = g r) \<Longrightarrow> map g (update_where p f rs) = map g rs"
  by (simp add: update_where_def)

lemma in_update_where:
  "x \<in> set (update_where p f rs) \<longleftrightarrow>
   (\<exists>r \<in> set rs. x = (if p r then f r else r))"
  by (auto simp: update_where_def)

lemma update_where_none: "(\<And>r. r \<in> set rs \<Longrightarrow> \<not> p r) \<Longrightarrow> update_where p f rs = rs"
  by (simp add: update_where_def map_idI)

lemma filter_update_where:
  "(\<And>r. q (f r) = q r) \<Longrightarrow> filter q (update_where p f rs) = update_where p f (filter q rs)"
  by (induction rs) (auto simp: table_simps)

lemma set_delete_where [simp]: "set (delete_where p rs) = {r \<in> set rs. \<not> p r}"
  by (auto simp: delete_where_def)

lemma filter_singletonD: "filter p xs = [w] \<Longrightarrow> w \<in> set xs \<and> p w"
  by (metis filter_set list.set_intros(1) Set.filter_eq mem_Collect_eq)

lemma filter_singleton_key:
  "distinct (map k rs) \<Longrightarrow> r \<in> set rs \<Longrightarrow> filter (\<lambda>x. k x = k r) rs = [r]"
proof (induction rs)
  case (Cons a rs)
  show ?case
  proof (cases "r = a")
    case True
    with Cons.prems(1) have "k r \<notin> k ` set rs" by simp
    then have "filter (\<lambda>x. k x = k r) rs = []"
      by (metis (mono_tags, lifting) filter_False imageI)
    with True show ?thesis by simp
  next
    case False
    with Cons show ?thesis by auto
  qed
qed simp

end
