(* ===== verification/Events.thy ===== *)
theory Events
  imports Prelude
begin

text \<open>
  The messages of the platform and the data they carry, after
  \<open>crates/common/src/events.rs\<close>: the two engines, their provisioning specifications,
  the resource quota and its reading from the process environment, and one record per
  event. A payload in the outbox or on NATS is the event value itself; its JSON text
  (derived serde code) is not modelled, only the \<open>service_id\<close> field that the SQL
  reads out of it.
\<close>

section \<open>Engines and quotas\<close>

datatype engine = Metal | Liquid

definition engine_as_str :: "engine \<Rightarrow> string" where
  "engine_as_str e = (case e of Metal \<Rightarrow> ''metal'' | Liquid \<Rightarrow> ''liquid'')"

definition engine_from_str :: "string \<Rightarrow> string + engine" where
  "engine_from_str s =
     (if s = ''metal'' then Inr Metal
      else if s = ''liquid'' then Inr Liquid
      else Inl (''unknown engine: '' @ s))"

record resource_quota =
  disk_read_bps :: "nat option"
  disk_write_bps :: "nat option"
  disk_read_iops :: "nat option"
  disk_write_iops :: "nat option"
  net_ingress_kbps :: "nat option"
  net_egress_kbps :: "nat option"

definition default_quota :: resource_quota where
  "default_quota =
     \<lparr> disk_read_bps = Some (100 * 1024 * 1024),
       disk_write_bps = Some (100 * 1024 * 1024),
       disk_read_iops = Some 5000,
       disk_write_iops = Some 2000,
       net_ingress_kbps = Some 100000,
       net_egress_kbps = Some 100000 \<rparr>"

text \<open>
  \<open>parse_quota_env\<close>: \<open>vars\<close> is the process environment, \<open>bound\<close> is \<open>2 ^ w\<close> for
  the unsigned type the caller asks for. The default of an integer type is 0.
\<close>

definition parse_quota_env ::
    "nat \<Rightarrow> (string \<rightharpoonup> string) \<Rightarrow> string \<Rightarrow> nat option \<Rightarrow> nat option" where
  "parse_quota_env bound vars key fallback =
     (case vars key of
        None \<Rightarrow> fallback
      | Some val \<Rightarrow>
          (case parse_unsigned bound val of
             Some v \<Rightarrow> if v = 0 then None else Some v
           | None \<Rightarrow> fallback))"

definition quota_from_env :: "(string \<rightharpoonup> string) \<Rightarrow> resource_quota" where
  "quota_from_env vars =
     (let d = default_quota in
      \<lparr> disk_read_bps = parse_quota_env (2 ^ 64) vars ''QUOTA_DISK_READ_BPS'' (disk_read_bps d),
        disk_write_bps = parse_quota_env (2 ^ 64) vars ''QUOTA_DISK_WRITE_BPS'' (disk_write_bps d),
        disk_read_iops = parse_quota_env (2 ^ 32) vars ''QUOTA_DISK_READ_IOPS'' (disk_read_iops d),
        disk_write_iops = parse_quota_env (2 ^ 32) vars ''QUOTA_DISK_WRITE_IOPS'' (disk_write_iops d),
        net_ingress_kbps = parse_quota_env (2 ^ 32) vars ''QUOTA_NET_INGRESS_KBPS'' (net_ingress_kbps d),
        net_egress_kbps = parse_quota_env (2 ^ 32) vars ''QUOTA_NET_EGRESS_KBPS'' (net_egress_kbps d) \<rparr>)"

section \<open>Provisioning specifications\<close>

record metal_spec =
  ms_vcpu :: nat
  ms_memory_mb :: nat
  ms_port :: nat
  ms_artifact_key :: string
  ms_artifact_sha256 :: "string option"
  ms_quota :: resource_quota

record liquid_spec =
  ls_artifact_key :: string
  ls_artifact_sha256 :: "string option"

datatype engine_spec = SpecMetal metal_spec | SpecLiquid liquid_spec

section \<open>Events\<close>

record provision_event =
  pe_tenant_id :: string
  pe_service_id :: string
  pe_app_name :: string
  pe_slug :: string
  pe_engine :: engine
  pe_spec :: engine_spec
  pe_env_vars :: env_map

record route_updated_event =
  ru_slug :: string
  ru_upstream_addr :: string

record route_removed_event =
  rr_slug :: string

datatype deploy_step =
    Queued | Downloading | Verifying | Building | Booting | Starting
  | HealthCheck | Snapshotting | Ready | Running | Failed

record deploy_progress_event =
  dp_service_id :: string
  dp_step :: deploy_step
  dp_message :: string

datatype failure_kind = Transient | Permanent

record traffic_pulse_event =
  tp_slug :: string

record wake_event =
  wk_service_id :: string
  wk_slug :: string
  wk_engine :: engine
  wk_snapshot_key :: string

record deprovision_event =
  de_service_id :: string
  de_slug :: string
  de_engine :: engine

record metal_usage_event =
  mu_workspace_id :: string
  mu_service_id :: string
  mu_invocations :: nat
  mu_duration_ms :: nat

record liquid_usage_event =
  lu_workspace_id :: string
  lu_service_id :: string
  lu_invocations :: nat

record service_crashed_event =
  sc_service_id :: string
  sc_slug :: string
  sc_exit_code :: "int option"

record suspend_event =
  su_workspace_id :: string
  su_reason :: string

record unsuspend_event =
  un_workspace_id :: string

record cert_provisioned_event =
  cp_domain :: string

datatype event =
    EvProvision provision_event
  | EvDeprovision deprovision_event
  | EvSuspend suspend_event
  | EvUnsuspend unsuspend_event
  | EvRouteUpdated route_updated_event
  | EvRouteRemoved route_removed_event
  | EvTrafficPulse traffic_pulse_event
  | EvWake wake_event
  | EvMetalUsage metal_usage_event
  | EvLiquidUsage liquid_usage_event
  | EvServiceCrashed service_crashed_event
  | EvDeployProgress deploy_progress_event
  | EvCertProvisioned cert_provisioned_event

definition subject_provision :: string where
  "subject_provision = ''platform.provision''"

definition subject_deprovision :: string where
  "subject_deprovision = ''platform.deprovision''"

definition subject_route_updated :: string where
  "subject_route_updated = ''platform.route_updated''"

definition subject_route_removed :: string where
  "subject_route_removed = ''platform.route_removed''"

definition subject_traffic_pulse :: string where
  "subject_traffic_pulse = ''platform.traffic_pulse''"

definition subject_usage_metal :: string where
  "subject_usage_metal = ''platform.usage_metal''"

definition subject_usage_liquid :: string where
  "subject_usage_liquid = ''platform.usage_liquid''"

definition subject_suspend :: string where
  "subject_suspend = ''platform.suspend''"

definition subject_wake :: string where
  "subject_wake = ''platform.wake''"

definition subject_deploy_progress :: string where
  "subject_deploy_progress = ''platform.deploy_progress''"

text \<open>The field \<open>payload->>'service_id'\<close> of a serialized event.\<close>

fun payload_service_id :: "event \<Rightarrow> string option" where
  "payload_service_id (EvProvision e) = Some (pe_service_id e)"
| "payload_service_id (EvDeprovision e) = Some (de_service_id e)"
| "payload_service_id (EvWake e) = Some (wk_service_id e)"
| "payload_service_id (EvMetalUsage e) = Some (mu_service_id e)"
| "payload_service_id (EvLiquidUsage e) = Some (lu_service_id e)"
| "payload_service_id (EvServiceCrashed e) = Some (sc_service_id e)"
| "payload_service_id (EvDeployProgress e) = Some (dp_service_id e)"
| "payload_service_id _ = None"

section \<open>Lemmas\<close>

lemma engine_from_as_str [simp]: "engine_from_str (engine_as_str e) = Inr e"
  by (cases e) (simp_all add: engine_from_str_def engine_as_str_def)

lemma engine_from_str_Inr: "engine_from_str s = Inr e \<longleftrightarrow> s = engine_as_str e"
  by (cases e) (auto simp: engine_from_str_def engine_as_str_def)

lemma engine_as_str_inj [simp]: "engine_as_str a = engine_as_str b \<longleftrightarrow> a = b"
  by (cases a; cases b) (simp_all add: engine_as_str_def)

text \<open>
  A dimension is unlimited only when the operator's variable parses to zero: an unset or
  unreadable variable falls back to the compiled limit.
\<close>

lemma parse_quota_env_None:
  "parse_quota_env bound vars key (Some d) = None \<longleftrightarrow>
   (\<exists>val. vars key = Some val \<and> parse_unsigned bound val = Some 0)"
  by (auto simp: parse_quota_env_def split: option.splits if_splits)

lemma parse_quota_env_bound:
  "parse_quota_env bound vars key fb = Some v \<Longrightarrow>
   (\<And>x. fb = Some x \<Longrightarrow> 0 < x \<and> x < bound) \<Longrightarrow> 0 < v \<and> v < bound"
  by (auto simp: parse_quota_env_def dest: parse_unsigned_lt split: option.splits if_splits)

end
