(* ===== verification/Pricing.thy ===== *)
theory Pricing
  imports Events
begin

text \<open>
  The price list (\<open>crates/common/src/pricing.rs\<close>), the runtime feature flags
  (\<open>features.rs\<close>), the environment helpers (\<open>config.rs\<close>), the guest addressing
  contract (\<open>networking.rs\<close>) and the slug function (\<open>lib.rs\<close>) that the API, the
  daemon and the proxy share.
\<close>

section \<open>Metal tiers and Liquid prices\<close>

record metal_tier_spec =
  mt_id :: string
  mt_label :: string
  mt_vcpu :: nat
  mt_memory_mb :: nat
  mt_disk_gb :: nat
  mt_price_cents :: nat

definition METAL_TIERS :: "metal_tier_spec list" where
  "METAL_TIERS =
     [\<lparr> mt_id = ''one'', mt_label = ''1 vCPU'', mt_vcpu = 1, mt_memory_mb = 2048,
        mt_disk_gb = 10, mt_price_cents = 2000 \<rparr>,
      \<lparr> mt_id = ''two'', mt_label = ''2 vCPU'', mt_vcpu = 2, mt_memory_mb = 4096,
        mt_disk_gb = 20, mt_price_cents = 4000 \<rparr>,
      \<lparr> mt_id = ''four'', mt_label = ''4 vCPU'', mt_vcpu = 4, mt_memory_mb = 8192,
        mt_disk_gb = 40, mt_price_cents = 8000 \<rparr>]"

definition FREE_LIQUID_INVOCATIONS :: int where
  "FREE_LIQUID_INVOCATIONS = 1000000"

definition LIQUID_PRICE_PER_MILLION :: int where
  "LIQUID_PRICE_PER_MILLION = 300000"

definition metal_tier :: "string \<Rightarrow> metal_tier_spec option" where
  "metal_tier i = find (\<lambda>t. mt_id t = i) METAL_TIERS"

section \<open>Process environment\<close>

definition require_env :: "(string \<rightharpoonup> string) \<Rightarrow> string \<Rightarrow> string + string" where
  "require_env vars key =
     (case vars key of None \<Rightarrow> Inl (key @ '' not set'') | Some v \<Rightarrow> Inr v)"

definition env_or :: "(string \<rightharpoonup> string) \<Rightarrow> string \<Rightarrow> string \<Rightarrow> string" where
  "env_or vars key dflt = (case vars key of None \<Rightarrow> dflt | Some v \<Rightarrow> v)"

text \<open>How \<open>nats_connect\<close> chooses its credentials, or refuses a half-set pair.\<close>

datatype nats_auth = NatsUserPassword string string | NatsAnonymous

definition nats_credentials :: "(string \<rightharpoonup> string) \<Rightarrow> string + nats_auth" where
  "nats_credentials vars =
     (case (vars ''NATS_USER'', vars ''NATS_PASSWORD'') of
        (Some u, Some p) \<Rightarrow> Inr (NatsUserPassword u p)
      | (Some u, None) \<Rightarrow> Inl (''NATS_USER is set but NATS_PASSWORD is missing '' @ em_dash @ '' set both or neither'')
      | (None, Some p) \<Rightarrow> Inl (''NATS_PASSWORD is set but NATS_USER is missing '' @ em_dash @ '' set both or neither'')
      | (None, None) \<Rightarrow> Inr NatsAnonymous)"

section \<open>Feature flags\<close>

record features =
  require_invite :: bool
  enable_metal :: bool
  enable_liquid :: bool
  enforce_quotas :: bool
  maintenance_mode :: bool

text \<open>\<open>lower\<close> is \<open>str::to_lowercase\<close>.\<close>

definition flag :: "(string \<Rightarrow> string) \<Rightarrow> (string \<rightharpoonup> string) \<Rightarrow> string \<Rightarrow> bool \<Rightarrow> bool" where
  "flag lower vars key dflt =
     (case vars key of
        Some v \<Rightarrow>
          (let l = lower v in
           if l \<in> {''1'', ''true'', ''yes'', ''on''} then True
           else if l \<in> {''0'', ''false'', ''no'', ''off''} then False
           else dflt)
      | None \<Rightarrow> dflt)"

definition features_from_env :: "(string \<Rightarrow> string) \<Rightarrow> (string \<rightharpoonup> string) \<Rightarrow> features" where
  "features_from_env lower vars =
     \<lparr> require_invite = flag lower vars ''REQUIRE_INVITE'' False,
       enable_metal = flag lower vars ''ENABLE_METAL'' True,
       enable_liquid = flag lower vars ''ENABLE_LIQUID'' True,
       enforce_quotas = flag lower vars ''ENFORCE_QUOTAS'' True,
       maintenance_mode = flag lower vars ''MAINTENANCE_MODE'' False \<rparr>"

section \<open>Guest networking\<close>

definition MAX_TAP_INDEX :: nat where
  "MAX_TAP_INDEX = 63 * 63 - 1"

definition GATEWAY :: string where
  "GATEWAY = ''172.16.0.1''"

definition NETMASK :: string where
  "NETMASK = ''255.255.0.0''"

definition guest_ip :: "nat \<Rightarrow> string + string" where
  "guest_ip tap_idx =
     (if tap_idx \<le> MAX_TAP_INDEX
      then Inr (''172.16.'' @ show_nat (tap_idx div 63) @ ''.'' @ show_nat ((tap_idx mod 63) * 4 + 2))
      else Inl (''TAP index '' @ show_nat tap_idx @ '' exceeds maximum ('' @ show_nat MAX_TAP_INDEX
                @ '') '' @ em_dash @ '' would produce invalid IP''))"

definition tap_name :: "nat \<Rightarrow> string" where
  "tap_name tap_idx = ''tap'' @ show_nat tap_idx"

section \<open>Slugs\<close>

text \<open>
  \<open>chars\<close> cuts a UTF-8 string into its scalar values, each as its bytes: the leading
  byte gives the length. The Unicode tables behind \<open>to_lowercase\<close> and
  \<open>is_alphanumeric\<close> are parameters for the characters outside ASCII (\<open>ul\<close>, \<open>ua\<close>).
\<close>

definition utf8_width :: "char \<Rightarrow> nat" where
  "utf8_width c =
     (let n = code_of c in
      if n < 192 then 1 else if n < 224 then 2 else if n < 240 then 3 else 4)"

function utf8_chars :: "string \<Rightarrow> string list" where
  "utf8_chars [] = []"
| "utf8_chars (c # s) =
     (c # take (utf8_width c - 1) s) # utf8_chars (drop (utf8_width c - 1) s)"
  by pat_completeness auto
termination
  by (relation "measure length") (auto simp: utf8_width_def Let_def)

definition char_lower :: "(string \<Rightarrow> string) \<Rightarrow> string \<Rightarrow> string" where
  "char_lower ul ch = (case ch of [c] \<Rightarrow> [ascii_lower c] | _ \<Rightarrow> ul ch)"

definition to_lowercase :: "(string \<Rightarrow> string) \<Rightarrow> string \<Rightarrow> string" where
  "to_lowercase ul s = concat (map (char_lower ul) (utf8_chars s))"

definition char_alphanumeric :: "(string \<Rightarrow> bool) \<Rightarrow> string \<Rightarrow> bool" where
  "char_alphanumeric ua ch = (case ch of [c] \<Rightarrow> is_ascii_alphanumeric c | _ \<Rightarrow> ua ch)"

text \<open>The second loop of \<open>slugify\<close>: copy, but only the first of a run of dashes.\<close>

fun collapse_dashes :: "bool \<Rightarrow> string list \<Rightarrow> string" where
  "collapse_dashes prev_dash [] = []"
| "collapse_dashes prev_dash (ch # chs) =
     (if ch = ''-''
      then (if prev_dash then [] else ch) @ collapse_dashes True chs
      else ch @ collapse_dashes False chs)"

definition slugify :: "(string \<Rightarrow> string) \<Rightarrow> (string \<Rightarrow> bool) \<Rightarrow> string \<Rightarrow> string" where
  "slugify ul ua name =
     (let s = map (\<lambda>ch. if char_alphanumeric ua ch then ch else ''-'')
                  (utf8_chars (to_lowercase ul name))
      in trim_char (CHR ''-'') (collapse_dashes False s))"

section \<open>Lemmas\<close>

lemma metal_tier_unfold:
  "metal_tier i =
     (if i = ''one'' then Some (METAL_TIERS ! 0)
      else if i = ''two'' then Some (METAL_TIERS ! 1)
      else if i = ''four'' then Some (METAL_TIERS ! 2) else None)"
  unfolding metal_tier_def METAL_TIERS_def by (simp add: eq_commute [of _ i])

lemma metal_tier_mem: "metal_tier i = Some t \<Longrightarrow> t \<in> set METAL_TIERS \<and> mt_id t = i"
  unfolding metal_tier_def by (auto simp: find_Some_iff)

lemma METAL_TIERS_price: "t \<in> set METAL_TIERS \<Longrightarrow> mt_price_cents t = 2000 * mt_vcpu t"
  by (auto simp: METAL_TIERS_def)

lemma METAL_TIERS_vcpu: "t \<in> set METAL_TIERS \<Longrightarrow> mt_vcpu t \<in> {1, 2, 4}"
  by (auto simp: METAL_TIERS_def)

lemma append_sep_inj:
  fixes d :: char
  assumes "d \<notin> set a" and "d \<notin> set a'" and "a @ d # b = a' @ d # b'"
  shows "a = a' \<and> b = b'"
proof -
  have "split_on d (a @ d # b) = a # split_on d b" using assms(1) by (rule split_on_append)
  moreover have "split_on d (a' @ d # b') = a' # split_on d b'" using assms(2) by (rule split_on_append)
  ultimately have "a = a'" using assms(3) by simp
  with assms(3) show ?thesis by simp
qed

lemma tap_name_inj: "tap_name i = tap_name j \<longleftrightarrow> i = j"
  by (simp add: tap_name_def show_nat_inj)

lemma guest_ip_inj:
  assumes "guest_ip i = Inr ip" and "guest_ip j = Inr ip"
  shows "i = j"
proof -
  let ?q = "\<lambda>k. show_nat (k div 63)" and ?r = "\<lambda>k::nat. show_nat ((k mod 63) * 4 + 2)"
  from assms have "?q i @ CHR ''.'' # ?r i = ?q j @ CHR ''.'' # ?r j"
    by (auto simp: guest_ip_def split: if_splits)
  moreover have "CHR ''.'' \<notin> set (?q i)" "CHR ''.'' \<notin> set (?q j)"
    by (rule show_nat_not_mem [OF dot_not_digit])+
  ultimately have "?q i = ?q j \<and> ?r i = ?r j" by (metis append_sep_inj)
  then have "i div 63 = j div 63" and "i mod 63 = j mod 63" by (simp_all add: show_nat_inj)
  then show ?thesis by (metis div_mult_mod_eq)
qed

text \<open>No two dashes in a row, whatever the input characters.\<close>

fun no_double_dash :: "string \<Rightarrow> bool" where
  "no_double_dash (a # b # s) = (\<not> (a = CHR ''-'' \<and> b = CHR ''-'') \<and> no_double_dash (b # s))"
| "no_double_dash _ = True"

definition slug_edge :: "string \<Rightarrow> bool" where
  "slug_edge s = (s \<noteq> [] \<longrightarrow> hd s \<noteq> CHR ''-'' \<and> last s \<noteq> CHR ''-'')"

lemma dropWhile_hd: "dropWhile p s \<noteq> [] \<Longrightarrow> \<not> p (hd (dropWhile p s))"
  by (rule hd_dropWhile)

lemma trim_end_char_last: "trim_end_char d s \<noteq> [] \<Longrightarrow> last (trim_end_char d s) \<noteq> d"
  using hd_dropWhile [of "\<lambda>c. c = d" "rev s"] by (auto simp: trim_end_char_def last_rev)

lemma trim_end_char_prefix: "\<exists>t. s = trim_end_char d s @ t"
proof -
  have "rev s = takeWhile (\<lambda>c. c = d) (rev s) @ dropWhile (\<lambda>c. c = d) (rev s)" by simp
  then have "s = rev (dropWhile (\<lambda>c. c = d) (rev s)) @ rev (takeWhile (\<lambda>c. c = d) (rev s))"
    by (metis rev_append rev_rev_ident)
  then show ?thesis unfolding trim_end_char_def by blast
qed

lemma trim_char_edges: "slug_edge (trim_char (CHR ''-'') s)"
proof -
  let ?m = "dropWhile (\<lambda>c. c = CHR ''-'') s"
  obtain t where t: "?m = trim_end_char (CHR ''-'') ?m @ t" using trim_end_char_prefix by blast
  show ?thesis
  proof (cases "trim_end_char (CHR ''-'') ?m")
    case Nil
    then show ?thesis by (simp add: slug_edge_def trim_char_def)
  next
    case (Cons c r)
    with t have "?m = c # r @ t" by simp
    then have "?m \<noteq> []" and "hd ?m = c" by simp_all
    with hd_dropWhile [of "\<lambda>c. c = CHR ''-''" s] have "c \<noteq> CHR ''-''" by auto
    with Cons trim_end_char_last [of "CHR ''-''" ?m] show ?thesis
      by (simp add: slug_edge_def trim_char_def)
  qed
qed

lemma trim_char_subset: "set (trim_char d s) \<subseteq> set s"
  by (auto simp: trim_char_def trim_end_char_def dest!: set_dropWhileD)

lemma utf8_chars_concat: "concat (utf8_chars s) = s"
  by (induction s rule: utf8_chars.induct) auto

lemma utf8_chars_nonempty: "ch \<in> set (utf8_chars s) \<Longrightarrow> ch \<noteq> []"
  by (induction s rule: utf8_chars.induct) auto

lemma collapse_dashes_set:
  "set (collapse_dashes b chs) \<subseteq> (\<Union>ch \<in> set chs. set ch)"
  by (induction chs arbitrary: b) auto

lemma utf8_chars_ascii: "list_all (\<lambda>c. code_of c < 128) s \<Longrightarrow> utf8_chars s = map (\<lambda>c. [c]) s"
  by (induction s) (auto simp: utf8_width_def)

end
