(* ===== verification/Artifact.thy ===== *)
theory Artifact
  imports Pricing
begin

text \<open>
  Artifact integrity and the ELF compatibility check (\<open>crates/common/src/artifact.rs\<close>).
  Bytes are HOL characters. \<open>usize\<close> is 64 bits wide and its arithmetic wraps, as in the
  release profile; a slice out of range panics, which is the result \<open>None\<close>.
  The SHA-256 implementation is a parameter: its state is advanced by \<open>upd\<close> and read by
  \<open>fin\<close>, and \<open>digest\<close> is the one-shot function.
\<close>

section \<open>Digests\<close>

definition hex_digit :: "nat \<Rightarrow> char" where
  "hex_digit n = char_of (if n < 10 then 48 + n else 87 + n)"

definition hex_encode :: "string \<Rightarrow> string" where
  "hex_encode bs =
     concat (map (\<lambda>b. [hex_digit (code_of b div 16), hex_digit (code_of b mod 16)]) bs)"

definition sha256_hex :: "(string \<Rightarrow> string) \<Rightarrow> string \<Rightarrow> string" where
  "sha256_hex digest bytes = hex_encode (digest bytes)"

datatype artifact_error = OpenFailed | ReadFailed | IntegrityFailed string string | GlibcBinary string

text \<open>
  \<open>file\<close> is \<open>None\<close> where the file cannot be opened, else the results of the successive
  \<open>read\<close> calls (\<open>None\<close> is an I/O error, an empty chunk is end of file). The list stands
  for as many reads as the loop makes: past its end every read returns 0 bytes.
\<close>

fun hash_reads :: "('h \<Rightarrow> string \<Rightarrow> 'h) \<Rightarrow> 'h \<Rightarrow> string option list \<Rightarrow> artifact_error + 'h" where
  "hash_reads upd h [] = Inr h"
| "hash_reads upd h (None # rs) = Inl ReadFailed"
| "hash_reads upd h (Some chunk # rs) =
     (if chunk = [] then Inr h else hash_reads upd (upd h chunk) rs)"

definition sha256_file ::
    "'h \<Rightarrow> ('h \<Rightarrow> string \<Rightarrow> 'h) \<Rightarrow> ('h \<Rightarrow> string) \<Rightarrow> string option list option \<Rightarrow> artifact_error + string" where
  "sha256_file h0 upd fin file =
     (case file of
        None \<Rightarrow> Inl OpenFailed
      | Some rs \<Rightarrow>
          (case hash_reads upd h0 rs of
             Inl e \<Rightarrow> Inl e
           | Inr h \<Rightarrow> Inr (hex_encode (fin h))))"

definition verify ::
    "(string \<Rightarrow> string) \<Rightarrow> 'h \<Rightarrow> ('h \<Rightarrow> string \<Rightarrow> 'h) \<Rightarrow> ('h \<Rightarrow> string)
     \<Rightarrow> string option list option \<Rightarrow> string \<Rightarrow> artifact_error + unit" where
  "verify lower h0 upd fin file expected_hex =
     (case sha256_file h0 upd fin file of
        Inl e \<Rightarrow> Inl e
      | Inr actual \<Rightarrow>
          if actual \<noteq> lower expected_hex then Inl (IntegrityFailed expected_hex actual)
          else Inr ())"

section \<open>ELF inspection\<close>

datatype elf_compat = NotElf | Static | Musl | Glibc string | Unknown string

definition usize_add :: "nat \<Rightarrow> nat \<Rightarrow> nat" where
  "usize_add a b = (a + b) mod 2 ^ 64"

definition slice :: "string \<Rightarrow> nat \<Rightarrow> nat \<Rightarrow> string option" where
  "slice bs a b = (if a \<le> b \<and> b \<le> length bs then Some (take (b - a) (drop a bs)) else None)"

fun from_le_bytes :: "string \<Rightarrow> nat" where
  "from_le_bytes [] = 0"
| "from_le_bytes (b # bs) = code_of b + 256 * from_le_bytes bs"

text \<open>Read the little-endian field of \<open>w\<close> bytes at \<open>base + off\<close>.\<close>

definition field_at :: "string \<Rightarrow> nat \<Rightarrow> nat \<Rightarrow> nat \<Rightarrow> nat option" where
  "field_at bs base off w =
     map_option from_le_bytes (slice bs (usize_add base off) (usize_add base (off + w)))"

definition utf8_cont :: "char \<Rightarrow> bool" where
  "utf8_cont c = (128 \<le> code_of c \<and> code_of c \<le> 191)"

definition byte_in :: "nat \<Rightarrow> nat \<Rightarrow> char \<Rightarrow> bool" where
  "byte_in lo hi c = (lo \<le> code_of c \<and> code_of c \<le> hi)"

text \<open>\<open>std::str::from_utf8\<close> accepts exactly the well-formed sequences.\<close>

fun valid_utf8 :: "string \<Rightarrow> bool" where
  "valid_utf8 [] = True"
| "valid_utf8 (a # s) =
     (if code_of a < 128 then valid_utf8 s
      else case s of
        [] \<Rightarrow> False
      | b # s1 \<Rightarrow>
          if byte_in 194 223 a then utf8_cont b \<and> valid_utf8 s1
          else (case s1 of
            [] \<Rightarrow> False
          | c # s2 \<Rightarrow>
              if byte_in 224 239 a then
                byte_in (if code_of a = 224 then 160 else 128) (if code_of a = 237 then 159 else 191) b
                \<and> utf8_cont c \<and> valid_utf8 s2
              else (case s2 of
                [] \<Rightarrow> False
              | d # s3 \<Rightarrow>
                  byte_in 240 244 a
                  \<and> byte_in (if code_of a = 240 then 144 else 128) (if code_of a = 244 then 143 else 191) b
                  \<and> utf8_cont c \<and> utf8_cont d \<and> valid_utf8 s3)))"

text \<open>The interpreter path, once the segment's offset and size are known.\<close>

definition classify_interp :: "string \<Rightarrow> elf_compat" where
  "classify_interp interp_bytes =
     (let interp = trim_end_char (CHR 0x00) (if valid_utf8 interp_bytes then interp_bytes else [])
      in if contains_str ''ld-musl'' interp then Musl
         else if contains_str ''ld-linux'' interp then Glibc interp
         else Unknown interp)"

definition elf_segment :: "string \<Rightarrow> nat \<Rightarrow> nat \<Rightarrow> elf_compat option" where
  "elf_segment bs seg_off seg_size =
     (if usize_add seg_off seg_size > length bs then Some Static
      else map_option classify_interp (slice bs seg_off (usize_add seg_off seg_size)))"

text \<open>One program header: \<open>Some None\<close> continues the walk, \<open>Some (Some r)\<close> returns.\<close>

definition elf_entry :: "nat \<Rightarrow> string \<Rightarrow> nat \<Rightarrow> nat \<Rightarrow> elf_compat option option" where
  "elf_entry cls bs base ph_ent_size =
     (if usize_add base ph_ent_size > length bs then Some (Some Static)
      else case field_at bs base 0 4 of
        None \<Rightarrow> None
      | Some p_type \<Rightarrow>
          if p_type \<noteq> 3 then Some None
          else
            (case (if cls = 2 then (field_at bs base 8 8, field_at bs base 32 8)
                   else (field_at bs base 4 4, field_at bs base 16 4)) of
               (Some off, Some sz) \<Rightarrow> map_option Some (elf_segment bs off sz)
             | _ \<Rightarrow> None))"

fun elf_walk :: "nat \<Rightarrow> string \<Rightarrow> nat \<Rightarrow> nat \<Rightarrow> nat list \<Rightarrow> elf_compat option" where
  "elf_walk cls bs ph_off ent [] = Some Static"
| "elf_walk cls bs ph_off ent (i # is) =
     (case elf_entry cls bs (usize_add ph_off (i * ent)) ent of
        None \<Rightarrow> None
      | Some (Some r) \<Rightarrow> Some r
      | Some None \<Rightarrow> elf_walk cls bs ph_off ent is)"

text \<open>\<open>(e_phoff, e_phentsize, e_phnum)\<close>, at the offsets of the file's class.\<close>

definition elf_header :: "nat \<Rightarrow> string \<Rightarrow> (nat \<times> nat \<times> nat) option" where
  "elf_header cls bs =
     (case (if cls = 2 then (field_at bs 32 0 8, field_at bs 54 0 2, field_at bs 56 0 2)
            else (field_at bs 28 0 4, field_at bs 42 0 2, field_at bs 44 0 2)) of
        (Some off, Some ent, Some num) \<Rightarrow> Some (off, ent, num)
      | _ \<Rightarrow> None)"

definition elf_magic :: string where
  "elf_magic = [CHR 0x7F, CHR ''E'', CHR ''L'', CHR ''F'']"

definition check_elf_compat :: "string \<Rightarrow> elf_compat option" where
  "check_elf_compat bs =
     (if length bs < 64 \<or> take 4 bs \<noteq> elf_magic then Some NotElf
      else let cls = code_of (bs ! 4) in
        if cls = 1 \<or> cls = 2 then
          (case elf_header cls bs of
             None \<Rightarrow> None
           | Some (ph_off, ent, num) \<Rightarrow> elf_walk cls bs ph_off ent [0..<num])
        else Some NotElf)"

definition check_elf_compat_for_metal :: "string \<Rightarrow> (artifact_error + unit) option" where
  "check_elf_compat_for_metal bs =
     map_option (\<lambda>r. case r of Glibc interp \<Rightarrow> Inl (GlibcBinary interp) | _ \<Rightarrow> Inr ()) (check_elf_compat bs)"

text \<open>What a rejected binary's owner is told.\<close>

definition glibc_message :: "string \<Rightarrow> string" where
  "glibc_message interp =
     ''Binary is dynamically linked against glibc ('' @ interp @ '').'' @ [CHR 0x0A]
      @ ''Metal VMs use Alpine Linux (musl). This binary will crash on startup.'' @ [CHR 0x0A] @ [CHR 0x0A]
      @ ''Fix: Build with musl:'' @ [CHR 0x0A]
      @ ''  cargo build --target x86_64-unknown-linux-musl --release'' @ [CHR 0x0A] @ [CHR 0x0A]
      @ ''Or link statically:'' @ [CHR 0x0A]
      @ ''  RUSTFLAGS=\"-C target-feature=+crt-static\" cargo build --release'' @ [CHR 0x0A] @ [CHR 0x0A]
      @ ''Go:  CGO_ENABLED=0 go build ...'' @ [CHR 0x0A]
      @ ''Zig: zig build -Dtarget=x86_64-linux-musl'' @ [CHR 0x0A] @ [CHR 0x0A]
      @ ''To skip this check: flux deploy --skip-elf-check''"

text \<open>
  The file variant inspects the bytes of one \<open>read\<close> of at most 64 KiB: \<open>n\<close> is the count
  it returned, 0 on an I/O error (\<open>unwrap_or(0)\<close>).
\<close>

definition check_elf_compat_file ::
    "string option \<Rightarrow> nat option \<Rightarrow> (artifact_error + unit) option" where
  "check_elf_compat_file file n =
     (case file of
        None \<Rightarrow> Some (Inl OpenFailed)
      | Some bs \<Rightarrow>
          check_elf_compat_for_metal
            (take (min 65536 (case n of None \<Rightarrow> 0 | Some k \<Rightarrow> k)) bs))"

section \<open>Lemmas\<close>

lemma slice_append: "slice p a b = Some x \<Longrightarrow> slice (p @ q) a b = Some x"
  by (auto simp: slice_def split: if_splits)

lemma field_at_append: "field_at p base off w = Some v \<Longrightarrow> field_at (p @ q) base off w = Some v"
  by (auto simp: field_at_def dest: slice_append)

text \<open>A verdict that names an interpreter does not depend on the bytes that follow.\<close>

definition names_interp :: "elf_compat \<Rightarrow> bool" where
  "names_interp r = (case r of NotElf \<Rightarrow> False | Static \<Rightarrow> False | _ \<Rightarrow> True)"

lemma elf_segment_append:
  "elf_segment p off sz = Some r \<Longrightarrow> names_interp r \<Longrightarrow> elf_segment (p @ q) off sz = Some r"
  by (auto simp: elf_segment_def names_interp_def dest: slice_append split: if_splits)

lemma elf_entry_append_return:
  assumes "elf_entry cls p base ent = Some (Some r)" and "names_interp r"
  shows "elf_entry cls (p @ q) base ent = Some (Some r)"
proof -
  let ?fo = "if cls = 2 then 8 else 4" and ?wo = "if cls = 2 then 8 else 4"
    and ?fs = "if cls = 2 then 32 else 16"
  have "r \<noteq> Static" using assms(2) by (auto simp: names_interp_def)
  with assms(1) obtain off sz where
      le: "\<not> usize_add base ent > length p" and t: "field_at p base 0 4 = Some 3"
      and off: "field_at p base ?fo ?wo = Some off" and sz: "field_at p base ?fs ?wo = Some sz"
      and seg: "elf_segment p off sz = Some r"
    by (cases "cls = 2") (auto simp: elf_entry_def split: if_splits option.splits)
  show ?thesis
    using le field_at_append [OF t, of q] field_at_append [OF off, of q]
      field_at_append [OF sz, of q] elf_segment_append [OF seg assms(2), of q]
    by (cases "cls = 2") (simp_all add: elf_entry_def)
qed

lemma elf_entry_append_continue:
  assumes "elf_entry cls p base ent = Some None"
  shows "elf_entry cls (p @ q) base ent = Some None"
proof -
  from assms obtain t where t: "field_at p base 0 4 = Some t" and "t \<noteq> 3"
    and "\<not> usize_add base ent > length p"
    by (auto simp: elf_entry_def split: if_splits option.splits)
  with field_at_append [OF t, of q] show ?thesis by (simp add: elf_entry_def)
qed

lemma elf_walk_append:
  "elf_walk cls p off ent is = Some r \<Longrightarrow> names_interp r \<Longrightarrow>
   elf_walk cls (p @ q) off ent is = Some r"
proof (induction "is")
  case Nil
  then show ?case by (simp add: names_interp_def)
next
  case (Cons i "is")
  then show ?case
    by (auto simp: elf_entry_append_return elf_entry_append_continue
        split: option.splits dest: elf_entry_append_return elf_entry_append_continue)
qed

lemma elf_header_append:
  assumes "elf_header cls p = Some h"
  shows "elf_header cls (p @ q) = Some h"
proof (cases "cls = 2")
  case True
  with assms obtain a b c where "field_at p 32 0 8 = Some a" "field_at p 54 0 2 = Some b"
    "field_at p 56 0 2 = Some c" and "h = (a, b, c)"
    by (auto simp: elf_header_def split: option.splits)
  with True show ?thesis by (simp add: elf_header_def field_at_append)
next
  case False
  with assms obtain a b c where "field_at p 28 0 4 = Some a" "field_at p 42 0 2 = Some b"
    "field_at p 44 0 2 = Some c" and "h = (a, b, c)"
    by (auto simp: elf_header_def split: option.splits)
  with False show ?thesis by (simp add: elf_header_def field_at_append)
qed

lemma check_elf_append:
  assumes "check_elf_compat p = Some r" and "names_interp r"
  shows "check_elf_compat (p @ q) = Some r"
proof -
  from assms have len: "\<not> length p < 64" and magic: "take 4 p = elf_magic"
    and cls: "code_of (p ! 4) = 1 \<or> code_of (p ! 4) = 2"
    by (auto simp: check_elf_compat_def names_interp_def Let_def split: if_splits)
  from assms len magic cls obtain off ent num
    where h: "elf_header (code_of (p ! 4)) p = Some (off, ent, num)"
      and w: "elf_walk (code_of (p ! 4)) p off ent [0..<num] = Some r"
    by (auto simp: check_elf_compat_def Let_def split: option.splits)
  have nth: "(p @ q) ! 4 = p ! 4" using len by (simp add: nth_append)
  show ?thesis
    using len magic cls elf_header_append [OF h, of q] elf_walk_append [OF w assms(2), of q]
    by (simp add: check_elf_compat_def Let_def nth)
qed

lemma check_elf_metal_Inl:
  "check_elf_compat_for_metal p = Some (Inl e) \<longleftrightarrow>
   (\<exists>i. e = GlibcBinary i \<and> check_elf_compat p = Some (Glibc i))"
proof (cases "check_elf_compat p")
  case (Some r)
  then show ?thesis by (cases r) (auto simp: check_elf_compat_for_metal_def)
qed (simp add: check_elf_compat_for_metal_def)

lemma check_elf_metal_append:
  "check_elf_compat_for_metal p = Some (Inl e) \<Longrightarrow> check_elf_compat_for_metal (p @ q) = Some (Inl e)"
  by (auto simp: check_elf_metal_Inl names_interp_def intro!: check_elf_append)

lemma classify_interp_glibc:
  assumes "classify_interp ib = Glibc i"
  shows "valid_utf8 ib \<and> i = trim_end_char (CHR 0x00) ib
    \<and> contains_str ''ld-linux'' i \<and> \<not> contains_str ''ld-musl'' i"
proof -
  let ?t = "trim_end_char (CHR 0x00) (if valid_utf8 ib then ib else [])"
  from assms have "\<not> contains_str ''ld-musl'' ?t" and ld: "contains_str ''ld-linux'' ?t" and i: "i = ?t"
    unfolding classify_interp_def Let_def by (auto split: if_splits)
  moreover have "valid_utf8 ib"
    using ld by (rule_tac ccontr) (simp add: trim_end_char_def)
  ultimately show ?thesis by simp
qed

lemma hash_reads_foldl:
  "(\<And>c. c \<in> set chunks \<Longrightarrow> c \<noteq> []) \<Longrightarrow>
   hash_reads upd h (map Some chunks) = Inr (foldl upd h chunks)"
  by (induction chunks arbitrary: h) auto

end
