(* ===== verification/Schema.thy ===== *)
theory Schema
  imports Artifact
begin

text \<open>
  The Postgres schema as the migrations leave it: one record per table with the columns the
  source reads or writes, and the constraints a statement can violate. A table is the list
  of its rows; rows keep insertion order. Times are seconds since the epoch. The
  \<open>updated_at\<close> columns are not modelled: nothing reads them.
\<close>

section \<open>Rows\<close>

record user_row =
  us_id :: uuid
  us_email :: string
  us_name :: string
  us_oidc_sub :: "string option"
  us_deleted_at :: "int option"

record workspace_row =
  ws_id :: uuid
  ws_name :: string
  ws_slug :: string
  ws_balance :: int
  ws_free_used :: int
  ws_free_reset_at :: int
  ws_stripe_customer :: "string option"
  ws_last_invoice_at :: "int option"
  ws_created_at :: int
  ws_deleted_at :: "int option"

record member_row =
  wm_workspace :: uuid
  wm_user :: uuid
  wm_role :: string
  wm_created_at :: int

record project_row =
  pr_id :: uuid
  pr_workspace :: uuid
  pr_name :: string
  pr_slug :: string
  pr_created_at :: int
  pr_deleted_at :: "int option"

record service_row =
  sv_id :: uuid
  sv_project :: uuid
  sv_workspace :: uuid
  sv_name :: string
  sv_slug :: string
  sv_engine :: string
  sv_status :: string
  sv_upstream :: "string option"
  sv_artifact_key :: "string option"
  sv_commit_sha :: "string option"
  sv_vcpu :: int
  sv_memory_mb :: int
  sv_port :: int
  sv_metal_tier :: "string option"
  sv_price_cents :: "int option"
  sv_cycle_start :: "int option"
  sv_snapshot_key :: "string option"
  sv_failure_reason :: "string option"
  sv_created_at :: int
  sv_deleted_at :: "int option"

record deployment_row =
  dl_id :: uuid
  dl_service :: uuid
  dl_workspace :: uuid
  dl_slug :: string
  dl_engine :: string
  dl_artifact_key :: string
  dl_commit_sha :: "string option"
  dl_port :: "int option"
  dl_deployed_by :: uuid
  dl_created_at :: int

record ledger_row =
  le_id :: uuid
  le_workspace :: uuid
  le_amount :: int
  le_kind :: string
  le_description :: string
  le_reference :: "string option"
  le_balance_after :: int
  le_session :: "string option"
  le_created_at :: int

record usage_row =
  ue_id :: uuid
  ue_workspace :: uuid
  ue_service :: uuid
  ue_engine :: string
  ue_quantity :: int
  ue_duration_ms :: int
  ue_billed :: bool
  ue_created_at :: int

record outbox_row =
  ob_id :: uuid
  ob_subject :: string
  ob_payload :: event
  ob_created_at :: int

record invoice_row =
  iv_id :: uuid
  iv_workspace :: uuid
  iv_stripe_id :: string
  iv_number :: "string option"
  iv_status :: string
  iv_amount_cents :: int
  iv_hosted_url :: "string option"
  iv_pdf_url :: "string option"
  iv_period_start :: int
  iv_period_end :: int
  iv_created_at :: int

record api_key_row =
  ak_id :: uuid
  ak_user :: uuid
  ak_name :: string
  ak_token_hash :: string
  ak_prefix :: string
  ak_scopes :: "string list"
  ak_expires_at :: "int option"
  ak_last_used_at :: "int option"
  ak_created_at :: int
  ak_deleted_at :: "int option"

record domain_row =
  dm_id :: uuid
  dm_project :: uuid
  dm_service :: "uuid option"
  dm_domain :: string
  dm_is_verified :: bool
  dm_verification_type :: string
  dm_verification_token :: string
  dm_tls_status :: string
  dm_created_at :: int
  dm_deleted_at :: "int option"

record cert_row =
  dc_domain_id :: uuid
  dc_expires_at :: int

record acme_row =
  ac_token :: string
  ac_key_authorization :: string
  ac_domain :: string
  ac_created_at :: int

record invite_row =
  ic_code :: string
  ic_used_by :: "uuid option"
  ic_used_at :: "int option"
  ic_created_at :: int

record db =
  t_users :: "user_row list"
  t_workspaces :: "workspace_row list"
  t_members :: "member_row list"
  t_projects :: "project_row list"
  t_services :: "service_row list"
  t_deployments :: "deployment_row list"
  t_ledger :: "ledger_row list"
  t_usage :: "usage_row list"
  t_outbox :: "outbox_row list"
  t_invoices :: "invoice_row list"
  t_api_keys :: "api_key_row list"
  t_domains :: "domain_row list"
  t_certs :: "cert_row list"
  t_acme :: "acme_row list"
  t_invites :: "invite_row list"

section \<open>Constraints\<close>

text \<open>The check on \<open>services.status\<close> as V37 leaves it.\<close>

definition service_status_check :: "string \<Rightarrow> bool" where
  "service_status_check s =
     (s \<in> {''provisioning'', ''running'', ''ready'', ''stopped'', ''failed'', ''error'',
           ''canceled'', ''suspended'', ''draining''})"

text \<open>The check on \<open>credit_ledger.kind\<close> as V43 leaves it.\<close>

definition ledger_kind_check :: "string \<Rightarrow> bool" where
  "ledger_kind_check k =
     (k \<in> {''topup'', ''usage_liquid'', ''metal_monthly'', ''refund'', ''expiry''})"

text \<open>\<open>services.slug\<close> is \<open>UNIQUE\<close> over the whole table, deleted rows included (V1).\<close>

definition service_slug_free :: "string \<Rightarrow> db \<Rightarrow> bool" where
  "service_slug_free slug d = list_all (\<lambda>s. sv_slug s \<noteq> slug) (t_services d)"

definition workspace_exists :: "uuid \<Rightarrow> db \<Rightarrow> bool" where
  "workspace_exists wid d = list_ex (\<lambda>w. ws_id w = wid) (t_workspaces d)"

definition service_exists :: "uuid \<Rightarrow> db \<Rightarrow> bool" where
  "service_exists sid d = list_ex (\<lambda>s. sv_id s = sid) (t_services d)"

datatype sql_error =
    ConnectionError | UniqueViolation | CheckViolation | ForeignKeyViolation
  | NotNullViolation | InvalidLimit | NumericOverflow | RowCount | InFailedTransaction

text \<open>
  A statement reads the clock, one id from \<open>gen_random_uuid()\<close> and the tables; it returns
  its rows and the new tables, or an error and no change.
\<close>

type_synonym 'a sql = "int \<Rightarrow> uuid \<Rightarrow> db \<Rightarrow> sql_error + ('a \<times> db)"

text \<open>The column types whose decoding the source asks for as \<open>i64\<close>.\<close>

datatype pg_type = Int4 | Int8 | Numeric

end
