(* ===== verification/Json.thy ===== *)
theory Json
  imports Schema
begin

text \<open>
  JSON documents as the handlers read them: the values of \<open>serde_json\<close>, its accessors
  \<open>get\<close>, \<open>as_str\<close> and \<open>as_i64\<close>, and the field rules of a derived \<open>Deserialize\<close>.
\<close>

text \<open>A document, as \<open>serde_json::Value\<close> holds it.\<close>

datatype json =
    JNull
  | JBool bool
  | JInt int
  | JFloat string
  | JStr string
  | JArr "json list"
  | JObj "(string \<times> json) list"

fun json_get :: "json \<Rightarrow> string \<Rightarrow> json option" where
  "json_get (JObj kvs) k = map_of kvs k"
| "json_get _ k = None"

fun json_str :: "json \<Rightarrow> string option" where
  "json_str (JStr s) = Some s"
| "json_str _ = None"

fun json_i64 :: "json \<Rightarrow> int option" where
  "json_i64 (JInt i) = (if in_i64 i then Some i else None)"
| "json_i64 _ = None"

definition get_str :: "json \<Rightarrow> string \<Rightarrow> string option" where
  "get_str j k = Option.bind (json_get j k) json_str"

definition get_i64 :: "json \<Rightarrow> string \<Rightarrow> int option" where
  "get_i64 j k = Option.bind (json_get j k) json_i64"

text \<open>The fields of a derived \<open>Deserialize\<close>: required, or optional (absent or null).\<close>

definition req_field :: "(json \<Rightarrow> 'a option) \<Rightarrow> json \<Rightarrow> string \<Rightarrow> 'a option" where
  "req_field conv j k = Option.bind (json_get j k) conv"

definition opt_field :: "(json \<Rightarrow> 'a option) \<Rightarrow> json \<Rightarrow> string \<Rightarrow> 'a option option" where
  "opt_field conv j k =
     (case json_get j k of
        None \<Rightarrow> Some None
      | Some JNull \<Rightarrow> Some None
      | Some v \<Rightarrow> map_option Some (conv v))"

definition or_default :: "'a \<Rightarrow> 'a option \<Rightarrow> 'a" where
  "or_default x o' = (case o' of None \<Rightarrow> x | Some y \<Rightarrow> y)"

end
