(* ===== verification/Procs.thy ===== *)
theory Procs
  imports Json
begin

text \<open>
  How a handler runs: a process takes the world (the tables, the outside effects so far, a
  counter of the calls made) to an error or a value and a new world. Every call that leaves
  the process (taking a connection, a statement, beginning or committing a transaction, a
  publish) can fail: \<open>e_fault\<close> says for each call of the run whether it does. A
  transaction that fails, or that is dropped without a commit, restores the tables; its
  outside effects stay. A statement that fails inside a transaction makes Postgres refuse
  every later statement of it, and its \<open>COMMIT\<close> a rollback, which \<open>w_aborted\<close> records.
\<close>

section \<open>Errors, environment, world\<close>

record api_error =
  ae_status :: nat
  ae_code :: string
  ae_message :: string

datatype err = Anyhow string | Api api_error | Panicked string

text \<open>A reply of the Stripe API: its status and its body.\<close>

record stripe_reply =
  sr_status :: nat
  sr_body :: "json option"

text \<open>A reply of Vault: its status, and its secret when the body has one.\<close>

datatype vault_reply = VaultUnreachable | VaultReply nat "env_map option"

text \<open>
  What a run reads and never changes: the fault schedule, the clock, the random ids, the
  parsers and printers of third-party crates (\<open>uuid\<close>, \<open>http\<close>), the latest date
  \<open>chrono\<close> can hold, the start of the month, Unicode's \<open>trim\<close>, DNS, the statuses Vault
  answers writes with, the column default of a verification token, the driver's decoder (which column types an
  \<open>i64\<close> accepts), Vault and Stripe as functions, the process variables and the
  configuration of \<open>AppState\<close>.
\<close>

record env =
  e_fault :: "nat \<Rightarrow> bool"
  e_pool_timeout :: "nat \<Rightarrow> bool"
  e_now :: int
  e_add_month :: "int \<Rightarrow> int"
  e_fresh :: "nat \<Rightarrow> uuid"
  e_parse_uuid :: "string \<Rightarrow> uuid option"
  e_uuid_str :: "uuid \<Rightarrow> string"
  e_uuid_simple :: "uuid \<Rightarrow> string"
  e_header_str :: "string \<Rightarrow> string option"
  e_max_time :: int
  e_i64_accepts :: "pg_type \<Rightarrow> bool"
  e_show_sql :: "sql_error \<Rightarrow> string"
  e_vault :: "string \<Rightarrow> vault_reply"
  e_stripe :: "(nat \<Rightarrow> string \<Rightarrow> (string \<times> string) list \<Rightarrow> stripe_reply option) option"
  e_webhook_secret :: "string option"
  e_vars :: "string \<rightharpoonup> string"
  e_uni_lower :: "string \<Rightarrow> string"
  e_uni_alnum :: "string \<Rightarrow> bool"
  e_uni_upper :: "string \<Rightarrow> string"
  e_features :: features
  e_internal_secrets :: "string list"
  e_default_quota :: resource_quota
  e_sha256 :: "string \<Rightarrow> string"
  e_format_date :: "int \<Rightarrow> string"
  e_presign :: "string \<Rightarrow> nat \<Rightarrow> string option"
  e_trim :: "string \<Rightarrow> string"
  e_month_start :: int
  e_resolver :: bool
  e_cname :: "string \<Rightarrow> string list option"
  e_txt :: "string \<Rightarrow> string list option"
  e_vault_write :: "string \<Rightarrow> nat option"
  e_default_token :: "uuid \<Rightarrow> string"

datatype effect =
    JetStream string event
  | NatsCore string event
  | S3Delete string
  | StripePost string "(string \<times> string) list"
  | VaultPut string env_map
  | VaultDelete string

record world =
  w_db :: db
  w_calls :: nat
  w_aborted :: bool
  w_log :: "effect list"

type_synonym 'a proc = "world \<Rightarrow> (err + 'a) \<times> world"

section \<open>Sequencing\<close>

definition ret :: "'a \<Rightarrow> 'a proc" where
  "ret x w = (Inr x, w)"

definition throw :: "err \<Rightarrow> 'a proc" where
  "throw e w = (Inl e, w)"

definition andthen :: "'a proc \<Rightarrow> ('a \<Rightarrow> 'b proc) \<Rightarrow> 'b proc" where
  "andthen m f w = (case m w of (Inl e, w') \<Rightarrow> (Inl e, w') | (Inr x, w') \<Rightarrow> f x w')"

definition ensure :: "bool \<Rightarrow> err \<Rightarrow> unit proc" where
  "ensure b e = (if b then ret () else throw e)"

definition of_option :: "err \<Rightarrow> 'a option \<Rightarrow> 'a proc" where
  "of_option e x = (case x of None \<Rightarrow> throw e | Some y \<Rightarrow> ret y)"

definition of_sum :: "err + 'a \<Rightarrow> 'a proc" where
  "of_sum x = (case x of Inl e \<Rightarrow> throw e | Inr y \<Rightarrow> ret y)"

text \<open>\<open>map_err\<close> on an \<open>anyhow\<close> error, whose text is its outermost context; a panic unwinds.\<close>

definition map_anyhow :: "(string \<Rightarrow> err) \<Rightarrow> 'a proc \<Rightarrow> 'a proc" where
  "map_anyhow f m w =
     (case m w of (Inl (Anyhow s), w') \<Rightarrow> (Inl (f s), w') | r \<Rightarrow> r)"

text \<open>A background task logs an error and goes on; a panic ends it.\<close>

definition log_errors :: "unit proc \<Rightarrow> unit proc" where
  "log_errors m w =
     (case m w of (Inl (Panicked s), w') \<Rightarrow> (Inl (Panicked s), w') | (_, w') \<Rightarrow> (Inr (), w'))"

fun for_each :: "('r \<Rightarrow> unit proc) \<Rightarrow> 'r list \<Rightarrow> unit proc" where
  "for_each f [] = ret ()"
| "for_each f (r # rs) = andthen (f r) (\<lambda>_. for_each f rs)"

section \<open>Calls that can fail\<close>

definition tick :: "world \<Rightarrow> world" where
  "tick w = w\<lparr>w_calls := Suc (w_calls w)\<rparr>"

definition external :: "env \<Rightarrow> err \<Rightarrow> unit proc" where
  "external env e w = (if e_fault env (w_calls w) then (Inl e, tick w) else (Inr (), tick w))"

definition emit :: "effect \<Rightarrow> unit proc" where
  "emit x w = (Inr (), w\<lparr>w_log := w_log w @ [x]\<rparr>)"

definition fresh_id :: "env \<Rightarrow> uuid proc" where
  "fresh_id env w = (Inr (e_fresh env (w_calls w)), tick w)"

text \<open>A statement outside any transaction commits by itself.\<close>

definition query :: "env \<Rightarrow> (sql_error \<Rightarrow> err) \<Rightarrow> 'a sql \<Rightarrow> 'a proc" where
  "query env h f w =
     (if e_fault env (w_calls w) then (Inl (h ConnectionError), tick w)
      else case f (e_now env) (e_fresh env (w_calls w)) (w_db w) of
        Inl e \<Rightarrow> (Inl (h e), tick w)
      | Inr (x, d) \<Rightarrow> (Inr x, (tick w)\<lparr>w_db := d\<rparr>))"

text \<open>A statement inside a transaction; its error is a value the caller may inspect.\<close>

definition try_stmt :: "env \<Rightarrow> 'a sql \<Rightarrow> (sql_error + 'a) proc" where
  "try_stmt env f w =
     (if w_aborted w then (Inr (Inl InFailedTransaction), tick w)
      else if e_fault env (w_calls w)
      then (Inr (Inl ConnectionError), (tick w)\<lparr>w_aborted := True\<rparr>)
      else case f (e_now env) (e_fresh env (w_calls w)) (w_db w) of
        Inl e \<Rightarrow> (Inr (Inl e), (tick w)\<lparr>w_aborted := True\<rparr>)
      | Inr (x, d) \<Rightarrow> (Inr (Inr x), (tick w)\<lparr>w_db := d\<rparr>))"

definition stmt :: "env \<Rightarrow> (sql_error \<Rightarrow> err) \<Rightarrow> 'a sql \<Rightarrow> 'a proc" where
  "stmt env h f =
     andthen (try_stmt env f) (\<lambda>r. case r of Inl e \<Rightarrow> throw (h e) | Inr x \<Rightarrow> ret x)"

datatype 'a tx_end = Commit 'a | Rollback 'a

definition rollback_to :: "db \<Rightarrow> world \<Rightarrow> world" where
  "rollback_to d w = w\<lparr>w_db := d, w_aborted := False\<rparr>"

definition transact :: "env \<Rightarrow> err \<Rightarrow> err \<Rightarrow> 'a tx_end proc \<Rightarrow> 'a proc" where
  "transact env begin_err commit_err body w =
     (if e_fault env (w_calls w) then (Inl begin_err, tick w)
      else case body ((tick w)\<lparr>w_aborted := False\<rparr>) of
        (Inl e, w') \<Rightarrow> (Inl e, rollback_to (w_db w) w')
      | (Inr (Rollback x), w') \<Rightarrow> (Inr x, rollback_to (w_db w) w')
      | (Inr (Commit x), w') \<Rightarrow>
          if e_fault env (w_calls w') then (Inl commit_err, rollback_to (w_db w) (tick w'))
          else if w_aborted w' then (Inr x, rollback_to (w_db w) (tick w'))
          else (Inr x, tick w'))"

text \<open>Decoding a column as \<open>i64\<close>: the driver panics on a type it does not accept.\<close>

definition decode_i64 :: "env \<Rightarrow> pg_type \<Rightarrow> int \<Rightarrow> int proc" where
  "decode_i64 env ty x =
     (if e_i64_accepts env ty then ret x else throw (Panicked ''error retrieving column''))"

text \<open>\<open>query_opt\<close>: at most one row.\<close>

definition opt_row :: "'a list \<Rightarrow> db \<Rightarrow> sql_error + ('a option \<times> db)" where
  "opt_row rs d = (case rs of [] \<Rightarrow> Inr (None, d) | [r] \<Rightarrow> Inr (Some r, d) | _ \<Rightarrow> Inl RowCount)"

section \<open>Reasoning about processes\<close>

text \<open>
  \<open>keeps I m\<close>: whatever faults happen, the tables satisfy \<open>I\<close> after \<open>m\<close> if they did
  before. \<open>triple P m Q\<close> speaks of successful ends only: it is what the body of a
  transaction has to show, since a failed one is rolled back.
\<close>

named_theorems proc_rules

definition keeps :: "(db \<Rightarrow> bool) \<Rightarrow> 'a proc \<Rightarrow> bool" where
  "keeps I m = (\<forall>w. I (w_db w) \<longrightarrow> I (w_db (snd (m w))))"

definition triple :: "(db \<Rightarrow> bool) \<Rightarrow> 'a proc \<Rightarrow> ('a \<Rightarrow> db \<Rightarrow> bool) \<Rightarrow> bool" where
  "triple P m Q =
     (\<forall>w x w'. P (w_db w) \<longrightarrow> m w = (Inr x, w') \<longrightarrow> Q x (w_db w'))"

definition fault_free :: "env \<Rightarrow> bool" where
  "fault_free env = (\<forall>n. \<not> e_fault env n)"

lemma tick_simps [simp]:
  "w_db (tick w) = w_db w" "w_calls (tick w) = Suc (w_calls w)"
  "w_aborted (tick w) = w_aborted w" "w_log (tick w) = w_log w"
  by (simp_all add: tick_def)

lemma rollback_simps [simp]:
  "w_db (rollback_to d w) = d" "w_log (rollback_to d w) = w_log w"
  "w_calls (rollback_to d w) = w_calls w" "w_aborted (rollback_to d w) = False"
  by (simp_all add: rollback_to_def)

lemma andthen_ret [simp]: "andthen (ret x) f = f x"
  by (rule ext) (simp add: andthen_def ret_def)

lemma andthen_throw [simp]: "andthen (throw e) f = throw e"
  by (rule ext) (simp add: andthen_def throw_def)

lemma andthen_assoc: "andthen (andthen m f) g = andthen m (\<lambda>x. andthen (f x) g)"
  by (rule ext) (simp add: andthen_def split: prod.splits sum.splits)

lemma andthen_Inr:
  "andthen m f w = (Inr y, w'') \<longleftrightarrow> (\<exists>x w'. m w = (Inr x, w') \<and> f x w' = (Inr y, w''))"
  by (auto simp: andthen_def split: prod.splits sum.splits)

lemma ensure_simps [simp]: "ensure True e = ret ()" "ensure False e = throw e"
  by (simp_all add: ensure_def)

lemma of_option_simps [simp]: "of_option e None = throw e" "of_option e (Some x) = ret x"
  by (simp_all add: of_option_def)

lemma of_sum_simps [simp]: "of_sum (Inl e) = throw e" "of_sum (Inr x) = ret x"
  by (simp_all add: of_sum_def)

subsection \<open>Rules for \<open>keeps\<close>\<close>

lemma keeps_ret [proc_rules]: "keeps I (ret x)"
  by (simp add: keeps_def ret_def)

lemma keeps_throw [proc_rules]: "keeps I (throw e)"
  by (simp add: keeps_def throw_def)

lemma keeps_andthen [proc_rules]:
  "keeps I m \<Longrightarrow> (\<And>x. keeps I (f x)) \<Longrightarrow> keeps I (andthen m f)"
  unfolding keeps_def andthen_def
  by (auto split: prod.splits sum.splits)

lemma keeps_ensure [proc_rules]: "keeps I (ensure b e)"
  by (simp add: ensure_def proc_rules)

lemma keeps_of_option [proc_rules]: "keeps I (of_option e x)"
  by (simp add: of_option_def proc_rules split: option.split)

lemma keeps_of_sum [proc_rules]: "keeps I (of_sum x)"
  by (simp add: of_sum_def proc_rules split: sum.split)

lemma keeps_external [proc_rules]: "keeps I (external env e)"
  by (simp add: keeps_def external_def)

lemma keeps_emit [proc_rules]: "keeps I (emit x)"
  by (simp add: keeps_def emit_def)

lemma keeps_fresh_id [proc_rules]: "keeps I (fresh_id env)"
  by (simp add: keeps_def fresh_id_def)

lemma keeps_decode_i64 [proc_rules]: "keeps I (decode_i64 env ty x)"
  by (simp add: decode_i64_def proc_rules)

lemma keeps_if [proc_rules]:
  "(b \<Longrightarrow> keeps I m) \<Longrightarrow> (\<not> b \<Longrightarrow> keeps I n) \<Longrightarrow> keeps I (if b then m else n)"
  by simp

lemma keeps_case_option [proc_rules]:
  "keeps I m \<Longrightarrow> (\<And>x. keeps I (f x)) \<Longrightarrow> keeps I (case y of None \<Rightarrow> m | Some x \<Rightarrow> f x)"
  by (simp split: option.split)

lemma keeps_case_sum [proc_rules]:
  "(\<And>x. keeps I (f x)) \<Longrightarrow> (\<And>x. keeps I (g x)) \<Longrightarrow>
   keeps I (case y of Inl x \<Rightarrow> f x | Inr x \<Rightarrow> g x)"
  by (simp split: sum.split)

lemma keeps_case_prod [proc_rules]:
  "(\<And>a b. keeps I (f a b)) \<Longrightarrow> keeps I (case y of (a, b) \<Rightarrow> f a b)"
  by (simp split: prod.split)

lemma keeps_map_anyhow [proc_rules]: "keeps I m \<Longrightarrow> keeps I (map_anyhow f m)"
  by (auto simp: keeps_def map_anyhow_def split: prod.splits sum.splits err.splits)

lemma keeps_log_errors [proc_rules]: "keeps I m \<Longrightarrow> keeps I (log_errors m)"
  by (auto simp: keeps_def log_errors_def split: prod.splits sum.splits err.splits)

lemma keeps_for_each [proc_rules]: "(\<And>r. keeps I (f r)) \<Longrightarrow> keeps I (for_each f rs)"
  by (induction rs) (simp_all add: proc_rules)

text \<open>\<open>sql_keeps I f\<close>: the statement \<open>f\<close> by itself keeps \<open>I\<close>.\<close>

definition sql_keeps :: "(db \<Rightarrow> bool) \<Rightarrow> 'a sql \<Rightarrow> bool" where
  "sql_keeps I f = (\<forall>t u d x d'. I d \<longrightarrow> f t u d = Inr (x, d') \<longrightarrow> I d')"

lemma sql_keepsI: "(\<And>t u d x d'. I d \<Longrightarrow> f t u d = Inr (x, d') \<Longrightarrow> I d') \<Longrightarrow> sql_keeps I f"
  by (simp add: sql_keeps_def)

lemma keeps_query [proc_rules]: "sql_keeps I f \<Longrightarrow> keeps I (query env h f)"
  by (auto simp: keeps_def sql_keeps_def query_def split: sum.splits prod.splits)

lemma keeps_try_stmt [proc_rules]: "sql_keeps I f \<Longrightarrow> keeps I (try_stmt env f)"
  by (auto simp: keeps_def sql_keeps_def try_stmt_def split: sum.splits prod.splits)

lemma keeps_stmt [proc_rules]: "sql_keeps I f \<Longrightarrow> keeps I (stmt env h f)"
  unfolding stmt_def by (intro proc_rules)

subsection \<open>The log only grows\<close>

named_theorems grow_rules

definition grows :: "'a proc \<Rightarrow> bool" where
  "grows m = (\<forall>w. set (w_log w) \<subseteq> set (w_log (snd (m w))))"

lemma grows_basic [grow_rules]:
  "grows (ret x)" "grows (throw e)" "grows (external env e)" "grows (emit y)" "grows (fresh_id env)"
  by (auto simp: grows_def ret_def throw_def external_def emit_def fresh_id_def)

lemma grows_andthen [grow_rules]:
  "grows m \<Longrightarrow> (\<And>x. grows (f x)) \<Longrightarrow> grows (andthen m f)"
  unfolding grows_def andthen_def by (fastforce split: prod.splits sum.splits)

lemma grows_if [grow_rules]: "grows m \<Longrightarrow> grows n \<Longrightarrow> grows (if b then m else n)"
  by simp

lemma grows_case_sum [grow_rules]:
  "(\<And>x. grows (f x)) \<Longrightarrow> (\<And>x. grows (g x)) \<Longrightarrow>
   grows (case y of Inl x \<Rightarrow> f x | Inr x \<Rightarrow> g x)"
  by (simp split: sum.split)

lemma grows_query [grow_rules]: "grows (query env h f)"
  by (auto simp: grows_def query_def split: sum.splits prod.splits)

lemma grows_try_stmt [grow_rules]: "grows (try_stmt env f)"
  by (auto simp: grows_def try_stmt_def split: sum.splits prod.splits)

lemma grows_stmt [grow_rules]: "grows (stmt env h f)"
  unfolding stmt_def by (intro grow_rules)

lemma grows_for_each [grow_rules]: "(\<And>r. grows (f r)) \<Longrightarrow> grows (for_each f rs)"
  by (induction rs) (simp_all add: grow_rules)

lemma grows_transact [grow_rules]:
  assumes "grows body" shows "grows (transact env be ce body)"
proof -
  have "set (w_log w) \<subseteq> set (w_log (snd (transact env be ce body w)))" for w
  proof -
    have "set (w_log w) \<subseteq> set (w_log (snd (body ((tick w)\<lparr>w_aborted := False\<rparr>))))"
      using assms [unfolded grows_def, rule_format, of "(tick w)\<lparr>w_aborted := False\<rparr>"] by simp
    then show ?thesis
      by (auto simp: transact_def split: prod.splits sum.splits tx_end.splits)
  qed
  then show ?thesis by (simp add: grows_def)
qed

subsection \<open>Rules for \<open>triple\<close>\<close>

lemma triple_ret: "(\<And>d. P d \<Longrightarrow> Q x d) \<Longrightarrow> triple P (ret x) Q"
  by (simp add: triple_def ret_def)

lemma triple_throw: "triple P (throw e) Q"
  by (simp add: triple_def throw_def)

lemma triple_andthen:
  "triple P m R \<Longrightarrow> (\<And>x. triple (R x) (f x) Q) \<Longrightarrow> triple P (andthen m f) Q"
  unfolding triple_def andthen_Inr by blast

lemma triple_keeps: "keeps I m \<Longrightarrow> triple I m (\<lambda>_. I)"
  unfolding keeps_def triple_def by (metis snd_conv)

lemma triple_weaken:
  "triple P m R \<Longrightarrow> (\<And>d. P' d \<Longrightarrow> P d) \<Longrightarrow> (\<And>x d. R x d \<Longrightarrow> Q x d) \<Longrightarrow> triple P' m Q"
  unfolding triple_def by blast

lemma triple_stmt:
  assumes "\<And>t u d x d'. P d \<Longrightarrow> f t u d = Inr (x, d') \<Longrightarrow> Q x d'"
  shows "triple P (stmt env h f) Q"
proof -
  have "Q x (w_db w')" if "P (w_db w)" and "stmt env h f w = (Inr x, w')" for w x w'
    using that(2) assms [OF that(1)]
    by (auto simp: stmt_def andthen_def try_stmt_def throw_def ret_def
        split: if_splits sum.splits prod.splits)
  then show ?thesis by (simp add: triple_def)
qed

lemma triple_for_each: "(\<And>r. triple I (f r) (\<lambda>_. I)) \<Longrightarrow> triple I (for_each f rs) (\<lambda>_. I)"
  by (induction rs) (auto intro!: triple_ret triple_andthen)

lemma triple_try_stmt:
  assumes "\<And>t u d x d'. P d \<Longrightarrow> f t u d = Inr (x, d') \<Longrightarrow> Q (Inr x) d'" and "\<And>e d. Q (Inl e) d"
  shows "triple P (try_stmt env f) Q"
proof -
  have "Q x (w_db w')" if "P (w_db w)" and "try_stmt env f w = (Inr x, w')" for w x w'
    using that(2) assms(1) [OF that(1)] assms(2)
    by (auto simp: try_stmt_def split: if_splits sum.splits prod.splits)
  then show ?thesis by (simp add: triple_def)
qed

text \<open>\<open>yields I m V\<close>: \<open>m\<close> keeps \<open>I\<close>, and what it returns satisfies \<open>V\<close>.\<close>

definition yields :: "(db \<Rightarrow> bool) \<Rightarrow> 'a proc \<Rightarrow> ('a \<Rightarrow> bool) \<Rightarrow> bool" where
  "yields I m V =
     (\<forall>w. I (w_db w) \<longrightarrow> I (w_db (snd (m w))) \<and> (\<forall>x. fst (m w) = Inr x \<longrightarrow> V x))"

lemma yields_andthen:
  "yields I m V \<Longrightarrow> (\<And>x. V x \<Longrightarrow> keeps I (f x)) \<Longrightarrow> keeps I (andthen m f)"
  unfolding yields_def keeps_def andthen_def
  by (auto split: prod.splits sum.splits)

lemma yields_query:
  "(\<And>t u d x d'. I d \<Longrightarrow> f t u d = Inr (x, d') \<Longrightarrow> I d' \<and> V x) \<Longrightarrow> yields I (query env h f) V"
  by (auto simp: yields_def query_def split: sum.splits prod.splits)

text \<open>A transaction keeps an invariant that its committed bodies restore.\<close>

lemma keeps_transact:
  assumes "triple I body (\<lambda>r d. case r of Commit _ \<Rightarrow> I d | Rollback _ \<Rightarrow> True)"
  shows "keeps I (transact env be ce body)"
proof -
  have "I (w_db (snd (transact env be ce body w)))" if I: "I (w_db w)" for w
  proof (cases "body ((tick w)\<lparr>w_aborted := False\<rparr>)")
    case (Pair r w')
    show ?thesis
    proof (cases r)
      case (Inl e)
      with Pair I show ?thesis by (simp add: transact_def)
    next
      case (Inr c)
      have "I (w_db ((tick w)\<lparr>w_aborted := False\<rparr>))" using I by simp
      with assms Pair Inr have "case c of Commit _ \<Rightarrow> I (w_db w') | Rollback _ \<Rightarrow> True"
        unfolding triple_def by blast
      with Pair Inr I show ?thesis by (cases c) (simp_all add: transact_def)
    qed
  qed
  then show ?thesis by (simp add: keeps_def)
qed

text \<open>The outcome of a transaction, by cases.\<close>

lemma transact_Inl_db:
  "transact env be ce body w = (Inl e, w') \<Longrightarrow> w_db w' = w_db w"
  by (auto simp: transact_def split: if_splits prod.splits sum.splits tx_end.splits)

lemma transact_Inr:
  assumes "transact env be ce body w = (Inr x, w')"
  shows "\<exists>r w1. body ((tick w)\<lparr>w_aborted := False\<rparr>) = (Inr r, w1) \<and>
    (w_db w' = w_db w \<or> (r = Commit x \<and> w_db w' = w_db w1))"
  using assms
  by (auto simp: transact_def split: if_splits prod.splits sum.splits tx_end.splits)

subsection \<open>Successful runs, step by step\<close>

named_theorems run_simps

lemma ret_Inr [run_simps]: "ret x w = (Inr y, w') \<longleftrightarrow> y = x \<and> w' = w"
  by (auto simp: ret_def)

lemma throw_Inr [run_simps]: "throw e w = (Inr y, w') \<longleftrightarrow> False"
  by (simp add: throw_def)

lemmas andthen_Inr_run [run_simps] = andthen_Inr

lemma ensure_Inr [run_simps]: "ensure b e w = (Inr y, w') \<longleftrightarrow> b \<and> w' = w"
  by (auto simp: ensure_def ret_def throw_def)

lemma of_option_Inr [run_simps]: "of_option e x w = (Inr y, w') \<longleftrightarrow> x = Some y \<and> w' = w"
  by (auto simp: of_option_def ret_def throw_def split: option.split)

lemma of_sum_Inr [run_simps]: "of_sum x w = (Inr y, w') \<longleftrightarrow> x = Inr y \<and> w' = w"
  by (auto simp: of_sum_def ret_def throw_def split: sum.split)

lemma external_Inr [run_simps]:
  "external env e w = (Inr y, w') \<longleftrightarrow> \<not> e_fault env (w_calls w) \<and> w' = tick w"
  by (auto simp: external_def)

lemma emit_Inr [run_simps]: "emit x w = (Inr y, w') \<longleftrightarrow> w' = w\<lparr>w_log := w_log w @ [x]\<rparr>"
  by (auto simp: emit_def)

lemma fresh_id_Inr [run_simps]:
  "fresh_id env w = (Inr u, w') \<longleftrightarrow> u = e_fresh env (w_calls w) \<and> w' = tick w"
  by (auto simp: fresh_id_def)

lemma query_Inr [run_simps]:
  "query env h f w = (Inr x, w') \<longleftrightarrow> \<not> e_fault env (w_calls w) \<and>
     (\<exists>d. f (e_now env) (e_fresh env (w_calls w)) (w_db w) = Inr (x, d) \<and>
          w' = (tick w)\<lparr>w_db := d\<rparr>)"
  by (auto simp: query_def split: sum.splits prod.splits)

lemma try_stmt_Inr [run_simps]:
  "try_stmt env f w = (Inr (Inr x), w') \<longleftrightarrow> \<not> w_aborted w \<and> \<not> e_fault env (w_calls w) \<and>
     (\<exists>d. f (e_now env) (e_fresh env (w_calls w)) (w_db w) = Inr (x, d) \<and>
          w' = (tick w)\<lparr>w_db := d\<rparr>)"
  by (auto simp: try_stmt_def split: sum.splits prod.splits)

lemma try_stmt_Inl: "try_stmt env f w = (Inr (Inl e), w') \<Longrightarrow> w_aborted w'"
  by (auto simp: try_stmt_def split: sum.splits prod.splits if_splits)

lemma stmt_Inr [run_simps]:
  "stmt env h f w = (Inr x, w') \<longleftrightarrow> \<not> w_aborted w \<and> \<not> e_fault env (w_calls w) \<and>
     (\<exists>d. f (e_now env) (e_fresh env (w_calls w)) (w_db w) = Inr (x, d) \<and>
          w' = (tick w)\<lparr>w_db := d\<rparr>)"
  by (auto simp: stmt_def andthen_def try_stmt_def throw_def ret_def
      split: sum.splits prod.splits if_splits)

lemma transact_Inr_iff [run_simps]:
  "transact env be ce body w = (Inr x, w') \<longleftrightarrow> \<not> e_fault env (w_calls w) \<and>
     (\<exists>w1. (body ((tick w)\<lparr>w_aborted := False\<rparr>) = (Inr (Rollback x), w1) \<and>
             w' = rollback_to (w_db w) w1) \<or>
           (body ((tick w)\<lparr>w_aborted := False\<rparr>) = (Inr (Commit x), w1) \<and>
             \<not> e_fault env (w_calls w1) \<and>
             w' = (if w_aborted w1 then rollback_to (w_db w) (tick w1) else tick w1)))"
  by (cases "body ((tick w)\<lparr>w_aborted := False\<rparr>)")
    (auto simp: transact_def split: sum.splits tx_end.splits)

text \<open>
  \<open>all_or_nothing m\<close>: a run of \<open>m\<close> that ends in an error leaves the tables as they were.
  \<open>reads m\<close>: no run of \<open>m\<close> changes them.
\<close>

named_theorems read_rules

definition all_or_nothing :: "'a proc \<Rightarrow> bool" where
  "all_or_nothing m = (\<forall>w e w'. m w = (Inl e, w') \<longrightarrow> w_db w' = w_db w)"

definition reads :: "'a proc \<Rightarrow> bool" where
  "reads m = (\<forall>w. w_db (snd (m w)) = w_db w)"

definition sql_reads :: "'a sql \<Rightarrow> bool" where
  "sql_reads f = (\<forall>t u d x d'. f t u d = Inr (x, d') \<longrightarrow> d' = d)"

lemma reads_basic [read_rules]:
  "reads (ret x)" "reads (throw e)" "reads (ensure b e)" "reads (of_option e y)"
  "reads (of_sum z)" "reads (external env e)" "reads (emit a)" "reads (fresh_id env)"
  "reads (decode_i64 env ty i)"
  by (auto simp: reads_def ret_def throw_def ensure_def of_option_def of_sum_def external_def
      emit_def fresh_id_def decode_i64_def split: option.split sum.split)

lemma reads_andthen [read_rules]:
  "reads m \<Longrightarrow> (\<And>x. reads (f x)) \<Longrightarrow> reads (andthen m f)"
  unfolding reads_def andthen_def
  by (auto split: prod.splits sum.splits) (metis snd_conv)+

lemma reads_if [read_rules]: "reads m \<Longrightarrow> reads n \<Longrightarrow> reads (if b then m else n)"
  by simp

lemma reads_case_option [read_rules]:
  "reads m \<Longrightarrow> (\<And>x. reads (f x)) \<Longrightarrow> reads (case y of None \<Rightarrow> m | Some x \<Rightarrow> f x)"
  by (simp split: option.split)

lemma reads_case_sum [read_rules]:
  "(\<And>x. reads (f x)) \<Longrightarrow> (\<And>x. reads (g x)) \<Longrightarrow>
   reads (case y of Inl x \<Rightarrow> f x | Inr x \<Rightarrow> g x)"
  by (simp split: sum.split)

lemma reads_case_prod [read_rules]: "(\<And>a b. reads (f a b)) \<Longrightarrow> reads (case y of (a, b) \<Rightarrow> f a b)"
  by (simp split: prod.split)

lemma reads_query [read_rules]: "sql_reads f \<Longrightarrow> reads (query env h f)"
  by (auto simp: reads_def sql_reads_def query_def split: sum.splits prod.splits)

lemma reads_try_stmt [read_rules]: "sql_reads f \<Longrightarrow> reads (try_stmt env f)"
  by (auto simp: reads_def sql_reads_def try_stmt_def split: sum.splits prod.splits)

lemma reads_stmt [read_rules]: "sql_reads f \<Longrightarrow> reads (stmt env h f)"
  unfolding stmt_def by (intro read_rules)

lemma reads_transact:
  assumes "reads body" shows "reads (transact env be ce body)"
proof -
  have "w_db (snd (transact env be ce body w)) = w_db w" for w
    using assms [unfolded reads_def, rule_format, of "(tick w)\<lparr>w_aborted := False\<rparr>"]
    by (cases "body ((tick w)\<lparr>w_aborted := False\<rparr>)")
      (auto simp: transact_def split: sum.splits tx_end.splits)
  then show ?thesis by (simp add: reads_def)
qed

lemma aon_transact: "all_or_nothing (transact env be ce body)"
  by (simp add: all_or_nothing_def transact_Inl_db)

lemma aon_reads: "reads m \<Longrightarrow> all_or_nothing m"
  unfolding all_or_nothing_def reads_def by (metis snd_conv)

lemma aon_andthen:
  assumes "reads m" and "\<And>x. all_or_nothing (f x)" shows "all_or_nothing (andthen m f)"
proof -
  have "w_db w' = w_db w" if "andthen m f w = (Inl e, w')" for w e w'
  proof (cases "m w")
    case (Pair r w1)
    then have "w_db w1 = w_db w" using assms(1) unfolding reads_def by (metis snd_conv)
    with that Pair assms(2) show ?thesis
      by (auto simp: andthen_def all_or_nothing_def split: sum.splits)
  qed
  then show ?thesis by (simp add: all_or_nothing_def)
qed

definition never_fails :: "'a proc \<Rightarrow> bool" where
  "never_fails m = (\<forall>w e w'. m w \<noteq> (Inl e, w'))"

lemma never_fails_ret: "never_fails (ret x)" "never_fails (emit y)"
  by (simp_all add: never_fails_def ret_def emit_def)

lemma never_fails_andthen:
  "never_fails m \<Longrightarrow> (\<And>x. never_fails (f x)) \<Longrightarrow> never_fails (andthen m f)"
  by (auto simp: never_fails_def andthen_def split: prod.splits sum.splits)

lemma aon_then_never:
  "all_or_nothing m \<Longrightarrow> (\<And>x. never_fails (f x)) \<Longrightarrow> all_or_nothing (andthen m f)"
  by (auto simp: all_or_nothing_def never_fails_def andthen_def split: prod.splits sum.splits)

end
