(* ===== verification/ApiAuth.thy ===== *)
theory ApiAuth
  imports Procs
begin

text \<open>
  What every route shares (\<open>crates/api/src/routes/mod.rs\<close>): the constructors of
  \<open>ApiError\<close>, the pool with its timeout, the internal secret, scopes and workspace roles,
  the authentication middleware; the routes of API keys
  (\<open>crates/api/src/routes/api_keys.rs\<close>); the Vault paths of environment variables
  (\<open>crates/api/src/envelope.rs\<close>). A header map is a partial map from lower-case names
  to values; \<open>to_str\<close> is the parameter \<open>e_header_str\<close>. The caller's address, which is
  only logged, is left out.
\<close>

section \<open>Errors of the API\<close>

definition api_new :: "nat \<Rightarrow> string \<Rightarrow> string \<Rightarrow> err" where
  "api_new status code msg = Api \<lparr>ae_status = status, ae_code = code, ae_message = msg\<rparr>"

definition bad_request :: "string \<Rightarrow> string \<Rightarrow> err" where
  "bad_request code msg = api_new 400 code msg"

definition unauthorized :: "string \<Rightarrow> err" where
  "unauthorized msg = api_new 401 ''unauthorized'' msg"

definition forbidden :: "string \<Rightarrow> err" where
  "forbidden msg = api_new 403 ''forbidden'' msg"

definition not_found :: "string \<Rightarrow> err" where
  "not_found msg = api_new 404 ''not_found'' msg"

definition conflict :: "string \<Rightarrow> err" where
  "conflict msg = api_new 409 ''conflict'' msg"

definition unprocessable :: "string \<Rightarrow> string \<Rightarrow> err" where
  "unprocessable code msg = api_new 422 code msg"

definition internal :: "string \<Rightarrow> err" where
  "internal msg = api_new 500 ''internal_error'' msg"

definition bad_gateway :: "string \<Rightarrow> err" where
  "bad_gateway msg = api_new 502 ''bad_gateway'' msg"

definition unavailable :: "string \<Rightarrow> err" where
  "unavailable msg = api_new 503 ''service_unavailable'' msg"

lemmas api_errors =
  api_new_def bad_request_def unauthorized_def forbidden_def not_found_def conflict_def
  unprocessable_def internal_def bad_gateway_def unavailable_def

section \<open>Shared helpers\<close>

text \<open>\<open>ct_eq\<close> of \<open>subtle\<close> is equality of byte strings.\<close>

definition verify_internal_secret_value :: "string \<Rightarrow> string list \<Rightarrow> err + unit" where
  "verify_internal_secret_value secret valid_secrets =
     (if secret = [] then Inl (unauthorized ''missing X-Internal-Secret header'')
      else if \<not> list_ex (\<lambda>s. secret = s) valid_secrets
      then Inl (forbidden ''invalid internal secret'')
      else Inr ())"

definition header_str :: "env \<Rightarrow> (string \<rightharpoonup> string) \<Rightarrow> string \<Rightarrow> string option" where
  "header_str env headers name = Option.bind (headers name) (e_header_str env)"

definition verify_internal_secret ::
  "env \<Rightarrow> (string \<rightharpoonup> string) \<Rightarrow> string list \<Rightarrow> err + unit" where
  "verify_internal_secret env headers valid_secrets =
     verify_internal_secret_value
       (case header_str env headers ''x-internal-secret'' of None \<Rightarrow> [] | Some s \<Rightarrow> s)
       valid_secrets"

definition db_conn :: "env \<Rightarrow> unit proc" where
  "db_conn env w =
     (if e_fault env (w_calls w) then
        (Inl (if e_pool_timeout env (w_calls w)
              then unavailable (''database connection pool exhausted '' @ em_dash @ '' try again'')
              else internal ''database connection failed''), tick w)
      else (Inr (), tick w))"

definition extract_raw_token :: "env \<Rightarrow> (string \<rightharpoonup> string) \<Rightarrow> err + string" where
  "extract_raw_token env headers =
     (case header_str env headers ''x-api-key'' of
        Some v \<Rightarrow> Inr v
      | None \<Rightarrow>
          (case Option.bind (header_str env headers ''authorization'') (strip_prefix ''Bearer '') of
             Some v \<Rightarrow> Inr v
           | None \<Rightarrow> Inl (unauthorized ''missing X-Api-Key or Authorization header'')))"

record caller =
  ca_user_id :: uuid
  ca_scopes :: "string list"
  ca_api_key_id :: "uuid option"

definition scope_allowed :: "caller \<Rightarrow> string \<Rightarrow> bool" where
  "scope_allowed caller required =
     (let has = (\<lambda>s. list_ex (\<lambda>sc. sc = s) (ca_scopes caller))
      in if required = ''read'' then has ''read'' \<or> has ''write'' \<or> has ''admin''
         else if required = ''write'' then has ''write'' \<or> has ''admin''
         else if required = ''admin'' then has ''admin''
         else False)"

definition require_scope :: "caller \<Rightarrow> string \<Rightarrow> err + unit" where
  "require_scope caller required =
     (if \<not> scope_allowed caller required
      then Inl (api_new 403 ''insufficient_scope''
                 (''this action requires the '' @ [CHR 0x27] @ required @ [CHR 0x27] @ '' scope''))
      else Inr ())"

definition workspace_role_rank :: "string \<Rightarrow> nat" where
  "workspace_role_rank role =
     (if role = ''owner'' then 3 else if role = ''admin'' then 2
      else if role = ''viewer'' then 1 else 0)"

definition require_workspace_role :: "string \<Rightarrow> string \<Rightarrow> err + unit" where
  "require_workspace_role role min_role =
     (if workspace_role_rank role \<ge> workspace_role_rank min_role then Inr ()
      else Inl (forbidden (''requires '' @ [CHR 0x27] @ min_role @ [CHR 0x27] @
             '' workspace role or higher (your role: '' @ [CHR 0x27] @ role @ [CHR 0x27] @ '')'')))"

definition hash_token :: "env \<Rightarrow> string \<Rightarrow> string" where
  "hash_token env token = sha256_hex (e_sha256 env) token"

definition parse_uuid :: "env \<Rightarrow> err \<Rightarrow> string \<Rightarrow> uuid proc" where
  "parse_uuid env e s = of_option e (e_parse_uuid env s)"

section \<open>Authentication\<close>

definition sql_user_exists :: "uuid \<Rightarrow> bool sql" where
  "sql_user_exists uid t u d =
     Inr (list_ex (\<lambda>r. us_id r = uid \<and> us_deleted_at r = None) (t_users d), d)"

definition api_key_matches :: "db \<Rightarrow> string \<Rightarrow> api_key_row \<Rightarrow> bool" where
  "api_key_matches d h k =
     (ak_token_hash k = h \<and> ak_deleted_at k = None \<and>
      list_ex (\<lambda>r. us_id r = ak_user k \<and> us_deleted_at r = None) (t_users d))"

text \<open>\<open>query_opt\<close> refuses more than one row; \<open>api_keys.token_hash\<close> is \<open>UNIQUE\<close> (V31).\<close>

definition sql_touch_api_key :: "string \<Rightarrow> api_key_row option sql" where
  "sql_touch_api_key h t u d =
     (case filter (api_key_matches d h) (t_api_keys d) of
        [] \<Rightarrow> Inr (None, d)
      | [k] \<Rightarrow> Inr (Some k, d\<lparr>t_api_keys :=
                  update_where (api_key_matches d h) (\<lambda>r. r\<lparr>ak_last_used_at := Some t\<rparr>)
                    (t_api_keys d)\<rparr>)
      | _ \<Rightarrow> Inl RowCount)"

definition auth_internal :: "env \<Rightarrow> (string \<rightharpoonup> string) \<Rightarrow> string \<Rightarrow> caller proc" where
  "auth_internal env headers secret =
     andthen (of_option (unauthorized ''invalid X-Internal-Secret header'')
                (e_header_str env secret)) (\<lambda>secret_str.
     andthen (of_sum (verify_internal_secret_value secret_str (e_internal_secrets env))) (\<lambda>_.
     andthen (of_option (bad_request ''missing_header''
                 ''X-On-Behalf-Of required with X-Internal-Secret on protected routes'')
                (headers ''x-on-behalf-of'')) (\<lambda>raw.
     andthen (of_option (bad_request ''invalid_header'' ''invalid X-On-Behalf-Of value'')
                (e_header_str env raw)) (\<lambda>on_behalf_of.
     andthen (parse_uuid env (bad_request ''invalid_user_id''
                 ''X-On-Behalf-Of must be a valid UUID'') on_behalf_of) (\<lambda>user_id.
     andthen (db_conn env) (\<lambda>_.
     andthen (query env (\<lambda>_. internal ''authentication check failed'')
                (sql_user_exists user_id)) (\<lambda>exists.
     andthen (ensure exists (unauthorized ''unknown or deleted user'')) (\<lambda>_.
     ret \<lparr>ca_user_id = user_id, ca_scopes = [''admin''], ca_api_key_id = None\<rparr>))))))))"

definition auth_api_key :: "env \<Rightarrow> (string \<rightharpoonup> string) \<Rightarrow> caller proc" where
  "auth_api_key env headers =
     andthen (of_sum (extract_raw_token env headers)) (\<lambda>raw.
     andthen (ensure (starts_with ''lm_'' raw)
                (unauthorized (''invalid API key format '' @ em_dash @
                   '' expected lm_* scoped token (run: flux login)''))) (\<lambda>_.
     andthen (db_conn env) (\<lambda>_.
     andthen (query env (\<lambda>_. internal ''authentication check failed'')
                (sql_touch_api_key (hash_token env raw))) (\<lambda>found.
     andthen (of_option (unauthorized ''invalid API key'') found) (\<lambda>row.
     andthen (case ak_expires_at row of
                None \<Rightarrow> ret ()
              | Some expires \<Rightarrow>
                  ensure (\<not> expires < e_now env) (unauthorized ''API key has expired'')) (\<lambda>_.
     ret \<lparr>ca_user_id = ak_user row, ca_scopes = ak_scopes row,
           ca_api_key_id = Some (ak_id row)\<rparr>))))))"

text \<open>The middleware up to the call of the next handler, which receives the caller.\<close>

definition auth_middleware :: "env \<Rightarrow> (string \<rightharpoonup> string) \<Rightarrow> caller proc" where
  "auth_middleware env headers =
     (case headers ''x-internal-secret'' of
        Some secret \<Rightarrow> auth_internal env headers secret
      | None \<Rightarrow> auth_api_key env headers)"

section \<open>API keys\<close>

definition VALID_SCOPES :: "string list" where
  "VALID_SCOPES = [''read'', ''write'', ''admin'']"

definition generate_token :: "env \<Rightarrow> string proc" where
  "generate_token env =
     andthen (fresh_id env) (\<lambda>a. andthen (fresh_id env) (\<lambda>b.
     ret (''lm_'' @ e_uuid_simple env a @ e_uuid_simple env b)))"

definition sql_list_api_keys :: "uuid \<Rightarrow> api_key_row list sql" where
  "sql_list_api_keys uid t u d =
     Inr (rev (sort_key ak_created_at
            (filter (\<lambda>k. ak_user k = uid \<and> ak_deleted_at k = None) (t_api_keys d))), d)"

definition list_api_keys :: "env \<Rightarrow> caller \<Rightarrow> api_key_row list proc" where
  "list_api_keys env caller =
     andthen (of_sum (require_scope caller ''read'')) (\<lambda>_.
     andthen (db_conn env) (\<lambda>_.
     query env (\<lambda>_. internal ''failed to list API keys'')
       (sql_list_api_keys (ca_user_id caller))))"

fun check_scopes :: "string list \<Rightarrow> err + unit" where
  "check_scopes [] = Inr ()"
| "check_scopes (s # ss) =
     (if s \<notin> set VALID_SCOPES
      then Inl (bad_request ''invalid_scope''
             (''invalid scope '' @ [CHR 0x27] @ s @ [CHR 0x27] @ '' '' @ em_dash @
              '' must be one of: read, write, admin''))
      else check_scopes ss)"

definition sql_insert_api_key ::
  "uuid \<Rightarrow> string \<Rightarrow> string \<Rightarrow> string \<Rightarrow> string list \<Rightarrow> int option \<Rightarrow> uuid sql" where
  "sql_insert_api_key uid name h pre scopes expires t u d =
     (if list_ex (\<lambda>k. ak_token_hash k = h \<or> ak_id k = u) (t_api_keys d) then Inl UniqueViolation
      else if \<not> list_ex (\<lambda>r. us_id r = uid) (t_users d) then Inl ForeignKeyViolation
      else Inr (u, d\<lparr>t_api_keys := t_api_keys d @
             [\<lparr>ak_id = u, ak_user = uid, ak_name = name, ak_token_hash = h, ak_prefix = pre,
               ak_scopes = scopes, ak_expires_at = expires, ak_last_used_at = None,
               ak_created_at = t, ak_deleted_at = None\<rparr>]\<rparr>))"

text \<open>
  \<open>Utc::now() + Duration::days(n)\<close> panics past the last date of \<open>chrono\<close>; the slice
  \<open>token[..12]\<close> panics on a shorter token. The reply is the id, the token, the scopes and
  the expiry.
\<close>

definition create_api_key ::
  "env \<Rightarrow> caller \<Rightarrow> string \<Rightarrow> string list \<Rightarrow> nat option \<Rightarrow>
   (uuid \<times> string \<times> string list \<times> int option) proc" where
  "create_api_key env caller name body_scopes expires_in_days =
     andthen (of_sum (require_scope caller ''admin'')) (\<lambda>_.
     andthen (ensure (\<not> (name = [] \<or> 64 < length name))
                (bad_request ''invalid_name'' ''name must be 1-64 characters'')) (\<lambda>_.
     andthen (if body_scopes = [] then ret [''read'']
              else andthen (of_sum (check_scopes body_scopes)) (\<lambda>_. ret body_scopes)) (\<lambda>scopes.
     andthen (generate_token env) (\<lambda>token.
     andthen (ensure (12 \<le> length token) (Panicked ''slice index'')) (\<lambda>_.
     andthen (case expires_in_days of None \<Rightarrow> ret None
              | Some n \<Rightarrow> let expires = e_now env + 86400 * int n in
                  andthen (ensure (expires \<le> e_max_time env) (Panicked ''DateTime overflow''))
                    (\<lambda>_. ret (Some expires))) (\<lambda>expires_at.
     andthen (db_conn env) (\<lambda>_.
     andthen (query env (\<lambda>_. internal ''failed to create API key'')
                (sql_insert_api_key (ca_user_id caller) name (hash_token env token)
                   (take 12 token @ ''...'') scopes expires_at)) (\<lambda>key_id.
     ret (key_id, token, scopes, expires_at)))))))))"

definition sql_delete_api_key :: "uuid \<Rightarrow> uuid \<Rightarrow> nat sql" where
  "sql_delete_api_key kid uid t u d =
     (let p = (\<lambda>k. ak_id k = kid \<and> ak_user k = uid \<and> ak_deleted_at k = None)
      in Inr (length (filter p (t_api_keys d)),
              d\<lparr>t_api_keys := update_where p (\<lambda>k. k\<lparr>ak_deleted_at := Some t\<rparr>) (t_api_keys d)\<rparr>))"

definition delete_api_key :: "env \<Rightarrow> caller \<Rightarrow> string \<Rightarrow> uuid proc" where
  "delete_api_key env caller id_str =
     andthen (of_sum (require_scope caller ''admin'')) (\<lambda>_.
     andthen (parse_uuid env (bad_request ''invalid_id'' ''API key ID must be a valid UUID'')
                id_str) (\<lambda>key_id.
     andthen (db_conn env) (\<lambda>_.
     andthen (query env (\<lambda>_. internal ''failed to delete API key'')
                (sql_delete_api_key key_id (ca_user_id caller))) (\<lambda>rows_affected.
     andthen (ensure (rows_affected \<noteq> 0) (not_found ''API key not found'')) (\<lambda>_.
     ret key_id)))))"

section \<open>Environment variables in Vault\<close>

definition env_path :: "env \<Rightarrow> uuid \<Rightarrow> uuid \<Rightarrow> string" where
  "env_path env wid sid =
     ''workspaces/'' @ e_uuid_str env wid @ ''/services/'' @ e_uuid_str env sid @ ''/env''"

definition project_env_path :: "env \<Rightarrow> uuid \<Rightarrow> uuid \<Rightarrow> string" where
  "project_env_path env wid pid =
     ''workspaces/'' @ e_uuid_str env wid @ ''/projects/'' @ e_uuid_str env pid @ ''/env''"

definition kv_get :: "env \<Rightarrow> string \<Rightarrow> err + env_map option" where
  "kv_get env path =
     (case e_vault env path of
        VaultUnreachable \<Rightarrow> Inl (Anyhow (''vault kv get '' @ path))
      | VaultReply status body \<Rightarrow>
          if status = 404 then Inr None
          else if \<not> (200 \<le> status \<and> status < 300)
          then Inl (Anyhow (''vault kv get '' @ path @ '' failed''))
          else (case body of
                  None \<Rightarrow> Inl (Anyhow ''vault kv get: failed to deserialize secret data'')
                | Some m \<Rightarrow> Inr (Some m)))"

definition unwrap_or_default :: "err + env_map option \<Rightarrow> env_map" where
  "unwrap_or_default r = (case r of Inl _ \<Rightarrow> Map.empty | Inr None \<Rightarrow> Map.empty | Inr (Some m) \<Rightarrow> m)"

definition read_env_vars :: "env \<Rightarrow> uuid \<Rightarrow> uuid \<Rightarrow> env_map" where
  "read_env_vars env wid sid = unwrap_or_default (kv_get env (env_path env wid sid))"

definition read_project_env_vars :: "env \<Rightarrow> uuid \<Rightarrow> uuid \<Rightarrow> env_map" where
  "read_project_env_vars env wid pid = unwrap_or_default (kv_get env (project_env_path env wid pid))"

section \<open>Scopes and roles\<close>

lemma require_scope_ok: "require_scope c r = Inr () \<longleftrightarrow> scope_allowed c r"
  by (simp add: require_scope_def)

lemma scope_admin_write: "scope_allowed c ''admin'' \<Longrightarrow> scope_allowed c ''write''"
  by (simp add: scope_allowed_def Let_def)

lemma scope_write_read: "scope_allowed c ''write'' \<Longrightarrow> scope_allowed c ''read''"
  by (auto simp: scope_allowed_def Let_def)

lemma role_rank_le: "workspace_role_rank r \<le> 3"
  by (simp add: workspace_role_rank_def)

lemma check_scopes_ok: "check_scopes ss = Inr () \<longleftrightarrow> set ss \<subseteq> set VALID_SCOPES"
  by (induction ss) auto

lemma require_workspace_role_admin:
  "require_workspace_role r ''admin'' = Inr () \<longleftrightarrow> r = ''owner'' \<or> r = ''admin''"
  by (simp add: require_workspace_role_def workspace_role_rank_def)

section \<open>What these keep\<close>

lemma keeps_db_conn [proc_rules]: "keeps I (db_conn env)"
  by (simp add: keeps_def db_conn_def)

lemma keeps_parse_uuid [proc_rules]: "keeps I (parse_uuid env e s)"
  by (simp add: parse_uuid_def proc_rules)

lemma db_conn_Inr [run_simps]:
  "db_conn env w = (Inr y, w') \<longleftrightarrow> \<not> e_fault env (w_calls w) \<and> w' = tick w"
  by (auto simp: db_conn_def)

lemma parse_uuid_Inr [run_simps]:
  "parse_uuid env e s w = (Inr u, w') \<longleftrightarrow> e_parse_uuid env s = Some u \<and> w' = w"
  by (simp add: parse_uuid_def run_simps)

lemma reads_db_conn [read_rules]: "reads (db_conn env)" "reads (parse_uuid env e s)"
  by (simp_all add: reads_def db_conn_def parse_uuid_def of_option_def ret_def throw_def
      split: option.split)

lemma grows_db_conn [grow_rules]: "grows (db_conn env)"
  by (simp add: grows_def db_conn_def)

lemma sql_keeps_read: "(\<And>t u d. \<exists>x. f t u d = Inr (x, d) \<or> (\<exists>e. f t u d = Inl e)) \<Longrightarrow> sql_keeps I f"
proof (rule sql_keepsI)
  fix t u d x d'
  assume I: "I d" and f: "f t u d = Inr (x, d')"
    and r: "\<And>t u d. \<exists>x. f t u d = Inr (x, d) \<or> (\<exists>e. f t u d = Inl e)"
  from r [of t u d] f have "d' = d" by auto
  with I show "I d'" by simp
qed

section \<open>Properties\<close>

text \<open>The hierarchy of scopes as numbers; an unknown name has none.\<close>

definition scope_rank :: "string \<Rightarrow> nat option" where
  "scope_rank s =
     (if s = ''admin'' then Some 3 else if s = ''write'' then Some 2
      else if s = ''read'' then Some 1 else None)"

lemma scope_rank_Some:
  "scope_rank s = Some m \<longleftrightarrow>
     (s = ''admin'' \<and> m = 3) \<or> (s = ''write'' \<and> m = 2) \<or> (s = ''read'' \<and> m = 1)"
  by (simp add: scope_rank_def) (metis)

text \<open>
  C14: \<open>require_scope\<close> admits a caller exactly when one of its scopes ranks at least as high
  as the required one in the hierarchy read, write, admin; an unknown requirement admits
  nobody, and a scope outside the hierarchy gives nothing.
\<close>

theorem require_scope_hierarchy:
  "require_scope c required = Inr () \<longleftrightarrow>
     (\<exists>n m. scope_rank required = Some n \<and>
        (\<exists>s \<in> set (ca_scopes c). scope_rank s = Some m \<and> n \<le> m))"
proof -
  have ex: "(\<exists>s \<in> set ss. scope_rank s = Some m \<and> n \<le> m) \<longleftrightarrow>
      (m = 3 \<and> n \<le> 3 \<and> ''admin'' \<in> set ss) \<or> (m = 2 \<and> n \<le> 2 \<and> ''write'' \<in> set ss) \<or>
      (m = 1 \<and> n \<le> 1 \<and> ''read'' \<in> set ss)" for ss n m
    unfolding scope_rank_Some by blast
  have mem: "list_ex (\<lambda>sc. sc = s) ss \<longleftrightarrow> s \<in> set ss" for s ss
    by (simp add: list_ex_iff)
  show ?thesis
    unfolding require_scope_ok scope_allowed_def Let_def mem ex
    by (simp add: scope_rank_def conj_disj_distribL ex_disj_distrib) linarith
qed

lemma auth_internal_sound:
  assumes "auth_internal env headers secret w = (Inr c, w')"
  shows "\<exists>s. e_header_str env secret = Some s \<and> s \<noteq> [] \<and> s \<in> set (e_internal_secrets env)"
    "\<exists>r \<in> set (t_users (w_db w)). us_id r = ca_user_id c \<and> us_deleted_at r = None"
    "ca_scopes c = [''admin'']" "ca_api_key_id c = None" "w_db w' = w_db w"
  using assms
  by (auto simp: auth_internal_def run_simps verify_internal_secret_value_def
      sql_user_exists_def list_ex_iff split: if_splits)

lemma auth_api_key_sound:
  assumes "auth_api_key env headers w = (Inr c, w')"
  shows "\<exists>raw k. extract_raw_token env headers = Inr raw \<and> starts_with ''lm_'' raw \<and>
    k \<in> set (t_api_keys (w_db w)) \<and> ak_token_hash k = hash_token env raw \<and>
    ak_deleted_at k = None \<and> (\<forall>x. ak_expires_at k = Some x \<longrightarrow> e_now env \<le> x) \<and>
    ak_user k = ca_user_id c \<and> ak_scopes k = ca_scopes c \<and> ca_api_key_id c = Some (ak_id k) \<and>
    (\<exists>r \<in> set (t_users (w_db w)). us_id r = ca_user_id c \<and> us_deleted_at r = None)"
proof -
  have "\<exists>raw k u d. extract_raw_token env headers = Inr raw \<and> starts_with ''lm_'' raw \<and>
      sql_touch_api_key (hash_token env raw) (e_now env) u (w_db w) = Inr (Some k, d) \<and>
      (\<forall>x. ak_expires_at k = Some x \<longrightarrow> \<not> x < e_now env) \<and>
      c = \<lparr>ca_user_id = ak_user k, ca_scopes = ak_scopes k, ca_api_key_id = Some (ak_id k)\<rparr>"
    using assms
    by (simp add: auth_api_key_def run_simps split: if_splits option.splits) fastforce
  then obtain raw k u d where raw: "extract_raw_token env headers = Inr raw"
    and lm: "starts_with ''lm_'' raw"
    and q: "sql_touch_api_key (hash_token env raw) (e_now env) u (w_db w) = Inr (Some k, d)"
    and x: "\<forall>x. ak_expires_at k = Some x \<longrightarrow> \<not> x < e_now env"
    and c: "c = \<lparr>ca_user_id = ak_user k, ca_scopes = ak_scopes k, ca_api_key_id = Some (ak_id k)\<rparr>"
    by blast
  from q have "filter (api_key_matches (w_db w) (hash_token env raw)) (t_api_keys (w_db w)) = [k]"
    by (auto simp: sql_touch_api_key_def split: list.splits)
  from filter_singletonD [OF this] raw lm x c show ?thesis
    by (auto simp: api_key_matches_def list_ex_iff not_less intro!: exI [of _ raw] exI [of _ k])
qed

text \<open>
  C15: the middleware lets a request through only as an existing, undeleted user, and either
  under a configured internal secret, with the admin scope, or under a stored key of that
  user which is not deleted, has not expired, carries the scopes granted, and whose hash is
  that of the presented \<open>lm_\<close> token.
\<close>

theorem auth_middleware_sound:
  assumes "auth_middleware env headers w = (Inr c, w')"
  shows "(\<exists>r \<in> set (t_users (w_db w)). us_id r = ca_user_id c \<and> us_deleted_at r = None) \<and>
    (case ca_api_key_id c of
       None \<Rightarrow> ca_scopes c = [''admin''] \<and>
         (\<exists>s. header_str env headers ''x-internal-secret'' = Some s \<and>
              s \<noteq> [] \<and> s \<in> set (e_internal_secrets env))
     | Some i \<Rightarrow> headers ''x-internal-secret'' = None \<and>
         (\<exists>raw k. extract_raw_token env headers = Inr raw \<and> starts_with ''lm_'' raw \<and>
            k \<in> set (t_api_keys (w_db w)) \<and> ak_id k = i \<and> ak_user k = ca_user_id c \<and>
            ak_scopes k = ca_scopes c \<and> ak_token_hash k = hash_token env raw \<and>
            ak_deleted_at k = None \<and> (\<forall>x. ak_expires_at k = Some x \<longrightarrow> e_now env \<le> x)))"
proof (cases "headers ''x-internal-secret''")
  case None
  with assms have "auth_api_key env headers w = (Inr c, w')" by (simp add: auth_middleware_def)
  from auth_api_key_sound [OF this] None show ?thesis by (auto split: option.split)
next
  case (Some secret)
  with assms have "auth_internal env headers secret w = (Inr c, w')"
    by (simp add: auth_middleware_def)
  from auth_internal_sound [OF this] Some show ?thesis by (auto simp: header_str_def)
qed

lemma scope_admin_iff: "scope_allowed c ''admin'' \<longleftrightarrow> ''admin'' \<in> set (ca_scopes c)"
  by (auto simp: scope_allowed_def Let_def list_ex_iff)

text \<open>
  a key is created only for a caller holding the admin scope, as a row of that caller
  appended to the table, whose scopes are known ones and never empty, which stores the hash
  of the returned token and the expiry asked for; nothing else in the database changes.
\<close>

theorem create_api_key_row:
  assumes "create_api_key env caller name body_scopes expires_in_days w = (Inr (kid, token, scopes, expires), w')"
  shows "''admin'' \<in> set (ca_scopes caller) \<and>
    scopes = (if body_scopes = [] then [''read''] else body_scopes) \<and>
    set scopes \<subseteq> {''read'', ''write'', ''admin''} \<and>
    expires = map_option (\<lambda>n. e_now env + 86400 * int n) expires_in_days \<and>
    w_db w' = (w_db w)\<lparr>t_api_keys := t_api_keys (w_db w) @
      [\<lparr>ak_id = kid, ak_user = ca_user_id caller, ak_name = name,
        ak_token_hash = hash_token env token, ak_prefix = take 12 token @ ''...'',
        ak_scopes = scopes, ak_expires_at = expires, ak_last_used_at = None,
        ak_created_at = e_now env, ak_deleted_at = None\<rparr>]\<rparr>"
proof -
  define exp where "exp = (case expires_in_days of None \<Rightarrow> ret None
    | Some n \<Rightarrow> let expires = e_now env + 86400 * int n in
        andthen (ensure (expires \<le> e_max_time env) (Panicked ''DateTime overflow''))
          (\<lambda>_. ret (Some expires)))"
  have exp: "exp v = (Inr y, v') \<Longrightarrow>
      y = map_option (\<lambda>n. e_now env + 86400 * int n) expires_in_days \<and> v' = v" for v y v'
    by (auto simp: exp_def run_simps Let_def split: option.splits)
  have gen: "generate_token env v = (Inr y, v') \<Longrightarrow> w_db v' = w_db v" for v y v'
    by (auto simp: generate_token_def run_simps)
  have sc: "(if body_scopes = [] then ret [''read'']
       else andthen (of_sum (check_scopes body_scopes)) (\<lambda>_. ret body_scopes)) v = (Inr y, v') \<Longrightarrow>
      y = (if body_scopes = [] then [''read''] else body_scopes) \<and>
      set y \<subseteq> {''read'', ''write'', ''admin''} \<and> v' = v" for v y v'
    by (auto simp: run_simps check_scopes_ok VALID_SCOPES_def split: if_splits)
  have ins: "sql_insert_api_key uid nm h pre ss ex t u d = Inr (i, d') \<Longrightarrow>
      d' = d\<lparr>t_api_keys := t_api_keys d @
        [\<lparr>ak_id = i, ak_user = uid, ak_name = nm, ak_token_hash = h, ak_prefix = pre,
          ak_scopes = ss, ak_expires_at = ex, ak_last_used_at = None, ak_created_at = t,
          ak_deleted_at = None\<rparr>]\<rparr>" for uid nm h pre ss ex t u d i d'
    by (auto simp: sql_insert_api_key_def split: if_splits)
  have "scope_allowed caller ''admin''"
    using assms by (auto simp: create_api_key_def run_simps require_scope_ok)
  moreover from assms obtain w1 w2 w3 u d where
    "(if body_scopes = [] then ret [''read'']
       else andthen (of_sum (check_scopes body_scopes)) (\<lambda>_. ret body_scopes)) w = (Inr scopes, w1)"
    "generate_token env w1 = (Inr token, w2)" "exp w2 = (Inr expires, w3)"
    "sql_insert_api_key (ca_user_id caller) name (hash_token env token) (take 12 token @ ''...'')
       scopes expires (e_now env) u (w_db w3) = Inr (kid, d)" "w_db w' = d"
    by (simp add: create_api_key_def exp_def [symmetric] run_simps del: if_split) fastforce
  ultimately show ?thesis
    using sc [of w scopes w1] gen [of w1 token w2] exp [of w2 expires w3]
    by (auto simp: scope_admin_iff dest!: ins)
qed

end
