(* ===== verification/Stripe.thy ===== *)
theory Stripe
  imports ApiAuth
begin

text \<open>
  The Stripe client (\<open>crates/api/src/stripe.rs\<close>). A request is its path and its form;
  \<open>e_stripe\<close> answers the calls of a run, in their order, with a reply or with none when
  the transport fails. Every request is recorded, since Stripe may have acted on it.
\<close>

section \<open>Requests\<close>

definition is_success :: "nat \<Rightarrow> bool" where
  "is_success status = (200 \<le> status \<and> status < 300)"

definition stripe_post :: "env \<Rightarrow> string \<Rightarrow> string \<Rightarrow> (string \<times> string) list \<Rightarrow> stripe_reply proc" where
  "stripe_post env ctx path form w =
     (let w' = (tick w)\<lparr>w_log := w_log w @ [StripePost path form]\<rparr> in
      case Option.bind (e_stripe env) (\<lambda>f. f (w_calls w) path form) of
        None \<Rightarrow> (Inl (Anyhow (ctx @ '' request'')), w')
      | Some r \<Rightarrow> (Inr r, w'))"

definition parse_response ::
  "string \<Rightarrow> (json \<Rightarrow> 'a option) \<Rightarrow> stripe_reply \<Rightarrow> err + 'a" where
  "parse_response ctx conv r =
     (if \<not> is_success (sr_status r) then Inl (Anyhow ctx)
      else (case Option.bind (sr_body r) conv of None \<Rightarrow> Inl (Anyhow ctx) | Some x \<Rightarrow> Inr x))"

definition stripe_call ::
  "env \<Rightarrow> string \<Rightarrow> (json \<Rightarrow> 'a option) \<Rightarrow> string \<Rightarrow> (string \<times> string) list \<Rightarrow> 'a proc" where
  "stripe_call env ctx conv path form =
     andthen (stripe_post env ctx path form) (\<lambda>r. of_sum (parse_response ctx conv r))"

record checkout_session =
  cs_id :: string
  cs_url :: "string option"

record stripe_invoice =
  si_id :: string
  si_number :: "string option"
  si_status :: "string option"
  si_hosted_url :: "string option"
  si_pdf :: "string option"
  si_amount_due :: "int option"
  si_amount_paid :: "int option"
  si_created :: "int option"
  si_period_start :: "int option"
  si_period_end :: "int option"

definition parse_id :: "json \<Rightarrow> string option" where
  "parse_id j = req_field json_str j ''id''"

definition parse_session :: "json \<Rightarrow> checkout_session option" where
  "parse_session j =
     (case (req_field json_str j ''id'', opt_field json_str j ''url'') of
        (Some i, Some u) \<Rightarrow> Some \<lparr>cs_id = i, cs_url = u\<rparr>
      | _ \<Rightarrow> None)"

definition parse_invoice :: "json \<Rightarrow> stripe_invoice option" where
  "parse_invoice j =
     Option.bind (req_field json_str j ''id'') (\<lambda>i.
     Option.bind (opt_field json_str j ''number'') (\<lambda>number.
     Option.bind (opt_field json_str j ''status'') (\<lambda>status.
     Option.bind (opt_field json_str j ''hosted_invoice_url'') (\<lambda>hosted.
     Option.bind (opt_field json_str j ''invoice_pdf'') (\<lambda>pdf.
     Option.bind (opt_field json_i64 j ''amount_due'') (\<lambda>due.
     Option.bind (opt_field json_i64 j ''amount_paid'') (\<lambda>paid.
     Option.bind (opt_field json_i64 j ''created'') (\<lambda>created.
     Option.bind (opt_field json_i64 j ''period_start'') (\<lambda>pstart.
     Option.bind (opt_field json_i64 j ''period_end'') (\<lambda>pend.
     Some \<lparr>si_id = i, si_number = number, si_status = status, si_hosted_url = hosted,
           si_pdf = pdf, si_amount_due = due, si_amount_paid = paid, si_created = created,
           si_period_start = pstart, si_period_end = pend\<rparr>))))))))))"

definition create_customer :: "env \<Rightarrow> string \<Rightarrow> string \<Rightarrow> string \<Rightarrow> string proc" where
  "create_customer env name email workspace_id =
     stripe_call env ''Stripe: create customer'' parse_id ''/customers''
       [(''name'', name), (''email'', email), (''metadata[workspace_id]'', workspace_id)]"

definition create_topup_session ::
  "env \<Rightarrow> string \<Rightarrow> nat \<Rightarrow> string \<Rightarrow> string \<Rightarrow> checkout_session proc" where
  "create_topup_session env customer_id amount_cents success_url cancel_url =
     stripe_call env ''Stripe: create topup session'' parse_session ''/checkout/sessions''
       [(''customer'', customer_id), (''mode'', ''payment''),
        (''line_items[0][price_data][currency]'', ''usd''),
        (''line_items[0][price_data][product_data][name]'', ''Compute Credit Top-Up''),
        (''line_items[0][price_data][unit_amount]'', show_nat amount_cents),
        (''line_items[0][quantity]'', ''1''),
        (''success_url'', success_url), (''cancel_url'', cancel_url),
        (''metadata[type]'', ''topup''), (''invoice_creation[enabled]'', ''true'')]"

definition create_invoice ::
  "env \<Rightarrow> string \<Rightarrow> string \<Rightarrow> nat \<Rightarrow> (string \<times> string) list \<Rightarrow> stripe_invoice proc" where
  "create_invoice env customer_id description days_until_due metadata =
     stripe_call env ''Stripe: create invoice'' parse_invoice ''/invoices''
       ([(''customer'', customer_id), (''collection_method'', ''send_invoice''),
         (''days_until_due'', show_nat days_until_due), (''description'', description),
         (''auto_advance'', ''true'')] @ metadata)"

definition add_invoice_item :: "env \<Rightarrow> string \<Rightarrow> string \<Rightarrow> string \<Rightarrow> int \<Rightarrow> string proc" where
  "add_invoice_item env customer_id invoice_id description amount_cents =
     stripe_call env ''Stripe: add invoice item'' parse_id ''/invoiceitems''
       [(''customer'', customer_id), (''invoice'', invoice_id), (''description'', description),
        (''amount'', show_int amount_cents), (''currency'', ''usd'')]"

definition finalize_invoice :: "env \<Rightarrow> string \<Rightarrow> stripe_invoice proc" where
  "finalize_invoice env invoice_id =
     stripe_call env ''Stripe: finalize invoice'' parse_invoice
       (''/invoices/'' @ invoice_id @ ''/finalize'') []"

definition mark_invoice_paid :: "env \<Rightarrow> string \<Rightarrow> stripe_invoice proc" where
  "mark_invoice_paid env invoice_id =
     stripe_call env ''Stripe: mark invoice paid'' parse_invoice
       (''/invoices/'' @ invoice_id @ ''/pay'') [(''paid_out_of_band'', ''true'')]"

section \<open>Webhook signatures\<close>

record webhook_event =
  we_id :: string
  we_type :: string
  we_object :: json

definition abs_i64 :: "int \<Rightarrow> int" where
  "abs_i64 x = wrap_i64 \<bar>x\<bar>"

text \<open>
  \<open>StripeClient::verify_webhook\<close> (\<open>crates/api/src/stripe.rs\<close>): \<open>hmac key message\<close> is
  HMAC-SHA256 of the \<open>hmac\<close> crate, \<open>parse_event\<close> the deserialization of the body.
\<close>

definition verify_webhook ::
  "env \<Rightarrow> (string \<Rightarrow> string \<Rightarrow> string option) \<Rightarrow> (string \<Rightarrow> webhook_event option) \<Rightarrow>
   string \<Rightarrow> string \<Rightarrow> string \<Rightarrow> string + webhook_event" where
  "verify_webhook env hmac parse_event payload sig_header webhook_secret =
     (let parts = split_on (CHR '','') sig_header in
      case find_map (strip_prefix ''t='') parts of
        None \<Rightarrow> Inl ''Stripe webhook: missing timestamp''
      | Some timestamp \<Rightarrow>
      (case find_map (strip_prefix ''v1='') parts of
        None \<Rightarrow> Inl ''Stripe webhook: missing v1 signature''
      | Some expected_sig \<Rightarrow>
      (case hmac webhook_secret (timestamp @ ''.'' @ payload) of
        None \<Rightarrow> Inl ''Stripe webhook: invalid HMAC key''
      | Some mac \<Rightarrow>
          if hex_encode mac \<noteq> expected_sig then Inl ''Stripe webhook: signature mismatch''
          else
            (case parse_i64 timestamp of
               None \<Rightarrow> Inl ''Stripe webhook: invalid timestamp''
             | Some ts \<Rightarrow>
                 if 300 < abs_i64 (wrap_i64 (e_now env - ts))
                 then Inl ''Stripe webhook: timestamp too old (possible replay)''
                 else
                   (case parse_event payload of
                      None \<Rightarrow> Inl ''Stripe webhook: parse event body''
                    | Some ev \<Rightarrow> Inr ev)))))"

section \<open>Lemmas\<close>

lemma keeps_stripe_call [proc_rules]: "keeps I (stripe_call env ctx conv path form)"
proof -
  have "keeps I (stripe_post env ctx path form)"
    by (simp add: keeps_def stripe_post_def Let_def split: option.split)
  then show ?thesis unfolding stripe_call_def by (intro proc_rules)
qed

text \<open>A webhook is accepted only under a fresh timestamp that the secret's holder signed.\<close>

lemma find_map_Some: "find_map f xs = Some y \<Longrightarrow> \<exists>x \<in> set xs. f x = Some y"
  by (induction xs) (auto split: option.splits)

lemma verify_webhook_Inr:
  assumes "verify_webhook env hmac parse_event payload sig secret = Inr ev"
  shows "\<exists>timestamp mac ts. hmac secret (timestamp @ ''.'' @ payload) = Some mac \<and>
    find_map (strip_prefix ''v1='') (split_on (CHR '','') sig) = Some (hex_encode mac) \<and>
    parse_i64 timestamp = Some ts \<and> abs_i64 (wrap_i64 (e_now env - ts)) \<le> 300 \<and>
    parse_event payload = Some ev"
  using assms by (auto simp: verify_webhook_def Let_def not_less split: option.splits if_splits)

end
