(* ===== verification/Billing.thy ===== *)
theory Billing
  imports Stripe
begin

text \<open>
  Credits (\<open>crates/api/src/billing.rs\<close>): the usage events the subscriber stores, the
  aggregation of Liquid usage into debits, the monthly charge of Metal services, the
  reset of the free allowance, suspension and resumption through the outbox, and the
  Stripe webhook with its three money handlers. One definition per SQL statement, one per
  function. Balances are micro-credits in a \<open>BIGINT\<close> column, which raises an error on
  overflow; the \<open>i64\<close> arithmetic of the handlers wraps.
\<close>

definition MICROCREDITS_PER_CENT :: int where
  "MICROCREDITS_PER_CENT = 10000"

section \<open>Statements on the outbox\<close>

text \<open>\<open>INSERT INTO outbox (subject, payload)\<close>, used by every producer.\<close>

definition sql_insert_outbox :: "string \<Rightarrow> event \<Rightarrow> unit sql" where
  "sql_insert_outbox subject payload t u d =
     (if list_ex (\<lambda>r. ob_id r = u) (t_outbox d) then Inl UniqueViolation
      else Inr ((), d\<lparr>t_outbox := t_outbox d @
             [\<lparr>ob_id = u, ob_subject = subject, ob_payload = payload, ob_created_at = t\<rparr>]\<rparr>))"

section \<open>Usage events\<close>

definition sql_insert_usage :: "uuid \<Rightarrow> uuid \<Rightarrow> string \<Rightarrow> int \<Rightarrow> int \<Rightarrow> unit sql" where
  "sql_insert_usage wid sid eng quantity duration t u d =
     (if list_ex (\<lambda>r. ue_id r = u) (t_usage d) then Inl UniqueViolation
      else if \<not> workspace_exists wid d \<or> \<not> service_exists sid d then Inl ForeignKeyViolation
      else Inr ((), d\<lparr>t_usage := t_usage d @
             [\<lparr>ue_id = u, ue_workspace = wid, ue_service = sid, ue_engine = eng,
               ue_quantity = quantity, ue_duration_ms = duration, ue_billed = False,
               ue_created_at = t\<rparr>]\<rparr>))"

definition insert_metal_usage :: "env \<Rightarrow> metal_usage_event \<Rightarrow> unit proc" where
  "insert_metal_usage env ev =
     andthen (external env (Anyhow ''db pool'')) (\<lambda>_.
     andthen (parse_uuid env (Anyhow ''invalid workspace_id'') (mu_workspace_id ev)) (\<lambda>wid.
     andthen (parse_uuid env (Anyhow ''invalid service_id'') (mu_service_id ev)) (\<lambda>sid.
     query env (\<lambda>_. Anyhow ''insert metal usage'')
       (sql_insert_usage wid sid ''metal'' (wrap_i64 (int (mu_invocations ev)))
          (wrap_i64 (int (mu_duration_ms ev)))))))"

definition insert_liquid_usage :: "env \<Rightarrow> liquid_usage_event \<Rightarrow> unit proc" where
  "insert_liquid_usage env ev =
     andthen (external env (Anyhow ''db pool'')) (\<lambda>_.
     andthen (parse_uuid env (Anyhow ''invalid workspace_id'') (lu_workspace_id ev)) (\<lambda>wid.
     andthen (parse_uuid env (Anyhow ''invalid service_id'') (lu_service_id ev)) (\<lambda>sid.
     query env (\<lambda>_. Anyhow ''insert liquid usage'')
       (sql_insert_usage wid sid ''liquid'' (wrap_i64 (int (lu_invocations ev))) 0))))"

section \<open>Debits\<close>

text \<open>
  \<open>UPDATE workspaces SET balance = ... RETURNING\<close> read with \<open>query_one\<close>: exactly one row.
\<close>

definition sql_adjust_balance :: "(workspace_row \<Rightarrow> bool) \<Rightarrow> int \<Rightarrow> workspace_row sql" where
  "sql_adjust_balance p delta t u d =
     (case filter p (t_workspaces d) of
        [w] \<Rightarrow>
          if in_i64 (ws_balance w + delta)
          then Inr (w\<lparr>ws_balance := ws_balance w + delta\<rparr>,
                 d\<lparr>t_workspaces :=
                     update_where p (\<lambda>r. r\<lparr>ws_balance := ws_balance r + delta\<rparr>) (t_workspaces d)\<rparr>)
          else Inl NumericOverflow
      | _ \<Rightarrow> Inl RowCount)"

definition sql_insert_ledger ::
  "uuid \<Rightarrow> int \<Rightarrow> string \<Rightarrow> string \<Rightarrow> string option \<Rightarrow> int \<Rightarrow> unit sql" where
  "sql_insert_ledger wid amount kind description reference balance_after t u d =
     (if \<not> ledger_kind_check kind then Inl CheckViolation
      else if list_ex (\<lambda>r. le_id r = u) (t_ledger d) then Inl UniqueViolation
      else if \<not> workspace_exists wid d then Inl ForeignKeyViolation
      else Inr ((), d\<lparr>t_ledger := t_ledger d @
             [\<lparr>le_id = u, le_workspace = wid, le_amount = amount, le_kind = kind,
               le_description = description, le_reference = reference,
               le_balance_after = balance_after, le_session = None, le_created_at = t\<rparr>]\<rparr>))"

definition deduct_balance :: "env \<Rightarrow> uuid \<Rightarrow> int \<Rightarrow> string \<Rightarrow> string \<Rightarrow> int proc" where
  "deduct_balance env workspace_id cost kind description =
     andthen (stmt env (\<lambda>_. Anyhow ''deduct workspace balance'')
                (sql_adjust_balance (\<lambda>w. ws_id w = workspace_id) (- cost))) (\<lambda>row.
     andthen (stmt env (\<lambda>_. Anyhow ''insert credit ledger'')
                (sql_insert_ledger workspace_id (wrap_i64 (- cost)) kind description None
                   (ws_balance row))) (\<lambda>_.
     ret (ws_balance row)))"

section \<open>Suspension\<close>

definition sql_has_active :: "uuid \<Rightarrow> bool sql" where
  "sql_has_active wid t u d =
     Inr (list_ex (\<lambda>s. sv_workspace s = wid \<and> sv_status s \<in> {''running'', ''provisioning''} \<and>
                       sv_deleted_at s = None) (t_services d), d)"

definition insert_suspend_outbox :: "env \<Rightarrow> uuid \<Rightarrow> unit proc" where
  "insert_suspend_outbox env workspace_id =
     andthen (stmt env (\<lambda>_. Anyhow ''check active services'') (sql_has_active workspace_id))
       (\<lambda>has_active.
     if \<not> has_active then ret ()
     else stmt env (\<lambda>_. Anyhow ''insert suspend outbox'')
            (sql_insert_outbox subject_suspend
               (EvSuspend \<lparr>su_workspace_id = e_uuid_str env workspace_id,
                           su_reason = ''balance depleted''\<rparr>)))"

section \<open>Liquid aggregation\<close>

record liquid_usage_row =
  lr_workspace :: uuid
  lr_invocations :: int
  lr_ids :: "uuid list"
  lr_free_used :: "int option"

definition unbilled_liquid :: "usage_row \<Rightarrow> bool" where
  "unbilled_liquid r = (\<not> ue_billed r \<and> ue_engine r = ''liquid'')"

definition find_workspace :: "uuid \<Rightarrow> db \<Rightarrow> workspace_row option" where
  "find_workspace wid d = find (\<lambda>w. ws_id w = wid) (t_workspaces d)"

text \<open>
  The grouped query: one row per workspace with unbilled Liquid usage. No other
  transaction holds a lock here, so \<open>SKIP LOCKED\<close> skips nothing.
\<close>

definition sql_unbilled_liquid :: "liquid_usage_row list sql" where
  "sql_unbilled_liquid t u d =
     (let rs = filter unbilled_liquid (t_usage d) in
      Inr (map (\<lambda>wid. \<lparr>lr_workspace = wid,
                        lr_invocations = sum_list (map ue_quantity (filter (\<lambda>r. ue_workspace r = wid) rs)),
                        lr_ids = map ue_id (filter (\<lambda>r. ue_workspace r = wid) rs),
                        lr_free_used = map_option ws_free_used (find_workspace wid d)\<rparr>)
             (remdups (map ue_workspace rs)), d))"

definition sql_add_free_used :: "int \<Rightarrow> uuid \<Rightarrow> unit sql" where
  "sql_add_free_used n wid t u d =
     (if list_all (\<lambda>w. ws_id w = wid \<longrightarrow> in_i64 (ws_free_used w + n)) (t_workspaces d)
      then Inr ((), d\<lparr>t_workspaces :=
             update_where (\<lambda>w. ws_id w = wid) (\<lambda>w. w\<lparr>ws_free_used := ws_free_used w + n\<rparr>)
               (t_workspaces d)\<rparr>)
      else Inl NumericOverflow)"

definition sql_mark_billed :: "uuid list \<Rightarrow> unit sql" where
  "sql_mark_billed ids t u d =
     Inr ((), d\<lparr>t_usage := update_where (\<lambda>r. ue_id r \<in> set ids) (\<lambda>r. r\<lparr>ue_billed := True\<rparr>)
                 (t_usage d)\<rparr>)"

definition free_consumed_of :: "int \<Rightarrow> int \<Rightarrow> int" where
  "free_consumed_of invocations free_used =
     min invocations (max (wrap_i64 (FREE_LIQUID_INVOCATIONS - free_used)) 0)"

definition liquid_cost :: "int \<Rightarrow> int" where
  "liquid_cost billable = wrap_i64 (billable * LIQUID_PRICE_PER_MILLION) sdiv 1000000"

text \<open>The body of the loop after the row has been decoded.\<close>

definition bill_liquid :: "env \<Rightarrow> uuid \<Rightarrow> int \<Rightarrow> uuid list \<Rightarrow> int \<Rightarrow> unit proc" where
  "bill_liquid env wid invocations ids free_used =
     (let free_consumed = free_consumed_of invocations free_used;
          billable = wrap_i64 (invocations - free_consumed);
          cost = liquid_cost billable
      in andthen (if 0 < free_consumed
                  then stmt env (\<lambda>_. Anyhow ''update free_invocations_used'')
                         (sql_add_free_used free_consumed wid)
                  else ret ()) (\<lambda>_.
         andthen (if 0 < billable \<and> 0 < cost then
                    andthen (deduct_balance env wid cost ''usage_liquid'' ''Wasm invocations'')
                      (\<lambda>balance_after.
                    if balance_after \<le> 0 then insert_suspend_outbox env wid else ret ())
                  else ret ()) (\<lambda>_.
         stmt env (\<lambda>_. Anyhow ''mark liquid billed'') (sql_mark_billed ids))))"

definition bill_liquid_row :: "env \<Rightarrow> liquid_usage_row \<Rightarrow> unit proc" where
  "bill_liquid_row env row =
     andthen (decode_i64 env Numeric (lr_invocations row)) (\<lambda>invocations.
     bill_liquid env (lr_workspace row) invocations (lr_ids row)
       (case lr_free_used row of None \<Rightarrow> 0 | Some n \<Rightarrow> n))"

definition aggregate_txn :: "env \<Rightarrow> unit tx_end proc" where
  "aggregate_txn env =
     andthen (stmt env (\<lambda>_. Anyhow ''aggregate liquid usage'') sql_unbilled_liquid) (\<lambda>rows.
     andthen (for_each (bill_liquid_row env) rows) (\<lambda>_.
     ret (Commit ())))"

definition aggregate_once :: "env \<Rightarrow> unit proc" where
  "aggregate_once env =
     andthen (external env (Anyhow ''db pool'')) (\<lambda>_.
     transact env (Anyhow ''begin'') (Anyhow ''billing aggregator commit'') (aggregate_txn env))"

section \<open>Metal billing cycle\<close>

definition days :: "int \<Rightarrow> int" where
  "days n = 86400 * n"

definition metal_due :: "int \<Rightarrow> service_row \<Rightarrow> bool" where
  "metal_due t s =
     (sv_engine s = ''metal'' \<and>
      (case sv_cycle_start s of None \<Rightarrow> False | Some c \<Rightarrow> c + days 30 \<le> t) \<and>
      sv_status s \<in> {''running'', ''provisioning''} \<and> sv_deleted_at s = None)"

definition sql_metal_due :: "service_row list sql" where
  "sql_metal_due t u d = Inr (filter (metal_due t) (t_services d), d)"

definition sql_advance_cycle :: "uuid \<Rightarrow> unit sql" where
  "sql_advance_cycle sid t u d =
     Inr ((), d\<lparr>t_services :=
        update_where (\<lambda>s. sv_id s = sid)
          (\<lambda>s. s\<lparr>sv_cycle_start := map_option (\<lambda>c. c + days 30) (sv_cycle_start s)\<rparr>)
          (t_services d)\<rparr>)"

definition charge_metal :: "env \<Rightarrow> uuid \<Rightarrow> uuid \<Rightarrow> int \<Rightarrow> unit proc" where
  "charge_metal env service_id workspace_id monthly_price_cents =
     (let cost = wrap_i64 (monthly_price_cents * MICROCREDITS_PER_CENT)
      in andthen (if 0 < cost then
                    andthen (deduct_balance env workspace_id cost ''metal_monthly''
                               (''Metal monthly (service '' @ e_uuid_str env service_id @ '')''))
                      (\<lambda>balance_after.
                    andthen (insert_suspend_outbox env workspace_id) (\<lambda>_.
                    if balance_after \<le> 0 then ret () else ret ()))
                  else ret ()) (\<lambda>_.
         stmt env (\<lambda>_. Anyhow ''advance billing_cycle_start'') (sql_advance_cycle service_id)))"

text \<open>\<open>monthly_price_cents\<close> is \<open>INTEGER\<close> (V40) and may be null; it is decoded as \<open>i64\<close>.\<close>

definition charge_metal_row :: "env \<Rightarrow> service_row \<Rightarrow> unit proc" where
  "charge_metal_row env s =
     andthen (case sv_price_cents s of
                None \<Rightarrow> throw (Panicked ''error retrieving column'')
              | Some p \<Rightarrow> decode_i64 env Int4 p) (\<lambda>price.
     charge_metal env (sv_id s) (sv_workspace s) price)"

definition metal_billing_txn :: "env \<Rightarrow> unit tx_end proc" where
  "metal_billing_txn env =
     andthen (stmt env (\<lambda>_. Anyhow ''find metal services due for billing'') sql_metal_due) (\<lambda>rows.
     andthen (for_each (charge_metal_row env) rows) (\<lambda>_.
     ret (Commit ())))"

definition metal_billing_once :: "env \<Rightarrow> unit proc" where
  "metal_billing_once env =
     andthen (external env (Anyhow ''db pool'')) (\<lambda>_.
     transact env (Anyhow ''begin'') (Anyhow ''metal billing cycle commit'') (metal_billing_txn env))"

section \<open>Reset of the free allowance\<close>

definition free_reset_due :: "env \<Rightarrow> int \<Rightarrow> workspace_row \<Rightarrow> bool" where
  "free_reset_due env t w = (e_add_month env (ws_free_reset_at w) \<le> t \<and> ws_deleted_at w = None)"

definition sql_reset_free :: "env \<Rightarrow> nat sql" where
  "sql_reset_free env t u d =
     Inr (length (filter (free_reset_due env t) (t_workspaces d)),
          d\<lparr>t_workspaces :=
             update_where (free_reset_due env t)
               (\<lambda>w. w\<lparr>ws_free_used := 0, ws_free_reset_at := e_add_month env (ws_free_reset_at w)\<rparr>)
               (t_workspaces d)\<rparr>)"

definition free_invocations_reset_once :: "env \<Rightarrow> unit proc" where
  "free_invocations_reset_once env =
     andthen (external env (Anyhow ''db pool'')) (\<lambda>_.
     andthen (query env (\<lambda>_. Anyhow ''reset free invocations'') (sql_reset_free env)) (\<lambda>n.
     ret ()))"

section \<open>Resumption after a top-up\<close>

definition latest_deployment :: "uuid \<Rightarrow> db \<Rightarrow> deployment_row option" where
  "latest_deployment sid d =
     (case rev (sort_key dl_created_at (filter (\<lambda>x. dl_service x = sid) (t_deployments d))) of
        [] \<Rightarrow> None
      | x # xs \<Rightarrow> Some x)"

definition suspended_in :: "uuid \<Rightarrow> service_row \<Rightarrow> bool" where
  "suspended_in wid s =
     (sv_workspace s = wid \<and> sv_status s = ''suspended'' \<and> sv_deleted_at s = None)"

definition sql_suspended :: "uuid \<Rightarrow> (service_row \<times> string option) list sql" where
  "sql_suspended wid t u d =
     Inr (map (\<lambda>s. (s, map_option dl_artifact_key (latest_deployment (sv_id s) d)))
            (filter (suspended_in wid) (t_services d)), d)"

definition sql_set_status :: "string \<Rightarrow> uuid \<Rightarrow> unit sql" where
  "sql_set_status status sid t u d =
     (if service_status_check status \<or> \<not> service_exists sid d
      then Inr ((), d\<lparr>t_services :=
             update_where (\<lambda>s. sv_id s = sid) (\<lambda>s. s\<lparr>sv_status := status\<rparr>) (t_services d)\<rparr>)
      else Inl CheckViolation)"

definition engine_spec_of :: "env \<Rightarrow> engine \<Rightarrow> int \<Rightarrow> int \<Rightarrow> int \<Rightarrow> string \<Rightarrow> engine_spec" where
  "engine_spec_of env eng vcpu memory_mb port artifact_key =
     (case eng of
        Metal \<Rightarrow> SpecMetal \<lparr>ms_vcpu = wrap_u32 vcpu, ms_memory_mb = wrap_u32 memory_mb,
                   ms_port = wrap_u16 port, ms_artifact_key = artifact_key,
                   ms_artifact_sha256 = None, ms_quota = e_default_quota env\<rparr>
      | Liquid \<Rightarrow> SpecLiquid \<lparr>ls_artifact_key = artifact_key, ls_artifact_sha256 = None\<rparr>)"

definition unsuspend_event :: "env \<Rightarrow> service_row \<Rightarrow> string \<Rightarrow> engine \<Rightarrow> event" where
  "unsuspend_event env s artifact_key eng =
     EvProvision
       \<lparr>pe_tenant_id = e_uuid_str env (sv_workspace s),
        pe_service_id = e_uuid_str env (sv_id s),
        pe_app_name = sv_name s,
        pe_slug = sv_slug s,
        pe_engine = eng,
        pe_spec = engine_spec_of env eng (sv_vcpu s) (sv_memory_mb s) (sv_port s) artifact_key,
        pe_env_vars = read_project_env_vars env (sv_workspace s) (sv_project s) ++
                      read_env_vars env (sv_workspace s) (sv_id s)\<rparr>"

definition unsuspend_service :: "env \<Rightarrow> service_row \<times> string option \<Rightarrow> unit proc" where
  "unsuspend_service env row =
     (case snd row of
        None \<Rightarrow> ret ()
      | Some artifact_key \<Rightarrow>
          (case engine_from_str (sv_engine (fst row)) of
             Inl _ \<Rightarrow> ret ()
           | Inr eng \<Rightarrow>
               andthen (stmt env (\<lambda>e. internal (''mark provisioning: '' @ e_show_sql env e))
                          (sql_set_status ''provisioning'' (sv_id (fst row)))) (\<lambda>_.
               stmt env (\<lambda>e. internal (''unsuspend outbox: '' @ e_show_sql env e))
                 (sql_insert_outbox subject_provision
                    (unsuspend_event env (fst row) artifact_key eng)))))"

definition enqueue_unsuspend :: "env \<Rightarrow> uuid \<Rightarrow> unit proc" where
  "enqueue_unsuspend env workspace_id =
     andthen (stmt env (\<lambda>e. internal (''unsuspend query: '' @ e_show_sql env e))
                (sql_suspended workspace_id)) (\<lambda>rows.
     for_each (unsuspend_service env) rows)"

section \<open>Stripe webhook\<close>

subsection \<open>Completed checkouts\<close>

definition customer_is :: "string \<Rightarrow> workspace_row \<Rightarrow> bool" where
  "customer_is customer w = (ws_stripe_customer w = Some customer \<and> ws_deleted_at w = None)"

text \<open>
  \<open>INSERT INTO credit_ledger ... SELECT id FROM workspaces\<close>: no row when no workspace has
  the customer; \<open>stripe_session_id\<close> is unique (V25), so two rows would collide.
\<close>

definition sql_insert_topup :: "int \<Rightarrow> string \<Rightarrow> string \<Rightarrow> string \<Rightarrow> unit sql" where
  "sql_insert_topup credits payment_intent customer session t u d =
     (case filter (customer_is customer) (t_workspaces d) of
        [] \<Rightarrow> Inr ((), d)
      | [w] \<Rightarrow>
          if list_ex (\<lambda>r. le_id r = u \<or> le_session r = Some session) (t_ledger d)
          then Inl UniqueViolation
          else Inr ((), d\<lparr>t_ledger := t_ledger d @
                 [\<lparr>le_id = u, le_workspace = ws_id w, le_amount = credits, le_kind = ''topup'',
                   le_description = ''credit top-up'', le_reference = Some payment_intent,
                   le_balance_after = 0, le_session = Some session, le_created_at = t\<rparr>]\<rparr>)
      | _ \<Rightarrow> Inl UniqueViolation)"

definition sql_patch_ledger :: "int \<Rightarrow> string \<Rightarrow> unit sql" where
  "sql_patch_ledger balance_after session t u d =
     Inr ((), d\<lparr>t_ledger :=
        update_where (\<lambda>r. le_session r = Some session)
          (\<lambda>r. r\<lparr>le_balance_after := balance_after\<rparr>) (t_ledger d)\<rparr>)"

definition checkout_txn :: "env \<Rightarrow> string \<Rightarrow> string \<Rightarrow> int \<Rightarrow> string \<Rightarrow> unit tx_end proc" where
  "checkout_txn env session_id customer_id credits payment_intent =
     andthen (try_stmt env (sql_insert_topup credits payment_intent customer_id session_id)) (\<lambda>result.
     case result of
       Inl e \<Rightarrow> if e = UniqueViolation then ret (Rollback ())
                else throw (internal (''ledger: '' @ e_show_sql env e))
     | Inr _ \<Rightarrow>
         andthen (stmt env (\<lambda>e. internal (''topup: '' @ e_show_sql env e))
                    (sql_adjust_balance (customer_is customer_id) credits)) (\<lambda>row.
         andthen (stmt env (\<lambda>e. internal (''ledger patch: '' @ e_show_sql env e))
                    (sql_patch_ledger (ws_balance row) session_id)) (\<lambda>_.
         andthen (if 0 < ws_balance row then enqueue_unsuspend env (ws_id row) else ret ()) (\<lambda>_.
         ret (Commit ())))))"

definition txn_begin_err :: "env \<Rightarrow> err" where
  "txn_begin_err env = internal (''txn: '' @ e_show_sql env ConnectionError)"

definition txn_commit_err :: "env \<Rightarrow> err" where
  "txn_commit_err env = internal (''commit: '' @ e_show_sql env ConnectionError)"

definition handle_checkout_completed :: "env \<Rightarrow> json \<Rightarrow> unit proc" where
  "handle_checkout_completed env obj =
     (if or_default [] (get_str obj ''mode'') \<noteq> ''payment'' then ret ()
      else if or_default [] (Option.bind (json_get obj ''metadata'') (\<lambda>m. get_str m ''type''))
              \<noteq> ''topup'' then ret ()
      else
        andthen (of_option (bad_request ''invalid_payload'' ''missing session id'')
                   (get_str obj ''id'')) (\<lambda>session_id.
        andthen (of_option (bad_request ''invalid_payload'' ''missing customer'')
                   (get_str obj ''customer'')) (\<lambda>customer_id.
        let amount_total = or_default 0 (get_i64 obj ''amount_total'');
            payment_intent = or_default [] (get_str obj ''payment_intent'');
            credits = wrap_i64 (amount_total * MICROCREDITS_PER_CENT)
        in andthen (db_conn env) (\<lambda>_.
           transact env (txn_begin_err env) (txn_commit_err env)
             (checkout_txn env session_id customer_id credits payment_intent)))))"

subsection \<open>Refunds\<close>

definition refund_txn :: "env \<Rightarrow> string \<Rightarrow> string \<Rightarrow> int \<Rightarrow> unit tx_end proc" where
  "refund_txn env customer_id charge_id credits =
     andthen (stmt env (\<lambda>e. internal (''refund deduct: '' @ e_show_sql env e))
                (sql_adjust_balance (customer_is customer_id) (- credits))) (\<lambda>row.
     andthen (stmt env (\<lambda>e. internal (''refund ledger: '' @ e_show_sql env e))
                (sql_insert_ledger (ws_id row) (wrap_i64 (- credits)) ''refund'' ''Stripe refund''
                   (Some charge_id) (ws_balance row))) (\<lambda>_.
     andthen (if ws_balance row \<le> 0
                then map_anyhow (\<lambda>s. internal (''suspend outbox: '' @ s))
                       (insert_suspend_outbox env (ws_id row))
                else ret ()) (\<lambda>_.
     ret (Commit ()))))"

definition handle_charge_refunded :: "env \<Rightarrow> json \<Rightarrow> unit proc" where
  "handle_charge_refunded env obj =
     (let amount_refunded = or_default 0 (get_i64 obj ''amount_refunded'')
      in if amount_refunded = 0 then ret ()
         else
           andthen (of_option (bad_request ''invalid_payload'' ''missing customer in charge.refunded'')
                      (get_str obj ''customer'')) (\<lambda>customer_id.
           let charge_id = or_default [] (get_str obj ''id'');
               credits = wrap_i64 (amount_refunded * MICROCREDITS_PER_CENT)
           in andthen (db_conn env) (\<lambda>_.
              transact env (txn_begin_err env) (txn_commit_err env)
                (refund_txn env customer_id charge_id credits))))"

subsection \<open>Failed payments\<close>

definition sql_topup_by_reference :: "string \<Rightarrow> ledger_row option sql" where
  "sql_topup_by_reference reference t u d =
     (case filter (\<lambda>r. le_reference r = Some reference \<and> le_kind r = ''topup'') (t_ledger d) of
        [] \<Rightarrow> Inr (None, d)
      | [r] \<Rightarrow> Inr (Some r, d)
      | _ \<Rightarrow> Inl RowCount)"

definition payment_failed_text :: string where
  "payment_failed_text = ''payment failed '' @ em_dash @ '' credit reversed''"

definition reversal_txn :: "env \<Rightarrow> uuid \<Rightarrow> string \<Rightarrow> int \<Rightarrow> unit tx_end proc" where
  "reversal_txn env workspace_id pi_id original_amount =
     andthen (stmt env (\<lambda>e. internal (''reverse credit: '' @ e_show_sql env e))
                (sql_adjust_balance (\<lambda>w. ws_id w = workspace_id) (- original_amount))) (\<lambda>row.
     andthen (stmt env (\<lambda>e. internal (''reversal ledger: '' @ e_show_sql env e))
                (sql_insert_ledger workspace_id (wrap_i64 (- original_amount)) ''refund''
                   payment_failed_text (Some pi_id) (ws_balance row))) (\<lambda>_.
     andthen (if ws_balance row \<le> 0
                then map_anyhow (\<lambda>s. internal (''suspend outbox: '' @ s))
                       (insert_suspend_outbox env workspace_id)
                else ret ()) (\<lambda>_.
     ret (Commit ()))))"

definition handle_payment_failed :: "env \<Rightarrow> json \<Rightarrow> unit proc" where
  "handle_payment_failed env obj =
     (let pi_id = or_default [] (get_str obj ''id'') in
      andthen (db_conn env) (\<lambda>_.
      andthen (query env (\<lambda>e. internal (''ledger lookup: '' @ e_show_sql env e))
                 (sql_topup_by_reference pi_id)) (\<lambda>found.
      case found of
        None \<Rightarrow> ret ()
      | Some row \<Rightarrow>
          andthen (db_conn env) (\<lambda>_.
          transact env (txn_begin_err env) (txn_commit_err env)
            (reversal_txn env (le_workspace row) pi_id (le_amount row))))))"

subsection \<open>The webhook itself\<close>

definition dispatch_webhook :: "env \<Rightarrow> webhook_event \<Rightarrow> unit proc" where
  "dispatch_webhook env ev =
     (if we_type ev = ''checkout.session.completed''
      then handle_checkout_completed env (we_object ev)
      else if we_type ev = ''checkout.session.expired'' then ret ()
      else if we_type ev = ''charge.refunded'' then handle_charge_refunded env (we_object ev)
      else if we_type ev = ''payment_intent.payment_failed''
      then handle_payment_failed env (we_object ev)
      else ret ())"

definition stripe_webhook ::
  "env \<Rightarrow> (string \<Rightarrow> string \<Rightarrow> string option) \<Rightarrow> (string \<Rightarrow> webhook_event option) \<Rightarrow>
   (string \<rightharpoonup> string) \<Rightarrow> string \<Rightarrow> unit proc" where
  "stripe_webhook env hmac parse_event headers body =
     andthen (ensure (e_stripe env \<noteq> None) (unavailable ''billing not configured'')) (\<lambda>_.
     andthen (of_option (bad_request ''missing_signature'' ''missing Stripe-Signature header'')
                (header_str env headers ''stripe-signature'')) (\<lambda>sig.
     andthen (of_option (unavailable ''webhook secret not configured'')
                (e_webhook_secret env)) (\<lambda>webhook_secret.
     andthen (case verify_webhook env hmac parse_event body sig webhook_secret of
                Inl _ \<Rightarrow> throw (forbidden ''invalid webhook signature'')
              | Inr ev \<Rightarrow> ret ev) (\<lambda>ev.
     dispatch_webhook env ev))))"

end
