(* ===== verification/Ledger.thy ===== *)
theory Ledger
  imports Billing
begin

text \<open>
  The books of the platform: what the handlers of \<open>crates/api/src/billing.rs\<close> promise
  about \<open>workspaces.balance\<close> and \<open>credit_ledger\<close>. The specification sees the accounts
  (identifier and balance of every workspace) and the ledger only; \<open>money_frame\<close> is the
  contract of an invariant on the two, and gives that every statement that moves no money
  keeps it.
\<close>

section \<open>The books\<close>

definition accounts :: "db \<Rightarrow> (uuid \<times> int) list" where
  "accounts d = map (\<lambda>w. (ws_id w, ws_balance w)) (t_workspaces d)"

definition entries_of :: "uuid \<Rightarrow> ledger_row list \<Rightarrow> ledger_row list" where
  "entries_of a led = filter (\<lambda>r. le_workspace r = a) led"

text \<open>Each entry records the balance after it.\<close>

fun running :: "int \<Rightarrow> ledger_row list \<Rightarrow> bool" where
  "running b [] = True"
| "running b (r # rs) = (le_balance_after r = b + le_amount r \<and> running (b + le_amount r) rs)"

definition exact_i64 :: "int \<Rightarrow> bool" where
  "exact_i64 x = (in_i64 x \<and> in_i64 (- x))"

definition sessions :: "ledger_row list \<Rightarrow> string list" where
  "sessions led = List.map_filter le_session led"

definition books_ok :: "(uuid \<times> int) list \<Rightarrow> ledger_row list \<Rightarrow> bool" where
  "books_ok accs led =
     (distinct (map fst accs) \<and>
      (\<forall>(a, b) \<in> set accs. running 0 (entries_of a led) \<and>
         b = sum_list (map le_amount (entries_of a led))) \<and>
      distinct (sessions led) \<and>
      (\<forall>r \<in> set led. le_workspace r \<in> fst ` set accs \<and> exact_i64 (le_amount r)))"

definition ledger_ok :: "db \<Rightarrow> bool" where
  "ledger_ok d = books_ok (accounts d) (t_ledger d)"

definition book :: "uuid \<Rightarrow> int \<Rightarrow> (uuid \<times> int) list \<Rightarrow> (uuid \<times> int) list" where
  "book a x accs = map (\<lambda>(c, b). (c, if c = a then b + x else b)) accs"

lemma entries_of_append [simp]:
  "entries_of a (led @ [r]) = entries_of a led @ (if le_workspace r = a then [r] else [])"
  by (simp add: entries_of_def)

lemma sessions_append [simp]:
  "sessions (led @ [r]) =
     sessions led @ (case le_session r of None \<Rightarrow> [] | Some s \<Rightarrow> [s])"
  by (simp add: sessions_def map_filter_def split: option.split)

lemma sessions_iff: "s \<in> set (sessions led) \<longleftrightarrow> (\<exists>r \<in> set led. le_session r = Some s)"
  by (force simp: sessions_def map_filter_def)

lemma running_append:
  "running b (rs @ [r]) \<longleftrightarrow>
   running b rs \<and> le_balance_after r = b + sum_list (map le_amount rs) + le_amount r"
  by (induction rs arbitrary: b) (auto simp: algebra_simps)

lemma fst_book [simp]: "map fst (book a x accs) = map fst accs"
  by (simp add: book_def case_prod_beta comp_def)

lemma in_book:
  "(c, b) \<in> set (book a x accs) \<longleftrightarrow>
   (if c = a then (c, b - x) \<in> set accs else (c, b) \<in> set accs)"
  by (force simp: book_def)

text \<open>Posting an entry together with its booking keeps the books.\<close>

lemma books_post:
  assumes ok: "books_ok accs led" and acc: "(a, b) \<in> set accs"
    and r: "le_workspace r = a" "le_amount r = x" "le_balance_after r = b + x" "exact_i64 x"
    and s: "\<And>s. le_session r = Some s \<Longrightarrow> s \<notin> set (sessions led)"
  shows "books_ok (book a x accs) (led @ [r])"
proof -
  have b: "b = sum_list (map le_amount (entries_of a led))" "running 0 (entries_of a led)"
    using ok acc by (auto simp: books_ok_def)
  have "running 0 (entries_of c (led @ [r])) \<and> y = sum_list (map le_amount (entries_of c (led @ [r])))"
    if "(c, y) \<in> set (book a x accs)" for c y
  proof (cases "c = a")
    case True
    with that have "(a, y - x) \<in> set accs" by (simp add: in_book)
    then have "y - x = b" using ok b(1) by (auto simp: books_ok_def)
    with True b r show ?thesis by (simp add: running_append)
  next
    case False
    with that have "(c, y) \<in> set accs" by (simp add: in_book)
    with False r ok show ?thesis by (auto simp: books_ok_def)
  qed
  moreover have "distinct (sessions (led @ [r]))"
    using ok s by (auto simp: books_ok_def split: option.split)
  moreover have "\<forall>q \<in> set (led @ [r]). le_workspace q \<in> fst ` set (book a x accs) \<and>
      exact_i64 (le_amount q)"
  proof -
    have "fst ` set (book a x accs) = fst ` set accs"
      by (metis fst_book set_map)
    then show ?thesis using ok acc r by (force simp: books_ok_def)
  qed
  ultimately show ?thesis using ok by (auto simp: books_ok_def)
qed

section \<open>Statements and the books\<close>

lemma accounts_update_where:
  assumes "distinct (map ws_id ws)" and "filter p ws = [w]"
  shows "map (\<lambda>w. (ws_id w, ws_balance w))
           (update_where p (\<lambda>r. r\<lparr>ws_balance := ws_balance r + x\<rparr>) ws) =
         book (ws_id w) x (map (\<lambda>w. (ws_id w, ws_balance w)) ws)"
proof -
  have "w \<in> set ws \<and> p w"
    using filter_singletonD [OF assms(2)] .
  have "p v \<longleftrightarrow> ws_id v = ws_id w" if v: "v \<in> set ws" for v
  proof
    assume "p v"
    with v have "v \<in> set (filter p ws)" by simp
    with assms(2) show "ws_id v = ws_id w" by simp
  next
    assume "ws_id v = ws_id w"
    with v \<open>w \<in> set ws \<and> p w\<close> assms(1) have "v = w"
      by (metis distinct_map inj_onD)
    with \<open>w \<in> set ws \<and> p w\<close> show "p v" by simp
  qed
  then show ?thesis by (simp add: update_where_def book_def comp_def)
qed

lemma adjust_balance_accounts:
  assumes "distinct (map fst (accounts d))" and "sql_adjust_balance p x t u d = Inr (w', d')"
  shows "accounts d' = book (ws_id w') x (accounts d)" "t_ledger d' = t_ledger d"
    "(ws_id w', ws_balance w' - x) \<in> set (accounts d)"
    "\<exists>w. filter p (t_workspaces d) = [w] \<and> ws_id w' = ws_id w"
proof -
  from assms(2) obtain w where w: "filter p (t_workspaces d) = [w]"
    and w': "w' = w\<lparr>ws_balance := ws_balance w + x\<rparr>"
    and d': "d' = d\<lparr>t_workspaces :=
      update_where p (\<lambda>r. r\<lparr>ws_balance := ws_balance r + x\<rparr>) (t_workspaces d)\<rparr>"
    by (auto simp: sql_adjust_balance_def split: list.splits if_splits)
  have "distinct (map ws_id (t_workspaces d))"
    using assms(1) by (simp add: accounts_def comp_def)
  from accounts_update_where [OF this w]
  show "accounts d' = book (ws_id w') x (accounts d)" by (simp add: accounts_def d' w')
  show "t_ledger d' = t_ledger d" by (simp add: d')
  have "w \<in> set (t_workspaces d)" using filter_singletonD [OF w] by simp
  then show "(ws_id w', ws_balance w' - x) \<in> set (accounts d)" by (auto simp: accounts_def w')
  show "\<exists>w. filter p (t_workspaces d) = [w] \<and> ws_id w' = ws_id w" using w w' by simp
qed

lemma insert_ledger_effect:
  assumes "sql_insert_ledger wid x kind desc ref b t u d = Inr (y, d')"
  shows "accounts d' = accounts d"
    "\<exists>r. t_ledger d' = t_ledger d @ [r] \<and> le_workspace r = wid \<and> le_amount r = x \<and>
         le_balance_after r = b \<and> le_session r = None"
  using assms by (auto simp: sql_insert_ledger_def accounts_def split: if_splits)

text \<open>The two statements of every debit, together.\<close>

lemma adjust_then_insert:
  assumes ok: "ledger_ok d" and a: "sql_adjust_balance p x t u d = Inr (w, d1)"
    and i: "sql_insert_ledger (ws_id w) x kind desc ref (ws_balance w) t' u' d1 = Inr (y, d2)"
    and x: "exact_i64 x"
  shows "ledger_ok d2"
proof -
  have "distinct (map fst (accounts d))" using ok by (simp add: ledger_ok_def books_ok_def)
  note A = adjust_balance_accounts [OF this a] and L = insert_ledger_effect [OF i]
  from L(2) obtain r where r: "t_ledger d2 = t_ledger d1 @ [r]" "le_workspace r = ws_id w"
    "le_amount r = x" "le_balance_after r = ws_balance w" "le_session r = None" by blast
  have "books_ok (book (ws_id w) x (accounts d)) (t_ledger d @ [r])"
    by (rule books_post [OF _ A(3)]) (use ok r x in \<open>auto simp: ledger_ok_def\<close>)
  then show ?thesis by (simp add: ledger_ok_def L(1) A r)
qed

section \<open>Statements that move no money\<close>

definition no_money :: "'a sql \<Rightarrow> bool" where
  "no_money f =
     (\<forall>t u d x d'. f t u d = Inr (x, d') \<longrightarrow>
        accounts d' = accounts d \<and> t_ledger d' = t_ledger d)"

named_theorems money_rules

lemma no_moneyI:
  "(\<And>t u d x d'. f t u d = Inr (x, d') \<Longrightarrow> accounts d' = accounts d \<and> t_ledger d' = t_ledger d) \<Longrightarrow>
   no_money f"
  by (simp add: no_money_def)

lemma no_money_insert_outbox [money_rules]: "no_money (sql_insert_outbox s e)"
  by (rule no_moneyI) (auto simp: sql_insert_outbox_def accounts_def split: if_splits)

lemma no_money_insert_usage [money_rules]: "no_money (sql_insert_usage w s e q m)"
  by (rule no_moneyI) (auto simp: sql_insert_usage_def accounts_def split: if_splits)

lemma no_money_has_active [money_rules]: "no_money (sql_has_active w)"
  by (rule no_moneyI) (auto simp: sql_has_active_def)

lemma no_money_unbilled_liquid [money_rules]: "no_money sql_unbilled_liquid"
  by (rule no_moneyI) (auto simp: sql_unbilled_liquid_def Let_def)

lemma no_money_add_free_used [money_rules]: "no_money (sql_add_free_used n w)"
  by (rule no_moneyI)
    (auto simp: sql_add_free_used_def accounts_def update_where_def split: if_splits)

lemma no_money_mark_billed [money_rules]: "no_money (sql_mark_billed ids)"
  by (rule no_moneyI) (auto simp: sql_mark_billed_def accounts_def)

lemma no_money_metal_due [money_rules]: "no_money sql_metal_due"
  by (rule no_moneyI) (auto simp: sql_metal_due_def)

lemma no_money_advance_cycle [money_rules]: "no_money (sql_advance_cycle s)"
  by (rule no_moneyI) (auto simp: sql_advance_cycle_def accounts_def)

lemma no_money_reset_free [money_rules]: "no_money (sql_reset_free env)"
  by (rule no_moneyI) (auto simp: sql_reset_free_def accounts_def update_where_def)

lemma no_money_suspended [money_rules]: "no_money (sql_suspended w)"
  by (rule no_moneyI) (auto simp: sql_suspended_def)

lemma no_money_set_status [money_rules]: "no_money (sql_set_status s i)"
  by (rule no_moneyI) (auto simp: sql_set_status_def accounts_def split: if_splits)

lemma no_money_topup_by_reference [money_rules]: "no_money (sql_topup_by_reference r)"
  by (rule no_moneyI) (auto simp: sql_topup_by_reference_def split: list.splits)

text \<open>
  The contract of an invariant on the books: it does not look at anything else. Whatever
  moves no money keeps it, whatever fails.
\<close>

locale money_frame =
  fixes I :: "db \<Rightarrow> bool"
  assumes frame:
    "accounts d' = accounts d \<Longrightarrow> t_ledger d' = t_ledger d \<Longrightarrow> I d \<Longrightarrow> I d'"
begin

lemma no_money_keeps [proc_rules]: "no_money f \<Longrightarrow> sql_keeps I f"
  unfolding no_money_def by (blast intro: sql_keepsI frame)

lemma keeps_suspend_outbox [proc_rules]: "keeps I (insert_suspend_outbox env wid)"
  unfolding insert_suspend_outbox_def by (intro proc_rules money_rules)

lemma keeps_unsuspend_service [proc_rules]: "keeps I (unsuspend_service env row)"
  unfolding unsuspend_service_def by (intro proc_rules money_rules)

lemma keeps_enqueue_unsuspend [proc_rules]: "keeps I (enqueue_unsuspend env wid)"
  unfolding enqueue_unsuspend_def by (intro proc_rules money_rules)

lemma keeps_metal_usage: "keeps I (insert_metal_usage env ev)"
  unfolding insert_metal_usage_def by (intro proc_rules money_rules)

lemma keeps_liquid_usage: "keeps I (insert_liquid_usage env ev')"
  unfolding insert_liquid_usage_def by (intro proc_rules money_rules)

lemma keeps_free_reset: "keeps I (free_invocations_reset_once env)"
  unfolding free_invocations_reset_once_def by (intro proc_rules money_rules)

end

interpretation books: money_frame ledger_ok
  by unfold_locales (simp add: ledger_ok_def)

section \<open>The debits keep the books\<close>

lemma triple_debit:
  assumes x: "exact_i64 x"
    and wid: "\<And>w b. p w \<Longrightarrow> wid (w\<lparr>ws_balance := b\<rparr>) = ws_id w"
    and k: "\<And>row. triple ledger_ok (k row) Q"
  shows "triple ledger_ok
    (andthen (stmt env h (sql_adjust_balance p x)) (\<lambda>row.
     andthen (stmt env h' (sql_insert_ledger (wid row) x kind desc ref (ws_balance row))) (\<lambda>_.
     k row))) Q"
proof -
  define R where "R = (\<lambda>w d1. \<exists>t u d. ledger_ok d \<and> sql_adjust_balance p x t u d = Inr (w, d1))"
  have post: "ledger_ok d2"
    if R: "R w d1" and i: "sql_insert_ledger (wid w) x kind desc ref (ws_balance w) t' u' d1 = Inr (y, d2)"
    for w d1 d2 t' u' y
  proof -
    from R obtain t u d where ok: "ledger_ok d" and a: "sql_adjust_balance p x t u d = Inr (w, d1)"
      by (auto simp: R_def)
    from a obtain w0 where "filter p (t_workspaces d) = [w0]"
      and w: "w = w0\<lparr>ws_balance := ws_balance w0 + x\<rparr>"
      by (auto simp: sql_adjust_balance_def split: list.splits if_splits)
    then have "p w0" by (blast dest: filter_singletonD)
    then have "wid w = ws_id w" using wid w by simp
    with i adjust_then_insert [OF ok a _ x] show ?thesis by simp
  qed
  show ?thesis
    by (rule triple_andthen [where R = R], rule triple_stmt, force simp: R_def,
        rule triple_andthen [where R = "\<lambda>_. ledger_ok"], rule triple_stmt, blast intro: post, rule k)
qed

lemma exact_neg: "exact_i64 (- x) \<longleftrightarrow> exact_i64 x"
  by (auto simp: exact_i64_def)

lemma exact_wrap: "exact_i64 x \<Longrightarrow> wrap_i64 (- x) = - x"
  by (simp add: exact_i64_def wrap_i64_id)

lemma exact_pos: "in_i64 x \<Longrightarrow> 0 < x \<Longrightarrow> exact_i64 x"
  by (auto simp: exact_i64_def in_i64_def)

lemma triple_deduct:
  assumes "exact_i64 cost"
  shows "triple ledger_ok (deduct_balance env wid cost kind desc) (\<lambda>_. ledger_ok)"
  unfolding deduct_balance_def exact_wrap [OF assms]
  by (rule triple_debit) (auto simp: exact_neg assms intro: triple_ret)

section \<open>The handlers keep the books\<close>

lemma triple_if:
  "(b \<Longrightarrow> triple P m Q) \<Longrightarrow> (\<not> b \<Longrightarrow> triple P n Q) \<Longrightarrow> triple P (if b then m else n) Q"
  by simp

lemma triple_commit: "triple ledger_ok (ret (Commit x))
    (\<lambda>r d. case r of Commit _ \<Rightarrow> ledger_ok d | Rollback _ \<Rightarrow> True)"
  by (rule triple_ret) simp

lemma liquid_cost_in: "in_i64 (liquid_cost b)"
  using wrap_i64_range [of "b * LIQUID_PRICE_PER_MILLION"]
  unfolding liquid_cost_def in_i64_def signed_divide_int_def
  by (auto simp: sgn_if zdiv_mono2_neg split: if_splits)

lemma triple_bill_liquid:
  "triple ledger_ok (bill_liquid env wid n ids free) (\<lambda>_. ledger_ok)"
  unfolding bill_liquid_def Let_def
  apply (rule triple_andthen [where R = "\<lambda>_. ledger_ok"])
   apply (rule triple_keeps, intro proc_rules books.no_money_keeps money_rules)
  apply (rule triple_andthen [where R = "\<lambda>_. ledger_ok"])
   apply (rule triple_if)
    apply (rule triple_andthen [where R = "\<lambda>_. ledger_ok"])
     apply (rule triple_deduct, rule exact_pos, rule liquid_cost_in, simp)
    apply (rule triple_keeps, intro proc_rules books.keeps_suspend_outbox)
   apply (rule triple_keeps, intro proc_rules)
  apply (rule triple_keeps, intro proc_rules books.no_money_keeps money_rules)
  done

lemma aggregate_keeps_books: "keeps ledger_ok (aggregate_once env)"
  unfolding aggregate_once_def aggregate_txn_def
  apply (intro proc_rules keeps_transact)
  apply (rule triple_andthen [where R = "\<lambda>_. ledger_ok"])
   apply (rule triple_keeps, intro proc_rules books.no_money_keeps money_rules)
  apply (rule triple_andthen [where R = "\<lambda>_. ledger_ok"])
   apply (rule triple_for_each)
   apply (simp add: bill_liquid_row_def)
   apply (rule triple_andthen [where R = "\<lambda>_. ledger_ok"])
    apply (rule triple_keeps, rule keeps_decode_i64)
   apply (rule triple_bill_liquid)
  apply (rule triple_commit)
  done

lemma triple_charge_metal:
  "triple ledger_ok (charge_metal env sid wid price) (\<lambda>_. ledger_ok)"
  unfolding charge_metal_def Let_def
  apply (rule triple_andthen [where R = "\<lambda>_. ledger_ok"])
   apply (rule triple_if)
    apply (rule triple_andthen [where R = "\<lambda>_. ledger_ok"])
     apply (rule triple_deduct, rule exact_pos, rule wrap_i64_range, simp)
    apply (rule triple_keeps, intro proc_rules books.keeps_suspend_outbox)
   apply (rule triple_keeps, intro proc_rules)
  apply (rule triple_keeps, intro proc_rules books.no_money_keeps money_rules)
  done

lemma metal_billing_keeps_books: "keeps ledger_ok (metal_billing_once env)"
  unfolding metal_billing_once_def metal_billing_txn_def
  apply (intro proc_rules keeps_transact)
  apply (rule triple_andthen [where R = "\<lambda>_. ledger_ok"])
   apply (rule triple_keeps, intro proc_rules books.no_money_keeps money_rules)
  apply (rule triple_andthen [where R = "\<lambda>_. ledger_ok"])
   apply (rule triple_for_each)
   apply (simp add: charge_metal_row_def)
   apply (rule triple_andthen [where R = "\<lambda>_. ledger_ok"])
    apply (rule triple_keeps, intro proc_rules)
   apply (rule triple_charge_metal)
  apply (rule triple_commit)
  done

subsection \<open>Top-ups\<close>

lemma patch_last:
  assumes "s \<notin> set (sessions led)" and "le_session r = Some s"
  shows "update_where (\<lambda>r. le_session r = Some s) f (led @ [r]) = led @ [f r]"
proof -
  have "update_where (\<lambda>r. le_session r = Some s) f led = led"
    using assms(1) by (intro update_where_none) (auto simp: sessions_iff)
  then show ?thesis using assms(2) by (simp add: update_where_def)
qed

lemma checkout_steps:
  assumes ok: "ledger_ok d"
    and i: "sql_insert_topup credits pi customer session t u d = Inr (y, d1)"
    and a: "sql_adjust_balance (customer_is customer) credits t' u' d1 = Inr (w, d2)"
    and p: "sql_patch_ledger (ws_balance w) session t'' u'' d2 = Inr (z, d3)"
    and x: "exact_i64 credits"
  shows "ledger_ok d3"
proof -
  have same: "t_workspaces d1 = t_workspaces d"
    using i by (auto simp: sql_insert_topup_def split: list.splits if_splits)
  then have acc: "accounts d1 = accounts d" by (simp add: accounts_def)
  have "distinct (map fst (accounts d1))" using ok by (simp add: acc ledger_ok_def books_ok_def)
  note A = adjust_balance_accounts [OF this a]
  from A(4) obtain w0 where w0: "filter (customer_is customer) (t_workspaces d) = [w0]"
    and id: "ws_id w = ws_id w0" unfolding same by blast
  from i w0 obtain r where r: "t_ledger d1 = t_ledger d @ [r]" "le_workspace r = ws_id w"
    "le_amount r = credits" "le_session r = Some session"
    and new: "session \<notin> set (sessions (t_ledger d))"
    by (auto simp: sql_insert_topup_def id sessions_iff list_ex_iff split: if_splits)
  from p have d3: "accounts d3 = accounts d2"
    "t_ledger d3 = t_ledger d @ [r\<lparr>le_balance_after := ws_balance w\<rparr>]"
    by (auto simp: sql_patch_ledger_def accounts_def A(2) r(1) patch_last [OF new r(4)])
  have "books_ok (book (ws_id w) credits (accounts d))
      (t_ledger d @ [r\<lparr>le_balance_after := ws_balance w\<rparr>])"
    by (rule books_post [OF _ A(3) [unfolded acc]]) (use ok r x new in \<open>auto simp: ledger_ok_def\<close>)
  then show ?thesis by (simp add: ledger_ok_def d3 A(1) acc)
qed

lemma triple_checkout:
  assumes x: "exact_i64 credits"
  shows "triple ledger_ok (checkout_txn env session customer credits pi)
    (\<lambda>r d. case r of Commit _ \<Rightarrow> ledger_ok d | Rollback _ \<Rightarrow> True)"
proof -
  define R1 where "R1 = (\<lambda>r d1. case r of Inl (e::sql_error) \<Rightarrow> True | Inr (y::unit) \<Rightarrow>
    \<exists>t u d. ledger_ok d \<and> sql_insert_topup credits pi customer session t u d = Inr (y, d1))"
  define R2 where "R2 = (\<lambda>w d2. \<exists>t u d1. R1 (Inr ()) d1 \<and>
    sql_adjust_balance (customer_is customer) credits t u d1 = Inr (w, d2))"
  have patch: "ledger_ok d3"
    if "R2 w d2" and "sql_patch_ledger (ws_balance w) session t u d2 = Inr (z, d3)" for w d2 t u z d3
    using that checkout_steps [OF _ _ _ _ x] by (auto simp: R1_def R2_def)
  show ?thesis
    unfolding checkout_txn_def
    apply (rule triple_andthen [where R = R1])
     apply (rule triple_try_stmt; force simp: R1_def)
    subgoal for r
      apply (cases r; simp)
       apply (auto intro!: triple_throw triple_ret simp: R1_def)[1]
      apply (rule triple_andthen [where R = R2])
       apply (rule triple_stmt, force simp: R2_def)
      apply (rule triple_andthen [where R = "\<lambda>_. ledger_ok"])
       apply (rule triple_stmt, blast intro: patch)
      apply (rule triple_andthen [where R = "\<lambda>_. ledger_ok"])
       apply (rule triple_keeps, intro proc_rules books.keeps_enqueue_unsuspend)
      apply (rule triple_commit)
      done
    done
qed

subsection \<open>Refunds and reversals\<close>

lemma triple_refund:
  assumes "exact_i64 credits"
  shows "triple ledger_ok (refund_txn env customer charge credits)
    (\<lambda>r d. case r of Commit _ \<Rightarrow> ledger_ok d | Rollback _ \<Rightarrow> True)"
  unfolding refund_txn_def exact_wrap [OF assms]
  apply (rule triple_debit)
    apply (simp add: exact_neg assms)
   apply simp
  apply (rule triple_andthen [where R = "\<lambda>_. ledger_ok"])
   apply (rule triple_keeps, intro proc_rules books.keeps_suspend_outbox)
  apply (rule triple_commit)
  done

lemma triple_reversal:
  assumes "exact_i64 amount"
  shows "triple ledger_ok (reversal_txn env wid pi amount)
    (\<lambda>r d. case r of Commit _ \<Rightarrow> ledger_ok d | Rollback _ \<Rightarrow> True)"
  unfolding reversal_txn_def exact_wrap [OF assms]
  apply (rule triple_debit [where wid = "\<lambda>_. wid"])
    apply (simp add: exact_neg assms)
   apply simp
  apply (rule triple_andthen [where R = "\<lambda>_. ledger_ok"])
   apply (rule triple_keeps, intro proc_rules books.keeps_suspend_outbox)
  apply (rule triple_commit)
  done

text \<open>Stripe's amounts have at most eight digits; such an amount in micro-credits is exact.\<close>

definition stripe_amount :: "int \<Rightarrow> bool" where
  "stripe_amount x = (\<bar>x\<bar> \<le> 99999999)"

definition amounts_ok :: "json \<Rightarrow> bool" where
  "amounts_ok obj = (\<forall>k \<in> {''amount_total'', ''amount_refunded''}.
     stripe_amount (or_default 0 (get_i64 obj k)))"

lemma stripe_amount_exact:
  "stripe_amount x \<Longrightarrow> wrap_i64 (x * MICROCREDITS_PER_CENT) = x * 10000 \<and> exact_i64 (x * 10000)"
proof -
  assume "stripe_amount x"
  then have "- (2 ^ 63) < x * 10000" "x * 10000 < 2 ^ 63" by (auto simp: stripe_amount_def)
  then show ?thesis by (simp add: wrap_i64_id in_i64_def exact_i64_def MICROCREDITS_PER_CENT_def)
qed

lemma checkout_keeps_books:
  "amounts_ok obj \<Longrightarrow> keeps ledger_ok (handle_checkout_completed env obj)"
  unfolding handle_checkout_completed_def Let_def
  by (intro proc_rules keeps_transact triple_checkout)
    (simp add: amounts_ok_def stripe_amount_exact)

lemma refund_keeps_books:
  "amounts_ok obj \<Longrightarrow> keeps ledger_ok (handle_charge_refunded env obj)"
  unfolding handle_charge_refunded_def Let_def
  by (intro proc_rules keeps_transact triple_refund)
    (simp add: amounts_ok_def stripe_amount_exact)

lemma payment_failed_keeps_books: "keeps ledger_ok (handle_payment_failed env obj)"
  unfolding handle_payment_failed_def Let_def
  apply (rule keeps_andthen, rule keeps_db_conn)
  apply (rule yields_andthen
      [where V = "\<lambda>found. \<forall>r. found = Some r \<longrightarrow> exact_i64 (le_amount r)"])
   apply (rule yields_query)
  subgoal for _ t u d x d'
    by (auto simp: sql_topup_by_reference_def ledger_ok_def books_ok_def
        split: list.splits dest: filter_singletonD)
  subgoal for _ found
    by (cases found) (auto intro!: proc_rules keeps_transact triple_reversal)
  done

lemma dispatch_keeps_books:
  "amounts_ok (we_object ev) \<Longrightarrow> keeps ledger_ok (dispatch_webhook env ev)"
  unfolding dispatch_webhook_def
  by (intro proc_rules checkout_keeps_books refund_keeps_books payment_failed_keeps_books)

end
