(* ===== verification/Services.thy ===== *)
theory Services
  imports Ledger
begin

text \<open>
  The routes of \<open>crates/api/src/routes/services.rs\<close>: listing, stopping, deleting and
  restarting a service. Each transaction is a definition of its own, so that what it does
  can be stated for any tables it may find when it runs.
\<close>

section \<open>Lookups\<close>

definition live_service :: "uuid \<Rightarrow> service_row \<Rightarrow> bool" where
  "live_service sid s = (sv_id s = sid \<and> sv_deleted_at s = None)"

definition services_with_role :: "uuid \<Rightarrow> uuid \<Rightarrow> db \<Rightarrow> (service_row \<times> string) list" where
  "services_with_role sid uid d =
     concat (map (\<lambda>s. map (\<lambda>m. (s, wm_role m))
         (filter (\<lambda>m. wm_workspace m = sv_workspace s \<and> wm_user m = uid) (t_members d)))
       (filter (live_service sid) (t_services d)))"

text \<open>The service joined with the caller's membership, read with \<open>query_opt\<close>.\<close>

definition sql_service_for :: "uuid \<Rightarrow> uuid \<Rightarrow> (service_row \<times> string) option sql" where
  "sql_service_for sid uid t u d =
     (case services_with_role sid uid d of
        [] \<Rightarrow> Inr (None, d)
      | [x] \<Rightarrow> Inr (Some x, d)
      | _ \<Rightarrow> Inl RowCount)"

definition sql_list_services :: "uuid \<Rightarrow> service_row list sql" where
  "sql_list_services uid t u d =
     Inr (take 500 (rev (sort_key sv_created_at (concat (map (\<lambda>s.
            map (\<lambda>m. s) (filter (\<lambda>m. wm_workspace m = sv_workspace s \<and> wm_user m = uid) (t_members d)))
          (filter (\<lambda>s. sv_deleted_at s = None) (t_services d)))))), d)"

definition list_services :: "env \<Rightarrow> caller \<Rightarrow> service_row list proc" where
  "list_services env caller =
     andthen (of_sum (require_scope caller ''read'')) (\<lambda>_.
     andthen (db_conn env) (\<lambda>_.
     query env (\<lambda>_. internal ''failed to list services'')
       (sql_list_services (ca_user_id caller))))"

text \<open>The opening of stop, delete, restart and rollback: scope, id, row, role.\<close>

definition authorize_service ::
  "env \<Rightarrow> caller \<Rightarrow> string \<Rightarrow> string \<Rightarrow> service_row proc" where
  "authorize_service env caller scope id_str =
     andthen (of_sum (require_scope caller scope)) (\<lambda>_.
     andthen (parse_uuid env (bad_request ''invalid_service_id''
                ''service ID must be a valid UUID'') id_str) (\<lambda>service_id.
     andthen (db_conn env) (\<lambda>_.
     andthen (query env (\<lambda>_. internal ''service lookup failed'')
                (sql_service_for service_id (ca_user_id caller))) (\<lambda>found.
     andthen (of_option (not_found ''service not found'') found) (\<lambda>(s, role).
     andthen (of_sum (require_workspace_role role ''admin'')) (\<lambda>_.
     ret s))))))"

definition parse_engine :: "err \<Rightarrow> string \<Rightarrow> engine proc" where
  "parse_engine e s = (case engine_from_str s of Inl _ \<Rightarrow> throw e | Inr eng \<Rightarrow> ret eng)"

definition corrupt_engine :: err where
  "corrupt_engine = internal ''corrupt engine value in database''"

section \<open>Stop\<close>

definition stoppable :: "uuid \<Rightarrow> service_row \<Rightarrow> bool" where
  "stoppable sid s = (sv_id s = sid \<and> sv_deleted_at s = None \<and> sv_status s \<noteq> ''stopped'')"

definition sql_stop_service :: "uuid \<Rightarrow> service_row option sql" where
  "sql_stop_service sid t u d =
     (let d' = d\<lparr>t_services :=
            update_where (stoppable sid) (\<lambda>s. s\<lparr>sv_status := ''stopped'', sv_upstream := None\<rparr>)
              (t_services d)\<rparr>
      in case filter (stoppable sid) (t_services d) of
           [] \<Rightarrow> Inr (None, d)
         | [s] \<Rightarrow> Inr (Some s, d')
         | _ \<Rightarrow> Inl RowCount)"

definition outbox_about :: "env \<Rightarrow> uuid \<Rightarrow> outbox_row \<Rightarrow> bool" where
  "outbox_about env sid r = (payload_service_id (ob_payload r) = Some (e_uuid_str env sid))"

definition sql_clean_outbox :: "env \<Rightarrow> uuid \<Rightarrow> unit sql" where
  "sql_clean_outbox env sid t u d =
     Inr ((), d\<lparr>t_outbox := delete_where (outbox_about env sid) (t_outbox d)\<rparr>)"

definition deprovision_of :: "env \<Rightarrow> uuid \<Rightarrow> string \<Rightarrow> engine \<Rightarrow> event" where
  "deprovision_of env sid slug eng =
     EvDeprovision \<lparr>de_service_id = e_uuid_str env sid, de_slug = slug, de_engine = eng\<rparr>"

definition stop_txn :: "env \<Rightarrow> uuid \<Rightarrow> unit tx_end proc" where
  "stop_txn env sid =
     andthen (stmt env (\<lambda>_. internal ''failed to stop service'') (sql_stop_service sid)) (\<lambda>found.
     andthen (of_option (conflict ''service state changed concurrently'') found) (\<lambda>row.
     andthen (parse_engine corrupt_engine (sv_engine row)) (\<lambda>eng.
     andthen (try_stmt env (sql_clean_outbox env sid)) (\<lambda>_.
     andthen (stmt env (\<lambda>_. internal ''failed to queue deprovision event'')
                (sql_insert_outbox subject_deprovision (deprovision_of env sid (sv_slug row) eng)))
       (\<lambda>_. ret (Commit ()))))))"

definition stop_service :: "env \<Rightarrow> caller \<Rightarrow> string \<Rightarrow> unit proc" where
  "stop_service env caller id_str =
     andthen (authorize_service env caller ''write'' id_str) (\<lambda>s.
     andthen (ensure (sv_status s \<noteq> ''stopped'') (conflict ''service is already stopped'')) (\<lambda>_.
     transact env (internal ''failed to start transaction'')
       (internal ''failed to commit stop transaction'') (stop_txn env (sv_id s))))"

section \<open>Delete\<close>

definition sql_delete_service :: "uuid \<Rightarrow> unit sql" where
  "sql_delete_service sid t u d =
     Inr ((), d\<lparr>t_services :=
        update_where (live_service sid)
          (\<lambda>s. s\<lparr>sv_status := ''stopped'', sv_upstream := None, sv_deleted_at := Some t\<rparr>)
          (t_services d)\<rparr>)"

definition needs_deprovision :: "string \<Rightarrow> bool" where
  "needs_deprovision status = (status \<noteq> ''stopped'' \<and> status \<noteq> ''failed'')"

definition delete_txn :: "env \<Rightarrow> uuid \<Rightarrow> string \<Rightarrow> string \<Rightarrow> string \<Rightarrow> unit tx_end proc" where
  "delete_txn env sid status slug engine_str =
     andthen (stmt env (\<lambda>_. internal ''failed to delete service'') (sql_delete_service sid)) (\<lambda>_.
     andthen (try_stmt env (sql_clean_outbox env sid)) (\<lambda>_.
     andthen (if needs_deprovision status then
                (case engine_from_str engine_str of
                   Inl _ \<Rightarrow> ret ()
                 | Inr eng \<Rightarrow>
                     stmt env (\<lambda>_. internal ''failed to queue deprovision event'')
                       (sql_insert_outbox subject_deprovision (deprovision_of env sid slug eng)))
              else ret ()) (\<lambda>_.
     ret (Commit ()))))"

text \<open>The S3 deletion is spawned after the commit; its failure is only logged.\<close>

definition delete_service :: "env \<Rightarrow> caller \<Rightarrow> string \<Rightarrow> (uuid \<times> string) proc" where
  "delete_service env caller id_str =
     andthen (authorize_service env caller ''admin'' id_str) (\<lambda>s.
     andthen (transact env (internal ''failed to start transaction'')
                (internal ''failed to commit delete transaction'')
                (delete_txn env (sv_id s) (sv_status s) (sv_slug s) (sv_engine s))) (\<lambda>_.
     andthen (case sv_artifact_key s of None \<Rightarrow> ret () | Some key \<Rightarrow> emit (S3Delete key)) (\<lambda>_.
     ret (sv_id s, sv_slug s))))"

section \<open>Restart\<close>

definition restartable :: "uuid \<Rightarrow> service_row \<Rightarrow> bool" where
  "restartable sid s = (live_service sid s \<and> sv_status s \<in> {''stopped'', ''failed''})"

definition sql_restartable :: "uuid \<Rightarrow> service_row option sql" where
  "sql_restartable sid t u d =
     (case filter (restartable sid) (t_services d) of
        [] \<Rightarrow> Inr (None, d) | [s] \<Rightarrow> Inr (Some s, d) | _ \<Rightarrow> Inl RowCount)"

definition peer_of :: "uuid \<Rightarrow> uuid \<Rightarrow> service_row \<Rightarrow> bool" where
  "peer_of pid sid s =
     (sv_project s = pid \<and> sv_deleted_at s = None \<and>
      sv_status s \<in> {''running'', ''provisioning'', ''ready''} \<and> sv_id s \<noteq> sid)"

definition sql_peers :: "uuid \<Rightarrow> uuid \<Rightarrow> string list sql" where
  "sql_peers pid sid t u d = Inr (map sv_slug (filter (peer_of pid sid) (t_services d)), d)"

definition to_uppercase :: "(string \<Rightarrow> string) \<Rightarrow> string \<Rightarrow> string" where
  "to_uppercase uu s =
     concat (map (\<lambda>ch. case ch of [c] \<Rightarrow> [ascii_upper c] | _ \<Rightarrow> uu ch) (utf8_chars s))"

definition peer_key :: "env \<Rightarrow> string \<Rightarrow> string" where
  "peer_key env slug =
     ''LM_SERVICE_'' @ to_uppercase (e_uni_upper env) (replace_char (CHR ''-'') (CHR ''_'') slug)"

text \<open>The discovery variables of a project's other services, inserted in row order.\<close>

fun inject_peers :: "env \<Rightarrow> string list \<Rightarrow> env_map \<Rightarrow> env_map" where
  "inject_peers env [] m = m"
| "inject_peers env (slug # slugs) m =
     inject_peers env slugs
       (m(peer_key env slug \<mapsto>
            ''https://'' @ slug @ ''.'' @ env_or (e_vars env) ''DOMAIN'' ''liquidmetal.dev''))"

definition base_env :: "env \<Rightarrow> uuid \<Rightarrow> uuid \<Rightarrow> uuid \<Rightarrow> env_map" where
  "base_env env wid pid sid = read_project_env_vars env wid pid ++ read_env_vars env wid sid"

definition restart_event :: "env \<Rightarrow> service_row \<Rightarrow> engine \<Rightarrow> string list \<Rightarrow> event" where
  "restart_event env s eng peers =
     EvProvision
       \<lparr>pe_tenant_id = e_uuid_str env (sv_workspace s),
        pe_service_id = e_uuid_str env (sv_id s),
        pe_app_name = sv_name s,
        pe_slug = sv_slug s,
        pe_engine = eng,
        pe_spec = engine_spec_of env eng (sv_vcpu s) (sv_memory_mb s) (sv_port s)
                    (or_default [] (sv_artifact_key s)),
        pe_env_vars = inject_peers env peers (base_env env (sv_workspace s) (sv_project s) (sv_id s))\<rparr>"

definition sql_start_again :: "uuid \<Rightarrow> unit sql" where
  "sql_start_again sid t u d =
     Inr ((), d\<lparr>t_services :=
        update_where (\<lambda>s. sv_id s = sid)
          (\<lambda>s. s\<lparr>sv_status := ''provisioning'', sv_upstream := None\<rparr>) (t_services d)\<rparr>)"

definition restart_txn :: "env \<Rightarrow> uuid \<Rightarrow> event \<Rightarrow> unit tx_end proc" where
  "restart_txn env sid event =
     andthen (stmt env (\<lambda>_. internal ''failed to update service status'') (sql_start_again sid)) (\<lambda>_.
     andthen (stmt env (\<lambda>_. internal ''failed to queue restart event'')
                (sql_insert_outbox subject_provision event)) (\<lambda>_.
     ret (Commit ())))"

text \<open>A query whose error is replaced by no rows (\<open>unwrap_or_default\<close>).\<close>

definition query_or_empty :: "env \<Rightarrow> 'a list sql \<Rightarrow> 'a list proc" where
  "query_or_empty env f w =
     (case query env (\<lambda>_. Anyhow []) f w of (Inl _, w') \<Rightarrow> (Inr [], w') | (Inr xs, w') \<Rightarrow> (Inr xs, w'))"

record deployed_service =
  ds_id :: uuid
  ds_name :: string
  ds_slug :: string
  ds_status :: string

definition not_restartable :: "string \<Rightarrow> err" where
  "not_restartable status =
     conflict (''service is currently '' @ [CHR 0x27] @ status @ [CHR 0x27] @ '' '' @ em_dash @
       '' only stopped or failed services can be restarted'')"

definition restart_service :: "env \<Rightarrow> caller \<Rightarrow> string \<Rightarrow> deployed_service proc" where
  "restart_service env caller id_str =
     andthen (authorize_service env caller ''write'' id_str) (\<lambda>s.
     andthen (ensure (\<not> (sv_status s \<noteq> ''stopped'' \<and> sv_status s \<noteq> ''failed''))
                (not_restartable (sv_status s))) (\<lambda>_.
     andthen (query env (\<lambda>_. internal ''service lookup failed'') (sql_restartable (sv_id s))) (\<lambda>found.
     andthen (of_option (conflict ''service state changed concurrently'') found) (\<lambda>row.
     andthen (parse_engine corrupt_engine (sv_engine row)) (\<lambda>eng.
     andthen (query_or_empty env (sql_peers (sv_project row) (sv_id row))) (\<lambda>peers.
     andthen (transact env (internal ''failed to start transaction'')
                (internal ''failed to commit restart transaction'')
                (restart_txn env (sv_id row) (restart_event env row eng peers))) (\<lambda>_.
     ret \<lparr>ds_id = sv_id row, ds_name = sv_name row, ds_slug = sv_slug row,
           ds_status = ''provisioning''\<rparr>)))))))"

section \<open>No money moves here\<close>

lemma no_money_read:
  "(\<And>t u d. (\<exists>x. f t u d = Inr (x, d)) \<or> (\<exists>e. f t u d = Inl e)) \<Longrightarrow> no_money f"
  by (rule no_moneyI) (metis Inr_inject old.sum.distinct(1) prod.inject)

lemma no_money_service_reads [money_rules]:
  "no_money (sql_service_for sid uid)" "no_money (sql_list_services uid)"
  "no_money (sql_restartable sid)" "no_money (sql_peers pid sid)"
  by (rule no_money_read; simp add: sql_service_for_def sql_list_services_def sql_restartable_def
      sql_peers_def split: list.split)+

lemma no_money_service_writes [money_rules]:
  "no_money (sql_stop_service sid)" "no_money (sql_clean_outbox env sid)"
  "no_money (sql_delete_service sid)" "no_money (sql_start_again sid)"
  by (rule no_moneyI, auto simp: sql_stop_service_def sql_clean_outbox_def sql_delete_service_def
      sql_start_again_def accounts_def Let_def split: list.splits)+

lemma keeps_query_or_empty [proc_rules]: "sql_keeps I f \<Longrightarrow> keeps I (query_or_empty env f)"
  using keeps_query [of I f env "\<lambda>_. Anyhow []"]
  by (auto simp: keeps_def query_or_empty_def split: prod.splits sum.splits)

lemma keeps_parse_engine [proc_rules]: "keeps I (parse_engine e s)"
  unfolding parse_engine_def by (intro proc_rules)

context money_frame
begin

lemma keeps_authorize_service [proc_rules]: "keeps I (authorize_service env caller scope i)"
  unfolding authorize_service_def by (intro proc_rules money_rules)

lemma keeps_transact_plain:
  "keeps I body \<Longrightarrow> keeps I (transact env be ce body)"
  by (rule keeps_transact, rule triple_weaken, erule triple_keeps) (auto split: tx_end.split)

lemma keeps_stop: "keeps I (stop_service env caller i)"
  unfolding stop_service_def stop_txn_def
  by (intro proc_rules money_rules keeps_transact_plain)

lemma keeps_delete: "keeps I (delete_service env caller i)"
  unfolding delete_service_def delete_txn_def
  by (intro proc_rules money_rules keeps_transact_plain)

lemma keeps_restart: "keeps I (restart_service env caller i)"
  unfolding restart_service_def restart_txn_def
  by (intro proc_rules money_rules keeps_transact_plain)

end

end
