(* ===== verification/Deployments.thy ===== *)
theory Deployments
  imports Services
begin

text \<open>
  The routes of \<open>crates/api/src/routes/deployments.rs\<close>: upload URLs, the deploy handler
  with its validation, its capacity check and its transaction, the deployment history,
  rollback, and the progress stream. The check transaction and the deploy transaction are
  separate definitions because the code commits the first before it begins the second.
\<close>

unbundle bit_operations_syntax

section \<open>Requests\<close>

definition MAX_SERVICES_PER_WORKSPACE :: int where
  "MAX_SERVICES_PER_WORKSPACE = 50"

record deploy_request =
  dr_name :: string
  dr_slug :: string
  dr_engine :: string
  dr_project_id :: string
  dr_artifact_key :: string
  dr_sha256 :: string
  dr_port :: "nat option"
  dr_tier :: "string option"

definition sql_project_for :: "uuid \<Rightarrow> uuid \<Rightarrow> (uuid \<times> string) option sql" where
  "sql_project_for pid uid t u d =
     (case concat (map (\<lambda>p. map (\<lambda>m. (pr_workspace p, wm_role m))
              (filter (\<lambda>m. wm_workspace m = pr_workspace p \<and> wm_user m = uid) (t_members d)))
            (filter (\<lambda>p. pr_id p = pid \<and> pr_deleted_at p = None) (t_projects d))) of
        [] \<Rightarrow> Inr (None, d)
      | [x] \<Rightarrow> Inr (Some x, d)
      | _ \<Rightarrow> Inl RowCount)"

text \<open>The project the caller may deploy to, and its workspace.\<close>

definition authorize_project :: "env \<Rightarrow> caller \<Rightarrow> string \<Rightarrow> (uuid \<times> uuid) proc" where
  "authorize_project env caller project_id =
     andthen (parse_uuid env (bad_request ''invalid_project_id''
                ''project_id must be a valid UUID'') project_id) (\<lambda>pid.
     andthen (db_conn env) (\<lambda>_.
     andthen (query env (\<lambda>_. internal ''project lookup failed'')
                (sql_project_for pid (ca_user_id caller))) (\<lambda>found.
     andthen (of_option (not_found ''project not found'') found) (\<lambda>(wid, role).
     andthen (of_sum (require_workspace_role role ''admin'')) (\<lambda>_.
     ret (pid, wid))))))"

definition engine_text :: string where
  "engine_text = ''engine must be '' @ [CHR 0x27] @ ''metal'' @ [CHR 0x27] @ '' or '' @
     [CHR 0x27] @ ''liquid'' @ [CHR 0x27]"

section \<open>Upload URLs\<close>

definition artifact_location :: "string \<Rightarrow> (string \<times> string) option" where
  "artifact_location eng =
     (if eng = ''liquid'' then Some (''wasm'', ''main.wasm'')
      else if eng = ''metal'' then Some (''metal'', ''app'')
      else None)"

text \<open>The reply is the presigned URL and the key; \<open>e_presign\<close> is the S3 client.\<close>

definition get_upload_url ::
  "env \<Rightarrow> caller \<Rightarrow> string \<Rightarrow> string \<Rightarrow> string \<Rightarrow> (string \<times> string) proc" where
  "get_upload_url env caller eng deploy_id project_id =
     andthen (of_sum (require_scope caller ''write'')) (\<lambda>_.
     andthen (ensure (\<not> (deploy_id = [] \<or> project_id = []))
                (bad_request ''missing_fields'' ''deploy_id and project_id are required'')) (\<lambda>_.
     andthen (authorize_project env caller project_id) (\<lambda>_.
     andthen (of_option (bad_request ''invalid_engine'' engine_text) (artifact_location eng))
       (\<lambda>(engine_prefix, artifact_name).
     let artifact_key = engine_prefix @ ''/'' @ project_id @ ''/'' @ deploy_id @ ''/'' @ artifact_name;
         expiry_secs = (if eng = ''metal'' then 1800 else 300)
     in andthen (of_option (internal ''failed to generate upload URL'')
                   (e_presign env artifact_key expiry_secs)) (\<lambda>url.
        ret (url, artifact_key))))))"

section \<open>Deploy: validation\<close>

definition validate_body :: "deploy_request \<Rightarrow> err + unit" where
  "validate_body body =
     (if dr_name body = [] then Inl (bad_request ''missing_name'' ''service name is required'')
      else if 63 < length (dr_name body)
      then Inl (bad_request ''name_too_long'' ''service name must be 63 characters or fewer'')
      else if dr_artifact_key body = []
      then Inl (bad_request ''missing_artifact_key'' ''artifact_key is required'')
      else Inr ())"

definition requested_sha :: "deploy_request \<Rightarrow> string option" where
  "requested_sha body = (if dr_sha256 body = [] then None else Some (dr_sha256 body))"

text \<open>The engine, its specification and, for Metal, the tier.\<close>

definition deploy_spec ::
  "env \<Rightarrow> deploy_request \<Rightarrow> err + (engine \<times> engine_spec \<times> metal_tier_spec option)" where
  "deploy_spec env body =
     (case engine_from_str (dr_engine body) of
        Inl _ \<Rightarrow> Inl (bad_request ''invalid_engine'' engine_text)
      | Inr Liquid \<Rightarrow>
          Inr (Liquid, SpecLiquid \<lparr>ls_artifact_key = dr_artifact_key body,
                                   ls_artifact_sha256 = requested_sha body\<rparr>, None)
      | Inr Metal \<Rightarrow>
          (case dr_tier body of
             None \<Rightarrow> Inl (bad_request ''missing_tier''
                            ''metal deploys require a tier (one, two, or four)'')
           | Some tier_id \<Rightarrow>
             (case metal_tier tier_id of
                None \<Rightarrow> Inl (bad_request ''invalid_tier'' ''tier must be one, two, or four'')
              | Some spec \<Rightarrow>
                  let port = wrap_u16 (int (or_default 0 (dr_port body)))
                  in if port = 0
                     then Inl (bad_request ''invalid_metal_spec'' ''metal deploys require port >= 1'')
                     else Inr (Metal, SpecMetal
                            \<lparr>ms_vcpu = mt_vcpu spec, ms_memory_mb = mt_memory_mb spec,
                             ms_port = port, ms_artifact_key = dr_artifact_key body,
                             ms_artifact_sha256 = requested_sha body,
                             ms_quota = e_default_quota env\<rparr>, Some spec))))"

definition spec_columns :: "engine_spec \<Rightarrow> int \<times> int \<times> int" where
  "spec_columns spec =
     (case spec of
        SpecMetal m \<Rightarrow> (wrap_i32 (int (ms_vcpu m)), wrap_i32 (int (ms_memory_mb m)), int (ms_port m))
      | SpecLiquid _ \<Rightarrow> (0, 0, 0))"

definition deploy_slug :: "env \<Rightarrow> deploy_request \<Rightarrow> err + string" where
  "deploy_slug env body =
     (let slug = (if dr_slug body = []
                  then slugify (e_uni_lower env) (e_uni_alnum env) (dr_name body)
                  else dr_slug body)
      in if slug = []
         then Inl (bad_request ''invalid_name''
                ''service name must produce a non-empty slug (use ASCII alphanumeric characters)'')
         else if \<not> list_all (\<lambda>c. is_ascii_alphanumeric c \<or> c = CHR ''-'') slug
         then Inl (bad_request ''invalid_slug''
                ''slug must contain only lowercase alphanumeric characters and dashes'')
         else Inr slug)"

section \<open>Deploy: capacity check\<close>

definition lock_key :: "uuid \<Rightarrow> 64 word" where
  "lock_key wid = ucast (drop_bit 64 wid) XOR ucast wid"

text \<open>The advisory lock is held until its transaction ends; it changes no table.\<close>

definition sql_advisory_lock :: "64 word \<Rightarrow> unit sql" where
  "sql_advisory_lock k t u d = Inr ((), d)"

definition service_count :: "uuid \<Rightarrow> db \<Rightarrow> nat" where
  "service_count wid d =
     length (filter (\<lambda>s. sv_workspace s = wid \<and> sv_deleted_at s = None) (t_services d))"

definition sql_count_services :: "uuid \<Rightarrow> int sql" where
  "sql_count_services wid t u d = Inr (int (service_count wid d), d)"

definition slug_active :: "uuid \<Rightarrow> string \<Rightarrow> db \<Rightarrow> bool" where
  "slug_active wid slug d =
     list_ex (\<lambda>s. sv_workspace s = wid \<and> sv_slug s = slug \<and>
                  sv_status s \<in> {''running'', ''provisioning''} \<and> sv_deleted_at s = None)
       (t_services d)"

definition sql_slug_active :: "uuid \<Rightarrow> string \<Rightarrow> bool sql" where
  "sql_slug_active wid slug t u d = Inr (slug_active wid slug d, d)"

definition quota_exceeded :: "int \<Rightarrow> err" where
  "quota_exceeded n =
     unprocessable ''service_limit_exceeded''
       (''workspace has '' @ show_int n @ '' services, limit is '' @
        show_int MAX_SERVICES_PER_WORKSPACE)"

definition slug_taken :: err where
  "slug_taken =
     conflict (''a service with this slug is currently running or provisioning '' @ em_dash @
       '' stop it first'')"

definition deploy_check_txn :: "env \<Rightarrow> uuid \<Rightarrow> string \<Rightarrow> unit tx_end proc" where
  "deploy_check_txn env wid slug =
     andthen (stmt env (\<lambda>_. internal ''failed to acquire workspace lock'')
                (sql_advisory_lock (lock_key wid))) (\<lambda>_.
     andthen (if enforce_quotas (e_features env) then
                andthen (stmt env (\<lambda>_. internal ''service count query failed'')
                           (sql_count_services wid)) (\<lambda>svc_count.
                ensure (\<not> MAX_SERVICES_PER_WORKSPACE \<le> svc_count) (quota_exceeded svc_count))
              else ret ()) (\<lambda>_.
     andthen (stmt env (\<lambda>_. internal ''active slug check failed'') (sql_slug_active wid slug))
       (\<lambda>active_slug.
     andthen (ensure (\<not> active_slug) slug_taken) (\<lambda>_.
     ret (Commit ())))))"

section \<open>Deploy: transaction\<close>

definition replaceable :: "uuid \<Rightarrow> string \<Rightarrow> service_row \<Rightarrow> bool" where
  "replaceable wid slug s =
     (sv_workspace s = wid \<and> sv_slug s = slug \<and> sv_deleted_at s = None \<and>
      sv_status s \<in> {''stopped'', ''failed''})"

definition sql_retire_old :: "uuid \<Rightarrow> string \<Rightarrow> unit sql" where
  "sql_retire_old wid slug t u d =
     Inr ((), d\<lparr>t_services :=
        update_where (replaceable wid slug) (\<lambda>s. s\<lparr>sv_deleted_at := Some t\<rparr>) (t_services d)\<rparr>)"

definition project_exists :: "uuid \<Rightarrow> db \<Rightarrow> bool" where
  "project_exists pid d = list_ex (\<lambda>p. pr_id p = pid) (t_projects d)"

text \<open>What the deploy handler has settled before its transaction.\<close>

record deploy_plan =
  pl_service :: uuid
  pl_project :: uuid
  pl_workspace :: uuid
  pl_name :: string
  pl_slug :: string
  pl_engine :: engine
  pl_artifact_key :: string
  pl_sha256 :: string
  pl_spec :: engine_spec
  pl_tier :: "metal_tier_spec option"

definition new_service :: "int \<Rightarrow> deploy_plan \<Rightarrow> service_row" where
  "new_service t p =
     (case spec_columns (pl_spec p) of (vcpu, memory_mb, port) \<Rightarrow>
        \<lparr>sv_id = pl_service p, sv_project = pl_project p, sv_workspace = pl_workspace p,
         sv_name = pl_name p, sv_slug = pl_slug p, sv_engine = engine_as_str (pl_engine p),
         sv_status = ''provisioning'', sv_upstream = None,
         sv_artifact_key = Some (pl_artifact_key p), sv_commit_sha = Some (pl_sha256 p),
         sv_vcpu = vcpu, sv_memory_mb = memory_mb, sv_port = port,
         sv_metal_tier = map_option mt_id (pl_tier p),
         sv_price_cents = map_option (\<lambda>s. wrap_i32 (int (mt_price_cents s))) (pl_tier p),
         sv_cycle_start = (if pl_engine p = Metal then Some t else None),
         sv_snapshot_key = None, sv_failure_reason = None, sv_created_at = t,
         sv_deleted_at = None\<rparr>)"

definition sql_insert_service :: "deploy_plan \<Rightarrow> unit sql" where
  "sql_insert_service p t u d =
     (if service_exists (pl_service p) d \<or> \<not> service_slug_free (pl_slug p) d
      then Inl UniqueViolation
      else if \<not> project_exists (pl_project p) d \<or> \<not> workspace_exists (pl_workspace p) d
      then Inl ForeignKeyViolation
      else if pl_tier p \<noteq> None \<and>
        map_option mt_id (pl_tier p) \<notin> {Some ''one'', Some ''two'', Some ''four''}
      then Inl CheckViolation
      else Inr ((), d\<lparr>t_services := t_services d @ [new_service t p]\<rparr>))"

definition sql_charge :: "uuid \<Rightarrow> int \<Rightarrow> unit sql" where
  "sql_charge wid cost t u d =
     (if list_all (\<lambda>w. ws_id w = wid \<longrightarrow> in_i64 (ws_balance w - cost)) (t_workspaces d)
      then Inr ((), d\<lparr>t_workspaces :=
             update_where (\<lambda>w. ws_id w = wid) (\<lambda>w. w\<lparr>ws_balance := ws_balance w - cost\<rparr>)
               (t_workspaces d)\<rparr>)
      else Inl NumericOverflow)"

text \<open>The entry whose \<open>balance_after\<close> is a subquery on the workspace.\<close>

definition sql_insert_charge :: "uuid \<Rightarrow> uuid \<Rightarrow> int \<Rightarrow> string \<Rightarrow> unit sql" where
  "sql_insert_charge lid wid amount description t u d =
     (case filter (\<lambda>w. ws_id w = wid) (t_workspaces d) of
        [] \<Rightarrow> Inl NotNullViolation
      | [w] \<Rightarrow>
          if list_ex (\<lambda>r. le_id r = lid) (t_ledger d) then Inl UniqueViolation
          else Inr ((), d\<lparr>t_ledger := t_ledger d @
                 [\<lparr>le_id = lid, le_workspace = wid, le_amount = amount, le_kind = ''metal_monthly'',
                   le_description = description, le_reference = None,
                   le_balance_after = ws_balance w, le_session = None, le_created_at = t\<rparr>]\<rparr>)
      | _ \<Rightarrow> Inl RowCount)"

definition sql_insert_deployment ::
  "uuid \<Rightarrow> uuid \<Rightarrow> string \<Rightarrow> string \<Rightarrow> string \<Rightarrow> string option \<Rightarrow> int option \<Rightarrow> uuid \<Rightarrow> unit sql" where
  "sql_insert_deployment sid wid slug eng key sha port uid t u d =
     (if list_ex (\<lambda>r. dl_id r = u) (t_deployments d) then Inl UniqueViolation
      else if \<not> workspace_exists wid d \<or> \<not> list_ex (\<lambda>r. us_id r = uid) (t_users d)
      then Inl ForeignKeyViolation
      else Inr ((), d\<lparr>t_deployments := t_deployments d @
             [\<lparr>dl_id = u, dl_service = sid, dl_workspace = wid, dl_slug = slug, dl_engine = eng,
               dl_artifact_key = key, dl_commit_sha = sha, dl_port = port, dl_deployed_by = uid,
               dl_created_at = t\<rparr>]\<rparr>))"

definition charge_first_month :: "env \<Rightarrow> uuid \<Rightarrow> metal_tier_spec \<Rightarrow> unit proc" where
  "charge_first_month env wid spec =
     (let cost_microcredits = wrap_i64 (wrap_i32 (int (mt_price_cents spec)) * 10000)
      in andthen (stmt env (\<lambda>_. internal ''failed to charge first month'')
                    (sql_charge wid cost_microcredits)) (\<lambda>_.
         andthen (fresh_id env) (\<lambda>lid.
         stmt env (\<lambda>_. internal ''failed to record billing'')
           (sql_insert_charge lid wid (wrap_i64 (- cost_microcredits))
              (''Metal '' @ mt_id spec @ '' first month'')))))"

definition deploy_event :: "env \<Rightarrow> deploy_plan \<Rightarrow> string list \<Rightarrow> event" where
  "deploy_event env p peers =
     EvProvision
       \<lparr>pe_tenant_id = e_uuid_str env (pl_workspace p),
        pe_service_id = e_uuid_str env (pl_service p),
        pe_app_name = pl_name p,
        pe_slug = pl_slug p,
        pe_engine = pl_engine p,
        pe_spec = pl_spec p,
        pe_env_vars = inject_peers env peers
          (base_env env (pl_workspace p) (pl_project p) (pl_service p))\<rparr>"

definition deploy_txn :: "env \<Rightarrow> uuid \<Rightarrow> deploy_plan \<Rightarrow> unit tx_end proc" where
  "deploy_txn env user_id p =
     andthen (stmt env (\<lambda>_. internal ''old service cleanup failed'')
                (sql_retire_old (pl_workspace p) (pl_slug p))) (\<lambda>_.
     andthen (stmt env (\<lambda>_. internal ''failed to create service'') (sql_insert_service p)) (\<lambda>_.
     andthen (case pl_tier p of
                None \<Rightarrow> ret ()
              | Some spec \<Rightarrow> charge_first_month env (pl_workspace p) spec) (\<lambda>_.
     andthen (try_stmt env (sql_peers (pl_project p) (pl_service p))) (\<lambda>r.
     let peers = (case r of Inl _ \<Rightarrow> [] | Inr slugs \<Rightarrow> slugs)
     in andthen (stmt env (\<lambda>_. internal ''failed to queue provision event'')
                   (sql_insert_outbox subject_provision (deploy_event env p peers))) (\<lambda>_.
        andthen (stmt env (\<lambda>_. internal ''failed to record deployment'')
                   (sql_insert_deployment (pl_service p) (pl_workspace p) (pl_slug p)
                      (engine_as_str (pl_engine p)) (pl_artifact_key p) (Some (pl_sha256 p))
                      (Some (snd (snd (spec_columns (pl_spec p))))) user_id)) (\<lambda>_.
        ret (Commit ())))))))"

definition deployed :: "deploy_plan \<Rightarrow> deployed_service" where
  "deployed p = \<lparr>ds_id = pl_service p, ds_name = pl_name p, ds_slug = pl_slug p,
                 ds_status = ''provisioning''\<rparr>"

definition deploy_service :: "env \<Rightarrow> caller \<Rightarrow> deploy_request \<Rightarrow> deployed_service proc" where
  "deploy_service env caller body =
     andthen (of_sum (require_scope caller ''write'')) (\<lambda>_.
     andthen (of_sum (validate_body body)) (\<lambda>_.
     andthen (authorize_project env caller (dr_project_id body)) (\<lambda>(pid, wid).
     andthen (of_sum (deploy_spec env body)) (\<lambda>(eng, spec, tier).
     andthen (fresh_id env) (\<lambda>service_id.
     andthen (of_sum (deploy_slug env body)) (\<lambda>slug.
     andthen (transact env (internal ''failed to start check transaction'')
                (internal ''check transaction commit failed'')
                (deploy_check_txn env wid slug)) (\<lambda>_.
     let p = \<lparr>pl_service = service_id, pl_project = pid, pl_workspace = wid,
              pl_name = dr_name body, pl_slug = slug, pl_engine = eng,
              pl_artifact_key = dr_artifact_key body, pl_sha256 = dr_sha256 body,
              pl_spec = spec, pl_tier = tier\<rparr>
     in andthen (transact env (internal ''failed to start transaction'')
                   (internal ''failed to commit deploy transaction'')
                   (deploy_txn env (ca_user_id caller) p)) (\<lambda>_.
        ret (deployed p)))))))))"

section \<open>History and rollback\<close>

definition newest_first :: "uuid \<Rightarrow> db \<Rightarrow> deployment_row list" where
  "newest_first sid d =
     rev (sort_key dl_created_at (filter (\<lambda>x. dl_service x = sid) (t_deployments d)))"

definition sql_list_deploys :: "uuid \<Rightarrow> (deployment_row \<times> bool option) list sql" where
  "sql_list_deploys sid t u d =
     Inr (take 20 (concat (map (\<lambda>x. map (\<lambda>s. (x, map_option (\<lambda>k. dl_artifact_key x = k) (sv_artifact_key s)))
            (filter (\<lambda>s. sv_id s = dl_service x) (t_services d))) (newest_first sid d))), d)"

definition list_deploys ::
  "env \<Rightarrow> caller \<Rightarrow> string \<Rightarrow> (deployment_row \<times> bool option) list proc" where
  "list_deploys env caller id_str =
     andthen (of_sum (require_scope caller ''read'')) (\<lambda>_.
     andthen (parse_uuid env (bad_request ''invalid_service_id''
                ''service ID must be a valid UUID'') id_str) (\<lambda>service_id.
     andthen (db_conn env) (\<lambda>_.
     andthen (query env (\<lambda>_. internal ''service lookup failed'')
                (sql_service_for service_id (ca_user_id caller))) (\<lambda>found.
     andthen (of_option (not_found ''service not found'') found) (\<lambda>_.
     query env (\<lambda>_. internal ''deploys query failed'') (sql_list_deploys service_id))))))"

definition sql_deployment :: "uuid \<Rightarrow> uuid \<Rightarrow> deployment_row option sql" where
  "sql_deployment did sid t u d =
     (case filter (\<lambda>x. dl_id x = did \<and> dl_service x = sid) (t_deployments d) of
        [] \<Rightarrow> Inr (None, d) | [x] \<Rightarrow> Inr (Some x, d) | _ \<Rightarrow> Inl RowCount)"

text \<open>\<open>ORDER BY created_at DESC OFFSET 1 LIMIT 1\<close>: the last but one deployment.\<close>

definition sql_previous_deployment :: "uuid \<Rightarrow> deployment_row option sql" where
  "sql_previous_deployment sid t u d =
     Inr (case drop 1 (newest_first sid d) of [] \<Rightarrow> None | x # xs \<Rightarrow> Some x, d)"

definition rollback_target :: "env \<Rightarrow> uuid \<Rightarrow> string option \<Rightarrow> deployment_row proc" where
  "rollback_target env sid deploy_id =
     (case deploy_id of
        Some i \<Rightarrow>
          andthen (parse_uuid env (bad_request ''invalid_deploy_id''
                     ''deploy ID must be a valid UUID'') i) (\<lambda>did.
          andthen (query env (\<lambda>_. internal ''deploy lookup failed'') (sql_deployment did sid)) (\<lambda>found.
          of_option (not_found ''deployment not found'') found))
      | None \<Rightarrow>
          andthen (query env (\<lambda>_. internal ''deploy lookup failed'')
                     (sql_previous_deployment sid)) (\<lambda>found.
          of_option (unprocessable ''no_previous_deploy''
                       ''no previous deployment to rollback to'') found))"

definition sql_roll_back :: "uuid \<Rightarrow> string \<Rightarrow> string option \<Rightarrow> unit sql" where
  "sql_roll_back sid key sha t u d =
     Inr ((), d\<lparr>t_services :=
        update_where (\<lambda>s. sv_id s = sid)
          (\<lambda>s. s\<lparr>sv_status := ''provisioning'', sv_upstream := None,
                 sv_artifact_key := Some key, sv_commit_sha := sha\<rparr>) (t_services d)\<rparr>)"

definition rollback_event :: "env \<Rightarrow> service_row \<Rightarrow> deployment_row \<Rightarrow> engine \<Rightarrow> env_map \<Rightarrow> event" where
  "rollback_event env s x eng vars =
     EvProvision
       \<lparr>pe_tenant_id = e_uuid_str env (sv_workspace s),
        pe_service_id = e_uuid_str env (sv_id s),
        pe_app_name = sv_name s,
        pe_slug = sv_slug s,
        pe_engine = eng,
        pe_spec = engine_spec_of env eng (sv_vcpu s) (sv_memory_mb s) (or_default 8080 (dl_port x))
                    (dl_artifact_key x),
        pe_env_vars = vars\<rparr>"

definition rollback_txn ::
  "env \<Rightarrow> uuid \<Rightarrow> service_row \<Rightarrow> deployment_row \<Rightarrow> event \<Rightarrow> unit tx_end proc" where
  "rollback_txn env user_id s x event =
     andthen (stmt env (\<lambda>_. internal ''failed to update service for rollback'')
                (sql_roll_back (sv_id s) (dl_artifact_key x) (dl_commit_sha x))) (\<lambda>_.
     andthen (stmt env (\<lambda>_. internal ''failed to queue rollback event'')
                (sql_insert_outbox subject_provision event)) (\<lambda>_.
     andthen (stmt env (\<lambda>_. internal ''failed to record deployment'')
                (sql_insert_deployment (sv_id s) (sv_workspace s) (sv_slug s) (dl_engine x)
                   (dl_artifact_key x) (dl_commit_sha x) (dl_port x) user_id)) (\<lambda>_.
     ret (Commit ()))))"

definition rollback_service ::
  "env \<Rightarrow> caller \<Rightarrow> string \<Rightarrow> string option \<Rightarrow> deployed_service proc" where
  "rollback_service env caller id_str deploy_id =
     andthen (authorize_service env caller ''write'' id_str) (\<lambda>s.
     andthen (rollback_target env (sv_id s) deploy_id) (\<lambda>x.
     andthen (parse_engine (internal (''unknown engine: '' @ dl_engine x)) (dl_engine x)) (\<lambda>eng.
     andthen (case kv_get env (env_path env (sv_workspace s) (sv_id s)) of
                Inl _ \<Rightarrow> throw (internal ''failed to read environment variables'')
              | Inr m \<Rightarrow> ret (or_default Map.empty m)) (\<lambda>vars.
     andthen (transact env (internal ''failed to start transaction'')
                (internal ''failed to commit rollback transaction'')
                (rollback_txn env (ca_user_id caller) s x (rollback_event env s x eng vars))) (\<lambda>_.
     ret \<lparr>ds_id = sv_id s, ds_name = sv_name s, ds_slug = sv_slug s,
           ds_status = ''provisioning''\<rparr>)))))"

section \<open>Progress stream\<close>

definition step_str :: "deploy_step \<Rightarrow> string" where
  "step_str s =
     (case s of
        Queued \<Rightarrow> ''queued'' | Downloading \<Rightarrow> ''downloading'' | Verifying \<Rightarrow> ''verifying''
      | Building \<Rightarrow> ''building'' | Booting \<Rightarrow> ''booting'' | Starting \<Rightarrow> ''starting''
      | HealthCheck \<Rightarrow> ''health_check'' | Snapshotting \<Rightarrow> ''snapshotting'' | Ready \<Rightarrow> ''ready''
      | Running \<Rightarrow> ''running'' | Failed \<Rightarrow> ''failed'')"

text \<open>\<open>quote\<close> is \<open>serde_json\<close>'s rendering of a string.\<close>

definition progress_sse_event :: "(string \<Rightarrow> string) \<Rightarrow> deploy_step \<Rightarrow> string \<Rightarrow> string" where
  "progress_sse_event quote step message =
     ''{'' @ [CHR 0x22] @ ''step'' @ [CHR 0x22] @ '':'' @ [CHR 0x22] @ step_str step @ [CHR 0x22] @
     '','' @ [CHR 0x22] @ ''message'' @ [CHR 0x22] @ '':'' @ quote message @ ''}''"

text \<open>
  What the select of the loop sees, in its order: a message (none when its payload does
  not parse) or the deadline. The list ends when the subscription does.
\<close>

datatype stream_input = Message "deploy_progress_event option" | Deadline

definition terminal_step :: "deploy_step \<Rightarrow> bool" where
  "terminal_step s = (s \<in> {Running, Ready, Failed})"

definition timed_out_text :: string where
  "timed_out_text = ''Deploy timed out '' @ em_dash @ '' run `flux services` to check status''"

fun stream_loop :: "stream_input list \<Rightarrow> (deploy_step \<times> string) list" where
  "stream_loop [] = []"
| "stream_loop (Deadline # xs) = [(Failed, timed_out_text)]"
| "stream_loop (Message None # xs) = stream_loop xs"
| "stream_loop (Message (Some ev) # xs) =
     (dp_step ev, dp_message ev) #
       (if terminal_step (dp_step ev) then [] else stream_loop xs)"

definition stream_events :: "string \<Rightarrow> stream_input list \<Rightarrow> (deploy_step \<times> string) list" where
  "stream_events current_status xs =
     (if current_status = ''running'' then [(Running, ''Service is already running'')]
      else if current_status = ''failed'' then [(Failed, ''Service failed to provision'')]
      else stream_loop xs)"

definition stream_deploy ::
  "env \<Rightarrow> (string \<Rightarrow> string) \<Rightarrow> caller \<Rightarrow> uuid \<Rightarrow> stream_input list \<Rightarrow> string list proc" where
  "stream_deploy env quote caller service_id xs =
     andthen (db_conn env) (\<lambda>_.
     andthen (query env (\<lambda>_. internal ''service lookup failed'')
                (sql_service_for service_id (ca_user_id caller))) (\<lambda>found.
     andthen (of_option (not_found ''service not found'') found) (\<lambda>(s, role).
     andthen (external env (internal ''subscribe failed'')) (\<lambda>_.
     ret (map (\<lambda>(step, message). progress_sse_event quote step message)
            (stream_events (sv_status s) xs))))))"

text \<open>A stream sends at most one terminal step, and nothing after it.\<close>

lemma stream_loop_terminal_last:
  "stream_loop xs = ys @ (s, m) # zs \<Longrightarrow> terminal_step s \<Longrightarrow> zs = []"
proof (induction xs arbitrary: ys rule: stream_loop.induct)
  case (2 xs)
  then show ?case by (cases ys) auto
next
  case (4 ev xs)
  then show ?case by (cases ys) (auto split: if_splits)
qed auto

section \<open>The books\<close>

lemma no_money_deploy_reads [money_rules]:
  "no_money (sql_project_for pid uid)" "no_money (sql_advisory_lock k)"
  "no_money (sql_count_services wid)" "no_money (sql_slug_active wid slug)"
  "no_money (sql_list_deploys sid)" "no_money (sql_deployment did sid)"
  "no_money (sql_previous_deployment sid)"
  by (rule no_money_read; simp add: sql_project_for_def sql_advisory_lock_def sql_count_services_def
      sql_slug_active_def sql_list_deploys_def sql_deployment_def sql_previous_deployment_def
      split: list.split)+

lemma no_money_deploy_writes [money_rules]:
  "no_money (sql_retire_old wid slug)" "no_money (sql_insert_service p)"
  "no_money (sql_insert_deployment sid wid slug eng key sha port uid)"
  "no_money (sql_roll_back sid key sha)"
  by (rule no_moneyI, auto simp: sql_retire_old_def sql_insert_service_def
      sql_insert_deployment_def sql_roll_back_def accounts_def split: if_splits)+

lemma charge_books:
  assumes ok: "ledger_ok d" and c: "sql_charge wid cost t u d = Inr (y, d1)"
    and i: "sql_insert_charge lid wid (- cost) desc t' u' d1 = Inr (z, d2)"
    and x: "exact_i64 cost"
  shows "ledger_ok d2"
proof -
  have d1: "accounts d1 = book wid (- cost) (accounts d)" "t_ledger d1 = t_ledger d"
    using c by (auto simp: sql_charge_def accounts_def book_def update_where_def split: if_splits)
  from i obtain w where w: "filter (\<lambda>w. ws_id w = wid) (t_workspaces d1) = [w]"
    and d2: "d2 = d1\<lparr>t_ledger := t_ledger d1 @
                 [\<lparr>le_id = lid, le_workspace = wid, le_amount = - cost, le_kind = ''metal_monthly'',
                   le_description = desc, le_reference = None,
                   le_balance_after = ws_balance w, le_session = None, le_created_at = t'\<rparr>]\<rparr>"
    by (auto simp: sql_insert_charge_def split: list.splits if_splits)
  from filter_singletonD [OF w] have "(wid, ws_balance w) \<in> set (accounts d1)"
    by (auto simp: accounts_def)
  then have "(wid, ws_balance w + cost) \<in> set (accounts d)" by (simp add: d1 in_book)
  then have "books_ok (book wid (- cost) (accounts d)) (t_ledger d @
                 [\<lparr>le_id = lid, le_workspace = wid, le_amount = - cost, le_kind = ''metal_monthly'',
                   le_description = desc, le_reference = None,
                   le_balance_after = ws_balance w, le_session = None, le_created_at = t'\<rparr>])"
    by (rule books_post [rotated]) (use ok x in \<open>simp_all add: ledger_ok_def exact_neg\<close>)
  then show ?thesis using d1 by (simp add: ledger_ok_def d2 accounts_def)
qed

lemma first_month_exact:
  "exact_i64 (wrap_i64 (wrap_i32 x * 10000))" "wrap_i64 (wrap_i32 x * 10000) = wrap_i32 x * 10000"
proof -
  have "- (2 ^ 31) \<le> wrap_i32 x" "wrap_i32 x < 2 ^ 31" by (simp_all add: wrap_i32_def)
  then have "in_i64 (wrap_i32 x * 10000)" "in_i64 (- (wrap_i32 x * 10000))"
    by (simp_all add: in_i64_def)
  then show "exact_i64 (wrap_i64 (wrap_i32 x * 10000))"
    "wrap_i64 (wrap_i32 x * 10000) = wrap_i32 x * 10000"
    by (simp_all add: exact_i64_def wrap_i64_id)
qed

lemma triple_charge_first_month:
  "triple ledger_ok (charge_first_month env wid spec) (\<lambda>_. ledger_ok)"
proof -
  define cost where "cost = wrap_i64 (wrap_i32 (int (mt_price_cents spec)) * 10000)"
  have x: "exact_i64 cost" unfolding cost_def by (rule first_month_exact(1))
  define R where "R = (\<lambda>d1. \<exists>t u d y. ledger_ok d \<and> sql_charge wid cost t u d = Inr (y, d1))"
  have post: "ledger_ok d2"
    if "R d1" and "sql_insert_charge lid wid (- cost) desc t u d1 = Inr (y, d2)"
    for d1 d2 lid desc t u y
    using that charge_books [OF _ _ _ x] by (auto simp: R_def)
  show ?thesis
    unfolding charge_first_month_def Let_def cost_def [symmetric] exact_wrap [OF x]
    apply (rule triple_andthen [where R = "\<lambda>_. R"])
     apply (rule triple_stmt, force simp: R_def)
    apply (rule triple_andthen [where R = "\<lambda>_. R"])
     apply (rule triple_keeps, rule keeps_fresh_id)
    apply (rule triple_stmt, blast intro: post)
    done
qed

lemma triple_deploy:
  "triple ledger_ok (deploy_txn env uid p)
     (\<lambda>r d. case r of Commit _ \<Rightarrow> ledger_ok d | Rollback _ \<Rightarrow> True)"
  unfolding deploy_txn_def Let_def
  apply (rule triple_andthen [where R = "\<lambda>_. ledger_ok"])
   apply (rule triple_keeps, intro proc_rules books.no_money_keeps money_rules)
  apply (rule triple_andthen [where R = "\<lambda>_. ledger_ok"])
   apply (rule triple_keeps, intro proc_rules books.no_money_keeps money_rules)
  apply (rule triple_andthen [where R = "\<lambda>_. ledger_ok"])
   apply (cases "pl_tier p")
    apply (simp add: triple_keeps keeps_ret)
   apply (simp add: triple_charge_first_month)
  apply (rule triple_weaken [where R = "\<lambda>_. ledger_ok"])
    apply (rule triple_keeps, intro proc_rules books.no_money_keeps money_rules)
   apply simp
  apply (simp split: tx_end.split)
  done

lemma deploy_keeps_books: "keeps ledger_ok (deploy_service env caller body)"
  unfolding deploy_service_def Let_def authorize_project_def deploy_check_txn_def
  by (intro proc_rules books.no_money_keeps money_rules books.keeps_transact_plain
      keeps_transact [OF triple_deploy])

context money_frame
begin

lemma keeps_rollback: "keeps I (rollback_service env caller i did)"
  unfolding rollback_service_def rollback_target_def rollback_txn_def
  by (intro proc_rules money_rules keeps_transact_plain)

end

end
