(* ===== verification/Outbox.thy ===== *)
theory Outbox
  imports Ledger
begin

text \<open>
  The outbox poller (\<open>crates/api/src/outbox.rs\<close>): it publishes the oldest rows to
  JetStream inside a transaction that deletes them, purges stale rows once a minute and
  reports the lag. The contract \<open>delivery\<close> says what a transport must not do: lose an
  event that is neither waiting nor sent.
\<close>

section \<open>One poll\<close>

definition oldest_first :: "db \<Rightarrow> outbox_row list" where
  "oldest_first d = sort_key ob_created_at (t_outbox d)"

definition sql_outbox_batch :: "int \<Rightarrow> outbox_row list sql" where
  "sql_outbox_batch batch_size t u d =
     (if batch_size < 0 then Inl InvalidLimit
      else Inr (take (nat batch_size) (oldest_first d), d))"

definition sql_delete_outbox :: "uuid list \<Rightarrow> unit sql" where
  "sql_delete_outbox ids t u d =
     Inr ((), d\<lparr>t_outbox := delete_where (\<lambda>r. ob_id r \<in> set ids) (t_outbox d)\<rparr>)"

text \<open>
  A publish is sent, then acknowledged; either await can fail. A message whose
  acknowledgement is lost has been sent all the same.
\<close>

definition publish_acked :: "env \<Rightarrow> outbox_row \<Rightarrow> unit proc" where
  "publish_acked env r =
     andthen (external env (Anyhow ''publish'')) (\<lambda>_.
     andthen (emit (JetStream (ob_subject r) (ob_payload r))) (\<lambda>_.
     external env (Anyhow ''publish ack'')))"

definition poll_txn :: "env \<Rightarrow> int \<Rightarrow> unit tx_end proc" where
  "poll_txn env batch_size =
     andthen (stmt env (\<lambda>_. Anyhow ''outbox query'') (sql_outbox_batch batch_size)) (\<lambda>rows.
     if rows = [] then ret (Rollback ())
     else
       andthen (for_each (publish_acked env) rows) (\<lambda>_.
       andthen (stmt env (\<lambda>_. Anyhow ''outbox delete'') (sql_delete_outbox (map ob_id rows))) (\<lambda>_.
       ret (Commit ()))))"

definition poll_once :: "env \<Rightarrow> int \<Rightarrow> unit proc" where
  "poll_once env batch_size =
     andthen (external env (Anyhow ''db pool'')) (\<lambda>_.
     transact env (Anyhow ''begin'') (Anyhow ''commit'') (poll_txn env batch_size))"

section \<open>Stale rows and metrics\<close>

definition sql_delete_stale :: "int \<Rightarrow> nat sql" where
  "sql_delete_stale stale_mins t u d =
     (let p = (\<lambda>r. ob_created_at r < t - 60 * stale_mins)
      in Inr (length (filter p (t_outbox d)), d\<lparr>t_outbox := delete_where p (t_outbox d)\<rparr>))"

definition cleanup_stale :: "env \<Rightarrow> int \<Rightarrow> unit proc" where
  "cleanup_stale env stale_mins =
     andthen (external env (Anyhow ''db pool'')) (\<lambda>_.
     andthen (query env (\<lambda>_. Anyhow ''outbox cleanup'') (sql_delete_stale stale_mins)) (\<lambda>n.
     ret ()))"

definition sql_outbox_lag :: "(int \<times> int) sql" where
  "sql_outbox_lag t u d =
     Inr ((int (length (t_outbox d)),
           case t_outbox d of [] \<Rightarrow> 0 | r # rs \<Rightarrow> t - ob_created_at (hd (oldest_first d))), d)"

definition emit_lag_metrics :: "env \<Rightarrow> (int \<times> int) proc" where
  "emit_lag_metrics env =
     andthen (external env (Anyhow ''db pool'')) (\<lambda>_.
     query env (\<lambda>_. Anyhow ''outbox lag'') sql_outbox_lag)"

section \<open>The loop\<close>

text \<open>\<open>env_or(key, default).parse().unwrap_or(default)\<close>.\<close>

definition poll_secs :: "env \<Rightarrow> nat" where
  "poll_secs env =
     or_default 1 (parse_unsigned (2 ^ 64) (env_or (e_vars env) ''OUTBOX_POLL_SECS'' ''1''))"

definition batch_size :: "env \<Rightarrow> int" where
  "batch_size env =
     or_default 50 (parse_i64 (env_or (e_vars env) ''OUTBOX_BATCH_SIZE'' ''50''))"

definition stale_mins :: "env \<Rightarrow> int" where
  "stale_mins env =
     (case parse_i64 (env_or (e_vars env) ''OUTBOX_STALE_MINS'' ''30'') of
        None \<Rightarrow> 30
      | Some n \<Rightarrow> if - (2 ^ 31) \<le> n \<and> n < 2 ^ 31 then n else 30)"

definition cleanup_every :: "env \<Rightarrow> nat" where
  "cleanup_every env =
     (if 0 < poll_secs env then wrap_u32 (int (max (60 div poll_secs env) 1)) else 60)"

text \<open>One turn of the loop, from the counter of cycles to the next one.\<close>

definition run_cycle :: "env \<Rightarrow> nat \<Rightarrow> nat proc" where
  "run_cycle env cycles =
     andthen (log_errors (poll_once env (batch_size env))) (\<lambda>_.
     if cleanup_every env \<le> cycles + 1 then
       andthen (log_errors (cleanup_stale env (stale_mins env))) (\<lambda>_.
       andthen (log_errors (andthen (emit_lag_metrics env) (\<lambda>_. ret ()))) (\<lambda>_.
       ret 0))
     else ret (cycles + 1))"

section \<open>What a transport must not lose\<close>

locale delivery =
  fixes waiting :: "'w \<Rightarrow> 'e set" and sent :: "'w \<Rightarrow> 'e set" and ok :: "'w \<Rightarrow> bool"
    and step :: "'w \<Rightarrow> 'w"
  assumes step_ok: "ok w \<Longrightarrow> ok (step w)"
    and step_sent: "sent w \<subseteq> sent (step w)"
    and step_conserves: "ok w \<Longrightarrow> waiting w \<subseteq> waiting (step w) \<union> sent (step w)"
begin

lemma steps_ok: "ok w \<Longrightarrow> ok ((step ^^ n) w)"
  by (induction n) (auto intro: step_ok)

lemma steps_sent: "sent w \<subseteq> sent ((step ^^ n) w)"
  by (induction n) (use step_sent in auto)

lemma steps_conserve: "ok w \<Longrightarrow> waiting w \<subseteq> waiting ((step ^^ n) w) \<union> sent ((step ^^ n) w)"
proof (induction n)
  case (Suc n)
  have "waiting ((step ^^ n) w) \<subseteq> waiting ((step ^^ Suc n) w) \<union> sent ((step ^^ Suc n) w)"
    using step_conserves [OF steps_ok [OF Suc.prems, of n]] by simp
  moreover have "sent ((step ^^ n) w) \<subseteq> sent ((step ^^ Suc n) w)"
    using step_sent by simp
  ultimately show ?case using Suc by blast
qed simp

end

section \<open>Publishing a batch\<close>

definition message_of :: "outbox_row \<Rightarrow> effect" where
  "message_of r = JetStream (ob_subject r) (ob_payload r)"

definition outbox_ids_ok :: "db \<Rightarrow> bool" where
  "outbox_ids_ok d = distinct (map ob_id (t_outbox d))"

text \<open>Publishing changes the log only, and only by appending messages of the batch.\<close>

lemma publish_acked_effect:
  "\<exists>xs. w_log (snd (publish_acked env r w)) = w_log w @ xs \<and>
     (fst (publish_acked env r w) = Inr () \<longrightarrow> xs = [message_of r]) \<and>
     w_db (snd (publish_acked env r w)) = w_db w \<and>
     w_aborted (snd (publish_acked env r w)) = w_aborted w"
  by (auto simp: publish_acked_def andthen_def external_def emit_def message_of_def)

lemma publish_all_effect:
  "\<exists>xs. w_log (snd (for_each (publish_acked env) rows w)) = w_log w @ xs \<and>
     (fst (for_each (publish_acked env) rows w) = Inr () \<longrightarrow> xs = map message_of rows) \<and>
     w_db (snd (for_each (publish_acked env) rows w)) = w_db w \<and>
     w_aborted (snd (for_each (publish_acked env) rows w)) = w_aborted w"
proof (induction rows arbitrary: w)
  case Nil
  then show ?case by (simp add: ret_def)
next
  case (Cons r rows)
  obtain a w1 where p: "publish_acked env r w = (a, w1)" by fastforce
  from publish_acked_effect [of env r w] p obtain xs where
    xs: "w_log w1 = w_log w @ xs" "a = Inr () \<longrightarrow> xs = [message_of r]" "w_db w1 = w_db w"
    "w_aborted w1 = w_aborted w" by auto
  show ?case
  proof (cases a)
    case (Inl e)
    then show ?thesis using p xs by (simp add: andthen_def)
  next
    case (Inr u)
    from Cons.IH [of w1] obtain ys where
      "w_log (snd (for_each (publish_acked env) rows w1)) = w_log w1 @ ys"
      "fst (for_each (publish_acked env) rows w1) = Inr () \<longrightarrow> ys = map message_of rows"
      "w_db (snd (for_each (publish_acked env) rows w1)) = w_db w1"
      "w_aborted (snd (for_each (publish_acked env) rows w1)) = w_aborted w1" by blast
    then show ?thesis using Inr p xs by (simp add: andthen_def)
  qed
qed

lemma oldest_first_set [simp]: "set (oldest_first d) = set (t_outbox d)"
  by (simp add: oldest_first_def)

text \<open>What a committed poll did.\<close>

lemma poll_txn_commit:
  assumes "poll_txn env n w = (Inr (Commit u), w')" and a: "\<not> w_aborted w"
  shows "\<exists>rows. rows = take (nat n) (oldest_first (w_db w)) \<and>
    w_db w' = (w_db w)\<lparr>t_outbox :=
      delete_where (\<lambda>r. ob_id r \<in> set (map ob_id rows)) (t_outbox (w_db w))\<rparr> \<and>
    w_log w' = w_log w @ map message_of rows"
proof -
  define rows where "rows = take (nat n) (oldest_first (w_db w))"
  from assms obtain w1 where s: "stmt env (\<lambda>_. Anyhow ''outbox query'') (sql_outbox_batch n) w = (Inr rows, w1)"
    and ne: "rows \<noteq> []"
    and rest: "andthen (for_each (publish_acked env) rows) (\<lambda>_.
       andthen (stmt env (\<lambda>_. Anyhow ''outbox delete'') (sql_delete_outbox (map ob_id rows))) (\<lambda>_.
       ret (Commit ()))) w1 = (Inr (Commit u), w')"
    by (auto simp: poll_txn_def andthen_Inr stmt_def try_stmt_def sql_outbox_batch_def throw_def
        ret_def rows_def split: if_splits sum.splits prod.splits)
  from s have w1: "w_db w1 = w_db w" "w_log w1 = w_log w" "\<not> w_aborted w1"
    by (auto simp: stmt_def andthen_def try_stmt_def sql_outbox_batch_def throw_def ret_def a
        split: if_splits sum.splits prod.splits)
  from rest obtain y w2 where f: "for_each (publish_acked env) rows w1 = (Inr y, w2)"
    and d: "andthen (stmt env (\<lambda>_. Anyhow ''outbox delete'') (sql_delete_outbox (map ob_id rows))) (\<lambda>_.
       ret (Commit ())) w2 = (Inr (Commit u), w')"
    by (auto simp: andthen_Inr)
  from publish_all_effect [of env rows w1] f w1 have w2: "w_db w2 = w_db w"
    "w_log w2 = w_log w @ map message_of rows" by auto
  from d w2 show ?thesis
    by (auto simp: andthen_def stmt_def try_stmt_def sql_delete_outbox_def throw_def ret_def
        rows_def split: if_splits sum.splits prod.splits)
qed

lemma poll_once_cases:
  assumes "poll_once env n w = (r, w')"
  shows "w_db w' = w_db w \<or>
    (\<exists>rows. rows = take (nat n) (oldest_first (w_db w)) \<and>
      w_db w' = (w_db w)\<lparr>t_outbox :=
        delete_where (\<lambda>x. ob_id x \<in> set (map ob_id rows)) (t_outbox (w_db w))\<rparr> \<and>
      w_log w' = w_log w @ map message_of rows)"
proof (cases "e_fault env (w_calls w)")
  case True
  then show ?thesis using assms by (auto simp: poll_once_def andthen_def external_def)
next
  case False
  define w1 where "w1 = tick w"
  have w1: "w_db w1 = w_db w" "w_log w1 = w_log w" by (simp_all add: w1_def)
  have t: "transact env (Anyhow ''begin'') (Anyhow ''commit'') (poll_txn env n) w1 = (r, w')"
    using assms False by (simp add: poll_once_def andthen_def external_def w1_def)
  show ?thesis
  proof (cases "w_db w' = w_db w")
    case neq: False
    with t w1 obtain u w2 where b: "poll_txn env n ((tick w1)\<lparr>w_aborted := False\<rparr>) = (Inr (Commit u), w2)"
      and "w_db w' = w_db w2" "w_log w' = w_log w2"
      by (auto simp: transact_def split: if_splits prod.splits sum.splits tx_end.splits)
    with poll_txn_commit [OF b] w1 show ?thesis by simp
  qed simp
qed

lemma sent_once_deleted:
  assumes "outbox_ids_ok d" and "r \<in> set (t_outbox d)" and "set rows \<subseteq> set (t_outbox d)"
    and "ob_id r \<in> set (map ob_id rows)"
  shows "r \<in> set rows"
proof -
  from assms(4) obtain q where "q \<in> set rows" "ob_id q = ob_id r" by auto
  with assms show ?thesis by (metis distinct_map inj_onD outbox_ids_ok_def subsetD)
qed

lemma poll_conserves:
  assumes ok: "outbox_ids_ok (w_db w)" and p: "poll_once env n w = (r, w')"
    and x: "x \<in> set (t_outbox (w_db w))"
  shows "x \<in> set (t_outbox (w_db w')) \<or> message_of x \<in> set (w_log w')"
  using poll_once_cases [OF p]
proof (elim disjE exE conjE)
  fix rows
  assume rows: "rows = take (nat n) (oldest_first (w_db w))"
    and db: "w_db w' = (w_db w)\<lparr>t_outbox :=
        delete_where (\<lambda>x. ob_id x \<in> set (map ob_id rows)) (t_outbox (w_db w))\<rparr>"
    and log: "w_log w' = w_log w @ map message_of rows"
  have "set rows \<subseteq> set (t_outbox (w_db w))"
    unfolding rows using set_take_subset by (metis oldest_first_set)
  with sent_once_deleted [OF ok x] db log x show ?thesis by fastforce
qed (use x in simp)

lemma poll_ids_ok:
  assumes "outbox_ids_ok (w_db w)" shows "outbox_ids_ok (w_db (snd (poll_once env n w)))"
proof -
  obtain r w' where p: "poll_once env n w = (r, w')" by fastforce
  from poll_once_cases [OF p] assms show ?thesis
    by (auto simp: p outbox_ids_ok_def delete_where_def distinct_map_filter)
qed

lemma poll_grows: "grows (poll_once env n)"
  unfolding poll_once_def poll_txn_def publish_acked_def by (intro grow_rules)

interpretation poll: delivery "\<lambda>w. message_of ` set (t_outbox (w_db w))" "\<lambda>w. set (w_log w)"
    "\<lambda>w. outbox_ids_ok (w_db w)" "\<lambda>w. snd (poll_once env n w)"
  for env n
proof unfold_locales
  fix w
  show "outbox_ids_ok (w_db w) \<Longrightarrow> outbox_ids_ok (w_db (snd (poll_once env n w)))"
    by (rule poll_ids_ok)
  show "set (w_log w) \<subseteq> set (w_log (snd (poll_once env n w)))"
    using poll_grows by (auto simp: grows_def)
  assume ok: "outbox_ids_ok (w_db w)"
  obtain r w' where p: "poll_once env n w = (r, w')" by fastforce
  show "message_of ` set (t_outbox (w_db w)) \<subseteq>
      message_of ` set (t_outbox (w_db (snd (poll_once env n w)))) \<union>
      set (w_log (snd (poll_once env n w)))"
    using poll_conserves [OF ok p] by (auto simp: p)
qed

end
