(* ===== verification/BillingApi.thy ===== *)
theory BillingApi
  imports Ledger
begin

text \<open>
  The endpoints and the invoice generator of \<open>crates/api/src/billing.rs\<close>: balance, usage,
  ledger, top-up, invoices, and the creation of Stripe invoices as receipts of what the
  balance already paid.
\<close>

section \<open>Lookups\<close>

definition oldest_owned :: "uuid \<Rightarrow> db \<Rightarrow> member_row list" where
  "oldest_owned uid d =
     sort_key wm_created_at
       (filter (\<lambda>m. wm_user m = uid \<and> wm_role m = ''owner'') (t_members d))"

definition sql_owner_workspace :: "uuid \<Rightarrow> uuid option sql" where
  "sql_owner_workspace uid t u d =
     Inr (case oldest_owned uid d of [] \<Rightarrow> None | m # ms \<Rightarrow> Some (wm_workspace m), d)"

definition extract_workspace_id :: "env \<Rightarrow> uuid \<Rightarrow> uuid proc" where
  "extract_workspace_id env user_id =
     andthen (db_conn env) (\<lambda>_.
     andthen (query env (\<lambda>e. internal (''workspace lookup: '' @ e_show_sql env e))
                (sql_owner_workspace user_id)) (\<lambda>row.
     of_option (not_found ''workspace not found for this user'') row))"

text \<open>The workspace joined with its owners: \<open>query_one\<close> needs exactly one.\<close>

definition sql_workspace_owner :: "uuid \<Rightarrow> (string option \<times> string \<times> string) sql" where
  "sql_workspace_owner wid t u d =
     (case concat (map (\<lambda>w. concat (map (\<lambda>m. map (\<lambda>r. (ws_stripe_customer w, ws_name w, us_email r))
              (filter (\<lambda>r. us_id r = wm_user m) (t_users d)))
            (filter (\<lambda>m. wm_workspace m = ws_id w \<and> wm_role m = ''owner'') (t_members d))))
          (filter (\<lambda>w. ws_id w = wid) (t_workspaces d))) of
        [x] \<Rightarrow> Inr (x, d)
      | _ \<Rightarrow> Inl RowCount)"

definition sql_set_customer :: "string \<Rightarrow> uuid \<Rightarrow> unit sql" where
  "sql_set_customer customer wid t u d =
     (if workspace_exists wid d \<and>
         list_ex (\<lambda>w. ws_id w \<noteq> wid \<and> ws_stripe_customer w = Some customer) (t_workspaces d)
      then Inl UniqueViolation
      else Inr ((), d\<lparr>t_workspaces :=
             update_where (\<lambda>w. ws_id w = wid) (\<lambda>w. w\<lparr>ws_stripe_customer := Some customer\<rparr>)
               (t_workspaces d)\<rparr>))"

definition get_or_create_stripe_customer :: "env \<Rightarrow> uuid \<Rightarrow> string proc" where
  "get_or_create_stripe_customer env workspace_id =
     andthen (query env (\<lambda>e. internal (''workspace query: '' @ e_show_sql env e))
                (sql_workspace_owner workspace_id)) (\<lambda>(existing, name, email).
     case existing of
       Some cid \<Rightarrow> ret cid
     | None \<Rightarrow>
         andthen (ensure (e_stripe env \<noteq> None) (unavailable ''billing not configured'')) (\<lambda>_.
         andthen (map_anyhow (\<lambda>s. bad_gateway (''Stripe create customer: '' @ s))
                    (create_customer env name email (e_uuid_str env workspace_id))) (\<lambda>customer.
         andthen (query env (\<lambda>e. internal (''update stripe_customer_id: '' @ e_show_sql env e))
                    (sql_set_customer customer workspace_id)) (\<lambda>_.
         ret customer))))"

section \<open>Balance, usage, ledger\<close>

definition sql_workspace :: "uuid \<Rightarrow> workspace_row sql" where
  "sql_workspace wid t u d =
     (case filter (\<lambda>w. ws_id w = wid) (t_workspaces d) of [w] \<Rightarrow> Inr (w, d) | _ \<Rightarrow> Inl RowCount)"

record balance_response =
  br_balance :: int
  br_free_used :: int
  br_free_limit :: int

definition get_balance :: "env \<Rightarrow> caller \<Rightarrow> balance_response proc" where
  "get_balance env caller =
     andthen (of_sum (require_scope caller ''read'')) (\<lambda>_.
     andthen (extract_workspace_id env (ca_user_id caller)) (\<lambda>wid.
     andthen (db_conn env) (\<lambda>_.
     andthen (query env (\<lambda>e. internal (''balance query: '' @ e_show_sql env e))
                (sql_workspace wid)) (\<lambda>w.
     ret \<lparr>br_balance = ws_balance w, br_free_used = ws_free_used w,
           br_free_limit = FREE_LIQUID_INVOCATIONS\<rparr>))))"

text \<open>
  The usage query: the price sum is over \<open>INTEGER\<close> and so a \<open>BIGINT\<close>; the invocation sum
  is cast to \<open>bigint\<close>, which fails out of range.
\<close>

definition sql_usage :: "uuid \<Rightarrow> (int \<times> int \<times> int) sql" where
  "sql_usage wid t u d =
     (case filter (\<lambda>w. ws_id w = wid) (t_workspaces d) of
        [w] \<Rightarrow>
          let metal = sum_list (map (\<lambda>s. or_default 0 (sv_price_cents s))
                (filter (\<lambda>s. sv_workspace s = wid \<and> sv_engine s = ''metal'' \<and>
                             sv_status s \<in> {''running'', ''provisioning''} \<and>
                             sv_deleted_at s = None) (t_services d)));
              invocations = sum_list (map ue_quantity
                (filter (\<lambda>r. ue_workspace r = wid \<and> ue_engine r = ''liquid'' \<and>
                             ws_free_reset_at w \<le> ue_created_at r) (t_usage d)))
          in if in_i64 metal \<and> in_i64 invocations
             then Inr ((ws_free_used w, metal, invocations), d) else Inl NumericOverflow
      | _ \<Rightarrow> Inl RowCount)"

record usage_response =
  ur_metal_cents :: int
  ur_invocations :: int
  ur_cost :: int

definition usage_billable :: "int \<Rightarrow> int \<Rightarrow> int" where
  "usage_billable invocations free_used =
     max (wrap_i64 (invocations - min free_used invocations)) 0"

definition get_usage :: "env \<Rightarrow> caller \<Rightarrow> usage_response proc" where
  "get_usage env caller =
     andthen (of_sum (require_scope caller ''read'')) (\<lambda>_.
     andthen (extract_workspace_id env (ca_user_id caller)) (\<lambda>wid.
     andthen (db_conn env) (\<lambda>_.
     andthen (query env (\<lambda>e. internal (''usage query: '' @ e_show_sql env e)) (sql_usage wid))
       (\<lambda>(free_used, metal, invocations).
     ret \<lparr>ur_metal_cents = metal, ur_invocations = invocations,
           ur_cost = liquid_cost (usage_billable invocations free_used)\<rparr>))))"

definition sql_ledger :: "uuid \<Rightarrow> ledger_row list sql" where
  "sql_ledger wid t u d =
     Inr (take 100 (rev (sort_key le_created_at
            (filter (\<lambda>r. le_workspace r = wid) (t_ledger d)))), d)"

definition get_ledger :: "env \<Rightarrow> caller \<Rightarrow> ledger_row list proc" where
  "get_ledger env caller =
     andthen (of_sum (require_scope caller ''read'')) (\<lambda>_.
     andthen (extract_workspace_id env (ca_user_id caller)) (\<lambda>wid.
     andthen (db_conn env) (\<lambda>_.
     query env (\<lambda>e. internal (''ledger query: '' @ e_show_sql env e)) (sql_ledger wid))))"

section \<open>Top-up\<close>

text \<open>The reply is the checkout URL and the session id.\<close>

definition create_topup :: "env \<Rightarrow> caller \<Rightarrow> nat \<Rightarrow> string \<Rightarrow> string \<Rightarrow> (string \<times> string) proc" where
  "create_topup env caller amount_cents success_url cancel_url =
     andthen (of_sum (require_scope caller ''admin'')) (\<lambda>_.
     andthen (ensure (e_stripe env \<noteq> None) (unavailable ''billing not configured'')) (\<lambda>_.
     andthen (extract_workspace_id env (ca_user_id caller)) (\<lambda>wid.
     andthen (db_conn env) (\<lambda>_.
     andthen (get_or_create_stripe_customer env wid) (\<lambda>customer_id.
     andthen (ensure (\<not> amount_cents < 100)
                (bad_request ''invalid_amount'' ''minimum top-up is $1.00'')) (\<lambda>_.
     andthen (map_anyhow (\<lambda>s. bad_gateway (''Stripe: '' @ s))
                (create_topup_session env customer_id amount_cents success_url cancel_url))
       (\<lambda>session.
     ret (or_default [] (cs_url session), cs_id session))))))))"

section \<open>Invoices\<close>

definition invoice_due :: "int \<Rightarrow> workspace_row \<Rightarrow> bool" where
  "invoice_due t w =
     (ws_stripe_customer w \<noteq> None \<and> ws_deleted_at w = None \<and>
      ((ws_last_invoice_at w = None \<and> ws_created_at w + days 30 \<le> t) \<or>
       (case ws_last_invoice_at w of None \<Rightarrow> False | Some l \<Rightarrow> l + days 30 \<le> t)))"

definition sql_invoiceable :: "workspace_row list sql" where
  "sql_invoiceable t u d = Inr (filter (invoice_due t) (t_workspaces d), d)"

definition sql_sum_charges :: "uuid \<Rightarrow> string \<Rightarrow> int \<Rightarrow> int \<Rightarrow> int sql" where
  "sql_sum_charges wid kind from until t u d =
     Inr (sum_list (map (\<lambda>r. \<bar>le_amount r\<bar>)
            (filter (\<lambda>r. le_workspace r = wid \<and> le_kind r = kind \<and>
                         from \<le> le_created_at r \<and> le_created_at r < until) (t_ledger d))), d)"

definition sql_set_last_invoice :: "int \<Rightarrow> uuid \<Rightarrow> unit sql" where
  "sql_set_last_invoice period_end wid t u d =
     Inr ((), d\<lparr>t_workspaces :=
        update_where (\<lambda>w. ws_id w = wid) (\<lambda>w. w\<lparr>ws_last_invoice_at := Some period_end\<rparr>)
          (t_workspaces d)\<rparr>)"

definition invoice_status_check :: "string \<Rightarrow> bool" where
  "invoice_status_check s = (s \<in> {''draft'', ''open'', ''paid'', ''void'', ''uncollectible''})"

definition sql_insert_invoice :: "uuid \<Rightarrow> stripe_invoice \<Rightarrow> int \<Rightarrow> int \<Rightarrow> int \<Rightarrow> unit sql" where
  "sql_insert_invoice wid paid total_cents period_start period_end t u d =
     (let status = or_default ''paid'' (si_status paid) in
      if \<not> invoice_status_check status then Inl CheckViolation
      else if list_ex (\<lambda>r. iv_id r = u \<or> iv_stripe_id r = si_id paid) (t_invoices d)
      then Inl UniqueViolation
      else if \<not> workspace_exists wid d then Inl ForeignKeyViolation
      else Inr ((), d\<lparr>t_invoices := t_invoices d @
             [\<lparr>iv_id = u, iv_workspace = wid, iv_stripe_id = si_id paid, iv_number = si_number paid,
               iv_status = status, iv_amount_cents = total_cents, iv_hosted_url = si_hosted_url paid,
               iv_pdf_url = si_pdf paid, iv_period_start = period_start,
               iv_period_end = period_end, iv_created_at = t\<rparr>]\<rparr>))"

definition with_context :: "string \<Rightarrow> 'a proc \<Rightarrow> 'a proc" where
  "with_context ctx m = map_anyhow (\<lambda>_. Anyhow ctx) m"

definition invoice_text :: "env \<Rightarrow> string \<Rightarrow> int \<Rightarrow> int \<Rightarrow> string" where
  "invoice_text env pre period_start period_end =
     pre @ e_format_date env period_start @ '' '' @ em_dash @ '' '' @ e_format_date env period_end"

text \<open>The calls to Stripe of one invoice, from the draft to the paid invoice.\<close>

definition settle_invoice ::
  "env \<Rightarrow> uuid \<Rightarrow> string \<Rightarrow> int \<Rightarrow> int \<Rightarrow> int \<Rightarrow> int \<Rightarrow> stripe_invoice proc" where
  "settle_invoice env wid customer_id period_start period_end metal_cents liquid_cents =
     andthen (with_context ''create stripe invoice''
                (create_invoice env customer_id
                   (invoice_text env ''Liquid Metal usage: '' period_start period_end) 0
                   [(''metadata[workspace_id]'', e_uuid_str env wid),
                    (''metadata[period_start]'', e_format_date env period_start),
                    (''metadata[period_end]'', e_format_date env period_end)])) (\<lambda>invoice.
     andthen (if 0 < metal_cents
              then andthen (with_context ''add metal invoice item''
                     (add_invoice_item env customer_id (si_id invoice)
                        (invoice_text env ''Metal VM charges ('' period_start period_end @ '')'')
                        metal_cents)) (\<lambda>_. ret ())
              else ret ()) (\<lambda>_.
     andthen (if 0 < liquid_cents
              then andthen (with_context ''add liquid invoice item''
                     (add_invoice_item env customer_id (si_id invoice)
                        (invoice_text env ''Wasm invocation charges ('' period_start period_end @ '')'')
                        liquid_cents)) (\<lambda>_. ret ())
              else ret ()) (\<lambda>_.
     andthen (with_context ''finalize stripe invoice'' (finalize_invoice env (si_id invoice))) (\<lambda>_.
     with_context ''mark stripe invoice paid'' (mark_invoice_paid env (si_id invoice))))))"

definition generate_workspace_invoice :: "env \<Rightarrow> uuid \<Rightarrow> string \<Rightarrow> int \<Rightarrow> int \<Rightarrow> unit proc" where
  "generate_workspace_invoice env wid customer_id period_start period_end =
     andthen (query env (\<lambda>_. Anyhow ''sum metal charges'')
                (sql_sum_charges wid ''metal_monthly'' period_start period_end)) (\<lambda>m.
     andthen (decode_i64 env Numeric m) (\<lambda>metal_microcredits.
     andthen (query env (\<lambda>_. Anyhow ''sum liquid charges'')
                (sql_sum_charges wid ''usage_liquid'' period_start period_end)) (\<lambda>l.
     andthen (decode_i64 env Numeric l) (\<lambda>liquid_microcredits.
     if wrap_i64 (metal_microcredits + liquid_microcredits) = 0
     then query env (\<lambda>_. Anyhow ''advance last_invoice_at (no charges)'')
            (sql_set_last_invoice period_end wid)
     else
       let metal_cents = metal_microcredits sdiv MICROCREDITS_PER_CENT;
           liquid_cents = liquid_microcredits sdiv MICROCREDITS_PER_CENT;
           total_cents = wrap_i64 (metal_cents + liquid_cents)
       in andthen (settle_invoice env wid customer_id period_start period_end
                     metal_cents liquid_cents) (\<lambda>paid.
          andthen (query env (\<lambda>_. Anyhow ''insert local invoice record'')
                     (sql_insert_invoice wid paid total_cents period_start period_end)) (\<lambda>_.
          query env (\<lambda>_. Anyhow ''advance last_invoice_at'')
            (sql_set_last_invoice period_end wid)))))))"

text \<open>A workspace whose invoice fails is logged and skipped; a panic ends the task.\<close>

definition invoice_workspace :: "env \<Rightarrow> workspace_row \<Rightarrow> unit proc" where
  "invoice_workspace env w =
     (let period_start = or_default (ws_created_at w) (ws_last_invoice_at w);
          period_end = period_start + days 30
      in if e_now env < period_end then ret ()
         else log_errors (generate_workspace_invoice env (ws_id w)
                (or_default [] (ws_stripe_customer w)) period_start period_end))"

definition generate_invoices_once :: "env \<Rightarrow> unit proc" where
  "generate_invoices_once env =
     andthen (ensure (e_stripe env \<noteq> None) (Anyhow ''stripe not configured'')) (\<lambda>_.
     andthen (external env (Anyhow ''db pool'')) (\<lambda>_.
     andthen (query env (\<lambda>_. Anyhow ''find invoiceable workspaces'') sql_invoiceable) (\<lambda>rows.
     for_each (invoice_workspace env) rows)))"

definition sql_list_invoices :: "uuid \<Rightarrow> invoice_row list sql" where
  "sql_list_invoices wid t u d =
     Inr (take 50 (rev (sort_key iv_created_at
            (filter (\<lambda>r. iv_workspace r = wid) (t_invoices d)))), d)"

definition list_invoices :: "env \<Rightarrow> caller \<Rightarrow> invoice_row list proc" where
  "list_invoices env caller =
     andthen (of_sum (require_scope caller ''read'')) (\<lambda>_.
     andthen (extract_workspace_id env (ca_user_id caller)) (\<lambda>wid.
     andthen (db_conn env) (\<lambda>_.
     query env (\<lambda>e. internal (''invoices query: '' @ e_show_sql env e)) (sql_list_invoices wid))))"

end
