(* ===== verification/Samples.thy ===== *)
theory Samples
  imports ApiAuth
begin

text \<open>
  A concrete environment and small tables on which the properties are exercised: no call
  fails, the clock stands still, identifiers are numbers written in decimal, the driver
  accepts only \<open>INT8\<close> as \<open>i64\<close>.
\<close>

definition sample_features :: features where
  "sample_features = \<lparr>require_invite = False, enable_metal = True, enable_liquid = True,
     enforce_quotas = True, maintenance_mode = False\<rparr>"

definition sample_env :: env where
  "sample_env =
     \<lparr>e_fault = (\<lambda>_. False), e_pool_timeout = (\<lambda>_. False), e_now = 1700000000,
      e_add_month = (\<lambda>t. t + 2592000), e_fresh = (\<lambda>n. of_nat (1000 + n)),
      e_parse_uuid = map_of [(''1'', 1), (''2'', 2), (''3'', 3), (''7'', 7), (''8'', 8)],
      e_uuid_str = (\<lambda>u. show_nat (unat u)), e_uuid_simple = (\<lambda>_. replicate 32 (CHR 0x30)),
      e_header_str = Some, e_max_time = 8000000000000, e_i64_accepts = (\<lambda>ty. ty = Int8),
      e_show_sql = (\<lambda>_. ''error''), e_vault = (\<lambda>_. VaultReply 404 None),
      e_stripe = Some (\<lambda>_ _ _. None), e_webhook_secret = Some ''whsec'', e_vars = Map.empty,
      e_uni_lower = (\<lambda>s. s), e_uni_alnum = (\<lambda>_. False), e_uni_upper = (\<lambda>s. s),
      e_features = sample_features, e_internal_secrets = [''internal''],
      e_default_quota = default_quota, e_sha256 = (\<lambda>s. s), e_format_date = show_int,
      e_presign = (\<lambda>k n. Some k), e_trim = (\<lambda>s. s), e_month_start = 1698800000,
      e_resolver = True, e_cname = (\<lambda>_. None), e_txt = (\<lambda>_. None),
      e_vault_write = (\<lambda>_. Some 200), e_default_token = (\<lambda>_. ''token'')\<rparr>"

definition empty_db :: db where
  "empty_db = \<lparr>t_users = [], t_workspaces = [], t_members = [], t_projects = [], t_services = [],
     t_deployments = [], t_ledger = [], t_usage = [], t_outbox = [], t_invoices = [],
     t_api_keys = [], t_domains = [], t_certs = [], t_acme = [], t_invites = []\<rparr>"

definition world_of :: "db \<Rightarrow> world" where
  "world_of d = \<lparr>w_db = d, w_calls = 0, w_aborted = False, w_log = []\<rparr>"

definition sample_user :: user_row where
  "sample_user = \<lparr>us_id = 1, us_email = ''a@b.c'', us_name = ''A'', us_oidc_sub = None, us_deleted_at = None\<rparr>"

definition sample_workspace :: "int \<Rightarrow> workspace_row" where
  "sample_workspace balance =
     \<lparr>ws_id = 2, ws_name = ''W'', ws_slug = ''w'', ws_balance = balance, ws_free_used = 0,
      ws_free_reset_at = 1699000000, ws_stripe_customer = Some ''cus'', ws_last_invoice_at = None,
      ws_created_at = 1690000000, ws_deleted_at = None\<rparr>"

definition sample_member :: "string \<Rightarrow> member_row" where
  "sample_member role = \<lparr>wm_workspace = 2, wm_user = 1, wm_role = role, wm_created_at = 1690000000\<rparr>"

definition sample_project :: project_row where
  "sample_project = \<lparr>pr_id = 3, pr_workspace = 2, pr_name = ''P'', pr_slug = ''p'',
     pr_created_at = 1690000000, pr_deleted_at = None\<rparr>"

definition sample_service :: "uuid \<Rightarrow> string \<Rightarrow> string \<Rightarrow> service_row" where
  "sample_service sid slug status =
     \<lparr>sv_id = sid, sv_project = 3, sv_workspace = 2, sv_name = slug, sv_slug = slug,
      sv_engine = ''metal'', sv_status = status, sv_upstream = None, sv_artifact_key = Some ''k'',
      sv_commit_sha = None, sv_vcpu = 1, sv_memory_mb = 2048, sv_port = 80,
      sv_metal_tier = Some ''one'', sv_price_cents = Some 2000, sv_cycle_start = Some 1690000000,
      sv_snapshot_key = None, sv_failure_reason = None, sv_created_at = 1690000000,
      sv_deleted_at = None\<rparr>"

definition sample_db :: "int \<Rightarrow> string \<Rightarrow> service_row list \<Rightarrow> db" where
  "sample_db balance role services =
     empty_db\<lparr>t_users := [sample_user], t_workspaces := [sample_workspace balance],
       t_members := [sample_member role], t_projects := [sample_project],
       t_services := services\<rparr>"

definition sample_caller :: "string \<Rightarrow> caller" where
  "sample_caller scope = \<lparr>ca_user_id = 1, ca_scopes = [scope], ca_api_key_id = None\<rparr>"

lemmas sample_defs =
  sample_features_def sample_env_def empty_db_def world_of_def sample_user_def
  sample_workspace_def sample_member_def sample_project_def sample_service_def sample_db_def
  sample_caller_def

lemmas run_defs =
  andthen_def ret_def throw_def ensure_def of_option_def of_sum_def external_def emit_def
  fresh_id_def query_def try_stmt_def stmt_def transact_def tick_def rollback_to_def db_conn_def
  parse_uuid_def map_anyhow_def log_errors_def

lemma run_pair: "fst p = Inr x \<Longrightarrow> p = (Inr x, snd p)"
  by (simp add: prod_eq_iff)

end
