(* ===== verification/Charges.thy ===== *)
theory Charges
  imports BillingApi Samples
begin

text \<open>
  What the money handlers of \<open>crates/api/src/billing.rs\<close> do to the tables: a completed
  checkout credits once, Liquid usage is charged beyond the free allowance, a Metal charge,
  the decoding of amounts, and the resumption of suspended services.
\<close>

section \<open>Checkouts\<close>

lemma checkout_txn_duplicate:
  assumes "session \<in> set (sessions (t_ledger (w_db w)))"
  shows "checkout_txn env session customer credits pi w \<noteq> (Inr (Commit x), w')"
proof
  assume run: "checkout_txn env session customer credits pi w = (Inr (Commit x), w')"
  have dup: "list_ex (\<lambda>r. le_id r = u \<or> le_session r = Some session) (t_ledger (w_db w))" for u
    using assms by (auto simp: sessions_iff list_ex_iff)
  from run obtain r w1 where t: "try_stmt env (sql_insert_topup credits pi customer session) w = (Inr r, w1)"
    and rest: "(case r of
       Inl e \<Rightarrow> if e = UniqueViolation then ret (Rollback ())
                else throw (internal (''ledger: '' @ e_show_sql env e))
     | Inr _ \<Rightarrow>
         andthen (stmt env (\<lambda>e. internal (''topup: '' @ e_show_sql env e))
                    (sql_adjust_balance (customer_is customer) credits)) (\<lambda>row.
         andthen (stmt env (\<lambda>e. internal (''ledger patch: '' @ e_show_sql env e))
                    (sql_patch_ledger (ws_balance row) session)) (\<lambda>_.
         andthen (if 0 < ws_balance row then enqueue_unsuspend env (ws_id row) else ret ()) (\<lambda>_.
         ret (Commit ()))))) w1 = (Inr (Commit x), w')"
    unfolding checkout_txn_def andthen_Inr by blast
  from rest obtain y where r: "r = Inr y" by (cases r) (auto simp: run_simps split: if_splits)
  with t obtain d u where i: "sql_insert_topup credits pi customer session (e_now env) u (w_db w) = Inr (y, d)"
    and w1: "w_db w1 = d" by (auto simp: run_simps)
  from i dup have "filter (customer_is customer) (t_workspaces (w_db w)) = [] \<and> d = w_db w"
    by (auto simp: sql_insert_topup_def split: list.splits if_splits)
  with rest r w1 show False
    by (auto simp: run_simps sql_adjust_balance_def)
qed

text \<open>
  C7: a \<open>checkout.session.completed\<close> event for a session the ledger already holds
  changes no table, whatever faults happen: a webhook delivered twice credits once.
\<close>

theorem checkout_idempotent:
  assumes "get_str obj ''id'' = Some session" and "session \<in> set (sessions (t_ledger (w_db w)))"
  shows "w_db (snd (handle_checkout_completed env obj w)) = w_db w"
proof -
  have t: "w_db (snd (transact env be ce (checkout_txn env session c cr pi) v)) = w_db v"
    if "session \<in> set (sessions (t_ledger (w_db v)))" for be ce c cr pi v
    using checkout_txn_duplicate [of session "(tick v)\<lparr>w_aborted := False\<rparr>"] that
    by (auto simp: transact_def split: prod.splits sum.splits tx_end.splits)
  show ?thesis
    unfolding handle_checkout_completed_def Let_def
    using assms by (auto simp: andthen_def ret_def of_option_def throw_def db_conn_def t
        split: option.split)
qed

section \<open>Usage\<close>

lemma insert_suspend_run:
  assumes "insert_suspend_outbox env wid w = (Inr (), w')"
  shows "\<exists>rows. w_db w' = (w_db w)\<lparr>t_outbox := t_outbox (w_db w) @ rows\<rparr> \<and>
    map (\<lambda>r. (ob_subject r, ob_payload r)) rows =
      (if list_ex (\<lambda>s. sv_workspace s = wid \<and> sv_status s \<in> {''running'', ''provisioning''} \<and>
                       sv_deleted_at s = None) (t_services (w_db w))
       then [(subject_suspend, EvSuspend \<lparr>su_workspace_id = e_uuid_str env wid,
                                          su_reason = ''balance depleted''\<rparr>)] else [])"
  using assms unfolding insert_suspend_outbox_def
  by (auto simp: run_simps sql_has_active_def sql_insert_outbox_def split: if_splits)

definition active_in :: "uuid \<Rightarrow> db \<Rightarrow> bool" where
  "active_in wid d =
     list_ex (\<lambda>s. sv_workspace s = wid \<and> sv_status s \<in> {''running'', ''provisioning''} \<and>
                  sv_deleted_at s = None) (t_services d)"

lemma deduct_run:
  assumes "deduct_balance env wid cost kind desc w = (Inr b, w')"
  shows "\<exists>ws. filter (\<lambda>x. ws_id x = wid) (t_workspaces (w_db w)) = [ws] \<and>
    b = ws_balance ws - cost \<and> in_i64 b \<and>
    w_db w' = (w_db w)\<lparr>t_workspaces := update_where (\<lambda>x. ws_id x = wid)
        (\<lambda>x. x\<lparr>ws_balance := ws_balance x - cost\<rparr>) (t_workspaces (w_db w)),
      t_ledger := t_ledger (w_db w) @
        [\<lparr>le_id = e_fresh env (Suc (w_calls w)), le_workspace = wid,
          le_amount = wrap_i64 (- cost), le_kind = kind, le_description = desc,
          le_reference = None, le_balance_after = b, le_session = None,
          le_created_at = e_now env\<rparr>]\<rparr>"
  using assms unfolding deduct_balance_def
  by (auto simp: run_simps sql_adjust_balance_def sql_insert_ledger_def split: list.splits if_splits)

lemma filter_updated:
  "filter p rs = [r] \<Longrightarrow> (\<And>x. p (f x) = p x) \<Longrightarrow> filter p (update_where p f rs) = [f r]"
  using filter_singletonD [of p rs r] by (simp add: filter_update_where table_simps)

lemma overage:
  assumes "0 \<le> n" "n \<le> 2 ^ 44" "0 \<le> free" "free \<le> 1000000"
  shows "free_consumed_of n free = min n (1000000 - free)"
    "wrap_i64 (n - free_consumed_of n free) = max 0 (n - (1000000 - free))"
    "liquid_cost (max 0 (n - (1000000 - free))) = max 0 (n - (1000000 - free)) * 3 div 10"
proof -
  show f: "free_consumed_of n free = min n (1000000 - free)"
    using assms by (simp add: free_consumed_of_def FREE_LIQUID_INVOCATIONS_def wrap_i64_id in_i64_def)
  show "wrap_i64 (n - free_consumed_of n free) = max 0 (n - (1000000 - free))"
    unfolding f using assms by (subst wrap_i64_id) (auto simp: in_i64_def)
  define b where "b = max 0 (n - (1000000 - free))"
  have b: "0 \<le> b" "b \<le> 2 ^ 44" using assms by (auto simp: b_def)
  have "wrap_i64 (b * LIQUID_PRICE_PER_MILLION) = b * 300000"
    using b by (subst wrap_i64_id) (auto simp: in_i64_def LIQUID_PRICE_PER_MILLION_def)
  then have "liquid_cost b = b * 300000 div 1000000"
    using b by (simp add: liquid_cost_def sdiv_nonneg)
  also have "\<dots> = (b * 3) * 100000 div (10 * 100000)" by simp
  also have "\<dots> = b * 3 div 10" by (subst div_mult_mult2) simp_all
  finally show "liquid_cost (max 0 (n - (1000000 - free))) = max 0 (n - (1000000 - free)) * 3 div 10"
    by (simp add: b_def)
qed

definition free_step :: "env \<Rightarrow> uuid \<Rightarrow> int \<Rightarrow> unit proc" where
  "free_step env wid f = (if 0 < f then stmt env (\<lambda>_. Anyhow ''update free_invocations_used'')
                         (sql_add_free_used f wid) else ret ())"

lemma free_step_run:
  assumes "free_step env wid f w = (Inr (), w')" and "0 \<le> f"
  shows "w_db w' = (w_db w)\<lparr>t_workspaces := update_where (\<lambda>x. ws_id x = wid)
      (\<lambda>x. x\<lparr>ws_free_used := ws_free_used x + f\<rparr>) (t_workspaces (w_db w))\<rparr>"
proof (cases "0 < f")
  case True
  with assms(1) show ?thesis
    by (auto simp: free_step_def run_simps sql_add_free_used_def split: if_splits)
next
  case False
  with assms show ?thesis by (simp add: free_step_def run_simps update_where_def)
qed

lemma bill_step_run:
  assumes run: "(if 0 < b \<and> 0 < cost then
        andthen (deduct_balance env wid cost ''usage_liquid'' ''Wasm invocations'') (\<lambda>balance_after.
          if balance_after \<le> 0 then insert_suspend_outbox env wid else ret ())
      else ret ()) w = (Inr (), w')"
    and ws: "filter (\<lambda>x. ws_id x = wid) (t_workspaces (w_db w)) = [ws]"
    and cost: "0 \<le> cost" "0 < cost \<Longrightarrow> 0 < b"
  shows "t_workspaces (w_db w') = update_where (\<lambda>x. ws_id x = wid)
        (\<lambda>x. x\<lparr>ws_balance := ws_balance x - cost\<rparr>) (t_workspaces (w_db w)) \<and>
    t_usage (w_db w') = t_usage (w_db w) \<and>
    (t_outbox (w_db w') \<noteq> t_outbox (w_db w) \<longleftrightarrow>
       0 < cost \<and> ws_balance ws - cost \<le> 0 \<and> active_in wid (w_db w))"
proof (cases "0 < cost")
  case True
  with run cost obtain y w1 where d: "deduct_balance env wid cost ''usage_liquid'' ''Wasm invocations'' w = (Inr y, w1)"
    and s: "(if y \<le> 0 then insert_suspend_outbox env wid else ret ()) w1 = (Inr (), w')"
    by (auto simp: run_simps)
  from deduct_run [OF d] ws have y: "y = ws_balance ws - cost" by simp
  show ?thesis
  proof (cases "y \<le> 0")
    case le: True
    with s insert_suspend_run [of env wid w1 w'] deduct_run [OF d] True y show ?thesis
      by (auto simp: active_in_def split: if_splits)
  next
    case False
    with s deduct_run [OF d] True y show ?thesis by (auto simp: run_simps)
  qed
next
  case False
  then have "cost = 0" using cost by simp
  with run show ?thesis by (simp add: run_simps update_where_def)
qed

text \<open>
  C8: billing \<open>n\<close> Liquid invocations first uses up what is left of the million free ones,
  then debits the workspace three tenths of a micro-credit for each of the rest, rounded down;
  it marks the usage rows billed, and it queues a suspension exactly when there was something
  to pay, the balance ended at or below zero, and the workspace has active services.
\<close>

theorem bill_liquid_effect:
  assumes run: "bill_liquid env wid n ids free w = (Inr (), w')"
    and n: "0 \<le> n" "n \<le> 2 ^ 44" and free: "0 \<le> free" "free \<le> 1000000"
    and ws: "filter (\<lambda>x. ws_id x = wid) (t_workspaces (w_db w)) = [ws]" "ws_free_used ws = free"
  shows "\<exists>ws'. filter (\<lambda>x. ws_id x = wid) (t_workspaces (w_db w')) = [ws'] \<and>
    ws_free_used ws' = min 1000000 (free + n) \<and>
    ws_balance ws' = ws_balance ws - max 0 (free + n - 1000000) * 3 div 10 \<and>
    t_usage (w_db w') = update_where (\<lambda>r. ue_id r \<in> set ids) (\<lambda>r. r\<lparr>ue_billed := True\<rparr>)
      (t_usage (w_db w)) \<and>
    (t_outbox (w_db w') \<noteq> t_outbox (w_db w) \<longleftrightarrow>
       ws_balance ws' < ws_balance ws \<and> ws_balance ws' \<le> 0 \<and> active_in wid (w_db w))"
proof -
  define b where "b = max 0 (n - (1000000 - free))"
  define f where "f = min n (1000000 - free)"
  define cost where "cost = b * 3 div 10"
  note ov = overage [OF n free]
  have f: "0 \<le> f" "free + f = min 1000000 (free + n)" using n free by (auto simp: f_def)
  have b: "b = max 0 (free + n - 1000000)" by (simp add: b_def)
  have "0 \<le> b" by (simp add: b_def)
  then have cost: "0 \<le> cost" "0 < cost \<Longrightarrow> 0 < b"
    by (simp_all add: cost_def)
  have "liquid_cost b = cost" using ov(3) by (simp add: b_def cost_def)
  moreover have "wrap_i64 (n - f) = b" using ov(1,2) by (simp add: f_def b_def)
  ultimately obtain w1 w2 where
    1: "free_step env wid f w = (Inr (), w1)"
    and 2: "(if 0 < b \<and> 0 < cost then
        andthen (deduct_balance env wid cost ''usage_liquid'' ''Wasm invocations'') (\<lambda>balance_after.
          if balance_after \<le> 0 then insert_suspend_outbox env wid else ret ())
      else ret ()) w1 = (Inr (), w2)"
    and 3: "w_db w' = (w_db w2)\<lparr>t_usage := update_where (\<lambda>r. ue_id r \<in> set ids)
        (\<lambda>r. r\<lparr>ue_billed := True\<rparr>) (t_usage (w_db w2))\<rparr>"
    using run unfolding bill_liquid_def Let_def ov(1) f_def [symmetric] free_step_def
    by (auto simp: andthen_Inr stmt_Inr sql_mark_billed_def)
  from free_step_run [OF 1 f(1)] have w1: "t_workspaces (w_db w1) = update_where (\<lambda>x. ws_id x = wid)
      (\<lambda>x. x\<lparr>ws_free_used := ws_free_used x + f\<rparr>) (t_workspaces (w_db w))"
    "t_usage (w_db w1) = t_usage (w_db w)" "t_outbox (w_db w1) = t_outbox (w_db w)"
    "t_services (w_db w1) = t_services (w_db w)" by simp_all
  have ws1: "filter (\<lambda>x. ws_id x = wid) (t_workspaces (w_db w1)) = [ws\<lparr>ws_free_used := free + f\<rparr>]"
    unfolding w1 using filter_updated [OF ws(1)] ws(2) by simp
  from bill_step_run [OF 2 ws1 cost] have w2: "t_workspaces (w_db w2) = update_where (\<lambda>x. ws_id x = wid)
        (\<lambda>x. x\<lparr>ws_balance := ws_balance x - cost\<rparr>) (t_workspaces (w_db w1))"
    "t_usage (w_db w2) = t_usage (w_db w)"
    "t_outbox (w_db w2) \<noteq> t_outbox (w_db w) \<longleftrightarrow>
       0 < cost \<and> ws_balance ws - cost \<le> 0 \<and> active_in wid (w_db w)"
    by (auto simp: w1 active_in_def)
  have ws2: "filter (\<lambda>x. ws_id x = wid) (t_workspaces (w_db w2)) =
      [ws\<lparr>ws_free_used := free + f, ws_balance := ws_balance ws - cost\<rparr>]"
    unfolding w2 using filter_updated [OF ws1] by simp
  show ?thesis
    using ws2 w2(2,3) f b by (intro exI conjI) (auto simp: 3 cost_def)
qed

text \<open>
  A monthly Metal charge that succeeds debits the price and queues a suspension of the
  workspace, whatever is left of its balance: the branch on \<open>balance_after\<close> only chooses
  a log line.
\<close>

theorem metal_charge_always_suspends:
  assumes run: "charge_metal env sid wid price w = (Inr (), w')"
    and price: "0 < price" "price < 2 ^ 31" and active: "active_in wid (w_db w)"
  shows "\<exists>ws row. filter (\<lambda>x. ws_id x = wid) (t_workspaces (w_db w)) = [ws] \<and>
    accounts (w_db w') = book wid (- (price * 10000)) (accounts (w_db w)) \<and>
    t_outbox (w_db w') = t_outbox (w_db w) @ [row] \<and> ob_subject row = subject_suspend \<and>
    ob_payload row = EvSuspend \<lparr>su_workspace_id = e_uuid_str env wid, su_reason = ''balance depleted''\<rparr>"
proof -
  have cost: "wrap_i64 (price * MICROCREDITS_PER_CENT) = price * 10000"
    using price by (simp add: MICROCREDITS_PER_CENT_def wrap_i64_id in_i64_def)
  from run price obtain b w1 w2 where
    d: "deduct_balance env wid (price * 10000) ''metal_monthly''
          (''Metal monthly (service '' @ e_uuid_str env sid @ '')'') w = (Inr b, w1)"
    and s: "insert_suspend_outbox env wid w1 = (Inr (), w2)"
    and db: "w_db w' = (w_db w2)\<lparr>t_services := update_where (\<lambda>s. sv_id s = sid)
          (\<lambda>s. s\<lparr>sv_cycle_start := map_option (\<lambda>c. c + days 30) (sv_cycle_start s)\<rparr>)
          (t_services (w_db w2))\<rparr>"
    unfolding charge_metal_def cost Let_def
    by (auto simp: run_simps sql_advance_cycle_def split: if_splits)
  from deduct_run [OF d] insert_suspend_run [OF s] active db show ?thesis
    by (auto simp: active_in_def accounts_def book_def update_where_def)
qed

section \<open>Decoding amounts\<close>

lemma transact_error:
  "fault_free env \<Longrightarrow> body ((tick (tick w))\<lparr>w_aborted := False\<rparr>) = (Inl e, w') \<Longrightarrow>
   fst (transact env be ce body (tick w)) = Inl e \<and>
   w_db (snd (transact env be ce body (tick w))) = w_db w"
  by (simp add: transact_def fault_free_def)

lemma after_external: "fault_free env \<Longrightarrow> andthen (external env e) (\<lambda>_. m) w = m (tick w)"
  by (simp add: andthen_def external_def fault_free_def)

text \<open>
  With a driver that decodes an \<open>i64\<close> from \<open>INT8\<close> columns only, the billing cycle panics
  on the first Metal service that is due, whose price is an \<open>INTEGER\<close>, and charges nobody.
\<close>

theorem metal_billing_panics:
  assumes ff: "fault_free env" and driver: "e_i64_accepts env = (\<lambda>ty. ty = Int8)"
    and due: "\<exists>s \<in> set (t_services (w_db w)). metal_due (e_now env) s"
  shows "fst (metal_billing_once env w) = Inl (Panicked ''error retrieving column'') \<and>
      w_db (snd (metal_billing_once env w)) = w_db w"
proof -
  obtain s ss where due: "filter (metal_due (e_now env)) (t_services (w_db w)) = s # ss"
    using due by (metis filter_empty_conv list.exhaust)
  have p: "charge_metal_row env s v = (Inl (Panicked ''error retrieving column''), v)" for v
    by (simp add: charge_metal_row_def decode_i64_def driver andthen_def throw_def split: option.split)
  have "metal_billing_txn env ((tick (tick w))\<lparr>w_aborted := False\<rparr>) =
      (Inl (Panicked ''error retrieving column''), tick ((tick (tick w))\<lparr>w_aborted := False\<rparr>))"
    using ff by (simp add: metal_billing_txn_def andthen_def stmt_def try_stmt_def
      sql_metal_due_def fault_free_def ret_def due p)
  from transact_error [where body = "metal_billing_txn env", OF ff this] show ?thesis
    by (simp add: metal_billing_once_def after_external [OF ff])
qed

text \<open>
  with such a driver the aggregator panics as soon as there is unbilled Liquid usage, whose
  \<open>SUM\<close> over a \<open>BIGINT\<close> column is a \<open>NUMERIC\<close>, and bills nothing.
\<close>

theorem aggregate_panics:
  assumes ff: "fault_free env" and driver: "e_i64_accepts env = (\<lambda>ty. ty = Int8)"
    and due: "\<exists>r \<in> set (t_usage (w_db w)). unbilled_liquid r"
  shows "fst (aggregate_once env w) = Inl (Panicked ''error retrieving column'') \<and>
      w_db (snd (aggregate_once env w)) = w_db w"
proof -
  have "remdups (map ue_workspace (filter unbilled_liquid (t_usage (w_db w)))) \<noteq> []"
    using due by (metis filter_empty_conv map_is_Nil_conv remdups_eq_nil_iff)
  then obtain a as where ids: "remdups (map ue_workspace (filter unbilled_liquid (t_usage (w_db w)))) = a # as"
    by (meson list.exhaust)
  have p: "bill_liquid_row env r v = (Inl (Panicked ''error retrieving column''), v)" for r v
    by (simp add: bill_liquid_row_def decode_i64_def driver andthen_def throw_def)
  have "\<exists>v. aggregate_txn env ((tick (tick w))\<lparr>w_aborted := False\<rparr>) =
      (Inl (Panicked ''error retrieving column''), v)"
    using ff by (simp add: aggregate_txn_def andthen_def stmt_def try_stmt_def
      sql_unbilled_liquid_def Let_def fault_free_def ret_def ids p)
  then obtain v where "aggregate_txn env ((tick (tick w))\<lparr>w_aborted := False\<rparr>) =
      (Inl (Panicked ''error retrieving column''), v)" by blast
  from transact_error [where body = "aggregate_txn env", OF ff this] show ?thesis
    by (simp add: aggregate_once_def after_external [OF ff])
qed

section \<open>Resumption after a top-up\<close>

definition engine_known :: "string \<Rightarrow> bool" where
  "engine_known s = (s = ''metal'' \<or> s = ''liquid'')"

fun resume_events :: "env \<Rightarrow> (service_row \<times> string option) list \<Rightarrow> event list" where
  "resume_events env [] = []"
| "resume_events env ((s, key) # rows) =
     (case (key, engine_from_str (sv_engine s)) of
        (Some k, Inr eng) \<Rightarrow> unsuspend_event env s k eng # resume_events env rows
      | _ \<Rightarrow> resume_events env rows)"

definition resumed :: "(service_row \<times> string option) list \<Rightarrow> uuid set" where
  "resumed rows = {sv_id s | s k eng. (s, Some k) \<in> set rows \<and> engine_from_str (sv_engine s) = Inr eng}"

lemma resumed_Cons:
  "resumed ((s, key) # rows) =
     (case (key, engine_from_str (sv_engine s)) of
        (Some k, Inr eng) \<Rightarrow> insert (sv_id s) (resumed rows)
      | _ \<Rightarrow> resumed rows)"
  by (auto simp: resumed_def split: option.splits sum.splits)

definition resume_db :: "env \<Rightarrow> (service_row \<times> string option) list \<Rightarrow> db \<Rightarrow> db \<Rightarrow> bool" where
  "resume_db env rows d d' =
     (\<exists>xs. map (\<lambda>r. (ob_subject r, ob_payload r)) xs =
             map (\<lambda>ev. (subject_provision, ev)) (resume_events env rows) \<and>
           d' = d\<lparr>t_services := update_where (\<lambda>s. sv_id s \<in> resumed rows)
                      (\<lambda>s. s\<lparr>sv_status := ''provisioning''\<rparr>) (t_services d),
                    t_outbox := t_outbox d @ xs\<rparr>)"

lemma unsuspend_service_run:
  assumes "unsuspend_service env (s, key) w = (Inr (), w')"
  shows "resume_db env [(s, key)] (w_db w) (w_db w')"
proof (cases "\<exists>k eng. key = Some k \<and> engine_from_str (sv_engine s) = Inr eng")
  case True
  then obtain k eng where k: "key = Some k" "engine_from_str (sv_engine s) = Inr eng" by blast
  have st: "service_status_check ''provisioning''" by (simp add: service_status_check_def)
  have ids: "resumed [(s, key)] = {sv_id s}" "resume_events env [(s, key)] = [unsuspend_event env s k eng]"
    using k by (auto simp: resumed_def)
  define r where "r = \<lparr>ob_id = e_fresh env (Suc (w_calls w)), ob_subject = subject_provision,
    ob_payload = unsuspend_event env s k eng, ob_created_at = e_now env\<rparr>"
  from assms k st have "w_db w' = (w_db w)\<lparr>t_services := update_where (\<lambda>x. sv_id x = sv_id s)
         (\<lambda>s. s\<lparr>sv_status := ''provisioning''\<rparr>) (t_services (w_db w)),
       t_outbox := t_outbox (w_db w) @ [r]\<rparr>"
    by (auto simp: r_def unsuspend_service_def run_simps sql_set_status_def sql_insert_outbox_def
        split: if_splits)
  then show ?thesis unfolding resume_db_def ids by (intro exI [of _ "[r]"]) (simp add: r_def)
next
  case False
  then have "w' = w" "resumed [(s, key)] = {}" "resume_events env [(s, key)] = []"
    using assms by (auto simp: unsuspend_service_def run_simps resumed_def split: option.splits sum.splits)
  then show ?thesis by (simp add: resume_db_def update_where_def)
qed

lemma resume_db_Cons:
  assumes "resume_db env [r] d d1" and "resume_db env rows d1 d2"
  shows "resume_db env (r # rows) d d2"
proof -
  obtain s key where r: "r = (s, key)" by fastforce
  from assms obtain xs ys where xs: "map (\<lambda>r. (ob_subject r, ob_payload r)) xs =
             map (\<lambda>ev. (subject_provision, ev)) (resume_events env [r])"
    "d1 = d\<lparr>t_services := update_where (\<lambda>s. sv_id s \<in> resumed [r])
                      (\<lambda>s. s\<lparr>sv_status := ''provisioning''\<rparr>) (t_services d),
                    t_outbox := t_outbox d @ xs\<rparr>"
    and ys: "map (\<lambda>r. (ob_subject r, ob_payload r)) ys =
             map (\<lambda>ev. (subject_provision, ev)) (resume_events env rows)"
    "d2 = d1\<lparr>t_services := update_where (\<lambda>s. sv_id s \<in> resumed rows)
                      (\<lambda>s. s\<lparr>sv_status := ''provisioning''\<rparr>) (t_services d1),
                    t_outbox := t_outbox d1 @ ys\<rparr>"
    by (auto simp: resume_db_def)
  have ev: "resume_events env (r # rows) = resume_events env [r] @ resume_events env rows"
    by (simp add: r split: option.split sum.split)
  have ids: "resumed (r # rows) = resumed [r] \<union> resumed rows"
    by (simp add: r resumed_Cons split: option.split sum.split) (auto simp: resumed_def)
  have "d2 = d\<lparr>t_services := update_where (\<lambda>s. sv_id s \<in> resumed (r # rows))
                      (\<lambda>s. s\<lparr>sv_status := ''provisioning''\<rparr>) (t_services d),
                    t_outbox := t_outbox d @ (xs @ ys)\<rparr>"
    unfolding ids ys xs by (auto simp: update_where_def)
  moreover have "map (\<lambda>r. (ob_subject r, ob_payload r)) (xs @ ys) =
             map (\<lambda>ev. (subject_provision, ev)) (resume_events env (r # rows))"
    by (simp only: ev map_append xs ys)
  ultimately show ?thesis unfolding resume_db_def by blast
qed

lemma unsuspend_all_run:
  "for_each (unsuspend_service env) rows w = (Inr (), w') \<Longrightarrow> resume_db env rows (w_db w) (w_db w')"
proof (induction rows arbitrary: w)
  case Nil
  then show ?case by (simp add: run_simps resume_db_def resumed_def update_where_def)
next
  case (Cons r rows)
  then obtain w1 where "unsuspend_service env r w = (Inr (), w1)"
    and "for_each (unsuspend_service env) rows w1 = (Inr (), w')"
    by (auto simp: andthen_Inr)
  with Cons.IH [of w1] unsuspend_service_run [of env "fst r" "snd r" w w1] show ?case
    by (simp add: resume_db_Cons)
qed

definition resumable :: "uuid \<Rightarrow> db \<Rightarrow> service_row \<Rightarrow> bool" where
  "resumable wid d s =
     (suspended_in wid s \<and> latest_deployment (sv_id s) d \<noteq> None \<and> engine_known (sv_engine s))"

text \<open>
  C16: a resumption marks as provisioning exactly the suspended services of the workspace that
  have a deployment and a known engine, and queues one provision event for each, in order.
\<close>

theorem topup_resumes_services:
  assumes "enqueue_unsuspend env wid w = (Inr (), w')"
  shows "t_services (w_db w') =
      update_where (\<lambda>s. \<exists>r \<in> set (t_services (w_db w)). sv_id r = sv_id s \<and> resumable wid (w_db w) r)
        (\<lambda>s. s\<lparr>sv_status := ''provisioning''\<rparr>) (t_services (w_db w)) \<and>
    (\<exists>xs. t_outbox (w_db w') = t_outbox (w_db w) @ xs \<and>
      map (\<lambda>r. (ob_subject r, payload_service_id (ob_payload r))) xs =
      map (\<lambda>s. (subject_provision, Some (e_uuid_str env (sv_id s))))
        (filter (resumable wid (w_db w)) (t_services (w_db w))))"
proof -
  define rows where "rows = map (\<lambda>s. (s, map_option dl_artifact_key (latest_deployment (sv_id s) (w_db w))))
            (filter (suspended_in wid) (t_services (w_db w)))"
  have known: "(\<exists>e. engine_from_str s = Inr e) \<longleftrightarrow> engine_known s" for s
    by (auto simp: engine_from_str_def engine_known_def)
  from assms have "resume_db env rows (w_db w) (w_db w')"
    using unsuspend_all_run [of env rows "(tick w)\<lparr>w_db := w_db w\<rparr>" w']
    by (auto simp: enqueue_unsuspend_def run_simps sql_suspended_def rows_def)
  then obtain xs where xs: "map (\<lambda>r. (ob_subject r, ob_payload r)) xs =
             map (\<lambda>ev. (subject_provision, ev)) (resume_events env rows)"
    and db: "w_db w' = (w_db w)\<lparr>t_services := update_where (\<lambda>s. sv_id s \<in> resumed rows)
                      (\<lambda>s. s\<lparr>sv_status := ''provisioning''\<rparr>) (t_services (w_db w)),
                    t_outbox := t_outbox (w_db w) @ xs\<rparr>"
    by (auto simp: resume_db_def)
  have mem: "(s, Some k) \<in> set rows \<longleftrightarrow> s \<in> set (t_services (w_db w)) \<and> suspended_in wid s \<and>
      (\<exists>x. latest_deployment (sv_id s) (w_db w) = Some x \<and> k = dl_artifact_key x)" for s k
    by (auto simp: rows_def eq_commute [of "Some k"])
  have ids: "x \<in> resumed rows \<longleftrightarrow> (\<exists>r \<in> set (t_services (w_db w)). sv_id r = x \<and> resumable wid (w_db w) r)" for x
    unfolding resumed_def mem resumable_def known [symmetric] by blast
  have evs: "map payload_service_id (resume_events env (map (\<lambda>s. (s, map_option dl_artifact_key (latest_deployment (sv_id s) d))) ss)) =
      map (\<lambda>s. Some (e_uuid_str env (sv_id s))) (filter (\<lambda>s. latest_deployment (sv_id s) d \<noteq> None \<and> engine_known (sv_engine s)) ss)"
    for ss d
    by (induction ss) (auto simp: unsuspend_event_def known [symmetric] split: option.split sum.split)
  have flt: "filter (resumable wid d) ss =
      filter (\<lambda>s. latest_deployment (sv_id s) d \<noteq> None \<and> engine_known (sv_engine s))
        (filter (suspended_in wid) ss)" for d ss
    by (induction ss) (auto simp: resumable_def)
  have "map (\<lambda>r. (ob_subject r, payload_service_id (ob_payload r))) xs =
      map (\<lambda>(a, ev). (a, payload_service_id ev)) (map (\<lambda>r. (ob_subject r, ob_payload r)) xs)"
    by simp
  also have "\<dots> = map (Pair subject_provision) (map payload_service_id (resume_events env rows))"
    unfolding xs by simp
  also have "\<dots> = map (\<lambda>s. (subject_provision, Some (e_uuid_str env (sv_id s))))
        (filter (resumable wid (w_db w)) (t_services (w_db w)))"
    unfolding rows_def evs flt by (simp add: comp_def)
  finally show ?thesis by (auto simp: db ids)
qed

section \<open>The webhook\<close>

text \<open>
  C13: a delivery to the webhook changes the tables only when its body parses to an event and
  carries, under a timestamp at most 300 seconds from the clock, the HMAC of the timestamp and
  the body under the configured secret; then it does what that event asks for and nothing else.
\<close>

theorem webhook_authentic:
  "w_db (snd (stripe_webhook env hmac parse_event headers body w)) = w_db w \<or>
   (\<exists>secret sig timestamp mac ts ev.
      e_webhook_secret env = Some secret \<and> header_str env headers ''stripe-signature'' = Some sig \<and>
      hmac secret (timestamp @ ''.'' @ body) = Some mac \<and>
      find_map (strip_prefix ''v1='') (split_on (CHR '','') sig) = Some (hex_encode mac) \<and>
      parse_i64 timestamp = Some ts \<and> abs_i64 (wrap_i64 (e_now env - ts)) \<le> 300 \<and>
      parse_event body = Some ev \<and>
      snd (stripe_webhook env hmac parse_event headers body w) = snd (dispatch_webhook env ev w))"
proof (cases "e_stripe env \<noteq> None \<and> (\<exists>sig secret ev. header_str env headers ''stripe-signature'' = Some sig \<and>
      e_webhook_secret env = Some secret \<and>
      verify_webhook env hmac parse_event body sig secret = Inr ev)")
  case True
  then obtain sig secret ev where s: "e_stripe env \<noteq> None"
    "header_str env headers ''stripe-signature'' = Some sig" "e_webhook_secret env = Some secret"
    and v: "verify_webhook env hmac parse_event body sig secret = Inr ev" by blast
  then have "stripe_webhook env hmac parse_event headers body = dispatch_webhook env ev"
    by (simp add: stripe_webhook_def)
  with s verify_webhook_Inr [OF v] show ?thesis by metis
next
  case False
  then have "w_db (snd (stripe_webhook env hmac parse_event headers body w)) = w_db w"
    by (auto simp: stripe_webhook_def andthen_def of_option_def ensure_def ret_def throw_def
        split: option.splits sum.splits)
  then show ?thesis by simp
qed

section \<open>Invoices\<close>

lemma reads_stripe_call [read_rules]: "reads (stripe_call env ctx conv path form)"
proof -
  have "reads (stripe_post env ctx path form)"
    by (simp add: reads_def stripe_post_def Let_def split: option.split)
  then show ?thesis unfolding stripe_call_def by (intro read_rules)
qed

lemma reads_with_context [read_rules]: "reads m \<Longrightarrow> reads (with_context ctx m)"
  by (auto simp: reads_def with_context_def map_anyhow_def split: prod.splits sum.splits err.splits)
    (metis snd_conv)+

lemma reads_settle_invoice: "reads (settle_invoice env wid customer a b metal liquid)"
  unfolding settle_invoice_def create_invoice_def add_invoice_item_def finalize_invoice_def
    mark_invoice_paid_def
  by (intro read_rules)

definition charged :: "uuid \<Rightarrow> string \<Rightarrow> int \<Rightarrow> int \<Rightarrow> ledger_row list \<Rightarrow> int" where
  "charged wid kind a b led =
     sum_list (map (\<lambda>r. \<bar>le_amount r\<bar>)
       (filter (\<lambda>r. le_workspace r = wid \<and> le_kind r = kind \<and>
                    a \<le> le_created_at r \<and> le_created_at r < b) led))"

lemma charged_nonneg: "0 \<le> charged wid kind a b led"
  unfolding charged_def by (intro sum_list_nonneg) auto


end
