(* ===== verification/Releases.thy ===== *)
theory Releases
  imports Deployments Outbox Charges
begin

text \<open>
  What the handlers of \<open>routes/services.rs\<close> and \<open>routes/deployments.rs\<close> do to the
  tables: none leaves a partial change behind an error; what a deploy requires and writes; the
  artifacts a service has had, and what rollback, stop, delete and restart do.
\<close>

section \<open>All or nothing\<close>

lemma sql_reads_lookups [read_rules]:
  "sql_reads (sql_service_for sid uid)" "sql_reads (sql_restartable sid)"
  "sql_reads (sql_peers pid sid)" "sql_reads (sql_project_for pid uid)"
  "sql_reads (sql_advisory_lock k)" "sql_reads (sql_count_services wid)"
  "sql_reads (sql_slug_active wid slug)" "sql_reads (sql_deployment did sid)"
  "sql_reads (sql_previous_deployment sid)" "sql_reads (sql_topup_by_reference r)"
  by (auto simp: sql_reads_def sql_service_for_def sql_restartable_def sql_peers_def
      sql_project_for_def sql_advisory_lock_def sql_count_services_def sql_slug_active_def
      sql_deployment_def sql_previous_deployment_def sql_topup_by_reference_def split: list.splits)

lemma reads_query_or_empty [read_rules]: "sql_reads f \<Longrightarrow> reads (query_or_empty env f)"
proof -
  assume "sql_reads f"
  then have q: "w_db (snd (query env (\<lambda>_. Anyhow []) f w)) = w_db w" for w
    using reads_query [of f env "\<lambda>_. Anyhow []"] by (simp add: reads_def)
  have "w_db (snd (query_or_empty env f w)) = w_db w" for w
    using q [of w] by (auto simp: query_or_empty_def split: prod.splits sum.splits)
  then show ?thesis by (simp add: reads_def)
qed

lemma reads_parse_engine [read_rules]: "reads (parse_engine e s)"
  unfolding parse_engine_def by (intro read_rules)

lemma reads_authorize [read_rules]: "reads (authorize_service env caller scope i)"
  "reads (authorize_project env caller pid)" "reads (deploy_check_txn env wid slug)"
  "reads (rollback_target env sid did)"
  unfolding authorize_service_def authorize_project_def deploy_check_txn_def rollback_target_def
  by (intro read_rules)+

lemmas aon_rules = aon_transact aon_andthen aon_reads

lemma aon_billing: "all_or_nothing (aggregate_once env)" "all_or_nothing (metal_billing_once env)"
  unfolding aggregate_once_def metal_billing_once_def
  by (rule aon_andthen, rule read_rules, rule aon_transact)+

lemma aon_if: "all_or_nothing m \<Longrightarrow> all_or_nothing n \<Longrightarrow> all_or_nothing (if b then m else n)"
  by simp

lemma aon_case_option:
  "all_or_nothing m \<Longrightarrow> (\<And>x. all_or_nothing (f x)) \<Longrightarrow>
   all_or_nothing (case y of None \<Rightarrow> m | Some x \<Rightarrow> f x)"
  by (simp split: option.split)

lemma aon_webhook: "all_or_nothing (dispatch_webhook env ev)"
  unfolding dispatch_webhook_def handle_checkout_completed_def handle_charge_refunded_def
    handle_payment_failed_def Let_def
  by (intro aon_if aon_andthen aon_case_option read_rules aon_transact aon_reads)

lemma aon_tail:
  "all_or_nothing (andthen (transact env be ce body) (\<lambda>_. ret x))"
  by (rule aon_then_never, rule aon_transact, rule never_fails_ret)

lemma aon_services: "all_or_nothing (stop_service env caller i)"
  "all_or_nothing (delete_service env caller i)" "all_or_nothing (restart_service env caller i)"
  unfolding stop_service_def delete_service_def restart_service_def
  subgoal by (rule aon_transact | rule aon_andthen | rule read_rules)+
  subgoal
    apply (rule aon_andthen, rule read_rules)
    apply (rule aon_then_never, rule aon_transact, rule never_fails_andthen)
     apply (simp add: never_fails_ret split: option.split)
    apply (rule never_fails_ret)
    done
  subgoal by (rule aon_tail | rule aon_andthen | rule read_rules)+
  done

lemma aon_case_prod: "(\<And>a b. all_or_nothing (f a b)) \<Longrightarrow> all_or_nothing (case y of (a, b) \<Rightarrow> f a b)"
  by (simp split: prod.split)

lemma aon_deployments: "all_or_nothing (deploy_service env caller body)"
  "all_or_nothing (rollback_service env caller i did)"
  unfolding deploy_service_def rollback_service_def Let_def
  by (rule aon_tail | rule aon_andthen | rule read_rules | rule aon_case_prod |
      rule reads_transact)+


section \<open>Deploying\<close>

lemma list_ex_update_where:
  "(\<And>r. q (f r) = q r) \<Longrightarrow> list_ex q (update_where p f rs) = list_ex q rs"
  by (induction rs) (simp_all add: table_simps)

lemma list_all_update_where:
  "(\<And>r. q (f r) = q r) \<Longrightarrow> list_all q (update_where p f rs) = list_all q rs"
  by (induction rs) (simp_all add: table_simps)

lemma andthen_InrE:
  "andthen m f w = (Inr y, w'') \<Longrightarrow>
   (\<And>x w'. m w = (Inr x, w') \<Longrightarrow> f x w' = (Inr y, w'') \<Longrightarrow> P) \<Longrightarrow> P"
  by (auto simp: andthen_Inr)

lemma first_month_run:
  assumes "charge_first_month env wid spec w = (Inr y, w')"
  shows "accounts (w_db w') = book wid (- (wrap_i32 (int (mt_price_cents spec)) * 10000)) (accounts (w_db w)) \<and>
    t_services (w_db w') = t_services (w_db w) \<and> t_outbox (w_db w') = t_outbox (w_db w) \<and>
    t_deployments (w_db w') = t_deployments (w_db w) \<and> \<not> w_aborted w'"
  using assms
  by (auto simp: charge_first_month_def Let_def first_month_exact run_simps sql_charge_def
      sql_insert_charge_def accounts_def book_def update_where_def split: if_splits list.splits)

definition tier_charge :: "metal_tier_spec option \<Rightarrow> int" where
  "tier_charge tier = (case tier of None \<Rightarrow> 0 | Some spec \<Rightarrow> wrap_i32 (int (mt_price_cents spec)) * 10000)"

lemma book_zero [simp]: "book a 0 accs = accs"
  by (induction accs) (auto simp: book_def)

lemma charge_step_run:
  assumes "(case tier of None \<Rightarrow> ret () | Some spec \<Rightarrow> charge_first_month env wid spec) w = (Inr y, w')"
    and "\<not> w_aborted w"
  shows "accounts (w_db w') = book wid (- tier_charge tier) (accounts (w_db w)) \<and>
    t_services (w_db w') = t_services (w_db w) \<and> t_outbox (w_db w') = t_outbox (w_db w) \<and>
    t_deployments (w_db w') = t_deployments (w_db w) \<and> \<not> w_aborted w'"
  using assms by (cases tier) (auto simp: tier_charge_def run_simps dest: first_month_run)

lemma deploy_txn_run:
  assumes run: "deploy_txn env uid p w = (Inr (Commit y), w')"
  shows "\<exists>ob dl. t_services (w_db w') =
      update_where (replaceable (pl_workspace p) (pl_slug p)) (\<lambda>s. s\<lparr>sv_deleted_at := Some (e_now env)\<rparr>)
        (t_services (w_db w)) @ [new_service (e_now env) p] \<and>
    t_outbox (w_db w') = t_outbox (w_db w) @ [ob] \<and> ob_subject ob = subject_provision \<and>
    payload_service_id (ob_payload ob) = Some (e_uuid_str env (pl_service p)) \<and>
    t_deployments (w_db w') = t_deployments (w_db w) @ [dl] \<and> dl_service dl = pl_service p \<and>
    dl_artifact_key dl = pl_artifact_key p \<and>
    accounts (w_db w') = book (pl_workspace p) (- tier_charge (pl_tier p)) (accounts (w_db w)) \<and>
    \<not> service_exists (pl_service p) (w_db w) \<and> service_slug_free (pl_slug p) (w_db w) \<and>
    \<not> w_aborted w'"
proof -
  define r1 where "r1 = update_where (replaceable (pl_workspace p) (pl_slug p))
      (\<lambda>s. s\<lparr>sv_deleted_at := Some (e_now env)\<rparr>) (t_services (w_db w))"
  from run obtain a1 w1 w2 r w3 y1 y2 y3 where
    1: "stmt env (\<lambda>_. internal ''old service cleanup failed'')
          (sql_retire_old (pl_workspace p) (pl_slug p)) w = (Inr y1, a1)"
    and 2: "stmt env (\<lambda>_. internal ''failed to create service'') (sql_insert_service p) a1 = (Inr y2, w1)"
    and c: "(case pl_tier p of None \<Rightarrow> ret ()
              | Some spec \<Rightarrow> charge_first_month env (pl_workspace p) spec) w1 = (Inr y3, w2)"
    and t: "try_stmt env (sql_peers (pl_project p) (pl_service p)) w2 = (Inr r, w3)"
    and rest: "(let peers = (case r of Inl _ \<Rightarrow> [] | Inr slugs \<Rightarrow> slugs)
     in andthen (stmt env (\<lambda>_. internal ''failed to queue provision event'')
                   (sql_insert_outbox subject_provision (deploy_event env p peers))) (\<lambda>_.
        andthen (stmt env (\<lambda>_. internal ''failed to record deployment'')
                   (sql_insert_deployment (pl_service p) (pl_workspace p) (pl_slug p)
                      (engine_as_str (pl_engine p)) (pl_artifact_key p) (Some (pl_sha256 p))
                      (Some (snd (snd (spec_columns (pl_spec p))))) uid)) (\<lambda>_.
        ret (Commit ())))) w3 = (Inr (Commit y), w')"
    unfolding deploy_txn_def by (blast elim: andthen_InrE)
  from 1 have a1: "w_db a1 = (w_db w)\<lparr>t_services := r1\<rparr>" "\<not> w_aborted a1"
    by (auto simp: run_simps sql_retire_old_def r1_def)
  have ins: "\<not> service_exists (pl_service p) d \<and> service_slug_free (pl_slug p) d \<and>
      d' = d\<lparr>t_services := t_services d @ [new_service t p]\<rparr>"
    if "sql_insert_service p t u d = Inr (x, d')" for t u d x d'
    using that by (auto simp: sql_insert_service_def split: if_splits)
  from 2 obtain u d where "sql_insert_service p (e_now env) u (w_db a1) = Inr (y2, d)" "w_db w1 = d"
    and a: "\<not> w_aborted w1" by (auto simp: run_simps)
  from ins [OF this(1)] this(2) a1 have
    w1: "w_db w1 = (w_db w)\<lparr>t_services := r1 @ [new_service (e_now env) p]\<rparr>"
    and free: "\<not> service_exists (pl_service p) ((w_db w)\<lparr>t_services := r1\<rparr>)"
      "service_slug_free (pl_slug p) ((w_db w)\<lparr>t_services := r1\<rparr>)" by auto
  note C = charge_step_run [OF c a]
  obtain slugs where r: "r = Inr slugs"
  proof (cases r)
    case (Inl e)
    with t have "w_aborted w3" by (simp add: try_stmt_Inl)
    with rest Inl show ?thesis by (auto simp: Let_def run_simps)
  qed auto
  with t have w3: "w_db w3 = w_db w2" by (auto simp: run_simps sql_peers_def)
  define ob where "ob = \<lparr>ob_id = e_fresh env (w_calls w3), ob_subject = subject_provision,
    ob_payload = deploy_event env p slugs, ob_created_at = e_now env\<rparr>"
  define dl where "dl = \<lparr>dl_id = e_fresh env (Suc (w_calls w3)), dl_service = pl_service p,
    dl_workspace = pl_workspace p, dl_slug = pl_slug p, dl_engine = engine_as_str (pl_engine p),
    dl_artifact_key = pl_artifact_key p, dl_commit_sha = Some (pl_sha256 p),
    dl_port = Some (snd (snd (spec_columns (pl_spec p)))), dl_deployed_by = uid,
    dl_created_at = e_now env\<rparr>"
  from rest r have na: "\<not> w_aborted w'" by (auto simp: Let_def run_simps)
  from rest r have w': "w_db w' = (w_db w3)\<lparr>t_outbox := t_outbox (w_db w3) @ [ob],
      t_deployments := t_deployments (w_db w3) @ [dl]\<rparr>"
    by (auto simp: Let_def run_simps sql_insert_outbox_def sql_insert_deployment_def ob_def dl_def
        split: if_splits)
  have "accounts (w_db w1) = accounts (w_db w)" "accounts (w_db w') = accounts (w_db w3)"
    by (simp_all add: accounts_def w1 w')
  moreover have "\<not> service_exists (pl_service p) (w_db w)" "service_slug_free (pl_slug p) (w_db w)"
    using free by (simp_all add: service_exists_def service_slug_free_def r1_def
        list_ex_update_where list_all_update_where)
  ultimately show ?thesis
    using C w1 w3 w' na by (intro exI [of _ ob] exI [of _ dl]) (simp add: r1_def ob_def dl_def deploy_event_def)
qed

lemma deploy_txn_no_rollback: "deploy_txn env uid p w \<noteq> (Inr (Rollback x), w')"
  by (auto simp: deploy_txn_def Let_def run_simps)

definition may_deploy :: "db \<Rightarrow> caller \<Rightarrow> uuid \<Rightarrow> uuid \<Rightarrow> bool" where
  "may_deploy d caller pid wid =
     ((\<exists>q \<in> set (t_projects d). pr_id q = pid \<and> pr_deleted_at q = None \<and> pr_workspace q = wid) \<and>
      (\<exists>m \<in> set (t_members d). wm_workspace m = wid \<and> wm_user m = ca_user_id caller \<and>
         wm_role m \<in> {''owner'', ''admin''}))"

lemma authorize_project_run:
  assumes "authorize_project env caller project w = (Inr (pid, wid), w')"
  shows "e_parse_uuid env project = Some pid \<and> may_deploy (w_db w) caller pid wid \<and> w_db w' = w_db w"
proof -
  have look: "\<exists>q \<in> set (t_projects d). pr_id q = i \<and> pr_deleted_at q = None \<and> pr_workspace q = a \<and>
      (\<exists>m \<in> set (t_members d). wm_workspace m = a \<and> wm_user m = uid \<and> wm_role m = b) \<and> d' = d"
    if "sql_project_for i uid t u d = Inr (Some (a, b), d')" for i uid t u d d' a b
  proof -
    define L where "L = concat (map (\<lambda>p. map (\<lambda>m. (pr_workspace p, wm_role m))
              (filter (\<lambda>m. wm_workspace m = pr_workspace p \<and> wm_user m = uid) (t_members d)))
            (filter (\<lambda>p. pr_id p = i \<and> pr_deleted_at p = None) (t_projects d)))"
    from that have "L = [(a, b)]" "d' = d"
      by (auto simp: sql_project_for_def L_def [symmetric] split: list.splits)
    then have "(a, b) \<in> set L" "d' = d" by simp_all
    then show ?thesis by (auto simp: L_def)
  qed
  from assms obtain i role u d where "e_parse_uuid env project = Some pid"
    "sql_project_for pid (ca_user_id caller) (e_now env) u (w_db w) = Inr (Some (wid, role), d)"
    "require_workspace_role role ''admin'' = Inr ()" "w_db w' = d"
    by (auto simp: authorize_project_def run_simps)
  then show ?thesis
    using look [of pid "ca_user_id caller" "e_now env" u "w_db w" wid role d]
    by (auto simp: may_deploy_def require_workspace_role_admin)
qed

lemma deploy_check_run:
  assumes "transact env be ce (deploy_check_txn env wid slug) w = (Inr (), w')"
  shows "w_db w' = w_db w \<and> \<not> slug_active wid slug (w_db w) \<and>
    (enforce_quotas (e_features env) \<longrightarrow> int (service_count wid (w_db w)) < MAX_SERVICES_PER_WORKSPACE)"
  using assms
  by (auto simp: deploy_check_txn_def run_simps sql_advisory_lock_def sql_count_services_def
      sql_slug_active_def split: if_splits)

lemma deploy_service_run:
  assumes "deploy_service env caller body w = (Inr s, w')"
  shows "\<exists>p w1 w2. s = deployed p \<and> scope_allowed caller ''write'' \<and> validate_body body = Inr () \<and>
    deploy_slug env body = Inr (pl_slug p) \<and>
    deploy_spec env body = Inr (pl_engine p, pl_spec p, pl_tier p) \<and>
    pl_artifact_key p = dr_artifact_key body \<and> pl_name p = dr_name body \<and>
    e_parse_uuid env (dr_project_id body) = Some (pl_project p) \<and>
    may_deploy (w_db w) caller (pl_project p) (pl_workspace p) \<and>
    (enforce_quotas (e_features env) \<longrightarrow>
       int (service_count (pl_workspace p) (w_db w)) < MAX_SERVICES_PER_WORKSPACE) \<and>
    \<not> slug_active (pl_workspace p) (pl_slug p) (w_db w) \<and>
    deploy_txn env (ca_user_id caller) p w1 = (Inr (Commit ()), w2) \<and>
    w_db w1 = w_db w \<and> w_db w' = w_db w2"
proof -
  from assms obtain pid wid a1 eng spec tier slug a3 where
    sc: "scope_allowed caller ''write''" "validate_body body = Inr ()"
    and au: "authorize_project env caller (dr_project_id body) w = (Inr (pid, wid), a1)"
    and sp: "deploy_spec env body = Inr (eng, spec, tier)" and sl: "deploy_slug env body = Inr slug"
    and ch: "transact env (internal ''failed to start check transaction'')
                (internal ''check transaction commit failed'')
                (deploy_check_txn env wid slug) (tick a1) = (Inr (), a3)"
    and rest: "\<exists>p. p = \<lparr>pl_service = e_fresh env (w_calls a1), pl_project = pid, pl_workspace = wid,
              pl_name = dr_name body, pl_slug = slug, pl_engine = eng,
              pl_artifact_key = dr_artifact_key body, pl_sha256 = dr_sha256 body,
              pl_spec = spec, pl_tier = tier\<rparr> \<and>
          andthen (transact env (internal ''failed to start transaction'')
                   (internal ''failed to commit deploy transaction'')
                   (deploy_txn env (ca_user_id caller) p)) (\<lambda>_.
        ret (deployed p)) a3 = (Inr s, w')"
    unfolding deploy_service_def Let_def
    by (clarsimp simp: andthen_Inr of_sum_Inr fresh_id_Inr require_scope_ok)
  from rest obtain p a4 where p: "p = \<lparr>pl_service = e_fresh env (w_calls a1), pl_project = pid,
        pl_workspace = wid, pl_name = dr_name body, pl_slug = slug, pl_engine = eng,
        pl_artifact_key = dr_artifact_key body, pl_sha256 = dr_sha256 body,
        pl_spec = spec, pl_tier = tier\<rparr>"
    and t: "transact env (internal ''failed to start transaction'')
        (internal ''failed to commit deploy transaction'')
        (deploy_txn env (ca_user_id caller) p) a3 = (Inr (), w')" and s: "s = deployed p"
    by (auto simp: andthen_Inr ret_Inr)
  define w1 where "w1 = (tick a3)\<lparr>w_aborted := False\<rparr>"
  from t obtain w2 where c: "deploy_txn env (ca_user_id caller) p w1 = (Inr (Commit ()), w2)"
    and w2: "w' = (if w_aborted w2 then rollback_to (w_db a3) (tick w2) else tick w2)"
    unfolding transact_Inr_iff w1_def [symmetric] using deploy_txn_no_rollback by blast
  from deploy_txn_run [OF c] have "\<not> w_aborted w2" by blast
  with w2 have "w_db w' = w_db w2" by simp
  moreover have "w_db w1 = w_db w"
    using deploy_check_run [OF ch] authorize_project_run [OF au] by (simp add: w1_def)
  ultimately show ?thesis
    using sc sp sl s c deploy_check_run [OF ch] authorize_project_run [OF au]
    by (intro exI [of _ p] exI [of _ w1] exI [of _ w2]) (auto simp: p)
qed

text \<open>
  C19: a deploy under a slug that any service row has, deleted ones included, never succeeds and
  changes no table: the \<open>UNIQUE\<close> constraint covers the rows that the transaction has just
  marked deleted, so a service can not be replaced under its own name.
\<close>

theorem redeploy_of_used_slug_fails:
  assumes slug: "deploy_slug env body = Inr slug" and used: "\<exists>s \<in> set (t_services (w_db w)). sv_slug s = slug"
  shows "(\<forall>s. fst (deploy_service env caller body w) \<noteq> Inr s) \<and>
    w_db (snd (deploy_service env caller body w)) = w_db w"
proof -
  obtain r w' where run: "deploy_service env caller body w = (r, w')" by fastforce
  have "r \<noteq> Inr s" for s
  proof
    assume "r = Inr s"
    with run obtain p w1 w2 where "deploy_slug env body = Inr (pl_slug p)"
      "deploy_txn env (ca_user_id caller) p w1 = (Inr (Commit ()), w2)" "w_db w1 = w_db w"
      using deploy_service_run by blast
    with deploy_txn_run [of env "ca_user_id caller" p w1 "()" w2] slug used show False
      by (auto simp: service_slug_free_def list_all_iff)
  qed
  moreover from this obtain e where "r = Inl e" by (cases r) auto
  ultimately show ?thesis using run aon_deployments(1) [of env caller body]
    by (simp add: all_or_nothing_def)
qed

text \<open>
  C10: a deploy succeeds only for a caller with the write scope who owns or administers the
  workspace of an existing project, with a name of 1 to 63 bytes, an artifact, a slug of ASCII
  letters, digits and dashes that no live service of the workspace is using, a known engine,
  for Metal a known tier and a port, and, when quotas are on, fewer than 50 services.
\<close>

theorem deploy_guards:
  assumes "deploy_service env caller body w = (Inr s, w')"
  shows "\<exists>pid wid slug. e_parse_uuid env (dr_project_id body) = Some pid \<and>
    scope_allowed caller ''write'' \<and> may_deploy (w_db w) caller pid wid \<and>
    0 < length (dr_name body) \<and> length (dr_name body) \<le> 63 \<and> dr_artifact_key body \<noteq> [] \<and>
    ds_slug s = slug \<and> slug \<noteq> [] \<and> (\<forall>c \<in> set slug. is_ascii_alphanumeric c \<or> c = CHR ''-'') \<and>
    (dr_engine body = ''liquid'' \<or>
     dr_engine body = ''metal'' \<and> (\<exists>t \<in> set METAL_TIERS. dr_tier body = Some (mt_id t)) \<and>
       or_default 0 (dr_port body) mod 65536 \<noteq> 0) \<and>
    (enforce_quotas (e_features env) \<longrightarrow> service_count wid (w_db w) < 50) \<and>
    \<not> slug_active wid slug (w_db w)"
proof -
  from deploy_service_run [OF assms] obtain p w1 w2 where
    p: "s = deployed p" "scope_allowed caller ''write''" "validate_body body = Inr ()"
    "deploy_slug env body = Inr (pl_slug p)"
    "deploy_spec env body = Inr (pl_engine p, pl_spec p, pl_tier p)"
    "e_parse_uuid env (dr_project_id body) = Some (pl_project p)"
    "may_deploy (w_db w) caller (pl_project p) (pl_workspace p)"
    "enforce_quotas (e_features env) \<longrightarrow>
       int (service_count (pl_workspace p) (w_db w)) < MAX_SERVICES_PER_WORKSPACE"
    "\<not> slug_active (pl_workspace p) (pl_slug p) (w_db w)" by blast
  have body: "0 < length (dr_name body)" "length (dr_name body) \<le> 63" "dr_artifact_key body \<noteq> []"
    using p(3) by (auto simp: validate_body_def split: if_splits)
  have slug: "pl_slug p \<noteq> []" "\<forall>c \<in> set (pl_slug p). is_ascii_alphanumeric c \<or> c = CHR ''-''"
    using p(4) by (auto simp: deploy_slug_def Let_def list_all_iff split: if_splits)
  have tiers: "metal_tier i \<noteq> None \<Longrightarrow> \<exists>t \<in> set METAL_TIERS. i = mt_id t" for i
    using metal_tier_mem by fastforce
  have eng: "dr_engine body = ''liquid'' \<or>
     dr_engine body = ''metal'' \<and> (\<exists>t \<in> set METAL_TIERS. dr_tier body = Some (mt_id t)) \<and>
       or_default 0 (dr_port body) mod 65536 \<noteq> 0"
    using p(5) tiers
    by (auto simp: deploy_spec_def engine_from_str_Inr engine_as_str_def wrap_u16_def Let_def
        nat_mod_distrib split: sum.splits engine.splits option.splits if_splits)
  show ?thesis
    using p body slug eng by (intro exI conjI) (auto simp: deployed_def MAX_SERVICES_PER_WORKSPACE_def)
qed

section \<open>Artifacts\<close>

definition artifacts_ok :: "db \<Rightarrow> bool" where
  "artifacts_ok d =
     (\<forall>x \<in> set (t_deployments d). service_exists (dl_service x) d \<and>
        (\<forall>s \<in> set (t_services d). sv_id s = dl_service x \<longrightarrow>
           sv_artifact_key s = Some (dl_artifact_key x)))"

definition artifact_view :: "db \<Rightarrow> (uuid \<times> string option) list" where
  "artifact_view d = map (\<lambda>s. (sv_id s, sv_artifact_key s)) (t_services d)"

lemma artifacts_ok_view:
  "artifacts_ok d \<longleftrightarrow> (\<forall>x \<in> set (t_deployments d). dl_service x \<in> fst ` set (artifact_view d) \<and>
     (\<forall>k. (dl_service x, k) \<in> set (artifact_view d) \<longrightarrow> k = Some (dl_artifact_key x)))"
proof -
  have ex: "service_exists i d \<longleftrightarrow> i \<in> fst ` set (artifact_view d)" for i
    by (auto simp: artifact_view_def service_exists_def list_ex_iff image_image)
  have key: "(\<forall>s \<in> set (t_services d). sv_id s = i \<longrightarrow> sv_artifact_key s = Some k) \<longleftrightarrow>
      (\<forall>k'. (i, k') \<in> set (artifact_view d) \<longrightarrow> k' = Some k)" for i k
    by (fastforce simp: artifact_view_def)
  show ?thesis by (simp only: artifacts_ok_def ex key)
qed

lemma deploy_keeps_artifacts:
  assumes ok: "artifacts_ok (w_db w)"
  shows "artifacts_ok (w_db (snd (deploy_service env caller body w)))"
proof (cases "deploy_service env caller body w")
  case (Pair r w')
  show ?thesis
  proof (cases r)
    case (Inl e)
    with Pair aon_deployments(1) [of env caller body] ok show ?thesis
      by (simp add: all_or_nothing_def)
  next
    case (Inr s)
    with Pair obtain p w1 w2 where
      "deploy_txn env (ca_user_id caller) p w1 = (Inr (Commit ()), w2)" and w: "w_db w1 = w_db w"
      "w_db w' = w_db w2" using deploy_service_run by blast
    from deploy_txn_run [OF this(1)] obtain dl where
      sv: "t_services (w_db w2) = update_where (replaceable (pl_workspace p) (pl_slug p))
          (\<lambda>s. s\<lparr>sv_deleted_at := Some (e_now env)\<rparr>) (t_services (w_db w)) @ [new_service (e_now env) p]"
      and dl: "t_deployments (w_db w2) = t_deployments (w_db w) @ [dl]" "dl_service dl = pl_service p"
        "dl_artifact_key dl = pl_artifact_key p"
      and new: "\<not> service_exists (pl_service p) (w_db w)" unfolding w by blast
    have view: "artifact_view (w_db w2) = artifact_view (w_db w) @ [(pl_service p, Some (pl_artifact_key p))]"
      by (simp add: artifact_view_def sv update_where_def new_service_def comp_def split: prod.split)
    have fresh: "(pl_service p, k) \<notin> set (artifact_view (w_db w))" for k
      using new by (auto simp: artifact_view_def service_exists_def list_ex_iff)
    then have fresh': "pl_service p \<notin> fst ` set (artifact_view (w_db w))" by force
    show ?thesis
      using ok Pair fresh fresh' by (auto simp: artifacts_ok_view view dl w)
  qed
qed

section \<open>Rolling back\<close>

lemma services_with_role_mem:
  "(s, role) \<in> set (services_with_role sid uid d) \<longleftrightarrow>
     s \<in> set (t_services d) \<and> live_service sid s \<and>
     (\<exists>m \<in> set (t_members d). wm_workspace m = sv_workspace s \<and> wm_user m = uid \<and> wm_role m = role)"
  by (auto simp: services_with_role_def)

text \<open>Who may change a service: an owner or administrator of its workspace, with the scope.\<close>

definition may_change :: "env \<Rightarrow> db \<Rightarrow> caller \<Rightarrow> string \<Rightarrow> string \<Rightarrow> service_row \<Rightarrow> bool" where
  "may_change env d caller scope i s =
     (scope_allowed caller scope \<and> e_parse_uuid env i = Some (sv_id s) \<and>
      s \<in> set (t_services d) \<and> sv_deleted_at s = None \<and>
      (\<exists>m \<in> set (t_members d). wm_workspace m = sv_workspace s \<and> wm_user m = ca_user_id caller \<and>
         wm_role m \<in> {''owner'', ''admin''}))"

lemma authorize_service_run:
  assumes "authorize_service env caller scope i w = (Inr s, w')"
  shows "may_change env (w_db w) caller scope i s \<and> w_db w' = w_db w"
proof -
  have look: "services_with_role sid uid d = [(a, b)] \<and> d' = d"
    if "sql_service_for sid uid t u d = Inr (Some (a, b), d')" for sid uid t u d d' a b
    using that by (auto simp: sql_service_for_def split: list.splits)
  from assms obtain sid role u d where 1: "scope_allowed caller scope" "e_parse_uuid env i = Some sid"
    and 2: "sql_service_for sid (ca_user_id caller) (e_now env) u (w_db w) = Inr (Some (s, role), d)"
    "require_workspace_role role ''admin'' = Inr ()" "w_db w' = d"
    by (auto simp: authorize_service_def run_simps require_scope_ok)
  from look [OF 2(1)] have "(s, role) \<in> set (services_with_role sid (ca_user_id caller) (w_db w))"
    "d = w_db w" by simp_all
  then show ?thesis
    using 1 2(2,3) unfolding services_with_role_mem
    by (auto simp: may_change_def live_service_def require_workspace_role_admin)
qed

lemma rollback_target_run:
  assumes "rollback_target env sid did w = (Inr x, w')"
  shows "x \<in> set (t_deployments (w_db w)) \<and> dl_service x = sid \<and> w_db w' = w_db w"
proof (cases did)
  case None
  have "x \<in> set (newest_first sid (w_db w))" 
    using assms None set_drop_subset [of 1 "newest_first sid (w_db w)"]
    by (auto simp: rollback_target_def run_simps sql_previous_deployment_def split: list.splits)
  with assms None show ?thesis
    by (auto simp: rollback_target_def run_simps sql_previous_deployment_def newest_first_def)
next
  case (Some i)
  have look: "x \<in> set (t_deployments d) \<and> dl_service x = sid \<and> d' = d"
    if "sql_deployment j sid t u d = Inr (Some x, d')" for j t u d d'
    using that by (auto simp: sql_deployment_def split: list.splits dest!: filter_singletonD)
  from assms Some look show ?thesis
    by (auto simp: rollback_target_def run_simps)
qed

lemma rollback_txn_run:
  assumes "rollback_txn env uid s x ev w = (Inr (Commit y), w')"
  shows "t_services (w_db w') = update_where (\<lambda>r. sv_id r = sv_id s)
          (\<lambda>r. r\<lparr>sv_status := ''provisioning'', sv_upstream := None,
                 sv_artifact_key := Some (dl_artifact_key x), sv_commit_sha := dl_commit_sha x\<rparr>)
          (t_services (w_db w)) \<and> accounts (w_db w') = accounts (w_db w) \<and>
     (\<exists>ob. t_outbox (w_db w') = t_outbox (w_db w) @ [ob] \<and> ob_subject ob = subject_provision \<and>
        ob_payload ob = ev) \<and>
     (\<exists>dl. t_deployments (w_db w') = t_deployments (w_db w) @ [dl] \<and> dl_service dl = sv_id s \<and>
        dl_artifact_key dl = dl_artifact_key x) \<and> \<not> w_aborted w'"
  using assms
  by (auto simp: rollback_txn_def run_simps sql_roll_back_def sql_insert_outbox_def
      sql_insert_deployment_def accounts_def split: if_splits)

lemma rollback_txn_no_rollback: "rollback_txn env uid s x ev w \<noteq> (Inr (Rollback y), w')"
  by (auto simp: rollback_txn_def run_simps)


lemma commit_run:
  assumes "transact env be ce body w = (Inr y, w')"
    and "\<And>v v' x. body v \<noteq> (Inr (Rollback x), v')"
    and "\<And>v v' x. body v = (Inr (Commit x), v') \<Longrightarrow> \<not> w_aborted v'"
  shows "\<exists>v v'. body v = (Inr (Commit y), v') \<and> w_db v = w_db w \<and> w_db w' = w_db v' \<and>
    w_log v = w_log w \<and> w_log w' = w_log v'"
proof -
  from assms(1,2) obtain v' where b: "body ((tick w)\<lparr>w_aborted := False\<rparr>) = (Inr (Commit y), v')"
    and "w' = (if w_aborted v' then rollback_to (w_db w) (tick v') else tick v')"
    by (auto simp: transact_Inr_iff)
  with assms(3) [OF b] show ?thesis
    by (intro exI [of _ "(tick w)\<lparr>w_aborted := False\<rparr>"] exI [of _ v']) simp
qed

lemma rollback_service_run:
  assumes "rollback_service env caller i did w = (Inr ds, w')"
  shows "\<exists>s x. may_change env (w_db w) caller ''write'' i s \<and> x \<in> set (t_deployments (w_db w)) \<and>
     dl_service x = sv_id s \<and> ds_id ds = sv_id s \<and>
     t_services (w_db w') = update_where (\<lambda>r. sv_id r = sv_id s)
          (\<lambda>r. r\<lparr>sv_status := ''provisioning'', sv_upstream := None,
                 sv_artifact_key := Some (dl_artifact_key x), sv_commit_sha := dl_commit_sha x\<rparr>)
          (t_services (w_db w)) \<and>
     accounts (w_db w') = accounts (w_db w) \<and>
     (\<exists>ob. t_outbox (w_db w') = t_outbox (w_db w) @ [ob] \<and> ob_subject ob = subject_provision \<and>
        payload_service_id (ob_payload ob) = Some (e_uuid_str env (sv_id s))) \<and>
     (\<exists>dl. t_deployments (w_db w') = t_deployments (w_db w) @ [dl] \<and> dl_service dl = sv_id s \<and>
        dl_artifact_key dl = dl_artifact_key x)"
proof -
  from assms obtain s w1 x w2 eng vars w3 w4 where
    a: "authorize_service env caller ''write'' i w = (Inr s, w1)"
    and x: "rollback_target env (sv_id s) did w1 = (Inr x, w2)"
    and e: "parse_engine (internal (''unknown engine: '' @ dl_engine x)) (dl_engine x) w2 = (Inr eng, w3)"
    and v: "(case kv_get env (env_path env (sv_workspace s) (sv_id s)) of
                Inl _ \<Rightarrow> throw (internal ''failed to read environment variables'')
              | Inr m \<Rightarrow> ret (or_default Map.empty m)) w3 = (Inr vars, w4)"
    and t: "transact env (internal ''failed to start transaction'')
                (internal ''failed to commit rollback transaction'')
                (rollback_txn env (ca_user_id caller) s x (rollback_event env s x eng vars)) w4 = (Inr (), w')"
    and ds: "ds_id ds = sv_id s"
    unfolding rollback_service_def by (auto elim!: andthen_InrE simp: ret_Inr)
  from authorize_service_run [OF a] rollback_target_run [OF x] e v
  have db: "may_change env (w_db w) caller ''write'' i s" "w_db w4 = w_db w"
      "x \<in> set (t_deployments (w_db w))" "dl_service x = sv_id s"
    by (auto simp: parse_engine_def ret_Inr throw_Inr split: sum.splits)
  from commit_run [OF t rollback_txn_no_rollback] rollback_txn_run obtain v v' where
    b: "rollback_txn env (ca_user_id caller) s x (rollback_event env s x eng vars) v = (Inr (Commit ()), v')"
    and w: "w_db v = w_db w" "w_db w' = w_db v'" using db by metis
  from rollback_txn_run [OF b] show ?thesis
    using db ds unfolding w by (intro exI [of _ s] exI [of _ x]) (auto simp: rollback_event_def)
qed

text \<open>Under \<open>artifacts_ok\<close> a rollback has only the artifact already running to go to.\<close>

lemma rollback_keeps_view:
  assumes ok: "artifacts_ok (w_db w)"
  shows "artifact_view (w_db (snd (rollback_service env caller i did w))) = artifact_view (w_db w) \<and>
    artifacts_ok (w_db (snd (rollback_service env caller i did w)))"
proof (cases "rollback_service env caller i did w")
  case (Pair r w')
  show ?thesis
  proof (cases r)
    case (Inl e)
    with Pair aon_deployments(2) [of env caller i did] ok show ?thesis
      by (simp add: all_or_nothing_def)
  next
    case (Inr ds)
    with Pair have run: "rollback_service env caller i did w = (Inr ds, w')" by simp
    from rollback_service_run [OF run] obtain s :: service_row and x dl where x: "x \<in> set (t_deployments (w_db w))" "dl_service x = sv_id s"
      and sv: "t_services (w_db w') = update_where (\<lambda>r. sv_id r = sv_id s)
          (\<lambda>r. r\<lparr>sv_status := ''provisioning'', sv_upstream := None,
                 sv_artifact_key := Some (dl_artifact_key x), sv_commit_sha := dl_commit_sha x\<rparr>)
          (t_services (w_db w))"
      and dl: "t_deployments (w_db w') = t_deployments (w_db w) @ [dl]" "dl_service dl = sv_id s"
        "dl_artifact_key dl = dl_artifact_key x"
      by blast
    from ok x have k: "sv_artifact_key r = Some (dl_artifact_key x)"
      if "r \<in> set (t_services (w_db w))" "sv_id r = sv_id s" for r
      using that unfolding artifacts_ok_def by metis
    have "artifact_view (w_db w') = artifact_view (w_db w)"
      unfolding artifact_view_def sv update_where_def using k by auto
    then show ?thesis
      using ok x by (auto simp: Pair artifacts_ok_view dl x(2) [symmetric])
  qed
qed


text \<open>
  every deployment on record has the artifact its service has now. A deploy keeps this,
  because it always creates a service of its own, and so does a rollback; so a rollback, which
  picks among the deployments of one service, changes no service's artifact.
\<close>

theorem rollback_changes_no_artifact:
  assumes "artifacts_ok (w_db w)"
  shows "artifacts_ok (w_db (snd (deploy_service env caller body w))) \<and>
    artifacts_ok (w_db (snd (rollback_service env caller i did w))) \<and>
    artifact_view (w_db (snd (rollback_service env caller i did w))) = artifact_view (w_db w)"
  using deploy_keeps_artifacts [OF assms] rollback_keeps_view [OF assms] by simp

section \<open>What a deploy writes\<close>

lemma nothing_replaceable:
  "service_slug_free slug d \<Longrightarrow> update_where (replaceable wid slug) f (t_services d) = t_services d"
  by (rule update_where_none) (auto simp: service_slug_free_def list_all_iff replaceable_def)

text \<open>
  C9: a deploy that succeeds appends one service, in the provisioning state, under the requested
  project, name, engine and artifact and under an id no service had; debits the price of its
  tier for Metal and nothing for Liquid; queues one provision event for it; and records one
  deployment of the artifact. It changes no other service.
\<close>

theorem deploy_effect:
  assumes run: "deploy_service env caller body w = (Inr ds, w')"
  shows "\<exists>s pid wid ob dl. t_services (w_db w') = t_services (w_db w) @ [s] \<and>
    sv_id s = ds_id ds \<and> sv_slug s = ds_slug ds \<and> sv_name s = dr_name body \<and>
    sv_project s = pid \<and> sv_workspace s = wid \<and> sv_status s = ''provisioning'' \<and>
    sv_artifact_key s = Some (dr_artifact_key body) \<and> sv_deleted_at s = None \<and>
    sv_engine s = dr_engine body \<and> e_parse_uuid env (dr_project_id body) = Some pid \<and>
    \<not> service_exists (ds_id ds) (w_db w) \<and>
    accounts (w_db w') = book wid (- (if dr_engine body = ''metal''
       then or_default 0 (sv_price_cents s) * 10000 else 0)) (accounts (w_db w)) \<and>
    t_outbox (w_db w') = t_outbox (w_db w) @ [ob] \<and> ob_subject ob = subject_provision \<and>
    payload_service_id (ob_payload ob) = Some (e_uuid_str env (ds_id ds)) \<and>
    t_deployments (w_db w') = t_deployments (w_db w) @ [dl] \<and> dl_service dl = ds_id ds \<and>
    dl_artifact_key dl = dr_artifact_key body"
proof -
  from deploy_service_run [OF run] obtain p w1 w2 where
    p: "ds = deployed p" "deploy_spec env body = Inr (pl_engine p, pl_spec p, pl_tier p)"
      "pl_artifact_key p = dr_artifact_key body" "pl_name p = dr_name body"
      "e_parse_uuid env (dr_project_id body) = Some (pl_project p)"
    and t: "deploy_txn env (ca_user_id caller) p w1 = (Inr (Commit ()), w2)"
    and w: "w_db w1 = w_db w" "w_db w' = w_db w2" by blast
  define s where "s = new_service (e_now env) p"
  have eng: "engine_as_str (pl_engine p) = dr_engine body"
    "pl_tier p = None \<longleftrightarrow> dr_engine body \<noteq> ''metal''"
    using p(2) by (auto simp: deploy_spec_def Let_def engine_from_str_def engine_as_str_def
        split: engine.splits sum.splits option.splits if_splits) metis
  have s: "sv_id s = ds_id ds" "sv_slug s = ds_slug ds" "sv_name s = dr_name body"
    "sv_project s = pl_project p" "sv_workspace s = pl_workspace p" "sv_status s = ''provisioning''"
    "sv_artifact_key s = Some (dr_artifact_key body)" "sv_deleted_at s = None"
    "sv_engine s = dr_engine body"
    "tier_charge (pl_tier p) = (if dr_engine body = ''metal'' then or_default 0 (sv_price_cents s) * 10000 else 0)"
    using p eng by (auto simp: s_def new_service_def deployed_def tier_charge_def or_default_def
        split: prod.split option.split)
  from deploy_txn_run [OF t] obtain ob dl where
    "t_services (w_db w2) = t_services (w_db w) @ [s]"
    "t_outbox (w_db w2) = t_outbox (w_db w) @ [ob]" "ob_subject ob = subject_provision"
    "payload_service_id (ob_payload ob) = Some (e_uuid_str env (pl_service p))"
    "t_deployments (w_db w2) = t_deployments (w_db w) @ [dl]" "dl_service dl = pl_service p"
    "dl_artifact_key dl = pl_artifact_key p"
    "accounts (w_db w2) = book (pl_workspace p) (- tier_charge (pl_tier p)) (accounts (w_db w))"
    "\<not> service_exists (pl_service p) (w_db w)" unfolding w s_def using nothing_replaceable by metis
  then show ?thesis
    using p s w by (intro exI [of _ s] exI [of _ "pl_project p"] exI [of _ "pl_workspace p"]
        exI [of _ ob] exI [of _ dl]) (simp add: deployed_def)
qed


lemma deploy_txn_count:
  assumes "transact env be ce (deploy_txn env uid p) w = (Inr (), w')"
  shows "service_count (pl_workspace p) (w_db w') = Suc (service_count (pl_workspace p) (w_db w))"
proof -
  from commit_run [OF assms deploy_txn_no_rollback] deploy_txn_run obtain v v' where
    t: "deploy_txn env uid p v = (Inr (Commit ()), v')" and w: "w_db v = w_db w" "w_db w' = w_db v'" by metis
  from deploy_txn_run [OF t] nothing_replaceable
  have "t_services (w_db w') = t_services (w_db w) @ [new_service (e_now env) p]" by (metis w)
  then show ?thesis by (simp add: service_count_def new_service_def split: prod.split)
qed

text \<open>
  The limit on services is enforced by the check transaction alone: when two deploys both
  check before either writes, both write, and the workspace ends with two services more, one
  over the limit when it had 49.
\<close>

theorem quota_checked_before_not_with:
  assumes "transact env be ce (deploy_check_txn env wid s1) w0 = (Inr (), w1)"
    and "transact env be ce (deploy_check_txn env wid s2) w1 = (Inr (), w2)"
    and "transact env be ce (deploy_txn env u1 p) w2 = (Inr (), w3)"
    and "transact env be ce (deploy_txn env u2 q) w3 = (Inr (), w4)"
    and "pl_workspace p = wid" "pl_workspace q = wid"
  shows "service_count wid (w_db w4) = service_count wid (w_db w0) + 2"
  using deploy_check_run [OF assms(1)] deploy_check_run [OF assms(2)]
    deploy_txn_count [OF assms(3)] deploy_txn_count [OF assms(4)] assms(5,6)
  by simp

section \<open>Stopping, deleting, restarting\<close>

lemma stop_txn_run:
  assumes "stop_txn env sid w = (Inr (Commit y), w')"
  shows "\<exists>s ob eng. s \<in> set (t_services (w_db w)) \<and> stoppable sid s \<and> engine_from_str (sv_engine s) = Inr eng \<and>
    t_services (w_db w') = update_where (stoppable sid)
      (\<lambda>s. s\<lparr>sv_status := ''stopped'', sv_upstream := None\<rparr>) (t_services (w_db w)) \<and>
    t_outbox (w_db w') = delete_where (outbox_about env sid) (t_outbox (w_db w)) @ [ob] \<and>
    ob_subject ob = subject_deprovision \<and> ob_payload ob = deprovision_of env sid (sv_slug s) eng \<and>
    t_deployments (w_db w') = t_deployments (w_db w) \<and> accounts (w_db w') = accounts (w_db w) \<and>
    \<not> w_aborted w'"
proof -
  have stop: "x \<in> set (t_services d) \<and> stoppable sid x \<and> d' = d\<lparr>t_services := update_where (stoppable sid)
      (\<lambda>s. s\<lparr>sv_status := ''stopped'', sv_upstream := None\<rparr>) (t_services d)\<rparr>"
    if "sql_stop_service sid t u d = Inr (Some x, d')" for t u d x d'
    using that by (auto simp: sql_stop_service_def Let_def split: list.splits dest!: filter_singletonD)
  from assms obtain s w1 eng r w3 where
    1: "stmt env (\<lambda>_. internal ''failed to stop service'') (sql_stop_service sid) w = (Inr (Some s), w1)"
    and e: "engine_from_str (sv_engine s) = Inr eng"
    and t: "try_stmt env (sql_clean_outbox env sid) w1 = (Inr r, w3)"
    and i: "stmt env (\<lambda>_. internal ''failed to queue deprovision event'')
                (sql_insert_outbox subject_deprovision (deprovision_of env sid (sv_slug s) eng)) w3 = (Inr (), w')"
    unfolding stop_txn_def parse_engine_def
    by (auto elim!: andthen_InrE simp: ret_Inr of_option_Inr throw_Inr split: sum.splits)
  from 1 obtain u d where "sql_stop_service sid (e_now env) u (w_db w) = Inr (Some s, d)" "w_db w1 = d"
    by (auto simp: stmt_Inr)
  with stop have s: "s \<in> set (t_services (w_db w))" "stoppable sid s"
    and w1: "w_db w1 = (w_db w)\<lparr>t_services := update_where (stoppable sid)
      (\<lambda>s. s\<lparr>sv_status := ''stopped'', sv_upstream := None\<rparr>) (t_services (w_db w))\<rparr>" by blast+
  from i have "\<not> w_aborted w3" by (simp add: stmt_Inr)
  with t obtain y where "r = Inr y" by (cases r) (auto dest: try_stmt_Inl)
  with t have w3: "w_db w3 = (w_db w1)\<lparr>t_outbox := delete_where (outbox_about env sid) (t_outbox (w_db w1))\<rparr>"
    by (auto simp: try_stmt_Inr sql_clean_outbox_def)
  define ob where "ob = \<lparr>ob_id = e_fresh env (w_calls w3), ob_subject = subject_deprovision,
        ob_payload = deprovision_of env sid (sv_slug s) eng, ob_created_at = e_now env\<rparr>"
  from i have w': "w_db w' = (w_db w3)\<lparr>t_outbox := t_outbox (w_db w3) @ [ob]\<rparr>"
    and a: "\<not> w_aborted w'"
    by (auto simp: stmt_Inr sql_insert_outbox_def ob_def split: if_splits)
  show ?thesis
    using s e a
    by (intro exI [of _ s] exI [of _ ob] exI [of _ eng] conjI) (simp_all add: w' w3 w1 accounts_def ob_def)
qed

lemma stop_txn_no_rollback: "stop_txn env sid w \<noteq> (Inr (Rollback y), w')"
  by (auto simp: stop_txn_def parse_engine_def run_simps split: sum.splits)

text \<open>
  A stop succeeds only for an owner or administrator with the write scope, on a service that
  is not stopped; it marks the service stopped without an upstream, drops every event of the
  outbox about it, leaves the others, and queues one deprovision event; no money moves.
\<close>

theorem stop_effect:
  assumes run: "stop_service env caller i w = (Inr (), w')"
  shows "\<exists>s slug eng. may_change env (w_db w) caller ''write'' i s \<and> sv_status s \<noteq> ''stopped'' \<and>
    t_services (w_db w') = update_where (stoppable (sv_id s))
      (\<lambda>r. r\<lparr>sv_status := ''stopped'', sv_upstream := None\<rparr>) (t_services (w_db w)) \<and>
    map ob_payload (filter (outbox_about env (sv_id s)) (t_outbox (w_db w'))) =
      [deprovision_of env (sv_id s) slug eng] \<and>
    filter (\<lambda>r. \<not> outbox_about env (sv_id s) r) (t_outbox (w_db w')) =
      filter (\<lambda>r. \<not> outbox_about env (sv_id s) r) (t_outbox (w_db w)) \<and>
    accounts (w_db w') = accounts (w_db w)"
proof -
  from run obtain s w1 where a: "authorize_service env caller ''write'' i w = (Inr s, w1)"
    and st: "sv_status s \<noteq> ''stopped''"
    and t: "transact env (internal ''failed to start transaction'')
       (internal ''failed to commit stop transaction'') (stop_txn env (sv_id s)) w1 = (Inr (), w')"
    unfolding stop_service_def by (auto elim!: andthen_InrE simp: ensure_Inr)
  note auth = authorize_service_run [OF a]
  from commit_run [OF t stop_txn_no_rollback] stop_txn_run obtain v v' where
    b: "stop_txn env (sv_id s) v = (Inr (Commit ()), v')"
    and w: "w_db v = w_db w1" "w_db w' = w_db v'" by metis
  from stop_txn_run [OF b] obtain r :: service_row and ob eng where
    sv: "t_services (w_db v') = update_where (stoppable (sv_id s))
      (\<lambda>s. s\<lparr>sv_status := ''stopped'', sv_upstream := None\<rparr>) (t_services (w_db v))"
    and ob: "t_outbox (w_db v') = delete_where (outbox_about env (sv_id s)) (t_outbox (w_db v)) @ [ob]"
      "ob_payload ob = deprovision_of env (sv_id s) (sv_slug r) eng"
    and acc: "accounts (w_db v') = accounts (w_db v)" by blast
  have "outbox_about env (sv_id s) ob" by (simp add: outbox_about_def ob deprovision_of_def)
  then show ?thesis
    using auth st sv acc w
    by (intro exI [of _ s] exI [of _ "sv_slug r"] exI [of _ eng])
      (simp add: ob delete_where_def filter_empty_conv)
qed

definition holds_role :: "env \<Rightarrow> db \<Rightarrow> caller \<Rightarrow> string \<Rightarrow> service_row \<Rightarrow> bool" where
  "holds_role env d caller i s =
     (e_parse_uuid env i = Some (sv_id s) \<and>
      (\<exists>role \<in> {''owner'', ''admin''}.
         services_with_role (sv_id s) (ca_user_id caller) d = [(s, role)]))"

lemma authorize_service_ok:
  assumes "scope_allowed caller scope" "holds_role env (w_db w) caller i s"
    and "\<not> e_fault env (w_calls w)" "\<not> e_fault env (Suc (w_calls w))"
  shows "authorize_service env caller scope i w = (Inr s, tick (tick w))"
proof -
  have "require_scope caller scope = Inr ()" using assms(1) by (simp add: require_scope_ok)
  moreover have "parse_uuid env e i v = (Inr (sv_id s), v)" for e v
    using assms(2) by (simp add: holds_role_def parse_uuid_def ret_def)
  moreover from assms(2) obtain role where "services_with_role (sv_id s) (ca_user_id caller) (w_db w) = [(s, role)]"
    "require_workspace_role role ''admin'' = Inr ()"
    by (auto simp: holds_role_def require_workspace_role_admin)
  ultimately show ?thesis
    using assms(3,4)
    by (simp add: authorize_service_def andthen_def of_sum_def ret_def db_conn_def query_def
        sql_service_for_def of_option_def)
qed


text \<open>
  When the statement that cleans the outbox fails, on a service that needs no deprovision
  event, the transaction is aborted and its commit is a rollback; the handler still reports
  success, leaves the service as it was, and has its artifact deleted from the store.
\<close>

theorem failed_cleanup_loses_delete:
  assumes caller: "scope_allowed caller ''admin''" "holds_role env (w_db w) caller i s"
    and idle: "\<not> needs_deprovision (sv_status s)" and key: "sv_artifact_key s = Some key"
    and fault: "e_fault env = (\<lambda>n. n = w_calls w + 4)"
  shows "fst (delete_service env caller i w) = Inr (sv_id s, sv_slug s) \<and>
    w_db (snd (delete_service env caller i w)) = w_db w \<and>
    w_log (snd (delete_service env caller i w)) = w_log w @ [S3Delete key]"
proof -
  have "authorize_service env caller ''admin'' i w = (Inr s, tick (tick w))"
    by (rule authorize_service_ok [OF caller]) (simp_all add: fault)
  then show ?thesis
    by (simp add: delete_service_def andthen_def transact_def delete_txn_def stmt_def try_stmt_def
        sql_delete_service_def fault idle key ret_def emit_def)
qed

definition deprovision_events :: "env \<Rightarrow> service_row \<Rightarrow> event list" where
  "deprovision_events env s =
     (if needs_deprovision (sv_status s) then
        (case engine_from_str (sv_engine s) of
           Inl _ \<Rightarrow> []
         | Inr eng \<Rightarrow> [deprovision_of env (sv_id s) (sv_slug s) eng])
      else [])"

lemma deprovision_events_about:
  "list_all (\<lambda>e. payload_service_id e = Some (e_uuid_str env (sv_id s))) (deprovision_events env s)"
  by (simp add: deprovision_events_def deprovision_of_def split: sum.split)

lemma delete_txn_run:
  assumes run: "delete_txn env (sv_id s) (sv_status s) (sv_slug s) (sv_engine s) w = (Inr (Commit y), w')"
    and ff: "fault_free env" and na: "\<not> w_aborted w"
  shows "\<exists>xs. t_services (w_db w') = update_where (live_service (sv_id s))
          (\<lambda>s. s\<lparr>sv_status := ''stopped'', sv_upstream := None, sv_deleted_at := Some (e_now env)\<rparr>)
          (t_services (w_db w)) \<and>
    t_outbox (w_db w') = delete_where (outbox_about env (sv_id s)) (t_outbox (w_db w)) @ xs \<and>
    map ob_payload xs = deprovision_events env s \<and> accounts (w_db w') = accounts (w_db w) \<and>
    w_log w' = w_log w \<and> \<not> w_aborted w'"
proof -
  define v where "v = (tick (tick w))\<lparr>w_db := (w_db w)\<lparr>
      t_services := update_where (live_service (sv_id s))
          (\<lambda>s. s\<lparr>sv_status := ''stopped'', sv_upstream := None, sv_deleted_at := Some (e_now env)\<rparr>)
          (t_services (w_db w)),
      t_outbox := delete_where (outbox_about env (sv_id s)) (t_outbox (w_db w))\<rparr>\<rparr>"
  have rest: "(if needs_deprovision (sv_status s) then
                (case engine_from_str (sv_engine s) of
                   Inl _ \<Rightarrow> ret ()
                 | Inr eng \<Rightarrow>
                     stmt env (\<lambda>_. internal ''failed to queue deprovision event'')
                       (sql_insert_outbox subject_deprovision (deprovision_of env (sv_id s) (sv_slug s) eng)))
              else ret ()) v = (Inr (), w')"
    using run ff na
    by (auto simp: delete_txn_def andthen_def stmt_def try_stmt_def fault_free_def ret_def
        sql_delete_service_def sql_clean_outbox_def tick_def v_def split: prod.splits sum.splits)
  define ob where "ob = (\<lambda>eng. \<lparr>ob_id = e_fresh env (w_calls v), ob_subject = subject_deprovision,
        ob_payload = deprovision_of env (sv_id s) (sv_slug s) eng, ob_created_at = e_now env\<rparr>)"
  consider "w' = v" "deprovision_events env s = []"
    | eng where "deprovision_events env s = [deprovision_of env (sv_id s) (sv_slug s) eng]"
      "w_db w' = (w_db v)\<lparr>t_outbox := t_outbox (w_db v) @ [ob eng]\<rparr>" "w_log w' = w_log v" "\<not> w_aborted w'"
    using rest
    by (auto simp: deprovision_events_def ret_Inr stmt_Inr sql_insert_outbox_def ob_def
        split: if_splits sum.splits)
  then show ?thesis
  proof cases
    case 1
    with na show ?thesis by (simp add: v_def accounts_def)
  next
    case (2 eng)
    then show ?thesis by (intro exI [of _ "[ob eng]"]) (simp add: v_def accounts_def, simp add: ob_def)
  qed
qed

lemma delete_txn_no_rollback: "delete_txn env sid st slug eng w \<noteq> (Inr (Rollback y), w')"
  by (auto simp: delete_txn_def run_simps)

text \<open>
  When no call fails, a delete that succeeds was asked for by an owner or administrator with
  the admin scope; it marks the service stopped and deleted, replaces the outbox's events about
  it by one deprovision event, none for a stopped or failed service, leaves the other events
  and the balances, and has the artifact deleted.
\<close>

theorem delete_effect:
  assumes run: "delete_service env caller i w = (Inr (sid, slug), w')" and ff: "fault_free env"
  shows "\<exists>s. may_change env (w_db w) caller ''admin'' i s \<and> sid = sv_id s \<and> slug = sv_slug s \<and>
    t_services (w_db w') = update_where (live_service sid)
      (\<lambda>r. r\<lparr>sv_status := ''stopped'', sv_upstream := None, sv_deleted_at := Some (e_now env)\<rparr>)
      (t_services (w_db w)) \<and>
    map ob_payload (filter (outbox_about env sid) (t_outbox (w_db w'))) = deprovision_events env s \<and>
    filter (\<lambda>r. \<not> outbox_about env sid r) (t_outbox (w_db w')) =
      filter (\<lambda>r. \<not> outbox_about env sid r) (t_outbox (w_db w)) \<and>
    accounts (w_db w') = accounts (w_db w) \<and>
    w_log w' = w_log w @ (case sv_artifact_key s of None \<Rightarrow> [] | Some key \<Rightarrow> [S3Delete key])"
proof -
  from run obtain s w1 w2 where a: "authorize_service env caller ''admin'' i w = (Inr s, w1)"
    and t: "transact env (internal ''failed to start transaction'')
                (internal ''failed to commit delete transaction'')
                (delete_txn env (sv_id s) (sv_status s) (sv_slug s) (sv_engine s)) w1 = (Inr (), w2)"
    and fin: "sid = sv_id s" "slug = sv_slug s" "w_db w' = w_db w2"
      "w_log w' = w_log w2 @ (case sv_artifact_key s of None \<Rightarrow> [] | Some key \<Rightarrow> [S3Delete key])"
    unfolding delete_service_def
    by (auto elim!: andthen_InrE simp: ret_Inr emit_Inr split: option.splits)
  note auth = authorize_service_run [OF a]
  have log: "w_log w1 = w_log w"
    using a by (auto simp: authorize_service_def run_simps)
  define v where "v = (tick w1)\<lparr>w_aborted := False\<rparr>"
  from t obtain v' where b: "delete_txn env (sv_id s) (sv_status s) (sv_slug s) (sv_engine s) v = (Inr (Commit ()), v')"
    and w2: "w2 = (if w_aborted v' then rollback_to (w_db w1) (tick v') else tick v')"
    unfolding transact_Inr_iff v_def [symmetric] using delete_txn_no_rollback by blast
  have v: "\<not> w_aborted v" "w_db v = w_db w" "w_log v = w_log w" by (simp_all add: v_def auth log)
  from delete_txn_run [OF b ff v(1)] obtain xs where
    sv: "t_services (w_db v') = update_where (live_service (sv_id s))
          (\<lambda>s. s\<lparr>sv_status := ''stopped'', sv_upstream := None, sv_deleted_at := Some (e_now env)\<rparr>)
          (t_services (w_db v))"
    and ob: "t_outbox (w_db v') = delete_where (outbox_about env (sv_id s)) (t_outbox (w_db v)) @ xs"
      "map ob_payload xs = deprovision_events env s"
    and acc: "accounts (w_db v') = accounts (w_db v)" "w_log v' = w_log v" "\<not> w_aborted v'" by blast
  have db: "w_db w' = w_db v'" "w_log w2 = w_log v'" using fin w2 acc(3) by simp_all
  have "list_all (\<lambda>e. payload_service_id e = Some (e_uuid_str env (sv_id s))) (map ob_payload xs)"
    unfolding ob(2) by (rule deprovision_events_about)
  then have "outbox_about env (sv_id s) x" if "x \<in> set xs" for x
    using that by (simp add: outbox_about_def list_all_iff)
  then have xs: "filter (outbox_about env (sv_id s)) xs = xs"
    "filter (\<lambda>r. \<not> outbox_about env (sv_id s) r) xs = []" by (simp_all add: filter_empty_conv)
  have about: "map ob_payload (filter (outbox_about env (sv_id s)) (t_outbox (w_db w'))) = deprovision_events env s"
    "filter (\<lambda>r. \<not> outbox_about env (sv_id s) r) (t_outbox (w_db w')) =
      filter (\<lambda>r. \<not> outbox_about env (sv_id s) r) (t_outbox (w_db w))"
    using ob by (simp_all add: db v delete_where_def xs)
  have "w_log w' = w_log w @ (case sv_artifact_key s of None \<Rightarrow> [] | Some key \<Rightarrow> [S3Delete key])"
    using fin(4) db acc v by simp
  moreover have "accounts (w_db w') = accounts (w_db w)" using db acc v by simp
  ultimately show ?thesis
    using auth fin(1,2) sv about v unfolding fin(1,2) db by (intro exI [of _ s] conjI) simp_all
qed

lemma restart_txn_run:
  assumes "restart_txn env sid ev w = (Inr (Commit y), w')"
  shows "t_services (w_db w') = update_where (\<lambda>s. sv_id s = sid)
          (\<lambda>s. s\<lparr>sv_status := ''provisioning'', sv_upstream := None\<rparr>) (t_services (w_db w)) \<and>
    (\<exists>ob. t_outbox (w_db w') = t_outbox (w_db w) @ [ob] \<and> ob_subject ob = subject_provision \<and>
       ob_payload ob = ev) \<and>
    accounts (w_db w') = accounts (w_db w) \<and> t_deployments (w_db w') = t_deployments (w_db w) \<and>
    \<not> w_aborted w'"
  using assms
  by (auto simp: restart_txn_def run_simps sql_start_again_def sql_insert_outbox_def accounts_def
      split: if_splits)

lemma restart_txn_no_rollback: "restart_txn env sid ev w \<noteq> (Inr (Rollback y), w')"
  by (auto simp: restart_txn_def run_simps)

text \<open>
  A restart succeeds only for an owner or administrator with the write scope, on a service
  that is stopped or failed; it marks it provisioning without an upstream and queues one
  provision event for it; no money moves, and no balance is asked for.
\<close>

theorem restart_effect:
  assumes run: "restart_service env caller i w = (Inr ds, w')"
  shows "\<exists>s. may_change env (w_db w) caller ''write'' i s \<and> sv_status s \<in> {''stopped'', ''failed''} \<and>
    t_services (w_db w') = update_where (\<lambda>r. sv_id r = sv_id s)
      (\<lambda>r. r\<lparr>sv_status := ''provisioning'', sv_upstream := None\<rparr>) (t_services (w_db w)) \<and>
    (\<exists>ob. t_outbox (w_db w') = t_outbox (w_db w) @ [ob] \<and> ob_subject ob = subject_provision \<and>
       payload_service_id (ob_payload ob) = Some (e_uuid_str env (sv_id s))) \<and>
    accounts (w_db w') = accounts (w_db w)"
proof -
  from run obtain s w1 w2 row eng w3 peers w4 where a: "authorize_service env caller ''write'' i w = (Inr s, w1)"
    and st: "\<not> (sv_status s \<noteq> ''stopped'' \<and> sv_status s \<noteq> ''failed'')"
    and q: "query env (\<lambda>_. internal ''service lookup failed'') (sql_restartable (sv_id s)) w1 = (Inr (Some row), w2)"
    and e: "parse_engine corrupt_engine (sv_engine row) w2 = (Inr eng, w3)"
    and p: "query_or_empty env (sql_peers (sv_project row) (sv_id row)) w3 = (Inr peers, w4)"
    and t: "transact env (internal ''failed to start transaction'')
                (internal ''failed to commit restart transaction'')
                (restart_txn env (sv_id row) (restart_event env row eng peers)) w4 = (Inr (), w')"
    unfolding restart_service_def
    by (auto elim!: andthen_InrE simp: ensure_Inr of_option_Inr ret_Inr)
  note auth = authorize_service_run [OF a]
  have look: "restartable sid x \<and> d' = d" if "sql_restartable sid t u d = Inr (Some x, d')" for sid t u d d' x
    using that by (auto simp: sql_restartable_def split: list.splits dest!: filter_singletonD)
  from q look have row: "sv_id row = sv_id s" "w_db w2 = w_db w1"
    by (auto simp: query_Inr restartable_def live_service_def)
  have w4: "w_db w4 = w_db w1"
    using reads_query_or_empty [of "sql_peers (sv_project row) (sv_id row)" env]
      reads_parse_engine [of corrupt_engine "sv_engine row"] e p row sql_reads_lookups
    by (metis reads_def snd_conv)
  from commit_run [OF t restart_txn_no_rollback] restart_txn_run obtain v v' where
    b: "restart_txn env (sv_id row) (restart_event env row eng peers) v = (Inr (Commit ()), v')"
    and w: "w_db v = w_db w4" "w_db w' = w_db v'" by metis
  from restart_txn_run [OF b] auth st show ?thesis
    by (intro exI [of _ s]) (auto simp: w w4 row restart_event_def)
qed

end
