(* ===== verification/Delivery.thy ===== *)
theory Delivery
  imports Outbox Samples
begin

text \<open>
  What the outbox poller (\<open>crates/api/src/outbox.rs\<close>) guarantees: no event is lost between
  the tables and the stream, a working poller empties the outbox, and what the purge of stale
  rows gives up.
\<close>

text \<open>
  C11: through any number of polls, whatever calls fail, an event that was waiting in the outbox
  is waiting still or has been sent: delivery is at least once.
\<close>

theorem outbox_polls_conserve:
  assumes "outbox_ids_ok (w_db w)"
  shows "message_of ` set (t_outbox (w_db w)) \<subseteq>
    message_of ` set (t_outbox (w_db (((\<lambda>v. snd (poll_once env n v)) ^^ k) w))) \<union>
    set (w_log (((\<lambda>v. snd (poll_once env n v)) ^^ k) w))"
  using assms by (rule poll.steps_conserve)

lemma publish_acked_ok:
  "fault_free env \<Longrightarrow> fst (publish_acked env r w) = Inr ()"
  by (simp add: publish_acked_def andthen_def external_def emit_def fault_free_def)

lemma publish_all_ok:
  "fault_free env \<Longrightarrow> fst (for_each (publish_acked env) rows w) = Inr ()"
proof (induction rows arbitrary: w)
  case (Cons r rows)
  then show ?case using publish_acked_ok [of env r w] 
    by (cases "publish_acked env r w") (simp add: andthen_def)
qed (simp add: ret_def)

lemma poll_once_progress:
  assumes ff: "fault_free env" and n: "0 < n" and ne: "t_outbox (w_db w) \<noteq> []"
  shows "w_db (snd (poll_once env n w)) \<noteq> w_db w"
proof -
  define rows where "rows = take (nat n) (oldest_first (w_db w))"
  have rows: "rows \<noteq> []" "set rows \<subseteq> set (t_outbox (w_db w))" 
  proof -
    have "oldest_first (w_db w) \<noteq> []"
      using ne oldest_first_set [of "w_db w"] by (metis set_empty)
    then show "rows \<noteq> []" using n by (simp add: rows_def)
    show "set rows \<subseteq> set (t_outbox (w_db w))"
      unfolding rows_def by (metis oldest_first_set set_take_subset)
  qed
  define v where "v = tick ((tick (tick w))\<lparr>w_aborted := False\<rparr>)"
  have v: "w_db v = w_db w" "\<not> w_aborted v" "v\<lparr>w_db := w_db w\<rparr> = v" by (simp_all add: v_def tick_def)
  obtain y v1 where f: "for_each (publish_acked env) rows v = (Inr y, v1)"
    using publish_all_ok [OF ff, of rows v] by (metis prod.collapse)
  with publish_all_effect [of env rows v] v have v1: "w_db v1 = w_db w" "\<not> w_aborted v1" by auto
  define d where "d = (w_db w)\<lparr>t_outbox := delete_where (\<lambda>r. ob_id r \<in> set (map ob_id rows)) (t_outbox (w_db w))\<rparr>"
  have b: "poll_txn env n ((tick (tick w))\<lparr>w_aborted := False\<rparr>) = (Inr (Commit ()), (tick v1)\<lparr>w_db := d\<rparr>)"
    using ff n v1 f rows(1) v(3)
    by (simp add: poll_txn_def andthen_def stmt_def try_stmt_def fault_free_def sql_outbox_batch_def
        rows_def [symmetric] v_def [symmetric] ret_def sql_delete_outbox_def d_def)
  have "w_db (snd (poll_once env n w)) = d"
    using ff v1 by (simp add: poll_once_def andthen_def external_def fault_free_def transact_def b)
  moreover have "d \<noteq> w_db w"
  proof
    assume "d = w_db w"
    then have "t_outbox d = t_outbox (w_db w)" by simp
    moreover from rows obtain r where "r \<in> set rows" "r \<in> set (t_outbox (w_db w))"
      by (metis list.set_intros(1) neq_Nil_conv subsetD)
    ultimately show False by (force simp: d_def delete_where_def filter_id_conv)
  qed
  ultimately show ?thesis by simp
qed


lemma poll_once_shrinks:
  assumes ff: "fault_free env" and n: "0 < n" and ne: "t_outbox (w_db w) \<noteq> []"
  shows "length (t_outbox (w_db (snd (poll_once env n w)))) < length (t_outbox (w_db w))"
proof -
  obtain r w' where p: "poll_once env n w = (r, w')" by fastforce
  from poll_once_progress [OF ff n ne] p have neq: "w_db w' \<noteq> w_db w" by simp
  with poll_once_cases [OF p] obtain q where
    db: "w_db w' = (w_db w)\<lparr>t_outbox := delete_where q (t_outbox (w_db w))\<rparr>" by blast
  have "delete_where q (t_outbox (w_db w)) \<noteq> t_outbox (w_db w)" using neq db by auto
  then have "\<exists>x \<in> set (t_outbox (w_db w)). q x"
    by (auto simp: delete_where_def filter_id_conv)
  then have "length (filter (\<lambda>x. \<not> q x) (t_outbox (w_db w))) < length (t_outbox (w_db w))"
    by (auto intro: length_filter_less)
  then show ?thesis by (simp add: p db delete_where_def)
qed

lemma polls_shrink:
  assumes "fault_free env" and "0 < n"
  shows "length (t_outbox (w_db (((\<lambda>v. snd (poll_once env n v)) ^^ k) w))) \<le> length (t_outbox (w_db w)) - k"
proof (induction k)
  case (Suc k)
  define v where "v = ((\<lambda>v. snd (poll_once env n v)) ^^ k) w"
  have "length (t_outbox (w_db (snd (poll_once env n v)))) \<le> length (t_outbox (w_db v)) - 1"
  proof (cases "t_outbox (w_db v) = []")
    case True
    obtain r w' where p: "poll_once env n v = (r, w')" by fastforce
    from poll_once_cases [OF p] True have "t_outbox (w_db w') = []" by (auto simp: delete_where_def)
    then show ?thesis by (simp add: p)
  next
    case False
    with poll_once_shrinks [OF assms, of v] show ?thesis by simp
  qed
  with Suc show ?case by (simp add: v_def)
qed simp

text \<open>
  C12: when no call fails and the batch size is positive, as many polls as there are rows empty
  the outbox, and every event that was waiting has been sent.
\<close>

theorem outbox_drains:
  assumes "fault_free env" and "0 < n" and ok: "outbox_ids_ok (w_db w)"
    and k: "length (t_outbox (w_db w)) \<le> k"
  shows "t_outbox (w_db (((\<lambda>v. snd (poll_once env n v)) ^^ k) w)) = [] \<and>
    message_of ` set (t_outbox (w_db w)) \<subseteq> set (w_log (((\<lambda>v. snd (poll_once env n v)) ^^ k) w))"
proof -
  have e: "t_outbox (w_db (((\<lambda>v. snd (poll_once env n v)) ^^ k) w)) = []"
    using polls_shrink [OF assms(1,2), of k w] k by simp
  have "message_of ` set (t_outbox (w_db w)) \<subseteq>
    message_of ` set (t_outbox (w_db (((\<lambda>v. snd (poll_once env n v)) ^^ k) w))) \<union>
    set (w_log (((\<lambda>v. snd (poll_once env n v)) ^^ k) w))"
    using ok by (rule poll.steps_conserve)
  with e show ?thesis by simp
qed

text \<open>
  The purge drops an event older than the limit without sending it, and leaves the service
  it is about in the status it has, so a service whose provision event is purged stays
  provisioning.
\<close>

theorem stale_events_lost:
  assumes ff: "fault_free env" and r: "r \<in> set (t_outbox (w_db w))"
    and old: "ob_created_at r < e_now env - 60 * mins"
  shows "r \<notin> set (t_outbox (w_db (snd (cleanup_stale env mins w)))) \<and>
    w_log (snd (cleanup_stale env mins w)) = w_log w \<and>
    t_services (w_db (snd (cleanup_stale env mins w))) = t_services (w_db w)"
  using ff old
  by (simp add: cleanup_stale_def andthen_def external_def fault_free_def query_def
      sql_delete_stale_def Let_def ret_def)

end
