(* ===== verification/Accounts.thy ===== *)
theory Accounts
  imports BillingApi Services
begin

text \<open>
  Users, workspaces and projects: the routes of \<open>crates/api/src/routes/users.rs\<close>,
  \<open>workspaces.rs\<close>, \<open>projects.rs\<close> and \<open>auth.rs\<close> (sign-in by the dashboard and by the CLI,
  invite codes, health).
\<close>

section \<open>Users\<close>

definition sql_get_user :: "uuid \<Rightarrow> user_row option sql" where
  "sql_get_user uid t u d =
     opt_row (filter (\<lambda>r. us_id r = uid \<and> us_deleted_at r = None) (t_users d)) d"

definition get_me :: "env \<Rightarrow> caller \<Rightarrow> (string \<times> string \<times> string) proc" where
  "get_me env caller =
     andthen (of_sum (require_scope caller ''read'')) (\<lambda>_.
     andthen (db_conn env) (\<lambda>_.
     andthen (query env (\<lambda>_. internal ''user lookup failed'')
                (sql_get_user (ca_user_id caller))) (\<lambda>found.
     andthen (of_option (not_found ''user not found'') found) (\<lambda>r.
     ret (e_uuid_str env (us_id r), us_email r, us_name r)))))"

section \<open>Workspaces\<close>

definition sql_list_workspaces :: "uuid \<Rightarrow> (workspace_row \<times> string) list sql" where
  "sql_list_workspaces uid t u d =
     Inr (take 50 (sort_key (ws_created_at \<circ> fst) (concat (map (\<lambda>w.
            map (\<lambda>m. (w, wm_role m))
              (filter (\<lambda>m. wm_workspace m = ws_id w \<and> wm_user m = uid) (t_members d)))
          (filter (\<lambda>w. ws_deleted_at w = None) (t_workspaces d))))), d)"

definition list_workspaces :: "env \<Rightarrow> caller \<Rightarrow> (workspace_row \<times> string) list proc" where
  "list_workspaces env caller =
     andthen (of_sum (require_scope caller ''read'')) (\<lambda>_.
     andthen (db_conn env) (\<lambda>_.
     query env (\<lambda>_. internal ''failed to list workspaces'')
       (sql_list_workspaces (ca_user_id caller))))"

text \<open>The caller's membership, joined on the left with the services that run.\<close>

definition owned_active :: "uuid \<Rightarrow> service_row \<Rightarrow> bool" where
  "owned_active wid s =
     (sv_workspace s = wid \<and> sv_deleted_at s = None \<and>
      sv_status s \<in> {''running'', ''provisioning''})"

definition sql_owned_services :: "uuid \<Rightarrow> uuid \<Rightarrow> (string \<times> service_row option) list sql" where
  "sql_owned_services wid uid t u d =
     Inr (concat (map (\<lambda>m.
            (case filter (owned_active wid) (t_services d) of
               [] \<Rightarrow> [(wm_role m, None)]
             | ss \<Rightarrow> map (\<lambda>s. (wm_role m, Some s)) ss))
          (filter (\<lambda>m. wm_workspace m = wid \<and> wm_user m = uid) (t_members d))), d)"

definition publish_deprovision :: "env \<Rightarrow> deprovision_event \<Rightarrow> unit proc" where
  "publish_deprovision env ev =
     andthen (external env (Anyhow ''publishing deprovision event'')) (\<lambda>_.
     andthen (emit (JetStream subject_deprovision (EvDeprovision ev))) (\<lambda>_.
     external env (Anyhow ''awaiting deprovision publish ack'')))"

definition deprovision_row :: "env \<Rightarrow> string \<times> service_row option \<Rightarrow> unit proc" where
  "deprovision_row env row =
     (case snd row of
        None \<Rightarrow> ret ()
      | Some s \<Rightarrow>
          (case engine_from_str (sv_engine s) of
             Inl _ \<Rightarrow> ret ()
           | Inr eng \<Rightarrow> log_errors (publish_deprovision env
               \<lparr>de_service_id = e_uuid_str env (sv_id s), de_slug = sv_slug s, de_engine = eng\<rparr>)))"

definition sql_close_services :: "uuid \<Rightarrow> unit sql" where
  "sql_close_services wid t u d =
     Inr ((), d\<lparr>t_services :=
        update_where (\<lambda>s. sv_workspace s = wid \<and> sv_deleted_at s = None)
          (\<lambda>s. s\<lparr>sv_status := ''stopped'', sv_upstream := None, sv_deleted_at := Some t\<rparr>)
          (t_services d)\<rparr>)"

definition sql_close_projects :: "uuid \<Rightarrow> unit sql" where
  "sql_close_projects wid t u d =
     Inr ((), d\<lparr>t_projects :=
        update_where (\<lambda>p. pr_workspace p = wid \<and> pr_deleted_at p = None)
          (\<lambda>p. p\<lparr>pr_deleted_at := Some t\<rparr>) (t_projects d)\<rparr>)"

definition sql_close_workspace :: "uuid \<Rightarrow> unit sql" where
  "sql_close_workspace wid t u d =
     Inr ((), d\<lparr>t_workspaces :=
        update_where (\<lambda>w. ws_id w = wid \<and> ws_deleted_at w = None)
          (\<lambda>w. w\<lparr>ws_deleted_at := Some t\<rparr>) (t_workspaces d)\<rparr>)"

definition close_txn :: "env \<Rightarrow> uuid \<Rightarrow> unit tx_end proc" where
  "close_txn env wid =
     andthen (stmt env (\<lambda>_. internal ''failed to delete services'') (sql_close_services wid)) (\<lambda>_.
     andthen (stmt env (\<lambda>_. internal ''failed to delete projects'') (sql_close_projects wid)) (\<lambda>_.
     andthen (stmt env (\<lambda>_. internal ''failed to delete workspace'') (sql_close_workspace wid)) (\<lambda>_.
     ret (Commit ()))))"

definition delete_workspace :: "env \<Rightarrow> caller \<Rightarrow> string \<Rightarrow> unit proc" where
  "delete_workspace env caller id_str =
     andthen (of_sum (require_scope caller ''admin'')) (\<lambda>_.
     andthen (parse_uuid env (bad_request ''invalid_workspace_id''
                ''workspace ID must be a valid UUID'') id_str) (\<lambda>wid.
     andthen (db_conn env) (\<lambda>_.
     andthen (query env (\<lambda>_. internal ''ownership check failed'')
                (sql_owned_services wid (ca_user_id caller))) (\<lambda>rows.
     andthen (ensure (rows \<noteq> []) (not_found ''workspace not found'')) (\<lambda>_.
     andthen (ensure (fst (hd rows) = ''owner'') (not_found ''workspace not found'')) (\<lambda>_.
     andthen (for_each (deprovision_row env) rows) (\<lambda>_.
     transact env (internal ''failed to start transaction'')
       (internal ''failed to commit workspace delete'') (close_txn env wid))))))))"

section \<open>Projects\<close>

definition sql_list_projects :: "uuid \<Rightarrow> uuid \<Rightarrow> project_row list sql" where
  "sql_list_projects wid uid t u d =
     Inr (take 200 (rev (sort_key pr_created_at (concat (map (\<lambda>p.
            map (\<lambda>m. p) (filter (\<lambda>m. wm_workspace m = pr_workspace p \<and> wm_user m = uid) (t_members d)))
          (filter (\<lambda>p. pr_workspace p = wid \<and> pr_deleted_at p = None) (t_projects d)))))), d)"

definition list_projects :: "env \<Rightarrow> caller \<Rightarrow> string \<Rightarrow> project_row list proc" where
  "list_projects env caller workspace_id =
     andthen (of_sum (require_scope caller ''read'')) (\<lambda>_.
     andthen (parse_uuid env (bad_request ''invalid_workspace_id''
                ''workspace_id must be a valid UUID'') workspace_id) (\<lambda>wid.
     andthen (db_conn env) (\<lambda>_.
     query env (\<lambda>_. internal ''failed to list projects'')
       (sql_list_projects wid (ca_user_id caller)))))"

definition sql_member_role :: "uuid \<Rightarrow> uuid \<Rightarrow> string option sql" where
  "sql_member_role wid uid t u d =
     opt_row (map wm_role (filter (\<lambda>m. wm_workspace m = wid \<and> wm_user m = uid) (t_members d))) d"

text \<open>A project's name and its slug are unique in its workspace (V1, V8).\<close>

definition sql_insert_project :: "uuid \<Rightarrow> uuid \<Rightarrow> string \<Rightarrow> string \<Rightarrow> unit sql" where
  "sql_insert_project pid wid name slug t u d =
     (if list_ex (\<lambda>p. pr_id p = pid \<or>
           pr_workspace p = wid \<and> (pr_name p = name \<or> pr_slug p = slug)) (t_projects d)
      then Inl UniqueViolation
      else if \<not> workspace_exists wid d then Inl ForeignKeyViolation
      else Inr ((), d\<lparr>t_projects := t_projects d @
             [\<lparr>pr_id = pid, pr_workspace = wid, pr_name = name, pr_slug = slug,
               pr_created_at = t, pr_deleted_at = None\<rparr>]\<rparr>))"

definition create_project ::
  "env \<Rightarrow> caller \<Rightarrow> string \<Rightarrow> string \<Rightarrow> string \<Rightarrow> (uuid \<times> uuid) proc" where
  "create_project env caller name slug workspace_id =
     andthen (of_sum (require_scope caller ''write'')) (\<lambda>_.
     andthen (ensure (name \<noteq> [] \<and> slug \<noteq> [] \<and> workspace_id \<noteq> [])
                (bad_request ''missing_fields'' ''name, slug, and workspace_id are required'')) (\<lambda>_.
     andthen (ensure (list_all (\<lambda>c. is_ascii_alphanumeric c \<or> c = CHR ''-'') slug)
                (bad_request ''invalid_slug''
                   ''slug must contain only lowercase alphanumeric characters and dashes'')) (\<lambda>_.
     andthen (parse_uuid env (bad_request ''invalid_workspace_id''
                ''workspace_id must be a valid UUID'') workspace_id) (\<lambda>wid.
     andthen (db_conn env) (\<lambda>_.
     andthen (query env (\<lambda>_. internal ''workspace membership check failed'')
                (sql_member_role wid (ca_user_id caller))) (\<lambda>found.
     andthen (of_option (forbidden ''not a member of this workspace'') found) (\<lambda>role.
     andthen (of_sum (require_workspace_role role ''admin'')) (\<lambda>_.
     andthen (fresh_id env) (\<lambda>project_id.
     andthen (query env (\<lambda>e. if e = UniqueViolation
                    then conflict ''a project with this slug already exists in this workspace''
                    else internal ''failed to create project'')
                (sql_insert_project project_id wid name slug)) (\<lambda>_.
     ret (project_id, wid)))))))))))"

section \<open>Sign-in\<close>

record provision_request =
  pq_email :: string
  pq_first_name :: string
  pq_last_name :: string
  pq_oidc_sub :: "string option"
  pq_invite_code :: "string option"

record provision_response =
  pn_id :: string
  pn_name :: string
  pn_slug :: string
  pn_workspace_id :: string
  pn_oidc_sub :: "string option"
  pn_api_key :: "string option"

definition live_email :: "string \<Rightarrow> user_row \<Rightarrow> bool" where
  "live_email email r = (us_email r = email \<and> us_deleted_at r = None)"

text \<open>\<open>users.oidc_sub\<close> is \<open>UNIQUE\<close> (V9).\<close>

definition sql_set_oidc_sub :: "string \<Rightarrow> string \<Rightarrow> unit sql" where
  "sql_set_oidc_sub sub email t u d =
     (if list_ex (live_email email) (t_users d) \<and>
         list_ex (\<lambda>r. us_oidc_sub r = Some sub \<and> \<not> live_email email r) (t_users d)
      then Inl UniqueViolation
      else Inr ((), d\<lparr>t_users := update_where (live_email email)
             (\<lambda>r. r\<lparr>us_oidc_sub := Some sub\<rparr>) (t_users d)\<rparr>))"

definition owned_workspaces :: "uuid \<Rightarrow> db \<Rightarrow> workspace_row option list" where
  "owned_workspaces uid d =
     (case filter (\<lambda>m. wm_user m = uid \<and> wm_role m = ''owner'') (t_members d) of
        [] \<Rightarrow> [None]
      | ms \<Rightarrow> concat (map (\<lambda>m.
          (case filter (\<lambda>w. ws_id w = wm_workspace m) (t_workspaces d) of
             [] \<Rightarrow> [None] | ws \<Rightarrow> map Some ws)) ms))"

definition sql_provision_lookup :: "string \<Rightarrow> (user_row \<times> workspace_row option) option sql" where
  "sql_provision_lookup email t u d =
     opt_row (concat (map (\<lambda>r. map (\<lambda>w. (r, w)) (owned_workspaces (us_id r) d))
       (filter (live_email email) (t_users d)))) d"

definition sql_invite_unused :: "string \<Rightarrow> string option sql" where
  "sql_invite_unused code t u d =
     opt_row (map ic_code (filter (\<lambda>c. ic_code c = code \<and> ic_used_by c = None) (t_invites d))) d"

definition sql_upsert_user :: "uuid \<Rightarrow> string \<Rightarrow> string \<Rightarrow> string option \<Rightarrow> uuid sql" where
  "sql_upsert_user proposed email name sub t u d =
     (if sub \<noteq> None \<and> list_ex (\<lambda>r. us_oidc_sub r = sub \<and> us_email r \<noteq> email) (t_users d)
      then Inl UniqueViolation
      else case filter (\<lambda>r. us_email r = email) (t_users d) of
        r # rs \<Rightarrow> Inr (us_id r, d\<lparr>t_users := update_where (\<lambda>r. us_email r = email)
             (\<lambda>r. r\<lparr>us_oidc_sub := (case sub of None \<Rightarrow> us_oidc_sub r | Some x \<Rightarrow> Some x),
                     us_name := name\<rparr>) (t_users d)\<rparr>)
      | [] \<Rightarrow>
          if list_ex (\<lambda>r. us_id r = proposed) (t_users d) then Inl UniqueViolation
          else Inr (proposed, d\<lparr>t_users := t_users d @
                 [\<lparr>us_id = proposed, us_email = email, us_name = name, us_oidc_sub = sub,
                   us_deleted_at = None\<rparr>]\<rparr>))"

definition sql_upsert_workspace ::
  "env \<Rightarrow> uuid \<Rightarrow> string \<Rightarrow> string \<Rightarrow> (uuid \<times> string) sql" where
  "sql_upsert_workspace env proposed name slug t u d =
     (case filter (\<lambda>w. ws_slug w = slug) (t_workspaces d) of
        w # ws \<Rightarrow> Inr ((ws_id w, ws_slug w), d)
      | [] \<Rightarrow>
          if list_ex (\<lambda>w. ws_id w = proposed) (t_workspaces d) then Inl UniqueViolation
          else Inr ((proposed, slug), d\<lparr>t_workspaces := t_workspaces d @
                 [\<lparr>ws_id = proposed, ws_name = name, ws_slug = slug, ws_balance = 0,
                   ws_free_used = 0, ws_free_reset_at = e_month_start env,
                   ws_stripe_customer = None, ws_last_invoice_at = None, ws_created_at = t,
                   ws_deleted_at = None\<rparr>]\<rparr>))"

definition sql_upsert_member :: "uuid \<Rightarrow> uuid \<Rightarrow> uuid sql" where
  "sql_upsert_member wid uid t u d =
     (if list_ex (\<lambda>m. wm_workspace m = wid \<and> wm_user m = uid) (t_members d) then Inr (wid, d)
      else if \<not> workspace_exists wid d \<or> \<not> list_ex (\<lambda>r. us_id r = uid) (t_users d)
      then Inl ForeignKeyViolation
      else Inr (wid, d\<lparr>t_members := t_members d @
             [\<lparr>wm_workspace = wid, wm_user = uid, wm_role = ''owner'', wm_created_at = t\<rparr>]\<rparr>))"

definition sql_use_invite :: "uuid \<Rightarrow> string \<Rightarrow> unit sql" where
  "sql_use_invite uid code t u d =
     (if list_ex (\<lambda>c. ic_code c = code) (t_invites d) \<and> \<not> list_ex (\<lambda>r. us_id r = uid) (t_users d)
      then Inl ForeignKeyViolation
      else Inr ((), d\<lparr>t_invites := update_where (\<lambda>c. ic_code c = code)
             (\<lambda>c. c\<lparr>ic_used_by := Some uid, ic_used_at := Some t\<rparr>) (t_invites d)\<rparr>))"

definition workspace_slug :: "env \<Rightarrow> string \<Rightarrow> string" where
  "workspace_slug env name = slugify (e_uni_lower env) (e_uni_alnum env) name @ ''-workspace''"

definition unhyphenated :: "env \<Rightarrow> uuid \<Rightarrow> string" where
  "unhyphenated env u = filter (\<lambda>c. c \<noteq> CHR ''-'') (e_uuid_str env u)"

definition full_name_of :: "env \<Rightarrow> provision_request \<Rightarrow> string" where
  "full_name_of env rq =
     (let full = e_trim env (pq_first_name rq @ '' '' @ pq_last_name rq)
      in if full = [] then pq_email rq else full)"

definition check_invite :: "env \<Rightarrow> string option \<Rightarrow> unit proc" where
  "check_invite env invite_code =
     (if require_invite (e_features env) then
        (case invite_code of
           Some code \<Rightarrow>
             andthen (query env (\<lambda>_. internal ''invite code lookup failed'')
                        (sql_invite_unused code)) (\<lambda>valid.
             ensure (valid \<noteq> None) (forbidden ''invalid or already-used invite code''))
         | None \<Rightarrow> throw (forbidden ''invite code required for new accounts''))
      else ret ())"

definition signup_txn ::
  "env \<Rightarrow> uuid \<Rightarrow> provision_request \<Rightarrow> string option \<Rightarrow> (uuid \<times> uuid \<times> string) tx_end proc" where
  "signup_txn env proposed rq invite_code =
     andthen (stmt env (\<lambda>_. internal ''failed to create user'')
                (sql_upsert_user proposed (pq_email rq) (full_name_of env rq) (pq_oidc_sub rq))) (\<lambda>user_id.
     andthen (fresh_id env) (\<lambda>workspace_id.
     andthen (stmt env (\<lambda>_. internal ''failed to create workspace'')
                (sql_upsert_workspace env workspace_id ''My Workspace''
                   (workspace_slug env (full_name_of env rq) @ ''-'' @ unhyphenated env user_id))) (\<lambda>(wid, slug).
     andthen (stmt env (\<lambda>_. internal ''failed to create workspace membership'')
                (sql_upsert_member wid user_id)) (\<lambda>_.
     andthen (case invite_code of
                None \<Rightarrow> ret ()
              | Some code \<Rightarrow> stmt env (\<lambda>_. internal ''failed to consume invite code'')
                               (sql_use_invite user_id code)) (\<lambda>_.
     ret (Commit (user_id, wid, slug)))))))"

definition do_provision ::
  "env \<Rightarrow> provision_request \<Rightarrow> string option \<Rightarrow> provision_response proc" where
  "do_provision env rq invite_code =
     andthen (case pq_oidc_sub rq of
                None \<Rightarrow> ret ()
              | Some sub \<Rightarrow> query env (\<lambda>_. internal ''failed to update OIDC subject'')
                              (sql_set_oidc_sub sub (pq_email rq))) (\<lambda>_.
     andthen (query env (\<lambda>_. internal ''user lookup failed'')
                (sql_provision_lookup (pq_email rq))) (\<lambda>existing.
     case existing of
       Some (r, w) \<Rightarrow>
         ret \<lparr>pn_id = e_uuid_str env (us_id r), pn_name = us_name r,
              pn_slug = (case w of None \<Rightarrow> [] | Some x \<Rightarrow> ws_slug x),
              pn_workspace_id = (case w of None \<Rightarrow> [] | Some x \<Rightarrow> e_uuid_str env (ws_id x)),
              pn_oidc_sub = us_oidc_sub r, pn_api_key = None\<rparr>
     | None \<Rightarrow>
         andthen (check_invite env invite_code) (\<lambda>_.
         andthen (fresh_id env) (\<lambda>proposed.
         andthen (transact env (internal ''failed to start transaction'')
                    (internal ''failed to commit user creation'')
                    (signup_txn env proposed rq invite_code)) (\<lambda>(user_id, wid, slug).
         ret \<lparr>pn_id = e_uuid_str env user_id, pn_name = full_name_of env rq, pn_slug = slug,
              pn_workspace_id = e_uuid_str env wid, pn_oidc_sub = pq_oidc_sub rq,
              pn_api_key = None\<rparr>)))))"

definition provision_user ::
  "env \<Rightarrow> (string \<rightharpoonup> string) \<Rightarrow> provision_request \<Rightarrow> provision_response proc" where
  "provision_user env headers rq =
     andthen (of_sum (verify_internal_secret env headers (e_internal_secrets env))) (\<lambda>_.
     andthen (ensure (pq_email rq \<noteq> []) (bad_request ''missing_email'' ''email is required'')) (\<lambda>_.
     andthen (db_conn env) (\<lambda>_.
     do_provision env rq None)))"

text \<open>The CLI's sign-in also makes an API key with the admin scope.\<close>

definition cli_provision :: "env \<Rightarrow> provision_request \<Rightarrow> provision_response proc" where
  "cli_provision env rq =
     andthen (ensure (pq_email rq \<noteq> []) (bad_request ''missing_email'' ''email is required'')) (\<lambda>_.
     andthen (db_conn env) (\<lambda>_.
     andthen (do_provision env rq (pq_invite_code rq)) (\<lambda>resp.
     andthen (generate_token env) (\<lambda>token.
     andthen (ensure (12 \<le> length token) (Panicked ''slice index'')) (\<lambda>_.
     andthen (parse_uuid env (internal ''invalid user id'') (pn_id resp)) (\<lambda>user_id.
     andthen (query env (\<lambda>_. internal ''failed to create API key'')
                (sql_insert_api_key user_id ''cli-login'' (hash_token env token)
                   (take 12 token @ ''...'') [''admin''] None)) (\<lambda>_.
     ret (resp\<lparr>pn_api_key := Some token\<rparr>))))))))"

section \<open>Invite codes\<close>

definition generate_invite_code :: "env \<Rightarrow> string proc" where
  "generate_invite_code env =
     andthen (fresh_id env) (\<lambda>u.
     andthen (ensure (8 \<le> length (unhyphenated env u)) (Panicked ''slice index'')) (\<lambda>_.
     let upper = to_uppercase (e_uni_upper env) (take 8 (unhyphenated env u))
     in andthen (ensure (8 \<le> length upper) (Panicked ''slice index'')) (\<lambda>_.
        ret (take 4 upper @ ''-'' @ take 4 (drop 4 upper)))))"

definition sql_insert_invite :: "string \<Rightarrow> unit sql" where
  "sql_insert_invite code t u d =
     (if list_ex (\<lambda>c. ic_code c = code) (t_invites d) then Inl UniqueViolation
      else Inr ((), d\<lparr>t_invites := t_invites d @
             [\<lparr>ic_code = code, ic_used_by = None, ic_used_at = None, ic_created_at = t\<rparr>]\<rparr>))"

fun insert_invites :: "env \<Rightarrow> nat \<Rightarrow> string list proc" where
  "insert_invites env 0 = ret []"
| "insert_invites env (Suc n) =
     andthen (generate_invite_code env) (\<lambda>code.
     andthen (query env (\<lambda>_. internal ''failed to create invite code'') (sql_insert_invite code)) (\<lambda>_.
     andthen (insert_invites env n) (\<lambda>codes.
     ret (code # codes))))"

definition create_invites :: "env \<Rightarrow> (string \<rightharpoonup> string) \<Rightarrow> int option \<Rightarrow> string list proc" where
  "create_invites env headers count =
     andthen (of_sum (verify_internal_secret env headers (e_internal_secrets env))) (\<lambda>_.
     let n = nat (min (max (case count of None \<Rightarrow> 1 | Some c \<Rightarrow> c) 1) 50)
     in andthen (db_conn env) (\<lambda>_. insert_invites env n))"

section \<open>Health\<close>

definition sql_select_one :: "int sql" where
  "sql_select_one t u d = Inr (1, d)"

definition succeeds :: "'a proc \<Rightarrow> bool proc" where
  "succeeds m w = (case m w of (Inl e, w') \<Rightarrow> (Inr False, w') | (Inr x, w') \<Rightarrow> (Inr True, w'))"

definition health :: "env \<Rightarrow> (nat \<times> string \<times> string \<times> string) proc" where
  "health env =
     andthen (succeeds (andthen (external env (Anyhow ''pool'')) (\<lambda>_.
                query env (\<lambda>_. Anyhow ''select'') sql_select_one))) (\<lambda>db_ok.
     andthen (succeeds (external env (Anyhow ''flush''))) (\<lambda>nats_ok.
     ret (if db_ok \<and> nats_ok then 200 else 503,
          if db_ok \<and> nats_ok then ''ok'' else ''degraded'',
          if db_ok then ''ok'' else ''error'',
          if nats_ok then ''ok'' else ''error'')))"

section \<open>Configuration of the device flow\<close>

record oidc_config =
  oc_client_id :: string
  oc_device_auth_url :: string
  oc_token_url :: string
  oc_userinfo_url :: string
  oc_revoke_url :: "string option"

definition cli_config :: "oidc_config \<Rightarrow> json" where
  "cli_config c =
     JObj ([(''client_id'', JStr (oc_client_id c)), (''device_auth_url'', JStr (oc_device_auth_url c)),
            (''token_url'', JStr (oc_token_url c)), (''userinfo_url'', JStr (oc_userinfo_url c))] @
           (case oc_revoke_url c of None \<Rightarrow> [] | Some url \<Rightarrow> [(''revoke_url'', JStr url)]))"

end
