(* ===== verification/Domains.thy ===== *)
theory Domains
  imports Services
begin

text \<open>
  Custom domains: the routes of \<open>crates/api/src/routes/domains.rs\<close>, the challenge
  responder of \<open>acme.rs\<close> and the certificate manager of
  \<open>crates/api/src/cert_manager.rs\<close>. DNS answers are parameters of the environment; an
  ACME account is the record \<open>acme\<close> of what the server answers in one attempt.
\<close>

section \<open>Listing and adding\<close>

definition invalid_service_id :: err where
  "invalid_service_id = bad_request ''invalid_service_id'' ''service ID must be a valid UUID''"

definition sql_list_domains :: "uuid \<Rightarrow> domain_row list sql" where
  "sql_list_domains sid t u d =
     Inr (sort_key dm_created_at (filter (\<lambda>m. dm_service m = Some sid) (t_domains d)), d)"

definition list_domains :: "env \<Rightarrow> caller \<Rightarrow> string \<Rightarrow> domain_row list proc" where
  "list_domains env caller id_str =
     andthen (of_sum (require_scope caller ''read'')) (\<lambda>_.
     andthen (parse_uuid env invalid_service_id id_str) (\<lambda>service_id.
     andthen (db_conn env) (\<lambda>_.
     andthen (query env (\<lambda>_. internal ''service lookup failed'')
                (sql_service_for service_id (ca_user_id caller))) (\<lambda>found.
     andthen (of_option (not_found ''service not found'') found) (\<lambda>_.
     query env (\<lambda>_. internal ''domains query failed'') (sql_list_domains service_id))))))"

definition new_domain :: "env \<Rightarrow> uuid \<Rightarrow> uuid \<Rightarrow> uuid \<Rightarrow> string \<Rightarrow> int \<Rightarrow> uuid \<Rightarrow> domain_row" where
  "new_domain env did pid sid name t u =
     \<lparr>dm_id = did, dm_project = pid, dm_service = Some sid, dm_domain = name,
      dm_is_verified = False, dm_verification_type = ''cname'',
      dm_verification_token = e_default_token env u, dm_tls_status = ''pending'',
      dm_created_at = t, dm_deleted_at = None\<rparr>"

definition sql_insert_domain :: "env \<Rightarrow> uuid \<Rightarrow> uuid \<Rightarrow> uuid \<Rightarrow> string \<Rightarrow> domain_row sql" where
  "sql_insert_domain env did pid sid name t u d =
     (if list_ex (\<lambda>m. dm_id m = did \<or> dm_domain m = name) (t_domains d) then Inl UniqueViolation
      else if \<not> list_ex (\<lambda>p. pr_id p = pid) (t_projects d) \<or> \<not> service_exists sid d
      then Inl ForeignKeyViolation
      else Inr (new_domain env did pid sid name t u,
                d\<lparr>t_domains := t_domains d @ [new_domain env did pid sid name t u]\<rparr>))"

definition add_domain :: "env \<Rightarrow> caller \<Rightarrow> string \<Rightarrow> string \<Rightarrow> domain_row proc" where
  "add_domain env caller id_str body_domain =
     andthen (of_sum (require_scope caller ''write'')) (\<lambda>_.
     andthen (parse_uuid env invalid_service_id id_str) (\<lambda>service_id.
     andthen (db_conn env) (\<lambda>_.
     andthen (query env (\<lambda>_. internal ''service lookup failed'')
                (sql_service_for service_id (ca_user_id caller))) (\<lambda>found.
     andthen (of_option (not_found ''service not found'') found) (\<lambda>(s, role).
     andthen (of_sum (require_workspace_role role ''admin'')) (\<lambda>_.
     let domain = e_trim env (to_lowercase (e_uni_lower env) body_domain)
     in andthen (ensure (domain \<noteq> [] \<and> CHR ''.'' \<in> set domain)
                   (bad_request ''invalid_domain'' ''provide a valid domain like example.com'')) (\<lambda>_.
        andthen (fresh_id env) (\<lambda>domain_id.
        query env (\<lambda>e. if contains_str ''unique'' (e_show_sql env e) \<or>
                            contains_str ''duplicate'' (e_show_sql env e)
                         then conflict ''domain already exists'' else internal ''failed to add domain'')
          (sql_insert_domain env domain_id (sv_project s) service_id domain)))))))))"

section \<open>Verification\<close>

definition sql_domain_for :: "uuid \<Rightarrow> string \<Rightarrow> uuid \<Rightarrow> (domain_row \<times> string \<times> string) option sql" where
  "sql_domain_for sid name uid t u d =
     opt_row (concat (map (\<lambda>m. concat (map (\<lambda>s. map (\<lambda>wm. (m, sv_slug s, wm_role wm))
         (filter (\<lambda>wm. wm_workspace wm = sv_workspace s \<and> wm_user wm = uid) (t_members d)))
       (filter (\<lambda>s. dm_service m = Some (sv_id s) \<and> sv_deleted_at s = None) (t_services d))))
     (filter (\<lambda>m. dm_service m = Some sid \<and> dm_domain m = name) (t_domains d)))) d"

definition verify_domain_dns :: "env \<Rightarrow> string \<Rightarrow> string \<Rightarrow> string \<Rightarrow> bool" where
  "verify_domain_dns env domain slug token =
     (let expected_cname =
            slug @ ''.'' @ env_or (e_vars env) ''PLATFORM_DOMAIN'' ''liquidmetal.dev'' @ ''.''
      in e_resolver env \<and>
         ((case e_cname env domain of
             Some targets \<Rightarrow> list_ex (\<lambda>target. trim_end_char (CHR ''.'') target =
                               trim_end_char (CHR ''.'') expected_cname) targets
           | None \<Rightarrow> False) \<or>
          (case e_txt env (''_lm-verify.'' @ domain) of
             Some records \<Rightarrow> list_ex (\<lambda>txt. e_trim env txt = token) records
           | None \<Rightarrow> False)))"

definition sql_set_verified :: "uuid \<Rightarrow> unit sql" where
  "sql_set_verified did t u d =
     Inr ((), d\<lparr>t_domains := update_where (\<lambda>m. dm_id m = did)
        (\<lambda>m. m\<lparr>dm_is_verified := True\<rparr>) (t_domains d)\<rparr>)"

definition verify_domain :: "env \<Rightarrow> caller \<Rightarrow> string \<Rightarrow> string \<Rightarrow> (string \<times> bool) proc" where
  "verify_domain env caller id_str domain_name =
     andthen (of_sum (require_scope caller ''write'')) (\<lambda>_.
     andthen (parse_uuid env invalid_service_id id_str) (\<lambda>service_id.
     andthen (db_conn env) (\<lambda>_.
     andthen (query env (\<lambda>_. internal ''domain lookup failed'')
                (sql_domain_for service_id domain_name (ca_user_id caller))) (\<lambda>found.
     andthen (of_option (not_found ''domain not found'') found) (\<lambda>(m, slug, role).
     andthen (of_sum (require_workspace_role role ''admin'')) (\<lambda>_.
     let verified = verify_domain_dns env (dm_domain m) slug (dm_verification_token m)
     in andthen (if verified
                 then query env (\<lambda>_. internal ''failed to update domain verification'')
                        (sql_set_verified (dm_id m))
                 else ret ()) (\<lambda>_.
        ret (dm_domain m, verified))))))))"

section \<open>Removal\<close>

definition sql_delete_domain :: "uuid \<Rightarrow> string \<Rightarrow> nat sql" where
  "sql_delete_domain sid name t u d =
     (let p = (\<lambda>m. dm_service m = Some sid \<and> dm_domain m = name);
          gone = map dm_id (filter p (t_domains d))
      in Inr (length (filter p (t_domains d)),
              d\<lparr>t_domains := delete_where p (t_domains d),
                t_certs := delete_where (\<lambda>c. dc_domain_id c \<in> set gone) (t_certs d)\<rparr>))"

definition remove_domain :: "env \<Rightarrow> caller \<Rightarrow> string \<Rightarrow> string \<Rightarrow> unit proc" where
  "remove_domain env caller id_str domain_name =
     andthen (of_sum (require_scope caller ''admin'')) (\<lambda>_.
     andthen (parse_uuid env invalid_service_id id_str) (\<lambda>service_id.
     andthen (db_conn env) (\<lambda>_.
     andthen (query env (\<lambda>_. internal ''service lookup failed'')
                (sql_service_for service_id (ca_user_id caller))) (\<lambda>found.
     andthen (of_option (not_found ''service not found'') found) (\<lambda>(s, role).
     andthen (of_sum (require_workspace_role role ''admin'')) (\<lambda>_.
     andthen (query env (\<lambda>_. internal ''domain delete failed'')
                (sql_delete_domain service_id domain_name)) (\<lambda>count.
     ensure (count \<noteq> 0) (not_found ''domain not found''))))))))"

section \<open>ACME challenges\<close>

definition sql_challenge :: "string \<Rightarrow> string option sql" where
  "sql_challenge token t u d =
     opt_row (map ac_key_authorization
       (filter (\<lambda>a. ac_token a = token \<and> t - 600 < ac_created_at a) (t_acme d))) d"

definition acme_challenge :: "env \<Rightarrow> string \<Rightarrow> string proc" where
  "acme_challenge env token =
     andthen (ensure (\<not> (token = [] \<or> 128 < length token)) (not_found ''token not found'')) (\<lambda>_.
     andthen (db_conn env) (\<lambda>_.
     andthen (query env (\<lambda>_. internal ''db error'') (sql_challenge token)) (\<lambda>found.
     of_option (not_found ''token not found'') found)))"

datatype order_status = OrderReady | OrderValid | OrderInvalid | OrderPending

text \<open>
  What the ACME server and the key tools answer in one attempt: the HTTP-01 challenge as its
  token and key authorization, the status at each poll, the certificate at each download
  attempt, and the seconds each of these takes beyond the sleep before or after it.
\<close>

record acme =
  am_order :: bool
  am_authorizations :: bool
  am_challenge :: "(string \<times> string) option"
  am_ready :: bool
  am_status :: "nat \<Rightarrow> order_status option"
  am_poll_delay :: "nat \<Rightarrow> nat"
  am_csr :: bool
  am_finalize :: bool
  am_certificate :: "nat \<Rightarrow> string option option"
  am_download_delay :: "nat \<Rightarrow> nat"
  am_key_pem :: string

datatype poll_end = Validated | PollError | BecameInvalid | PollTimeout

function poll_order :: "acme \<Rightarrow> nat \<Rightarrow> nat \<Rightarrow> poll_end" where
  "poll_order am k elapsed =
     (let elapsed' = elapsed + 5 + am_poll_delay am k
      in case am_status am k of
           None \<Rightarrow> PollError
         | Some OrderReady \<Rightarrow> Validated
         | Some OrderValid \<Rightarrow> Validated
         | Some OrderInvalid \<Rightarrow> BecameInvalid
         | Some OrderPending \<Rightarrow>
             if 90 \<le> elapsed' then PollTimeout else poll_order am (Suc k) elapsed')"
  by pat_completeness auto
termination
  by (relation "measure (\<lambda>(am, k, elapsed). 90 - elapsed)") auto

function download_cert :: "acme \<Rightarrow> nat \<Rightarrow> nat \<Rightarrow> string option" where
  "download_cert am k elapsed =
     (case am_certificate am k of
        None \<Rightarrow> None
      | Some (Some cert) \<Rightarrow> Some cert
      | Some None \<Rightarrow>
          if 30 \<le> elapsed then None
          else download_cert am (Suc k) (elapsed + 3 + am_download_delay am k))"
  by pat_completeness auto
termination
  by (relation "measure (\<lambda>(am, k, elapsed). 30 - elapsed)") auto

declare poll_order.simps [simp del] download_cert.simps [simp del]

section \<open>The certificate manager\<close>

definition kv_put :: "env \<Rightarrow> string \<Rightarrow> env_map \<Rightarrow> unit proc" where
  "kv_put env path data =
     (case e_vault_write env path of
        None \<Rightarrow> throw (Anyhow (''vault kv put '' @ path))
      | Some status \<Rightarrow>
          if 200 \<le> status \<and> status < 300 then emit (VaultPut path data)
          else throw (Anyhow (''vault kv put '' @ path @ '' failed'')))"

definition cert_path :: "string \<Rightarrow> string" where
  "cert_path domain = ''platform/certs/'' @ domain"

definition store_cert :: "env \<Rightarrow> string \<Rightarrow> string \<Rightarrow> string \<Rightarrow> unit proc" where
  "store_cert env domain cert_pem key_pem =
     kv_put env (cert_path domain) [''cert_pem'' \<mapsto> cert_pem, ''key_pem'' \<mapsto> key_pem]"

definition needs_cert :: "int \<Rightarrow> db \<Rightarrow> domain_row \<Rightarrow> bool" where
  "needs_cert t d m =
     (dm_is_verified m \<and> dm_deleted_at m = None \<and> dm_tls_status m \<noteq> ''provisioning'' \<and>
      (case filter (\<lambda>c. dc_domain_id c = dm_id m) (t_certs d) of
         [] \<Rightarrow> True | c # cs \<Rightarrow> dc_expires_at c < t + 30 * 86400))"

definition sql_certs_due :: "domain_row list sql" where
  "sql_certs_due t u d =
     Inr (take 5 (sort_key dm_created_at (filter (needs_cert t d) (t_domains d))), d)"

definition sql_set_tls_status :: "string \<Rightarrow> uuid \<Rightarrow> unit sql" where
  "sql_set_tls_status status did t u d =
     Inr ((), d\<lparr>t_domains := update_where (\<lambda>m. dm_id m = did)
        (\<lambda>m. m\<lparr>dm_tls_status := status\<rparr>) (t_domains d)\<rparr>)"

definition sql_put_challenge :: "string \<Rightarrow> string \<Rightarrow> string \<Rightarrow> unit sql" where
  "sql_put_challenge token key_auth domain t u d =
     (if list_ex (\<lambda>a. ac_token a = token) (t_acme d)
      then Inr ((), d\<lparr>t_acme := update_where (\<lambda>a. ac_token a = token)
             (\<lambda>a. a\<lparr>ac_key_authorization := key_auth\<rparr>) (t_acme d)\<rparr>)
      else Inr ((), d\<lparr>t_acme := t_acme d @
             [\<lparr>ac_token = token, ac_key_authorization = key_auth, ac_domain = domain,
               ac_created_at = t\<rparr>]\<rparr>))"

definition sql_drop_challenge :: "string \<Rightarrow> unit sql" where
  "sql_drop_challenge token t u d =
     Inr ((), d\<lparr>t_acme := delete_where (\<lambda>a. ac_token a = token) (t_acme d)\<rparr>)"

definition sql_upsert_cert :: "uuid \<Rightarrow> unit sql" where
  "sql_upsert_cert did t u d =
     (if \<not> list_ex (\<lambda>m. dm_id m = did) (t_domains d) then Inl ForeignKeyViolation
      else if list_ex (\<lambda>c. dc_domain_id c = did) (t_certs d)
      then Inr ((), d\<lparr>t_certs := update_where (\<lambda>c. dc_domain_id c = did)
             (\<lambda>c. c\<lparr>dc_expires_at := t + 89 * 86400\<rparr>) (t_certs d)\<rparr>)
      else Inr ((), d\<lparr>t_certs := t_certs d @ [\<lparr>dc_domain_id = did, dc_expires_at = t + 89 * 86400\<rparr>]\<rparr>))"

definition sql_gc_challenges :: "unit sql" where
  "sql_gc_challenges t u d =
     Inr ((), d\<lparr>t_acme := delete_where (\<lambda>a. ac_created_at a < t - 600) (t_acme d)\<rparr>)"

text \<open>\<open>.ok()\<close>: an error is dropped; a panic is not an error.\<close>

definition cleanup_challenge :: "env \<Rightarrow> string \<Rightarrow> unit proc" where
  "cleanup_challenge env token =
     log_errors (andthen (external env (Anyhow ''db pool'')) (\<lambda>_.
       query env (\<lambda>_. Anyhow ''cleanup'') (sql_drop_challenge token)))"

definition subject_cert_provisioned :: string where
  "subject_cert_provisioned = ''platform.cert_provisioned''"

definition publish_core :: "env \<Rightarrow> string \<Rightarrow> event \<Rightarrow> unit proc" where
  "publish_core env subject ev =
     log_errors (andthen (external env (Anyhow ''publish'')) (\<lambda>_. emit (NatsCore subject ev)))"

definition await_validation :: "env \<Rightarrow> acme \<Rightarrow> string \<Rightarrow> string \<Rightarrow> unit proc" where
  "await_validation env am domain token =
     (case poll_order am 0 0 of
        Validated \<Rightarrow> cleanup_challenge env token
      | PollError \<Rightarrow> throw (Anyhow ''polling order status'')
      | BecameInvalid \<Rightarrow> andthen (cleanup_challenge env token) (\<lambda>_.
          throw (Anyhow (''ACME order for '' @ domain @ '' became invalid'')))
      | PollTimeout \<Rightarrow> andthen (cleanup_challenge env token) (\<lambda>_.
          throw (Anyhow (''ACME validation for '' @ domain @ '' timed out after 90s''))))"

definition provision_cert :: "env \<Rightarrow> acme \<Rightarrow> uuid \<Rightarrow> string \<Rightarrow> unit proc" where
  "provision_cert env am domain_id domain =
     andthen (external env (Anyhow ''db pool'')) (\<lambda>_.
     andthen (query env (\<lambda>_. Anyhow ''marking domain as provisioning'')
                (sql_set_tls_status ''provisioning'' domain_id)) (\<lambda>_.
     andthen (ensure (am_order am) (Anyhow ''creating ACME order'')) (\<lambda>_.
     andthen (ensure (am_authorizations am) (Anyhow ''fetching ACME authorizations'')) (\<lambda>_.
     andthen (of_option (Anyhow ''no HTTP-01 challenge offered'') (am_challenge am)) (\<lambda>(token, key_auth).
     andthen (query env (\<lambda>_. Anyhow ''writing ACME challenge to DB'')
                (sql_put_challenge token key_auth domain)) (\<lambda>_.
     andthen (ensure (am_ready am) (Anyhow ''setting challenge ready'')) (\<lambda>_.
     andthen (await_validation env am domain token) (\<lambda>_.
     andthen (ensure (am_csr am) (Anyhow ''building certificate request'')) (\<lambda>_.
     andthen (ensure (am_finalize am) (Anyhow ''finalizing ACME order'')) (\<lambda>_.
     andthen (of_option (Anyhow ''certificate not available'') (download_cert am 0 0)) (\<lambda>cert.
     andthen (store_cert env domain cert (am_key_pem am)) (\<lambda>_.
     andthen (query env (\<lambda>_. Anyhow ''upserting domain_cert'') (sql_upsert_cert domain_id)) (\<lambda>_.
     andthen (query env (\<lambda>_. Anyhow ''setting tls_status=active'')
                (sql_set_tls_status ''active'' domain_id)) (\<lambda>_.
     publish_core env subject_cert_provisioned
       (EvCertProvisioned \<lparr>cp_domain = domain\<rparr>)))))))))))))))"

text \<open>One domain of a round; \<open>acct\<close> is the ACME server's behaviour for a domain.\<close>

definition provision_or_mark :: "env \<Rightarrow> (string \<Rightarrow> acme) \<Rightarrow> domain_row \<Rightarrow> unit proc" where
  "provision_or_mark env acct m w =
     (case provision_cert env (acct (dm_domain m)) (dm_id m) (dm_domain m) w of
        (Inl (Panicked s), w') \<Rightarrow> (Inl (Panicked s), w')
      | (Inl e, w') \<Rightarrow>
          andthen (external env (Anyhow ''db pool'')) (\<lambda>_.
          log_errors (query env (\<lambda>_. Anyhow ''mark'') (sql_set_tls_status ''error'' (dm_id m)))) w'
      | (Inr x, w') \<Rightarrow> (Inr x, w'))"

definition cert_round :: "env \<Rightarrow> (string \<Rightarrow> acme) \<Rightarrow> unit proc" where
  "cert_round env acct =
     andthen (external env (Anyhow ''db pool'')) (\<lambda>_.
     andthen (query env (\<lambda>_. Anyhow ''querying domains for cert provisioning'') sql_certs_due) (\<lambda>rows.
     andthen (for_each (provision_or_mark env acct) rows) (\<lambda>_.
     log_errors (query env (\<lambda>_. Anyhow ''gc'') sql_gc_challenges))))"

end
