(* ===== verification/EnvVars.thy ===== *)
theory EnvVars
  imports Domains
begin

text \<open>
  Environment variables of services and projects (\<open>crates/api/src/routes/env.rs\<close>,
  \<open>project_env.rs\<close>), the Vault writes under them (\<open>envelope.rs\<close>,
  \<open>crates/common/src/vault.rs\<close>) and the log route (\<open>routes/logs.rs\<close>). Vault's contents
  are what it held at the start (\<open>e_vault\<close>) with the writes of the log applied.
\<close>

section \<open>Vault as the log leaves it\<close>

fun vault_step :: "string \<Rightarrow> vault_reply \<Rightarrow> effect \<Rightarrow> vault_reply" where
  "vault_step path r (VaultPut p m) = (if p = path then VaultReply 200 (Some m) else r)"
| "vault_step path r (VaultDelete p) = (if p = path then VaultReply 404 None else r)"
| "vault_step path r _ = r"

definition vault_at :: "env \<Rightarrow> effect list \<Rightarrow> string \<Rightarrow> vault_reply" where
  "vault_at env log path = foldl (vault_step path) (e_vault env path) log"

definition kv_read :: "env \<Rightarrow> string \<Rightarrow> env_map option proc" where
  "kv_read env path w =
     andthen (external env (Anyhow (''vault kv get '' @ path))) (\<lambda>_.
     of_sum (kv_get (env\<lparr>e_vault := vault_at env (w_log w)\<rparr>) path)) w"

text \<open>A delete of a path that does not exist answers 404, which is fine.\<close>

definition kv_delete :: "env \<Rightarrow> string \<Rightarrow> unit proc" where
  "kv_delete env path =
     (case e_vault_write env path of
        None \<Rightarrow> throw (Anyhow (''vault kv delete '' @ path))
      | Some status \<Rightarrow>
          if \<not> (200 \<le> status \<and> status < 300) \<and> status \<noteq> 404
          then throw (Anyhow (''vault kv delete '' @ path @ '' failed''))
          else emit (VaultDelete path))"

definition delete_env_vars :: "env \<Rightarrow> uuid \<Rightarrow> uuid \<Rightarrow> unit proc" where
  "delete_env_vars env wid sid = kv_delete env (env_path env wid sid)"

definition delete_project_env_vars :: "env \<Rightarrow> uuid \<Rightarrow> uuid \<Rightarrow> unit proc" where
  "delete_project_env_vars env wid pid = kv_delete env (project_env_path env wid pid)"

definition read_cert :: "env \<Rightarrow> string \<Rightarrow> (string \<times> string) option proc" where
  "read_cert env domain =
     andthen (kv_read env (cert_path domain)) (\<lambda>data.
     case data of
       None \<Rightarrow> ret None
     | Some m \<Rightarrow>
         andthen (of_option (Anyhow (''cert_pem missing from vault for '' @ domain)) (m ''cert_pem'')) (\<lambda>cert.
         andthen (of_option (Anyhow (''key_pem missing from vault for '' @ domain)) (m ''key_pem'')) (\<lambda>key.
         ret (Some (cert, key)))))"

definition read_vars :: "env \<Rightarrow> string \<Rightarrow> string \<Rightarrow> env_map proc" where
  "read_vars env msg path =
     map_anyhow (\<lambda>_. internal msg)
       (andthen (kv_read env path) (\<lambda>found.
        ret (case found of None \<Rightarrow> Map.empty | Some m \<Rightarrow> m)))"

definition store_vars :: "env \<Rightarrow> string \<Rightarrow> string \<Rightarrow> env_map \<Rightarrow> unit proc" where
  "store_vars env msg path vars = map_anyhow (\<lambda>_. internal msg) (kv_put env path vars)"

section \<open>Variables of a service\<close>

definition service_for_env :: "env \<Rightarrow> caller \<Rightarrow> string \<Rightarrow> string \<Rightarrow> (service_row \<times> string) proc" where
  "service_for_env env caller scope id_str =
     andthen (of_sum (require_scope caller scope)) (\<lambda>_.
     andthen (parse_uuid env invalid_service_id id_str) (\<lambda>service_id.
     andthen (db_conn env) (\<lambda>_.
     andthen (query env (\<lambda>_. internal ''env vars lookup failed'')
                (sql_service_for service_id (ca_user_id caller))) (\<lambda>found.
     of_option (not_found ''service not found'') found))))"

definition get_env_vars :: "env \<Rightarrow> caller \<Rightarrow> string \<Rightarrow> env_map proc" where
  "get_env_vars env caller id_str =
     andthen (service_for_env env caller ''read'' id_str) (\<lambda>(s, role).
     read_vars env ''failed to read environment variables''
       (env_path env (sv_workspace s) (sv_id s)))"

definition set_env_vars :: "env \<Rightarrow> caller \<Rightarrow> string \<Rightarrow> env_map \<Rightarrow> env_map proc" where
  "set_env_vars env caller id_str new_vars =
     andthen (service_for_env env caller ''write'' id_str) (\<lambda>(s, role).
     andthen (of_sum (require_workspace_role role ''admin'')) (\<lambda>_.
     andthen (read_vars env ''failed to read environment variables''
                (env_path env (sv_workspace s) (sv_id s))) (\<lambda>vars.
     andthen (store_vars env ''failed to store environment variables''
                (env_path env (sv_workspace s) (sv_id s)) (vars ++ new_vars)) (\<lambda>_.
     ret (vars ++ new_vars)))))"

definition remove_keys :: "string list \<Rightarrow> env_map \<Rightarrow> env_map" where
  "remove_keys keys vars = foldl (\<lambda>m k. m(k := None)) vars keys"

definition unset_env_vars :: "env \<Rightarrow> caller \<Rightarrow> string \<Rightarrow> string list \<Rightarrow> env_map proc" where
  "unset_env_vars env caller id_str keys =
     andthen (service_for_env env caller ''write'' id_str) (\<lambda>(s, role).
     andthen (of_sum (require_workspace_role role ''admin'')) (\<lambda>_.
     andthen (read_vars env ''failed to read environment variables''
                (env_path env (sv_workspace s) (sv_id s))) (\<lambda>vars.
     andthen (store_vars env ''failed to store environment variables''
                (env_path env (sv_workspace s) (sv_id s)) (remove_keys keys vars)) (\<lambda>_.
     ret (remove_keys keys vars)))))"

section \<open>Variables of a project\<close>

definition sql_resolve_project :: "uuid \<Rightarrow> uuid \<Rightarrow> (uuid \<times> string) option sql" where
  "sql_resolve_project pid uid t u d =
     opt_row (concat (map (\<lambda>p. map (\<lambda>m. (pr_workspace p, wm_role m))
         (filter (\<lambda>m. wm_workspace m = pr_workspace p \<and> wm_user m = uid) (t_members d)))
       (filter (\<lambda>p. pr_id p = pid \<and> pr_deleted_at p = None) (t_projects d)))) d"

definition resolve_project :: "env \<Rightarrow> uuid \<Rightarrow> uuid \<Rightarrow> (uuid \<times> string) proc" where
  "resolve_project env pid uid =
     andthen (query env (\<lambda>_. internal ''project lookup failed'') (sql_resolve_project pid uid)) (\<lambda>found.
     of_option (not_found ''project not found'') found)"

definition project_for_env :: "env \<Rightarrow> caller \<Rightarrow> string \<Rightarrow> string \<Rightarrow> (uuid \<times> uuid \<times> string) proc" where
  "project_for_env env caller scope id_str =
     andthen (of_sum (require_scope caller scope)) (\<lambda>_.
     andthen (parse_uuid env (bad_request ''invalid_project_id''
                ''project ID must be a valid UUID'') id_str) (\<lambda>pid.
     andthen (db_conn env) (\<lambda>_.
     andthen (resolve_project env pid (ca_user_id caller)) (\<lambda>(wid, role).
     ret (pid, wid, role)))))"

definition get_project_env_vars :: "env \<Rightarrow> caller \<Rightarrow> string \<Rightarrow> env_map proc" where
  "get_project_env_vars env caller id_str =
     andthen (project_for_env env caller ''read'' id_str) (\<lambda>(pid, wid, role).
     read_vars env ''failed to read project environment variables'' (project_env_path env wid pid))"

definition set_project_env_vars :: "env \<Rightarrow> caller \<Rightarrow> string \<Rightarrow> env_map \<Rightarrow> env_map proc" where
  "set_project_env_vars env caller id_str new_vars =
     andthen (project_for_env env caller ''admin'' id_str) (\<lambda>(pid, wid, role).
     andthen (of_sum (require_workspace_role role ''admin'')) (\<lambda>_.
     andthen (read_vars env ''failed to read project environment variables''
                (project_env_path env wid pid)) (\<lambda>vars.
     andthen (store_vars env ''failed to store project environment variables''
                (project_env_path env wid pid) (vars ++ new_vars)) (\<lambda>_.
     ret (vars ++ new_vars)))))"

definition unset_project_env_vars :: "env \<Rightarrow> caller \<Rightarrow> string \<Rightarrow> string list \<Rightarrow> env_map proc" where
  "unset_project_env_vars env caller id_str keys =
     andthen (project_for_env env caller ''admin'' id_str) (\<lambda>(pid, wid, role).
     andthen (of_sum (require_workspace_role role ''admin'')) (\<lambda>_.
     andthen (read_vars env ''failed to read project environment variables''
                (project_env_path env wid pid)) (\<lambda>vars.
     andthen (store_vars env ''failed to store project environment variables''
                (project_env_path env wid pid) (remove_keys keys vars)) (\<lambda>_.
     ret (remove_keys keys vars)))))"

section \<open>Logs\<close>

text \<open>
  \<open>str::lines\<close>: pieces between newlines, a carriage return before the newline dropped,
  and no piece after a final newline.
\<close>

definition strip_cr :: "string \<Rightarrow> string" where
  "strip_cr s = (if s \<noteq> [] \<and> last s = CHR 0x0D then butlast s else s)"

definition str_lines :: "string \<Rightarrow> string list" where
  "str_lines s =
     (let ps = split_on (CHR 0x0A) s
      in map strip_cr (butlast ps) @ (if last ps = [] then [] else [last ps]))"

definition log_line :: "(string \<Rightarrow> json option) \<Rightarrow> string \<Rightarrow> (string option \<times> string) option" where
  "log_line parse l =
     map_option (\<lambda>obj.
       (get_str obj ''_time'',
        or_default [] (Option.bind
          (case json_get obj ''_msg'' of Some v \<Rightarrow> Some v | None \<Rightarrow> json_get obj ''message'')
          json_str))) (parse l)"

definition parse_log_lines :: "(string \<Rightarrow> json option) \<Rightarrow> string \<Rightarrow> (string option \<times> string) list" where
  "parse_log_lines parse body =
     List.map_filter (log_line parse) (filter (\<lambda>l. l \<noteq> []) (str_lines body))"

definition safe_slug :: "env \<Rightarrow> string \<Rightarrow> string" where
  "safe_slug env slug =
     concat (filter (\<lambda>ch. char_alphanumeric (e_uni_alnum env) ch \<or> ch = ''-'') (utf8_chars slug))"

text \<open>
  \<open>logs\<close> is VictoriaLogs: for a base URL, a query and a limit its status and, when it can
  be read, its body; \<open>parse\<close> is \<open>serde_json::from_str\<close>.
\<close>

definition get_service_logs ::
  "env \<Rightarrow> (string \<Rightarrow> string \<Rightarrow> string \<Rightarrow> (nat \<times> string option) option) \<Rightarrow>
   (string \<Rightarrow> json option) \<Rightarrow> string \<Rightarrow> caller \<Rightarrow> string \<Rightarrow> int option \<Rightarrow>
   (string option \<times> string) list proc" where
  "get_service_logs env logs parse vlogs_url caller id_str limit =
     andthen (of_sum (require_scope caller ''read'')) (\<lambda>_.
     andthen (parse_uuid env invalid_service_id id_str) (\<lambda>service_id.
     let n = min (max (case limit of None \<Rightarrow> 100 | Some l \<Rightarrow> l) 1) 1000
     in andthen (db_conn env) (\<lambda>_.
        andthen (query env (\<lambda>_. internal ''service lookup failed'')
                   (sql_service_for service_id (ca_user_id caller))) (\<lambda>found.
        andthen (of_option (not_found ''service not found'') found) (\<lambda>(s, role).
        if vlogs_url = [] then ret []
        else
          let q = ''task:'' @ [CHR 0x22] @ safe_slug env (sv_slug s) @ [CHR 0x22]
          in andthen (of_option (bad_gateway ''log backend unreachable'')
                        (logs (vlogs_url @ ''/select/logsql/query'') q (show_int n))) (\<lambda>(status, body).
             andthen (ensure (200 \<le> status \<and> status < 300) (bad_gateway ''log query failed'')) (\<lambda>_.
             andthen (of_option (bad_gateway ''failed to read log response'') body) (\<lambda>text.
             ret (parse_log_lines parse text)))))))))"

section \<open>What the routes do to Vault\<close>

definition vars_at :: "env \<Rightarrow> world \<Rightarrow> string \<Rightarrow> env_map" where
  "vars_at env w path =
     unwrap_or_default (kv_get (env\<lparr>e_vault := vault_at env (w_log w)\<rparr>) path)"

lemma vault_at_snoc: "vault_at env (log @ [x]) path = vault_step path (vault_at env log path) x"
  by (simp add: vault_at_def)

lemma remove_keys_eq: "remove_keys keys vars = vars |` (- set keys)"
  unfolding remove_keys_def
  by (induction keys arbitrary: vars) (auto simp: restrict_map_def fun_eq_iff)

lemma map_anyhow_Inr [run_simps]: "map_anyhow f m w = (Inr x, w') \<longleftrightarrow> m w = (Inr x, w')"
  by (auto simp: map_anyhow_def split: prod.splits sum.splits err.splits)

lemma kv_read_Inr [run_simps]:
  "kv_read env path w = (Inr x, w') \<longleftrightarrow> \<not> e_fault env (w_calls w) \<and> w' = tick w \<and>
     kv_get (env\<lparr>e_vault := vault_at env (w_log w)\<rparr>) path = Inr x"
  by (auto simp: kv_read_def run_simps)

lemma kv_put_Inr [run_simps]:
  "kv_put env path m w = (Inr x, w') \<longleftrightarrow>
     (\<exists>status. e_vault_write env path = Some status \<and> 200 \<le> status \<and> status < 300) \<and>
     w' = w\<lparr>w_log := w_log w @ [VaultPut path m]\<rparr>"
  by (auto simp: kv_put_def run_simps split: option.splits)

lemma vars_at_put:
  "w_log w' = w_log w @ [VaultPut path m] \<Longrightarrow>
   vars_at env w' p = (if p = path then m else vars_at env w p)"
  by (simp add: vars_at_def vault_at_snoc kv_get_def unwrap_or_default_def)

lemma read_vars_Inr:
  assumes "read_vars env msg path w = (Inr m, w')"
  shows "m = vars_at env w path \<and> w' = tick w"
proof -
  from assms obtain found where k: "kv_get (env\<lparr>e_vault := vault_at env (w_log w)\<rparr>) path = Inr found"
    and m: "m = (case found of None \<Rightarrow> Map.empty | Some x \<Rightarrow> x)" "w' = tick w"
    unfolding read_vars_def run_simps by blast
  show ?thesis unfolding vars_at_def k m by (cases found) (simp_all add: unwrap_or_default_def)
qed

text \<open>Fetching the service changes nothing but the counter of calls.\<close>

definition same_state :: "world \<Rightarrow> world \<Rightarrow> bool" where
  "same_state w w' = (w_db w' = w_db w \<and> w_log w' = w_log w)"

lemma opt_row_Inr: "opt_row rs d = Inr (Some x, d') \<longleftrightarrow> rs = [x] \<and> d' = d"
  by (cases rs rule: remdups_adj.cases) (auto simp: opt_row_def)

lemma sql_service_for_opt: "sql_service_for sid uid t u d = opt_row (services_with_role sid uid d) d"
  by (simp add: sql_service_for_def opt_row_def)

lemma sql_service_for_Inr:
  "sql_service_for sid uid t u d = Inr (Some x, d') \<longleftrightarrow>
   services_with_role sid uid d = [x] \<and> d' = d"
  unfolding sql_service_for_opt by (rule opt_row_Inr)

lemma service_for_env_Inr:
  assumes "service_for_env env caller scope i w = (Inr (s, role), w')"
  shows "same_state w w' \<and> scope_allowed caller scope \<and> (\<exists>sid. e_parse_uuid env i = Some sid \<and>
     services_with_role sid (ca_user_id caller) (w_db w) = [(s, role)])"
  using assms unfolding service_for_env_def run_simps sql_service_for_Inr same_state_def
  by (auto simp: sql_service_for_Inr require_scope_ok)

text \<open>Both writes read the variables, change them by \<open>f\<close>, and write them all back.\<close>

definition service_path :: "env \<Rightarrow> service_row \<Rightarrow> string" where
  "service_path env s = env_path env (sv_workspace s) (sv_id s)"

definition reaches :: "env \<Rightarrow> db \<Rightarrow> caller \<Rightarrow> string \<Rightarrow> service_row \<Rightarrow> string \<Rightarrow> bool" where
  "reaches env d caller i s role =
     (\<exists>sid. e_parse_uuid env i = Some sid \<and> services_with_role sid (ca_user_id caller) d = [(s, role)])"

lemma reaches_unique:
  "reaches env d caller i s role \<Longrightarrow> reaches env d caller i s' role' \<Longrightarrow> s' = s \<and> role' = role"
  unfolding reaches_def by auto

lemma update_run:
  assumes "andthen (service_for_env env caller ''write'' i) (\<lambda>(s, role).
     andthen (of_sum (require_workspace_role role ''admin'')) (\<lambda>_.
     andthen (read_vars env msg (env_path env (sv_workspace s) (sv_id s))) (\<lambda>vars.
     andthen (store_vars env msg' (env_path env (sv_workspace s) (sv_id s)) (f vars)) (\<lambda>_.
     ret (f vars))))) w = (Inr out, w')"
  shows "\<exists>s role. reaches env (w_db w) caller i s role \<and> scope_allowed caller ''write'' \<and>
    role \<in> {''owner'', ''admin''} \<and> out = f (vars_at env w (service_path env s)) \<and>
    w_db w' = w_db w \<and> w_log w' = w_log w @ [VaultPut (service_path env s) out]"
proof -
  from assms obtain s role w1 vars w2
    where 1: "service_for_env env caller ''write'' i w = (Inr (s, role), w1)"
      and 2: "require_workspace_role role ''admin'' = Inr ()"
      and 3: "read_vars env msg (service_path env s) w1 = (Inr vars, w2)"
      and 4: "store_vars env msg' (service_path env s) (f vars) w2 = (Inr (), w')" and 5: "out = f vars"
    unfolding service_path_def by (auto simp: andthen_Inr of_sum_Inr ret_Inr split: prod.splits)
  have same: "w_db w1 = w_db w" "w_log w1 = w_log w"
    and r: "reaches env (w_db w) caller i s role" "scope_allowed caller ''write''"
    using service_for_env_Inr [OF 1] by (auto simp: same_state_def reaches_def)
  have v: "vars = vars_at env w (service_path env s)" "w2 = tick w1"
    using read_vars_Inr [OF 3] same by (simp_all add: vars_at_def)
  from 4 have "w' = w2\<lparr>w_log := w_log w2 @ [VaultPut (service_path env s) (f vars)]\<rparr>"
    unfolding store_vars_def run_simps by blast
  then show ?thesis using r 2 5 v same by (auto simp: require_workspace_role_admin)
qed

lemmas set_env_run = update_run [where f = "\<lambda>vars. vars ++ new_vars" for new_vars]
lemmas unset_env_run = update_run [where f = "remove_keys keys" for keys]

lemma get_env_run:
  assumes "get_env_vars env caller i w = (Inr out, w')"
  shows "\<exists>s role. reaches env (w_db w) caller i s role \<and> scope_allowed caller ''read'' \<and>
    out = vars_at env w (service_path env s) \<and> w_db w' = w_db w \<and> w_log w' = w_log w"
proof -
  from assms obtain s role w1 where 1: "service_for_env env caller ''read'' i w = (Inr (s, role), w1)"
    and 2: "read_vars env ''failed to read environment variables'' (service_path env s) w1 = (Inr out, w')"
    unfolding get_env_vars_def service_path_def by (auto simp: andthen_Inr split: prod.splits)
  show ?thesis
    using service_for_env_Inr [OF 1] read_vars_Inr [OF 2]
    by (auto simp: same_state_def reaches_def vars_at_def)
qed

text \<open>
  C27: Environment variables round trip. After a caller has set variables of a service and
  then unset some keys, both with success, reading them gives what was there before,
  overridden by what was set, without the keys that were unset; each call returned exactly
  the map it left in Vault; no table has changed, and the variables at every other path of
  Vault, those of the project and of every other service, are what they were.
\<close>

theorem env_vars_roundtrip:
  assumes "set_env_vars env caller i new_vars w = (Inr after_set, w1)"
    and "unset_env_vars env caller i keys w1 = (Inr after_unset, w2)"
    and "get_env_vars env caller i w2 = (Inr got, w3)"
  shows "\<exists>s role. reaches env (w_db w) caller i s role \<and> role \<in> {''owner'', ''admin''} \<and>
    after_set = vars_at env w (service_path env s) ++ new_vars \<and>
    after_unset = after_set |` (- set keys) \<and> got = after_unset \<and> w_db w3 = w_db w \<and>
    (\<forall>path. path \<noteq> service_path env s \<longrightarrow> vars_at env w3 path = vars_at env w path)"
proof -
  obtain s role where 1: "reaches env (w_db w) caller i s role" "role \<in> {''owner'', ''admin''}"
    "after_set = vars_at env w (service_path env s) ++ new_vars" "w_db w1 = w_db w"
    and l1: "w_log w1 = w_log w @ [VaultPut (service_path env s) after_set]"
    using set_env_run [OF assms(1) [unfolded set_env_vars_def]] by blast
  from unset_env_run [OF assms(2) [unfolded unset_env_vars_def]] reaches_unique [OF 1(1)] 1(4)
  have 2: "after_unset = remove_keys keys (vars_at env w1 (service_path env s))" "w_db w2 = w_db w"
    and l2: "w_log w2 = w_log w1 @ [VaultPut (service_path env s) after_unset]"
    by metis+
  from get_env_run [OF assms(3)] reaches_unique [OF 1(1)] 2(2)
  have 3: "got = vars_at env w2 (service_path env s)" "w_db w3 = w_db w" "w_log w3 = w_log w2"
    by metis+
  have "vars_at env w3 path = vars_at env w2 path" for path using 3(3) by (simp add: vars_at_def)
  then show ?thesis
    using 1 2 3 vars_at_put [OF l1] vars_at_put [OF l2]
    by (intro exI [of _ s] exI [of _ role]) (simp add: remove_keys_eq)
qed

end
