(* ===== verification/Frames.thy ===== *)
theory Frames
  imports Releases Delivery Accounts EnvVars
begin

text \<open>
  What each statement leaves alone: the statements that move no money (\<open>no_money\<close>) and
  those that touch neither artifacts nor deployments (\<open>no_artifact\<close>).
\<close>

section \<open>Statements that move no money\<close>

lemma no_money_sql_reads: "sql_reads f \<Longrightarrow> no_money f"
  unfolding sql_reads_def no_money_def by metis

lemma sql_reads_more [read_rules]:
  "sql_reads (sql_user_exists uid)" "sql_reads (sql_list_api_keys uid)"
  "sql_reads (sql_owner_workspace uid)" "sql_reads (sql_workspace_owner wid)"
  "sql_reads (sql_workspace wid)" "sql_reads (sql_usage wid)" "sql_reads (sql_ledger wid)"
  "sql_reads sql_invoiceable" "sql_reads (sql_sum_charges wid kind a b)"
  "sql_reads (sql_list_invoices wid)" "sql_reads (sql_outbox_batch n)" "sql_reads sql_outbox_lag"
  "sql_reads (sql_has_active wid)" "sql_reads sql_unbilled_liquid" "sql_reads sql_metal_due"
  "sql_reads (sql_suspended wid)" "sql_reads (sql_list_services uid)" "sql_reads (sql_list_deploys sid)"
  by (auto simp: sql_reads_def sql_user_exists_def sql_list_api_keys_def sql_owner_workspace_def
      sql_workspace_owner_def sql_workspace_def sql_usage_def sql_ledger_def sql_invoiceable_def
      sql_sum_charges_def sql_list_invoices_def sql_outbox_batch_def sql_outbox_lag_def
      sql_has_active_def sql_unbilled_liquid_def sql_metal_due_def sql_suspended_def
      sql_list_services_def sql_list_deploys_def Let_def split: list.splits if_splits)

lemma no_money_more_writes [money_rules]:
  "no_money (sql_touch_api_key h)" "no_money (sql_insert_api_key uid name h pre scopes expires)"
  "no_money (sql_delete_api_key kid uid)" "no_money (sql_set_customer c wid)"
  "no_money (sql_set_last_invoice t' wid)" "no_money (sql_insert_invoice wid iv cents a b)"
  "no_money (sql_delete_outbox ids)" "no_money (sql_delete_stale n)"
  by (rule no_moneyI, auto simp: sql_touch_api_key_def sql_insert_api_key_def sql_delete_api_key_def
      sql_set_customer_def sql_set_last_invoice_def sql_insert_invoice_def sql_delete_outbox_def
      sql_delete_stale_def accounts_def update_where_def Let_def split: list.splits if_splits)+

lemma keeps_with_context [proc_rules]: "keeps I m \<Longrightarrow> keeps I (with_context ctx m)"
  unfolding with_context_def by (rule keeps_map_anyhow)

lemma sql_keeps_reads: "sql_reads f \<Longrightarrow> sql_keeps I f"
  unfolding sql_reads_def by (metis sql_keepsI)

section \<open>Statements that leave the artifacts alone\<close>

named_theorems artifact_rules

definition no_artifact :: "'a sql \<Rightarrow> bool" where
  "no_artifact f = (\<forall>t u d x d'. f t u d = Inr (x, d') \<longrightarrow>
     artifact_view d' = artifact_view d \<and> t_deployments d' = t_deployments d)"

lemma no_artifactI:
  "(\<And>t u d x d'. f t u d = Inr (x, d') \<Longrightarrow>
     artifact_view d' = artifact_view d \<and> t_deployments d' = t_deployments d) \<Longrightarrow> no_artifact f"
  by (simp add: no_artifact_def)

lemma view_update_where:
  "(\<And>s. sv_id (f s) = sv_id s \<and> sv_artifact_key (f s) = sv_artifact_key s) \<Longrightarrow>
   map (\<lambda>s. (sv_id s, sv_artifact_key s)) (update_where p f rs) =
   map (\<lambda>s. (sv_id s, sv_artifact_key s)) rs"
  by (induction rs) (simp_all add: table_simps)

lemma no_artifact_reads: "sql_reads f \<Longrightarrow> no_artifact f"
  unfolding sql_reads_def no_artifact_def by metis

lemmas no_artifact_lookups [artifact_rules] =
  sql_reads_more [THEN no_artifact_reads] sql_reads_lookups [THEN no_artifact_reads]

lemmas no_money_lookups [money_rules] = sql_reads_more [THEN no_money_sql_reads]

lemma no_artifact_accounts [artifact_rules]:
  "no_artifact (sql_adjust_balance p x)" "no_artifact (sql_insert_ledger wid x k desc r b)"
  "no_artifact (sql_add_free_used n wid)" "no_artifact (sql_mark_billed ids)"
  "no_artifact (sql_reset_free env)" "no_artifact (sql_insert_topup c pi cus ses)"
  "no_artifact (sql_patch_ledger b ses)" "no_artifact (sql_insert_usage wid sid eng q dur)"
  by (rule no_artifactI, auto simp: sql_adjust_balance_def sql_insert_ledger_def sql_add_free_used_def
      sql_mark_billed_def sql_reset_free_def sql_insert_topup_def sql_patch_ledger_def
      sql_insert_usage_def artifact_view_def split: list.splits if_splits)+

lemma no_artifact_other [artifact_rules]:
  "no_artifact (sql_touch_api_key h)" "no_artifact (sql_insert_api_key uid name h pre scopes expires)"
  "no_artifact (sql_delete_api_key kid uid)" "no_artifact (sql_set_customer c wid)"
  "no_artifact (sql_set_last_invoice t' wid)" "no_artifact (sql_insert_invoice wid iv cents a b)"
  "no_artifact (sql_delete_outbox ids)" "no_artifact (sql_delete_stale n)"
  "no_artifact (sql_insert_outbox subject ev)" "no_artifact (sql_clean_outbox env sid)"
  by (rule no_artifactI, auto simp: sql_touch_api_key_def sql_insert_api_key_def sql_delete_api_key_def
      sql_set_customer_def sql_set_last_invoice_def sql_insert_invoice_def sql_delete_outbox_def
      sql_delete_stale_def sql_insert_outbox_def sql_clean_outbox_def artifact_view_def Let_def
      split: list.splits if_splits)+

lemma no_artifact_services [artifact_rules]:
  "no_artifact (sql_advance_cycle sid)" "no_artifact (sql_set_status st sid)"
  "no_artifact (sql_stop_service sid)" "no_artifact (sql_delete_service sid)"
  "no_artifact (sql_start_again sid)"
  by (rule no_artifactI, auto simp: sql_advance_cycle_def sql_set_status_def sql_stop_service_def
      sql_delete_service_def sql_start_again_def artifact_view_def view_update_where Let_def
      split: list.splits if_splits)+

lemma sql_reads_accounts [read_rules]:
  "sql_reads (sql_get_user uid)" "sql_reads (sql_list_workspaces uid)"
  "sql_reads (sql_owned_services wid uid)" "sql_reads (sql_list_projects wid uid)"
  "sql_reads (sql_member_role wid uid)" "sql_reads (sql_provision_lookup email)"
  "sql_reads (sql_invite_unused code)" "sql_reads sql_select_one"
  "sql_reads (sql_resolve_project pid uid)"
  by (auto simp: sql_reads_def sql_get_user_def sql_list_workspaces_def sql_owned_services_def
      sql_list_projects_def sql_member_role_def sql_provision_lookup_def sql_invite_unused_def
      sql_select_one_def sql_resolve_project_def opt_row_def split: list.splits)

lemma sql_reads_domains [read_rules]:
  "sql_reads (sql_list_domains sid)" "sql_reads (sql_domain_for sid name uid)"
  "sql_reads (sql_challenge token)" "sql_reads sql_certs_due"
  by (auto simp: sql_reads_def sql_list_domains_def sql_domain_for_def sql_challenge_def
      sql_certs_due_def opt_row_def split: list.splits)

lemma no_money_accounts [money_rules]:
  "no_money (sql_close_services wid)" "no_money (sql_close_projects wid)"
  "no_money (sql_close_workspace wid)" "no_money (sql_insert_project pid wid name slug)"
  "no_money (sql_set_oidc_sub sub email)" "no_money (sql_upsert_user pid' email name' sub')"
  "no_money (sql_upsert_member wid uid)" "no_money (sql_use_invite uid code)"
  "no_money (sql_insert_invite code)"
  by (rule no_moneyI, auto simp: sql_close_services_def sql_close_projects_def sql_close_workspace_def
      sql_insert_project_def sql_set_oidc_sub_def sql_upsert_user_def sql_upsert_member_def
      sql_use_invite_def sql_insert_invite_def accounts_def update_where_def
      split: list.splits if_splits)+

lemma no_money_domains [money_rules]:
  "no_money (sql_insert_domain env did pid sid name)" "no_money (sql_delete_domain sid name)"
  "no_money (sql_set_tls_status st did)" "no_money (sql_put_challenge token key name)"
  "no_money (sql_drop_challenge token)" "no_money (sql_upsert_cert did)" "no_money sql_gc_challenges"
  "no_money (sql_set_verified did)"
  by (rule no_moneyI, auto simp: sql_insert_domain_def sql_delete_domain_def sql_set_tls_status_def
      sql_put_challenge_def sql_drop_challenge_def sql_upsert_cert_def sql_gc_challenges_def
      sql_set_verified_def accounts_def Let_def split: if_splits)+

lemma no_artifact_tenants [artifact_rules]:
  "no_artifact (sql_close_services wid)" "no_artifact (sql_close_projects wid)"
  "no_artifact (sql_close_workspace wid)" "no_artifact (sql_insert_project pid wid name slug)"
  "no_artifact (sql_set_oidc_sub sub email)" "no_artifact (sql_upsert_user pid' email name' sub')"
  "no_artifact (sql_upsert_workspace env wid' name slug)" "no_artifact (sql_upsert_member wid uid)"
  "no_artifact (sql_use_invite uid code)" "no_artifact (sql_insert_invite code)"
  by (rule no_artifactI, auto simp: sql_close_services_def sql_close_projects_def
      sql_close_workspace_def sql_insert_project_def sql_set_oidc_sub_def sql_upsert_user_def
      sql_upsert_workspace_def sql_upsert_member_def sql_use_invite_def sql_insert_invite_def
      artifact_view_def view_update_where split: list.splits if_splits)+

lemma no_artifact_domains [artifact_rules]:
  "no_artifact (sql_insert_domain env did pid sid name)" "no_artifact (sql_delete_domain sid name)"
  "no_artifact (sql_set_tls_status st did)" "no_artifact (sql_put_challenge token key name)"
  "no_artifact (sql_drop_challenge token)" "no_artifact (sql_upsert_cert did)"
  "no_artifact sql_gc_challenges" "no_artifact (sql_set_verified did)"
  by (rule no_artifactI, auto simp: sql_insert_domain_def sql_delete_domain_def sql_set_tls_status_def
      sql_put_challenge_def sql_drop_challenge_def sql_upsert_cert_def sql_gc_challenges_def
      sql_set_verified_def artifact_view_def Let_def split: if_splits)+

text \<open>A new workspace has an empty account and no entries: the books stay balanced.\<close>

lemma upsert_workspace_keeps_books: "sql_keeps ledger_ok (sql_upsert_workspace env wid name slug)"
proof (rule sql_keepsI)
  fix t u d x d' assume ok: "ledger_ok d" and up: "sql_upsert_workspace env wid name slug t u d = Inr (x, d')"
  show "ledger_ok d'"
  proof (cases "d' = d")
    case False
    with up have new: "wid \<notin> fst ` set (accounts d)"
      and d': "accounts d' = accounts d @ [(wid, 0)]" "t_ledger d' = t_ledger d"
      by (auto simp: sql_upsert_workspace_def accounts_def list_ex_iff image_image
          split: list.splits if_splits)
    have "entries_of wid (t_ledger d) = []"
      using ok new by (auto simp: ledger_ok_def books_ok_def entries_of_def filter_empty_conv)
    then show ?thesis using ok new by (auto simp: ledger_ok_def books_ok_def d')
  qed (use ok in simp)
qed

end
