(* ===== verification/Handlers.thy ===== *)
theory Handlers
  imports Frames
begin

text \<open>
  What every handler keeps, given what every statement keeps. A \<open>quiet_frame\<close> is an
  invariant that every statement keeps but those that move money, those of a deployment and
  the one that marks a domain as verified; \<open>money_statements\<close> and \<open>all_statements\<close>
  add the first two. Each handler is shown once, in the smallest of the three that has its
  statements, to keep such an invariant whatever call fails.
\<close>

section \<open>Processes of the newer routes\<close>

definition tls_status_check :: "string \<Rightarrow> bool" where
  "tls_status_check s = (s \<in> {''pending'', ''provisioning'', ''active'', ''error''})"

lemma keeps_succeeds [proc_rules]: "keeps I m \<Longrightarrow> keeps I (succeeds m)"
  by (auto simp: keeps_def succeeds_def split: prod.splits sum.splits)

lemma keeps_kv_read [proc_rules]: "keeps I (kv_read env path)"
proof -
  have "keeps I (andthen (external env e) (\<lambda>_. of_sum x))" for e and x :: "err + env_map option"
    by (intro proc_rules)
  then show ?thesis unfolding keeps_def kv_read_def by blast
qed

lemma keeps_kv_put [proc_rules]: "keeps I (kv_put env path m)"
  unfolding kv_put_def by (intro proc_rules)

lemma keeps_read_vars [proc_rules]: "keeps I (read_vars env msg path)"
  unfolding read_vars_def by (intro proc_rules)

lemma keeps_store_vars [proc_rules]: "keeps I (store_vars env msg path vars)"
  unfolding store_vars_def by (intro proc_rules)

lemmas lookup_rules [THEN sql_keeps_reads] =
  sql_reads_more sql_reads_lookups sql_reads_accounts sql_reads_domains

section \<open>Statements that move neither money nor artifacts\<close>

locale quiet_frame =
  fixes J :: "db \<Rightarrow> bool"
  assumes keys: "sql_keeps J (sql_touch_api_key h)"
      "sql_keeps J (sql_insert_api_key uid name h pre scopes expires)"
      "sql_keeps J (sql_delete_api_key kid uid)"
    and accounting: "sql_keeps J (sql_set_customer c wid)" "sql_keeps J (sql_set_last_invoice t' wid)"
      "sql_keeps J (sql_insert_invoice wid iv cents a b)" "sql_keeps J (sql_add_free_used n wid)"
      "sql_keeps J (sql_mark_billed ids)" "sql_keeps J (sql_reset_free env)"
    and usage: "eng \<in> {''metal'', ''liquid''} \<Longrightarrow> sql_keeps J (sql_insert_usage wid sid eng q dur)"
    and outbox: "sql_keeps J (sql_insert_outbox subject ev)" "sql_keeps J (sql_delete_outbox ids)"
      "sql_keeps J (sql_delete_stale n)" "sql_keeps J (sql_clean_outbox env sid)"
    and services: "sql_keeps J (sql_advance_cycle sid)" "sql_keeps J (sql_set_status st sid)"
      "sql_keeps J (sql_stop_service sid)" "sql_keeps J (sql_delete_service sid)"
      "sql_keeps J (sql_start_again sid)" "sql_keeps J (sql_retire_old wid slug)"
    and tenants: "sql_keeps J (sql_close_services wid)" "sql_keeps J (sql_close_projects wid)"
      "sql_keeps J (sql_close_workspace wid)" "sql_keeps J (sql_insert_project pid wid name slug)"
      "sql_keeps J (sql_set_oidc_sub sub email)" "sql_keeps J (sql_upsert_user uid email name sub')"
      "sql_keeps J (sql_upsert_workspace env wid name slug)" "sql_keeps J (sql_upsert_member wid uid)"
      "sql_keeps J (sql_use_invite uid code)" "sql_keeps J (sql_insert_invite code)"
    and domains: "sql_keeps J (sql_insert_domain env did pid sid name)"
      "sql_keeps J (sql_delete_domain sid name)"
      "tls_status_check st \<Longrightarrow> sql_keeps J (sql_set_tls_status st did)"
      "sql_keeps J (sql_put_challenge token key name)" "sql_keeps J (sql_drop_challenge token)"
      "sql_keeps J (sql_upsert_cert did)" "sql_keeps J sql_gc_challenges"
begin

lemma keeps_transact_plain: "keeps J body \<Longrightarrow> keeps J (transact env be ce body)"
  by (rule keeps_transact, rule triple_weaken, erule triple_keeps) (auto split: tx_end.split)

lemmas rules = proc_rules lookup_rules keys accounting usage outbox services tenants domains
  keeps_transact_plain

lemma keeps_generate_token: "keeps J (generate_token env)"
  unfolding generate_token_def by (intro rules)

lemma keeps_keys: "keeps J (create_api_key env caller name scopes expiry)"
  "keeps J (delete_api_key env caller i)" "keeps J (auth_middleware env headers)"
  unfolding create_api_key_def delete_api_key_def auth_middleware_def auth_internal_def
    auth_api_key_def Let_def
  by (intro rules keeps_generate_token)+

lemma keeps_usage: "keeps J (insert_metal_usage env mu)" "keeps J (insert_liquid_usage env lu)"
  "keeps J (free_invocations_reset_once env)"
  unfolding insert_metal_usage_def insert_liquid_usage_def free_invocations_reset_once_def
  by (intro rules; simp)+

lemma keeps_suspend_outbox: "keeps J (insert_suspend_outbox env wid)"
  unfolding insert_suspend_outbox_def by (intro rules)

lemma keeps_enqueue_unsuspend: "keeps J (enqueue_unsuspend env wid)"
  unfolding enqueue_unsuspend_def unsuspend_service_def by (intro rules)

lemma keeps_invoices: "keeps J (generate_invoices_once env)"
  unfolding generate_invoices_once_def invoice_workspace_def generate_workspace_invoice_def
    settle_invoice_def create_invoice_def add_invoice_item_def finalize_invoice_def
    mark_invoice_paid_def Let_def
  by (intro rules)

lemma keeps_topup: "keeps J (create_topup env caller cents ok cancel)"
  unfolding create_topup_def extract_workspace_id_def get_or_create_stripe_customer_def
    create_customer_def create_topup_session_def
  by (intro rules)

lemma keeps_authorize: "keeps J (authorize_service env caller scope i)"
  unfolding authorize_service_def by (intro rules)

lemma keeps_services: "keeps J (stop_service env caller i)" "keeps J (delete_service env caller i)"
  "keeps J (restart_service env caller i)"
  unfolding stop_service_def delete_service_def restart_service_def stop_txn_def delete_txn_def
    restart_txn_def
  by (intro rules keeps_authorize)+

lemma keeps_outbox: "keeps J (poll_once env n)" "keeps J (cleanup_stale env mins)"
  unfolding poll_once_def poll_txn_def publish_acked_def cleanup_stale_def by (intro rules)+

lemma keeps_workspaces: "keeps J (delete_workspace env caller i)"
  "keeps J (create_project env caller name slug i)"
  unfolding delete_workspace_def create_project_def close_txn_def deprovision_row_def
    publish_deprovision_def
  by (intro rules)+

lemma keeps_do_provision: "keeps J (do_provision env rq code)"
  unfolding do_provision_def check_invite_def signup_txn_def by (intro rules)

lemma keeps_sign_in: "keeps J (provision_user env headers rq)" "keeps J (cli_provision env rq)"
  unfolding provision_user_def cli_provision_def
  by (intro rules keeps_do_provision keeps_generate_token)+

lemma keeps_insert_invites: "keeps J (insert_invites env n)"
  by (induction n) (auto intro!: rules simp: generate_invite_code_def Let_def)

lemma keeps_create_invites: "keeps J (create_invites env headers count)"
  unfolding create_invites_def Let_def by (intro rules keeps_insert_invites)

lemma keeps_domains: "keeps J (add_domain env caller i name)" "keeps J (remove_domain env caller i name)"
  unfolding add_domain_def remove_domain_def Let_def by (intro rules)+

lemma keeps_verify_domain:
  "(\<And>did. sql_keeps J (sql_set_verified did)) \<Longrightarrow> keeps J (verify_domain env caller i name)"
  unfolding verify_domain_def Let_def by (intro rules)

lemma keeps_tls_status:
  "keeps J (query env h (sql_set_tls_status ''provisioning'' did))"
  "keeps J (query env h (sql_set_tls_status ''active'' did))"
  "keeps J (query env h (sql_set_tls_status ''error'' did))"
  by (intro rules; simp add: tls_status_check_def)+

lemma keeps_cleanup: "keeps J (cleanup_challenge env token)"
  unfolding cleanup_challenge_def by (intro rules)

lemma keeps_await: "keeps J (await_validation env am name token)"
  unfolding await_validation_def by (cases "poll_order am 0 0") (auto intro!: rules keeps_cleanup)

lemma keeps_provision_cert: "keeps J (provision_cert env am did name)"
  unfolding provision_cert_def store_cert_def publish_core_def
  by (intro keeps_tls_status keeps_await rules)

lemma keeps_provision_or_mark: "keeps J (provision_or_mark env acct m)"
proof -
  have mark: "keeps J (andthen (external env e) (\<lambda>_.
      log_errors (query env h (sql_set_tls_status ''error'' did))))" for e h did
    by (intro keeps_andthen keeps_external keeps_log_errors keeps_tls_status)
  show ?thesis
    using keeps_provision_cert [of env "acct (dm_domain m)" "dm_id m" "dm_domain m"] mark
    unfolding keeps_def provision_or_mark_def
    by (auto split: prod.splits sum.splits err.splits)
qed

lemma keeps_cert_round: "keeps J (cert_round env acct)"
  unfolding cert_round_def by (intro rules keeps_provision_or_mark)

lemma keeps_service_vars: "keeps J (set_env_vars env caller i vars)"
  "keeps J (unset_env_vars env caller i ks)"
  unfolding set_env_vars_def unset_env_vars_def service_for_env_def by (intro rules)+

lemma keeps_project_vars: "keeps J (set_project_env_vars env caller i vars)"
  "keeps J (unset_project_env_vars env caller i ks)"
  unfolding set_project_env_vars_def unset_project_env_vars_def project_for_env_def
    resolve_project_def
  by (intro rules)+

lemmas keeps_quiet = keeps_keys keeps_usage keeps_invoices keeps_topup keeps_services keeps_outbox
  keeps_workspaces keeps_sign_in keeps_create_invites keeps_domains keeps_cert_round
  keeps_service_vars keeps_project_vars

end

section \<open>Statements that move money\<close>

locale money_statements = quiet_frame +
  assumes money: "sql_keeps J (sql_adjust_balance p x)"
    "sql_keeps J (sql_insert_ledger wid x k desc r b)" "sql_keeps J (sql_insert_topup c pi cus ses)"
    "sql_keeps J (sql_patch_ledger b ses)"
begin

lemma keeps_deduct: "keeps J (deduct_balance env wid cost kind desc)"
  unfolding deduct_balance_def by (intro rules money)

lemma keeps_webhook: "keeps J (dispatch_webhook env ev)"
  unfolding dispatch_webhook_def handle_checkout_completed_def handle_charge_refunded_def
    handle_payment_failed_def checkout_txn_def refund_txn_def reversal_txn_def Let_def
  by (intro rules money keeps_suspend_outbox keeps_enqueue_unsuspend)

lemma keeps_aggregate: "keeps J (aggregate_once env)"
  unfolding aggregate_once_def aggregate_txn_def bill_liquid_row_def bill_liquid_def Let_def
  by (intro rules keeps_suspend_outbox keeps_deduct)

lemma keeps_metal_billing: "keeps J (metal_billing_once env)"
  unfolding metal_billing_once_def metal_billing_txn_def charge_metal_row_def charge_metal_def Let_def
  by (intro rules keeps_suspend_outbox keeps_deduct)

lemmas keeps_money = keeps_webhook keeps_aggregate keeps_metal_billing

end

section \<open>Statements of a deployment\<close>

locale all_statements = money_statements +
  assumes deploys: "sql_keeps J (sql_insert_service p)" "sql_keeps J (sql_charge wid cost)"
    "sql_keeps J (sql_insert_charge lid wid x desc)"
    "sql_keeps J (sql_insert_deployment sid wid slug eng key sha port uid)"
    "sql_keeps J (sql_roll_back sid key sha)"
begin

lemma keeps_deploy: "keeps J (deploy_service env caller body)"
  unfolding deploy_service_def authorize_project_def deploy_check_txn_def deploy_txn_def
    charge_first_month_def Let_def
  by (intro rules deploys)

lemma keeps_rollback: "keeps J (rollback_service env caller i did)"
  unfolding rollback_service_def rollback_target_def rollback_txn_def
  by (intro rules deploys keeps_authorize)

lemmas keeps_deploys = keeps_deploy keeps_rollback

end

section \<open>The invariants on money and on artifacts\<close>

interpretation books_quiet: quiet_frame ledger_ok
  by unfold_locales
    (rule upsert_workspace_keeps_books | rule books.no_money_keeps, rule money_rules)+

lemma artifacts_frame: "no_artifact f \<Longrightarrow> sql_keeps artifacts_ok f"
  unfolding no_artifact_def artifacts_ok_view by (intro sql_keepsI) metis

lemma no_artifact_retire [artifact_rules]: "no_artifact (sql_retire_old wid slug)"
  by (rule no_artifactI) (auto simp: sql_retire_old_def artifact_view_def view_update_where)

interpretation artifacts: money_statements artifacts_ok
  by unfold_locales (rule artifacts_frame, rule artifact_rules)+

end
