(* ===== verification/Integrity.thy ===== *)
theory Integrity
  imports Handlers
begin

text \<open>
  The integrity of the schema: keys, foreign keys and checks of the tables, kept by every
  statement of the API, most of which do not look at them.
\<close>

section \<open>What the constraints say of the tables\<close>

definition keys_ok :: "db \<Rightarrow> bool" where
  "keys_ok d =
     (distinct (map us_id (t_users d)) \<and> distinct (map us_email (t_users d)) \<and>
      distinct (map ws_id (t_workspaces d)) \<and> distinct (map ws_slug (t_workspaces d)) \<and>
      distinct (map (\<lambda>m. (wm_workspace m, wm_user m)) (t_members d)) \<and>
      distinct (map pr_id (t_projects d)) \<and>
      distinct (map (\<lambda>p. (pr_workspace p, pr_name p)) (t_projects d)) \<and>
      distinct (map (\<lambda>p. (pr_workspace p, pr_slug p)) (t_projects d)) \<and>
      distinct (map sv_id (t_services d)) \<and> distinct (map sv_slug (t_services d)) \<and>
      distinct (map dl_id (t_deployments d)) \<and> distinct (map le_id (t_ledger d)) \<and>
      distinct (map ue_id (t_usage d)) \<and> distinct (map ob_id (t_outbox d)) \<and>
      distinct (map iv_id (t_invoices d)) \<and> distinct (map iv_stripe_id (t_invoices d)) \<and>
      distinct (map ak_id (t_api_keys d)) \<and> distinct (map ak_token_hash (t_api_keys d)) \<and>
      distinct (map dm_id (t_domains d)) \<and> distinct (map dm_domain (t_domains d)) \<and>
      distinct (map dc_domain_id (t_certs d)) \<and> distinct (map ac_token (t_acme d)) \<and>
      distinct (map ic_code (t_invites d)))"

definition refs_ok :: "db \<Rightarrow> bool" where
  "refs_ok d =
     (set (map wm_workspace (t_members d)) \<subseteq> set (map ws_id (t_workspaces d)) \<and>
      set (map wm_user (t_members d)) \<subseteq> set (map us_id (t_users d)) \<and>
      set (map pr_workspace (t_projects d)) \<subseteq> set (map ws_id (t_workspaces d)) \<and>
      set (map sv_workspace (t_services d)) \<subseteq> set (map ws_id (t_workspaces d)) \<and>
      set (map sv_project (t_services d)) \<subseteq> set (map pr_id (t_projects d)) \<and>
      set (map dl_workspace (t_deployments d)) \<subseteq> set (map ws_id (t_workspaces d)) \<and>
      set (map dl_deployed_by (t_deployments d)) \<subseteq> set (map us_id (t_users d)) \<and>
      set (map le_workspace (t_ledger d)) \<subseteq> set (map ws_id (t_workspaces d)) \<and>
      set (map ue_workspace (t_usage d)) \<subseteq> set (map ws_id (t_workspaces d)) \<and>
      set (map ue_service (t_usage d)) \<subseteq> set (map sv_id (t_services d)) \<and>
      set (map iv_workspace (t_invoices d)) \<subseteq> set (map ws_id (t_workspaces d)) \<and>
      set (map ak_user (t_api_keys d)) \<subseteq> set (map us_id (t_users d)) \<and>
      set (map dm_project (t_domains d)) \<subseteq> set (map pr_id (t_projects d)) \<and>
      set (map dc_domain_id (t_certs d)) \<subseteq> set (map dm_id (t_domains d)))"

definition member_role_check :: "string \<Rightarrow> bool" where
  "member_role_check r = (r \<in> {''owner'', ''admin'', ''viewer''})"

definition engine_check :: "string \<Rightarrow> bool" where
  "engine_check e = (e \<in> {''metal'', ''liquid''})"

definition metal_tier_check :: "string option \<Rightarrow> bool" where
  "metal_tier_check t = (t \<in> {None, Some ''one'', Some ''two'', Some ''four''})"

definition checks_ok :: "db \<Rightarrow> bool" where
  "checks_ok d =
     (list_all member_role_check (map wm_role (t_members d)) \<and>
      list_all service_status_check (map sv_status (t_services d)) \<and>
      list_all engine_check (map sv_engine (t_services d)) \<and>
      list_all metal_tier_check (map sv_metal_tier (t_services d)) \<and>
      list_all ledger_kind_check (map le_kind (t_ledger d)) \<and>
      list_all engine_check (map ue_engine (t_usage d)) \<and>
      list_all invoice_status_check (map iv_status (t_invoices d)) \<and>
      list_all tls_status_check (map dm_tls_status (t_domains d)))"

definition schema_ok :: "db \<Rightarrow> bool" where
  "schema_ok d = (keys_ok d \<and> refs_ok d \<and> checks_ok d)"

lemmas schema_defs = schema_ok_def keys_ok_def refs_ok_def checks_ok_def

lemmas check_defs = member_role_check_def engine_check_def metal_tier_check_def
  service_status_check_def ledger_kind_check_def invoice_status_check_def tls_status_check_def

section \<open>One table at a time\<close>

text \<open>
  A change of one table keeps the schema when the columns that the constraints name stay as
  they are, and the checked ones pass the check.
\<close>

lemma schema_users:
  "schema_ok d \<Longrightarrow> map us_id rs = map us_id (t_users d) \<Longrightarrow> map us_email rs = map us_email (t_users d) \<Longrightarrow>
   schema_ok (d\<lparr>t_users := rs\<rparr>)"
  unfolding schema_defs by simp

lemma schema_workspaces:
  "schema_ok d \<Longrightarrow> map ws_id rs = map ws_id (t_workspaces d) \<Longrightarrow>
   map ws_slug rs = map ws_slug (t_workspaces d) \<Longrightarrow> schema_ok (d\<lparr>t_workspaces := rs\<rparr>)"
  unfolding schema_defs by simp

lemma schema_projects:
  "schema_ok d \<Longrightarrow> map pr_id rs = map pr_id (t_projects d) \<Longrightarrow>
   map pr_workspace rs = map pr_workspace (t_projects d) \<Longrightarrow>
   map (\<lambda>p. (pr_workspace p, pr_name p)) rs = map (\<lambda>p. (pr_workspace p, pr_name p)) (t_projects d) \<Longrightarrow>
   map (\<lambda>p. (pr_workspace p, pr_slug p)) rs = map (\<lambda>p. (pr_workspace p, pr_slug p)) (t_projects d) \<Longrightarrow>
   schema_ok (d\<lparr>t_projects := rs\<rparr>)"
  unfolding schema_defs by (simp del: set_map)

lemma schema_services:
  "schema_ok d \<Longrightarrow> map sv_id rs = map sv_id (t_services d) \<Longrightarrow>
   map sv_slug rs = map sv_slug (t_services d) \<Longrightarrow>
   map sv_workspace rs = map sv_workspace (t_services d) \<Longrightarrow>
   map sv_project rs = map sv_project (t_services d) \<Longrightarrow>
   map sv_engine rs = map sv_engine (t_services d) \<Longrightarrow>
   map sv_metal_tier rs = map sv_metal_tier (t_services d) \<Longrightarrow>
   list_all service_status_check (map sv_status rs) \<Longrightarrow> schema_ok (d\<lparr>t_services := rs\<rparr>)"
  unfolding schema_defs by (simp del: set_map list.pred_map)

lemma schema_ledger:
  "schema_ok d \<Longrightarrow> map le_id rs = map le_id (t_ledger d) \<Longrightarrow>
   map le_workspace rs = map le_workspace (t_ledger d) \<Longrightarrow> map le_kind rs = map le_kind (t_ledger d) \<Longrightarrow>
   schema_ok (d\<lparr>t_ledger := rs\<rparr>)"
  unfolding schema_defs by (simp del: set_map list.pred_map)

lemma schema_usage:
  "schema_ok d \<Longrightarrow> map ue_id rs = map ue_id (t_usage d) \<Longrightarrow>
   map ue_workspace rs = map ue_workspace (t_usage d) \<Longrightarrow>
   map ue_service rs = map ue_service (t_usage d) \<Longrightarrow> map ue_engine rs = map ue_engine (t_usage d) \<Longrightarrow>
   schema_ok (d\<lparr>t_usage := rs\<rparr>)"
  unfolding schema_defs by (simp del: set_map list.pred_map)

lemma schema_outbox: "schema_ok d \<Longrightarrow> distinct (map ob_id rs) \<Longrightarrow> schema_ok (d\<lparr>t_outbox := rs\<rparr>)"
  unfolding schema_defs by simp

lemma schema_keys_table:
  "schema_ok d \<Longrightarrow> map ak_id rs = map ak_id (t_api_keys d) \<Longrightarrow>
   map ak_token_hash rs = map ak_token_hash (t_api_keys d) \<Longrightarrow>
   map ak_user rs = map ak_user (t_api_keys d) \<Longrightarrow> schema_ok (d\<lparr>t_api_keys := rs\<rparr>)"
  unfolding schema_defs by (simp del: set_map)

lemma schema_domains:
  "schema_ok d \<Longrightarrow> map dm_id rs = map dm_id (t_domains d) \<Longrightarrow>
   map dm_domain rs = map dm_domain (t_domains d) \<Longrightarrow> map dm_project rs = map dm_project (t_domains d) \<Longrightarrow>
   list_all tls_status_check (map dm_tls_status rs) \<Longrightarrow> schema_ok (d\<lparr>t_domains := rs\<rparr>)"
  unfolding schema_defs by (simp del: set_map list.pred_map)

lemma schema_certs:
  "schema_ok d \<Longrightarrow> distinct (map dc_domain_id rs) \<Longrightarrow>
   set (map dc_domain_id rs) \<subseteq> set (map dm_id (t_domains d)) \<Longrightarrow> schema_ok (d\<lparr>t_certs := rs\<rparr>)"
  unfolding schema_defs by simp

lemma schema_acme: "schema_ok d \<Longrightarrow> distinct (map ac_token rs) \<Longrightarrow> schema_ok (d\<lparr>t_acme := rs\<rparr>)"
  unfolding schema_defs by simp

lemma schema_invites: "schema_ok d \<Longrightarrow> distinct (map ic_code rs) \<Longrightarrow> schema_ok (d\<lparr>t_invites := rs\<rparr>)"
  unfolding schema_defs by simp

lemmas schema_update = schema_users schema_workspaces schema_projects schema_services schema_ledger
  schema_usage schema_outbox schema_keys_table schema_domains schema_certs schema_acme schema_invites

text \<open>A new row has new keys, refers to rows that exist, and passes the checks.\<close>

lemma schema_new_user:
  "schema_ok d \<Longrightarrow> us_id r \<notin> us_id ` set (t_users d) \<Longrightarrow> us_email r \<notin> us_email ` set (t_users d) \<Longrightarrow>
   schema_ok (d\<lparr>t_users := t_users d @ [r]\<rparr>)"
  unfolding schema_defs by auto

lemma schema_new_workspace:
  "schema_ok d \<Longrightarrow> ws_id r \<notin> ws_id ` set (t_workspaces d) \<Longrightarrow>
   ws_slug r \<notin> ws_slug ` set (t_workspaces d) \<Longrightarrow> schema_ok (d\<lparr>t_workspaces := t_workspaces d @ [r]\<rparr>)"
  unfolding schema_defs by (simp add: subset_insertI2)

lemma schema_new_member:
  "schema_ok d \<Longrightarrow> (wm_workspace r, wm_user r) \<notin> (\<lambda>m. (wm_workspace m, wm_user m)) ` set (t_members d) \<Longrightarrow>
   wm_workspace r \<in> ws_id ` set (t_workspaces d) \<Longrightarrow> wm_user r \<in> us_id ` set (t_users d) \<Longrightarrow>
   member_role_check (wm_role r) \<Longrightarrow> schema_ok (d\<lparr>t_members := t_members d @ [r]\<rparr>)"
  unfolding schema_defs by simp

lemma schema_new_project:
  "schema_ok d \<Longrightarrow> pr_id r \<notin> pr_id ` set (t_projects d) \<Longrightarrow>
   (pr_workspace r, pr_name r) \<notin> (\<lambda>p. (pr_workspace p, pr_name p)) ` set (t_projects d) \<Longrightarrow>
   (pr_workspace r, pr_slug r) \<notin> (\<lambda>p. (pr_workspace p, pr_slug p)) ` set (t_projects d) \<Longrightarrow>
   pr_workspace r \<in> ws_id ` set (t_workspaces d) \<Longrightarrow>
   schema_ok (d\<lparr>t_projects := t_projects d @ [r]\<rparr>)"
  unfolding schema_defs by (simp add: subset_insertI2)

lemma schema_new_service:
  "schema_ok d \<Longrightarrow> sv_id r \<notin> sv_id ` set (t_services d) \<Longrightarrow> sv_slug r \<notin> sv_slug ` set (t_services d) \<Longrightarrow>
   sv_workspace r \<in> ws_id ` set (t_workspaces d) \<Longrightarrow> sv_project r \<in> pr_id ` set (t_projects d) \<Longrightarrow>
   service_status_check (sv_status r) \<Longrightarrow> engine_check (sv_engine r) \<Longrightarrow>
   metal_tier_check (sv_metal_tier r) \<Longrightarrow> schema_ok (d\<lparr>t_services := t_services d @ [r]\<rparr>)"
  unfolding schema_defs by (simp add: subset_insertI2)

lemma schema_new_deployment:
  "schema_ok d \<Longrightarrow> dl_id r \<notin> dl_id ` set (t_deployments d) \<Longrightarrow>
   dl_workspace r \<in> ws_id ` set (t_workspaces d) \<Longrightarrow> dl_deployed_by r \<in> us_id ` set (t_users d) \<Longrightarrow>
   schema_ok (d\<lparr>t_deployments := t_deployments d @ [r]\<rparr>)"
  unfolding schema_defs by simp

lemma schema_new_entry:
  "schema_ok d \<Longrightarrow> le_id r \<notin> le_id ` set (t_ledger d) \<Longrightarrow>
   le_workspace r \<in> ws_id ` set (t_workspaces d) \<Longrightarrow> ledger_kind_check (le_kind r) \<Longrightarrow>
   schema_ok (d\<lparr>t_ledger := t_ledger d @ [r]\<rparr>)"
  unfolding schema_defs by simp

lemma schema_new_usage:
  "schema_ok d \<Longrightarrow> ue_id r \<notin> ue_id ` set (t_usage d) \<Longrightarrow>
   ue_workspace r \<in> ws_id ` set (t_workspaces d) \<Longrightarrow> ue_service r \<in> sv_id ` set (t_services d) \<Longrightarrow>
   engine_check (ue_engine r) \<Longrightarrow> schema_ok (d\<lparr>t_usage := t_usage d @ [r]\<rparr>)"
  unfolding schema_defs by simp

lemma schema_new_invoice:
  "schema_ok d \<Longrightarrow> iv_id r \<notin> iv_id ` set (t_invoices d) \<Longrightarrow>
   iv_stripe_id r \<notin> iv_stripe_id ` set (t_invoices d) \<Longrightarrow>
   iv_workspace r \<in> ws_id ` set (t_workspaces d) \<Longrightarrow> invoice_status_check (iv_status r) \<Longrightarrow>
   schema_ok (d\<lparr>t_invoices := t_invoices d @ [r]\<rparr>)"
  unfolding schema_defs by simp

lemma schema_new_key:
  "schema_ok d \<Longrightarrow> ak_id r \<notin> ak_id ` set (t_api_keys d) \<Longrightarrow>
   ak_token_hash r \<notin> ak_token_hash ` set (t_api_keys d) \<Longrightarrow> ak_user r \<in> us_id ` set (t_users d) \<Longrightarrow>
   schema_ok (d\<lparr>t_api_keys := t_api_keys d @ [r]\<rparr>)"
  unfolding schema_defs by simp

lemma schema_new_domain:
  "schema_ok d \<Longrightarrow> dm_id r \<notin> dm_id ` set (t_domains d) \<Longrightarrow> dm_domain r \<notin> dm_domain ` set (t_domains d) \<Longrightarrow>
   dm_project r \<in> pr_id ` set (t_projects d) \<Longrightarrow> tls_status_check (dm_tls_status r) \<Longrightarrow>
   schema_ok (d\<lparr>t_domains := t_domains d @ [r]\<rparr>)"
  unfolding schema_defs by (simp add: subset_insertI2)

lemmas schema_insert = schema_new_user schema_new_workspace schema_new_member schema_new_project
  schema_new_service schema_new_deployment schema_new_entry schema_new_usage schema_new_invoice
  schema_new_key schema_new_domain

section \<open>Every statement keeps the schema\<close>

lemma list_all_map_update:
  "list_all P (map f xs) \<Longrightarrow> (\<And>r. P (f r) \<Longrightarrow> P (f (g r))) \<Longrightarrow>
   list_all P (map f (update_where p g xs))"
  by (auto simp: list_all_iff update_where_def)

lemma distinct_map_delete: "distinct (map f xs) \<Longrightarrow> distinct (map f (delete_where p xs))"
  by (simp add: delete_where_def distinct_map_filter)

lemma schema_columns:
  "schema_ok d \<Longrightarrow> distinct (map ob_id (t_outbox d))" "schema_ok d \<Longrightarrow> distinct (map ac_token (t_acme d))"
  "schema_ok d \<Longrightarrow> distinct (map ic_code (t_invites d))"
  "schema_ok d \<Longrightarrow> distinct (map dc_domain_id (t_certs d))"
  "schema_ok d \<Longrightarrow> list_all service_status_check (map sv_status (t_services d))"
  "schema_ok d \<Longrightarrow> list_all tls_status_check (map dm_tls_status (t_domains d))"
  by (simp_all add: schema_defs)

lemma sql_unchanged: "sql_keeps J (\<lambda>t u d. Inr (x, d))"
  by (rule sql_keepsI) simp

lemmas key_member = list_ex_iff image_iff workspace_exists_def service_exists_def project_exists_def
  service_slug_free_def list_all_iff

lemma exists_keys:
  "workspace_exists wid d \<longleftrightarrow> wid \<in> ws_id ` set (t_workspaces d)"
  "project_exists pid d \<longleftrightarrow> pid \<in> pr_id ` set (t_projects d)"
  "service_exists sid d \<longleftrightarrow> sid \<in> sv_id ` set (t_services d)"
  "service_slug_free slug d \<longleftrightarrow> slug \<notin> sv_slug ` set (t_services d)"
  by (auto simp: key_member)

lemma filter_one_key: "filter (\<lambda>w. k w = x) rs = [r] \<Longrightarrow> x \<in> k ` set rs"
  by (auto dest: filter_singletonD)

lemma schema_key_statements:
  "sql_keeps schema_ok (sql_touch_api_key h)"
  "sql_keeps schema_ok (sql_insert_api_key uid name h pre scopes expires)"
  "sql_keeps schema_ok (sql_delete_api_key kid uid)"
  by (rule sql_keepsI, auto simp: sql_touch_api_key_def sql_insert_api_key_def sql_delete_api_key_def
      Let_def map_update_where key_member intro!: schema_keys_table schema_new_key
      split: list.splits if_splits)+

lemma schema_accounting:
  "sql_keeps schema_ok (sql_set_customer c wid)" "sql_keeps schema_ok (sql_set_last_invoice t' wid)"
  "sql_keeps schema_ok (sql_insert_invoice wid iv cents a b)"
  "sql_keeps schema_ok (sql_add_free_used n wid)"
  "sql_keeps schema_ok (sql_mark_billed ids)" "sql_keeps schema_ok (sql_reset_free env)"
  by (rule sql_keepsI, auto simp: sql_set_customer_def sql_set_last_invoice_def sql_insert_invoice_def
      sql_add_free_used_def sql_mark_billed_def sql_reset_free_def Let_def map_update_where key_member
      intro!: schema_workspaces schema_usage schema_new_invoice split: list.splits if_splits)+

lemma schema_usage_insert:
  "eng \<in> {''metal'', ''liquid''} \<Longrightarrow> sql_keeps schema_ok (sql_insert_usage wid sid eng q dur)"
  by (rule sql_keepsI) (auto simp: sql_insert_usage_def key_member engine_check_def
      intro!: schema_new_usage split: if_splits)

lemma schema_outbox_statements:
  "sql_keeps schema_ok (sql_insert_outbox subject ev)" "sql_keeps schema_ok (sql_delete_outbox ids)"
  "sql_keeps schema_ok (sql_delete_stale n)" "sql_keeps schema_ok (sql_clean_outbox env sid)"
  by (rule sql_keepsI, auto simp: sql_insert_outbox_def sql_delete_outbox_def sql_delete_stale_def
      sql_clean_outbox_def Let_def key_member distinct_map_delete schema_columns
      intro!: schema_outbox split: if_splits)+

lemma schema_update_services:
  assumes "schema_ok d"
    and "\<And>s. sv_id (f s) = sv_id s \<and> sv_slug (f s) = sv_slug s \<and> sv_workspace (f s) = sv_workspace s \<and>
      sv_project (f s) = sv_project s \<and> sv_engine (f s) = sv_engine s \<and>
      sv_metal_tier (f s) = sv_metal_tier s"
    and "\<And>s. service_status_check (sv_status s) \<Longrightarrow> service_status_check (sv_status (f s))"
  shows "schema_ok (d\<lparr>t_services := update_where p f (t_services d)\<rparr>)"
  by (rule schema_services [OF assms(1)])
    (use assms schema_columns(5) [OF assms(1)] in \<open>auto simp: map_update_where intro!: list_all_map_update simp del: list.pred_map\<close>)

lemma schema_service_statements:
  "sql_keeps schema_ok (sql_advance_cycle sid)" "sql_keeps schema_ok (sql_set_status st sid)"
  "sql_keeps schema_ok (sql_stop_service sid)" "sql_keeps schema_ok (sql_delete_service sid)"
  "sql_keeps schema_ok (sql_start_again sid)" "sql_keeps schema_ok (sql_retire_old wid slug)"
  "sql_keeps schema_ok (sql_close_services wid)" "sql_keeps schema_ok (sql_roll_back sid key sha)"
proof -
  have st: "service_status_check ''stopped''" "service_status_check ''provisioning''"
    by (simp_all add: service_status_check_def)
  have "sql_set_status st sid t u d = Inr (x, d') \<Longrightarrow> schema_ok d \<Longrightarrow> schema_ok d'" for t u d x d'
  proof (cases "service_exists sid d")
    case False
    then have "update_where (\<lambda>s. sv_id s = sid) f (t_services d) = t_services d" for f
      by (intro update_where_none) (auto simp: key_member)
    then show "sql_set_status st sid t u d = Inr (x, d') \<Longrightarrow> schema_ok d \<Longrightarrow> schema_ok d'"
      by (auto simp: sql_set_status_def split: if_splits)
  qed (auto simp: sql_set_status_def intro!: schema_update_services split: if_splits)
  then show "sql_keeps schema_ok (sql_set_status st sid)" by (blast intro: sql_keepsI)
  show "sql_keeps schema_ok (sql_advance_cycle sid)" "sql_keeps schema_ok (sql_stop_service sid)"
    "sql_keeps schema_ok (sql_delete_service sid)" "sql_keeps schema_ok (sql_start_again sid)"
    "sql_keeps schema_ok (sql_retire_old wid slug)" "sql_keeps schema_ok (sql_close_services wid)"
    "sql_keeps schema_ok (sql_roll_back sid key sha)"
    by (rule sql_keepsI, auto simp: sql_advance_cycle_def sql_stop_service_def sql_delete_service_def
        sql_start_again_def sql_retire_old_def sql_close_services_def sql_roll_back_def Let_def st
        intro!: schema_update_services split: list.splits if_splits)+
qed

lemma schema_tenants:
  "sql_keeps schema_ok (sql_close_projects wid)" "sql_keeps schema_ok (sql_close_workspace wid)"
  "sql_keeps schema_ok (sql_insert_project pid wid name slug)"
  "sql_keeps schema_ok (sql_set_oidc_sub sub email)"
  "sql_keeps schema_ok (sql_upsert_user uid email name sub')"
  "sql_keeps schema_ok (sql_upsert_workspace env wid name slug)"
  "sql_keeps schema_ok (sql_upsert_member wid uid)" "sql_keeps schema_ok (sql_use_invite uid code)"
  "sql_keeps schema_ok (sql_insert_invite code)"
  by (rule sql_keepsI, auto simp: sql_close_projects_def sql_close_workspace_def sql_insert_project_def
      sql_set_oidc_sub_def sql_upsert_user_def sql_upsert_workspace_def sql_upsert_member_def
      sql_use_invite_def sql_insert_invite_def map_update_where key_member schema_columns
      member_role_check_def filter_empty_conv
      intro!: schema_projects schema_workspaces schema_users schema_invites schema_new_project
        schema_new_user schema_new_workspace schema_new_member split: list.splits if_splits)+

lemma schema_update_domains:
  assumes "schema_ok d"
    and "\<And>m. dm_id (f m) = dm_id m \<and> dm_domain (f m) = dm_domain m \<and> dm_project (f m) = dm_project m"
    and "\<And>m. tls_status_check (dm_tls_status m) \<Longrightarrow> tls_status_check (dm_tls_status (f m))"
  shows "schema_ok (d\<lparr>t_domains := update_where p f (t_domains d)\<rparr>)"
  by (rule schema_domains [OF assms(1)])
    (use assms schema_columns(6) [OF assms(1)] in \<open>auto simp: map_update_where intro!: list_all_map_update simp del: list.pred_map\<close>)

lemma schema_tls_status: "tls_status_check st \<Longrightarrow> sql_keeps schema_ok (sql_set_tls_status st did)"
  by (rule sql_keepsI) (auto simp: sql_set_tls_status_def intro!: schema_update_domains)

text \<open>A domain goes with its certificate row: the foreign key cascades.\<close>

lemma schema_delete_domain: "sql_keeps schema_ok (sql_delete_domain sid name)"
proof (rule sql_keepsI)
  fix t u d x d' assume ok: "schema_ok d" and q: "sql_delete_domain sid name t u d = Inr (x, d')"
  let ?p = "\<lambda>m. dm_service m = Some sid \<and> dm_domain m = name"
  have d': "d' = d\<lparr>t_domains := delete_where ?p (t_domains d),
      t_certs := delete_where (\<lambda>c. dc_domain_id c \<in> set (map dm_id (filter ?p (t_domains d)))) (t_certs d)\<rparr>"
    using q by (simp add: sql_delete_domain_def Let_def)
  have certs: "dc_domain_id c \<in> dm_id ` set (t_domains d)" if "c \<in> set (t_certs d)" for c
    using ok that unfolding schema_ok_def refs_ok_def by auto
  have "set (map dc_domain_id (t_certs d')) \<subseteq> set (map dm_id (t_domains d'))"
    using certs unfolding d' by (auto simp: image_iff)
  then show "schema_ok d'"
    using ok unfolding d' schema_defs by (auto simp: distinct_map_delete list_all_iff)
qed

lemma schema_domain_statements:
  "sql_keeps schema_ok (sql_insert_domain env did pid sid name)"
  "sql_keeps schema_ok (sql_put_challenge token key name)"
  "sql_keeps schema_ok (sql_drop_challenge token)" "sql_keeps schema_ok sql_gc_challenges" "sql_keeps schema_ok (sql_set_verified did)"
  by (rule sql_keepsI, auto simp: sql_insert_domain_def new_domain_def sql_put_challenge_def
      sql_drop_challenge_def sql_gc_challenges_def sql_set_verified_def
      map_update_where distinct_map_delete key_member schema_columns tls_status_check_def
      intro!: schema_new_domain schema_acme schema_update_domains split: if_splits)+

lemma schema_upsert_cert: "sql_keeps schema_ok (sql_upsert_cert did)"
proof (rule sql_keepsI)
  fix t u d x d' assume ok: "schema_ok d" and q: "sql_upsert_cert did t u d = Inr (x, d')"
  have "set (map dc_domain_id (t_certs d)) \<subseteq> set (map dm_id (t_domains d))"
    using ok unfolding schema_ok_def refs_ok_def by blast
  moreover have "did \<in> set (map dm_id (t_domains d))"
    using q by (force simp: sql_upsert_cert_def list_ex_iff split: if_splits)
  ultimately show "schema_ok d'"
    using q schema_columns(4) [OF ok]
    by (auto simp: sql_upsert_cert_def list_ex_iff map_update_where intro!: schema_certs [OF ok]
        split: if_splits simp del: set_map) auto
qed

lemma schema_money:
  "sql_keeps schema_ok (sql_adjust_balance p x)" "sql_keeps schema_ok (sql_insert_ledger wid x k desc r b)"
  "sql_keeps schema_ok (sql_insert_topup c pi cus ses)" "sql_keeps schema_ok (sql_patch_ledger b ses)"
  "sql_keeps schema_ok (sql_charge wid cost)"
  by (rule sql_keepsI, auto simp: sql_adjust_balance_def sql_insert_ledger_def sql_insert_topup_def
      sql_patch_ledger_def sql_charge_def map_update_where key_member
      ledger_kind_check_def intro!: schema_workspaces schema_ledger schema_new_entry
      dest: filter_singletonD split: list.splits if_splits)+

lemma schema_deploys:
  "sql_keeps schema_ok (sql_insert_charge lid wid x desc)"
  "sql_keeps schema_ok (sql_insert_service p)"
  "sql_keeps schema_ok (sql_insert_deployment sid wid slug eng key sha port uid)"
proof -
  show "sql_keeps schema_ok (sql_insert_charge lid wid x desc)"
    by (rule sql_keepsI) (auto simp: sql_insert_charge_def list_ex_iff ledger_kind_check_def
        intro!: schema_new_entry dest!: filter_one_key split: list.splits if_splits)
  have "engine_check (engine_as_str e)" for e by (cases e) (simp_all add: engine_check_def engine_as_str_def)
  then show "sql_keeps schema_ok (sql_insert_service p)"
    by (intro sql_keepsI)
      (auto simp: sql_insert_service_def new_service_def exists_keys service_status_check_def
        metal_tier_check_def intro!: schema_new_service split: prod.splits if_splits)
  show "sql_keeps schema_ok (sql_insert_deployment sid wid slug eng key sha port uid)"
    by (rule sql_keepsI) (auto simp: sql_insert_deployment_def exists_keys list_ex_iff
        intro!: schema_new_deployment split: if_splits)
qed

interpretation schema: all_statements schema_ok
  by unfold_locales
    (rule schema_key_statements schema_accounting schema_usage_insert schema_outbox_statements
      schema_service_statements schema_tenants schema_domain_statements schema_delete_domain schema_upsert_cert
      schema_tls_status schema_money schema_deploys; assumption?)+

section \<open>Domains verified so far\<close>

definition verified_within :: "(uuid \<times> string) set \<Rightarrow> db \<Rightarrow> bool" where
  "verified_within V d =
     (\<forall>m \<in> set (t_domains d). dm_is_verified m \<longrightarrow> (dm_id m, dm_domain m) \<in> V)"

definition no_domains :: "'a sql \<Rightarrow> bool" where
  "no_domains f = (\<forall>t u d x d'. f t u d = Inr (x, d') \<longrightarrow> t_domains d' = t_domains d)"

lemma no_domainsI:
  "(\<And>t u d x d'. f t u d = Inr (x, d') \<Longrightarrow> t_domains d' = t_domains d) \<Longrightarrow> no_domains f"
  by (simp add: no_domains_def)

lemma no_domains_keeps: "no_domains f \<Longrightarrow> sql_keeps (verified_within V) f"
  unfolding no_domains_def verified_within_def by (intro sql_keepsI) metis

lemma no_domains_keys_money:
  "no_domains (sql_touch_api_key h)" "no_domains (sql_insert_api_key uid name h pre scopes expires)"
  "no_domains (sql_delete_api_key kid uid)" "no_domains (sql_set_customer c wid)"
  "no_domains (sql_set_last_invoice t' wid)" "no_domains (sql_insert_invoice wid iv cents a b)"
  "no_domains (sql_add_free_used n wid)" "no_domains (sql_mark_billed ids)"
  "no_domains (sql_reset_free env)" "no_domains (sql_insert_usage wid sid eng q dur)"
  "no_domains (sql_adjust_balance p x)" "no_domains (sql_insert_ledger wid x k desc r b)"
  "no_domains (sql_insert_topup cr pi cus ses)" "no_domains (sql_patch_ledger b' ses)"
  "no_domains (sql_charge wid cost)" "no_domains (sql_insert_charge lid wid x desc)"
  by (rule no_domainsI, auto simp: sql_touch_api_key_def sql_insert_api_key_def
      sql_delete_api_key_def sql_set_customer_def sql_set_last_invoice_def sql_insert_invoice_def
      sql_add_free_used_def sql_mark_billed_def sql_reset_free_def sql_insert_usage_def
      sql_adjust_balance_def sql_insert_ledger_def sql_insert_topup_def sql_patch_ledger_def
      sql_charge_def sql_insert_charge_def Let_def split: list.splits if_splits)+

lemma no_domains_services:
  "no_domains (sql_insert_outbox subject ev)" "no_domains (sql_delete_outbox ids)"
  "no_domains (sql_delete_stale n)" "no_domains (sql_clean_outbox env sid)"
  "no_domains (sql_advance_cycle sid)" "no_domains (sql_set_status st sid)"
  "no_domains (sql_stop_service sid)" "no_domains (sql_delete_service sid)"
  "no_domains (sql_start_again sid)" "no_domains (sql_retire_old wid slug)"
  "no_domains (sql_insert_service p)" "no_domains (sql_roll_back sid key sha)"
  "no_domains (sql_insert_deployment sid wid slug eng key' sha' port uid)"
  by (rule no_domainsI, auto simp: sql_insert_outbox_def sql_delete_outbox_def sql_delete_stale_def
      sql_clean_outbox_def sql_advance_cycle_def sql_set_status_def sql_stop_service_def
      sql_delete_service_def sql_start_again_def sql_retire_old_def sql_insert_service_def
      sql_roll_back_def sql_insert_deployment_def Let_def split: list.splits if_splits)+

lemma no_domains_tenants:
  "no_domains (sql_close_services wid)" "no_domains (sql_close_projects wid)"
  "no_domains (sql_close_workspace wid)" "no_domains (sql_insert_project pid wid name slug)"
  "no_domains (sql_set_oidc_sub sub email)" "no_domains (sql_upsert_user uid email name' sub')"
  "no_domains (sql_upsert_workspace env wid name slug)" "no_domains (sql_upsert_member wid uid)"
  "no_domains (sql_use_invite uid code)" "no_domains (sql_insert_invite code)"
  "no_domains (sql_put_challenge token key name)" "no_domains (sql_drop_challenge token)"
  "no_domains (sql_upsert_cert did)" "no_domains sql_gc_challenges"
  by (rule no_domainsI, auto simp: sql_close_services_def sql_close_projects_def
      sql_close_workspace_def sql_insert_project_def sql_set_oidc_sub_def sql_upsert_user_def
      sql_upsert_workspace_def sql_upsert_member_def sql_use_invite_def sql_insert_invite_def
      sql_put_challenge_def sql_drop_challenge_def sql_upsert_cert_def sql_gc_challenges_def
      split: list.splits if_splits)+

lemma verified_domain_statements:
  "sql_keeps (verified_within V) (sql_insert_domain env did pid sid name)"
  "sql_keeps (verified_within V) (sql_delete_domain sid name)"
  "sql_keeps (verified_within V) (sql_set_tls_status st did)"
  by (rule sql_keepsI, auto simp: sql_insert_domain_def new_domain_def sql_delete_domain_def
      sql_set_tls_status_def verified_within_def in_update_where Let_def split: if_splits)+

interpretation verified: all_statements "verified_within V" for V
  by unfold_locales
    (rule verified_domain_statements | rule no_domains_keeps, rule no_domains_keys_money
      no_domains_services no_domains_tenants)+

text \<open>What a run of the verification route can do to the tables.\<close>

lemma sql_domain_for_mem:
  assumes "sql_domain_for sid name uid t u d = Inr (Some (m, slug, role), d')"
  shows "d' = d \<and> m \<in> set (t_domains d) \<and> dm_domain m = name \<and>
    (\<exists>s \<in> set (t_services d). dm_service m = Some (sv_id s) \<and> sv_slug s = slug \<and>
       sv_deleted_at s = None \<and>
       (\<exists>wm \<in> set (t_members d). wm_workspace wm = sv_workspace s \<and> wm_user wm = uid \<and> wm_role wm = role))"
proof -
  have "d' = d \<and> (m, slug, role) \<in> set (concat (map (\<lambda>m. concat (map (\<lambda>s. map (\<lambda>wm. (m, sv_slug s, wm_role wm))
         (filter (\<lambda>wm. wm_workspace wm = sv_workspace s \<and> wm_user wm = uid) (t_members d)))
       (filter (\<lambda>s. dm_service m = Some (sv_id s) \<and> sv_deleted_at s = None) (t_services d))))
     (filter (\<lambda>m. dm_service m = Some sid \<and> dm_domain m = name) (t_domains d))))"
    using assms unfolding sql_domain_for_def opt_row_Inr by simp
  then show ?thesis by auto
qed

definition dns_vouches :: "env \<Rightarrow> db \<Rightarrow> caller \<Rightarrow> domain_row \<Rightarrow> bool" where
  "dns_vouches env d caller m =
     (m \<in> set (t_domains d) \<and>
      (\<exists>s \<in> set (t_services d). dm_service m = Some (sv_id s) \<and> sv_deleted_at s = None \<and>
        verify_domain_dns env (dm_domain m) (sv_slug s) (dm_verification_token m) \<and>
        (\<exists>wm \<in> set (t_members d). wm_workspace wm = sv_workspace s \<and> wm_user wm = ca_user_id caller \<and>
           wm_role wm \<in> {''owner'', ''admin''})))"

definition idle_or :: "db \<Rightarrow> (db \<Rightarrow> bool) \<Rightarrow> (err + 'a) \<times> world \<Rightarrow> bool" where
  "idle_or d Q r = (w_db (snd r) = d \<or> Q (w_db (snd r)))"

lemma idle_or_andthen:
  assumes "reads m" and "w_db w = d"
    and "\<And>x w1. m w = (Inr x, w1) \<Longrightarrow> w_db w1 = d \<Longrightarrow> idle_or d Q (f x w1)"
  shows "idle_or d Q (andthen m f w)"
proof (cases "m w")
  case (Pair r w1)
  then have db: "w_db w1 = d" using assms(1,2) unfolding reads_def by (metis snd_conv)
  show ?thesis
  proof (cases r)
    case Inl with Pair db show ?thesis by (simp add: idle_or_def andthen_def)
  next
    case (Inr x) with Pair db assms(3) show ?thesis by (simp add: andthen_def)
  qed
qed

lemma verify_domain_effect:
  "idle_or (w_db w) (\<lambda>d'. \<exists>m. dns_vouches env (w_db w) caller m \<and> scope_allowed caller ''write'' \<and>
     d' = (w_db w)\<lparr>t_domains := update_where (\<lambda>x. dm_id x = dm_id m)
       (\<lambda>x. x\<lparr>dm_is_verified := True\<rparr>) (t_domains (w_db w))\<rparr>) (verify_domain env caller i name w)"
  (is "idle_or ?d ?Q _")
proof -
  have last: "idle_or ?d ?Q (andthen (if v then query env h (sql_set_verified (dm_id m)) else ret ()) (\<lambda>_.
      ret (dm_domain m, v)) w1)"
    if "w_db w1 = ?d" "v \<Longrightarrow> dns_vouches env ?d caller m" "scope_allowed caller ''write''" for v m w1 h
    using that by (auto simp: idle_or_def andthen_def ret_def query_def sql_set_verified_def
        split: prod.splits sum.splits if_splits)
  have mem: "dns_vouches env ?d caller m"
    if "query env h (sql_domain_for sid name (ca_user_id caller)) w2 = (Inr (Some (m, slug, role)), w3)"
      "w_db w2 = ?d" "require_workspace_role role ''admin'' = Inr ()"
      "verify_domain_dns env (dm_domain m) slug (dm_verification_token m)" for h sid w2 m slug role w3
  proof -
    from that(1,2) obtain u d' where
      "sql_domain_for sid name (ca_user_id caller) (e_now env) u ?d = Inr (Some (m, slug, role), d')"
      by (auto simp: run_simps)
    from sql_domain_for_mem [OF this] that(3,4) show ?thesis
      unfolding dns_vouches_def require_workspace_role_admin by blast
  qed
  show ?thesis
    unfolding verify_domain_def Let_def
    apply (rule idle_or_andthen, rule read_rules, rule refl)
    apply (rule idle_or_andthen, simp add: parse_uuid_def read_rules, assumption)
    apply (rule idle_or_andthen, simp add: reads_def db_conn_def, assumption)
    apply (rule idle_or_andthen, intro read_rules, assumption)
    apply (rule idle_or_andthen, rule read_rules, assumption)
    apply (clarsimp simp: run_simps simp del: query_Inr split del: if_split)
    apply (rule idle_or_andthen, rule read_rules, assumption)
    apply (clarsimp simp: run_simps simp del: query_Inr split del: if_split)
    apply (rule last, assumption)
     apply (erule mem, simp_all)
    apply (simp add: require_scope_ok)
    done
qed

end
