(* ===== verification/Platform.thy ===== *)
theory Platform
  imports Integrity
begin

text \<open>
  The API as one machine: a request is one call of a handler or one run of a background
  task, a history is a sequence of them, each under faults, a clock and random ids of its
  own. What every request keeps is read off from \<open>Handlers\<close>.
\<close>

section \<open>The platform as a whole\<close>

datatype request =
    Authenticate "string \<rightharpoonup> string"
  | CreateKey caller string "string list" "nat option"
  | DeleteKey caller string
  | StripeEvent webhook_event
  | CreateTopup caller nat string string
  | StoreMetalUsage metal_usage_event
  | StoreLiquidUsage liquid_usage_event
  | AggregateUsage
  | BillMetal
  | ResetFree
  | GenerateInvoices
  | Deploy caller deploy_request
  | RollbackTo caller string "string option"
  | Stop caller string
  | Delete caller string
  | Restart caller string
  | PollOutbox int
  | PurgeOutbox int
  | ProvisionUser "string \<rightharpoonup> string" provision_request
  | CliProvision provision_request
  | CreateInvites "string \<rightharpoonup> string" "int option"
  | DeleteWorkspace caller string
  | CreateProject caller string string string
  | AddDomain caller string string
  | VerifyDomain caller string string
  | RemoveDomain caller string string
  | CertRound "string \<Rightarrow> acme"
  | SetVars caller string env_map
  | UnsetVars caller string "string list"
  | SetProjectVars caller string env_map
  | UnsetProjectVars caller string "string list"

definition after :: "'a proc \<Rightarrow> world \<Rightarrow> world" where
  "after m w = snd (m w)"

fun perform :: "env \<Rightarrow> request \<Rightarrow> world \<Rightarrow> world" where
  "perform env (Authenticate headers) = after (auth_middleware env headers)"
| "perform env (CreateKey caller name scopes expiry) = after (create_api_key env caller name scopes expiry)"
| "perform env (DeleteKey caller i) = after (delete_api_key env caller i)"
| "perform env (StripeEvent ev) = after (dispatch_webhook env ev)"
| "perform env (CreateTopup caller cents success cancel) = after (create_topup env caller cents success cancel)"
| "perform env (StoreMetalUsage ev) = after (insert_metal_usage env ev)"
| "perform env (StoreLiquidUsage ev) = after (insert_liquid_usage env ev)"
| "perform env AggregateUsage = after (aggregate_once env)"
| "perform env BillMetal = after (metal_billing_once env)"
| "perform env ResetFree = after (free_invocations_reset_once env)"
| "perform env GenerateInvoices = after (generate_invoices_once env)"
| "perform env (Deploy caller body) = after (deploy_service env caller body)"
| "perform env (RollbackTo caller i did) = after (rollback_service env caller i did)"
| "perform env (Stop caller i) = after (stop_service env caller i)"
| "perform env (Delete caller i) = after (delete_service env caller i)"
| "perform env (Restart caller i) = after (restart_service env caller i)"
| "perform env (PollOutbox n) = after (poll_once env n)"
| "perform env (PurgeOutbox mins) = after (cleanup_stale env mins)"
| "perform env (ProvisionUser headers rq) = after (provision_user env headers rq)"
| "perform env (CliProvision rq) = after (cli_provision env rq)"
| "perform env (CreateInvites headers count) = after (create_invites env headers count)"
| "perform env (DeleteWorkspace caller i) = after (delete_workspace env caller i)"
| "perform env (CreateProject caller name slug i) = after (create_project env caller name slug i)"
| "perform env (AddDomain caller i name) = after (add_domain env caller i name)"
| "perform env (VerifyDomain caller i name) = after (verify_domain env caller i name)"
| "perform env (RemoveDomain caller i name) = after (remove_domain env caller i name)"
| "perform env (CertRound acct) = after (cert_round env acct)"
| "perform env (SetVars caller i vars) = after (set_env_vars env caller i vars)"
| "perform env (UnsetVars caller i ks) = after (unset_env_vars env caller i ks)"
| "perform env (SetProjectVars caller i vars) = after (set_project_env_vars env caller i vars)"
| "perform env (UnsetProjectVars caller i ks) = after (unset_project_env_vars env caller i ks)"

text \<open>Stripe's amounts have at most eight digits; nothing else is asked of a request.\<close>

fun request_ok :: "request \<Rightarrow> bool" where
  "request_ok (StripeEvent ev) = amounts_ok (we_object ev)"
| "request_ok _ = True"

text \<open>
  The worlds that a history of requests leads to from \<open>w0\<close>, each request under an
  environment of its own: another clock, other faults, other random ids.
\<close>

inductive reachable :: "world \<Rightarrow> world \<Rightarrow> bool" for w0 where
  start: "reachable w0 w0"
| request: "reachable w0 w \<Longrightarrow> request_ok r \<Longrightarrow> reachable w0 (perform env r w)"

lemma keeps_after: "keeps I m \<Longrightarrow> I (w_db w) \<Longrightarrow> I (w_db (after m w))"
  by (simp add: keeps_def after_def)

lemmas books_rules = books_quiet.keeps_quiet books.keeps_rollback deploy_keeps_books
  dispatch_keeps_books aggregate_keeps_books metal_billing_keeps_books
  books_quiet.keeps_verify_domain books.no_money_keeps no_money_domains

lemma perform_books:
  "request_ok r \<Longrightarrow> ledger_ok (w_db w) \<Longrightarrow> ledger_ok (w_db (perform env r w))"
  by (cases r) (auto intro!: keeps_after books_rules)

lemma keeps_deploy_artifacts: "keeps artifacts_ok (deploy_service env caller body)"
  "keeps artifacts_ok (rollback_service env caller i did)"
  by (simp_all add: keeps_def deploy_keeps_artifacts rollback_keeps_view)

lemmas artifacts_rules = artifacts.keeps_quiet artifacts.keeps_money keeps_deploy_artifacts
  artifacts.keeps_verify_domain artifacts_frame no_artifact_domains

lemma perform_artifacts: "artifacts_ok (w_db w) \<Longrightarrow> artifacts_ok (w_db (perform env r w))"
  by (cases r) (auto intro!: keeps_after artifacts_rules)

lemmas schema_rules = schema.keeps_quiet schema.keeps_money schema.keeps_deploys
  schema.keeps_verify_domain schema_domain_statements

lemma perform_schema: "schema_ok (w_db w) \<Longrightarrow> schema_ok (w_db (perform env r w))"
  by (cases r) (auto intro!: keeps_after schema_rules)

fun verifies :: "request \<Rightarrow> bool" where
  "verifies (VerifyDomain caller i name) = True"
| "verifies _ = False"

lemma perform_verified:
  "\<not> verifies r \<Longrightarrow> verified_within V (w_db w) \<Longrightarrow> verified_within V (w_db (perform env r w))"
  by (cases r; simp; (rule keeps_after)?)
    (assumption | rule verified.keeps_quiet verified.keeps_money verified.keeps_deploys)+

lemma reachable_schema: "reachable w0 w \<Longrightarrow> schema_ok (w_db w0) \<Longrightarrow> schema_ok (w_db w)"
  by (induction rule: reachable.induct) (simp_all add: perform_schema)

end
