(* ===== verification/Tenants.thy ===== *)
theory Tenants
  imports Platform Samples
begin

text \<open>
  Who can become a user, and whom a sign-in lets one be: what the routes of
  \<open>crates/api/src/routes/auth.rs\<close> do to users, invite codes and API keys.
\<close>

section \<open>Runs of the shared sign-in\<close>

lemma reads_check_invite [read_rules]: "reads (check_invite env code)"
  unfolding check_invite_def by (intro read_rules)

lemma set_oidc_sub_tables:
  assumes "query env h (sql_set_oidc_sub sub email) w = (r, w1)"
  shows "t_invites (w_db w1) = t_invites (w_db w) \<and> t_api_keys (w_db w1) = t_api_keys (w_db w) \<and>
    map us_id (t_users (w_db w1)) = map us_id (t_users (w_db w)) \<and>
    map us_email (t_users (w_db w1)) = map us_email (t_users (w_db w)) \<and>
    map us_deleted_at (t_users (w_db w1)) = map us_deleted_at (t_users (w_db w))"
  using assms
  by (auto simp: query_def sql_set_oidc_sub_def map_update_where split: if_splits)

definition oidc_step :: "env \<Rightarrow> provision_request \<Rightarrow> unit proc" where
  "oidc_step env rq =
     (case pq_oidc_sub rq of None \<Rightarrow> ret ()
      | Some sub \<Rightarrow> query env (\<lambda>_. internal ''failed to update OIDC subject'')
                      (sql_set_oidc_sub sub (pq_email rq)))"

definition same_accounts :: "db \<Rightarrow> db \<Rightarrow> bool" where
  "same_accounts d d' =
     (t_invites d' = t_invites d \<and> t_api_keys d' = t_api_keys d \<and>
      map us_id (t_users d') = map us_id (t_users d) \<and>
      map us_email (t_users d') = map us_email (t_users d) \<and>
      map us_deleted_at (t_users d') = map us_deleted_at (t_users d))"

lemma oidc_step_same: "oidc_step env rq w = (r, w1) \<Longrightarrow> same_accounts (w_db w) (w_db w1)"
  using set_oidc_sub_tables
  by (fastforce simp: oidc_step_def same_accounts_def ret_def split: option.splits)

definition sign_up :: "env \<Rightarrow> provision_request \<Rightarrow> string option \<Rightarrow> provision_response proc" where
  "sign_up env rq code =
     andthen (check_invite env code) (\<lambda>_.
     andthen (fresh_id env) (\<lambda>proposed.
     andthen (transact env (internal ''failed to start transaction'')
                (internal ''failed to commit user creation'')
                (signup_txn env proposed rq code)) (\<lambda>(user_id, wid, slug).
     ret \<lparr>pn_id = e_uuid_str env user_id, pn_name = full_name_of env rq, pn_slug = slug,
          pn_workspace_id = e_uuid_str env wid, pn_oidc_sub = pq_oidc_sub rq,
          pn_api_key = None\<rparr>)))"

definition known_user :: "env \<Rightarrow> user_row \<Rightarrow> workspace_row option \<Rightarrow> provision_response" where
  "known_user env r w =
     \<lparr>pn_id = e_uuid_str env (us_id r), pn_name = us_name r,
      pn_slug = (case w of None \<Rightarrow> [] | Some x \<Rightarrow> ws_slug x),
      pn_workspace_id = (case w of None \<Rightarrow> [] | Some x \<Rightarrow> e_uuid_str env (ws_id x)),
      pn_oidc_sub = us_oidc_sub r, pn_api_key = None\<rparr>"

lemma do_provision_steps:
  "do_provision env rq code =
     andthen (oidc_step env rq) (\<lambda>_.
     andthen (query env (\<lambda>_. internal ''user lookup failed'')
                (sql_provision_lookup (pq_email rq))) (\<lambda>existing.
     case existing of Some (r, w) \<Rightarrow> ret (known_user env r w) | None \<Rightarrow> sign_up env rq code))"
  unfolding do_provision_def oidc_step_def known_user_def sign_up_def by simp

lemma lookup_rows:
  assumes "sql_provision_lookup email t u d = Inr (found, d')"
  shows "d' = d \<and> (case found of
     Some (r, w) \<Rightarrow> r \<in> set (t_users d) \<and> live_email email r
   | None \<Rightarrow> (\<forall>r \<in> set (t_users d). \<not> live_email email r))"
proof -
  have ne: "owned_workspaces uid d \<noteq> []" for uid
  proof (cases "filter (\<lambda>m. wm_user m = uid \<and> wm_role m = ''owner'') (t_members d)")
    case (Cons m ms)
    then show ?thesis
      by (cases "filter (\<lambda>w. ws_id w = wm_workspace m) (t_workspaces d)") (simp_all add: owned_workspaces_def)
  qed (simp add: owned_workspaces_def)
  let ?rows = "concat (map (\<lambda>r. map (\<lambda>w. (r, w)) (owned_workspaces (us_id r) d))
       (filter (live_email email) (t_users d)))"
  have empty: "?rows = [] \<longleftrightarrow> filter (live_email email) (t_users d) = []"
    using ne by (auto simp: filter_empty_conv)
  have "\<exists>rs. rs = ?rows" by simp
  then obtain rs where rs: "rs = ?rows" by blast
  have mem: "\<And>r w. (r, w) \<in> set rs \<Longrightarrow> r \<in> set (t_users d) \<and> live_email email r"
    unfolding rs by auto
  from assms have q: "opt_row rs d = Inr (found, d')" by (simp add: sql_provision_lookup_def rs)
  show ?thesis
  proof (cases found)
    case None
    with q have "rs = []" "d' = d" by (auto simp: opt_row_def split: list.splits)
    then show ?thesis using None empty by (auto simp: rs filter_empty_conv)
  next
    case (Some x)
    then have "rs = [x]" "d' = d" using q opt_row_Inr by metis+
    then show ?thesis using Some mem by (cases x) auto
  qed
qed

section \<open>New users\<close>

lemma upsert_user_ids:
  assumes "sql_upsert_user proposed email name sub t u d = Inr (uid, d')"
  shows "uid \<in> us_id ` set (t_users d') \<and> us_id ` set (t_users d') \<subseteq> insert uid (us_id ` set (t_users d)) \<and>
    t_invites d' = t_invites d"
proof (cases "filter (\<lambda>r. us_email r = email) (t_users d)")
  case Nil
  then show ?thesis using assms by (auto simp: sql_upsert_user_def split: if_splits)
next
  case (Cons r rs)
  then have "r \<in> set (t_users d)" by (metis filter_is_subset list.set_intros(1) subsetD)
  moreover have "map us_id (t_users d') = map us_id (t_users d)" "uid = us_id r" "t_invites d' = t_invites d"
    using assms Cons by (auto simp: sql_upsert_user_def map_update_where split: if_splits)
  ultimately show ?thesis by (metis image_eqI list.set_map subset_insertI)
qed

definition only_new :: "db \<Rightarrow> uuid \<Rightarrow> db \<Rightarrow> bool" where
  "only_new d0 uid d = (us_id ` set (t_users d) \<subseteq> insert uid (us_id ` set (t_users d0)))"

lemma only_new_users: "t_users d' = t_users d \<Longrightarrow> only_new d0 uid d' = only_new d0 uid d"
  by (simp add: only_new_def)

definition joined :: "db \<Rightarrow> uuid \<Rightarrow> db \<Rightarrow> bool" where
  "joined d0 uid d = (only_new d0 uid d \<and> t_invites d = t_invites d0)"

definition invite_spent :: "string option \<Rightarrow> uuid \<Rightarrow> db \<Rightarrow> bool" where
  "invite_spent code uid d =
     (\<forall>i \<in> set (t_invites d). code = Some (ic_code i) \<longrightarrow> ic_used_by i = Some uid)"

lemma joined_keeps:
  "sql_keeps (joined d0 uid) (sql_upsert_workspace env wid name slug)"
  "sql_keeps (joined d0 uid) (sql_upsert_member wid uid')"
  by (rule sql_keepsI, auto simp: joined_def only_new_def sql_upsert_workspace_def sql_upsert_member_def
      split: list.splits if_splits)+

lemma use_invite_spends:
  assumes "sql_use_invite uid c t u d = Inr (x, d')"
  shows "t_users d' = t_users d \<and> invite_spent (Some c) uid d'"
proof -
  have d': "t_users d' = t_users d"
    "t_invites d' = update_where (\<lambda>i. ic_code i = c)
       (\<lambda>i. i\<lparr>ic_used_by := Some uid, ic_used_at := Some t\<rparr>) (t_invites d)"
    using assms by (auto simp: sql_use_invite_def split: if_splits)
  have "ic_used_by i = Some uid" if i: "i \<in> set (t_invites d')" "ic_code i = c" for i
  proof -
    from i(1) obtain r where "i = (if ic_code r = c
        then r\<lparr>ic_used_by := Some uid, ic_used_at := Some t\<rparr> else r)"
      unfolding d'(2) in_update_where by blast
    with i(2) show ?thesis by (cases "ic_code r = c") simp_all
  qed
  with d'(1) show ?thesis by (simp add: invite_spent_def)
qed

lemma signup_txn_triple:
  "triple (\<lambda>d. d = d0) (signup_txn env proposed rq code)
     (\<lambda>x d. case x of Rollback y \<Rightarrow> False
      | Commit (uid, wid, slug) \<Rightarrow> only_new d0 uid d \<and> invite_spent code uid d)"
proof -
  have some: "triple (joined d0 uid) (stmt env h (sql_use_invite uid c))
      (\<lambda>_ d. only_new d0 uid d \<and> invite_spent (Some c) uid d)" for uid h c
    by (rule triple_stmt) (use use_invite_spends only_new_users in \<open>unfold joined_def; blast\<close>)
  have spend: "triple (joined d0 uid) (case code of None \<Rightarrow> ret ()
      | Some c \<Rightarrow> stmt env h (sql_use_invite uid c)) (\<lambda>_ d. only_new d0 uid d \<and> invite_spent code uid d)"
    for uid h
    by (cases code) (simp_all add: some, rule triple_ret, simp add: joined_def invite_spent_def)
  show ?thesis
    unfolding signup_txn_def case_prod_unfold
    apply (rule triple_andthen [where R = "joined d0"])
     apply (rule triple_stmt, simp add: joined_def only_new_def upsert_user_ids)
    apply (rule triple_andthen, rule triple_keeps, rule keeps_fresh_id)
    apply (rule triple_andthen, rule triple_keeps, intro keeps_stmt joined_keeps)
    apply (rule triple_andthen, rule triple_keeps, intro keeps_stmt joined_keeps)
    apply (rule triple_andthen, rule spend)
    apply (rule triple_ret, simp)
    done
qed

lemma transact_idle_or:
  assumes "triple (\<lambda>d. d = w_db w) body (\<lambda>x d. case x of Rollback y \<Rightarrow> False | Commit z \<Rightarrow> Q d)"
  shows "idle_or (w_db w) Q (transact env be ce body w)"
proof (cases "body ((tick w)\<lparr>w_aborted := False\<rparr>)")
  case (Pair r w1)
  show ?thesis
  proof (cases r)
    case (Inr x)
    have "case x of Rollback y \<Rightarrow> False | Commit z \<Rightarrow> Q (w_db w1)"
      by (rule assms [unfolded triple_def, rule_format, of "(tick w)\<lparr>w_aborted := False\<rparr>"])
        (simp_all add: Pair Inr)
    then show ?thesis by (cases x) (auto simp: idle_or_def transact_def Pair Inr)
  qed (simp add: idle_or_def transact_def Pair)
qed

lemma idle_or_then_ret:
  "idle_or d Q (m w) \<Longrightarrow> (\<And>x w1. snd (f x w1) = w1) \<Longrightarrow> idle_or d Q (andthen m f w)"
  by (auto simp: idle_or_def andthen_def split: prod.splits sum.splits)

definition unused_invite :: "string option \<Rightarrow> db \<Rightarrow> bool" where
  "unused_invite code d = (\<exists>i \<in> set (t_invites d). code = Some (ic_code i) \<and> ic_used_by i = None)"

definition invited :: "db \<Rightarrow> string option \<Rightarrow> db \<Rightarrow> bool" where
  "invited d code d' =
     (unused_invite code d \<and> (\<exists>uid. only_new d uid d' \<and> invite_spent code uid d'))"

lemma check_invite_unused:
  assumes "check_invite env code w = (Inr (), w1)" and "require_invite (e_features env)"
  shows "unused_invite code (w_db w)"
proof -
  from assms obtain c where c: "code = Some c" by (auto simp: check_invite_def run_simps split: option.splits)
  with assms obtain x u d' where q: "sql_invite_unused c (e_now env) u (w_db w) = Inr (Some x, d')"
    by (auto simp: check_invite_def run_simps)
  then have "x \<in> set (map ic_code (filter (\<lambda>i. ic_code i = c \<and> ic_used_by i = None) (t_invites (w_db w))))"
    unfolding sql_invite_unused_def opt_row_Inr by simp
  with c show ?thesis by (auto simp: unused_invite_def)
qed

lemma sign_up_invited:
  assumes req: "require_invite (e_features env)" and w: "w_db w = d"
  shows "idle_or d (invited d code) (sign_up env rq code w)"
proof -
  have tx: "idle_or d (invited d code) (transact env be ce (signup_txn env p rq code) w2)"
    if "w_db w2 = d" and "unused_invite code d" for be ce p w2
  proof -
    have "triple (\<lambda>d'. d' = w_db w2) (signup_txn env p rq code)
      (\<lambda>x d'. case x of Rollback y \<Rightarrow> False | Commit z \<Rightarrow> invited d code d')"
      by (rule triple_weaken [OF signup_txn_triple [of d]])
        (auto simp: that invited_def split: tx_end.splits)
    from transact_idle_or [OF this] show ?thesis by (simp add: that(1))
  qed
  show ?thesis
    unfolding sign_up_def
    apply (rule idle_or_andthen [OF reads_check_invite w])
    apply (rule idle_or_andthen, rule reads_basic, assumption)
    apply (rule idle_or_then_ret, rule tx, assumption)
     apply (metis check_invite_unused req w old.unit.exhaust)
    apply (simp add: ret_def split: prod.splits)
    done
qed

definition grown :: "string option \<Rightarrow> db \<Rightarrow> db \<Rightarrow> bool" where
  "grown code d d' = (us_id ` set (t_users d') \<subseteq> us_id ` set (t_users d) \<or> invited d code d')"

lemma ids_of_map: "map f xs = map f ys \<Longrightarrow> f ` set xs = f ` set ys"
  by (metis list.set_map)

lemma grown_same:
  assumes "same_accounts d d1" and "grown code d1 d'" shows "grown code d d'"
proof -
  have "us_id ` set (t_users d1) = us_id ` set (t_users d)" "t_invites d1 = t_invites d"
    using assms(1) by (auto simp: same_accounts_def dest: ids_of_map)
  with assms(2) show ?thesis by (simp add: grown_def invited_def unused_invite_def only_new_def)
qed

lemma do_provision_grown:
  assumes "require_invite (e_features env)"
  shows "grown code (w_db w) (w_db (snd (do_provision env rq code w)))"
proof -
  obtain r w1 where 1: "oidc_step env rq w = (r, w1)" by fastforce
  note same = oidc_step_same [OF 1]
  let ?rest = "andthen (query env (\<lambda>_. internal ''user lookup failed'')
                (sql_provision_lookup (pq_email rq))) (\<lambda>existing.
     case existing of Some (r, w) \<Rightarrow> ret (known_user env r w) | None \<Rightarrow> sign_up env rq code)"
  have "idle_or (w_db w1) (invited (w_db w1) code) (?rest w1)"
  proof (rule idle_or_andthen)
    fix x and w2 :: world assume "w_db w2 = w_db w1"
    then show "idle_or (w_db w1) (invited (w_db w1) code)
        ((case x of None \<Rightarrow> sign_up env rq code | Some (r, w) \<Rightarrow> ret (known_user env r w)) w2)"
      using sign_up_invited [OF assms]
      by (cases x) (auto simp: idle_or_def ret_def)
  qed (simp_all add: read_rules sql_reads_accounts)
  then have rest: "grown code (w_db w1) (w_db (snd (?rest w1)))"
    by (auto simp: idle_or_def grown_def)
  show ?thesis
  proof (cases r)
    case (Inl e)
    have "grown code (w_db w1) (w_db w1)" by (simp add: grown_def)
    with grown_same [OF same] show ?thesis by (simp add: do_provision_steps andthen_def 1 Inl)
  next
    case (Inr x)
    with grown_same [OF same rest] show ?thesis
      unfolding do_provision_steps by (simp add: andthen_def [of "oidc_step env rq"] 1)
  qed
qed

text \<open>The key that ends a sign-in of the CLI.\<close>

definition cli_key :: "env \<Rightarrow> provision_response \<Rightarrow> provision_response proc" where
  "cli_key env resp =
     andthen (generate_token env) (\<lambda>token.
     andthen (ensure (12 \<le> length token) (Panicked ''slice index'')) (\<lambda>_.
     andthen (parse_uuid env (internal ''invalid user id'') (pn_id resp)) (\<lambda>user_id.
     andthen (query env (\<lambda>_. internal ''failed to create API key'')
                (sql_insert_api_key user_id ''cli-login'' (hash_token env token)
                   (take 12 token @ ''...'') [''admin''] None)) (\<lambda>_.
     ret (resp\<lparr>pn_api_key := Some token\<rparr>)))))"

lemma cli_provision_steps:
  "cli_provision env rq =
     andthen (ensure (pq_email rq \<noteq> []) (bad_request ''missing_email'' ''email is required'')) (\<lambda>_.
     andthen (db_conn env) (\<lambda>_.
     andthen (do_provision env rq (pq_invite_code rq)) (cli_key env)))"
  unfolding cli_provision_def cli_key_def by simp

lemma cli_key_users:
  "t_users (w_db (snd (cli_key env resp w))) = t_users (w_db w) \<and>
   t_invites (w_db (snd (cli_key env resp w))) = t_invites (w_db w)"
proof -
  let ?J = "\<lambda>d. t_users d = t_users (w_db w) \<and> t_invites d = t_invites (w_db w)"
  have ins: "sql_keeps ?J (sql_insert_api_key uid nm h pre sc ex)" for uid nm h pre sc ex
    by (rule sql_keepsI) (auto simp: sql_insert_api_key_def split: if_splits)
  have "keeps ?J (cli_key env resp)"
    unfolding cli_key_def generate_token_def by (intro proc_rules ins)
  then show ?thesis by (simp add: keeps_def)
qed

text \<open>
  C30: With invitations required, no sign-in of the CLI makes a user without one. If a user
  exists after the request, successful or not, who did not exist before, the request
  carried an invite code on record that nobody had used, and that code is now used by this
  very user.
\<close>

theorem signup_needs_invite:
  assumes "require_invite (e_features env)" and "cli_provision env rq w = (x, w')"
    and "u \<in> us_id ` set (t_users (w_db w'))" and "u \<notin> us_id ` set (t_users (w_db w))"
  shows "\<exists>i \<in> set (t_invites (w_db w)). pq_invite_code rq = Some (ic_code i) \<and> ic_used_by i = None \<and>
    (\<forall>i' \<in> set (t_invites (w_db w')). ic_code i' = ic_code i \<longrightarrow> ic_used_by i' = Some u)"
proof -
  have G: "grown (pq_invite_code rq) (w_db w) (w_db (snd (cli_provision env rq w)))"
  proof -
    have last: "idle_or (w_db w) (grown (pq_invite_code rq) (w_db w))
        (andthen (do_provision env rq (pq_invite_code rq)) (cli_key env) w1)" if w1: "w_db w1 = w_db w" for w1
    proof (cases "do_provision env rq (pq_invite_code rq) w1")
      case (Pair r w2)
      have g: "grown (pq_invite_code rq) (w_db w) (w_db w2)"
        using do_provision_grown [OF assms(1), of "pq_invite_code rq" w1 rq] w1 Pair by simp
      have "grown (pq_invite_code rq) (w_db w) (w_db (snd (cli_key env y w2)))" for y
        using g cli_key_users [of env y w2] by (simp add: grown_def invited_def only_new_def invite_spent_def)
      with g Pair show ?thesis by (cases r) (simp_all add: idle_or_def andthen_def)
    qed
    have "idle_or (w_db w) (grown (pq_invite_code rq) (w_db w)) (cli_provision env rq w)"
      unfolding cli_provision_steps
      by (rule idle_or_andthen, rule read_rules, rule refl,
          rule idle_or_andthen, rule reads_db_conn, assumption, rule last)
    then show ?thesis by (auto simp: idle_or_def grown_def)
  qed
  from G assms(2-4) have "invited (w_db w) (pq_invite_code rq) (w_db w')"
    by (auto simp: grown_def)
  then obtain i uid where i: "i \<in> set (t_invites (w_db w))" "pq_invite_code rq = Some (ic_code i)"
      "ic_used_by i = None" and uid: "only_new (w_db w) uid (w_db w')"
      "invite_spent (pq_invite_code rq) uid (w_db w')"
    by (auto simp: invited_def unused_invite_def)
  have "uid = u" using uid(1) assms(3,4) unfolding only_new_def by blast
  with i uid(2) show ?thesis by (auto simp: invite_spent_def)
qed

section \<open>Signing in as somebody\<close>

lemma same_accounts_row:
  assumes "same_accounts d d1" and "r \<in> set (t_users d)"
  shows "\<exists>r1 \<in> set (t_users d1). us_id r1 = us_id r \<and> us_email r1 = us_email r \<and>
    us_deleted_at r1 = us_deleted_at r"
proof -
  obtain j where j: "j < length (t_users d)" "t_users d ! j = r"
    using assms(2) by (auto simp: in_set_conv_nth)
  have len: "length (t_users d1) = length (t_users d)"
    using assms(1) unfolding same_accounts_def by (metis length_map)
  have "map us_id (t_users d1) ! j = map us_id (t_users d) ! j"
    "map us_email (t_users d1) ! j = map us_email (t_users d) ! j"
    "map us_deleted_at (t_users d1) ! j = map us_deleted_at (t_users d) ! j"
    using assms(1) by (simp_all add: same_accounts_def)
  with j len show ?thesis by (intro bexI [of _ "t_users d1 ! j"]) simp_all
qed

lemma do_provision_known:
  assumes run: "do_provision env rq code w = (Inr resp, w')" and r: "r \<in> set (t_users (w_db w))"
    and live: "live_email (pq_email rq) r" and ok: "schema_ok (w_db w)"
  shows "pn_id resp = e_uuid_str env (us_id r) \<and> same_accounts (w_db w) (w_db w')"
proof -
  from run obtain w1 u found d w2 where 1: "oidc_step env rq w = (Inr u, w1)"
    and q: "query env (\<lambda>_. internal ''user lookup failed'')
      (sql_provision_lookup (pq_email rq)) w1 = (Inr found, w2)"
    and k: "(case found of Some (r, w) \<Rightarrow> ret (known_user env r w) | None \<Rightarrow> sign_up env rq code) w2 = (Inr resp, w')"
    unfolding do_provision_steps andthen_Inr by blast
  note same = oidc_step_same [OF 1]
  from q obtain v d where "sql_provision_lookup (pq_email rq) (e_now env) v (w_db w1) = Inr (found, d)"
    and w2: "w_db w2 = d" by (auto simp: run_simps)
  from lookup_rows [OF this(1)] have d: "w_db w2 = w_db w1"
    and rows: "case found of Some (r, w) \<Rightarrow> r \<in> set (t_users (w_db w1)) \<and> live_email (pq_email rq) r
     | None \<Rightarrow> (\<forall>r \<in> set (t_users (w_db w1)). \<not> live_email (pq_email rq) r)" using w2 by auto
  obtain r1 where r1: "r1 \<in> set (t_users (w_db w1))" "us_id r1 = us_id r" "live_email (pq_email rq) r1"
    using same_accounts_row [OF same r] live by (auto simp: live_email_def)
  with rows obtain r2 ws where found: "found = Some (r2, ws)"
    and r2: "r2 \<in> set (t_users (w_db w1))" "live_email (pq_email rq) r2"
    by (auto split: option.splits)
  have "distinct (map us_email (t_users (w_db w1)))"
    using ok same by (simp add: schema_ok_def keys_ok_def same_accounts_def)
  then have "r2 = r1"
    using r1(1,3) r2 unfolding distinct_map live_email_def by (metis inj_onD)
  with k found r1(2) have "pn_id resp = e_uuid_str env (us_id r)" "w' = w2"
    by (auto simp: ret_def known_user_def)
  with same d show ?thesis by simp
qed

lemma generate_token_run:
  "generate_token env w = (Inr token, w1) \<Longrightarrow> starts_with ''lm_'' token \<and> w_db w1 = w_db w"
  by (auto simp: generate_token_def run_simps starts_with_def)

lemma cli_key_run:
  assumes "cli_key env resp w = (Inr resp', w')"
  shows "\<exists>token key uid. pn_api_key resp' = Some token \<and> starts_with ''lm_'' token \<and>
    e_parse_uuid env (pn_id resp) = Some uid \<and>
    t_users (w_db w') = t_users (w_db w) \<and> t_api_keys (w_db w') = t_api_keys (w_db w) @ [key] \<and>
    ak_user key = uid \<and> ak_scopes key = [''admin''] \<and> ak_token_hash key = hash_token env token \<and>
    ak_expires_at key = None \<and> ak_deleted_at key = None \<and>
    hash_token env token \<notin> ak_token_hash ` set (t_api_keys (w_db w))"
proof -
  from assms obtain token w1 u uid x d where g: "generate_token env w = (Inr token, w1)"
    and t: "resp' = resp\<lparr>pn_api_key := Some token\<rparr>" and p: "e_parse_uuid env (pn_id resp) = Some uid"
    and q: "sql_insert_api_key uid ''cli-login'' (hash_token env token) (take 12 token @ ''...'')
        [''admin''] None (e_now env) u (w_db w1) = Inr (x, d)" "w_db w' = d"
    unfolding cli_key_def by (auto simp: run_simps simp del: take_append)
  from generate_token_run [OF g] have lm: "starts_with ''lm_'' token" and w1: "w_db w1 = w_db w" by simp_all
  from q w1 have "d = (w_db w)\<lparr>t_api_keys := t_api_keys (w_db w) @
      [\<lparr>ak_id = u, ak_user = uid, ak_name = ''cli-login'', ak_token_hash = hash_token env token,
        ak_prefix = take 12 token @ ''...'', ak_scopes = [''admin''], ak_expires_at = None,
        ak_last_used_at = None, ak_created_at = e_now env, ak_deleted_at = None\<rparr>]\<rparr>"
    "hash_token env token \<notin> ak_token_hash ` set (t_api_keys (w_db w))"
    by (auto simp: sql_insert_api_key_def list_ex_iff split: if_splits)
  with lm t p q(2) show ?thesis by simp
qed

text \<open>
  C31: Knowing an e-mail address is enough to be its owner. The CLI's sign-in is public and
  asks for no proof: for any request that carries the address of an existing user and ends
  with success, whatever else it carries, the reply holds a token, and from then on the
  middleware admits whoever presents this token as that user, with the admin scope.
\<close>

theorem email_is_enough:
  assumes run: "cli_provision env rq w = (Inr resp, w1)" and ok: "schema_ok (w_db w)"
    and r: "r \<in> set (t_users (w_db w))" "live_email (pq_email rq) r"
    and parse: "e_parse_uuid env (e_uuid_str env (us_id r)) = Some (us_id r)"
  shows "\<exists>token. pn_api_key resp = Some token \<and>
    (\<forall>env2 w2. w_db w2 = w_db w1 \<longrightarrow> fault_free env2 \<longrightarrow> e_sha256 env2 = e_sha256 env \<longrightarrow>
       e_header_str env2 token = Some token \<longrightarrow>
       (\<exists>c w3. auth_middleware env2 [''x-api-key'' \<mapsto> token] w2 = (Inr c, w3) \<and>
          ca_user_id c = us_id r \<and> ca_scopes c = [''admin'']))"
proof -
  from run obtain w' w2 resp' where 1: "do_provision env rq (pq_invite_code rq) w' = (Inr resp', w2)"
    and 2: "cli_key env resp' w2 = (Inr resp, w1)" and w': "w_db w' = w_db w"
    unfolding cli_provision_steps by (auto simp: run_simps)
  from do_provision_known [OF 1, of r] w' ok r have id: "pn_id resp' = e_uuid_str env (us_id r)"
    and same: "same_accounts (w_db w) (w_db w2)" by simp_all
  from cli_key_run [OF 2] obtain token key where t: "pn_api_key resp = Some token" "starts_with ''lm_'' token"
    and tabs: "t_users (w_db w1) = t_users (w_db w2)" "t_api_keys (w_db w1) = t_api_keys (w_db w2) @ [key]"
    and key: "ak_user key = us_id r" "ak_scopes key = [''admin'']" "ak_token_hash key = hash_token env token"
      "ak_expires_at key = None" "ak_deleted_at key = None"
    and new: "hash_token env token \<notin> ak_token_hash ` set (t_api_keys (w_db w2))"
    using id parse by auto
  obtain r1 where r1: "r1 \<in> set (t_users (w_db w1))" "us_id r1 = us_id r" "us_deleted_at r1 = None"
    using same_accounts_row [OF same r(1)] r(2) tabs(1) by (auto simp: live_email_def)
  have "filter (api_key_matches (w_db w1) (hash_token env token)) (t_api_keys (w_db w2)) = []"
    using new by (force simp: api_key_matches_def filter_empty_conv)
  moreover have "api_key_matches (w_db w1) (hash_token env token) key"
    using r1 key by (auto simp: api_key_matches_def list_ex_iff)
  ultimately have "filter (api_key_matches (w_db w1) (hash_token env token)) (t_api_keys (w_db w1)) = [key]"
    by (simp add: tabs(2))
  then have touch: "\<exists>d. sql_touch_api_key (hash_token env token) t' u (w_db w1) = Inr (Some key, d)" for t' u
    by (simp add: sql_touch_api_key_def)
  have "\<exists>c w3. auth_middleware env2 [''x-api-key'' \<mapsto> token] w3' = (Inr c, w3) \<and>
      ca_user_id c = us_id r \<and> ca_scopes c = [''admin'']"
    if "w_db w3' = w_db w1" "fault_free env2" "e_sha256 env2 = e_sha256 env" "e_header_str env2 token = Some token"
    for env2 w3'
  proof -
    have h: "hash_token env2 token = hash_token env token" using that(3) by (simp add: hash_token_def)
    obtain d where "sql_touch_api_key (hash_token env token) (e_now env2) (e_fresh env2 (Suc (w_calls w3'))) (w_db w1) = Inr (Some key, d)"
      using touch by blast
    then show ?thesis
      using that(1,2,4) t(2) key
      by (simp add: auth_middleware_def auth_api_key_def extract_raw_token_def header_str_def andthen_def
          of_sum_def ret_def ensure_def db_conn_def query_def fault_free_def h of_option_def)
  qed
  with t(1) show ?thesis by blast
qed

section \<open>Runs on small tables\<close>

definition invite_env :: env where
  "invite_env = sample_env\<lparr>e_features := sample_features\<lparr>require_invite := True\<rparr>\<rparr>"

definition newcomer :: provision_request where
  "newcomer = \<lparr>pq_email = ''n@b.c'', pq_first_name = ''N'', pq_last_name = ''N'', pq_oidc_sub = None,
     pq_invite_code = Some ''CODE''\<rparr>"

definition invite_db :: db where
  "invite_db = empty_db\<lparr>t_invites :=
     [\<lparr>ic_code = ''CODE'', ic_used_by = None, ic_used_at = None, ic_created_at = 1690000000\<rparr>]\<rparr>"

definition stranger :: provision_request where
  "stranger = \<lparr>pq_email = ''a@b.c'', pq_first_name = [], pq_last_name = [], pq_oidc_sub = None,
     pq_invite_code = None\<rparr>"

lemmas sign_in_eval = cli_provision_def do_provision_def check_invite_def signup_txn_def
  sql_provision_lookup_def sql_invite_unused_def sql_upsert_user_def sql_upsert_workspace_def
  sql_upsert_member_def sql_use_invite_def workspace_exists_def opt_row_def generate_token_def
  sql_insert_api_key_def live_email_def owned_workspaces_def

lemma newcomer_joins:
  "1003 \<in> us_id ` set (t_users (w_db (snd (cli_provision invite_env newcomer (world_of invite_db)))))"
  by (simp add: sign_in_eval run_defs newcomer_def invite_env_def invite_db_def sample_defs table_simps
      case_prod_unfold)

lemma signup_needs_invite_witness:
  "\<exists>i \<in> set (t_invites invite_db). ic_code i = ''CODE'' \<and> ic_used_by i = None"
proof -
  have "\<exists>i \<in> set (t_invites (w_db (world_of invite_db))). pq_invite_code newcomer = Some (ic_code i) \<and>
      ic_used_by i = None \<and>
      (\<forall>i' \<in> set (t_invites (w_db (snd (cli_provision invite_env newcomer (world_of invite_db))))).
         ic_code i' = ic_code i \<longrightarrow> ic_used_by i' = Some 1003)"
    by (rule signup_needs_invite [OF _ prod.collapse [symmetric] newcomer_joins])
      (simp_all add: invite_env_def invite_db_def sample_defs)
  then show ?thesis by (auto simp: newcomer_def world_of_def)
qed

lemma show_one: "show_nat 1 = ''1''" "show_nat (Suc 0) = ''1''"
  by code_simp+

lemma stranger_signs_in:
  "fst (cli_provision sample_env stranger (world_of (sample_db 0 ''owner'' []))) =
     Inr ((known_user sample_env sample_user (Some (sample_workspace 0)))
       \<lparr>pn_api_key := Some (''lm_'' @ replicate 32 (CHR 0x30) @ replicate 32 (CHR 0x30))\<rparr>)"
  by (simp add: sign_in_eval run_defs stranger_def sample_defs known_user_def show_one)

lemma email_is_enough_witness:
  "\<exists>token c w3. auth_middleware sample_env [''x-api-key'' \<mapsto> token]
     (snd (cli_provision sample_env stranger (world_of (sample_db 0 ''owner'' [])))) = (Inr c, w3) \<and>
   ca_user_id c = 1 \<and> ca_scopes c = [''admin'']"
proof -
  let ?w = "world_of (sample_db 0 ''owner'' [])"
  have "schema_ok (w_db ?w)" by (simp add: schema_defs check_defs sample_defs)
  moreover have "sample_user \<in> set (t_users (w_db ?w))" "live_email (pq_email stranger) sample_user"
    by (simp_all add: sample_defs stranger_def live_email_def)
  moreover have "e_parse_uuid sample_env (e_uuid_str sample_env (us_id sample_user)) = Some (us_id sample_user)"
    by (simp add: sample_defs show_one)
  ultimately have "\<exists>token. pn_api_key ((known_user sample_env sample_user (Some (sample_workspace 0)))
       \<lparr>pn_api_key := Some (''lm_'' @ replicate 32 (CHR 0x30) @ replicate 32 (CHR 0x30))\<rparr>) = Some token \<and>
    (\<forall>env2 w2. w_db w2 = w_db (snd (cli_provision sample_env stranger ?w)) \<longrightarrow> fault_free env2 \<longrightarrow>
       e_sha256 env2 = e_sha256 sample_env \<longrightarrow> e_header_str env2 token = Some token \<longrightarrow>
       (\<exists>c w3. auth_middleware env2 [''x-api-key'' \<mapsto> token] w2 = (Inr c, w3) \<and>
          ca_user_id c = us_id sample_user \<and> ca_scopes c = [''admin'']))"
    by (intro email_is_enough [OF run_pair [OF stranger_signs_in]])
  moreover have "fault_free sample_env" "e_header_str sample_env t = Some t" for t
    by (simp_all add: fault_free_def sample_env_def)
  ultimately show ?thesis by (simp add: sample_user_def) blast
qed

lemmas vars_eval = set_env_vars_def unset_env_vars_def get_env_vars_def service_for_env_def
  require_scope_def scope_allowed_def Let_def sql_service_for_def services_with_role_def
  live_service_def require_workspace_role_def workspace_role_rank_def read_vars_def store_vars_def
  kv_read_def kv_put_def kv_get_def vault_at_def remove_keys_def

definition vars_world :: world where
  "vars_world = world_of (sample_db 0 ''owner'' [sample_service 7 ''s'' ''running''])"

lemma vars_written:
  "set_env_vars sample_env (sample_caller ''write'') ''7'' [''A'' \<mapsto> ''1'', ''B'' \<mapsto> ''2''] vars_world =
     (Inr [''A'' \<mapsto> ''1'', ''B'' \<mapsto> ''2''], vars_world\<lparr>w_calls := 3, w_log :=
        [VaultPut (env_path sample_env 2 7) [''A'' \<mapsto> ''1'', ''B'' \<mapsto> ''2'']]\<rparr>)"
  by (simp add: vars_eval run_defs vars_world_def sample_defs)

lemma vars_removed:
  "unset_env_vars sample_env (sample_caller ''write'') ''7'' [''A''] (vars_world\<lparr>w_calls := 3, w_log :=
        [VaultPut (env_path sample_env 2 7) [''A'' \<mapsto> ''1'', ''B'' \<mapsto> ''2'']]\<rparr>) =
     (Inr [''B'' \<mapsto> ''2''], vars_world\<lparr>w_calls := 6, w_log :=
        [VaultPut (env_path sample_env 2 7) [''A'' \<mapsto> ''1'', ''B'' \<mapsto> ''2''],
         VaultPut (env_path sample_env 2 7) [''B'' \<mapsto> ''2'']]\<rparr>)"
  by (simp add: vars_eval run_defs vars_world_def sample_defs fun_upd_twist)

lemma vars_read:
  "fst (get_env_vars sample_env (sample_caller ''write'') ''7'' (vars_world\<lparr>w_calls := 6, w_log :=
        [VaultPut (env_path sample_env 2 7) [''A'' \<mapsto> ''1'', ''B'' \<mapsto> ''2''],
         VaultPut (env_path sample_env 2 7) [''B'' \<mapsto> ''2'']]\<rparr>)) = Inr [''B'' \<mapsto> ''2'']"
  by (simp add: vars_eval run_defs vars_world_def sample_defs)

lemma env_vars_roundtrip_witness:
  "\<exists>s. [''A'' \<mapsto> ''1'', ''B'' \<mapsto> ''2''] = vars_at sample_env vars_world (service_path sample_env s) ++
     [''A'' \<mapsto> ''1'', ''B'' \<mapsto> ''2'']"
  using env_vars_roundtrip [OF vars_written vars_removed run_pair [OF vars_read]] by blast

end
