(* ===== verification/RateLimit.thy ===== *)
theory RateLimit
  imports ApiAuth
begin

text \<open>
  Rate limits (\<open>crates/api/src/rate_limit.rs\<close>). A keyed limiter of the \<open>governor\<close> crate is
  a parameter: what its check answers for a key, nothing or the whole seconds to wait. The
  middlewares are the decision before the next handler.
\<close>

section \<open>The refusal\<close>

record refusal =
  rf_status :: nat
  rf_headers :: "(string \<times> string) list"
  rf_body :: json

definition too_many_requests :: "string \<Rightarrow> refusal" where
  "too_many_requests retry_secs =
     \<lparr>rf_status = 429, rf_headers = [(''retry-after'', retry_secs)],
      rf_body = JObj [(''error'', JStr ''rate_limited''),
        (''message'', JStr (''too many requests '' @ em_dash @ '' slow down'')),
        (''retry_after'', JStr retry_secs)]\<rparr>"

definition retry_secs :: "nat \<Rightarrow> string" where
  "retry_secs wait = show_nat (max wait 1)"

text \<open>\<open>Quota::per_minute\<close> of a \<open>NonZeroU32\<close>: a rate of zero panics (the result None).\<close>

definition per_minute :: "nat \<Rightarrow> nat option" where
  "per_minute rpm = (if rpm = 0 then None else Some rpm)"

section \<open>The middlewares\<close>

definition limit_by :: "('k \<Rightarrow> nat option) \<Rightarrow> 'k \<Rightarrow> refusal + unit" where
  "limit_by check key =
     (case check key of None \<Rightarrow> Inr () | Some wait \<Rightarrow> Inl (too_many_requests (retry_secs wait)))"

definition rate_limit_middleware :: "('ip \<Rightarrow> nat option) \<Rightarrow> 'ip option \<Rightarrow> refusal + unit" where
  "rate_limit_middleware ip_check ip =
     (case ip of None \<Rightarrow> Inr () | Some a \<Rightarrow> limit_by ip_check a)"

definition rate_limit_by_user_or_ip ::
  "env \<Rightarrow> (string \<Rightarrow> nat option) \<Rightarrow> ('ip \<Rightarrow> nat option) \<Rightarrow>
   (string \<rightharpoonup> string) \<Rightarrow> 'ip option \<Rightarrow> refusal + unit" where
  "rate_limit_by_user_or_ip env user_check ip_check headers ip =
     (case header_str env headers ''x-on-behalf-of'' of
        Some user_id \<Rightarrow> limit_by user_check user_id
      | None \<Rightarrow> rate_limit_middleware ip_check ip)"

text \<open>The period of the clean-up; zero disables it.\<close>

definition gc_secs :: "(string \<rightharpoonup> string) \<Rightarrow> nat" where
  "gc_secs vars = or_default 300 (parse_unsigned (2 ^ 64) (env_or vars ''RATE_LIMIT_GC_INTERVAL_SECS'' ''300''))"

definition gc_enabled :: "(string \<rightharpoonup> string) \<Rightarrow> bool" where
  "gc_enabled vars = (gc_secs vars \<noteq> 0)"

section \<open>Who is limited\<close>

lemma limit_by_ok: "limit_by check key = Inr () \<longleftrightarrow> check key = None"
  by (simp add: limit_by_def split: option.split)

text \<open>
  The header is read before anything has checked it, so a caller that sends a new value each
  time is never limited by its address.
\<close>

lemma header_escapes_ip_limit:
  assumes "header_str env headers ''x-on-behalf-of'' = Some user" and "user_check user = None"
  shows "rate_limit_by_user_or_ip env user_check ip_check headers ip = Inr ()"
  using assms by (simp add: rate_limit_by_user_or_ip_def limit_by_ok)

end
