(* ===== verification/Shared.thy ===== *)
theory Shared
  imports Stripe
begin

text \<open>
  What the shared library guarantees (\<open>crates/common/src\<close>): slugs, guest addresses,
  quotas, the verification of artifacts and the ELF check.
\<close>

section \<open>Slugs\<close>

lemma char_lower_single: "char_lower ul [c] = [ascii_lower c]"
  by (simp add: char_lower_def)

lemma ascii_lower_code: "code_of c < 128 \<Longrightarrow> code_of (ascii_lower c) < 128"
  by (auto simp: ascii_lower_def is_ascii_upper_def)

lemma to_lowercase_ascii:
  "list_all (\<lambda>c. code_of c < 128) s \<Longrightarrow> to_lowercase ul s = map ascii_lower s"
  by (simp add: to_lowercase_def utf8_chars_ascii char_lower_single comp_def)

definition slug_char :: "char \<Rightarrow> char" where
  "slug_char c = (if is_ascii_alphanumeric c then c else CHR ''-'')"

fun collapse :: "bool \<Rightarrow> string \<Rightarrow> string" where
  "collapse p [] = []"
| "collapse p (c # s) =
     (if c = CHR ''-'' then (if p then collapse True s else c # collapse True s)
      else c # collapse False s)"

lemma collapse_dashes_single: "collapse_dashes p (map (\<lambda>c. [c]) s) = collapse p s"
  by (induction s arbitrary: p) auto

lemma slugify_ascii:
  assumes "list_all (\<lambda>c. code_of c < 128) s"
  shows "slugify ul ua s = trim_char (CHR ''-'') (collapse False (map (slug_char \<circ> ascii_lower) s))"
proof -
  have "list_all (\<lambda>c. code_of c < 128) (map ascii_lower s)"
    using assms by (auto simp: list_all_iff ascii_lower_code)
  then have "utf8_chars (to_lowercase ul s) = map (\<lambda>c. [c]) (map ascii_lower s)"
    using assms by (simp add: to_lowercase_ascii utf8_chars_ascii)
  then have "map (\<lambda>ch. if char_alphanumeric ua ch then ch else ''-'') (utf8_chars (to_lowercase ul s)) =
      map (\<lambda>c. [c]) (map (slug_char \<circ> ascii_lower) s)"
    by (simp add: char_alphanumeric_def slug_char_def)
  then show ?thesis by (simp only: slugify_def Let_def collapse_dashes_single)
qed

lemma collapse_no_double: "no_double_dash (collapse p s) \<and>
    (p \<longrightarrow> collapse p s = [] \<or> hd (collapse p s) \<noteq> CHR ''-'')"
proof (induction s arbitrary: p)
  case (Cons c s)
  show ?case
  proof (cases "c = CHR ''-''")
    case True
    with Cons.IH [of True] show ?thesis by (cases "collapse True s") auto
  next
    case False
    with Cons.IH [of False] show ?thesis by (cases "collapse False s") auto
  qed
qed simp

lemma no_double_dash_append: "no_double_dash (a @ b) \<Longrightarrow> no_double_dash a \<and> no_double_dash b"
proof (induction a)
  case (Cons c a)
  then show ?case by (cases a; cases b) auto
qed simp

lemma no_double_dash_trim: "no_double_dash s \<Longrightarrow> no_double_dash (trim_char d s)"
proof -
  assume s: "no_double_dash s"
  obtain t where "dropWhile (\<lambda>c. c = d) s = trim_char d s @ t"
    using trim_end_char_prefix [of "dropWhile (\<lambda>c. c = d) s" d] by (auto simp: trim_char_def)
  with s show ?thesis by (metis no_double_dash_append takeWhile_dropWhile_id)
qed

lemma collapse_set: "set (collapse p s) \<subseteq> set s"
  by (induction s arbitrary: p) auto

lemma collapse_id: "no_double_dash s \<Longrightarrow> (p \<longrightarrow> s = [] \<or> hd s \<noteq> CHR ''-'') \<Longrightarrow> collapse p s = s"
proof (induction s arbitrary: p)
  case (Cons c s)
  then show ?case by (cases s) auto
qed simp

lemma trim_char_id:
  assumes "s = [] \<or> (hd s \<noteq> d \<and> last s \<noteq> d)" shows "trim_char d s = s"
proof (cases s)
  case (Cons c r)
  then have "dropWhile (\<lambda>c. c = d) s = s" using assms by simp
  moreover have "dropWhile (\<lambda>c. c = d) (rev s) = rev s"
  proof -
    have "hd (rev s) \<noteq> d" using assms Cons by (metis hd_rev list.distinct(1))
    then show ?thesis by (cases "rev s") auto
  qed
  ultimately show ?thesis by (simp add: trim_char_def trim_end_char_def)
qed (simp add: trim_char_def trim_end_char_def)

definition slug_letter :: "char \<Rightarrow> bool" where
  "slug_letter c = (is_ascii_digit c \<or> is_ascii_lower c \<or> c = CHR ''-'')"

lemma slug_char_letter: "slug_letter (slug_char (ascii_lower c))"
  using ascii_lower_not_upper [of c]
  by (auto simp: slug_char_def slug_letter_def is_ascii_alphanumeric_def)

lemma slug_letter_fixed: "slug_letter c \<Longrightarrow> slug_char (ascii_lower c) = c \<and> code_of c < 128"
  proof -
  assume c: "slug_letter c"
  have d: "code_of (CHR ''-'') = 45" by (simp add: code_of_def)
  have "\<not> is_ascii_upper c" "code_of c < 128"
    using c by (auto simp: slug_letter_def is_ascii_upper_def is_ascii_lower_def is_ascii_digit_def d)
  with c show ?thesis
    by (auto simp: slug_letter_def slug_char_def ascii_lower_def is_ascii_alphanumeric_def)
qed

text \<open>
  The slug of a name in ASCII has only digits, lower-case letters and dashes, never two
  dashes in a row, none at either end, and is its own slug.
\<close>

theorem slugify_ok:
  assumes ascii: "list_all (\<lambda>c. code_of c < 128) name"
  shows "list_all slug_letter (slugify ul ua name) \<and> no_double_dash (slugify ul ua name) \<and>
    slug_edge (slugify ul ua name) \<and> slugify ul ua (slugify ul ua name) = slugify ul ua name"
proof -
  define s where "s = slugify ul ua name"
  have s: "s = trim_char (CHR ''-'') (collapse False (map (slug_char \<circ> ascii_lower) name))"
    using slugify_ascii [OF ascii] by (simp add: s_def)
  have "set s \<subseteq> set (map (slug_char \<circ> ascii_lower) name)"
    unfolding s using trim_char_subset collapse_set by (metis order_trans)
  then have letters: "list_all slug_letter s"
    using slug_char_letter by (auto simp: list_all_iff)
  have dd: "no_double_dash s"
    unfolding s using collapse_no_double by (blast intro: no_double_dash_trim)
  have edge: "slug_edge s" unfolding s by (rule trim_char_edges)
  have "map (slug_char \<circ> ascii_lower) s = s"
    using letters slug_letter_fixed by (induction s) auto
  moreover have "list_all (\<lambda>c. code_of c < 128) s"
    using letters slug_letter_fixed by (auto simp: list_all_iff)
  ultimately have "slugify ul ua s = trim_char (CHR ''-'') (collapse False s)"
    by (simp add: slugify_ascii)
  also have "\<dots> = trim_char (CHR ''-'') s" using dd by (simp add: collapse_id)
  also have "\<dots> = s" using edge by (intro trim_char_id) (auto simp: slug_edge_def)
  finally have "slugify ul ua s = s" .
  then show ?thesis using letters dd edge by (simp add: s_def)
qed

section \<open>Guest addresses\<close>

lemma show_nat_small: "show_nat 0 = ''0''" "show_nat 1 = ''1''"
  by code_simp+

text \<open>
  An address is assigned only to the indices below 3969, it is never the gateway's, and no
  other index has it.
\<close>

theorem guest_ip_unique:
  assumes "guest_ip i = Inr ip"
  shows "i < 3969 \<and> ip \<noteq> GATEWAY \<and> (\<forall>j. guest_ip j = Inr ip \<longrightarrow> j = i)"
proof -
  have i: "i < 3969" using assms by (simp add: guest_ip_def MAX_TAP_INDEX_def split: if_splits)
  have "ip \<noteq> GATEWAY"
  proof
    assume "ip = GATEWAY"
    with assms have "show_nat (i div 63) @ CHR ''.'' # show_nat (i mod 63 * 4 + 2) = show_nat 0 @ CHR ''.'' # show_nat 1"
      unfolding show_nat_small by (simp add: guest_ip_def GATEWAY_def split: if_splits)
    then have "show_nat (i mod 63 * 4 + 2) = show_nat 1"
      using show_nat_not_mem [OF dot_not_digit] append_sep_inj by metis
    then show False by (simp add: show_nat_inj)
  qed
  with i assms guest_ip_inj show ?thesis by blast
qed

section \<open>Quotas\<close>

text \<open>
  each of the six limits of a guest is lifted only by a variable that parses to zero; an
  unset or unreadable variable leaves the default in force.
\<close>

theorem quota_unlimited_only_by_zero:
  "(disk_read_bps (quota_from_env vars) = None \<longleftrightarrow>
      (\<exists>v. vars ''QUOTA_DISK_READ_BPS'' = Some v \<and> parse_unsigned (2 ^ 64) v = Some 0)) \<and>
   (disk_write_bps (quota_from_env vars) = None \<longleftrightarrow>
      (\<exists>v. vars ''QUOTA_DISK_WRITE_BPS'' = Some v \<and> parse_unsigned (2 ^ 64) v = Some 0)) \<and>
   (disk_read_iops (quota_from_env vars) = None \<longleftrightarrow>
      (\<exists>v. vars ''QUOTA_DISK_READ_IOPS'' = Some v \<and> parse_unsigned (2 ^ 32) v = Some 0)) \<and>
   (disk_write_iops (quota_from_env vars) = None \<longleftrightarrow>
      (\<exists>v. vars ''QUOTA_DISK_WRITE_IOPS'' = Some v \<and> parse_unsigned (2 ^ 32) v = Some 0)) \<and>
   (net_ingress_kbps (quota_from_env vars) = None \<longleftrightarrow>
      (\<exists>v. vars ''QUOTA_NET_INGRESS_KBPS'' = Some v \<and> parse_unsigned (2 ^ 32) v = Some 0)) \<and>
   (net_egress_kbps (quota_from_env vars) = None \<longleftrightarrow>
      (\<exists>v. vars ''QUOTA_NET_EGRESS_KBPS'' = Some v \<and> parse_unsigned (2 ^ 32) v = Some 0))"
  by (simp add: quota_from_env_def Let_def default_quota_def parse_quota_env_None)

section \<open>Artifacts\<close>

text \<open>
  C20: a streamed verification of a file that can be read, in whatever chunks, accepts exactly the
  files whose one-shot SHA-256 in hexadecimal is the expected digest in lower case.
\<close>

theorem verify_streams:
  assumes hash: "\<And>cs. fin (foldl upd h0 cs) = digest (concat cs)"
    and chunks: "\<And>c. c \<in> set chunks \<Longrightarrow> c \<noteq> []"
  shows "verify lower h0 upd fin (Some (map Some chunks)) expected = Inr () \<longleftrightarrow>
    sha256_hex digest (concat chunks) = lower expected"
  using hash by (simp add: verify_def sha256_file_def hash_reads_foldl [OF chunks] sha256_hex_def)

text \<open>
  A file rejected on its first 64 KiB would be rejected on all of its bytes, and always as a
  glibc binary: reading a prefix only does not reject a file that the whole check accepts.
\<close>

theorem prefix_verdict_stands:
  assumes "check_elf_compat_file (Some bs) n = Some (Inl e)"
  shows "check_elf_compat_for_metal bs = Some (Inl e) \<and> (\<exists>interp. e = GlibcBinary interp)"
proof -
  define k where "k = min 65536 (case n of None \<Rightarrow> 0 | Some k \<Rightarrow> k)"
  have p: "check_elf_compat_for_metal (take k bs) = Some (Inl e)"
    using assms by (simp add: check_elf_compat_file_def k_def)
  with check_elf_metal_append [OF p, of "drop k bs"] show ?thesis
    by (auto simp: check_elf_metal_Inl)
qed

text \<open>
  The check panics on a file whose first program header starts in its last three bytes and
  is declared to fit: only the declared entry size is compared with the length.
\<close>

theorem short_entry_panics:
  assumes bs: "64 \<le> length bs" "length bs < 2 ^ 63" "take 4 bs = elf_magic" "code_of (bs ! 4) \<in> {1, 2}"
    and header: "elf_header (code_of (bs ! 4)) bs = Some (off, ent, num)"
    and entry: "0 < num" "off + ent \<le> length bs" "length bs < off + 4"
  shows "check_elf_compat bs = None"
proof -
  obtain rest where nums: "[0..<num] = 0 # rest" using entry by (simp add: upt_conv_Cons)
  have "field_at bs off 0 4 = None"
    using bs(2) entry by (simp add: field_at_def slice_def usize_add_def)
  then have "elf_entry (code_of (bs ! 4)) bs off ent = None"
    using bs(2) entry by (simp add: elf_entry_def usize_add_def)
  then have "elf_walk (code_of (bs ! 4)) bs off ent [0..<num] = None"
    using bs(2) entry by (simp add: nums usize_add_def)
  with bs header show ?thesis by (auto simp: check_elf_compat_def Let_def)
qed

end
