(* ===== verification/Examples.thy ===== *)
theory Examples
  imports Frames Shared
begin

text \<open>
  Concrete runs: each property with a hypothesis is applied here at an input at which its
  hypotheses hold. The tables are those of \<open>Samples\<close> with a few rows more.
\<close>

section \<open>Shared library\<close>

lemma slugify_ok_witness:
  "list_all slug_letter (slugify (\<lambda>s. s) (\<lambda>_. False) ''My App--2'') \<and>
   no_double_dash (slugify (\<lambda>s. s) (\<lambda>_. False) ''My App--2'')"
  by (intro conjI; insert slugify_ok [of "''My App--2''" "\<lambda>s. s" "\<lambda>_. False"]; simp add: code_of_def)

lemma guest_ip_unique_witness: "guest_ip 64 = Inr ''172.16.1.6'' \<and> ''172.16.1.6'' \<noteq> GATEWAY"
proof -
  have "guest_ip 64 = Inr ''172.16.1.6''" by code_simp
  then show ?thesis using guest_ip_unique by blast
qed

lemma verify_streams_witness:
  "verify (\<lambda>s. s) [] (@) (\<lambda>h. h) (Some (map Some [''a'', ''bc''])) (sha256_hex (\<lambda>h. h) ''abc'') = Inr ()"
proof -
  have f: "foldl (@) [] cs = concat cs" for cs :: "string list"
    by (induction cs rule: rev_induct) simp_all
  have c: "concat [''a'', ''bc''] = ''abc''" by simp
  show ?thesis
    by (subst verify_streams [where digest = "\<lambda>h. h"]) (auto simp: f simp del: list.map)
qed

definition short_entry_elf :: string where
  "short_entry_elf = [CHR 0x7F, CHR 0x45, CHR 0x4C, CHR 0x46, CHR 0x02, CHR 0x00, CHR 0x00, CHR 0x00, CHR 0x00, CHR 0x00, CHR 0x00, CHR 0x00, CHR 0x00, CHR 0x00, CHR 0x00, CHR 0x00, CHR 0x00, CHR 0x00, CHR 0x00, CHR 0x00, CHR 0x00, CHR 0x00, CHR 0x00, CHR 0x00, CHR 0x00, CHR 0x00, CHR 0x00, CHR 0x00, CHR 0x00, CHR 0x00, CHR 0x00, CHR 0x00, CHR 0x3E, CHR 0x00, CHR 0x00, CHR 0x00, CHR 0x00, CHR 0x00, CHR 0x00, CHR 0x00, CHR 0x00, CHR 0x00, CHR 0x00, CHR 0x00, CHR 0x00, CHR 0x00, CHR 0x00, CHR 0x00, CHR 0x00, CHR 0x00, CHR 0x00, CHR 0x00, CHR 0x00, CHR 0x00, CHR 0x01, CHR 0x00, CHR 0x01, CHR 0x00, CHR 0x00, CHR 0x00, CHR 0x00, CHR 0x00, CHR 0x00, CHR 0x00]"

definition glibc_elf :: string where
  "glibc_elf = [CHR 0x7F, CHR 0x45, CHR 0x4C, CHR 0x46, CHR 0x02, CHR 0x00, CHR 0x00, CHR 0x00, CHR 0x00, CHR 0x00, CHR 0x00, CHR 0x00, CHR 0x00, CHR 0x00, CHR 0x00, CHR 0x00, CHR 0x00, CHR 0x00, CHR 0x00, CHR 0x00, CHR 0x00, CHR 0x00, CHR 0x00, CHR 0x00, CHR 0x00, CHR 0x00, CHR 0x00, CHR 0x00, CHR 0x00, CHR 0x00, CHR 0x00, CHR 0x00, CHR 0x40, CHR 0x00, CHR 0x00, CHR 0x00, CHR 0x00, CHR 0x00, CHR 0x00, CHR 0x00, CHR 0x00, CHR 0x00, CHR 0x00, CHR 0x00, CHR 0x00, CHR 0x00, CHR 0x00, CHR 0x00, CHR 0x00, CHR 0x00, CHR 0x00, CHR 0x00, CHR 0x00, CHR 0x00, CHR 0x38, CHR 0x00, CHR 0x01, CHR 0x00, CHR 0x00, CHR 0x00, CHR 0x00, CHR 0x00, CHR 0x00, CHR 0x00, CHR 0x03, CHR 0x00, CHR 0x00, CHR 0x00, CHR 0x00, CHR 0x00, CHR 0x00, CHR 0x00, CHR 0x78, CHR 0x00, CHR 0x00, CHR 0x00, CHR 0x00, CHR 0x00, CHR 0x00, CHR 0x00, CHR 0x00, CHR 0x00, CHR 0x00, CHR 0x00, CHR 0x00, CHR 0x00, CHR 0x00, CHR 0x00, CHR 0x00, CHR 0x00, CHR 0x00, CHR 0x00, CHR 0x00, CHR 0x00, CHR 0x00, CHR 0x00, CHR 0x0A, CHR 0x00, CHR 0x00, CHR 0x00, CHR 0x00, CHR 0x00, CHR 0x00, CHR 0x00, CHR 0x00, CHR 0x00, CHR 0x00, CHR 0x00, CHR 0x00, CHR 0x00, CHR 0x00, CHR 0x00, CHR 0x00, CHR 0x00, CHR 0x00, CHR 0x00, CHR 0x00, CHR 0x00, CHR 0x00, CHR 0x00] @ ''/ld-linux.''"

lemmas elf_eval = elf_header_def field_at_def slice_def usize_add_def code_of_def elf_magic_def

lemma short_entry_panics_witness: "check_elf_compat short_entry_elf = None"
proof (rule short_entry_panics [where off = 62 and ent = 1 and num = 1])
  show "elf_header (code_of (short_entry_elf ! 4)) short_entry_elf = Some (62, 1, 1)"
    by (simp add: short_entry_elf_def elf_eval)
qed (simp_all add: short_entry_elf_def elf_eval)

lemma prefix_verdict_stands_witness:
  "check_elf_compat_for_metal glibc_elf = Some (Inl (GlibcBinary ''/ld-linux.''))"
proof -
  have w: "check_elf_compat glibc_elf = Some (Glibc ''/ld-linux.'')"
    by (simp add: glibc_elf_def elf_eval check_elf_compat_def elf_entry_def elf_segment_def
        classify_interp_def trim_end_char_def starts_with_def byte_in_def utf8_cont_def)
  have "check_elf_compat_file (Some glibc_elf) (Some 130) = Some (Inl (GlibcBinary ''/ld-linux.''))"
    using w by (simp add: check_elf_compat_file_def check_elf_compat_for_metal_def glibc_elf_def)
  from prefix_verdict_stands [OF this] show ?thesis by simp
qed

section \<open>Money\<close>

definition topup_entry :: ledger_row where
  "topup_entry = \<lparr>le_id = 40, le_workspace = 2, le_amount = 5000000, le_kind = ''topup'',
     le_description = ''credit top-up'', le_reference = Some ''pi'', le_balance_after = 5000000,
     le_session = Some ''cs_1'', le_created_at = 1699000000\<rparr>"

definition checkout_object :: json where
  "checkout_object = JObj [(''id'', JStr ''cs_1''), (''mode'', JStr ''payment''),
     (''customer'', JStr ''cus''), (''amount_total'', JInt 500),
     (''metadata'', JObj [(''type'', JStr ''topup'')])]"

lemma checkout_idempotent_witness:
  "w_db (snd (handle_checkout_completed sample_env checkout_object
     (world_of ((sample_db 5000000 ''owner'' [])\<lparr>t_ledger := [topup_entry]\<rparr>)))) =
   (sample_db 5000000 ''owner'' [])\<lparr>t_ledger := [topup_entry]\<rparr>"
  by (subst checkout_idempotent [where session = "''cs_1''"])
    (simp_all add: checkout_object_def get_str_def sessions_def List.map_filter_simps topup_entry_def world_of_def)

definition over_world :: world where
  "over_world = world_of ((sample_db 3 ''owner'' [sample_service 7 ''s'' ''running''])
     \<lparr>t_workspaces := [(sample_workspace 3)\<lparr>ws_free_used := 1000000\<rparr>]\<rparr>)"

lemma bill_liquid_effect_witness:
  "\<exists>ws'. filter (\<lambda>x. ws_id x = 2)
       (t_workspaces (w_db (snd (bill_liquid sample_env 2 10 [] 1000000 over_world)))) = [ws'] \<and>
     ws_balance ws' = 0"
proof -
  have cost: "free_consumed_of 10 1000000 = 0" "liquid_cost 10 = 3"
    by (simp_all add: free_consumed_of_def FREE_LIQUID_INVOCATIONS_def liquid_cost_def
        LIQUID_PRICE_PER_MILLION_def wrap_i64_def signed_divide_int_def)
  have "fst (bill_liquid sample_env 2 10 [] 1000000 over_world) = Inr ()"
    by (simp add: bill_liquid_def Let_def cost wrap_i64_def over_world_def sample_defs run_defs
        deduct_balance_def sql_adjust_balance_def sql_insert_ledger_def ledger_kind_check_def in_i64_def
        workspace_exists_def insert_suspend_outbox_def sql_has_active_def sql_insert_outbox_def
        sql_mark_billed_def table_simps)
  from bill_liquid_effect [OF run_pair [OF this], where ws = "(sample_workspace 3)\<lparr>ws_free_used := 1000000\<rparr>"]
  show ?thesis by (auto simp: over_world_def sample_defs)
qed

lemma metal_charge_always_suspends_witness:
  "\<exists>row. t_outbox (w_db (snd (charge_metal sample_env 7 2 2000
      (world_of (sample_db 50000000 ''owner'' [sample_service 7 ''s'' ''running'']))))) = [row] \<and>
    ob_subject row = subject_suspend"
proof -
  let ?w = "world_of (sample_db 50000000 ''owner'' [sample_service 7 ''s'' ''running''])"
  have "fst (charge_metal sample_env 7 2 2000 ?w) = Inr ()"
    by (simp add: charge_metal_def Let_def wrap_i64_def MICROCREDITS_PER_CENT_def sample_defs run_defs
        deduct_balance_def sql_adjust_balance_def sql_insert_ledger_def ledger_kind_check_def in_i64_def
        workspace_exists_def insert_suspend_outbox_def sql_has_active_def sql_insert_outbox_def
        sql_advance_cycle_def table_simps)
  from metal_charge_always_suspends [OF run_pair [OF this]]
  show ?thesis by (simp add: active_in_def sample_defs) blast
qed

lemma metal_billing_panics_witness:
  "fst (metal_billing_once sample_env (world_of (sample_db 0 ''owner'' [sample_service 7 ''s'' ''running'']))) =
   Inl (Panicked ''error retrieving column'')"
  by (rule metal_billing_panics [THEN conjunct1])
    (simp_all add: fault_free_def metal_due_def days_def sample_defs)

definition usage_entry :: usage_row where
  "usage_entry = \<lparr>ue_id = 50, ue_workspace = 2, ue_service = 7, ue_engine = ''liquid'',
     ue_quantity = 3, ue_duration_ms = 0, ue_billed = False, ue_created_at = 1699000000\<rparr>"

lemma aggregate_panics_witness:
  "fst (aggregate_once sample_env (world_of ((sample_db 0 ''owner'' [])\<lparr>t_usage := [usage_entry]\<rparr>))) =
   Inl (Panicked ''error retrieving column'')"
  by (rule aggregate_panics [THEN conjunct1])
    (simp_all add: fault_free_def unbilled_liquid_def usage_entry_def sample_defs)

definition sample_deployment :: "uuid \<Rightarrow> deployment_row" where
  "sample_deployment sid = \<lparr>dl_id = 60, dl_service = sid, dl_workspace = 2, dl_slug = ''s'', dl_engine = ''metal'',
     dl_artifact_key = ''k'', dl_commit_sha = None, dl_port = Some 80, dl_deployed_by = 1,
     dl_created_at = 1690000000\<rparr>"

lemma topup_resumes_services_witness:
  "\<exists>s. t_services (w_db (snd (enqueue_unsuspend sample_env 2 (world_of
      ((sample_db 1 ''owner'' [sample_service 7 ''s'' ''suspended''])\<lparr>t_deployments := [sample_deployment 7]\<rparr>))))) = [s] \<and>
    sv_status s = ''provisioning''"
proof -
  let ?w = "world_of ((sample_db 1 ''owner'' [sample_service 7 ''s'' ''suspended''])\<lparr>t_deployments := [sample_deployment 7]\<rparr>)"
  have "fst (enqueue_unsuspend sample_env 2 ?w) = Inr ()"
    by (simp add: enqueue_unsuspend_def sql_suspended_def suspended_in_def latest_deployment_def
        sample_deployment_def unsuspend_service_def engine_from_str_def sql_set_status_def
        service_status_check_def sql_insert_outbox_def sample_defs run_defs)
  from topup_resumes_services [OF run_pair [OF this], THEN conjunct1] show ?thesis
    by (simp add: resumable_def suspended_in_def latest_deployment_def engine_known_def
        sample_deployment_def sample_defs table_simps)
qed

section \<open>Services and deployments\<close>

definition deploy_body :: deploy_request where
  "deploy_body = \<lparr>dr_name = ''app'', dr_slug = ''app'', dr_engine = ''metal'', dr_project_id = ''3'',
     dr_artifact_key = ''k'', dr_sha256 = ''h'', dr_port = Some 80, dr_tier = Some ''one''\<rparr>"

lemma deploy_slug_sample: "deploy_slug env deploy_body = Inr ''app''"
  by (simp add: deploy_slug_def deploy_body_def is_ascii_alphanumeric_def is_ascii_lower_def code_of_def)

lemma redeploy_of_used_slug_fails_witness:
  "w_db (snd (deploy_service sample_env (sample_caller ''write'') deploy_body
     (world_of (sample_db 50000000 ''owner'' [sample_service 7 ''app'' ''stopped''])))) =
   sample_db 50000000 ''owner'' [sample_service 7 ''app'' ''stopped'']"
  using redeploy_of_used_slug_fails [OF deploy_slug_sample,
      of "world_of (sample_db 50000000 ''owner'' [sample_service 7 ''app'' ''stopped''])"]
  by (simp add: sample_defs)

lemma scope_samples:
  "require_scope (sample_caller ''write'') ''write'' = Inr ()"
  "require_scope (sample_caller ''admin'') ''admin'' = Inr ()"
  "require_workspace_role ''owner'' ''admin'' = Inr ()"
  by (simp_all add: require_scope_ok scope_allowed_def sample_caller_def require_workspace_role_admin)

definition deploy_world :: world where
  "deploy_world = world_of (sample_db 50000000 ''owner'' [])"

definition deploy_specification :: engine_spec where
  "deploy_specification = SpecMetal \<lparr>ms_vcpu = 1, ms_memory_mb = 2048, ms_port = 80, ms_artifact_key = ''k'',
      ms_artifact_sha256 = Some ''h'', ms_quota = default_quota\<rparr>"

lemma deploy_spec_sample:
  "deploy_spec sample_env deploy_body = Inr (Metal, deploy_specification, Some (METAL_TIERS ! 0))"
  by (simp add: deploy_spec_def deploy_body_def engine_from_str_def metal_tier_unfold METAL_TIERS_def
      wrap_u16_def or_default_def deploy_specification_def requested_sha_def sample_env_def)

lemma authorize_sample:
  "authorize_project sample_env (sample_caller ''write'') ''3'' deploy_world =
     (Inr (3, 2), tick (tick deploy_world))"
  by (simp add: authorize_project_def deploy_world_def sample_defs run_defs sql_project_for_def scope_samples)

lemma check_sample:
  "transact sample_env e1 e2 (deploy_check_txn sample_env 2 slug) (tick (tick (tick deploy_world))) =
     (Inr (), deploy_world\<lparr>w_calls := 8\<rparr>)"
  by (simp add: deploy_check_txn_def run_defs sql_advisory_lock_def sql_count_services_def service_count_def
    sql_slug_active_def slug_active_def MAX_SERVICES_PER_WORKSPACE_def deploy_world_def sample_defs)

lemma first_deploy_sample:
  assumes "pl_workspace p = 2" "pl_project p = 3" "pl_tier p = Some (METAL_TIERS ! 0)"
  shows "fst (transact sample_env e1 e2 (deploy_txn sample_env 1 p) (deploy_world\<lparr>w_calls := 8\<rparr>)) = Inr ()"
  using assms
  by (simp add: deploy_txn_def run_defs sql_retire_old_def table_simps sql_insert_service_def service_exists_def
    service_slug_free_def project_exists_def workspace_exists_def deploy_world_def sample_defs METAL_TIERS_def
    charge_first_month_def sql_charge_def sql_insert_charge_def wrap_i64_def wrap_i32_def in_i64_def
    sql_peers_def sql_insert_outbox_def sql_insert_deployment_def)

lemma deploy_sample:
  "\<exists>ds. deploy_service sample_env (sample_caller ''write'') deploy_body deploy_world =
     (Inr ds, snd (deploy_service sample_env (sample_caller ''write'') deploy_body deploy_world))"
proof -
  have a: "authorize_project sample_env (sample_caller ''write'') (dr_project_id deploy_body) deploy_world =
     (Inr (3, 2), tick (tick deploy_world))"
    using authorize_sample by (simp add: deploy_body_def)
  have v: "validate_body deploy_body = Inr ()" by (simp add: validate_body_def deploy_body_def)
  define p where "p = \<lparr>pl_service = 1002, pl_project = 3, pl_workspace = 2, pl_name = dr_name deploy_body,
     pl_slug = ''app'', pl_engine = Metal, pl_artifact_key = dr_artifact_key deploy_body,
     pl_sha256 = dr_sha256 deploy_body, pl_spec = deploy_specification,
     pl_tier = Some (METAL_TIERS ! 0)\<rparr>"
  have u: "ca_user_id (sample_caller ''write'') = 1" by (simp add: sample_caller_def)
  have f: "fresh_id sample_env (tick (tick deploy_world)) = (Inr 1002, tick (tick (tick deploy_world)))"
    by (simp add: fresh_id_def sample_env_def deploy_world_def world_of_def)
  have "deploy_service sample_env (sample_caller ''write'') deploy_body deploy_world =
      andthen (transact sample_env (internal ''failed to start transaction'')
                   (internal ''failed to commit deploy transaction'') (deploy_txn sample_env 1 p))
        (\<lambda>_. ret (deployed p)) (deploy_world\<lparr>w_calls := 8\<rparr>)"
    by (simp add: deploy_service_def scope_samples v andthen_def [of "authorize_project env c d" for env c d]
        a deploy_spec_sample deploy_slug_sample u andthen_def [of "fresh_id env" for env] f
        andthen_def [of "transact env b c (deploy_check_txn d e f)" for env b c d e f] check_sample p_def Let_def)
  moreover obtain v where "transact sample_env (internal ''failed to start transaction'')
      (internal ''failed to commit deploy transaction'') (deploy_txn sample_env 1 p) (deploy_world\<lparr>w_calls := 8\<rparr>) =
      (Inr (), v)"
    using run_pair [OF first_deploy_sample [of p]] by (auto simp: p_def)
  ultimately show ?thesis by (simp add: andthen_def ret_def)
qed

lemma deploy_guards_witness:
  "\<exists>pid wid. e_parse_uuid sample_env (dr_project_id deploy_body) = Some pid \<and>
     may_deploy (w_db deploy_world) (sample_caller ''write'') pid wid"
  using deploy_sample deploy_guards [where w = deploy_world and body = deploy_body] by metis

lemma deploy_effect_witness:
  "\<exists>s. t_services (w_db (snd (deploy_service sample_env (sample_caller ''write'') deploy_body deploy_world))) = [s] \<and>
     sv_status s = ''provisioning''"
proof -
  from deploy_sample obtain ds where
    "deploy_service sample_env (sample_caller ''write'') deploy_body deploy_world =
     (Inr ds, snd (deploy_service sample_env (sample_caller ''write'') deploy_body deploy_world))" by blast
  from deploy_effect [OF this] obtain s where
    "t_services (w_db (snd (deploy_service sample_env (sample_caller ''write'') deploy_body deploy_world))) =
       t_services (w_db deploy_world) @ [s]" "sv_status s = ''provisioning''" by blast
  then show ?thesis by (simp add: deploy_world_def sample_defs)
qed

definition liquid_plan :: "uuid \<Rightarrow> string \<Rightarrow> deploy_plan" where
  "liquid_plan sid slug = \<lparr>pl_service = sid, pl_project = 3, pl_workspace = 2, pl_name = slug, pl_slug = slug,
     pl_engine = Liquid, pl_artifact_key = ''k'', pl_sha256 = ''h'',
     pl_spec = SpecLiquid \<lparr>ls_artifact_key = ''k'', ls_artifact_sha256 = None\<rparr>, pl_tier = None\<rparr>"

lemma check_from:
  "transact sample_env e1 e2 (deploy_check_txn sample_env 2 slug) (deploy_world\<lparr>w_calls := n\<rparr>) =
     (Inr (), deploy_world\<lparr>w_calls := n + 5\<rparr>)"
  by (simp add: deploy_check_txn_def run_defs sql_advisory_lock_def sql_count_services_def service_count_def
    sql_slug_active_def slug_active_def MAX_SERVICES_PER_WORKSPACE_def deploy_world_def sample_defs)

lemmas liquid_eval =
  liquid_plan_def deploy_txn_def run_defs sql_retire_old_def table_simps sql_insert_service_def
  service_exists_def service_slug_free_def project_exists_def workspace_exists_def deploy_world_def
  sample_defs sql_peers_def sql_insert_outbox_def sql_insert_deployment_def new_service_def
  spec_columns_def peer_of_def replaceable_def

lemma liquid_deploy_sample:
  "fst (transact sample_env e1 e2 (deploy_txn sample_env 1 (liquid_plan 11 ''b''))
     (snd (transact sample_env e1 e2 (deploy_txn sample_env 1 (liquid_plan 10 ''a''))
       (deploy_world\<lparr>w_calls := 16\<rparr>)))) = Inr ()"
  by (simp add: liquid_eval)


lemma two_deploys_sample:
  obtains w3 w4 where
    "transact sample_env (internal []) (internal []) (deploy_txn sample_env 1 (liquid_plan 10 ''a''))
        (deploy_world\<lparr>w_calls := 16\<rparr>) = (Inr (), w3)"
    "transact sample_env (internal []) (internal []) (deploy_txn sample_env 1 (liquid_plan 11 ''b'')) w3 = (Inr (), w4)"
proof -
  have "fst (transact sample_env (internal []) (internal []) (deploy_txn sample_env 1 (liquid_plan 10 ''a''))
        (deploy_world\<lparr>w_calls := 16\<rparr>)) = Inr ()" by (simp add: liquid_eval)
  from run_pair [OF this] run_pair [OF liquid_deploy_sample] show ?thesis by (rule that)
qed

lemma quota_checked_before_not_with_witness:
  "\<exists>w3 w4. transact sample_env (internal []) (internal []) (deploy_txn sample_env 1 (liquid_plan 11 ''b'')) w3 =
      (Inr (), w4) \<and> service_count 2 (w_db w4) = service_count 2 (w_db (deploy_world\<lparr>w_calls := 6\<rparr>)) + 2"
proof -
  obtain w3 w4 where a: "transact sample_env (internal []) (internal []) (deploy_txn sample_env 1 (liquid_plan 10 ''a''))
        (deploy_world\<lparr>w_calls := 16\<rparr>) = (Inr (), w3)"
    and b: "transact sample_env (internal []) (internal []) (deploy_txn sample_env 1 (liquid_plan 11 ''b'')) w3 = (Inr (), w4)"
    by (rule two_deploys_sample)
  have c: "transact sample_env (internal []) (internal []) (deploy_check_txn sample_env 2 ''a'') (deploy_world\<lparr>w_calls := 6\<rparr>) =
     (Inr (), deploy_world\<lparr>w_calls := 11\<rparr>)"
    "transact sample_env (internal []) (internal []) (deploy_check_txn sample_env 2 ''b'') (deploy_world\<lparr>w_calls := 11\<rparr>) =
     (Inr (), deploy_world\<lparr>w_calls := 16\<rparr>)"
    using check_from [of _ _ _ 6] check_from [of _ _ _ 11] by simp_all
  from quota_checked_before_not_with [OF c a b] b show ?thesis by (auto simp: liquid_plan_def)
qed

lemma rollback_changes_no_artifact_witness:
  "artifact_view (w_db (snd (rollback_service sample_env (sample_caller ''write'') ''7'' None (world_of
     ((sample_db 0 ''owner'' [sample_service 7 ''s'' ''running''])\<lparr>t_deployments := [sample_deployment 7]\<rparr>))))) =
   [(7, Some ''k'')]"
proof -
  let ?w = "world_of ((sample_db 0 ''owner'' [sample_service 7 ''s'' ''running''])\<lparr>t_deployments := [sample_deployment 7]\<rparr>)"
  have "artifacts_ok (w_db ?w)"
    by (simp add: artifacts_ok_def service_exists_def sample_deployment_def sample_defs)
  from rollback_changes_no_artifact [OF this] show ?thesis
    by (simp add: artifact_view_def sample_defs)
qed

definition service_world :: "string \<Rightarrow> world" where
  "service_world status = world_of (sample_db 0 ''owner'' [sample_service 7 ''s'' status])"

lemma authorize_service_sample:
  "authorize_service sample_env (sample_caller ''write'') ''write'' ''7'' (service_world status) =
     (Inr (sample_service 7 ''s'' status), tick (tick (service_world status)))"
  "authorize_service sample_env (sample_caller ''admin'') ''admin'' ''7'' (service_world status) =
     (Inr (sample_service 7 ''s'' status), tick (tick (service_world status)))"
  by (rule authorize_service_ok; simp add: holds_role_def services_with_role_def live_service_def
      scope_allowed_def service_world_def sample_defs)+

lemma stop_effect_witness:
  "\<exists>s :: service_row. sv_status s \<noteq> ''stopped'' \<and>
     t_services (w_db (snd (stop_service sample_env (sample_caller ''write'') ''7'' (service_world ''running'')))) =
     update_where (stoppable (sv_id s)) (\<lambda>r. r\<lparr>sv_status := ''stopped'', sv_upstream := None\<rparr>)
       (t_services (w_db (service_world ''running'')))"
proof -
  have "fst (stop_service sample_env (sample_caller ''write'') ''7'' (service_world ''running'')) = Inr ()"
    by (simp add: stop_service_def andthen_def [of "authorize_service a b c d" for a b c d] authorize_service_sample)
      (simp add: stop_txn_def run_defs sql_stop_service_def stoppable_def parse_engine_def engine_from_str_def
        sql_clean_outbox_def sql_insert_outbox_def service_world_def sample_defs table_simps delete_where_def)
  from stop_effect [OF run_pair [OF this]] show ?thesis by blast
qed

lemma failed_cleanup_loses_delete_witness:
  "w_log (snd (delete_service (sample_env\<lparr>e_fault := \<lambda>n. n = 4\<rparr>) (sample_caller ''admin'') ''7''
     (service_world ''stopped''))) = [S3Delete ''k'']"
proof -
  have "w_log (snd (delete_service (sample_env\<lparr>e_fault := \<lambda>n. n = 4\<rparr>) (sample_caller ''admin'') ''7''
     (service_world ''stopped''))) = w_log (service_world ''stopped'') @ [S3Delete ''k'']"
    by (rule failed_cleanup_loses_delete [where s = "sample_service 7 ''s'' ''stopped''", THEN conjunct2, THEN conjunct2])
      (simp_all add: holds_role_def services_with_role_def live_service_def scope_allowed_def
        needs_deprovision_def service_world_def sample_defs)
  then show ?thesis by (simp add: service_world_def world_of_def)
qed

lemma delete_effect_witness:
  "\<exists>xs. w_log (snd (delete_service sample_env (sample_caller ''admin'') ''7'' (service_world ''running''))) = xs \<and>
     accounts (w_db (snd (delete_service sample_env (sample_caller ''admin'') ''7'' (service_world ''running'')))) =
     accounts (w_db (service_world ''running''))"
proof -
  have "fst (delete_service sample_env (sample_caller ''admin'') ''7'' (service_world ''running'')) = Inr (7, ''s'')"
    by (simp add: delete_service_def andthen_def [of "authorize_service a b c d" for a b c d] authorize_service_sample)
      (simp add: delete_txn_def run_defs sql_delete_service_def live_service_def needs_deprovision_def engine_from_str_def
        sql_clean_outbox_def sql_insert_outbox_def service_world_def sample_defs table_simps delete_where_def)
  moreover have "fault_free sample_env" by (simp add: fault_free_def sample_env_def)
  ultimately show ?thesis using delete_effect [OF run_pair] by blast
qed

lemma restart_effect_witness:
  "\<exists>ob. t_outbox (w_db (snd (restart_service sample_env (sample_caller ''write'') ''7'' (service_world ''stopped'')))) = [ob] \<and>
     ob_subject ob = subject_provision"
proof -
  have "\<exists>ds. fst (restart_service sample_env (sample_caller ''write'') ''7'' (service_world ''stopped'')) = Inr ds"
    by (simp add: restart_service_def andthen_def [of "authorize_service a b c d" for a b c d] authorize_service_sample)
      (simp add: restart_txn_def run_defs sql_restartable_def restartable_def live_service_def parse_engine_def engine_from_str_def
        query_or_empty_def sql_peers_def peer_of_def sql_start_again_def
        sql_insert_outbox_def service_world_def sample_defs table_simps)
  then obtain ds where "fst (restart_service sample_env (sample_caller ''write'') ''7'' (service_world ''stopped'')) = Inr ds" by blast
  from restart_effect [OF run_pair [OF this]] show ?thesis
    by (auto simp: service_world_def sample_defs)
qed


section \<open>The outbox\<close>

definition waiting_event :: outbox_row where
  "waiting_event = \<lparr>ob_id = 70, ob_subject = subject_suspend,
     ob_payload = EvSuspend \<lparr>su_workspace_id = ''2'', su_reason = ''balance depleted''\<rparr>,
     ob_created_at = 1600000000\<rparr>"

definition waiting_world :: world where
  "waiting_world = world_of (empty_db\<lparr>t_outbox := [waiting_event]\<rparr>)"

lemma waiting_world_ok: "outbox_ids_ok (w_db waiting_world)" "fault_free sample_env"
  by (simp_all add: outbox_ids_ok_def waiting_world_def fault_free_def sample_defs)

lemma outbox_polls_conserve_witness:
  "message_of waiting_event \<in> message_of ` set (t_outbox (w_db (((\<lambda>v. snd (poll_once sample_env 50 v)) ^^ 3) waiting_world))) \<union>
     set (w_log (((\<lambda>v. snd (poll_once sample_env 50 v)) ^^ 3) waiting_world))"
  using outbox_polls_conserve [OF waiting_world_ok(1), where env = sample_env and n = 50 and k = 3]
  by (simp add: waiting_world_def world_of_def)

lemma outbox_drains_witness:
  "t_outbox (w_db (((\<lambda>v. snd (poll_once sample_env 50 v)) ^^ 1) waiting_world)) = []"
  by (rule outbox_drains [THEN conjunct1]) (simp_all add: waiting_world_ok, simp add: waiting_world_def world_of_def)

lemma stale_events_lost_witness:
  "waiting_event \<notin> set (t_outbox (w_db (snd (cleanup_stale sample_env 30 waiting_world))))"
  by (rule stale_events_lost [THEN conjunct1])
    (simp_all add: waiting_world_ok, simp_all add: waiting_world_def waiting_event_def sample_defs)

section \<open>Authentication\<close>

definition sample_key :: api_key_row where
  "sample_key = \<lparr>ak_id = 9, ak_user = 1, ak_name = ''k'', ak_token_hash = hash_token sample_env ''lm_x'',
     ak_prefix = ''lm_x'', ak_scopes = [''write''], ak_expires_at = Some 1800000000,
     ak_last_used_at = None, ak_created_at = 1, ak_deleted_at = None\<rparr>"

definition key_world :: world where
  "key_world = world_of (empty_db\<lparr>t_users := [sample_user], t_api_keys := [sample_key]\<rparr>)"

lemma auth_middleware_sound_witness:
  "\<exists>c. fst (auth_middleware sample_env [''x-api-key'' \<mapsto> ''lm_x''] key_world) = Inr c \<and>
     (\<exists>r \<in> set (t_users (w_db key_world)). us_id r = ca_user_id c \<and> us_deleted_at r = None)"
proof -
  have "fst (auth_middleware sample_env [''x-api-key'' \<mapsto> ''lm_x''] key_world) =
      Inr \<lparr>ca_user_id = 1, ca_scopes = [''write''], ca_api_key_id = Some 9\<rparr>"
    by (simp add: auth_middleware_def auth_api_key_def extract_raw_token_def header_str_def key_world_def
        sample_key_def run_defs sql_touch_api_key_def api_key_matches_def starts_with_def sample_defs)
  from auth_middleware_sound [OF run_pair [OF this]] this show ?thesis by blast
qed

lemma create_api_key_row_witness:
  "\<exists>c. fst (create_api_key sample_env (sample_caller ''admin'') ''ci'' [] None
       (world_of (sample_db 0 ''owner'' []))) = Inr c \<and>
     ''admin'' \<in> set (ca_scopes (sample_caller ''admin''))"
proof -
  obtain k t s e where c: "fst (create_api_key sample_env (sample_caller ''admin'') ''ci'' [] None
       (world_of (sample_db 0 ''owner'' []))) = Inr (k, t, s, e)"
    by (simp add: create_api_key_def scope_samples generate_token_def run_defs)
      (simp add: run_defs sql_insert_api_key_def sample_defs)
  from create_api_key_row [OF run_pair [OF c]] c show ?thesis by blast
qed

section \<open>Invoices\<close>

definition invoice_env :: env where
  "invoice_env = sample_env\<lparr>e_i64_accepts := \<lambda>_. True,
     e_stripe := Some (\<lambda>_ _ _. Some \<lparr>sr_status = 200, sr_body = Some (JObj [(''id'', JStr ''in_1'')])\<rparr>)\<rparr>"

definition charged_world :: world where
  "charged_world = world_of ((sample_db 0 ''owner'' [])\<lparr>t_ledger :=
     [topup_entry\<lparr>le_amount := - 20000000, le_kind := ''metal_monthly''\<rparr>]\<rparr>)"


end
