(* ===== verification/Routes.thy ===== *)
theory Routes
  imports Procs "HOL-Library.AList"
begin

text \<open>
  The state of the edge proxy: its route, domain and certificate caches
  (\<open>crates/proxy/src/cache.rs\<close>, \<open>db.rs\<close>, \<open>tls.rs\<close>, the certificate reload of
  \<open>main.rs\<close>). A \<open>HashMap\<close> is an association list with distinct keys; the contract
  \<open>keyed_store\<close> is what the synchronisation of a cache with the database relies on.
\<close>

section \<open>Hash maps\<close>

type_synonym ('k, 'v) hmap = "('k \<times> 'v) list"

definition hm_ok :: "('k, 'v) hmap \<Rightarrow> bool" where
  "hm_ok m = distinct (map fst m)"

definition hm_get :: "('k, 'v) hmap \<Rightarrow> 'k \<Rightarrow> 'v option" where
  "hm_get m = map_of m"

definition hm_insert :: "'k \<Rightarrow> 'v \<Rightarrow> ('k, 'v) hmap \<Rightarrow> ('k, 'v) hmap" where
  "hm_insert k v m = AList.update k v m"

definition hm_remove :: "'k \<Rightarrow> ('k, 'v) hmap \<Rightarrow> ('k, 'v) hmap" where
  "hm_remove k m = AList.delete k m"

definition hm_retain :: "('k \<Rightarrow> 'v \<Rightarrow> bool) \<Rightarrow> ('k, 'v) hmap \<Rightarrow> ('k, 'v) hmap" where
  "hm_retain p m = filter (\<lambda>(k, v). p k v) m"

definition hm_collect :: "('k \<times> 'v) list \<Rightarrow> ('k, 'v) hmap \<Rightarrow> ('k, 'v) hmap" where
  "hm_collect kvs m = fold (\<lambda>(k, v). hm_insert k v) kvs m"

named_theorems hm_simps

lemma hm_ok_Nil [hm_simps]: "hm_ok []"
  by (simp add: hm_ok_def)

lemma hm_ok_insert [hm_simps]: "hm_ok m \<Longrightarrow> hm_ok (hm_insert k v m)"
  by (simp add: hm_ok_def hm_insert_def distinct_update)

lemma hm_ok_remove [hm_simps]: "hm_ok m \<Longrightarrow> hm_ok (hm_remove k m)"
  by (simp add: hm_ok_def hm_remove_def distinct_delete)

lemma hm_ok_retain [hm_simps]: "hm_ok m \<Longrightarrow> hm_ok (hm_retain p m)"
  by (simp add: hm_ok_def hm_retain_def distinct_map_filter)

lemma hm_get_Nil [hm_simps]: "hm_get [] k = None"
  by (simp add: hm_get_def)

lemma hm_get_insert [hm_simps]: "hm_get (hm_insert k v m) = (hm_get m)(k \<mapsto> v)"
  by (simp add: hm_get_def hm_insert_def update_conv')

lemma hm_get_remove [hm_simps]: "hm_get (hm_remove k m) = (hm_get m)(k := None)"
  by (simp add: hm_get_def hm_remove_def delete_conv')

lemma hm_get_retain [hm_simps]:
  assumes "hm_ok m"
  shows "hm_get (hm_retain p m) k =
    (case hm_get m k of Some v \<Rightarrow> if p k v then Some v else None | None \<Rightarrow> None)"
  using assms
proof (induction m)
  case (Cons kv m)
  obtain a b where [simp]: "kv = (a, b)" by (cases kv)
  from Cons have ok: "hm_ok m" and a: "a \<notin> fst ` set m" by (auto simp: hm_ok_def)
  then have "hm_get m a = None" by (simp add: hm_get_def map_of_eq_None_iff)
  with Cons.IH [OF ok] show ?case by (auto simp: hm_retain_def hm_get_def split: option.splits)
qed (simp add: hm_retain_def hm_get_def)

lemma hm_get_SomeD: "hm_get m k = Some v \<Longrightarrow> (k, v) \<in> set m"
  by (simp add: hm_get_def map_of_SomeD)

lemma hm_get_iff: "hm_ok m \<Longrightarrow> hm_get m k = Some v \<longleftrightarrow> (k, v) \<in> set m"
  by (simp add: hm_get_def hm_ok_def)

lemma hm_set_insert: "hm_ok m \<Longrightarrow> x \<in> set (hm_insert k v m) \<longleftrightarrow> x = (k, v) \<or> x \<in> set m \<and> fst x \<noteq> k"
  by (cases x) (auto simp: hm_get_iff [OF hm_ok_insert, symmetric] hm_get_insert hm_get_iff
      split: if_splits)

lemma hm_length_insert:
  "length (hm_insert k v m) = (if hm_get m k = None then Suc (length m) else length m)"
  unfolding hm_get_def hm_insert_def by (induction m) auto

lemma hm_set_retain [hm_simps]: "set (hm_retain p m) = {(k, v) \<in> set m. p k v}"
  by (auto simp: hm_retain_def)

lemma hm_set_remove: "set (hm_remove k m) \<subseteq> set m"
  by (auto simp: hm_remove_def AList.delete_eq)

lemma hm_ok_collect [hm_simps]: "hm_ok m \<Longrightarrow> hm_ok (hm_collect kvs m)"
  unfolding hm_collect_def by (induction kvs arbitrary: m) (auto simp: hm_simps)

lemma map_add_insert:
  assumes "k \<notin> fst ` set kvs"
  shows "f(k \<mapsto> v) ++ map_of kvs = f ++ map_of ((k, v) # kvs)"
proof -
  from assms have "k \<notin> dom (map_of kvs)" by (simp add: dom_map_of_conv_image_fst)
  then have "f(k \<mapsto> v) ++ map_of kvs = (f ++ map_of kvs)(k \<mapsto> v)" by (rule map_add_upd_left)
  also have "\<dots> = f ++ (map_of kvs)(k \<mapsto> v)" by (rule map_add_upd [symmetric])
  finally show ?thesis by (simp only: map_of.simps fst_conv snd_conv)
qed

lemma hm_get_collect:
  "distinct (map fst kvs) \<Longrightarrow> hm_get (hm_collect kvs m) = hm_get m ++ map_of kvs"
proof (induction kvs arbitrary: m)
  case (Cons kv kvs)
  obtain k v where [simp]: "kv = (k, v)" by (cases kv)
  have "hm_get (hm_collect (kv # kvs) m) = hm_get (hm_collect kvs (hm_insert k v m))"
    by (simp add: hm_collect_def)
  also have "\<dots> = hm_get (hm_insert k v m) ++ map_of kvs"
    by (rule Cons.IH) (use Cons.prems in simp)
  also have "\<dots> = (hm_get m)(k \<mapsto> v) ++ map_of kvs" by (simp only: hm_get_insert)
  also have "\<dots> = hm_get m ++ map_of (kv # kvs)"
    using map_add_insert [of k kvs] Cons.prems by (simp only: \<open>kv = (k, v)\<close>) simp
  finally show ?case .
qed (simp add: hm_collect_def)

section \<open>Synchronising a store with an authoritative map\<close>

locale keyed_store =
  fixes ok :: "'m \<Rightarrow> bool" and get :: "'m \<Rightarrow> 'k \<Rightarrow> 'v option"
    and ins :: "'k \<Rightarrow> 'v \<Rightarrow> 'm \<Rightarrow> 'm" and keep :: "('k \<Rightarrow> bool) \<Rightarrow> 'm \<Rightarrow> 'm"
  assumes ok_ins: "ok m \<Longrightarrow> ok (ins k v m)"
    and get_ins: "ok m \<Longrightarrow> get (ins k v m) = (get m)(k \<mapsto> v)"
    and ok_keep: "ok m \<Longrightarrow> ok (keep p m)"
    and get_keep: "ok m \<Longrightarrow> get (keep p m) k = (if p k then get m k else None)"
begin

lemma ok_fold: "ok m \<Longrightarrow> ok (fold (\<lambda>(k, v) m. if get m k = Some v then m else ins k v m) kvs m)"
  by (induction kvs arbitrary: m) (auto simp: ok_ins)

lemma get_fold:
  assumes "ok m" and "distinct (map fst kvs)"
  shows "get (fold (\<lambda>(k, v) m. if get m k = Some v then m else ins k v m) kvs m) =
    get m ++ map_of kvs"
  using assms
proof (induction kvs arbitrary: m)
  case (Cons kv kvs)
  obtain k v where [simp]: "kv = (k, v)" by (cases kv)
  define m' where "m' = (if get m k = Some v then m else ins k v m)"
  from Cons.prems have "ok m'" and "get m' = (get m)(k \<mapsto> v)"
    by (auto simp: m'_def ok_ins get_ins)
  moreover from Cons.prems have "k \<notin> fst ` set kvs" by simp
  ultimately have "get m' ++ map_of kvs = get m ++ map_of (kv # kvs)"
    using map_add_insert [of k kvs "get m" v] by (simp only: \<open>kv = (k, v)\<close>) simp
  moreover have "get (fold (\<lambda>(k, v) m. if get m k = Some v then m else ins k v m) kvs m') =
    get m' ++ map_of kvs" by (rule Cons.IH) (use Cons.prems \<open>ok m'\<close> in auto)
  ultimately show ?case by (simp only: fold_Cons o_apply m'_def \<open>kv = (k, v)\<close> prod.case)
qed simp

text \<open>Adding what is missing or stale, then dropping what is gone, gives the target.\<close>

lemma synced:
  assumes "ok m" and "distinct (map fst kvs)"
  shows "get (keep (\<lambda>k. k \<in> fst ` set kvs)
    (fold (\<lambda>(k, v) m. if get m k = Some v then m else ins k v m) kvs m)) = map_of kvs"
proof
  fix k
  show "get (keep (\<lambda>k. k \<in> fst ` set kvs)
    (fold (\<lambda>(k, v) m. if get m k = Some v then m else ins k v m) kvs m)) k = map_of kvs k"
  proof (cases "k \<in> fst ` set kvs")
    case True
    then obtain v where "map_of kvs k = Some v" by (metis map_of_eq_None_iff not_None_eq)
    with True assms show ?thesis by (simp add: get_keep ok_fold get_fold)
  next
    case False
    then have "map_of kvs k = None" by (simp add: map_of_eq_None_iff)
    with False assms show ?thesis by (simp add: get_keep ok_fold)
  qed
qed

end

interpretation hash: keyed_store hm_ok hm_get hm_insert "\<lambda>p. hm_retain (\<lambda>k _. p k)"
  by unfold_locales (auto simp: hm_simps split: option.split)

section \<open>Queries\<close>

text \<open>A route of the services table: a running, live service with an address.\<close>

definition route_of :: "service_row \<Rightarrow> (string \<times> string) option" where
  "route_of s =
     (if sv_status s = ''running'' \<and> sv_deleted_at s = None
      then map_option (\<lambda>a. (sv_slug s, a)) (sv_upstream s) else None)"

definition sql_running_routes :: "(string \<times> string) list sql" where
  "sql_running_routes t u d = Inr (List.map_filter route_of (t_services d), d)"

definition serves_domain :: "domain_row \<Rightarrow> service_row \<Rightarrow> bool" where
  "serves_domain m s =
     (dm_service m = Some (sv_id s) \<and> dm_is_verified m \<and> sv_deleted_at s = None)"

definition verified_domains :: "db \<Rightarrow> (string \<times> string) list" where
  "verified_domains d =
     concat (map (\<lambda>m. map (\<lambda>s. (dm_domain m, sv_slug s))
       (filter (serves_domain m) (t_services d))) (t_domains d))"

definition sql_verified_domains :: "(string \<times> string) list sql" where
  "sql_verified_domains t u d = Inr (verified_domains d, d)"

record route_record =
  rt_service_id :: string
  rt_workspace_id :: string
  rt_engine :: string
  rt_status :: string
  rt_upstream_addr :: "string option"
  rt_snapshot_key :: "string option"

definition route_record_of :: "env \<Rightarrow> service_row \<Rightarrow> route_record" where
  "route_record_of env s =
     \<lparr>rt_service_id = e_uuid_str env (sv_id s), rt_workspace_id = e_uuid_str env (sv_workspace s),
      rt_engine = sv_engine s, rt_status = sv_status s, rt_upstream_addr = sv_upstream s,
      rt_snapshot_key = sv_snapshot_key s\<rparr>"

definition sql_lookup_route :: "env \<Rightarrow> string \<Rightarrow> route_record option sql" where
  "sql_lookup_route env slug t u d =
     opt_row (map (route_record_of env)
       (filter (\<lambda>s. sv_slug s = slug \<and> sv_deleted_at s = None) (t_services d))) d"

definition sql_lookup_domain :: "env \<Rightarrow> string \<Rightarrow> (string \<times> route_record) option sql" where
  "sql_lookup_domain env domain t u d =
     opt_row (concat (map (\<lambda>m. map (\<lambda>s. (sv_slug s, route_record_of env s))
       (filter (serves_domain m) (t_services d)))
       (filter (\<lambda>m. dm_domain m = domain) (t_domains d)))) d"

definition lookup_route :: "env \<Rightarrow> string \<Rightarrow> route_record option proc" where
  "lookup_route env slug =
     andthen (external env (Anyhow ''acquiring db connection'')) (\<lambda>_.
     query env (\<lambda>_. Anyhow ''services lookup'') (sql_lookup_route env slug))"

definition lookup_domain :: "env \<Rightarrow> string \<Rightarrow> (string \<times> route_record) option proc" where
  "lookup_domain env domain =
     andthen (external env (Anyhow ''acquiring db connection'')) (\<lambda>_.
     query env (\<lambda>_. Anyhow ''domain lookup'') (sql_lookup_domain env domain))"

section \<open>Warming and reconciling\<close>

text \<open>A failed or late warm-up leaves the cache as it is (\<open>timely\<close>: within five seconds).\<close>

definition warm :: "env \<Rightarrow> bool \<Rightarrow> (string, string) hmap \<Rightarrow> (string, string) hmap proc" where
  "warm env timely cache w =
     (case andthen (external env (Anyhow ''db pool''))
             (\<lambda>_. query env (\<lambda>_. Anyhow ''query'') sql_running_routes) w of
        (Inl e, w') \<Rightarrow> (Inr cache, w')
      | (Inr rows, w') \<Rightarrow> (Inr (if timely then hm_collect rows cache else cache), w'))"

definition warm_domains :: "env \<Rightarrow> bool \<Rightarrow> (string, string) hmap \<Rightarrow> (string, string) hmap proc" where
  "warm_domains env timely cache w =
     (case andthen (external env (Anyhow ''db pool''))
             (\<lambda>_. query env (\<lambda>_. Anyhow ''query'') sql_verified_domains) w of
        (Inl e, w') \<Rightarrow> (Inr cache, w')
      | (Inr rows, w') \<Rightarrow> (Inr (if timely then hm_collect rows cache else cache), w'))"

text \<open>Add or update, counting; then retain, counting what went.\<close>

definition add_route ::
  "string \<times> string \<Rightarrow> (string, string) hmap \<times> nat \<Rightarrow> (string, string) hmap \<times> nat" where
  "add_route = (\<lambda>(slug, addr) (m, added).
     if hm_get m slug = Some addr then (m, added) else (hm_insert slug addr m, added + 1))"

definition sync_routes ::
  "(string, string) hmap \<Rightarrow> (string, string) hmap \<Rightarrow> (string, string) hmap \<times> nat \<times> nat" where
  "sync_routes db_map cache =
     (let (m, added) = fold add_route db_map (cache, 0);
          m' = hm_retain (\<lambda>slug _. slug \<in> fst ` set db_map) m
      in (m', added, length m - length m'))"

definition reconcile_routes :: "env \<Rightarrow> (string, string) hmap \<Rightarrow> (string, string) hmap proc" where
  "reconcile_routes env cache w =
     (case andthen (external env (Anyhow ''db pool''))
             (\<lambda>_. query env (\<lambda>_. Anyhow ''query'') sql_running_routes) w of
        (Inl e, w') \<Rightarrow> (Inr cache, w')
      | (Inr rows, w') \<Rightarrow> (Inr (fst (sync_routes (hm_collect rows []) cache)), w'))"

text \<open>Certificates are pruned only in a round that removed a cached domain.\<close>

definition prune_domains ::
  "string set \<Rightarrow> (string, string) hmap \<Rightarrow> (string, 'c) hmap \<Rightarrow>
   (string, string) hmap \<times> (string, 'c) hmap" where
  "prune_domains db_domains domains certs =
     (let domains' = hm_retain (\<lambda>d _. d \<in> db_domains) domains
      in if length domains' < length domains
         then (domains', hm_retain (\<lambda>d _. d \<in> db_domains) certs)
         else (domains', certs))"

definition reconcile_domains ::
  "env \<Rightarrow> (string, string) hmap \<Rightarrow> (string, 'c) hmap \<Rightarrow>
   ((string, string) hmap \<times> (string, 'c) hmap) proc" where
  "reconcile_domains env domains certs w =
     (case andthen (external env (Anyhow ''db pool''))
             (\<lambda>_. query env (\<lambda>_. Anyhow ''query'') sql_verified_domains) w of
        (Inl e, w') \<Rightarrow> (Inr (domains, certs), w')
      | (Inr rows, w') \<Rightarrow> (Inr (prune_domains (fst ` set rows) domains certs), w'))"

text \<open>One message of either subscription; a payload that does not parse is logged.\<close>

datatype route_message =
    RouteUpdatedMsg "route_updated_event option"
  | RouteRemovedMsg "route_removed_event option"

fun on_route_message :: "route_message \<Rightarrow> (string, string) hmap \<Rightarrow> (string, string) hmap" where
  "on_route_message (RouteUpdatedMsg (Some e)) cache =
     hm_insert (ru_slug e) (ru_upstream_addr e) cache"
| "on_route_message (RouteRemovedMsg (Some e)) cache = hm_remove (rr_slug e) cache"
| "on_route_message _ cache = cache"

section \<open>Certificates\<close>

text \<open>
  \<open>build\<close> stands for OpenSSL's construction of an \<open>SslContext\<close> from two PEM texts, and
  \<open>settable\<close> for whether a connection accepts a context. \<open>fetch\<close> is the API's answer to
  \<open>GET /internal/certs\<close>: a status and, when it parses, a map of strings.
\<close>

definition insert_cert ::
  "(string \<Rightarrow> string \<Rightarrow> 'c option) \<Rightarrow> string \<Rightarrow> string \<Rightarrow> string \<Rightarrow> (string, 'c) hmap \<Rightarrow>
   (string, 'c) hmap" where
  "insert_cert build domain cert_pem key_pem certs =
     (case build cert_pem key_pem of Some ctx \<Rightarrow> hm_insert domain ctx certs | None \<Rightarrow> certs)"

definition load_cert ::
  "(string \<Rightarrow> (nat \<times> env_map option) option) \<Rightarrow> (string \<Rightarrow> string \<Rightarrow> 'c option) \<Rightarrow> string \<Rightarrow>
   string \<Rightarrow> (string, 'c) hmap \<Rightarrow> (string, 'c) hmap" where
  "load_cert fetch build api domain certs =
     (case fetch (api @ ''/internal/certs/'' @ domain) of
        Some (status, Some body) \<Rightarrow>
          if 200 \<le> status \<and> status < 300 then
            (case (body ''cert_pem'', body ''key_pem'') of
               (Some cert, Some key) \<Rightarrow> insert_cert build domain cert key certs
             | _ \<Rightarrow> certs)
          else certs
      | _ \<Rightarrow> certs)"

text \<open>Domains whose certificate is on record and has not expired.\<close>

definition certified :: "int \<Rightarrow> db \<Rightarrow> domain_row \<Rightarrow> bool" where
  "certified t d m =
     (dm_is_verified m \<and> dm_deleted_at m = None \<and>
      list_ex (\<lambda>c. dc_domain_id c = dm_id m \<and> t < dc_expires_at c) (t_certs d))"

definition sql_certified_domains :: "string list sql" where
  "sql_certified_domains t u d = Inr (map dm_domain (filter (certified t d) (t_domains d)), d)"

definition warm_cert_cache ::
  "env \<Rightarrow> (string \<Rightarrow> (nat \<times> env_map option) option) \<Rightarrow> (string \<Rightarrow> string \<Rightarrow> 'c option) \<Rightarrow> string \<Rightarrow>
   (string, 'c) hmap \<Rightarrow> (string, 'c) hmap proc" where
  "warm_cert_cache env fetch build api certs w =
     (case andthen (external env (Anyhow ''db pool''))
             (\<lambda>_. query env (\<lambda>_. Anyhow ''query'') sql_certified_domains) w of
        (Inl e, w') \<Rightarrow> (Inr certs, w')
      | (Inr domains, w') \<Rightarrow> (Inr (fold (load_cert fetch build api) domains certs), w'))"

text \<open>The reload on \<open>platform.cert_provisioned\<close>.\<close>

definition on_cert_provisioned ::
  "(string \<Rightarrow> (nat \<times> env_map option) option) \<Rightarrow> (string \<Rightarrow> string \<Rightarrow> 'c option) \<Rightarrow> string \<Rightarrow>
   cert_provisioned_event option \<Rightarrow> (string, 'c) hmap \<Rightarrow> (string, 'c) hmap" where
  "on_cert_provisioned fetch build api payload certs =
     (case payload of None \<Rightarrow> certs | Some e \<Rightarrow> load_cert fetch build api (cp_domain e) certs)"

text \<open>The context a handshake ends up with, if any, for the name in its SNI extension.\<close>

definition platform_name :: "string \<Rightarrow> string \<Rightarrow> bool" where
  "platform_name platform name =
     (name = [] \<or> name = platform \<or> ends_with (''.'' @ platform) name)"

definition certificate_callback ::
  "('c \<Rightarrow> bool) \<Rightarrow> string \<Rightarrow> 'c \<Rightarrow> (string, 'c) hmap \<Rightarrow> string option \<Rightarrow> 'c option" where
  "certificate_callback settable platform wildcard certs servername =
     (let name = (case servername of None \<Rightarrow> [] | Some s \<Rightarrow> s);
          offer = (\<lambda>ctx. if settable ctx then Some ctx else None)
      in if platform_name platform name then offer wildcard
         else (case hm_get certs name of None \<Rightarrow> None | Some ctx \<Rightarrow> offer ctx))"

section \<open>Lemmas\<close>

lemma fold_add_route:
  "fst (fold add_route kvs (m, n)) =
     fold (\<lambda>(k, v) m. if hm_get m k = Some v then m else hm_insert k v m) kvs m"
  by (induction kvs arbitrary: m n) (auto simp: add_route_def)

text \<open>Reconciling makes the cache, as a map, the map of the database.\<close>

lemma sync_routes_get:
  assumes "hm_ok cache" and "hm_ok db_map"
  shows "hm_get (fst (sync_routes db_map cache)) = hm_get db_map"
  using hash.synced [OF assms(1) assms(2) [unfolded hm_ok_def]]
  by (simp add: sync_routes_def Let_def split_beta fold_add_route hm_get_def)

lemma sync_routes_ok: "hm_ok cache \<Longrightarrow> hm_ok (fst (sync_routes db_map cache))"
  by (simp add: sync_routes_def Let_def split_beta fold_add_route hash.ok_fold hm_simps)

lemma on_route_message_ok [hm_simps]: "hm_ok cache \<Longrightarrow> hm_ok (on_route_message msg cache)"
  by (cases msg; rule on_route_message.cases [of "(msg, cache)"]) (auto simp: hm_simps)

lemma warm_ok:
  assumes "warm env timely cache w = (Inr cache', w')" and "hm_ok cache"
  shows "hm_ok cache'"
  using assms by (auto simp: warm_def hm_simps split: prod.splits sum.splits)

lemma in_route_of_rows:
  "(slug, a) \<in> set (List.map_filter route_of ss) \<longleftrightarrow>
   (\<exists>s \<in> set ss. sv_slug s = slug \<and> sv_upstream s = Some a \<and> sv_status s = ''running'' \<and>
      sv_deleted_at s = None)"
  by (induction ss) (auto simp: List.map_filter_def route_of_def split: if_splits option.splits)

lemma running_routes_keys:
  "distinct (map sv_slug ss) \<Longrightarrow> distinct (map fst (List.map_filter route_of ss))"
proof (induction ss)
  case (Cons s ss)
  have "sv_slug s \<notin> set (map fst (List.map_filter route_of ss))"
  proof
    assume "sv_slug s \<in> set (map fst (List.map_filter route_of ss))"
    then obtain a where "(sv_slug s, a) \<in> set (List.map_filter route_of ss)" by auto
    then obtain r where "r \<in> set ss" "sv_slug r = sv_slug s" by (auto simp: in_route_of_rows)
    then have "sv_slug s \<in> set (map sv_slug ss)" by (metis image_eqI set_map)
    with Cons.prems show False by auto
  qed
  moreover have "fst p = sv_slug s" if "route_of s = Some p" for p
    using that by (auto simp: route_of_def split: if_splits)
  ultimately show ?case
    using Cons by (cases "route_of s") (simp_all add: List.map_filter_simps)
qed (simp add: List.map_filter_simps)

lemma get_collected_routes:
  assumes "distinct (map sv_slug ss)"
  shows "hm_get (hm_collect (List.map_filter route_of ss) []) = map_of (List.map_filter route_of ss)"
  using hm_get_collect [OF running_routes_keys [OF assms], of "[]"]
  by (auto simp: hm_get_def)

end
