(* ===== verification/Router.thy ===== *)
theory Router
  imports Routes
begin

text \<open>
  The request path of the proxy, \<open>crates/proxy/src/router.rs\<close>. Requests run on many
  threads: what one does between two acquisitions of a lock (or two awaits) is one
  transition here, so that every interleaving of the code is a sequence of transitions.
  Instants are milliseconds. A semaphore is an index into the list of free permits.
\<close>

section \<open>Configuration and state\<close>

record router_config =
  rc_platform :: string
  rc_api_upstream :: string
  rc_max_concurrent :: nat
  rc_upstream_timeout_secs :: nat
  rc_wake_timeout_ms :: nat
  rc_pulse_debounce_secs :: nat
  rc_domain_cache_max :: nat

text \<open>\<open>env_or(key, text).parse().unwrap_or(default)\<close> at \<open>usize\<close> and \<open>u64\<close>.\<close>

definition parsed_or :: "(string \<rightharpoonup> string) \<Rightarrow> string \<Rightarrow> nat \<Rightarrow> nat" where
  "parsed_or vars key dflt =
     (case parse_unsigned (2 ^ 64) (env_or vars key (show_nat dflt)) of
        Some n \<Rightarrow> n | None \<Rightarrow> dflt)"

definition router_config_of :: "(string \<rightharpoonup> string) \<Rightarrow> router_config" where
  "router_config_of vars =
     \<lparr>rc_platform = env_or vars ''PLATFORM_DOMAIN'' ''liquidmetal.dev'',
      rc_api_upstream = env_or vars ''API_UPSTREAM'' ''127.0.0.1:3000'',
      rc_max_concurrent = parsed_or vars ''MAX_CONCURRENT_PER_SERVICE'' 200,
      rc_upstream_timeout_secs = parsed_or vars ''UPSTREAM_TIMEOUT_SECS'' 30,
      rc_wake_timeout_ms = parsed_or vars ''WAKE_TIMEOUT_MS'' 10000,
      rc_pulse_debounce_secs = parsed_or vars ''PULSE_DEBOUNCE_SECS'' 30,
      rc_domain_cache_max = parsed_or vars ''DOMAIN_CACHE_MAX'' 50000\<rparr>"

record metal_counter =
  mc_service_id :: string
  mc_workspace_id :: string
  mc_invocations :: "64 word"
  mc_duration_ms :: "64 word"

record router =
  mr_routes :: "(string, string) hmap"
  mr_domains :: "(string, string) hmap"
  mr_nats :: bool
  mr_pulses :: "(string, nat) hmap"
  mr_counters :: "(string, metal_counter) hmap"
  mr_sems :: "(string, nat) hmap"
  mr_permits :: "nat list"
  mr_sent :: "(nat \<times> string \<times> event) list"

datatype outcome = Proxied string "nat option" | Refused nat

text \<open>What a request does next.\<close>

datatype phase =
    Arrived
  | LookDomain string
  | AwaitDomain string
  | StoreDomain string string route_record
  | StoreRoute string string
  | Slugged string
  | Pulsing string
  | LookSemaphore string
  | MakeSemaphore string
  | TryPermit string nat
  | LookRoute string
  | CountHit string string
  | AwaitRoute string
  | StoreFound string route_record string
  | CountFound string route_record string
  | MakeCounter string route_record string
  | WakeUp string route_record
  | AwaitWarm string route_record nat nat
  | Finished outcome

record request =
  rq_header :: "string option"
  rq_uri_host :: "string option"
  rq_phase :: phase
  rq_slug :: "string option"
  rq_metal_start :: "nat option"
  rq_request_start :: "nat option"
  rq_permit :: "nat option"

definition new_ctx :: "string option \<Rightarrow> string option \<Rightarrow> request" where
  "new_ctx header uri_host =
     \<lparr>rq_header = header, rq_uri_host = uri_host, rq_phase = Arrived, rq_slug = None,
      rq_metal_start = None, rq_request_start = None, rq_permit = None\<rparr>"

definition goto_phase :: "phase \<Rightarrow> request \<Rightarrow> request" where
  "goto_phase p rq = rq\<lparr>rq_phase := p\<rparr>"

text \<open>\<open>make_peer\<close> and the plain peer of the API.\<close>

definition make_peer :: "router_config \<Rightarrow> string \<Rightarrow> phase" where
  "make_peer cfg addr = Finished (Proxied addr (Some (rc_upstream_timeout_secs cfg)))"

definition api_peer :: "router_config \<Rightarrow> phase" where
  "api_peer cfg = Finished (Proxied (rc_api_upstream cfg) None)"

section \<open>From the host to a slug\<close>

definition request_host :: "request \<Rightarrow> string" where
  "request_host rq =
     (case rq_header rq of
        Some h \<Rightarrow> h
      | None \<Rightarrow> (case rq_uri_host rq of Some h \<Rightarrow> h | None \<Rightarrow> ''unknown''))"

definition clean_host :: "string \<Rightarrow> string" where
  "clean_host host =
     trim_end_char (CHR ''.'')
       (if starts_with ''['' host then [] else hd (split_on (CHR '':'') host))"

definition first_label :: "string \<Rightarrow> string" where
  "first_label host = hd (split_on (CHR ''.'') host)"

definition slug_valid :: "string \<Rightarrow> bool" where
  "slug_valid slug =
     (slug \<noteq> [] \<and> \<not> starts_with ''-'' slug \<and>
      list_all (\<lambda>c. is_ascii_alphanumeric c \<or> c = CHR ''-'') slug)"

definition arrive :: "router_config \<Rightarrow> nat \<Rightarrow> request \<Rightarrow> request" where
  "arrive cfg now rq =
     (let host = clean_host (request_host rq)
      in goto_phase
           (if host = rc_platform cfg then api_peer cfg
            else if ends_with (''.'' @ rc_platform cfg) host then Slugged (first_label host)
            else LookDomain host)
           (rq\<lparr>rq_request_start := Some now\<rparr>))"

definition look_domain :: "string \<Rightarrow> router \<Rightarrow> request \<Rightarrow> request" where
  "look_domain host r =
     goto_phase (case hm_get (mr_domains r) host of
       Some slug \<Rightarrow> Slugged slug | None \<Rightarrow> AwaitDomain host)"

definition domain_reply ::
  "string \<Rightarrow> err + (string \<times> route_record) option \<Rightarrow> request \<Rightarrow> request" where
  "domain_reply host reply =
     goto_phase (case reply of
       Inr (Some (slug, record)) \<Rightarrow> StoreDomain host slug record
     | Inr None \<Rightarrow> Slugged (first_label host)
     | Inl e \<Rightarrow> Slugged (first_label host))"

definition store_domain ::
  "router_config \<Rightarrow> string \<Rightarrow> string \<Rightarrow> route_record \<Rightarrow> request \<times> router \<Rightarrow> request \<times> router" where
  "store_domain cfg host slug record = (\<lambda>(rq, r).
     (goto_phase (case rt_upstream_addr record of
        Some addr \<Rightarrow> StoreRoute slug addr | None \<Rightarrow> Slugged slug) rq,
      if length (mr_domains r) < rc_domain_cache_max cfg
      then r\<lparr>mr_domains := hm_insert host slug (mr_domains r)\<rparr> else r))"

definition store_route :: "string \<Rightarrow> string \<Rightarrow> router \<Rightarrow> router" where
  "store_route slug addr r = r\<lparr>mr_routes := hm_insert slug addr (mr_routes r)\<rparr>"

definition check_slug :: "router_config \<Rightarrow> string \<Rightarrow> request \<Rightarrow> request" where
  "check_slug cfg slug rq =
     (if slug_valid slug then goto_phase (Pulsing slug) (rq\<lparr>rq_slug := Some slug\<rparr>)
      else goto_phase (api_peer cfg) (rq\<lparr>rq_slug := None\<rparr>))"

section \<open>Pulses and permits\<close>

definition maybe_publish_pulse :: "router_config \<Rightarrow> nat \<Rightarrow> string \<Rightarrow> router \<Rightarrow> router" where
  "maybe_publish_pulse cfg now slug r =
     (if \<not> mr_nats r then r
      else
        let stale = (case hm_get (mr_pulses r) slug of
              Some t \<Rightarrow> rc_pulse_debounce_secs cfg \<le> (now - t) div 1000 | None \<Rightarrow> True)
        in if stale
           then r\<lparr>mr_pulses := hm_insert slug now (mr_pulses r),
                  mr_sent := mr_sent r @
                    [(now, subject_traffic_pulse, EvTrafficPulse \<lparr>tp_slug = slug\<rparr>)]\<rparr>
           else r)"

text \<open>
  \<open>try_acquire_concurrency\<close>: the map is read, then, when the slug has no semaphore yet,
  written under another lock, then a permit is asked for.
\<close>

definition look_semaphore :: "string \<Rightarrow> router \<Rightarrow> request \<Rightarrow> request" where
  "look_semaphore slug r =
     goto_phase (case hm_get (mr_sems r) slug of
       Some i \<Rightarrow> TryPermit slug i | None \<Rightarrow> MakeSemaphore slug)"

definition make_semaphore ::
  "router_config \<Rightarrow> string \<Rightarrow> request \<times> router \<Rightarrow> request \<times> router" where
  "make_semaphore cfg slug = (\<lambda>(rq, r).
     let i = length (mr_permits r)
     in (goto_phase (TryPermit slug i) rq,
         r\<lparr>mr_permits := mr_permits r @ [rc_max_concurrent cfg],
           mr_sems := hm_insert slug i (mr_sems r)\<rparr>))"

definition try_permit :: "string \<Rightarrow> nat \<Rightarrow> request \<times> router \<Rightarrow> request \<times> router" where
  "try_permit slug i = (\<lambda>(rq, r).
     if 0 < mr_permits r ! i
     then (goto_phase (LookRoute slug) (rq\<lparr>rq_permit := Some i\<rparr>),
           r\<lparr>mr_permits := (mr_permits r)[i := mr_permits r ! i - 1]\<rparr>)
     else (goto_phase (Finished (Refused 503)) rq, r))"

section \<open>Counting Metal invocations\<close>

definition add_invocation :: "string \<Rightarrow> router \<Rightarrow> router" where
  "add_invocation slug r =
     (case hm_get (mr_counters r) slug of
        Some c \<Rightarrow> r\<lparr>mr_counters := hm_insert slug (c\<lparr>mc_invocations := mc_invocations c + 1\<rparr>)
                      (mr_counters r)\<rparr>
      | None \<Rightarrow> r)"

definition try_count_metal ::
  "router_config \<Rightarrow> nat \<Rightarrow> string \<Rightarrow> string \<Rightarrow> request \<times> router \<Rightarrow> request \<times> router" where
  "try_count_metal cfg now slug addr = (\<lambda>(rq, r).
     (goto_phase (make_peer cfg addr)
        (if hm_get (mr_counters r) slug = None then rq else rq\<lparr>rq_metal_start := Some now\<rparr>),
      add_invocation slug r))"

text \<open>\<open>count_metal_invocation\<close>: read, then (when there is no counter yet) insert one.\<close>

definition count_found ::
  "router_config \<Rightarrow> nat \<Rightarrow> string \<Rightarrow> route_record \<Rightarrow> string \<Rightarrow> request \<times> router \<Rightarrow> request \<times> router" where
  "count_found cfg now slug record addr = (\<lambda>(rq, r).
     if hm_get (mr_counters r) slug = None
     then (goto_phase (MakeCounter slug record addr) rq, r)
     else (goto_phase (make_peer cfg addr) (rq\<lparr>rq_metal_start := Some now\<rparr>), add_invocation slug r))"

definition make_counter ::
  "router_config \<Rightarrow> nat \<Rightarrow> string \<Rightarrow> route_record \<Rightarrow> string \<Rightarrow> request \<times> router \<Rightarrow> request \<times> router" where
  "make_counter cfg now slug record addr = (\<lambda>(rq, r).
     (goto_phase (make_peer cfg addr) (rq\<lparr>rq_metal_start := Some now\<rparr>),
      r\<lparr>mr_counters := hm_insert slug
          \<lparr>mc_service_id = rt_service_id record, mc_workspace_id = rt_workspace_id record,
           mc_invocations = 1, mc_duration_ms = 0\<rparr> (mr_counters r)\<rparr>))"

section \<open>From a slug to a peer\<close>

definition look_route :: "string \<Rightarrow> router \<Rightarrow> request \<Rightarrow> request" where
  "look_route slug r =
     goto_phase (case hm_get (mr_routes r) slug of
       Some addr \<Rightarrow> CountHit slug addr | None \<Rightarrow> AwaitRoute slug)"

text \<open>A Metal service with a snapshot, or a stopped Liquid one.\<close>

definition wakeable :: "route_record \<Rightarrow> bool" where
  "wakeable record =
     (rt_status record = ''ready'' \<and> rt_snapshot_key record \<noteq> None \<or>
      rt_status record = ''stopped'' \<and> rt_engine record = ''liquid'')"

definition route_reply ::
  "router_config \<Rightarrow> string \<Rightarrow> err + route_record option \<Rightarrow> request \<Rightarrow> request" where
  "route_reply cfg slug reply =
     goto_phase (case reply of
       Inr (Some record) \<Rightarrow>
         (case rt_upstream_addr record of
            Some addr \<Rightarrow> StoreFound slug record addr
          | None \<Rightarrow> if wakeable record then WakeUp slug record
                    else make_peer cfg (rc_api_upstream cfg))
     | Inr None \<Rightarrow> make_peer cfg (rc_api_upstream cfg)
     | Inl e \<Rightarrow> make_peer cfg (rc_api_upstream cfg))"

definition store_found ::
  "router_config \<Rightarrow> string \<Rightarrow> route_record \<Rightarrow> string \<Rightarrow> request \<times> router \<Rightarrow> request \<times> router" where
  "store_found cfg slug record addr = (\<lambda>(rq, r).
     (goto_phase (if rt_engine record = ''metal'' then CountFound slug record addr
                  else make_peer cfg addr) rq,
      store_route slug addr r))"

definition publish_wake :: "nat \<Rightarrow> string \<Rightarrow> route_record \<Rightarrow> router \<Rightarrow> router" where
  "publish_wake now slug record r =
     (if mr_nats r
      then r\<lparr>mr_sent := mr_sent r @ [(now, subject_wake, EvWake
             \<lparr>wk_service_id = rt_service_id record, wk_slug = slug,
              wk_engine = (if rt_engine record = ''metal'' then Metal else Liquid),
              wk_snapshot_key =
                (case rt_snapshot_key record of Some k \<Rightarrow> k | None \<Rightarrow> [])\<rparr>)]\<rparr>
      else r)"

definition wake_up ::
  "router_config \<Rightarrow> nat \<Rightarrow> string \<Rightarrow> route_record \<Rightarrow> request \<times> router \<Rightarrow> request \<times> router" where
  "wake_up cfg now slug record = (\<lambda>(rq, r).
     (goto_phase (AwaitWarm slug record (now + rc_wake_timeout_ms cfg) now) rq,
      publish_wake now slug record r))"

text \<open>One turn of \<open>wait_for_warm\<close>: look, give up at the deadline, sleep 50 ms.\<close>

definition wait_for_warm ::
  "nat \<Rightarrow> string \<Rightarrow> route_record \<Rightarrow> nat \<Rightarrow> nat \<Rightarrow> router \<Rightarrow> request \<Rightarrow> request" where
  "wait_for_warm now slug record deadline wake r rq =
     (if now < wake then rq
      else goto_phase (case hm_get (mr_routes r) slug of
             Some addr \<Rightarrow> CountFound slug record addr
           | None \<Rightarrow> if deadline \<le> now then Finished (Refused 503)
                     else AwaitWarm slug record deadline (now + 50)) rq)"

section \<open>After the response\<close>

definition logging :: "nat \<Rightarrow> request \<times> router \<Rightarrow> request \<times> router" where
  "logging now = (\<lambda>(rq, r).
     (rq\<lparr>rq_request_start := None, rq_metal_start := None\<rparr>,
      case (rq_metal_start rq, rq_slug rq) of
        (Some start, Some slug) \<Rightarrow>
          (case hm_get (mr_counters r) slug of
             Some c \<Rightarrow> r\<lparr>mr_counters := hm_insert slug
                 (c\<lparr>mc_duration_ms := mc_duration_ms c + of_nat (now - start)\<rparr>) (mr_counters r)\<rparr>
           | None \<Rightarrow> r)
      | _ \<Rightarrow> r))"

text \<open>The context is dropped: its permit returns to the semaphore.\<close>

definition drop_ctx :: "request \<Rightarrow> router \<Rightarrow> router" where
  "drop_ctx rq r =
     (case rq_permit rq of
        Some i \<Rightarrow> r\<lparr>mr_permits := (mr_permits r)[i := mr_permits r ! i + 1]\<rparr>
      | None \<Rightarrow> r)"

definition fail_to_connect :: "request \<Rightarrow> router \<Rightarrow> router" where
  "fail_to_connect rq r =
     (case rq_slug rq of
        Some slug \<Rightarrow> r\<lparr>mr_routes := hm_remove slug (mr_routes r)\<rparr> | None \<Rightarrow> r)"

section \<open>Background threads\<close>

definition metal_usage_of :: "metal_counter \<Rightarrow> metal_usage_event" where
  "metal_usage_of c =
     \<lparr>mu_workspace_id = mc_workspace_id c, mu_service_id = mc_service_id c,
      mu_invocations = unat (mc_invocations c), mu_duration_ms = unat (mc_duration_ms c)\<rparr>"

text \<open>\<open>swap(0)\<close> on both counters of every service, keeping those that had counted.\<close>

definition snapshot_counters :: "(string, metal_counter) hmap \<Rightarrow> metal_usage_event list" where
  "snapshot_counters counters =
     map (metal_usage_of \<circ> snd)
       (filter (\<lambda>(slug, c). 0 < mc_invocations c \<or> 0 < mc_duration_ms c) counters)"

definition reset_counters :: "(string, metal_counter) hmap \<Rightarrow> (string, metal_counter) hmap" where
  "reset_counters counters =
     map (\<lambda>(slug, c). (slug, c\<lparr>mc_invocations := 0, mc_duration_ms := 0\<rparr>)) counters"

text \<open>Publishing in order: \<open>ok n\<close> says whether the \<open>n\<close>-th publish of the round succeeds.\<close>

fun publish_usage ::
  "(nat \<Rightarrow> bool) \<Rightarrow> nat \<Rightarrow> metal_usage_event list \<Rightarrow>
   metal_usage_event list \<times> metal_usage_event list" where
  "publish_usage ok n [] = ([], [])"
| "publish_usage ok n (ev # evs) =
     (let (sent, backlog) = publish_usage ok (Suc n) evs
      in if ok n then (ev # sent, backlog) else (sent, ev # backlog))"

record flush_result =
  fl_counters :: "(string, metal_counter) hmap"
  fl_sent :: "metal_usage_event list"
  fl_backlog :: "metal_usage_event list"
  fl_dropped :: "metal_usage_event list"

definition flush_metal_usage ::
  "(nat \<Rightarrow> bool) \<Rightarrow> (string, metal_counter) hmap \<Rightarrow> metal_usage_event list \<Rightarrow> flush_result" where
  "flush_metal_usage ok counters backlog =
     (let snapshot = snapshot_counters counters;
          (sent1, failed1) = publish_usage ok 0 backlog;
          (sent2, failed2) = publish_usage ok (length backlog) snapshot;
          failed = failed1 @ failed2;
          excess = length failed - 1000
      in \<lparr>fl_counters = reset_counters counters, fl_sent = sent1 @ sent2,
          fl_backlog = drop excess failed, fl_dropped = take excess failed\<rparr>)"

definition sweep_pulses :: "router_config \<Rightarrow> nat \<Rightarrow> router \<Rightarrow> router" where
  "sweep_pulses cfg now r =
     r\<lparr>mr_pulses := hm_retain (\<lambda>_ t. (now - t) div 1000 < rc_pulse_debounce_secs cfg * 2)
         (mr_pulses r)\<rparr>"

section \<open>One transition of a request\<close>

text \<open>
  \<open>env\<close> and the world give the answers of the database, where the request awaits one;
  \<open>w_calls\<close> moves on, so that every query can fail or succeed by itself.
\<close>

definition advance ::
  "env \<Rightarrow> router_config \<Rightarrow> nat \<Rightarrow> request \<times> router \<times> world \<Rightarrow> request \<times> router \<times> world" where
  "advance env cfg now = (\<lambda>(rq, r, w).
     let local = (\<lambda>f. (f rq, r, w));
         shared = (\<lambda>f. let (rq', r') = f (rq, r) in (rq', r', w))
     in case rq_phase rq of
          Arrived \<Rightarrow> local (arrive cfg now)
        | LookDomain host \<Rightarrow> local (look_domain host r)
        | AwaitDomain host \<Rightarrow>
            (let (reply, w') = lookup_domain env host w in (domain_reply host reply rq, r, w'))
        | StoreDomain host slug record \<Rightarrow> shared (store_domain cfg host slug record)
        | StoreRoute slug addr \<Rightarrow> (goto_phase (Slugged slug) rq, store_route slug addr r, w)
        | Slugged slug \<Rightarrow> local (check_slug cfg slug)
        | Pulsing slug \<Rightarrow>
            (goto_phase (LookSemaphore slug) rq, maybe_publish_pulse cfg now slug r, w)
        | LookSemaphore slug \<Rightarrow> local (look_semaphore slug r)
        | MakeSemaphore slug \<Rightarrow> shared (make_semaphore cfg slug)
        | TryPermit slug i \<Rightarrow> shared (try_permit slug i)
        | LookRoute slug \<Rightarrow> local (look_route slug r)
        | CountHit slug addr \<Rightarrow> shared (try_count_metal cfg now slug addr)
        | AwaitRoute slug \<Rightarrow>
            (let (reply, w') = lookup_route env slug w in (route_reply cfg slug reply rq, r, w'))
        | StoreFound slug record addr \<Rightarrow> shared (store_found cfg slug record addr)
        | CountFound slug record addr \<Rightarrow> shared (count_found cfg now slug record addr)
        | MakeCounter slug record addr \<Rightarrow> shared (make_counter cfg now slug record addr)
        | WakeUp slug record \<Rightarrow> shared (wake_up cfg now slug record)
        | AwaitWarm slug record deadline wake \<Rightarrow>
            local (wait_for_warm now slug record deadline wake r)
        | Finished out \<Rightarrow> (rq, r, w))"

end
