(* ===== verification/Proxy.thy ===== *)
theory Proxy
  imports Router
begin

text \<open>
  The proxy as a whole: its requests in flight, its shared state, its background threads and
  the tables other programs change. One move is one step of one thread. Two components are
  history, read by the statements only: the upstream addresses the tables or the messages
  ever gave a slug, and the slugs the tables ever bound a custom domain to.
\<close>

section \<open>States and moves\<close>

record proxy =
  px_router :: router
  px_requests :: "request list"
  px_world :: world
  px_now :: nat
  px_backlog :: "metal_usage_event list"
  px_published :: "metal_usage_event list"
  px_dropped :: "metal_usage_event list"
  px_announced :: "(string \<times> string) set"
  px_bound :: "(string \<times> string) set"

definition upstreams :: "db \<Rightarrow> (string \<times> string) set" where
  "upstreams d = {(sv_slug s, a) | s a. s \<in> set (t_services d) \<and> sv_upstream s = Some a}"

definition init_router :: "bool \<Rightarrow> router" where
  "init_router nats =
     \<lparr>mr_routes = [], mr_domains = [], mr_nats = nats, mr_pulses = [], mr_counters = [],
      mr_sems = [], mr_permits = [], mr_sent = []\<rparr>"

definition init_proxy :: "bool \<Rightarrow> nat \<Rightarrow> world \<Rightarrow> proxy" where
  "init_proxy nats now w =
     \<lparr>px_router = init_router nats, px_requests = [], px_world = w, px_now = now,
      px_backlog = [], px_published = [], px_dropped = [], px_announced = upstreams (w_db w),
      px_bound = set (verified_domains (w_db w))\<rparr>"

datatype move =
    Warms bool
  | WarmsDomains bool
  | Elapses nat
  | TablesBecome db
  | Arrives "string option" "string option"
  | Advances nat
  | ConnectFails nat
  | Completes nat
  | Receives route_message
  | Reconciles
  | ReconcilesDomains
  | Sweeps
  | Flushes "nat \<Rightarrow> bool"

fun announcement :: "route_message \<Rightarrow> (string \<times> string) set" where
  "announcement (RouteUpdatedMsg (Some e)) = {(ru_slug e, ru_upstream_addr e)}"
| "announcement _ = {}"

text \<open>A cache operation that answers \<open>Inr\<close> the new cache and leaves the tables alone.\<close>

definition set_routes ::
  "((string, string) hmap \<Rightarrow> (string, string) hmap proc) \<Rightarrow> proxy \<Rightarrow> proxy" where
  "set_routes f s =
     (case f (mr_routes (px_router s)) (px_world s) of
        (Inr routes, w) \<Rightarrow> s\<lparr>px_router := (px_router s)\<lparr>mr_routes := routes\<rparr>, px_world := w\<rparr>
      | (Inl e, w) \<Rightarrow> s\<lparr>px_world := w\<rparr>)"

definition set_domains ::
  "((string, string) hmap \<Rightarrow> (string, string) hmap proc) \<Rightarrow> proxy \<Rightarrow> proxy" where
  "set_domains f s =
     (case f (mr_domains (px_router s)) (px_world s) of
        (Inr domains, w) \<Rightarrow> s\<lparr>px_router := (px_router s)\<lparr>mr_domains := domains\<rparr>, px_world := w\<rparr>
      | (Inl e, w) \<Rightarrow> s\<lparr>px_world := w\<rparr>)"

definition advance_request :: "env \<Rightarrow> router_config \<Rightarrow> nat \<Rightarrow> proxy \<Rightarrow> proxy" where
  "advance_request env cfg j s =
     (if j < length (px_requests s) then
        let (rq, r, w) = advance env cfg (px_now s) (px_requests s ! j, px_router s, px_world s)
        in s\<lparr>px_requests := (px_requests s)[j := rq], px_router := r, px_world := w\<rparr>
      else s)"

text \<open>A request ends, at whatever phase: \<open>logging\<close> runs, then its context is dropped.\<close>

definition complete_request :: "nat \<Rightarrow> proxy \<Rightarrow> proxy" where
  "complete_request j s =
     (if j < length (px_requests s) then
        let (rq, r) = logging (px_now s) (px_requests s ! j, px_router s)
        in s\<lparr>px_requests := take j (px_requests s) @ drop (Suc j) (px_requests s),
             px_router := drop_ctx rq r\<rparr>
      else s)"

definition flush_usage :: "(nat \<Rightarrow> bool) \<Rightarrow> proxy \<Rightarrow> proxy" where
  "flush_usage ok s =
     (let f = flush_metal_usage ok (mr_counters (px_router s)) (px_backlog s)
      in s\<lparr>px_router := (px_router s)\<lparr>mr_counters := fl_counters f\<rparr>,
           px_backlog := fl_backlog f, px_published := px_published s @ fl_sent f,
           px_dropped := px_dropped s @ fl_dropped f\<rparr>)"

fun px_step :: "env \<Rightarrow> router_config \<Rightarrow> move \<Rightarrow> proxy \<Rightarrow> proxy" where
  "px_step env cfg (Warms timely) s = set_routes (warm env timely) s"
| "px_step env cfg (WarmsDomains timely) s = set_domains (warm_domains env timely) s"
| "px_step env cfg (Elapses ms) s = s\<lparr>px_now := px_now s + ms\<rparr>"
| "px_step env cfg (TablesBecome d) s =
     s\<lparr>px_world := (px_world s)\<lparr>w_db := d\<rparr>, px_announced := px_announced s \<union> upstreams d,
       px_bound := px_bound s \<union> set (verified_domains d)\<rparr>"
| "px_step env cfg (Arrives header uri_host) s =
     s\<lparr>px_requests := px_requests s @ [new_ctx header uri_host]\<rparr>"
| "px_step env cfg (Advances j) s = advance_request env cfg j s"
| "px_step env cfg (ConnectFails j) s =
     (if j < length (px_requests s)
      then s\<lparr>px_router := fail_to_connect (px_requests s ! j) (px_router s)\<rparr> else s)"
| "px_step env cfg (Completes j) s = complete_request j s"
| "px_step env cfg (Receives msg) s =
     s\<lparr>px_router := (px_router s)\<lparr>mr_routes := on_route_message msg (mr_routes (px_router s))\<rparr>,
       px_announced := px_announced s \<union> announcement msg\<rparr>"
| "px_step env cfg Reconciles s = set_routes (reconcile_routes env) s"
| "px_step env cfg ReconcilesDomains s =
     set_domains (\<lambda>m. andthen (reconcile_domains env m ([] :: (string, unit) hmap))
       (\<lambda>(domains, certs). ret domains)) s"
| "px_step env cfg Sweeps s = s\<lparr>px_router := sweep_pulses cfg (px_now s) (px_router s)\<rparr>"
| "px_step env cfg (Flushes ok) s = (if mr_nats (px_router s) then flush_usage ok s else s)"

inductive px_reachable :: "env \<Rightarrow> router_config \<Rightarrow> proxy \<Rightarrow> bool" for env cfg where
  px_start: "px_reachable env cfg (init_proxy nats now w)"
| px_move: "px_reachable env cfg s \<Longrightarrow> px_reachable env cfg (px_step env cfg m s)"

lemma px_moves: "px_reachable env cfg s \<Longrightarrow> px_reachable env cfg (fold (px_step env cfg) ms s)"
  by (induction ms arbitrary: s) (auto intro: px_move)

section \<open>What reads leave alone\<close>

lemma external_db: "w_db (snd (external env e w)) = w_db w"
  by (simp add: external_def)

lemma opt_row_SomeD: "opt_row rs d = Inr (Some r, d') \<Longrightarrow> r \<in> set rs \<and> d' = d"
  by (auto simp: opt_row_def split: list.splits)

lemma opt_row_db: "opt_row rs d = Inr (x, d') \<Longrightarrow> d' = d"
  by (auto simp: opt_row_def split: list.splits)

text \<open>A read-only query: taking a connection, then one statement that keeps the tables.\<close>

definition reads :: "'a sql \<Rightarrow> bool" where
  "reads f = (\<forall>t u d x d'. f t u d = Inr (x, d') \<longrightarrow> d' = d)"

lemma reads_simps [simp]:
  "reads sql_running_routes" "reads sql_verified_domains" "reads (sql_lookup_route env slug)"
  "reads (sql_lookup_domain env host)" "reads sql_certified_domains"
  by (auto simp: reads_def sql_running_routes_def sql_verified_domains_def sql_lookup_route_def
      sql_lookup_domain_def sql_certified_domains_def dest: opt_row_db)

lemma read_run:
  assumes "andthen (external env e) (\<lambda>_. query env h f) w = (r, w')" and "reads f"
  shows "w_db w' = w_db w \<and> (\<forall>x. r = Inr x \<longrightarrow> (\<exists>t u. f t u (w_db w) = Inr (x, w_db w)))"
  using assms
  by (auto simp: andthen_def external_def query_def reads_def split: if_splits sum.splits prod.splits)
    metis

lemma in_upstreams:
  "s \<in> set (t_services d) \<Longrightarrow> sv_upstream s = Some a \<Longrightarrow> (sv_slug s, a) \<in> upstreams d"
  by (auto simp: upstreams_def)

lemma running_in_upstreams: "set (List.map_filter route_of (t_services d)) \<subseteq> upstreams d"
  by (auto simp: in_route_of_rows upstreams_def)

lemma in_verified_domains:
  "(h, slug) \<in> set (verified_domains d) \<longleftrightarrow>
   (\<exists>m \<in> set (t_domains d). \<exists>s \<in> set (t_services d). serves_domain m s \<and> dm_domain m = h \<and> sv_slug s = slug)"
  by (auto simp: verified_domains_def)

lemma lookup_route_run:
  assumes "lookup_route env slug w = (reply, w')"
  shows "w_db w' = w_db w \<and> (\<forall>rec a. reply = Inr (Some rec) \<longrightarrow> rt_upstream_addr rec = Some a \<longrightarrow>
    (slug, a) \<in> upstreams (w_db w))"
  using read_run [OF assms [unfolded lookup_route_def]]
  by (fastforce simp: sql_lookup_route_def route_record_of_def upstreams_def dest!: opt_row_SomeD)

lemma lookup_domain_run:
  assumes "lookup_domain env host w = (reply, w')"
  shows "w_db w' = w_db w \<and> (\<forall>slug rec. reply = Inr (Some (slug, rec)) \<longrightarrow>
    (host, slug) \<in> set (verified_domains (w_db w)) \<and>
    (\<forall>a. rt_upstream_addr rec = Some a \<longrightarrow> (slug, a) \<in> upstreams (w_db w)))"
  using read_run [OF assms [unfolded lookup_domain_def]]
  by (fastforce simp: sql_lookup_domain_def route_record_of_def upstreams_def in_verified_domains
      dest!: opt_row_SomeD)

section \<open>Where a request may be sent\<close>

text \<open>The slugs a host can stand for, given the custom domains bound so far.\<close>

definition names_slug :: "router_config \<Rightarrow> (string \<times> string) set \<Rightarrow> request \<Rightarrow> string \<Rightarrow> bool" where
  "names_slug cfg bound rq slug =
     (let host = clean_host (request_host rq)
      in if ends_with (''.'' @ rc_platform cfg) host then slug = first_label host
         else slug = first_label host \<or> (host, slug) \<in> bound)"

definition custom_host :: "router_config \<Rightarrow> request \<Rightarrow> string \<Rightarrow> bool" where
  "custom_host cfg rq host =
     (host = clean_host (request_host rq) \<and> \<not> ends_with (''.'' @ rc_platform cfg) host)"

fun phase_ok ::
  "router_config \<Rightarrow> (string \<times> string) set \<Rightarrow> (string \<times> string) set \<Rightarrow> request \<Rightarrow> phase \<Rightarrow> bool" where
  "phase_ok cfg bound ann rq Arrived = True"
| "phase_ok cfg bound ann rq (LookDomain host) = custom_host cfg rq host"
| "phase_ok cfg bound ann rq (AwaitDomain host) = custom_host cfg rq host"
| "phase_ok cfg bound ann rq (StoreDomain host slug rec) =
     (custom_host cfg rq host \<and> (host, slug) \<in> bound \<and>
      (\<forall>a. rt_upstream_addr rec = Some a \<longrightarrow> (slug, a) \<in> ann))"
| "phase_ok cfg bound ann rq (StoreRoute slug a) = (names_slug cfg bound rq slug \<and> (slug, a) \<in> ann)"
| "phase_ok cfg bound ann rq (Slugged slug) = names_slug cfg bound rq slug"
| "phase_ok cfg bound ann rq (Finished (Proxied a t)) =
     (a = rc_api_upstream cfg \<or>
      (\<exists>slug. rq_slug rq = Some slug \<and> slug_valid slug \<and> names_slug cfg bound rq slug \<and> (slug, a) \<in> ann))"
| "phase_ok cfg bound ann rq (Finished (Refused status)) = (status = 503)"
| "phase_ok cfg bound ann rq (CountHit slug a) =
     (rq_slug rq = Some slug \<and> slug_valid slug \<and> names_slug cfg bound rq slug \<and> (slug, a) \<in> ann)"
| "phase_ok cfg bound ann rq (StoreFound slug rec a) =
     (rq_slug rq = Some slug \<and> slug_valid slug \<and> names_slug cfg bound rq slug \<and> (slug, a) \<in> ann)"
| "phase_ok cfg bound ann rq (CountFound slug rec a) =
     (rq_slug rq = Some slug \<and> slug_valid slug \<and> names_slug cfg bound rq slug \<and> (slug, a) \<in> ann)"
| "phase_ok cfg bound ann rq (MakeCounter slug rec a) =
     (rq_slug rq = Some slug \<and> slug_valid slug \<and> names_slug cfg bound rq slug \<and> (slug, a) \<in> ann)"
| "phase_ok cfg bound ann rq (Pulsing slug) =
     (rq_slug rq = Some slug \<and> slug_valid slug \<and> names_slug cfg bound rq slug)"
| "phase_ok cfg bound ann rq (LookSemaphore slug) =
     (rq_slug rq = Some slug \<and> slug_valid slug \<and> names_slug cfg bound rq slug)"
| "phase_ok cfg bound ann rq (MakeSemaphore slug) =
     (rq_slug rq = Some slug \<and> slug_valid slug \<and> names_slug cfg bound rq slug)"
| "phase_ok cfg bound ann rq (TryPermit slug i) =
     (rq_slug rq = Some slug \<and> slug_valid slug \<and> names_slug cfg bound rq slug)"
| "phase_ok cfg bound ann rq (LookRoute slug) =
     (rq_slug rq = Some slug \<and> slug_valid slug \<and> names_slug cfg bound rq slug)"
| "phase_ok cfg bound ann rq (AwaitRoute slug) =
     (rq_slug rq = Some slug \<and> slug_valid slug \<and> names_slug cfg bound rq slug)"
| "phase_ok cfg bound ann rq (WakeUp slug rec) =
     (rq_slug rq = Some slug \<and> slug_valid slug \<and> names_slug cfg bound rq slug)"
| "phase_ok cfg bound ann rq (AwaitWarm slug rec deadline wake) =
     (rq_slug rq = Some slug \<and> slug_valid slug \<and> names_slug cfg bound rq slug)"

definition routing_ok :: "router_config \<Rightarrow> proxy \<Rightarrow> bool" where
  "routing_ok cfg s =
     (hm_ok (mr_routes (px_router s)) \<and> hm_ok (mr_domains (px_router s)) \<and>
      set (mr_routes (px_router s)) \<subseteq> px_announced s \<and>
      set (mr_domains (px_router s)) \<subseteq> px_bound s \<and>
      upstreams (w_db (px_world s)) \<subseteq> px_announced s \<and>
      set (verified_domains (w_db (px_world s))) \<subseteq> px_bound s \<and>
      (\<forall>rq \<in> set (px_requests s). phase_ok cfg (px_bound s) (px_announced s) rq (rq_phase rq)))"

lemma goto_simps [simp]:
  "rq_phase (goto_phase p rq) = p" "rq_slug (goto_phase p rq) = rq_slug rq"
  "rq_header (goto_phase p rq) = rq_header rq" "rq_uri_host (goto_phase p rq) = rq_uri_host rq"
  "rq_permit (goto_phase p rq) = rq_permit rq" "rq_metal_start (goto_phase p rq) = rq_metal_start rq"
  by (simp_all add: goto_phase_def)

lemma host_simps [simp]:
  "request_host (goto_phase p rq) = request_host rq"
  "request_host (rq\<lparr>rq_slug := x\<rparr>) = request_host rq"
  "request_host (rq\<lparr>rq_metal_start := y\<rparr>) = request_host rq"
  "request_host (rq\<lparr>rq_request_start := y\<rparr>) = request_host rq"
  "request_host (rq\<lparr>rq_permit := z\<rparr>) = request_host rq"
  by (simp_all add: request_host_def goto_phase_def split: option.split)

lemma names_host: "request_host rq' = request_host rq \<Longrightarrow>
  names_slug cfg bound rq' slug = names_slug cfg bound rq slug"
  by (simp add: names_slug_def)

lemma custom_host_host: "request_host rq' = request_host rq \<Longrightarrow>
  custom_host cfg rq' h = custom_host cfg rq h"
  by (simp add: custom_host_def)

lemmas host_rules [simp] = host_simps [THEN names_host] host_simps [THEN custom_host_host]

lemma phase_ok_mono:
  "phase_ok cfg bound ann rq p \<Longrightarrow> bound \<subseteq> bound' \<Longrightarrow> ann \<subseteq> ann' \<Longrightarrow> phase_ok cfg bound' ann' rq p"
  by (cases p; (cases "case p of Finished out \<Rightarrow> out | _ \<Rightarrow> Refused 0")?)
    (auto simp: names_slug_def Let_def split: if_splits)

lemma names_first: "names_slug cfg bound rq (first_label (clean_host (request_host rq)))"
  by (simp add: names_slug_def Let_def)

lemma names_bound: "custom_host cfg rq host \<Longrightarrow> (host, slug) \<in> bound \<Longrightarrow> names_slug cfg bound rq slug"
  by (auto simp: names_slug_def custom_host_def Let_def)

text \<open>One transition keeps a request on the slugs its host names.\<close>

definition caches_ok :: "(string \<times> string) set \<Rightarrow> (string \<times> string) set \<Rightarrow> router \<Rightarrow> bool" where
  "caches_ok bound ann r =
     (hm_ok (mr_routes r) \<and> hm_ok (mr_domains r) \<and> set (mr_routes r) \<subseteq> ann \<and>
      set (mr_domains r) \<subseteq> bound)"

lemma insert_route_ok:
  "caches_ok bound ann r \<Longrightarrow> (slug, a) \<in> ann \<Longrightarrow> caches_ok bound ann (store_route slug a r)"
  by (auto simp: caches_ok_def store_route_def hm_simps hm_set_insert)

lemma caches_ok_upd [simp]:
  "caches_ok bound ann (r\<lparr>mr_pulses := a\<rparr>) = caches_ok bound ann r"
  "caches_ok bound ann (r\<lparr>mr_counters := b\<rparr>) = caches_ok bound ann r"
  "caches_ok bound ann (r\<lparr>mr_sems := c\<rparr>) = caches_ok bound ann r"
  "caches_ok bound ann (r\<lparr>mr_permits := e\<rparr>) = caches_ok bound ann r"
  "caches_ok bound ann (r\<lparr>mr_sent := f\<rparr>) = caches_ok bound ann r"
  by (simp_all add: caches_ok_def)

lemma caches_ok_counts [simp]:
  "caches_ok bound ann (add_invocation slug r) = caches_ok bound ann r"
  "caches_ok bound ann (maybe_publish_pulse cfg now slug r) = caches_ok bound ann r"
  "caches_ok bound ann (publish_wake now slug rec r) = caches_ok bound ann r"
  "caches_ok bound ann (drop_ctx rq r) = caches_ok bound ann r"
  "caches_ok bound ann (snd (logging now (rq, r))) = caches_ok bound ann r"
  by (auto simp: add_invocation_def maybe_publish_pulse_def publish_wake_def drop_ctx_def
      logging_def Let_def caches_ok_def split: option.splits)

lemma in_routes: "caches_ok bound ann r \<Longrightarrow> hm_get (mr_routes r) slug = Some a \<Longrightarrow> (slug, a) \<in> ann"
  by (auto simp: caches_ok_def dest: hm_get_SomeD)

lemma in_domains: "caches_ok bound ann r \<Longrightarrow> hm_get (mr_domains r) h = Some s \<Longrightarrow> (h, s) \<in> bound"
  by (auto simp: caches_ok_def dest: hm_get_SomeD)

lemmas transition_defs =
  arrive_def look_domain_def domain_reply_def store_domain_def check_slug_def look_semaphore_def
  make_semaphore_def try_permit_def look_route_def route_reply_def store_found_def
  try_count_metal_def count_found_def make_counter_def wake_up_def wait_for_warm_def
  make_peer_def api_peer_def

lemma advance_ok:
  assumes a: "advance env cfg now (rq, r, w) = (rq', r', w')"
    and p: "phase_ok cfg bound ann rq (rq_phase rq)" and c: "caches_ok bound ann r"
    and u: "upstreams (w_db w) \<subseteq> ann" and v: "set (verified_domains (w_db w)) \<subseteq> bound"
  shows "phase_ok cfg bound ann rq' (rq_phase rq') \<and> caches_ok bound ann r' \<and> w_db w' = w_db w"
proof (cases "rq_phase rq")
  case Arrived
  with a c show ?thesis
    by (auto simp: advance_def transition_defs Let_def names_slug_def custom_host_def)
next
  case (LookDomain host)
  with a p c in_domains [OF c] show ?thesis
    by (auto simp: advance_def transition_defs names_bound split: option.splits)
next
  case (AwaitDomain host)
  obtain reply w1 where l: "lookup_domain env host w = (reply, w1)" by fastforce
  from AwaitDomain p have h: "custom_host cfg rq host" by simp
  then have f: "names_slug cfg bound rq (first_label host)"
    using names_first [of cfg bound rq] by (simp add: custom_host_def)
  from lookup_domain_run [OF l] u v have "w_db w1 = w_db w"
    "\<And>slug rec. reply = Inr (Some (slug, rec)) \<Longrightarrow> (host, slug) \<in> bound"
    "\<And>slug rec a. reply = Inr (Some (slug, rec)) \<Longrightarrow> rt_upstream_addr rec = Some a \<Longrightarrow> (slug, a) \<in> ann"
    by blast+
  with a l AwaitDomain c h f show ?thesis
    by (auto simp: advance_def transition_defs split: sum.splits option.splits prod.splits)
next
  case (StoreDomain host slug rec)
  with p have "custom_host cfg rq host" "(host, slug) \<in> bound" by auto
  with names_bound a p c StoreDomain show ?thesis
    by (auto simp: advance_def transition_defs caches_ok_def hm_simps hm_set_insert
        split: option.splits if_splits)
next
  case (AwaitRoute slug)
  obtain reply w1 where l: "lookup_route env slug w = (reply, w1)" by fastforce
  from lookup_route_run [OF l] u have "w_db w1 = w_db w"
    "\<And>rec a. reply = Inr (Some rec) \<Longrightarrow> rt_upstream_addr rec = Some a \<Longrightarrow> (slug, a) \<in> ann"
    by blast+
  with a l AwaitRoute c p show ?thesis
    by (auto simp: advance_def transition_defs split: sum.splits option.splits)
next
  case (Finished out)
  with a p c show ?thesis by (simp add: advance_def)
qed (use a p c in_routes [OF c] insert_route_ok [OF c] in
    \<open>auto simp: advance_def transition_defs Let_def split: if_splits option.splits\<close>)

lemma routing_ok_iff:
  "routing_ok cfg s \<longleftrightarrow>
     caches_ok (px_bound s) (px_announced s) (px_router s) \<and>
     upstreams (w_db (px_world s)) \<subseteq> px_announced s \<and>
     set (verified_domains (w_db (px_world s))) \<subseteq> px_bound s \<and>
     (\<forall>rq \<in> set (px_requests s). phase_ok cfg (px_bound s) (px_announced s) rq (rq_phase rq))"
  by (auto simp: routing_ok_def caches_ok_def)

lemma hm_collect_set: "hm_ok m \<Longrightarrow> set (hm_collect kvs m) \<subseteq> set kvs \<union> set m"
proof (induction kvs arbitrary: m)
  case (Cons kv kvs)
  obtain k v where [simp]: "kv = (k, v)" by (cases kv)
  have "set (hm_collect (kv # kvs) m) \<subseteq> set kvs \<union> set (hm_insert k v m)"
    using Cons.IH [OF hm_ok_insert [OF Cons.prems]] by (simp add: hm_collect_def)
  also have "\<dots> \<subseteq> set (kv # kvs) \<union> set m" by (auto simp: hm_set_insert Cons.prems)
  finally show ?case .
qed (simp add: hm_collect_def)

lemma sync_routes_set:
  assumes "hm_ok cache" and "hm_ok db_map"
  shows "set (fst (sync_routes db_map cache)) = set db_map"
proof -
  have "x \<in> set (fst (sync_routes db_map cache)) \<longleftrightarrow> x \<in> set db_map" for x
    using sync_routes_get [OF assms] assms
    by (cases x) (simp add: hm_get_iff [OF sync_routes_ok, symmetric] hm_get_iff [symmetric])
  then show ?thesis by blast
qed

text \<open>What the cache operations of the background threads may put in a cache.\<close>

lemma warm_run:
  assumes "warm env timely m w = (r, w')" and "hm_ok m"
  shows "w_db w' = w_db w \<and> (\<exists>m'. r = Inr m' \<and> hm_ok m' \<and> set m' \<subseteq> set m \<union> upstreams (w_db w))"
  using assms hm_collect_set [OF assms(2), of "List.map_filter route_of (t_services (w_db w))"]
    running_in_upstreams [of "w_db w"]
  by (auto simp: warm_def hm_simps sql_running_routes_def dest!: read_run split: prod.splits sum.splits)
    blast

lemma warm_domains_run:
  assumes "warm_domains env timely m w = (r, w')" and "hm_ok m"
  shows "w_db w' = w_db w \<and>
    (\<exists>m'. r = Inr m' \<and> hm_ok m' \<and> set m' \<subseteq> set m \<union> set (verified_domains (w_db w)))"
  using assms hm_collect_set [OF assms(2), of "verified_domains (w_db w)"]
  by (auto simp: warm_domains_def hm_simps sql_verified_domains_def dest!: read_run
      split: prod.splits sum.splits)

lemma reconcile_routes_run:
  assumes "reconcile_routes env m w = (r, w')" and "hm_ok m"
  shows "w_db w' = w_db w \<and> (\<exists>m'. r = Inr m' \<and> hm_ok m' \<and> set m' \<subseteq> set m \<union> upstreams (w_db w))"
proof -
  let ?rows = "List.map_filter route_of (t_services (w_db w))"
  have "hm_ok (hm_collect ?rows [])" by (simp add: hm_simps)
  then have "set (fst (sync_routes (hm_collect ?rows []) m)) \<subseteq> upstreams (w_db w)"
    using sync_routes_set [OF assms(2)] hm_collect_set [of "[]" ?rows] running_in_upstreams
    by (fastforce simp: hm_simps)
  with assms show ?thesis
    by (auto simp: reconcile_routes_def sql_running_routes_def sync_routes_ok dest!: read_run
        split: prod.splits sum.splits)
qed

lemma prune_domains_set:
  "hm_ok m \<Longrightarrow> hm_ok (fst (prune_domains ds m certs)) \<and> set (fst (prune_domains ds m certs)) \<subseteq> set m"
  by (auto simp: prune_domains_def Let_def hm_simps)

lemma reconcile_domains_run:
  assumes "reconcile_domains env m certs w = (r, w')" and "hm_ok m"
  shows "w_db w' = w_db w \<and> (\<exists>ds cs. r = Inr (ds, cs) \<and> hm_ok ds \<and> set ds \<subseteq> set m)"
proof -
  have "\<exists>ds cs. prune_domains d m certs = (ds, cs) \<and> hm_ok ds \<and> set ds \<subseteq> set m" for d
    using prune_domains_set [OF assms(2), of d certs] by (metis prod.collapse)
  with assms show ?thesis
    by (auto simp: reconcile_domains_def dest!: read_run split: prod.splits sum.splits)
qed

lemma set_routes_ok:
  assumes "\<And>m w r w'. f m w = (r, w') \<Longrightarrow> hm_ok m \<Longrightarrow>
    w_db w' = w_db w \<and> (\<exists>m'. r = Inr m' \<and> hm_ok m' \<and> set m' \<subseteq> set m \<union> upstreams (w_db w))"
    and "routing_ok cfg s"
  shows "routing_ok cfg (set_routes f s)"
proof -
  obtain r w where f: "f (mr_routes (px_router s)) (px_world s) = (r, w)" by fastforce
  from assms(2) have ok: "hm_ok (mr_routes (px_router s))" by (simp add: routing_ok_def)
  from assms(1) [OF f ok] obtain m where m: "w_db w = w_db (px_world s)" "r = Inr m" "hm_ok m"
    "set m \<subseteq> set (mr_routes (px_router s)) \<union> upstreams (w_db w)" by (elim conjE exE) simp
  from m assms(2) have "set m \<subseteq> px_announced s" by (auto simp: routing_ok_def)
  with f assms(2) m show ?thesis by (simp add: set_routes_def routing_ok_def)
qed

lemma set_domains_ok:
  assumes "\<And>m w r w'. f m w = (r, w') \<Longrightarrow> hm_ok m \<Longrightarrow>
    w_db w' = w_db w \<and>
    (\<exists>m'. r = Inr m' \<and> hm_ok m' \<and> set m' \<subseteq> set m \<union> set (verified_domains (w_db w)))"
    and "routing_ok cfg s"
  shows "routing_ok cfg (set_domains f s)"
proof -
  obtain r w where f: "f (mr_domains (px_router s)) (px_world s) = (r, w)" by fastforce
  from assms(2) have ok: "hm_ok (mr_domains (px_router s))" by (simp add: routing_ok_def)
  from assms(1) [OF f ok] obtain m where m: "w_db w = w_db (px_world s)" "r = Inr m" "hm_ok m"
    "set m \<subseteq> set (mr_domains (px_router s)) \<union> set (verified_domains (w_db w))" by (elim conjE exE) simp
  from m assms(2) have "set m \<subseteq> px_bound s" by (auto simp: routing_ok_def)
  with f assms(2) m show ?thesis by (simp add: set_domains_def routing_ok_def)
qed

lemma advance_routing_ok:
  assumes "routing_ok cfg s" shows "routing_ok cfg (advance_request env cfg j s)"
proof (cases "j < length (px_requests s)")
  case True
  obtain rq r w where a: "advance env cfg (px_now s) (px_requests s ! j, px_router s, px_world s) = (rq, r, w)"
    by (metis prod.exhaust)
  from True assms have "phase_ok cfg (px_bound s) (px_announced s) (px_requests s ! j)
      (rq_phase (px_requests s ! j))" by (simp add: routing_ok_def)
  from advance_ok [OF a this] assms a True show ?thesis
    by (auto simp: routing_ok_iff advance_request_def dest: set_update_subset_insert [THEN subsetD])
qed (use assms in \<open>simp add: advance_request_def\<close>)

lemma announcement_set:
  "hm_ok m \<Longrightarrow> set (on_route_message msg m) \<subseteq> set m \<union> announcement msg"
  by (cases msg; rule on_route_message.cases [of "(msg, m)"])
    (auto simp: hm_set_insert dest: hm_set_remove [THEN subsetD])

lemma px_step_routing_ok:
  assumes "routing_ok cfg s" shows "routing_ok cfg (px_step env cfg m s)"
proof (cases m)
  case (Warms t)
  then show ?thesis using set_routes_ok [OF warm_run assms] by simp
next
  case (WarmsDomains t)
  then show ?thesis using set_domains_ok [OF warm_domains_run assms] by simp
next
  case Reconciles
  then show ?thesis using set_routes_ok [OF reconcile_routes_run assms] by simp
next
  case ReconcilesDomains
  have "w_db w' = w_db w \<and>
      (\<exists>m'. r = Inr m' \<and> hm_ok m' \<and> set m' \<subseteq> set m \<union> set (verified_domains (w_db w)))"
    if "andthen (reconcile_domains env m ([] :: (string, unit) hmap))
       (\<lambda>(domains, certs). ret domains) w = (r, w')" and "hm_ok m" for m w r w'
    using that reconcile_domains_run [of env m "[]" w]
    by (fastforce simp: andthen_def ret_def split: prod.splits sum.splits)
  from set_domains_ok [OF this assms] ReconcilesDomains show ?thesis by simp
next
  case (Advances j)
  then show ?thesis using advance_routing_ok assms by simp
next
  case (TablesBecome d)
  with assms show ?thesis by (auto simp: routing_ok_def intro: phase_ok_mono)
next
  case (Receives msg)
  with assms announcement_set [of "mr_routes (px_router s)" msg] show ?thesis
    by (auto simp: routing_ok_def hm_simps intro: phase_ok_mono)
next
  case (Completes j)
  obtain rq r where l: "logging (px_now s) (px_requests s ! j, px_router s) = (rq, r)" by fastforce
  then have "caches_ok b a r = caches_ok b a (px_router s)" for a b
    by (metis caches_ok_counts(5) snd_conv)
  with assms l Completes show ?thesis
    by (auto simp: routing_ok_iff complete_request_def dest: in_set_takeD in_set_dropD)
qed (use assms in \<open>auto simp: routing_ok_def fail_to_connect_def sweep_pulses_def flush_usage_def
      Let_def new_ctx_def hm_simps dest: hm_set_remove [THEN subsetD]
      split: option.splits\<close>)

lemma reachable_routing_ok: "px_reachable env cfg s \<Longrightarrow> routing_ok cfg s"
proof (induction rule: px_reachable.induct)
  case (px_start nats now w)
  show ?case by (simp add: routing_ok_def init_proxy_def init_router_def hm_simps)
qed (rule px_step_routing_ok)

text \<open>
  C21: In every reachable state of the proxy, whatever the interleaving of requests, messages,
  reconcilers and changes of the tables, a request that has a peer goes to the API or to an
  address which the tables or a route message gave to the very slug its host names: the first
  label, or the slug a verified custom domain was bound to.
\<close>
theorem requests_reach_their_service:
  assumes "px_reachable env cfg s" and "rq \<in> set (px_requests s)"
    and "rq_phase rq = Finished (Proxied addr timeout)"
  shows "addr = rc_api_upstream cfg \<or>
    (\<exists>slug. rq_slug rq = Some slug \<and> slug_valid slug \<and>
      names_slug cfg (px_bound s) rq slug \<and> (slug, addr) \<in> px_announced s)"
  using reachable_routing_ok [OF assms(1)] assms(2,3) by (force simp: routing_ok_def)

end
