(* ===== verification/Traffic.thy ===== *)
theory Traffic
  imports Proxy
begin

text \<open>
  Properties of the proxy over all interleavings: concurrency permits, traffic pulses,
  termination of requests, the route cache as a refinement of the services table, the
  accounting of Metal invocations, the choice of certificates.
\<close>

section \<open>Concurrency permits\<close>

definition held :: "nat \<Rightarrow> proxy \<Rightarrow> nat" where
  "held i s = length (filter (\<lambda>rq. rq_permit rq = Some i) (px_requests s))"

text \<open>Before \<open>TryPermit\<close> a request holds nothing; it tries a semaphore that exists.\<close>

fun before_permit :: "phase \<Rightarrow> bool" where
  "before_permit Arrived = True"
| "before_permit (LookDomain h) = True"
| "before_permit (AwaitDomain h) = True"
| "before_permit (StoreDomain h s rec) = True"
| "before_permit (StoreRoute s a) = True"
| "before_permit (Slugged s) = True"
| "before_permit (Pulsing s) = True"
| "before_permit (LookSemaphore s) = True"
| "before_permit (MakeSemaphore s) = True"
| "before_permit (TryPermit s i) = True"
| "before_permit _ = False"

definition permit_ok :: "nat \<Rightarrow> request \<Rightarrow> bool" where
  "permit_ok n rq =
     ((before_permit (rq_phase rq) \<longrightarrow> rq_permit rq = None) \<and>
      (\<forall>slug i. rq_phase rq = TryPermit slug i \<longrightarrow> i < n))"

definition permits_ok :: "router_config \<Rightarrow> proxy \<Rightarrow> bool" where
  "permits_ok cfg s =
     ((\<forall>(slug, i) \<in> set (mr_sems (px_router s)). i < length (mr_permits (px_router s))) \<and>
      hm_ok (mr_sems (px_router s)) \<and>
      (\<forall>rq \<in> set (px_requests s). permit_ok (length (mr_permits (px_router s))) rq) \<and>
      (\<forall>i < length (mr_permits (px_router s)).
         mr_permits (px_router s) ! i + held i s = rc_max_concurrent cfg) \<and>
      (\<forall>rq \<in> set (px_requests s). \<forall>i. rq_permit rq = Some i \<longrightarrow> i < length (mr_permits (px_router s))))"

lemma count_update:
  "j < length xs \<Longrightarrow>
   length (filter P (xs[j := x])) + (if P (xs ! j) then 1 else 0) =
   length (filter P xs) + (if P x then 1 else 0)"
proof (induction xs arbitrary: j)
  case (Cons y ys)
  then show ?case by (cases j) auto
qed simp

lemma count_remove:
  "j < length xs \<Longrightarrow>
   length (filter P (take j xs @ drop (Suc j) xs)) + (if P (xs ! j) then 1 else 0) =
   length (filter P xs)"
proof (induction xs arbitrary: j)
  case (Cons y ys)
  then show ?case by (cases j) auto
qed simp

text \<open>What a transition does to the semaphores.\<close>

datatype permit_change = Same | Fresh | Took nat

fun permits_after :: "router_config \<Rightarrow> permit_change \<Rightarrow> nat list \<Rightarrow> nat list" where
  "permits_after cfg Same ps = ps"
| "permits_after cfg Fresh ps = ps @ [rc_max_concurrent cfg]"
| "permits_after cfg (Took i) ps = ps[i := ps ! i - 1]"

lemma advance_permits_same:
  assumes "advance env cfg now (rq, r, w) = (rq', r', w')"
    and "permit_ok (length (mr_permits r)) rq"
    and "\<forall>(slug, i) \<in> set (mr_sems r). i < length (mr_permits r)"
    and "\<And>slug. rq_phase rq \<noteq> MakeSemaphore slug" "\<And>slug i. rq_phase rq \<noteq> TryPermit slug i"
  shows "mr_permits r' = mr_permits r \<and> mr_sems r' = mr_sems r \<and> rq_permit rq' = rq_permit rq \<and>
    permit_ok (length (mr_permits r')) rq'"
proof (cases "rq_phase rq")
  case (LookSemaphore slug)
  with assms show ?thesis
    by (auto simp: advance_def transition_defs permit_ok_def dest!: hm_get_SomeD split: option.splits)
qed (use assms in \<open>auto simp: advance_def transition_defs permit_ok_def store_route_def
      maybe_publish_pulse_def publish_wake_def add_invocation_def Let_def
    split: option.splits if_splits prod.splits sum.splits\<close>)

lemma advance_permits:
  assumes "advance env cfg now (rq, r, w) = (rq', r', w')"
    and "permit_ok (length (mr_permits r)) rq"
    and "\<forall>(slug, i) \<in> set (mr_sems r). i < length (mr_permits r)" and "hm_ok (mr_sems r)"
  shows "\<exists>c. mr_permits r' = permits_after cfg c (mr_permits r) \<and>
    permit_ok (length (mr_permits r')) rq' \<and>
    (\<forall>(slug, i) \<in> set (mr_sems r'). i < length (mr_permits r')) \<and> hm_ok (mr_sems r') \<and>
    (case c of Took i \<Rightarrow> i < length (mr_permits r) \<and> 0 < mr_permits r ! i \<and>
        rq_permit rq = None \<and> rq_permit rq' = Some i
     | _ \<Rightarrow> rq_permit rq' = rq_permit rq)"
proof (cases "rq_phase rq")
  case (MakeSemaphore slug)
  have "\<forall>(slug, i) \<in> set (mr_sems r). i < Suc (length (mr_permits r))" using assms(3) by auto
  with MakeSemaphore assms show ?thesis
    by (intro exI [of _ Fresh])
      (auto simp: advance_def transition_defs Let_def permit_ok_def hm_simps hm_set_insert)
next
  case (TryPermit slug i)
  show ?thesis
  proof (cases "0 < mr_permits r ! i")
    case True
    with TryPermit assms show ?thesis
      by (intro exI [of _ "Took i"]) (auto simp: advance_def transition_defs permit_ok_def)
  next
    case False
    with TryPermit assms show ?thesis
      by (intro exI [of _ Same]) (auto simp: advance_def transition_defs permit_ok_def)
  qed
qed (use advance_permits_same [OF assms(1-3)] assms(3,4) in \<open>auto intro!: exI [of _ Same]\<close>)

lemma drop_ctx_permits:
  "mr_permits (drop_ctx rq r) =
     (case rq_permit rq of Some i \<Rightarrow> (mr_permits r)[i := mr_permits r ! i + 1] | None \<Rightarrow> mr_permits r)"
  "mr_sems (drop_ctx rq r) = mr_sems r"
  by (auto simp: drop_ctx_def split: option.splits)

lemma logging_permits:
  assumes "logging now (rq, r) = (rq', r')"
  shows "rq_permit rq' = rq_permit rq \<and> mr_permits r' = mr_permits r \<and> mr_sems r' = mr_sems r"
  using assms by (auto simp: logging_def split: option.splits)

lemma permit_ok_grow: "permit_ok n rq \<Longrightarrow> n \<le> m \<Longrightarrow> permit_ok m rq"
  by (auto simp: permit_ok_def)

lemma permits_after_length: "length ps \<le> length (permits_after cfg c ps)"
  by (cases c) auto

lemma advance_permits_ok:
  assumes "permits_ok cfg s" shows "permits_ok cfg (advance_request env cfg j s)"
proof (cases "j < length (px_requests s)")
  case True
  define rq where "rq = px_requests s ! j"
  obtain rq' r w where a: "advance env cfg (px_now s) (rq, px_router s, px_world s) = (rq', r, w)"
    by (metis prod.exhaust)
  let ?ps = "mr_permits (px_router s)"
  have rq: "rq \<in> set (px_requests s)" using True by (simp add: rq_def)
  with assms have "permit_ok (length ?ps) rq"
    "\<forall>(slug, i) \<in> set (mr_sems (px_router s)). i < length ?ps" "hm_ok (mr_sems (px_router s))"
    by (auto simp: permits_ok_def)
  from advance_permits [OF a this] obtain c where c: "mr_permits r = permits_after cfg c ?ps"
    "permit_ok (length (mr_permits r)) rq'" "\<forall>(slug, i) \<in> set (mr_sems r). i < length (mr_permits r)"
    "hm_ok (mr_sems r)" "case c of Took i \<Rightarrow> i < length ?ps \<and> 0 < ?ps ! i \<and>
        rq_permit rq = None \<and> rq_permit rq' = Some i | _ \<Rightarrow> rq_permit rq' = rq_permit rq" by blast
  let ?s = "advance_request env cfg j s"
  have s': "px_requests ?s = (px_requests s)[j := rq']" "px_router ?s = r"
    using a True by (simp_all add: advance_request_def rq_def)
  have held: "held i ?s + (if rq_permit rq = Some i then 1 else 0) =
      held i s + (if rq_permit rq' = Some i then 1 else 0)" for i
    unfolding held_def s' using count_update [OF True, of "\<lambda>rq. rq_permit rq = Some i" rq']
    by (simp add: rq_def)
  have none: "held i s = 0" if "length ?ps \<le> i" for i
    using assms that by (force simp: held_def permits_ok_def filter_empty_conv)
  have len: "length ?ps \<le> length (mr_permits r)" using c(1) permits_after_length by simp
  have sum: "mr_permits r ! i + held i ?s = rc_max_concurrent cfg" if "i < length (mr_permits r)" for i
    using c(1,5) held [of i] none [of i] that assms
    by (cases c) (auto simp: permits_ok_def nth_append nth_list_update split: if_splits)
  have own0: "k < length ?ps" if "x \<in> set (px_requests s)" "rq_permit x = Some k" for x k
    using assms that by (auto simp: permits_ok_def)
  have own: "k < length (mr_permits r)" if "x \<in> set (px_requests ?s)" "rq_permit x = Some k" for x k
  proof (cases "x = rq'")
    case True
    with that c(5) own0 [OF rq, of k] len show ?thesis by (cases c) auto
  next
    case False
    with that s' have "x \<in> set (px_requests s)" using set_update_subset_insert by fastforce
    with that own0 len show ?thesis by fastforce
  qed
  have every: "permit_ok (length (mr_permits r)) x" if "x \<in> set (px_requests ?s)" for x
  proof (cases "x = rq'")
    case False
    with that s' have "x \<in> set (px_requests s)" using set_update_subset_insert by fastforce
    with assms have "permit_ok (length ?ps) x" by (auto simp: permits_ok_def)
    then show ?thesis using len by (rule permit_ok_grow)
  qed (use c(2) in simp)
  show ?thesis unfolding permits_ok_def s'(2) using c(3,4) every sum own by auto
qed (use assms in \<open>simp add: advance_request_def\<close>)

lemma complete_permits_ok:
  assumes "permits_ok cfg s" shows "permits_ok cfg (complete_request j s)"
proof (cases "j < length (px_requests s)")
  case True
  define rq where "rq = px_requests s ! j"
  obtain rq' r where l: "logging (px_now s) (rq, px_router s) = (rq', r)" by fastforce
  note lp = logging_permits [OF l]
  let ?s = "complete_request j s"
  have s': "px_requests ?s = take j (px_requests s) @ drop (Suc j) (px_requests s)"
    "px_router ?s = drop_ctx rq' r"
    using l True by (simp_all add: complete_request_def rq_def)
  have rq: "rq \<in> set (px_requests s)" using True by (simp add: rq_def)
  have held: "held i ?s + (if rq_permit rq = Some i then 1 else 0) = held i s" for i
    unfolding held_def s' using count_remove [OF True, of "\<lambda>rq. rq_permit rq = Some i"]
    by (simp add: rq_def)
  have sub: "set (px_requests ?s) \<subseteq> set (px_requests s)"
    unfolding s' by (auto dest: in_set_takeD in_set_dropD)
  have sum: "mr_permits (px_router ?s) ! i + held i ?s = rc_max_concurrent cfg"
    if "i < length (mr_permits (px_router ?s))" for i
  proof -
    from that lp have "i < length (mr_permits (px_router s))"
      unfolding s'(2) drop_ctx_permits by (simp split: option.splits)
    with assms have "mr_permits (px_router s) ! i + held i s = rc_max_concurrent cfg"
      by (simp add: permits_ok_def)
    with held [of i] lp \<open>i < length (mr_permits (px_router s))\<close> show ?thesis
      unfolding s'(2) drop_ctx_permits
      by (auto simp: nth_list_update split: option.splits if_splits)
  qed
  have len: "length (mr_permits (px_router ?s)) = length (mr_permits (px_router s))"
    using lp unfolding s'(2) drop_ctx_permits by (simp split: option.split)
  show ?thesis
    using assms sub sum unfolding permits_ok_def len
    by (auto simp: s'(2) drop_ctx_permits lp)
qed (use assms in \<open>simp add: complete_request_def\<close>)

lemma px_step_permits_ok:
  assumes "permits_ok cfg s" shows "permits_ok cfg (px_step env cfg m s)"
proof (cases m)
  case (Advances j)
  then show ?thesis using advance_permits_ok assms by simp
next
  case (Completes j)
  then show ?thesis using complete_permits_ok assms by simp
qed (use assms in \<open>auto simp: permits_ok_def held_def permit_ok_def new_ctx_def set_routes_def
      set_domains_def fail_to_connect_def sweep_pulses_def flush_usage_def Let_def
      split: option.splits prod.splits sum.splits\<close>)

lemma reachable_permits_ok: "px_reachable env cfg s \<Longrightarrow> permits_ok cfg s"
proof (induction rule: px_reachable.induct)
  case (px_start nats now w)
  show ?case by (simp add: permits_ok_def init_proxy_def init_router_def hm_simps)
qed (rule px_step_permits_ok)


section \<open>Traffic pulses\<close>

definition pulse_times :: "string \<Rightarrow> router \<Rightarrow> nat list" where
  "pulse_times slug r =
     map fst (filter (\<lambda>(t, subject, ev). ev = EvTrafficPulse \<lparr>tp_slug = slug\<rparr>) (mr_sent r))"

definition pulses_ok :: "router_config \<Rightarrow> nat \<Rightarrow> router \<Rightarrow> bool" where
  "pulses_ok cfg now r =
     (hm_ok (mr_pulses r) \<and>
      (\<forall>slug. sorted_wrt (\<lambda>t u. t + 1000 * rc_pulse_debounce_secs cfg \<le> u) (pulse_times slug r) \<and>
        (\<forall>t. hm_get (mr_pulses r) slug = Some t \<longrightarrow> t \<le> now) \<and>
        (\<forall>t \<in> set (pulse_times slug r). t \<le> now \<and>
          (t + 2000 * rc_pulse_debounce_secs cfg \<le> now \<or>
           (\<exists>u. hm_get (mr_pulses r) slug = Some u \<and> t \<le> u)))))"

lemma advance_pulses_same:
  assumes "advance env cfg now (rq, r, w) = (rq', r', w')" and "\<And>slug. rq_phase rq \<noteq> Pulsing slug"
  shows "mr_pulses r' = mr_pulses r \<and> (\<forall>slug. pulse_times slug r' = pulse_times slug r)"
  by (cases "rq_phase rq")
    (use assms in \<open>auto simp: advance_def transition_defs store_route_def publish_wake_def
      add_invocation_def pulse_times_def Let_def
    split: option.splits if_splits prod.splits sum.splits\<close>)

lemma stale_after:
  assumes "D \<le> (now - u) div 1000" and "u \<le> now" shows "u + 1000 * D \<le> (now::nat)"
  using assms by (simp add: less_eq_div_iff_mult_less_eq)

lemma pulse_times_publish:
  "pulse_times slug (r\<lparr>mr_pulses := m, mr_sent := mr_sent r @ [(now, x, EvTrafficPulse \<lparr>tp_slug = s\<rparr>)]\<rparr>) =
     pulse_times slug r @ (if slug = s then [now] else [])"
  by (simp add: pulse_times_def)

lemma publish_pulse_ok:
  assumes "pulses_ok cfg now r" shows "pulses_ok cfg now (maybe_publish_pulse cfg now slug r)"
proof (cases "maybe_publish_pulse cfg now slug r = r")
  case False
  let ?D = "rc_pulse_debounce_secs cfg"
  define r' where "r' = r\<lparr>mr_pulses := hm_insert slug now (mr_pulses r), mr_sent := mr_sent r @
      [(now, subject_traffic_pulse, EvTrafficPulse \<lparr>tp_slug = slug\<rparr>)]\<rparr>"
  have r': "maybe_publish_pulse cfg now slug r = r'"
    and stale: "\<And>u. hm_get (mr_pulses r) slug = Some u \<Longrightarrow> ?D \<le> (now - u) div 1000"
    using False by (auto simp: maybe_publish_pulse_def r'_def Let_def split: if_splits option.splits)
  have "t + 1000 * ?D \<le> now" if "t \<in> set (pulse_times slug r)" for t
  proof -
    from assms that consider "t + 2000 * ?D \<le> now"
      | u where "hm_get (mr_pulses r) slug = Some u" "t \<le> u" "u \<le> now"
      unfolding pulses_ok_def by blast
    then show ?thesis
    proof cases
      case (2 u)
      then show ?thesis using stale_after [OF stale] by force
    qed simp
  qed
  with assms show ?thesis unfolding r'
    unfolding pulses_ok_def r'_def pulse_times_publish
    by (auto simp: sorted_wrt_append hm_simps)
qed (use assms in simp)

lemma sweep_pulses_ok:
  assumes "pulses_ok cfg now r" shows "pulses_ok cfg now (sweep_pulses cfg now r)"
proof -
  have same: "pulse_times slug (sweep_pulses cfg now r) = pulse_times slug r" for slug
    by (simp add: pulse_times_def sweep_pulses_def)
  have "u + 2000 * rc_pulse_debounce_secs cfg \<le> now"
    if "\<not> (now - u) div 1000 < rc_pulse_debounce_secs cfg * 2" "u \<le> now" for u
    using stale_after [of "rc_pulse_debounce_secs cfg * 2" now u] that by simp
  with assms show ?thesis
    unfolding pulses_ok_def same
    by (auto simp: sweep_pulses_def hm_simps split: option.splits if_splits) force+
qed

lemma pulses_ok_later: "pulses_ok cfg now r \<Longrightarrow> pulses_ok cfg (now + ms) r"
  unfolding pulses_ok_def by (meson trans_le_add1)

lemma pulses_ok_cong:
  "mr_pulses r' = mr_pulses r \<Longrightarrow> mr_sent r' = mr_sent r \<Longrightarrow> pulses_ok cfg now r' = pulses_ok cfg now r"
  by (simp add: pulses_ok_def pulse_times_def)

lemma logging_sent:
  "mr_pulses (drop_ctx q (snd (logging now (rq, r)))) = mr_pulses r"
  "mr_sent (drop_ctx q (snd (logging now (rq, r)))) = mr_sent r"
  by (auto simp: logging_def drop_ctx_def split: option.splits)

lemma px_step_pulses_ok:
  assumes "pulses_ok cfg (px_now s) (px_router s)"
  shows "pulses_ok cfg (px_now (px_step env cfg m s)) (px_router (px_step env cfg m s))"
proof (cases m)
  case (Advances j)
  show ?thesis
  proof (cases "j < length (px_requests s)")
    case True
    obtain rq r w where a: "advance env cfg (px_now s) (px_requests s ! j, px_router s, px_world s) = (rq, r, w)"
      by (metis prod.exhaust)
    have "pulses_ok cfg (px_now s) r"
    proof (cases "\<exists>slug. rq_phase (px_requests s ! j) = Pulsing slug")
      case True
      with a have "\<exists>slug. r = maybe_publish_pulse cfg (px_now s) slug (px_router s)"
        by (auto simp: advance_def)
      with publish_pulse_ok assms show ?thesis by blast
    next
      case False
      with advance_pulses_same [OF a] assms show ?thesis by (auto simp: pulses_ok_def)
    qed
    with a True Advances show ?thesis by (simp add: advance_request_def)
  qed (use assms Advances in \<open>simp add: advance_request_def\<close>)
next
  case (Completes j)
  have "pulses_ok cfg (px_now s) (drop_ctx q (snd (logging (px_now s) (rq, px_router s))))" for q rq
    using assms pulses_ok_cong [OF logging_sent] by blast
  with Completes assms show ?thesis by (simp add: complete_request_def Let_def split_beta)
next
  case (Elapses ms)
  with assms show ?thesis by (simp add: pulses_ok_later)
next
  case Sweeps
  with assms show ?thesis by (simp add: sweep_pulses_ok)
qed (use assms in \<open>auto simp: pulses_ok_def pulse_times_def set_routes_def
      set_domains_def fail_to_connect_def flush_usage_def Let_def
      split: option.splits prod.splits sum.splits\<close>)


section \<open>A request ends\<close>

text \<open>Transitions a request has still to make, at most; polls are at least 50 ms apart.\<close>

fun work :: "router_config \<Rightarrow> phase \<Rightarrow> nat" where
  "work cfg Arrived = 18 + rc_wake_timeout_ms cfg div 50"
| "work cfg (LookDomain h) = 17 + rc_wake_timeout_ms cfg div 50"
| "work cfg (AwaitDomain h) = 16 + rc_wake_timeout_ms cfg div 50"
| "work cfg (StoreDomain h s rec) = 15 + rc_wake_timeout_ms cfg div 50"
| "work cfg (StoreRoute s a) = 14 + rc_wake_timeout_ms cfg div 50"
| "work cfg (Slugged s) = 13 + rc_wake_timeout_ms cfg div 50"
| "work cfg (Pulsing s) = 12 + rc_wake_timeout_ms cfg div 50"
| "work cfg (LookSemaphore s) = 11 + rc_wake_timeout_ms cfg div 50"
| "work cfg (MakeSemaphore s) = 10 + rc_wake_timeout_ms cfg div 50"
| "work cfg (TryPermit s i) = 9 + rc_wake_timeout_ms cfg div 50"
| "work cfg (LookRoute s) = 8 + rc_wake_timeout_ms cfg div 50"
| "work cfg (CountHit s a) = 1"
| "work cfg (AwaitRoute s) = 7 + rc_wake_timeout_ms cfg div 50"
| "work cfg (WakeUp s rec) = 6 + rc_wake_timeout_ms cfg div 50"
| "work cfg (AwaitWarm s rec deadline wake) =
     (if wake \<le> deadline then 4 + (deadline - wake) div 50 + 1 else 4)"
| "work cfg (StoreFound s rec a) = 3"
| "work cfg (CountFound s rec a) = 2"
| "work cfg (MakeCounter s rec a) = 1"
| "work cfg (Finished out) = 0"

text \<open>A request can move unless it is done or asleep between two polls.\<close>

fun can_move :: "nat \<Rightarrow> phase \<Rightarrow> bool" where
  "can_move now (Finished out) = False"
| "can_move now (AwaitWarm s rec deadline wake) = (wake \<le> now)"
| "can_move now p = True"

lemma poll_work:
  assumes "wake \<le> now" and "now < deadline"
  shows "work cfg (AwaitWarm s rec deadline (now + 50)) < work cfg (AwaitWarm s rec deadline wake)"
proof (cases "now + 50 \<le> deadline")
  case True
  then obtain k where k: "deadline = now + 50 + k" by (metis le_Suc_ex)
  then have "(deadline - (now + 50)) div 50 + 1 = (deadline - now) div 50" by simp
  also have "\<dots> \<le> (deadline - wake) div 50" using assms by (intro div_le_mono) simp
  finally show ?thesis using True assms by simp
qed (use assms in simp)

lemma advance_work:
  assumes "can_move now (rq_phase rq)"
  shows "work cfg (rq_phase (fst (advance env cfg now (rq, r, w)))) < work cfg (rq_phase rq)"
proof (cases "rq_phase rq")
  case (AwaitWarm slug rec deadline wake)
  have "3 < work cfg (AwaitWarm slug rec deadline wake)" by simp
  with AwaitWarm assms poll_work [of wake now deadline cfg slug rec] show ?thesis
    by (auto simp: advance_def transition_defs simp del: work.simps(15) split: option.splits)
next
  case (AwaitRoute slug)
  with assms show ?thesis
    by (auto simp: advance_def transition_defs wakeable_def split: option.splits sum.splits prod.splits)
qed (use assms in \<open>auto simp: advance_def transition_defs Let_def
    split: option.splits sum.splits prod.splits\<close>)

text \<open>
  What one request meets on its way: at each of its turns a database world, a clock, a
  router state, whatever the other threads made of them.
\<close>

fun turns :: "router_config \<Rightarrow> (env \<times> nat \<times> router \<times> world) list \<Rightarrow> request \<Rightarrow> request option" where
  "turns cfg [] rq = Some rq"
| "turns cfg ((env, now, r, w) # views) rq =
     (if can_move now (rq_phase rq)
      then turns cfg views (fst (advance env cfg now (rq, r, w))) else None)"

text \<open>
  C22: A request ends: whatever states of the tables, the clock and the shared maps it meets at
  its turns, it makes at most 18 transitions and one more for every 50 ms of the wake timeout.
\<close>
theorem requests_end:
  assumes "turns cfg views (new_ctx header uri_host) = Some rq"
  shows "length views + work cfg (rq_phase rq) \<le> 18 + rc_wake_timeout_ms cfg div 50"
proof -
  have "length views + work cfg (rq_phase rq) \<le> work cfg (rq_phase rq0)"
    if "turns cfg views rq0 = Some rq" for rq0
    using that
  proof (induction views arbitrary: rq0)
    case (Cons v views)
    obtain env now r w where [simp]: "v = (env, now, r, w)" by (metis prod.exhaust)
    from Cons.prems have m: "can_move now (rq_phase rq0)"
      and "turns cfg views (fst (advance env cfg now (rq0, r, w))) = Some rq"
      by (auto split: if_splits)
    from Cons.IH [OF this(2)] advance_work [OF m, of cfg env r w] show ?case by simp
  qed simp
  from this [OF assms] show ?thesis by (simp add: new_ctx_def)
qed

section \<open>The route cache and the table\<close>

text \<open>What the cache stands for: the address of each slug that runs.\<close>

definition route_table :: "db \<Rightarrow> string \<Rightarrow> string option" where
  "route_table d slug =
     (case find (\<lambda>s. sv_slug s = slug) (t_services d) of
        Some s \<Rightarrow> if sv_status s = ''running'' \<and> sv_deleted_at s = None then sv_upstream s else None
      | None \<Rightarrow> None)"

lemma route_rows_table:
  assumes "distinct (map sv_slug (t_services d))"
  shows "map_of (List.map_filter route_of (t_services d)) = route_table d"
proof
  fix slug
  have "map_of (List.map_filter route_of ss) slug =
      (case find (\<lambda>s. sv_slug s = slug) ss of
        Some s \<Rightarrow> if sv_status s = ''running'' \<and> sv_deleted_at s = None then sv_upstream s else None
      | None \<Rightarrow> None)" if "distinct (map sv_slug ss)" for ss
    using that
  proof (induction ss)
    case (Cons s ss)
    have none: "map_of (List.map_filter route_of ss) slug = None" if "sv_slug s = slug"
    proof -
      have "slug \<notin> sv_slug ` set ss" using that Cons.prems by simp
      then show ?thesis by (fastforce simp: map_of_eq_None_iff in_route_of_rows)
    qed
    show ?case
    proof (cases "sv_slug s = slug")
      case True
      with none have "map_of (List.map_filter route_of ss) (sv_slug s) = None" by simp
      with True show ?thesis by (simp add: List.map_filter_simps route_of_def [of s] split: option.split)
    next
      case False
      with Cons show ?thesis
        by (auto simp: List.map_filter_simps route_of_def [of s] split: option.splits)
    qed
  qed (simp add: List.map_filter_simps)
  from this [OF assms] show "map_of (List.map_filter route_of (t_services d)) slug = route_table d slug"
    by (simp add: route_table_def)
qed

text \<open>
  C23: A reconciliation that reaches the database turns the route cache, whatever it held, into
  the table of running services: the address of each slug that runs, nothing else.
\<close>
theorem reconciling_refines_table:
  assumes "px_reachable env cfg s" and "distinct (map sv_slug (t_services (w_db (px_world s))))"
    and "\<not> e_fault env (w_calls (px_world s))" and "\<not> e_fault env (Suc (w_calls (px_world s)))"
  shows "hm_get (mr_routes (px_router (px_step env cfg Reconciles s))) = route_table (w_db (px_world s))"
proof -
  let ?d = "w_db (px_world s)"
  have ok: "hm_ok (mr_routes (px_router s))"
    using reachable_routing_ok [OF assms(1)] by (simp add: routing_ok_def)
  have "fst (reconcile_routes env (mr_routes (px_router s)) (px_world s)) =
      Inr (fst (sync_routes (hm_collect (List.map_filter route_of (t_services ?d)) []) (mr_routes (px_router s))))"
    using assms(3,4)
    by (simp add: reconcile_routes_def andthen_def external_def query_def sql_running_routes_def)
  moreover have "hm_get (fst (sync_routes (hm_collect (List.map_filter route_of (t_services ?d)) [])
      (mr_routes (px_router s)))) = route_table ?d"
    by (simp add: sync_routes_get [OF ok] hm_simps get_collected_routes assms(2) route_rows_table)
  ultimately show ?thesis
    by (auto simp: set_routes_def split: prod.splits sum.splits)
qed

section \<open>Usage\<close>

definition usage_of :: "string \<Rightarrow> metal_usage_event list \<Rightarrow> 64 word" where
  "usage_of sid evs = sum_list (map (\<lambda>e. of_nat (mu_invocations e)) (filter (\<lambda>e. mu_service_id e = sid) evs))"

definition counted_for :: "string \<Rightarrow> (string, metal_counter) hmap \<Rightarrow> 64 word" where
  "counted_for sid cs =
     sum_list (map (mc_invocations \<circ> snd) (filter (\<lambda>(slug, c). mc_service_id c = sid) cs))"

lemma usage_append [simp]: "usage_of sid (xs @ ys) = usage_of sid xs + usage_of sid ys"
  by (simp add: usage_of_def)

lemma usage_split: "usage_of sid (take n xs) + usage_of sid (drop n xs) = usage_of sid xs"
  by (metis append_take_drop_id usage_append)

lemma usage_Nil [simp]: "usage_of sid [] = 0" "counted_for sid [] = 0"
  by (simp_all add: usage_of_def counted_for_def)

lemma usage_Cons:
  "usage_of sid (e # es) = (if mu_service_id e = sid then of_nat (mu_invocations e) else 0) + usage_of sid es"
  by (simp add: usage_of_def)

lemma counted_Cons:
  "counted_for sid (x # cs) =
     (if mc_service_id (snd x) = sid then mc_invocations (snd x) else 0) + counted_for sid cs"
  by (simp add: counted_for_def split_beta)

lemma usage_published:
  "usage_of sid (fst (publish_usage ok n evs)) + usage_of sid (snd (publish_usage ok n evs)) =
   usage_of sid evs"
proof (induction evs arbitrary: n)
  case (Cons e es)
  obtain a b where ab: "publish_usage ok (Suc n) es = (a, b)" by fastforce
  from Cons.IH [of "Suc n"] have u: "usage_of sid es = usage_of sid a + usage_of sid b" by (simp add: ab)
  show ?case
    by (simp only: publish_usage.simps ab Let_def prod.case usage_Cons [of sid e es] u)
      (simp add: usage_Cons ac_simps)
qed simp

lemma usage_metal_usage [simp]:
  "mu_service_id (metal_usage_of c) = mc_service_id c"
  "of_nat (mu_invocations (metal_usage_of c)) = mc_invocations c"
  by (simp_all add: metal_usage_of_def)

lemma usage_snapshot: "usage_of sid (snapshot_counters cs) = counted_for sid cs"
proof (induction cs)
  case Nil
  then show ?case by (simp add: usage_of_def counted_for_def snapshot_counters_def)
next
  case (Cons x cs)
  obtain k c where [simp]: "x = (k, c)" by (cases x)
  have "snapshot_counters (x # cs) =
      (if 0 < mc_invocations c \<or> 0 < mc_duration_ms c then [metal_usage_of c] else []) @ snapshot_counters cs"
    by (simp add: snapshot_counters_def)
  moreover have "mc_invocations c = 0" if "\<not> 0 < mc_invocations c"
    using that by (simp add: word_gt_0)
  ultimately show ?case using Cons by (auto simp: usage_Cons counted_Cons)
qed

lemma counted_reset: "counted_for sid (reset_counters cs) = 0"
  unfolding counted_for_def reset_counters_def by (induction cs) auto

lemma publish_usage_length:
  "length (fst (publish_usage ok n evs)) + length (snd (publish_usage ok n evs)) = length evs"
  by (induction evs arbitrary: n) (auto simp: split_beta Let_def)

lemma flush_conserves:
  fixes counters backlog ok
  defines "f \<equiv> flush_metal_usage ok counters backlog"
  shows "counted_for sid (fl_counters f) + usage_of sid (fl_backlog f) + usage_of sid (fl_sent f) +
      usage_of sid (fl_dropped f) = counted_for sid counters + usage_of sid backlog"
    and "length (fl_backlog f) \<le> 1000"
    and "length backlog + length counters \<le> 1000 \<Longrightarrow> fl_dropped f = []"
proof -
  obtain s1 f1 where p1: "publish_usage ok 0 backlog = (s1, f1)" by fastforce
  obtain s2 f2 where p2: "publish_usage ok (length backlog) (snapshot_counters counters) = (s2, f2)"
    by fastforce
  note u1 = usage_published [of sid ok 0 backlog, unfolded p1]
  note u2 = usage_published [of sid ok "length backlog" "snapshot_counters counters", unfolded p2]
  show "counted_for sid (fl_counters f) + usage_of sid (fl_backlog f) + usage_of sid (fl_sent f) +
      usage_of sid (fl_dropped f) = counted_for sid counters + usage_of sid backlog"
    using u1 u2 usage_split [of sid "length (f1 @ f2) - 1000" "f1 @ f2"]
    unfolding f_def flush_metal_usage_def p1 p2 Let_def prod.case flush_result.simps usage_append
    by (simp add: counted_reset usage_snapshot algebra_simps del: take_append drop_append length_append)
  show "length (fl_backlog f) \<le> 1000"
    by (simp add: f_def flush_metal_usage_def p1 p2 Let_def)
  assume "length backlog + length counters \<le> 1000"
  moreover have "length (snapshot_counters counters) \<le> length counters"
    by (simp add: snapshot_counters_def)
  ultimately show "fl_dropped f = []"
    using publish_usage_length [of ok 0 backlog] p1
      publish_usage_length [of ok "length backlog" "snapshot_counters counters"] p2
    by (simp add: f_def flush_metal_usage_def)
qed


text \<open>All that has been counted for a service and is not forgotten.\<close>

definition metered :: "string \<Rightarrow> proxy \<Rightarrow> 64 word" where
  "metered sid s = counted_for sid (mr_counters (px_router s)) + usage_of sid (px_backlog s) +
     usage_of sid (px_published s) + usage_of sid (px_dropped s)"

text \<open>The counter an advancing request adds to, and a lost race to create it.\<close>

fun counting :: "router \<Rightarrow> phase \<Rightarrow> string option" where
  "counting r (CountHit slug a) = map_option mc_service_id (hm_get (mr_counters r) slug)"
| "counting r (CountFound slug rec a) = map_option mc_service_id (hm_get (mr_counters r) slug)"
| "counting r (MakeCounter slug rec a) = Some (rt_service_id rec)"
| "counting r p = None"

fun overwrites :: "router \<Rightarrow> phase \<Rightarrow> bool" where
  "overwrites r (MakeCounter slug rec a) = (hm_get (mr_counters r) slug \<noteq> None)"
| "overwrites r p = False"

definition next_phase :: "move \<Rightarrow> proxy \<Rightarrow> phase" where
  "next_phase m s =
     (case m of Advances j \<Rightarrow> if j < length (px_requests s) then rq_phase (px_requests s ! j)
                             else Finished (Refused 0)
      | _ \<Rightarrow> Finished (Refused 0))"

lemma counted_insert:
  "hm_ok cs \<Longrightarrow> hm_get cs slug = Some c \<Longrightarrow>
   counted_for sid (hm_insert slug c' cs) + (if mc_service_id c = sid then mc_invocations c else 0) =
   counted_for sid cs + (if mc_service_id c' = sid then mc_invocations c' else 0)"
proof (induction cs)
  case (Cons x cs)
  obtain k v where [simp]: "x = (k, v)" by (cases x)
  show ?case
  proof (cases "k = slug")
    case True
    with Cons.prems show ?thesis by (simp add: hm_insert_def hm_get_def counted_Cons ac_simps)
  next
    case False
    with Cons have "counted_for sid (hm_insert slug c' cs) + (if mc_service_id c = sid then mc_invocations c else 0) =
      counted_for sid cs + (if mc_service_id c' = sid then mc_invocations c' else 0)"
      by (simp add: hm_get_def hm_ok_def)
    with False show ?thesis
      by (simp only: hm_insert_def AList.update.simps \<open>x = (k, v)\<close> fst_conv if_False counted_Cons add.assoc)
  qed
qed (simp add: hm_get_def)

lemma counted_new:
  "hm_get cs slug = None \<Longrightarrow>
   counted_for sid (hm_insert slug c cs) =
   counted_for sid cs + (if mc_service_id c = sid then mc_invocations c else 0)"
proof (induction cs)
  case Nil
  then show ?case by (simp add: counted_for_def hm_insert_def)
next
  case (Cons x cs)
  obtain k v where [simp]: "x = (k, v)" by (cases x)
  from Cons show ?case by (simp add: hm_insert_def hm_get_def counted_Cons add.assoc split: if_splits)
qed

lemma add_invocation_counts:
  assumes "hm_ok (mr_counters r)"
  shows "hm_ok (mr_counters (add_invocation slug r)) \<and>
    counted_for sid (mr_counters (add_invocation slug r)) = counted_for sid (mr_counters r) +
      (if map_option mc_service_id (hm_get (mr_counters r) slug) = Some sid then 1 else 0)"
proof (cases "hm_get (mr_counters r) slug")
  case (Some c)
  from counted_insert [OF assms this, of sid "c\<lparr>mc_invocations := mc_invocations c + 1\<rparr>"] Some assms
  show ?thesis by (auto simp: add_invocation_def hm_simps split: if_splits)
qed (use assms in \<open>simp add: add_invocation_def\<close>)

lemma advance_counts:
  assumes "advance env cfg now (rq, r, w) = (rq', r', w')" and "hm_ok (mr_counters r)"
  shows "hm_ok (mr_counters r') \<and> (\<not> overwrites r (rq_phase rq) \<longrightarrow>
    counted_for sid (mr_counters r') = counted_for sid (mr_counters r) +
      (if counting r (rq_phase rq) = Some sid then 1 else 0))"
proof (cases "rq_phase rq")
  case (MakeCounter slug rec a)
  with assms counted_new [of "mr_counters r" slug sid] show ?thesis
    by (auto simp: advance_def transition_defs hm_simps)
qed (use assms add_invocation_counts [OF assms(2)] in
    \<open>auto simp: advance_def transition_defs store_route_def maybe_publish_pulse_def publish_wake_def Let_def
    split: option.splits if_splits prod.splits sum.splits\<close>)

lemma logging_counts:
  assumes "hm_ok (mr_counters r)"
  shows "hm_ok (mr_counters (drop_ctx q (snd (logging now (rq, r))))) \<and>
    counted_for sid (mr_counters (drop_ctx q (snd (logging now (rq, r))))) = counted_for sid (mr_counters r)"
proof -
  have "mr_counters (drop_ctx q r') = mr_counters r'" for r'
    by (simp add: drop_ctx_def split: option.split)
  moreover have "hm_ok (mr_counters (snd (logging now (rq, r)))) \<and>
    counted_for sid (mr_counters (snd (logging now (rq, r)))) = counted_for sid (mr_counters r)"
  proof (cases "mr_counters (snd (logging now (rq, r))) = mr_counters r")
    case False
    then obtain slug c n where c: "hm_get (mr_counters r) slug = Some c" and
      l: "mr_counters (snd (logging now (rq, r))) = hm_insert slug (c\<lparr>mc_duration_ms := n\<rparr>) (mr_counters r)"
      by (auto simp: logging_def split: option.splits)
    from counted_insert [OF assms c, of sid "c\<lparr>mc_duration_ms := n\<rparr>"] assms show ?thesis
      by (simp add: l hm_simps split: if_splits)
  qed (use assms in simp)
  ultimately show ?thesis by simp
qed

lemma flush_ok: "hm_ok cs \<Longrightarrow> hm_ok (fl_counters (flush_metal_usage ok cs backlog))"
  by (simp add: flush_metal_usage_def reset_counters_def hm_ok_def Let_def split_beta comp_def)

lemma px_step_metered:
  assumes "hm_ok (mr_counters (px_router s))"
  shows "hm_ok (mr_counters (px_router (px_step env cfg m s))) \<and>
    (\<not> overwrites (px_router s) (next_phase m s) \<longrightarrow>
     metered sid (px_step env cfg m s) = metered sid s +
      (if counting (px_router s) (next_phase m s) = Some sid then 1 else 0))"
proof (cases m)
  case (Advances j)
  show ?thesis
  proof (cases "j < length (px_requests s)")
    case True
    obtain rq r w where a: "advance env cfg (px_now s) (px_requests s ! j, px_router s, px_world s) = (rq, r, w)"
      by (metis prod.exhaust)
    from advance_counts [OF a assms] a True Advances show ?thesis
      by (simp add: advance_request_def next_phase_def metered_def)
  qed (use Advances assms in \<open>simp add: advance_request_def next_phase_def metered_def\<close>)
next
  case (Completes j)
  with logging_counts [OF assms] assms show ?thesis
    by (simp add: complete_request_def next_phase_def metered_def Let_def split_beta)
next
  case (Flushes ok)
  with flush_conserves(1) [of sid ok "mr_counters (px_router s)" "px_backlog s"] flush_ok [OF assms] assms
  show ?thesis by (simp add: next_phase_def metered_def flush_usage_def Let_def algebra_simps)
qed (use assms in \<open>auto simp: next_phase_def metered_def set_routes_def set_domains_def
      fail_to_connect_def sweep_pulses_def Let_def split: option.splits prod.splits sum.splits\<close>)


section \<open>Certificates\<close>

text \<open>
  The states of the certificate cache: contexts built from what the API answered for a
  domain, in any order, and pruning. \<open>answers\<close> holds every domain, chain and key answered.
\<close>

inductive cert_history ::
  "(string \<Rightarrow> string \<Rightarrow> 'c option) \<Rightarrow> (string \<times> string \<times> string) set \<Rightarrow> (string, 'c) hmap \<Rightarrow> bool"
  for build answers where
  "cert_history build answers []"
| "cert_history build answers certs \<Longrightarrow> (domain, cert, key) \<in> answers \<Longrightarrow>
   cert_history build answers (insert_cert build domain cert key certs)"
| "cert_history build answers certs \<Longrightarrow>
   cert_history build answers (snd (prune_domains ds domains certs))"

lemma cert_history_ok:
  "cert_history build answers certs \<Longrightarrow>
   hm_ok certs \<and> (\<forall>(d, ctx) \<in> set certs. \<exists>cert key. (d, cert, key) \<in> answers \<and> build cert key = Some ctx)"
proof (induction rule: cert_history.induct)
  case (2 certs domain cert key)
  then show ?case
    by (auto simp: insert_cert_def hm_simps hm_set_insert split: option.split) (blast | fastforce)+
next
  case (3 certs ds domains)
  then show ?case by (auto simp: prune_domains_def Let_def hm_simps)
qed (simp add: hm_simps)

lemma custom_names_get_their_certificate:
  assumes "cert_history build answers certs" and "\<not> platform_name platform name"
    and "certificate_callback settable platform wildcard certs (Some name) = Some ctx"
  shows "\<exists>cert key. (name, cert, key) \<in> answers \<and> build cert key = Some ctx"
  using assms cert_history_ok [OF assms(1)]
  by (auto simp: certificate_callback_def Let_def dest!: hm_get_SomeD split: option.splits if_splits)

end
