(* ===== verification/ProxyExamples.thy ===== *)
theory ProxyExamples
  imports Traffic Samples
begin

text \<open>
  A small edge on which the properties of the proxy are exercised: one running Metal service,
  one request for it served from a cold cache, and what two first requests can do to each
  other.
\<close>

definition sample_config :: router_config where
  "sample_config = \<lparr>rc_platform = ''p'', rc_api_upstream = ''api'', rc_max_concurrent = 1,
     rc_upstream_timeout_secs = 30, rc_wake_timeout_ms = 100, rc_pulse_debounce_secs = 30,
     rc_domain_cache_max = 10\<rparr>"

definition edge_db :: db where
  "edge_db = sample_db 0 ''owner'' [sample_service 7 ''a'' ''running''\<lparr>sv_upstream := Some ''10''\<rparr>]"

definition edge_start :: proxy where
  "edge_start = init_proxy True 0 (world_of edge_db)"

definition edge_request :: "nat \<Rightarrow> move list" where
  "edge_request j = map (\<lambda>_. Advances j) [1..11]"

definition edge_served :: proxy where
  "edge_served = fold (px_step sample_env sample_config)
     (Arrives (Some ''a.p'') None # edge_request 0) edge_start"

lemma a_valid: "slug_valid ''a''"
  by (simp add: slug_valid_def starts_with_def is_ascii_alphanumeric_def is_ascii_lower_def code_of_def)

lemmas edge_defs = edge_start_def edge_db_def sample_config_def init_proxy_def init_router_def
  new_ctx_def advance_request_def advance_def arrive_def request_host_def clean_host_def
  trim_end_char_def starts_with_def ends_with_def first_label_def goto_phase_def a_valid
  transition_defs maybe_publish_pulse_def lookup_route_def sql_lookup_route_def
  opt_row_def route_record_of_def store_route_def hm_get_def hm_insert_def external_def
  andthen_def query_def sample_defs

lemma edge_start_reachable: "px_reachable sample_env sample_config edge_start"
  unfolding edge_start_def by (rule px_start)

lemma edge_served_reachable: "px_reachable sample_env sample_config edge_served"
  unfolding edge_served_def by (rule px_moves [OF edge_start_reachable])

lemma edge_served_requests:
  "map (\<lambda>rq. (rq_phase rq, rq_slug rq, rq_permit rq)) (px_requests edge_served) =
     [(Finished (Proxied ''10'' (Some 30)), Some ''a'', Some 0)]"
  by (simp add: edge_served_def edge_request_def upto.simps edge_defs Let_def)

theorem requests_reach_their_service_witness:
  "\<exists>rq. rq_slug rq = Some ''a'' \<and> (''10'' = rc_api_upstream sample_config \<or>
    (\<exists>slug. rq_slug rq = Some slug \<and> slug_valid slug \<and>
      names_slug sample_config (px_bound edge_served) rq slug \<and> (slug, ''10'') \<in> px_announced edge_served))"
proof -
  from edge_served_requests obtain rq where "rq \<in> set (px_requests edge_served)"
    "rq_phase rq = Finished (Proxied ''10'' (Some 30))" "rq_slug rq = Some ''a''" by auto
  with requests_reach_their_service [OF edge_served_reachable] show ?thesis by blast
qed


text \<open>A second request after the debounce interval: two pulses, thirty seconds apart.\<close>

definition edge_twice :: proxy where
  "edge_twice = fold (px_step sample_env sample_config)
     [Elapses 30000, Arrives (Some ''a.p'') None, Advances 1, Advances 1, Advances 1] edge_served"

lemma edge_twice_reachable: "px_reachable sample_env sample_config edge_twice"
  unfolding edge_twice_def by (rule px_moves [OF edge_served_reachable])


theorem requests_end_witness:
  "length [(sample_env, 0 :: nat, init_router True, world_of edge_db),
           (sample_env, 5, init_router True, world_of edge_db)] +
     work sample_config (Pulsing ''a'') \<le> 18 + rc_wake_timeout_ms sample_config div 50"
proof -
  obtain rq where rq: "turns sample_config [(sample_env, 0, init_router True, world_of edge_db),
      (sample_env, 5, init_router True, world_of edge_db)] (new_ctx (Some ''a.p'') None) = Some rq"
    and "rq_phase rq = Pulsing ''a''"
    by (simp add: edge_defs Let_def)
  with requests_end [OF rq] show ?thesis by simp
qed

theorem reconciling_refines_table_witness:
  "hm_get (mr_routes (px_router (px_step sample_env sample_config Reconciles edge_start))) =
     route_table (w_db (px_world edge_start)) \<and> route_table (w_db (px_world edge_start)) ''a'' = Some ''10''"
proof
  show "hm_get (mr_routes (px_router (px_step sample_env sample_config Reconciles edge_start))) =
     route_table (w_db (px_world edge_start))"
    by (rule reconciling_refines_table [OF edge_start_reachable])
      (simp_all add: edge_start_def edge_db_def init_proxy_def sample_defs)
  show "route_table (w_db (px_world edge_start)) ''a'' = Some ''10''"
    by (simp add: route_table_def edge_start_def edge_db_def init_proxy_def sample_defs)
qed


section \<open>Two first requests\<close>

text \<open>
  Both read the map of semaphores before either writes it: each makes a semaphore of its own,
  and with a limit of one request two are served at once.
\<close>

definition edge_raced :: proxy where
  "edge_raced = fold (px_step sample_env sample_config)
     (Arrives (Some ''a.p'') None # Arrives (Some ''a.p'') None #
      concat (map (\<lambda>_. [Advances 0, Advances 1]) [1..11])) edge_start"

lemma first_requests_exceed_the_limit:
  "rc_max_concurrent sample_config = 1 \<and>
   map (\<lambda>rq. (rq_phase rq, rq_slug rq, rq_permit rq)) (px_requests edge_raced) =
     [(Finished (Proxied ''10'' (Some 30)), Some ''a'', Some 0),
      (Finished (Proxied ''10'' (Some 30)), Some ''a'', Some 1)]"
  by (simp add: edge_raced_def upto.simps edge_defs Let_def)

text \<open>Both also create the counter of the service; the second insert forgets the first count.\<close>

lemma first_requests_lose_a_count:
  "map (mc_invocations \<circ> snd) (mr_counters (px_router edge_raced)) = [1]"
  by (simp add: edge_raced_def upto.simps edge_defs Let_def)

end
