(* ===== verification/Async.thy ===== *)
theory Async
  imports Prelude
begin

text \<open>
  The futures of the daemon. A task is a tree of suspension points: \<open>Await g k e\<close> is a
  future stopped before a call or a lock; when it is polled the state becomes \<open>e s\<close> and
  the future becomes \<open>k s\<close>, in one step that no other task sees half done. \<open>g\<close> is what
  happens if the future is dropped there instead (the \<open>Drop\<close> code of the values it holds),
  as a timeout or an abort drops it. Tasks are run alone (\<open>run_task\<close>) or interleaved, one
  suspension point at a time, with every other task of the process (\<open>pool_step\<close>).

  The locale \<open>resources\<close> reasons about a resource that the shared state hands out: a task
  owns a set of items, every step accounted for the items it takes and gives back, and what
  the tasks of a pool own stays disjoint whatever the interleaving.
\<close>

named_theorems run_task_simps
named_theorems accounts_intros

section \<open>Tasks\<close>

text \<open>
  An \<open>anyhow\<close> error, printed with its chain of contexts, or a panic.
\<close>

datatype task_error = Err string | Panicked

datatype ('s, 'a) task =
    Done "task_error + 'a"
  | Await "'s \<Rightarrow> 's" "'s \<Rightarrow> ('s, 'a) task" "'s \<Rightarrow> 's"

definition finish :: "'a \<Rightarrow> ('s, 'a) task" where
  "finish x = Done (Inr x)"

definition bail :: "string \<Rightarrow> ('s, 'a) task" where
  "bail m = Done (Inl (Err m))"

primrec and_then :: "('s, 'a) task \<Rightarrow> ('a \<Rightarrow> ('s, 'b) task) \<Rightarrow> ('s, 'b) task" where
  "and_then (Done r) f = (case r of Inl e \<Rightarrow> Done (Inl e) | Inr x \<Rightarrow> f x)"
| "and_then (Await g k e) f = Await g (\<lambda>s. and_then (k s) f) e"

text \<open>The result of an inner future as a value; a panic is none, and unwinds further.\<close>

primrec attempt :: "('s, 'a) task \<Rightarrow> ('s, string + 'a) task" where
  "attempt (Done r) =
     (case r of Inl (Err m) \<Rightarrow> finish (Inl m) | Inl e \<Rightarrow> Done (Inl e)
      | Inr x \<Rightarrow> finish (Inr x))"
| "attempt (Await g k e) = Await g (\<lambda>s. attempt (k s)) e"

text \<open>\<open>anyhow\<close>'s \<open>context\<close>, as the alternate format prints it.\<close>

primrec with_context :: "string \<Rightarrow> ('s, 'a) task \<Rightarrow> ('s, 'a) task" where
  "with_context c (Done r) =
     Done (case r of Inl (Err m) \<Rightarrow> Inl (Err (c @ '': '' @ m)) | _ \<Rightarrow> r)"
| "with_context c (Await g k e) = Await g (\<lambda>s. with_context c (k s)) e"

text \<open>A value with a \<open>Drop\<close> that lives while \<open>t\<close> runs, and is dropped if it panics.\<close>

primrec holding :: "('s \<Rightarrow> 's) \<Rightarrow> ('s, 'a) task \<Rightarrow> ('s, 'a) task" where
  "holding d (Done r) = (if r = Inl Panicked then Await d (\<lambda>_. Done r) d else Done r)"
| "holding d (Await g k e) = Await (\<lambda>s. d (g s)) (\<lambda>s. holding d (k s)) e"

text \<open>
  \<open>tokio::time::timeout\<close>: at each suspension point the deadline may have passed, and the
  future is dropped there; \<open>None\<close> is the \<open>Elapsed\<close> error.
\<close>

primrec timeout :: "('s \<Rightarrow> bool) \<Rightarrow> ('s, 'a) task \<Rightarrow> ('s, (string + 'a) option) task" where
  "timeout expired (Done r) =
     (case r of Inl (Err m) \<Rightarrow> finish (Some (Inl m)) | Inl Panicked \<Rightarrow> Done (Inl Panicked)
      | Inr x \<Rightarrow> finish (Some (Inr x)))"
| "timeout expired (Await g k e) =
     Await g (\<lambda>s. if expired s then finish None else timeout expired (k s))
       (\<lambda>s. if expired s then g s else e s)"

definition atomically :: "('s \<Rightarrow> (task_error + 'a) \<times> 's) \<Rightarrow> ('s, 'a) task" where
  "atomically f = Await (\<lambda>s. s) (\<lambda>s. Done (fst (f s))) (\<lambda>s. snd (f s))"

fun each :: "('r \<Rightarrow> ('s, unit) task) \<Rightarrow> 'r list \<Rightarrow> ('s, unit) task" where
  "each f [] = finish ()"
| "each f (r # rs) = and_then (f r) (\<lambda>_. each f rs)"

section \<open>Running\<close>

primrec run_task :: "('s, 'a) task \<Rightarrow> 's \<Rightarrow> (task_error + 'a) \<times> 's" where
  "run_task (Done r) = (\<lambda>s. (r, s))"
| "run_task (Await g k e) = (\<lambda>s. run_task (k s) (e s))"

text \<open>One poll of one task of the pool; a task that is done is reaped.\<close>

inductive pool_step :: "'s \<times> ('s, unit) task list \<Rightarrow> 's \<times> ('s, unit) task list \<Rightarrow> bool" where
  poll: "pool_step (s, ts @ Await g k e # us) (e s, ts @ k s # us)"
| reap: "pool_step (s, ts @ Done r # us) (s, ts @ us)"
| abort: "pool_step (s, ts @ Await g k e # us) (g s, ts @ us)"

section \<open>Lemmas on running\<close>

lemma run_done [simp, run_task_simps]: "run_task (finish x) s = (Inr x, s)"
  "run_task (bail m) s = (Inl (Err m), s)"
  by (simp_all add: finish_def bail_def)

lemma run_and_then [run_task_simps]:
  "run_task (and_then t f) s =
     (case run_task t s of (Inl e, s') \<Rightarrow> (Inl e, s') | (Inr x, s') \<Rightarrow> run_task (f x) s')"
  by (induction t arbitrary: s) (auto split: sum.split)

lemma run_attempt [run_task_simps]:
  "run_task (attempt t) s =
     (case run_task t s of
        (Inl (Err m), s') \<Rightarrow> (Inr (Inl m), s')
      | (Inl e, s') \<Rightarrow> (Inl e, s')
      | (Inr x, s') \<Rightarrow> (Inr (Inr x), s'))"
  by (induction t arbitrary: s) (auto simp: finish_def split: sum.split task_error.split)

lemma run_with_context [run_task_simps]:
  "run_task (with_context c t) s =
     (case run_task t s of
        (Inl (Err m), s') \<Rightarrow> (Inl (Err (c @ '': '' @ m)), s')
      | (r, s') \<Rightarrow> (r, s'))"
  by (induction t arbitrary: s) (auto split: sum.split task_error.split)

lemma run_holding [run_task_simps]:
  "run_task (holding d t) s =
     (case run_task t s of (r, s') \<Rightarrow> (r, if r = Inl Panicked then d s' else s'))"
  by (induction t arbitrary: s) auto

lemma run_atomically [simp, run_task_simps]: "run_task (atomically f) s = f s"
  by (simp add: atomically_def)

lemma run_each [run_task_simps]:
  "run_task (each f []) s = (Inr (), s)"
  "run_task (each f (r # rs)) s =
     (case run_task (f r) s of (Inl e, s') \<Rightarrow> (Inl e, s') | (_, s') \<Rightarrow> run_task (each f rs) s')"
  by (simp_all add: run_and_then split: prod.split sum.split)

section \<open>Preserving a property of the state\<close>

primrec steady :: "('s \<Rightarrow> bool) \<Rightarrow> ('s, 'a) task \<Rightarrow> bool" where
  "steady I (Done r) = True"
| "steady I (Await g k e) = (\<forall>s. I s \<longrightarrow> I (g s) \<and> I (e s) \<and> steady I (k s))"

lemma steady_run: "steady I t \<Longrightarrow> I s \<Longrightarrow> I (snd (run_task t s))"
  by (induction t arbitrary: s) auto

lemma steady_finish [simp]: "steady I (finish x)" "steady I (bail m)"
  by (simp_all add: finish_def bail_def)

lemma steady_and_then: "steady I t \<Longrightarrow> (\<And>x. steady I (f x)) \<Longrightarrow> steady I (and_then t f)"
  by (induction t) (auto split: sum.split)

lemma steady_attempt: "steady I t \<Longrightarrow> steady I (attempt t)"
  by (induction t) (auto split: sum.split task_error.split)

lemma steady_with_context: "steady I t \<Longrightarrow> steady I (with_context c t)"
  by (induction t) auto

lemma steady_holding: "steady I t \<Longrightarrow> (\<And>s. I s \<Longrightarrow> I (d s)) \<Longrightarrow> steady I (holding d t)"
  by (induction t) auto

lemma steady_timeout: "steady I t \<Longrightarrow> steady I (timeout b t)"
  by (induction t) (auto split: sum.split task_error.split)

lemma steady_atomically: "(\<And>s. I s \<Longrightarrow> I (snd (f s))) \<Longrightarrow> steady I (atomically f)"
  by (simp add: atomically_def)

lemma steady_each: "(\<And>r. steady I (f r)) \<Longrightarrow> steady I (each f rs)"
  by (induction rs) (auto intro: steady_and_then)

section \<open>Leaving a part of the state alone\<close>

text \<open>No step of the task, and no drop of it, changes what \<open>v\<close> shows of the state.\<close>

primrec untouched :: "('s \<Rightarrow> 'v) \<Rightarrow> ('s, 'a) task \<Rightarrow> bool" where
  "untouched v (Done r) = True"
| "untouched v (Await g k e) =
     (\<forall>s. v (g s) = v s \<and> v (e s) = v s \<and> untouched v (k s))"

named_theorems untouched_intros

lemma untouched_run: "untouched v t \<Longrightarrow> v (snd (run_task t s)) = v s"
  by (induction t arbitrary: s) auto

lemma untouched_finish [simp, untouched_intros]: "untouched v (finish x)" "untouched v (bail m)"
  by (simp_all add: finish_def bail_def)

lemma untouched_and_then [untouched_intros]:
  "untouched v t \<Longrightarrow> (\<And>x. untouched v (f x)) \<Longrightarrow> untouched v (and_then t f)"
  by (induction t) (auto split: sum.split)

lemma untouched_attempt [untouched_intros]: "untouched v t \<Longrightarrow> untouched v (attempt t)"
  by (induction t) (auto split: sum.split task_error.split)

lemma untouched_with_context [untouched_intros]:
  "untouched v t \<Longrightarrow> untouched v (with_context c t)"
  by (induction t) auto

lemma untouched_timeout [untouched_intros]: "untouched v t \<Longrightarrow> untouched v (timeout b t)"
  by (induction t) (auto split: sum.split task_error.split)

lemma untouched_atomically:
  "(\<And>s. v (snd (f s)) = v s) \<Longrightarrow> untouched v (atomically f)"
  by (simp add: atomically_def)

lemma untouched_each [untouched_intros]:
  "(\<And>r. untouched v (f r)) \<Longrightarrow> untouched v (each f rs)"
  by (induction rs) (auto intro: untouched_and_then)

lemma untouched_coarser: "untouched v t \<Longrightarrow> untouched (\<lambda>s. h (v s)) t"
  by (induction t) auto

section \<open>Accounting for a shared resource\<close>

text \<open>
  \<open>accounted I out Q t O\<close>: a task that owns the items \<open>O\<close>, out of the items \<open>out s\<close> that
  are handed out at the moment, keeps the invariant \<open>I\<close> and takes nothing that another task
  owns, at every step and wherever it is dropped; \<open>Q\<close> relates its result to what it owns
  when it ends.
\<close>

definition handover ::
    "('s \<Rightarrow> bool) \<Rightarrow> ('s \<Rightarrow> 'r set) \<Rightarrow> 'r set \<Rightarrow> ('s \<Rightarrow> 's) \<Rightarrow> ('s \<Rightarrow> 's) \<Rightarrow> ('s \<Rightarrow> 'r set \<Rightarrow> bool) \<Rightarrow> bool" where
  "handover I out own g e P =
     (\<forall>s. I s \<longrightarrow> own \<subseteq> out s \<longrightarrow>
        I (g s) \<and> out s - own \<subseteq> out (g s) \<and> I (e s) \<and>
        (\<exists>own'. own' \<subseteq> out (e s) \<and> out s - own \<subseteq> out (e s) - own' \<and> P s own'))"

primrec accounted ::
    "('s \<Rightarrow> bool) \<Rightarrow> ('s \<Rightarrow> 'r set) \<Rightarrow> (task_error + 'a \<Rightarrow> 'r set \<Rightarrow> bool)
     \<Rightarrow> ('s, 'a) task \<Rightarrow> 'r set \<Rightarrow> bool" where
  "accounted I out Q (Done r) = (\<lambda>own. Q r own)"
| "accounted I out Q (Await g k e) =
     (\<lambda>own. handover I out own g e (\<lambda>s. accounted I out Q (k s)))"

lemma handover_mono:
  "handover I out own g e P \<Longrightarrow> (\<And>s x. P s x \<Longrightarrow> R s x) \<Longrightarrow> handover I out own g e R"
  unfolding handover_def by meson

lemma handoverI:
  assumes "\<And>s. I s \<Longrightarrow> own \<subseteq> out s \<Longrightarrow> I (g s) \<and> out s - own \<subseteq> out (g s)"
    "\<And>s. I s \<Longrightarrow> own \<subseteq> out s \<Longrightarrow>
       I (e s) \<and> own' s \<subseteq> out (e s) \<and> out s - own \<subseteq> out (e s) - own' s \<and> P s (own' s)"
  shows "handover I out own g e P"
  using assms unfolding handover_def by meson

lemma accounts_mono:
  assumes "accounted I out Q t own" "\<And>r x. Q r x \<Longrightarrow> R r x"
  shows "accounted I out R t own"
  using assms(1) by (induction t arbitrary: own) (auto intro: assms(2) elim!: handover_mono)

lemma accounts_finish: "Q (Inr x) own \<Longrightarrow> accounted I out Q (finish x) own"
  "Q (Inl (Err m)) own \<Longrightarrow> accounted I out Q (bail m) own"
  by (simp_all add: finish_def bail_def)

lemma accounts_and_then:
  assumes "accounted I out
      (\<lambda>r x. case r of Inl e \<Rightarrow> Q (Inl e) x | Inr y \<Rightarrow> accounted I out Q (f y) x) t own"
  shows "accounted I out Q (and_then t f) own"
  using assms by (induction t arbitrary: own) (auto split: sum.splits elim!: handover_mono)

lemma accounts_attempt:
  assumes "accounted I out
      (\<lambda>r x. case r of Inl (Err m) \<Rightarrow> Q (Inr (Inl m)) x | Inl e \<Rightarrow> Q (Inl e) x
                    | Inr y \<Rightarrow> Q (Inr (Inr y)) x) t own"
  shows "accounted I out Q (attempt t) own"
  using assms
proof (induction t arbitrary: own)
  case (Await g k e)
  then show ?case by (auto elim!: handover_mono)
qed (simp add: finish_def split: sum.splits task_error.splits)

lemma accounts_with_context:
  assumes "accounted I out
      (\<lambda>r x. case r of Inl (Err m) \<Rightarrow> Q (Inl (Err (c @ '': '' @ m))) x | _ \<Rightarrow> Q r x) t own"
  shows "accounted I out Q (with_context c t) own"
  using assms
proof (induction t arbitrary: own)
  case (Await g k e)
  then show ?case by (auto elim!: handover_mono)
qed (simp split: sum.splits task_error.splits)

text \<open>A timeout may end the task wherever a drop may.\<close>

lemma accounts_timeout:
  assumes "accounted I out
      (\<lambda>r x. case r of Inl (Err m) \<Rightarrow> Q (Inr (Some (Inl m))) x | Inl e \<Rightarrow> Q (Inl e) x
                    | Inr y \<Rightarrow> Q (Inr (Some (Inr y))) x) t own" "Q (Inr None) {}"
  shows "accounted I out Q (timeout b t) own"
  using assms(1)
proof (induction t arbitrary: own)
  case (Await g k e)
  have "I (if b s then g s else e s) \<and>
      (\<exists>own'. own' \<subseteq> out (if b s then g s else e s) \<and>
         out s - own \<subseteq> out (if b s then g s else e s) - own' \<and>
         accounted I out Q (if b s then finish None else timeout b (k s)) own') \<and>
      I (g s) \<and> out s - own \<subseteq> out (g s)"
    if s: "I s" "own \<subseteq> out s" for s
  proof -
    have h: "I (g s)" "out s - own \<subseteq> out (g s)" "I (e s)"
      "\<exists>own'. own' \<subseteq> out (e s) \<and> out s - own \<subseteq> out (e s) - own' \<and>
         accounted I out (\<lambda>r x. case r of Inl (Err m) \<Rightarrow> Q (Inr (Some (Inl m))) x
           | Inl e \<Rightarrow> Q (Inl e) x | Inr y \<Rightarrow> Q (Inr (Some (Inr y))) x) (k s) own'"
      using Await.prems s by (simp_all add: handover_def)
    show ?thesis
    proof (cases "b s")
      case True
      then show ?thesis using h assms(2) by (auto intro!: exI [of _ "{}"] simp: accounts_finish)
    next
      case False
      then show ?thesis using h Await.IH [of "k s"] by auto
    qed
  qed
  then show ?case by (simp add: handover_def)
qed (auto simp: accounts_finish split: sum.splits task_error.splits)

lemma accounts_each:
  assumes "\<And>r. accounted I out (\<lambda>res x. x = {}) (f r) {}" "\<And>e. Q e {}"
  shows "accounted I out Q (each f rs) {}"
proof (induction rs)
  case Nil
  show ?case by (simp add: accounts_finish assms(2))
next
  case (Cons r rs)
  have "accounted I out (\<lambda>res x. case res of Inl e \<Rightarrow> Q (Inl e) x
      | Inr y \<Rightarrow> accounted I out Q (each f rs) x) (f r) {}"
    by (rule accounts_mono [OF assms(1)]) (auto simp: assms(2) Cons.IH split: sum.split)
  then show ?case by (simp add: accounts_and_then)
qed

text \<open>A step that touches neither the invariant nor the items handed out.\<close>

lemma accounts_untouched:
  assumes "untouched v t" "\<And>s s'. v s = v s' \<Longrightarrow> I s \<Longrightarrow> I s'"
    "\<And>s s'. v s = v s' \<Longrightarrow> out s = out s'" "\<And>r. Q r own"
  shows "accounted I out Q t own"
  using assms(1)
proof (induction t)
  case (Await g k e)
  have "I (g s) \<and> out (g s) = out s \<and> I (e s) \<and> out (e s) = out s \<and> accounted I out Q (k s) own"
    if "I s" for s
  proof -
    have v: "v (g s) = v s" "v (e s) = v s" using Await.prems by simp_all
    have "I (g s)" "I (e s)" using assms(2) v that by metis+
    moreover have "out (g s) = out s" "out (e s) = out s" using assms(3) v by metis+
    ultimately show ?thesis using Await by simp
  qed
  then show ?case by (auto intro!: handoverI [where own' = "\<lambda>_. own"])
qed (simp add: assms(4))

section \<open>Pools of tasks\<close>

fun apart :: "'r set list \<Rightarrow> bool" where
  "apart [] = True"
| "apart (x # xs) = ((\<forall>y\<in>set xs. x \<inter> y = {}) \<and> apart xs)"

lemma apart_append:
  "apart (xs @ ys) = (apart xs \<and> apart ys \<and> (\<forall>x\<in>set xs. \<forall>y\<in>set ys. x \<inter> y = {}))"
  by (induction xs) auto

lemma apart_replace:
  assumes "apart (xs @ x # ys)" "\<forall>y\<in>set (xs @ ys). y \<subseteq> rest" "z \<inter> rest = {}"
  shows "apart (xs @ z # ys)"
  using assms by (auto simp: apart_append)

text \<open>Each task of the pool accounted for its own items, and no item has two owners.\<close>

definition settled ::
    "('s \<Rightarrow> bool) \<Rightarrow> ('s \<Rightarrow> 'r set) \<Rightarrow> 's \<Rightarrow> ('s, unit) task list \<Rightarrow> bool" where
  "settled I out s ts =
     (I s \<and> (\<exists>owns. list_all2 (accounted I out (\<lambda>_ _. True)) ts owns \<and> apart owns \<and>
        (\<forall>x\<in>set owns. x \<subseteq> out s)))"

text \<open>
  The contract of a resource: acquiring hands out an item nobody has, releasing takes back
  an item that is out, and nothing else about the other items changes.
\<close>

locale resources =
  fixes I :: "'s \<Rightarrow> bool"
    and out :: "'s \<Rightarrow> 'r set"
    and acquire :: "'s \<Rightarrow> (task_error + 'r) \<times> 's"
    and release :: "'r \<Rightarrow> 's \<Rightarrow> 's"
  assumes acquire_ok: "I s \<Longrightarrow> acquire s = (Inr x, s') \<Longrightarrow>
      I s' \<and> x \<notin> out s \<and> out s' = insert x (out s)"
    and acquire_err: "acquire s = (Inl e, s') \<Longrightarrow> s' = s"
    and release_ok: "I s \<Longrightarrow> x \<in> out s \<Longrightarrow> I (release x s) \<and> out (release x s) = out s - {x}"
begin

lemma accounts_acquire:
  assumes "\<And>s x s'. I s \<Longrightarrow> acquire s = (Inr x, s') \<Longrightarrow> Q (Inr x) {x}" "\<And>e. Q (Inl e) {}"
  shows "accounted I out Q (atomically acquire) {}"
proof -
  have "I (snd (acquire s)) \<and> (\<exists>own'. own' \<subseteq> out (snd (acquire s)) \<and>
      out s \<subseteq> out (snd (acquire s)) - own' \<and> Q (fst (acquire s)) own')" if "I s" for s
  proof (cases "acquire s")
    case (Pair r s')
    show ?thesis
    proof (cases r)
      case (Inl e)
      then show ?thesis using Pair acquire_err [of s e s'] that assms(2) by auto
    next
      case (Inr x)
      then have "I s' \<and> x \<notin> out s \<and> out s' = insert x (out s)"
        using Pair acquire_ok that by blast
      moreover have "Q (Inr x) {x}" using Pair Inr assms(1) that by blast
      ultimately show ?thesis using Pair Inr by (auto intro!: exI [of _ "{x}"])
    qed
  qed
  then show ?thesis by (simp add: atomically_def handover_def)
qed

lemma accounts_release:
  assumes "x \<in> own" "Q (Inr ()) (own - {x})"
  shows "accounted I out Q (atomically (\<lambda>s. (Inr (), release x s))) own"
proof -
  have "I (release x s) \<and> own - {x} \<subseteq> out (release x s)
      \<and> out s - own \<subseteq> out (release x s) - (own - {x})" if "I s" "own \<subseteq> out s" for s
    using release_ok [of s x] that assms(1) by auto
  then show ?thesis
    using assms(2) unfolding atomically_def by (auto intro!: handoverI [where own' = "\<lambda>_. own - {x}"])
qed

text \<open>A guard that gives the item back when the future is dropped.\<close>

lemma accounts_holding:
  assumes "untouched v t" "\<And>s s'. v s = v s' \<Longrightarrow> I s \<Longrightarrow> I s'"
    "\<And>s s'. v s = v s' \<Longrightarrow> out s = out s'" "\<And>r. r \<noteq> Inl Panicked \<Longrightarrow> Q r {x}"
    "Q (Inl Panicked) {}"
  shows "accounted I out Q (holding (release x) t) {x}"
  using assms(1)
proof (induction t)
  case (Await g k e)
  have "I (release x (g s)) \<and> out s - {x} \<subseteq> out (release x (g s)) \<and> I (e s) \<and> out (e s) = out s
      \<and> accounted I out Q (holding (release x) (k s)) {x}"
    if "I s" "x \<in> out s" for s
  proof -
    have v: "v (g s) = v s" "v (e s) = v s" using Await.prems by simp_all
    have *: "I (g s)" "I (e s)" using assms(2) v that by metis+
    have o: "out (g s) = out s" "out (e s) = out s" using assms(3) v by metis+
    have "I (release x (g s)) \<and> out (release x (g s)) = out (g s) - {x}"
      using release_ok * o that by simp
    then show ?thesis using * o Await by simp
  qed
  then show ?case by (auto intro!: handoverI [where own' = "\<lambda>_. {x}"])
next
  case (Done r)
  show ?case
    using assms(4) [of r] assms(5) release_ok
    by (auto intro!: handoverI [where own' = "\<lambda>_. {}"])
qed

lemma settled_spawn:
  assumes "settled I out s ts" "accounted I out (\<lambda>_ _. True) t {}"
  shows "settled I out s (ts @ [t])"
proof -
  obtain owns where "I s" "list_all2 (accounted I out (\<lambda>_ _. True)) ts owns" "apart owns"
    "\<forall>x\<in>set owns. x \<subseteq> out s" using assms(1) by (auto simp: settled_def)
  then have "list_all2 (accounted I out (\<lambda>_ _. True)) (ts @ [t]) (owns @ [{}])"
    "apart (owns @ [{}])" "\<forall>x\<in>set (owns @ [{}]). x \<subseteq> out s" "I s"
    using assms(2) by (auto simp: apart_append intro: list_all2_appendI)
  then show ?thesis unfolding settled_def by blast
qed

lemma settled_step:
  assumes "pool_step (s, ts) (s', ts')" "settled I out s ts"
  shows "settled I out s' ts'"
proof -
  obtain owns where o: "I s" "list_all2 (accounted I out (\<lambda>_ _. True)) ts owns" "apart owns"
    "\<forall>x\<in>set owns. x \<subseteq> out s" using assms(2) by (auto simp: settled_def)
  show ?thesis using assms(1)
  proof (cases rule: pool_step.cases)
    case (poll as g k e bs)
    then obtain xs x ys where xs: "owns = xs @ x # ys"
      "list_all2 (accounted I out (\<lambda>_ _. True)) as xs"
      "list_all2 (accounted I out (\<lambda>_ _. True)) bs ys"
      "accounted I out (\<lambda>_ _. True) (Await g k e) x"
      using o(2) by (auto simp: list_all2_append1 list_all2_Cons1)
    then obtain z where z: "I (e s)" "z \<subseteq> out (e s)" "out s - x \<subseteq> out (e s) - z"
      "accounted I out (\<lambda>_ _. True) (k s) z"
      using o by (auto simp: handover_def)
    have rest: "\<forall>y\<in>set (xs @ ys). y \<subseteq> out s - x" using o xs by (auto simp: apart_append)
    then have "apart (xs @ z # ys)" using apart_replace [of xs x ys "out s - x" z] o xs z by blast
    moreover have "list_all2 (accounted I out (\<lambda>_ _. True)) (as @ k s # bs) (xs @ z # ys)"
      using xs z by (auto intro: list_all2_appendI)
    moreover have "\<forall>y\<in>set (xs @ z # ys). y \<subseteq> out (e s)" using rest z by auto
    ultimately show ?thesis using poll z unfolding settled_def by blast
  next
    case (reap as r bs)
    then obtain xs x ys where xs: "owns = xs @ x # ys"
      "list_all2 (accounted I out (\<lambda>_ _. True)) as xs"
      "list_all2 (accounted I out (\<lambda>_ _. True)) bs ys"
      using o(2) by (auto simp: list_all2_append1 list_all2_Cons1)
    then have "list_all2 (accounted I out (\<lambda>_ _. True)) (as @ bs) (xs @ ys)" "apart (xs @ ys)"
      "\<forall>y\<in>set (xs @ ys). y \<subseteq> out s"
      using o by (auto simp: apart_append intro: list_all2_appendI)
    then show ?thesis using reap o(1) unfolding settled_def by blast
  next
    case (abort as g k e bs)
    then obtain xs x ys where xs: "owns = xs @ x # ys"
      "list_all2 (accounted I out (\<lambda>_ _. True)) as xs"
      "list_all2 (accounted I out (\<lambda>_ _. True)) bs ys"
      "accounted I out (\<lambda>_ _. True) (Await g k e) x"
      using o(2) by (auto simp: list_all2_append1 list_all2_Cons1)
    then have g: "I (g s)" "out s - x \<subseteq> out (g s)" using o by (auto simp: handover_def)
    have "list_all2 (accounted I out (\<lambda>_ _. True)) (as @ bs) (xs @ ys)" "apart (xs @ ys)"
      using xs o by (auto simp: apart_append intro: list_all2_appendI)
    moreover have "\<forall>y\<in>set (xs @ ys). y \<subseteq> out s - x" using o xs by (auto simp: apart_append)
    then have "\<forall>y\<in>set (xs @ ys). y \<subseteq> out (g s)" using g by blast
    ultimately show ?thesis using abort g(1) unfolding settled_def by blast
  qed
qed

end

end
