(* ===== verification/Node.thy ===== *)
theory Node
  imports Async Json "HOL-Library.AList"
begin

text \<open>
  What a daemon acts on: the node it runs on (devices, processes, cgroups, files), its own
  memory (the TAP index set, the registries of running VMs and Wasm services, the eBPF
  handles), the \<open>services\<close> table with the columns only the daemon uses, and the log of what
  it published and ran. Every call that leaves the process is one step of a task and may
  fail with the text \<open>d_fault\<close> has for it; calls are counted over the whole process. A
  \<open>HashMap\<close> is an association list, whose order stands for the order of its iteration.
\<close>

section \<open>Configuration and handles\<close>

record provision_config =
  pc_fc_bin :: string
  pc_kernel_path :: string
  pc_sock_dir :: string
  pc_bridge :: string
  pc_rootfs_dev :: string
  pc_use_jailer :: bool
  pc_jailer_bin :: string
  pc_jailer_uid :: nat
  pc_jailer_gid :: nat
  pc_chroot_base :: string
  pc_node_id :: string
  pc_artifact_dir :: string
  pc_base_image_key :: string
  pc_base_image_sha256 :: "string option"

definition build_config :: "(string \<rightharpoonup> string) \<Rightarrow> provision_config" where
  "build_config vars =
     \<lparr> pc_fc_bin = env_or vars ''FC_BIN'' ''/usr/local/bin/firecracker'',
       pc_kernel_path = env_or vars ''FC_KERNEL_PATH'' ''/opt/firecracker/vmlinux'',
       pc_sock_dir = env_or vars ''FC_SOCK_DIR'' ''/run/firecracker'',
       pc_bridge = env_or vars ''BRIDGE'' ''br0'',
       pc_rootfs_dev = env_or vars ''ROOTFS_DEVICE'' ''8:0'',
       pc_use_jailer = (env_or vars ''USE_JAILER'' ''false'' = ''true''),
       pc_jailer_bin = env_or vars ''JAILER_BIN'' ''/usr/local/bin/jailer'',
       pc_jailer_uid = or_default 10000 (parse_unsigned (2 ^ 32) (env_or vars ''JAILER_UID'' ''10000'')),
       pc_jailer_gid = or_default 10000 (parse_unsigned (2 ^ 32) (env_or vars ''JAILER_GID'' ''10000'')),
       pc_chroot_base = env_or vars ''JAILER_CHROOT_BASE'' ''/srv/jailer'',
       pc_node_id = env_or vars ''NODE_ID'' ''node-a'',
       pc_artifact_dir = env_or vars ''ARTIFACT_DIR'' ''/var/lib/liquid-metal/artifacts'',
       pc_base_image_key = env_or vars ''BASE_IMAGE_KEY'' ''templates/base-alpine-v1.ext4'',
       pc_base_image_sha256 = vars ''BASE_IMAGE_SHA256'' \<rparr>"

record vm_handle =
  vh_tap_name :: string
  vh_fc_pid :: nat
  vh_vm_id :: string
  vh_use_jailer :: bool
  vh_chroot_base :: string

text \<open>The accept loop of a Wasm service is known by the port it listens on.\<close>

record liquid_handle =
  lh_workspace_id :: string
  lh_invocations :: nat
  lh_port :: nat

text \<open>
  A \<open>WasmService\<close>, which the accept loop holds: the compiled module, the name of the app and
  its variables. The loops that run are known by their ports.
\<close>

record wasm_service =
  wv_module :: string
  wv_app_name :: string
  wv_env_vars :: env_map

text \<open>A row of \<open>services\<close> with the columns of V3, V14, V24 and V35.\<close>

record node_row = service_row +
  nd_node_id :: "string option"
  nd_tap_name :: "string option"
  nd_fc_pid :: "int option"
  nd_vm_id :: "string option"
  nd_attempts :: int
  nd_last_request :: "int option"

section \<open>The state and what it depends on\<close>

datatype node_effect =
    CorePub string event
  | JetPub string event
  | Ran "string list"
  | FcPut string string json
  | Unmounted string

record node =
  n_services :: "node_row list"
  n_workspaces :: "workspace_row list"
  n_taps :: "nat set"
  n_registry :: "(string \<times> vm_handle) list"
  n_liquid :: "(string \<times> liquid_handle) list"
  n_filters :: "string list"
  n_devices :: "string set"
  n_bridged :: "string list"
  n_procs :: "nat set"
  n_signalled_self :: bool
  n_cgroups :: "string list"
  n_files :: "string \<rightharpoonup> string"
  n_shims :: "(nat \<times> wasm_service) list"
  n_template :: "string option"
  n_calls :: nat
  n_log :: "node_effect list"

text \<open>
  The parameters of a run: which calls fail and how; the clock; the ids, process ids and
  ports the outside hands out; the exit statuses of commands and what they print; the order
  in which a map is iterated and a directory is read; the object store; SHA-256,
  Unicode lower-casing and white space; JSON text; the Wasm compiler; which filters the
  kernel still has; whether an HTTP probe answers and whether a deadline has passed; the
  environment and the configuration read from it.
\<close>

record denv =
  d_fault :: "nat \<Rightarrow> string option"
  d_now :: int
  d_uuid :: "nat \<Rightarrow> string"
  d_parse_uuid :: "string \<Rightarrow> uuid option"
  d_uuid_error :: "string \<Rightarrow> string"
  d_uuid_str :: "uuid \<Rightarrow> string"
  d_pid :: "nat set \<Rightarrow> nat"
  d_port :: "nat set \<Rightarrow> nat"
  d_status :: "nat \<Rightarrow> bool"
  d_stderr :: "nat \<Rightarrow> string"
  d_entries :: "env_map \<Rightarrow> (string \<times> string) list"
  d_listing :: "string \<Rightarrow> (string \<rightharpoonup> string) \<Rightarrow> string list"
  d_objects :: "string \<rightharpoonup> string"
  d_sha256 :: "string \<Rightarrow> string"
  d_lower :: "string \<Rightarrow> string"
  d_show_json :: "json \<Rightarrow> string"
  d_parse_json :: "string \<Rightarrow> json option"
  d_compile :: "string \<Rightarrow> string + string"
  d_serialize :: "string \<Rightarrow> string option"
  d_deserialize :: "string \<Rightarrow> string option"
  d_trim :: "string \<Rightarrow> string"
  d_has_filter :: "nat \<Rightarrow> bool"
  d_answers :: "nat \<Rightarrow> bool"
  d_expired :: "string \<Rightarrow> nat \<Rightarrow> bool"
  d_vars :: "string \<rightharpoonup> string"
  d_features :: features
  d_cfg :: provision_config

type_synonym 'a node_task = "(node, 'a) task"

section \<open>Steps\<close>

definition bump :: "node \<Rightarrow> node" where
  "bump s = s\<lparr>n_calls := Suc (n_calls s)\<rparr>"

text \<open>A call out of the process.\<close>

definition sys_call :: "denv \<Rightarrow> (node \<Rightarrow> (task_error + 'a) \<times> node) \<Rightarrow> 'a node_task" where
  "sys_call env f =
     atomically (\<lambda>s. case d_fault env (n_calls s) of
         Some m \<Rightarrow> (Inl (Err m), bump s)
       | None \<Rightarrow> f (bump s))"

text \<open>A synchronous piece of code, or one under a lock: it cannot fail.\<close>

definition locked :: "(node \<Rightarrow> 'a \<times> node) \<Rightarrow> 'a node_task" where
  "locked f = atomically (\<lambda>s. case f s of (x, s') \<Rightarrow> (Inr x, s'))"

definition modify :: "(node \<Rightarrow> node) \<Rightarrow> unit node_task" where
  "modify f = locked (\<lambda>s. ((), f s))"

text \<open>\<open>let _ = ...\<close>, or an error that is only logged.\<close>

definition ignoring :: "'a node_task \<Rightarrow> unit node_task" where
  "ignoring t = and_then (attempt t) (\<lambda>_. finish ())"

definition log_effect :: "node_effect \<Rightarrow> node \<Rightarrow> node" where
  "log_effect x s = s\<lparr>n_log := n_log s @ [x]\<rparr>"

definition publish :: "denv \<Rightarrow> string \<Rightarrow> event \<Rightarrow> unit node_task" where
  "publish env subject ev =
     sys_call env (\<lambda>s. (Inr (), log_effect (CorePub subject ev) s))"

definition jet_publish :: "denv \<Rightarrow> string \<Rightarrow> event \<Rightarrow> unit node_task" where
  "jet_publish env subject ev =
     sys_call env (\<lambda>s. (Inr (), log_effect (JetPub subject ev) s))"

definition publish_progress :: "denv \<Rightarrow> string \<Rightarrow> deploy_step \<Rightarrow> string \<Rightarrow> unit node_task" where
  "publish_progress env sid step msg =
     ignoring (publish env (subject_deploy_progress @ ''.'' @ sid)
       (EvDeployProgress \<lparr>dp_service_id = sid, dp_step = step, dp_message = msg\<rparr>))"

text \<open>
  Running a command: what \<open>ip link add\<close> and \<open>ip link del\<close> do when they succeed is part of
  the model; of the other commands only the argument list is.
\<close>

definition command_effect :: "string list \<Rightarrow> node \<Rightarrow> node" where
  "command_effect argv s =
     (if take 3 argv = [''ip'', ''link'', ''add''] \<and> length argv > 3
      then s\<lparr>n_devices := insert (argv ! 3) (n_devices s)\<rparr>
      else if take 3 argv = [''ip'', ''link'', ''del''] \<and> length argv > 3
      then s\<lparr>n_devices := n_devices s - {argv ! 3}, n_bridged := removeAll (argv ! 3) (n_bridged s)\<rparr>
      else s)"

definition command :: "denv \<Rightarrow> string list \<Rightarrow> bool node_task" where
  "command env argv =
     sys_call env (\<lambda>s.
       (Inr (d_status env (n_calls s)),
        log_effect (Ran argv) (if d_status env (n_calls s) then command_effect argv s else s)))"

text \<open>
  A fatal signal. Process 0 is not a process: \<open>kill\<close> then signals the whole process group
  of the caller, the daemon first.
\<close>

definition kill_process :: "nat \<Rightarrow> node \<Rightarrow> node" where
  "kill_process pid s =
     (if pid = 0 then s\<lparr>n_signalled_self := True\<rparr> else s\<lparr>n_procs := n_procs s - {pid}\<rparr>)"

text \<open>\<open>tokio::time::timeout\<close> with the error its caller makes of an expiry.\<close>

definition within :: "denv \<Rightarrow> string \<Rightarrow> string \<Rightarrow> 'a node_task \<Rightarrow> 'a node_task" where
  "within env deadline msg t =
     and_then (timeout (\<lambda>s. d_expired env deadline (n_calls s)) t)
       (\<lambda>r. case r of None \<Rightarrow> bail msg | Some (Inl m) \<Rightarrow> bail m | Some (Inr x) \<Rightarrow> finish x)"

section \<open>Paths and files\<close>

definition newline :: string where
  "newline = [CHR 0x0A]"

definition arrow :: string where
  "arrow = [CHR 0xE2, CHR 0x86, CHR 0x92]"

definition rsplit_once :: "char \<Rightarrow> string \<Rightarrow> (string \<times> string) option" where
  "rsplit_once c s =
     (if c \<in> set s
      then let b = rev (takeWhile (\<lambda>d. d \<noteq> c) (rev s)) in Some (take (length s - length b - 1) s, b)
      else None)"

text \<open>\<open>Path::with_extension\<close> on a path whose last component is a plain file name.\<close>

definition with_extension :: "string \<Rightarrow> string \<Rightarrow> string" where
  "with_extension ext path =
     (let (dir, name) = (case rsplit_once (CHR ''/'') path of
                           None \<Rightarrow> ([], path) | Some (d, n) \<Rightarrow> (d @ ''/'', n)) in
      dir @ (case rsplit_once (CHR ''.'') name of
               None \<Rightarrow> name
             | Some (stem, _) \<Rightarrow> if stem = [] then name else stem) @ ''.'' @ ext)"

definition path_join :: "string \<Rightarrow> string \<Rightarrow> string" where
  "path_join a b =
     (if starts_with ''/'' b then b
      else if a = [] \<or> ends_with ''/'' a then a @ b
      else a @ ''/'' @ b)"

definition in_dir :: "string \<Rightarrow> string \<Rightarrow> bool" where
  "in_dir dir path = (path = dir \<or> starts_with (dir @ ''/'') path)"

definition read_file :: "denv \<Rightarrow> string \<Rightarrow> string node_task" where
  "read_file env path =
     sys_call env (\<lambda>s. case n_files s path of
         None \<Rightarrow> (Inl (Err ''No such file or directory (os error 2)''), s)
       | Some c \<Rightarrow> (Inr c, s))"

definition write_file :: "denv \<Rightarrow> string \<Rightarrow> string \<Rightarrow> unit node_task" where
  "write_file env path content =
     sys_call env (\<lambda>s. (Inr (), s\<lparr>n_files := (n_files s)(path \<mapsto> content)\<rparr>))"

definition copy_file :: "denv \<Rightarrow> string \<Rightarrow> string \<Rightarrow> unit node_task" where
  "copy_file env src dst =
     sys_call env (\<lambda>s. case n_files s src of
         None \<Rightarrow> (Inl (Err ''No such file or directory (os error 2)''), s)
       | Some c \<Rightarrow> (Inr (), s\<lparr>n_files := (n_files s)(dst \<mapsto> c)\<rparr>))"

definition rename_file :: "denv \<Rightarrow> string \<Rightarrow> string \<Rightarrow> unit node_task" where
  "rename_file env src dst =
     sys_call env (\<lambda>s. case n_files s src of
         None \<Rightarrow> (Inl (Err ''No such file or directory (os error 2)''), s)
       | Some c \<Rightarrow> (Inr (), s\<lparr>n_files := (n_files s)(dst \<mapsto> c, src := None)\<rparr>))"

definition remove_file :: "denv \<Rightarrow> string \<Rightarrow> unit node_task" where
  "remove_file env path =
     sys_call env (\<lambda>s. (Inr (), s\<lparr>n_files := (n_files s)(path := None)\<rparr>))"

definition remove_dir_all :: "denv \<Rightarrow> string \<Rightarrow> unit node_task" where
  "remove_dir_all env dir =
     sys_call env (\<lambda>s. (Inr (), s\<lparr>n_files := (\<lambda>p. if in_dir dir p then None else n_files s p)\<rparr>))"

text \<open>Creating or removing an empty directory changes no file.\<close>

definition directory_call :: "denv \<Rightarrow> unit node_task" where
  "directory_call env = sys_call env (\<lambda>s. (Inr (), s))"

definition file_exists :: "denv \<Rightarrow> string \<Rightarrow> bool node_task" where
  "file_exists env path = locked (\<lambda>s. (n_files s path \<noteq> None, s))"

section \<open>The services table\<close>

text \<open>\<open>UPDATE services ... RETURNING\<close>: the status check refuses the whole statement.\<close>

definition status_violation :: string where
  "status_violation =
     ''new row for relation \"services\" violates check constraint \"services_status_check\"''"

definition update_services ::
    "(node_row \<Rightarrow> bool) \<Rightarrow> (node_row \<Rightarrow> node_row) \<Rightarrow> node \<Rightarrow> (task_error + node_row list) \<times> node" where
  "update_services p f s =
     (let rows = map f (filter p (n_services s)) in
      if list_all (\<lambda>r. service_status_check (sv_status r)) rows
      then (Inr rows, s\<lparr>n_services := update_where p f (n_services s)\<rparr>)
      else (Inl (Err status_violation), s))"

definition db_update ::
    "denv \<Rightarrow> (node_row \<Rightarrow> bool) \<Rightarrow> (node_row \<Rightarrow> node_row) \<Rightarrow> node_row list node_task" where
  "db_update env p f = sys_call env (update_services p f)"

definition db_select :: "denv \<Rightarrow> (node_row \<Rightarrow> bool) \<Rightarrow> node_row list node_task" where
  "db_select env p = sys_call env (\<lambda>s. (Inr (filter p (n_services s)), s))"

definition db_conn :: "denv \<Rightarrow> unit node_task" where
  "db_conn env = sys_call env (\<lambda>s. (Inr (), s))"

definition node_live :: "node_row \<Rightarrow> bool" where
  "node_live r = (sv_deleted_at r = None)"

definition on_node :: "denv \<Rightarrow> node_row \<Rightarrow> bool" where
  "on_node env r = (nd_node_id r = Some (pc_node_id (d_cfg env)))"

definition row_id :: "denv \<Rightarrow> node_row \<Rightarrow> string" where
  "row_id env r = d_uuid_str env (sv_id r)"

definition parsed_uuid :: "denv \<Rightarrow> string \<Rightarrow> uuid node_task" where
  "parsed_uuid env s = (case d_parse_uuid env s of None \<Rightarrow> bail (d_uuid_error env s) | Some u \<Rightarrow> finish u)"

definition fresh_uuid :: "denv \<Rightarrow> string node_task" where
  "fresh_uuid env = locked (\<lambda>s. (d_uuid env (n_calls s), bump s))"

section \<open>The TAP index set\<close>

text \<open>The scan of \<open>allocate_tap_index\<close> over the indices in ascending order.\<close>

fun first_gap :: "nat \<Rightarrow> nat list \<Rightarrow> nat" where
  "first_gap idx [] = idx"
| "first_gap idx (used # us) =
     (if idx < used then idx else first_gap ((used + 1) mod 2 ^ 32) us)"

definition allocate_tap_index :: "node \<Rightarrow> (task_error + nat) \<times> node" where
  "allocate_tap_index s =
     (let idx = first_gap 0 (sorted_list_of_set (n_taps s)) in
      if idx \<le> MAX_TAP_INDEX then (Inr idx, s\<lparr>n_taps := insert idx (n_taps s)\<rparr>)
      else (Inl (Err (''node at capacity: all '' @ show_nat (MAX_TAP_INDEX + 1)
                 @ '' TAP indices in use '' @ em_dash @ '' cannot provision more Metal VMs'')), s))"

definition parse_tap :: "string \<Rightarrow> nat option" where
  "parse_tap name = Option.bind (strip_prefix ''tap'' name) (parse_unsigned (2 ^ 32))"

definition free_tap :: "nat \<Rightarrow> node \<Rightarrow> node" where
  "free_tap i s = s\<lparr>n_taps := n_taps s - {i}\<rparr>"

definition release_tap_index :: "string \<Rightarrow> node \<Rightarrow> node" where
  "release_tap_index name s = (case parse_tap name of None \<Rightarrow> s | Some i \<Rightarrow> free_tap i s)"

text \<open>The rows \<open>init_tap_indices\<close> selects, and the set it makes of their names.\<close>

definition holds_tap :: "denv \<Rightarrow> string list \<Rightarrow> node_row \<Rightarrow> bool" where
  "holds_tap env statuses r =
     (on_node env r \<and> sv_status r \<in> set statuses \<and> sv_engine r = ''metal'' \<and> node_live r
      \<and> nd_tap_name r \<noteq> None)"

definition tap_indices_of :: "node_row list \<Rightarrow> nat set" where
  "tap_indices_of rows =
     set (List.map_filter (\<lambda>r. Option.bind (nd_tap_name r) parse_tap) rows)"

definition init_tap_indices :: "denv \<Rightarrow> unit node_task" where
  "init_tap_indices env =
     ignoring (and_then (db_conn env) (\<lambda>_.
       and_then (db_select env (holds_tap env [''running'', ''provisioning''])) (\<lambda>rows.
         modify (\<lambda>s. s\<lparr>n_taps := tap_indices_of rows\<rparr>))))"

text \<open>\<open>TapGuard\<close>: dropped while armed, it gives the index back.\<close>

definition with_tap_guard :: "string \<Rightarrow> 'a node_task \<Rightarrow> 'a node_task" where
  "with_tap_guard tap t = holding (release_tap_index tap) t"

text \<open>The end of the guard's scope, still armed.\<close>

definition drop_tap_guard :: "string \<Rightarrow> unit node_task" where
  "drop_tap_guard tap = with_tap_guard tap (modify (release_tap_index tap))"

section \<open>Registries\<close>

definition register_vm :: "string \<Rightarrow> vm_handle \<Rightarrow> node \<Rightarrow> node" where
  "register_vm sid h s = s\<lparr>n_registry := AList.update sid h (n_registry s)\<rparr>"

definition take_vm :: "string \<Rightarrow> node \<Rightarrow> vm_handle option \<times> node" where
  "take_vm sid s = (map_of (n_registry s) sid, s\<lparr>n_registry := AList.delete sid (n_registry s)\<rparr>)"

text \<open>Dropping a \<open>LiquidHandle\<close> aborts its accept loop.\<close>

definition drop_liquid :: "liquid_handle option \<Rightarrow> node \<Rightarrow> node" where
  "drop_liquid h s = (case h of None \<Rightarrow> s | Some h \<Rightarrow> s\<lparr>n_shims := AList.delete (lh_port h) (n_shims s)\<rparr>)"

definition register_liquid :: "string \<Rightarrow> liquid_handle \<Rightarrow> node \<Rightarrow> node" where
  "register_liquid sid h s =
     drop_liquid (map_of (n_liquid s) sid) (s\<lparr>n_liquid := AList.update sid h (n_liquid s)\<rparr>)"

definition remove_liquid :: "string \<Rightarrow> node \<Rightarrow> node" where
  "remove_liquid sid s =
     drop_liquid (map_of (n_liquid s) sid) (s\<lparr>n_liquid := AList.delete sid (n_liquid s)\<rparr>)"

end
