(* ===== verification/Taps.thy ===== *)
theory Taps
  imports Node
begin

text \<open>
  Who has which TAP index. An index of the set is either held by a registered VM or in
  flight: owned by the one task that allocated it or took it out of the registry. The
  locale of \<open>Async\<close> is interpreted on the index set, so that any interleaving of tasks that
  account for their indices keeps every index with one owner.
\<close>

section \<open>The smallest free index\<close>

lemma first_gap_least:
  assumes "sorted xs" "distinct xs" "\<forall>x\<in>set xs. i \<le> x \<and> x < 2 ^ 32 - 1"
  shows "first_gap i xs = (LEAST j. i \<le> j \<and> j \<notin> set xs)"
  using assms
proof (induction i xs rule: first_gap.induct)
  case (1 idx)
  have "(LEAST j. idx \<le> j) = idx" by (rule Least_equality) auto
  then show ?case by simp
next
  case (2 idx used us)
  show ?case
  proof (cases "idx < used")
    case True
    then have "idx \<notin> set (used # us)" using "2.prems" by auto
    then show ?thesis using True by (auto intro!: Least_equality [symmetric])
  next
    case False
    then have eq: "used = idx" using "2.prems" by auto
    have m: "(used + 1) mod 2 ^ 32 = Suc idx" using "2.prems" eq by simp
    have above: "\<forall>x\<in>set us. Suc idx \<le> x \<and> x < 2 ^ 32 - 1"
      using "2.prems" eq by (auto simp: Suc_le_eq order_le_less)
    then have "first_gap (Suc idx) us = (LEAST j. Suc idx \<le> j \<and> j \<notin> set us)"
      using "2.IH" [OF False] "2.prems" m by simp
    also have "\<dots> = (LEAST j. idx \<le> j \<and> j \<notin> set (used # us))"
      using eq by (intro arg_cong [of _ _ Least] ext) (auto simp: Suc_le_eq order_le_less)
    finally show ?thesis using False m by simp
  qed
qed

lemma first_gap_free:
  assumes "finite T" "\<forall>i\<in>T. i < 2 ^ 32 - 1"
  shows "first_gap 0 (sorted_list_of_set T) = (LEAST j. j \<notin> T)"
  using first_gap_least [of "sorted_list_of_set T" 0] assms by simp

section \<open>The invariant\<close>

definition tap_of :: "vm_handle \<Rightarrow> nat option" where
  "tap_of h = parse_tap (vh_tap_name h)"

definition vm_taps :: "(string \<times> vm_handle) list \<Rightarrow> nat option list" where
  "vm_taps reg = map (\<lambda>p. tap_of (snd p)) reg"

definition held_taps :: "node \<Rightarrow> nat set" where
  "held_taps s = {i. Some i \<in> set (vm_taps (n_registry s))}"

definition in_flight :: "node \<Rightarrow> nat set" where
  "in_flight s = n_taps s - held_taps s"

definition taps_ok :: "node \<Rightarrow> bool" where
  "taps_ok s =
     (finite (n_taps s) \<and> (\<forall>i\<in>n_taps s. i \<le> MAX_TAP_INDEX)
      \<and> distinct (map fst (n_registry s))
      \<and> distinct (vm_taps (n_registry s))
      \<and> set (vm_taps (n_registry s)) \<subseteq> Some ` n_taps s)"

definition tap_view :: "node \<Rightarrow> nat set \<times> (string \<times> vm_handle) list" where
  "tap_view s = (n_taps s, n_registry s)"

lemma taps_ok_view: "tap_view s = tap_view s' \<Longrightarrow> taps_ok s = taps_ok s'"
  by (simp add: tap_view_def taps_ok_def)

lemma in_flight_view: "tap_view s = tap_view s' \<Longrightarrow> in_flight s = in_flight s'"
  by (simp add: tap_view_def in_flight_def held_taps_def)

lemma parse_tap_name: "i < 2 ^ 32 \<Longrightarrow> parse_tap (tap_name i) = Some i"
  by (simp add: parse_tap_def tap_name_def strip_prefix_def starts_with_def parse_unsigned_show)

lemma MAX_TAP_small: "MAX_TAP_INDEX < 2 ^ 32 - 1"
  by (simp add: MAX_TAP_INDEX_def)

lemma allocate_least:
  assumes "taps_ok s" "allocate_tap_index s = (Inr i, s')"
  shows "i = (LEAST j. j \<notin> n_taps s)" "i \<notin> n_taps s" "i \<le> MAX_TAP_INDEX"
    "s' = s\<lparr>n_taps := insert i (n_taps s)\<rparr>"
proof -
  have fin: "finite (n_taps s)" "\<forall>i\<in>n_taps s. i < 2 ^ 32 - 1"
    using assms(1) MAX_TAP_small by (auto simp: taps_ok_def)
  then have "first_gap 0 (sorted_list_of_set (n_taps s)) = (LEAST j. j \<notin> n_taps s)"
    by (rule first_gap_free)
  then show i: "i = (LEAST j. j \<notin> n_taps s)" and "i \<le> MAX_TAP_INDEX"
    "s' = s\<lparr>n_taps := insert i (n_taps s)\<rparr>"
    using assms(2) by (auto simp: allocate_tap_index_def Let_def split: if_splits)
  have "\<exists>j. j \<notin> n_taps s" using fin(1) by (rule ex_new_if_finite [OF infinite_UNIV_nat])
  then show "i \<notin> n_taps s" unfolding i by (rule LeastI_ex)
qed

interpretation tap: resources taps_ok in_flight allocate_tap_index free_tap
proof
  fix s s' and x :: nat
  assume ok: "taps_ok s" "allocate_tap_index s = (Inr x, s')"
  show "taps_ok s' \<and> x \<notin> in_flight s \<and> in_flight s' = insert x (in_flight s)"
    using allocate_least [OF ok] ok(1)
    by (auto simp: taps_ok_def in_flight_def held_taps_def)
next
  fix s s' :: node and e
  assume "allocate_tap_index s = (Inl e, s')"
  then show "s' = s" by (auto simp: allocate_tap_index_def Let_def split: if_splits)
next
  fix s and x :: nat
  assume ok: "taps_ok s" "x \<in> in_flight s"
  have "set (vm_taps (n_registry s)) \<subseteq> Some ` (n_taps s - {x})"
  proof
    fix t assume t: "t \<in> set (vm_taps (n_registry s))"
    then obtain i where i: "t = Some i" "i \<in> n_taps s" using ok(1) by (auto simp: taps_ok_def)
    then have "i \<in> held_taps s" using t by (auto simp: held_taps_def)
    then show "t \<in> Some ` (n_taps s - {x})" using i ok(2) by (auto simp: in_flight_def)
  qed
  then show "taps_ok (free_tap x s) \<and> in_flight (free_tap x s) = in_flight s - {x}"
    using ok(1) by (auto simp: taps_ok_def in_flight_def held_taps_def free_tap_def)
qed

section \<open>What the daemon's steps own\<close>

lemma tap_untouched:
  assumes "untouched tap_view t" "\<And>r. Q r own"
  shows "accounted taps_ok in_flight Q t own"
  using assms(1)
  by (rule accounts_untouched) (use taps_ok_view in_flight_view assms(2) in blast)+

lemma release_free: "i < 2 ^ 32 \<Longrightarrow> release_tap_index (tap_name i) = free_tap i"
  by (rule ext) (simp add: release_tap_index_def parse_tap_name)

lemma release_of: "tap_of h = Some i \<Longrightarrow> release_tap_index (vh_tap_name h) = free_tap i"
  by (rule ext) (simp add: release_tap_index_def tap_of_def)

lemma tap_guarded:
  assumes "untouched tap_view t" "i < 2 ^ 32" "\<And>r. r \<noteq> Inl Panicked \<Longrightarrow> Q r {i}"
    "Q (Inl Panicked) {}"
  shows "accounted taps_ok in_flight Q (with_tap_guard (tap_name i) t) {i}"
  unfolding with_tap_guard_def release_free [OF assms(2)]
  using assms(1)
  by (rule tap.accounts_holding) (use taps_ok_view in_flight_view assms(3,4) in blast)+

lemma AList_update_split:
  assumes "distinct (map fst xs)" "map_of xs k = Some v"
  shows "\<exists>as bs. xs = as @ (k, v) # bs \<and> AList.update k w xs = as @ (k, w) # bs
    \<and> k \<notin> fst ` set as \<and> k \<notin> fst ` set bs"
  using assms
proof (induction xs)
  case (Cons x xs)
  obtain k' v' where x: "x = (k', v')" by fastforce
  show ?case
  proof (cases "k' = k")
    case True
    then show ?thesis using Cons.prems x by (intro exI [of _ "[]"] exI [of _ xs]) auto
  next
    case False
    then obtain as bs where "xs = as @ (k, v) # bs" "AList.update k w xs = as @ (k, w) # bs"
      "k \<notin> fst ` set as" "k \<notin> fst ` set bs"
      using Cons x by auto
    then show ?thesis using False x by (intro exI [of _ "x # as"] exI [of _ bs]) auto
  qed
qed simp

lemma AList_update_new: "map_of xs k = None \<Longrightarrow> AList.update k w xs = xs @ [(k, w)]"
  by (induction xs) (auto split: if_splits)

lemma AList_delete_split:
  assumes "distinct (map fst xs)" "map_of xs k = Some v"
  shows "\<exists>as bs. xs = as @ (k, v) # bs \<and> AList.delete k xs = as @ bs"
  using assms
proof (induction xs)
  case (Cons x xs)
  obtain k' v' where x: "x = (k', v')" by fastforce
  show ?case
  proof (cases "k' = k")
    case True
    have "AList.delete k xs = xs" using Cons.prems x True by (auto simp: delete_conv')
    then show ?thesis using Cons.prems x True by (intro exI [of _ "[]"] exI [of _ xs]) auto
  next
    case False
    then obtain as bs where "xs = as @ (k, v) # bs" "AList.delete k xs = as @ bs"
      using Cons x by auto
    then show ?thesis using False x by (intro exI [of _ "x # as"] exI [of _ bs]) auto
  qed
qed simp

lemma AList_delete_none: "map_of xs k = None \<Longrightarrow> AList.delete k xs = xs"
  by (induction xs) (auto split: if_splits)

text \<open>Registering a VM hands its index to the registry; a handle it replaces is in flight.\<close>

lemma register_vm_taps:
  assumes "taps_ok s" "i \<in> in_flight s" "tap_of h = Some i"
  shows "taps_ok (register_vm sid h s)"
    "in_flight (register_vm sid h s) =
       (in_flight s - {i}) \<union> {j. \<exists>old. map_of (n_registry s) sid = Some old \<and> tap_of old = Some j}"
proof -
  let ?s = "register_vm sid h s"
  have "taps_ok ?s \<and> in_flight ?s = (in_flight s - {i}) \<union>
      {j. \<exists>old. map_of (n_registry s) sid = Some old \<and> tap_of old = Some j}"
  proof (cases "map_of (n_registry s) sid")
    case None
    then have r: "n_registry ?s = n_registry s @ [(sid, h)]" "n_taps ?s = n_taps s"
      "sid \<notin> fst ` set (n_registry s)"
      by (auto simp: register_vm_def AList_update_new map_of_eq_None_iff)
    then show ?thesis
      using assms None by (auto simp: taps_ok_def in_flight_def held_taps_def vm_taps_def)
  next
    case (Some old)
    then obtain xs ys where x: "n_registry s = xs @ (sid, old) # ys"
      "n_registry ?s = xs @ (sid, h) # ys" "sid \<notin> fst ` set xs" "sid \<notin> fst ` set ys"
      using AList_update_split [of "n_registry s" sid old h] assms(1)
      by (auto simp: taps_ok_def register_vm_def)
    obtain j where j: "tap_of old = Some j" "j \<in> n_taps s"
      using assms(1) x(1) by (auto simp: taps_ok_def vm_taps_def)
    have d: "Some j \<notin> set (vm_taps xs)" "Some j \<notin> set (vm_taps ys)" "distinct (vm_taps xs)"
      "distinct (vm_taps ys)" "set (vm_taps xs) \<inter> set (vm_taps ys) = {}"
      "set (vm_taps xs) \<union> set (vm_taps ys) \<subseteq> Some ` n_taps s"
      using assms(1) x(1) j by (auto simp: taps_ok_def vm_taps_def)
    have i: "i \<in> n_taps s" "i \<noteq> j" "Some i \<notin> set (vm_taps xs)" "Some i \<notin> set (vm_taps ys)"
      using assms(2) x(1) j by (auto simp: in_flight_def held_taps_def vm_taps_def)
    have v: "vm_taps (n_registry ?s) = vm_taps xs @ Some i # vm_taps ys"
      "vm_taps (n_registry s) = vm_taps xs @ Some j # vm_taps ys" "n_taps ?s = n_taps s"
      using x j assms(3) by (simp_all add: vm_taps_def register_vm_def)
    have "taps_ok ?s"
      using assms(1) x d i v by (auto simp: taps_ok_def)
    moreover have "in_flight ?s = (in_flight s - {i}) \<union> {j}"
      using d i j v by (auto simp: in_flight_def held_taps_def)
    ultimately show ?thesis using Some j by simp
  qed
  then show "taps_ok ?s" "in_flight ?s =
      (in_flight s - {i}) \<union> {j. \<exists>old. map_of (n_registry s) sid = Some old \<and> tap_of old = Some j}"
    by blast+
qed

lemma register_vm_accounts:
  assumes "tap_of h = Some i" "Q (Inr ()) {}"
  shows "accounted taps_ok in_flight Q (modify (register_vm sid h)) {i}"
proof -
  have "taps_ok (register_vm sid h s) \<and>
      (\<exists>own'. own' \<subseteq> in_flight (register_vm sid h s)
         \<and> in_flight s - {i} \<subseteq> in_flight (register_vm sid h s) - own')"
    if "taps_ok s" "i \<in> in_flight s" for s
    using register_vm_taps [OF that assms(1)] by (intro conjI exI [of _ "{}"]) auto
  then show ?thesis
    using assms(2) unfolding modify_def locked_def atomically_def
    by (auto simp: handover_def)
qed

text \<open>Taking a VM out of the registry makes its index the task's.\<close>

lemma take_vm_taps:
  assumes "taps_ok s" "take_vm sid s = (r, s')"
  shows "taps_ok s'"
    "r = None \<Longrightarrow> s' = s"
    "r = Some h \<Longrightarrow> \<exists>i. tap_of h = Some i \<and> i \<notin> in_flight s \<and> in_flight s' = insert i (in_flight s)"
proof -
  have s': "r = map_of (n_registry s) sid" "n_taps s' = n_taps s"
    "n_registry s' = AList.delete sid (n_registry s)"
    using assms(2) by (auto simp: take_vm_def)
  show none: "r = None \<Longrightarrow> s' = s"
    using assms(2) by (auto simp: take_vm_def AList_delete_none)
  have some: "taps_ok s' \<and> (\<exists>i. tap_of h = Some i \<and> i \<notin> in_flight s
      \<and> in_flight s' = insert i (in_flight s))" if h: "r = Some h" for h
  proof -
    obtain xs ys where x: "n_registry s = xs @ (sid, h) # ys" "n_registry s' = xs @ ys"
      using AList_delete_split [of "n_registry s" sid h] assms(1) s' h
      by (auto simp: taps_ok_def)
    obtain i where i: "tap_of h = Some i" "i \<in> n_taps s"
      using assms(1) x(1) by (auto simp: taps_ok_def vm_taps_def)
    have d: "Some i \<notin> set (vm_taps xs)" "Some i \<notin> set (vm_taps ys)"
      using assms(1) x(1) i by (auto simp: taps_ok_def vm_taps_def)
    have v: "vm_taps (n_registry s') = vm_taps xs @ vm_taps ys"
      "vm_taps (n_registry s) = vm_taps xs @ Some i # vm_taps ys"
      using x i by (simp_all add: vm_taps_def)
    have "taps_ok s'" using assms(1) x v s'(2) by (auto simp: taps_ok_def)
    moreover have "i \<notin> in_flight s" "in_flight s' = insert i (in_flight s)"
      using v d i s'(2) by (auto simp: in_flight_def held_taps_def)
    ultimately show ?thesis using i by blast
  qed
  show "taps_ok s'" using some none assms(1) by (cases r) auto
  show "r = Some h \<Longrightarrow> \<exists>i. tap_of h = Some i \<and> i \<notin> in_flight s
      \<and> in_flight s' = insert i (in_flight s)"
    using some by blast
qed

lemma take_vm_accounts:
  assumes "Q (Inr None) {}" "\<And>h i. tap_of h = Some i \<Longrightarrow> Q (Inr (Some h)) {i}"
  shows "accounted taps_ok in_flight Q (locked (take_vm sid)) {}"
proof -
  have "taps_ok (snd (take_vm sid s)) \<and>
      (\<exists>own'. own' \<subseteq> in_flight (snd (take_vm sid s))
         \<and> in_flight s \<subseteq> in_flight (snd (take_vm sid s)) - own'
         \<and> Q (Inr (fst (take_vm sid s))) own')" if "taps_ok s" for s
  proof (cases "take_vm sid s")
    case (Pair r s')
    note t = take_vm_taps [OF that Pair]
    show ?thesis
    proof (cases r)
      case None
      then show ?thesis using t(1,2) Pair assms(1) by (auto intro!: exI [of _ "{}"])
    next
      case (Some h)
      then obtain i where "tap_of h = Some i" "i \<notin> in_flight s"
        "in_flight s' = insert i (in_flight s)" using t(3) by blast
      then show ?thesis using t(1) Pair Some assms(2) by (auto intro!: exI [of _ "{i}"])
    qed
  qed
  then show ?thesis
    by (simp add: locked_def atomically_def handover_def case_prod_unfold)
qed

lemma release_accounts:
  assumes "tap_of h = Some i" "i \<in> own" "Q (Inr ()) (own - {i})"
  shows "accounted taps_ok in_flight Q (modify (release_tap_index (vh_tap_name h))) own"
  unfolding modify_def locked_def release_of [OF assms(1)]
  using tap.accounts_release [of i own Q] assms(2,3) by simp

text \<open>A guarded registration: dropped before it, the index is given back.\<close>

lemma guarded_register_accounts:
  assumes "tap_of h = Some i" "i < 2 ^ 32" "Q (Inr ()) {}"
  shows "accounted taps_ok in_flight Q (with_tap_guard (tap_name i) (modify (register_vm sid h))) {i}"
proof -
  have "taps_ok (register_vm sid h s) \<and> in_flight s - {i} \<subseteq> in_flight (register_vm sid h s)
      \<and> taps_ok (free_tap i s) \<and> in_flight s - {i} \<subseteq> in_flight (free_tap i s)"
    if "taps_ok s" "i \<in> in_flight s" for s
    using register_vm_taps [OF that assms(1)] tap.release_ok [OF that] by auto
  then show ?thesis
    using assms(3) unfolding with_tap_guard_def release_free [OF assms(2)] modify_def locked_def
      atomically_def
    by (auto intro!: handoverI [where own' = "\<lambda>_. {}"])
qed

lemma drop_guard_accounts:
  assumes "i < 2 ^ 32" "Q (Inr ()) {}"
  shows "accounted taps_ok in_flight Q (drop_tap_guard (tap_name i)) {i}"
proof -
  have "taps_ok (free_tap i s) \<and> in_flight s - {i} \<subseteq> in_flight (free_tap i s)"
    if "taps_ok s" "i \<in> in_flight s" for s
    using tap.release_ok [OF that] by auto
  then show ?thesis
    using assms(2) unfolding drop_tap_guard_def with_tap_guard_def release_free [OF assms(1)]
      modify_def locked_def atomically_def
    by (auto intro!: handoverI [where own' = "\<lambda>_. {}"])
qed

lemma allocate_accounts:
  assumes "\<And>i. i < 2 ^ 32 \<Longrightarrow> Q (Inr i) {i}" "\<And>e. Q (Inl e) {}"
  shows "accounted taps_ok in_flight Q (atomically allocate_tap_index) {}"
proof (rule tap.accounts_acquire)
  fix s i s' assume "taps_ok s" "allocate_tap_index s = (Inr i, s')"
  then have "i \<le> MAX_TAP_INDEX" by (rule allocate_least)
  then show "Q (Inr i) {i}" using assms(1) by (simp add: MAX_TAP_INDEX_def)
qed (rule assms(2))

end
