(* ===== verification/Host.thy ===== *)
theory Host
  imports Taps
begin

text \<open>
  The daemon's hold on the host: TAP devices (\<open>netlink.rs\<close>), bandwidth limits (\<open>tc.rs\<close>),
  cgroups (\<open>cgroup.rs\<close>), the eBPF filters (\<open>ebpf.rs\<close>) and Firecracker's API
  (\<open>firecracker.rs\<close>).
\<close>

section \<open>TAP devices\<close>

definition IFNAMSIZ :: nat where
  "IFNAMSIZ = 16"

definition create_tap :: "denv \<Rightarrow> string \<Rightarrow> unit node_task" where
  "create_tap env name =
     (if IFNAMSIZ \<le> length name then bail (''tap name too long: '' @ name)
      else and_then (with_context ''opening /dev/net/tun'' (sys_call env (\<lambda>s. (Inr (), s))))
        (\<lambda>_. if CHR 0x00 \<in> set name then bail ''tap name contains NUL''
             else sys_call env (\<lambda>s. (Inr (), s\<lparr>n_devices := insert name (n_devices s)\<rparr>))))"

definition link_index :: "denv \<Rightarrow> string \<Rightarrow> unit node_task" where
  "link_index env name =
     sys_call env (\<lambda>s. if name \<in> n_devices s then (Inr (), s)
       else (Inl (Err (''link '' @ [CHR 0x27] @ name @ [CHR 0x27] @ '' not found'')), s))"

definition attach_to_bridge :: "denv \<Rightarrow> string \<Rightarrow> string \<Rightarrow> unit node_task" where
  "attach_to_bridge env tap bridge =
     and_then (with_context ''rtnetlink open'' (sys_call env (\<lambda>s. (Inr (), s)))) (\<lambda>_.
     and_then (link_index env tap) (\<lambda>_.
     and_then (with_context ''TAP up'' (sys_call env (\<lambda>s. (Inr (), s)))) (\<lambda>_.
     and_then (link_index env bridge) (\<lambda>_.
     with_context (''TAP '' @ arrow @ '' bridge'')
       (sys_call env (\<lambda>s. (Inr (), s\<lparr>n_bridged := List.insert tap (n_bridged s)\<rparr>)))))))"

definition delete_tap :: "denv \<Rightarrow> string \<Rightarrow> unit node_task" where
  "delete_tap env tap =
     and_then (with_context ''rtnetlink open'' (sys_call env (\<lambda>s. (Inr (), s)))) (\<lambda>_.
     and_then (link_index env tap) (\<lambda>_.
     with_context ''deleting TAP''
       (sys_call env (\<lambda>s. (Inr (), s\<lparr>n_devices := n_devices s - {tap},
                                      n_bridged := removeAll tap (n_bridged s)\<rparr>)))))"

section \<open>Bandwidth\<close>

fun replace_str :: "string \<Rightarrow> string \<Rightarrow> string \<Rightarrow> string" where
  "replace_str p r [] = []"
| "replace_str p r (c # s) =
     (if p \<noteq> [] \<and> starts_with p (c # s) then r @ replace_str p r (drop (length p - 1) s)
      else c # replace_str p r s)"

definition kbit :: "nat \<Rightarrow> string" where
  "kbit n = show_nat n @ ''kbit''"

definition tbf :: "string \<Rightarrow> nat \<Rightarrow> string list" where
  "tbf dev kbps =
     [''tc'', ''qdisc'', ''replace'', ''dev'', dev, ''root'', ''tbf'', ''rate'', kbit kbps,
      ''burst'', kbit (max (kbps div 100) 4), ''latency'', ''100ms'']"

text \<open>A command whose non-zero exit is an error.\<close>

definition checked :: "denv \<Rightarrow> string \<Rightarrow> string \<Rightarrow> string list \<Rightarrow> unit node_task" where
  "checked env ctx msg argv =
     and_then (with_context ctx (command env argv)) (\<lambda>ok. if ok then finish () else bail msg)"

definition set_egress :: "denv \<Rightarrow> string \<Rightarrow> nat \<Rightarrow> unit node_task" where
  "set_egress env tap kbps =
     checked env ''tc qdisc replace (egress)'' (''tc qdisc replace egress failed for '' @ tap) (tbf tap kbps)"

definition set_ingress :: "denv \<Rightarrow> string \<Rightarrow> nat \<Rightarrow> unit node_task" where
  "set_ingress env tap kbps =
     (let ifb = replace_str ''tap'' ''ifb'' tap in
      and_then (ignoring (command env [''ip'', ''link'', ''add'', ifb, ''type'', ''ifb''])) (\<lambda>_.
      and_then (with_context ''ip link set ifb up''
                  (command env [''ip'', ''link'', ''set'', ifb, ''up''])) (\<lambda>_.
      and_then (ignoring (command env [''tc'', ''qdisc'', ''add'', ''dev'', tap, ''ingress''])) (\<lambda>_.
      and_then (checked env ''tc filter redirect to IFB'' (''tc filter redirect failed for '' @ tap)
                  [''tc'', ''filter'', ''replace'', ''dev'', tap, ''parent'', ''ffff:'',
                   ''protocol'', ''all'', ''u32'', ''match'', ''u32'', ''0'', ''0'',
                   ''action'', ''mirred'', ''egress'', ''redirect'', ''dev'', ifb]) (\<lambda>_.
      checked env ''tc qdisc replace (ingress via IFB)'' (''tc ingress tbf failed for IFB '' @ ifb)
        (tbf ifb kbps))))))"

definition tc_apply :: "denv \<Rightarrow> string \<Rightarrow> resource_quota \<Rightarrow> unit node_task" where
  "tc_apply env tap quota =
     and_then (case net_egress_kbps quota of None \<Rightarrow> finish ()
               | Some kbps \<Rightarrow> with_context ''tc egress'' (set_egress env tap kbps)) (\<lambda>_.
     case net_ingress_kbps quota of None \<Rightarrow> finish ()
     | Some kbps \<Rightarrow> with_context ''tc ingress'' (set_ingress env tap kbps))"

definition tc_remove :: "denv \<Rightarrow> string \<Rightarrow> unit node_task" where
  "tc_remove env tap =
     and_then (ignoring (command env [''tc'', ''qdisc'', ''del'', ''dev'', tap, ''root''])) (\<lambda>_.
     and_then (ignoring (command env [''tc'', ''qdisc'', ''del'', ''dev'', tap, ''ingress''])) (\<lambda>_.
     ignoring (command env [''ip'', ''link'', ''del'', replace_str ''tap'' ''ifb'' tap])))"

section \<open>Cgroups\<close>

definition CGROUP_BASE :: string where
  "CGROUP_BASE = ''/sys/fs/cgroup/liquid-metal''"

definition build_io_max :: "string \<Rightarrow> resource_quota \<Rightarrow> string option" where
  "build_io_max device quota =
     (let limit = (\<lambda>name v. case v of None \<Rightarrow> [] | Some n \<Rightarrow> [name @ ''='' @ show_nat n]);
          parts = limit ''rbps'' (disk_read_bps quota) @ limit ''wbps'' (disk_write_bps quota)
                  @ limit ''riops'' (disk_read_iops quota) @ limit ''wiops'' (disk_write_iops quota)
      in if parts = [] then None
         else Some (device @ concat (map (\<lambda>p. '' '' @ p) parts)))"

text \<open>\<open>memory.max\<close>: the guest's memory and a head room in percent, in wrapping \<open>u64\<close>.\<close>

definition memory_max :: "(string \<rightharpoonup> string) \<Rightarrow> nat \<Rightarrow> nat" where
  "memory_max vars memory_mb =
     (let pct = or_default 10
            (parse_unsigned (2 ^ 64) (env_or vars ''CGROUP_MEMORY_HEADROOM_PCT'' ''10''))
      in (memory_mb * 1024 * 1024 * (100 + pct)) mod 2 ^ 64 div 100)"

definition cgroup_apply ::
    "denv \<Rightarrow> string \<Rightarrow> nat \<Rightarrow> string \<Rightarrow> resource_quota \<Rightarrow> nat \<Rightarrow> unit node_task" where
  "cgroup_apply env sid fc_pid rootfs_dev quota memory_mb =
     (let cg = CGROUP_BASE @ ''/'' @ sid;
          var = (\<lambda>key dflt. or_default dflt (parse_unsigned (2 ^ 32) (env_or (d_vars env) key (show_nat dflt))))
      in
      and_then (with_context ''create cgroup dir (is cgroup v2 mounted at /sys/fs/cgroup?)''
                  (sys_call env (\<lambda>s. (Inr (), s\<lparr>n_cgroups := List.insert cg (n_cgroups s)\<rparr>)))) (\<lambda>_.
      and_then (with_context ''writing FC pid to cgroup.procs''
                  (write_file env (cg @ ''/cgroup.procs'') (show_nat fc_pid))) (\<lambda>_.
      and_then (ignoring (write_file env (cg @ ''/memory.max'')
                  (show_nat (memory_max (d_vars env) memory_mb)))) (\<lambda>_.
      and_then (ignoring (write_file env (cg @ ''/pids.max'')
                  (show_nat (var ''CGROUP_PIDS_MAX'' 512)))) (\<lambda>_.
      and_then (ignoring (write_file env (cg @ ''/cpu.weight'')
                  (show_nat (var ''CGROUP_CPU_WEIGHT'' 100)))) (\<lambda>_.
      case build_io_max rootfs_dev quota of
        None \<Rightarrow> finish ()
      | Some io \<Rightarrow> with_context ''writing io.max'' (write_file env (cg @ ''/io.max'') io)))))))"

definition cgroup_cleanup :: "denv \<Rightarrow> string \<Rightarrow> unit node_task" where
  "cgroup_cleanup env sid =
     ignoring (sys_call env (\<lambda>s. (Inr (), s\<lparr>n_cgroups := removeAll (CGROUP_BASE @ ''/'' @ sid) (n_cgroups s)\<rparr>)))"

section \<open>eBPF filters\<close>

definition ebpf_attach :: "denv \<Rightarrow> string \<Rightarrow> unit node_task" where
  "ebpf_attach env tap =
     and_then (with_context ''loading TC filter BPF object'' (sys_call env (\<lambda>s. (Inr (), s)))) (\<lambda>_.
     and_then (with_context ''loading tc_egress program into kernel'' (sys_call env (\<lambda>s. (Inr (), s)))) (\<lambda>_.
     with_context (''attaching tc_egress to '' @ tap)
       (sys_call env (\<lambda>s. if tap \<in> n_devices s then (Inr (), s\<lparr>n_filters := List.insert tap (n_filters s)\<rparr>)
                          else (Inl (Err ''unknown network interface''), s)))))"

definition ebpf_detach :: "string \<Rightarrow> unit node_task" where
  "ebpf_detach tap = modify (\<lambda>s. s\<lparr>n_filters := removeAll tap (n_filters s)\<rparr>)"

text \<open>The pairs of TAP and service whose filter could not be attached again.\<close>

fun reattach_all :: "denv \<Rightarrow> (string \<times> string) list \<Rightarrow> (string \<times> string) list node_task" where
  "reattach_all env [] = finish []"
| "reattach_all env ((tap, sid) # rest) =
     and_then (attempt (ebpf_attach env tap)) (\<lambda>r.
     and_then (reattach_all env rest) (\<lambda>failed.
     finish (case r of Inl _ \<Rightarrow> (tap, sid) # failed | Inr _ \<Rightarrow> failed)))"

definition verify_filter :: "denv \<Rightarrow> string \<Rightarrow> bool node_task" where
  "verify_filter env tap =
     and_then (attempt (sys_call env (\<lambda>s. (Inr (d_has_filter env (n_calls s)),
         log_effect (Ran [''tc'', ''filter'', ''show'', ''dev'', tap, ''egress'']) s)))) (\<lambda>r.
     finish (case r of Inl _ \<Rightarrow> False | Inr b \<Rightarrow> b))"

fun audit_filters :: "denv \<Rightarrow> string list \<Rightarrow> string list node_task" where
  "audit_filters env [] = finish []"
| "audit_filters env (tap # taps) =
     and_then (verify_filter env tap) (\<lambda>ok.
     and_then (audit_filters env taps) (\<lambda>missing. finish (if ok then missing else tap # missing)))"

section \<open>Firecracker\<close>

record vm_config =
  vc_sock_path :: string
  vc_vcpu :: nat
  vc_memory_mb :: nat
  vc_kernel_path :: string
  vc_rootfs_path :: string
  vc_tap_name :: string
  vc_guest_mac :: string
  vc_guest_ip :: string
  vc_gateway :: string

definition fc_put :: "denv \<Rightarrow> string \<Rightarrow> string \<Rightarrow> json \<Rightarrow> unit node_task" where
  "fc_put env sock path body =
     and_then (with_context (''connecting to '' @ sock) (sys_call env (\<lambda>s. (Inr (), s)))) (\<lambda>_.
     and_then (with_context ''HTTP handshake'' (sys_call env (\<lambda>s. (Inr (), s)))) (\<lambda>_.
     and_then (with_context ''send request''
                 (sys_call env (\<lambda>s. (Inr (), log_effect (FcPut sock path body) s)))) (\<lambda>_.
     and_then (attempt (sys_call env (\<lambda>s. (Inr (), s)))) (\<lambda>r.
     case r of Inl text \<Rightarrow> bail (''Firecracker PUT '' @ path @ '' '' @ arrow @ '' '' @ text)
     | Inr _ \<Rightarrow> finish ()))))"

definition boot_args :: "vm_config \<Rightarrow> string" where
  "boot_args c =
     ''console=ttyS0 reboot=k panic=1 pci=off ip='' @ vc_guest_ip c @ ''::'' @ vc_gateway c
     @ '':'' @ NETMASK @ ''::eth0:off init=/sbin/init''"

definition vm_requests :: "vm_config \<Rightarrow> (string \<times> json) list" where
  "vm_requests c =
     [(''/machine-config'', JObj [(''vcpu_count'', JInt (int (vc_vcpu c))),
         (''mem_size_mib'', JInt (int (vc_memory_mb c)))]),
      (''/boot-source'', JObj [(''kernel_image_path'', JStr (vc_kernel_path c)),
         (''boot_args'', JStr (boot_args c))]),
      (''/drives/rootfs'', JObj [(''drive_id'', JStr ''rootfs''),
         (''path_on_host'', JStr (vc_rootfs_path c)), (''is_root_device'', JBool True),
         (''is_read_only'', JBool False)]),
      (''/network-interfaces/eth0'', JObj [(''iface_id'', JStr ''eth0''),
         (''host_dev_name'', JStr (vc_tap_name c)), (''guest_mac'', JStr (vc_guest_mac c))]),
      (''/actions'', JObj [(''action_type'', JStr ''InstanceStart'')])]"

definition put_context :: "string \<Rightarrow> string" where
  "put_context path =
     ''PUT '' @ path @ (if path = ''/actions'' then '' InstanceStart'' else [])"

definition start_vm :: "denv \<Rightarrow> vm_config \<Rightarrow> unit node_task" where
  "start_vm env c =
     each (\<lambda>(path, body). with_context (put_context path) (fc_put env (vc_sock_path c) path body))
       (vm_requests c)"

definition load_snapshot :: "denv \<Rightarrow> string \<Rightarrow> string \<Rightarrow> string \<Rightarrow> unit node_task" where
  "load_snapshot env sock vmstate mem =
     with_context ''PUT /snapshot/load'' (fc_put env sock ''/snapshot/load''
       (JObj [(''snapshot_path'', JStr vmstate),
              (''mem_backend'', JObj [(''backend_type'', JStr ''File''), (''backend_path'', JStr mem)]),
              (''enable_diff_snapshots'', JBool False), (''resume_vm'', JBool True)]))"

end
