(* ===== verification/Machines.thy ===== *)
theory Machines
  imports Host
begin

text \<open>
  Virtual machines: object storage (\<open>storage.rs\<close>) and artifact verification (\<open>verify.rs\<close>),
  the spawning of Firecracker alone (\<open>provision.rs\<close>) and under the jailer (\<open>jailer.rs\<close>),
  snapshots (\<open>snapshot.rs\<close>), and the teardown of a VM (\<open>deprovision.rs\<close>).
\<close>

section \<open>Object storage\<close>

definition download_inner :: "denv \<Rightarrow> string \<Rightarrow> string \<Rightarrow> unit node_task" where
  "download_inner env key path =
     and_then (with_context ''creating artifact dir'' (directory_call env)) (\<lambda>_.
     and_then (with_context (''downloading artifact '' @ key @ '' from Object Storage'')
       (sys_call env (\<lambda>s. case d_objects env key of
            None \<Rightarrow> (Inl (Err ''service error''), s) | Some b \<Rightarrow> (Inr b, s)))) (\<lambda>bytes.
     and_then (with_context ''reading artifact body'' (sys_call env (\<lambda>s. (Inr (), s)))) (\<lambda>_.
     and_then (with_context (''writing artifact to '' @ with_extension ''tmp'' path)
       (write_file env (with_extension ''tmp'' path) bytes)) (\<lambda>_.
     with_context (''renaming artifact to '' @ path)
       (rename_file env (with_extension ''tmp'' path) path)))))"

definition timeout_secs :: "denv \<Rightarrow> string \<Rightarrow> nat \<Rightarrow> nat" where
  "timeout_secs env key dflt =
     or_default dflt (parse_unsigned (2 ^ 64) (env_or (d_vars env) key (show_nat dflt)))"

definition download :: "denv \<Rightarrow> string \<Rightarrow> string \<Rightarrow> unit node_task" where
  "download env key path =
     within env ''download''
       (''S3 download timed out after ''
        @ show_nat (timeout_secs env ''S3_DOWNLOAD_TIMEOUT_SECS'' 300) @ ''s for '' @ key)
       (download_inner env key path)"

section \<open>Verification\<close>

definition verify_artifact :: "denv \<Rightarrow> string \<Rightarrow> string \<Rightarrow> unit node_task" where
  "verify_artifact env path expected_hex =
     and_then (with_context (''opening artifact for hashing: '' @ path) (read_file env path)) (\<lambda>bytes.
     case verify (d_lower env) [] (@) (d_sha256 env) (Some [Some bytes]) expected_hex of
       Inl (IntegrityFailed e actual) \<Rightarrow>
         bail (''artifact integrity FAILED for '' @ path @ newline @ ''  expected: '' @ e
               @ newline @ ''  computed: '' @ actual)
     | Inl _ \<Rightarrow> bail (''reading artifact for hashing: '' @ path)
     | Inr _ \<Rightarrow> finish ())"

section \<open>Firecracker processes\<close>

definition spawn_process :: "denv \<Rightarrow> string list \<Rightarrow> nat node_task" where
  "spawn_process env argv =
     sys_call env (\<lambda>s. (Inr (d_pid env (n_procs s)),
       log_effect (Ran argv) (s\<lparr>n_procs := insert (d_pid env (n_procs s)) (n_procs s)\<rparr>)))"

text \<open>Polling for the API socket until it appears or the deadline passes.\<close>

definition socket_appears :: "denv \<Rightarrow> bool node_task" where
  "socket_appears env =
     and_then (attempt (sys_call env (\<lambda>s. (Inr (), s)))) (\<lambda>r.
     finish (case r of Inl _ \<Rightarrow> False | Inr _ \<Rightarrow> True))"

text \<open>Both of the child's output streams go to the serial log.\<close>

definition serial_log_files :: "denv \<Rightarrow> string \<Rightarrow> unit node_task" where
  "serial_log_files env serial_log =
     and_then (with_context (''creating serial log: '' @ serial_log) (write_file env serial_log [])) (\<lambda>_.
     with_context ''cloning serial log file for stderr'' (sys_call env (\<lambda>s. (Inr (), s))))"

definition spawn_firecracker_direct ::
    "denv \<Rightarrow> string \<Rightarrow> string \<Rightarrow> string \<Rightarrow> nat node_task" where
  "spawn_firecracker_direct env vm_id sock serial_log =
     (let fc_bin = pc_fc_bin (d_cfg env) in
      and_then (with_context ''mkdir sock dir'' (directory_call env)) (\<lambda>_.
      and_then (serial_log_files env serial_log) (\<lambda>_.
      and_then (with_context (''spawning '' @ fc_bin)
        (spawn_process env [fc_bin, ''--api-sock'', sock, ''--id'', vm_id])) (\<lambda>pid.
      and_then (socket_appears env) (\<lambda>ok.
      if ok then finish pid
      else and_then (modify (kill_process pid)) (\<lambda>_.
        bail (''firecracker socket '' @ sock @ '' not ready within 3s '' @ em_dash
              @ '' process killed'')))))))"

definition stage_artifact :: "denv \<Rightarrow> string \<Rightarrow> string \<Rightarrow> unit node_task" where
  "stage_artifact env src dst =
     and_then (file_exists env dst) (\<lambda>there.
     if there then finish ()
     else and_then (attempt (copy_file env src dst)) (\<lambda>linked.
       case linked of Inr _ \<Rightarrow> finish ()
       | Inl _ \<Rightarrow> with_context (''copying artifact '' @ src @ '' '' @ arrow @ '' '' @ dst)
                    (copy_file env src dst)))"

definition chroot_root :: "string \<Rightarrow> string \<Rightarrow> string" where
  "chroot_root chroot_base vm_id = chroot_base @ ''/firecracker/'' @ vm_id @ ''/root''"

text \<open>The jailer's process, its API socket, and the paths Firecracker sees in its chroot.\<close>

definition jailer_spawn ::
    "denv \<Rightarrow> string \<Rightarrow> string \<Rightarrow> string \<Rightarrow> (nat \<times> string \<times> string \<times> string) node_task" where
  "jailer_spawn env vm_id rootfs_src serial_log =
     (let c = d_cfg env; root = chroot_root (pc_chroot_base c) vm_id;
          socket = root @ ''/run/api.sock'' in
      and_then (with_context ''creating chroot/run dir'' (directory_call env)) (\<lambda>_.
      and_then (with_context ''staging rootfs'' (stage_artifact env rootfs_src (root @ ''/rootfs.ext4''))) (\<lambda>_.
      and_then (with_context ''staging kernel''
        (stage_artifact env (pc_kernel_path c) (root @ ''/vmlinux''))) (\<lambda>_.
      and_then (serial_log_files env serial_log) (\<lambda>_.
      and_then (with_context ''spawning jailer''
        (spawn_process env
          [pc_jailer_bin c, ''--id'', vm_id, ''--exec-file'', pc_fc_bin c,
           ''--uid'', show_nat (pc_jailer_uid c), ''--gid'', show_nat (pc_jailer_gid c),
           ''--chroot-base-dir'', pc_chroot_base c, ''--cgroup-version'', ''2'', ''--'',
           ''--api-sock'', ''/run/api.sock'', ''--id'', vm_id])) (\<lambda>pid.
      and_then (socket_appears env) (\<lambda>ok.
      if ok then finish (pid, socket, ''/rootfs.ext4'', ''/vmlinux'')
      else and_then (modify (kill_process pid)) (\<lambda>_.
        bail (''jailer API socket '' @ socket @ '' not ready within 5s'')))))))))"

text \<open>
  The mount points under a chroot, deepest first. White space is the ASCII one: the kernel
  escapes any other byte of a mount point it could be confused with.
\<close>

definition is_space :: "char \<Rightarrow> bool" where
  "is_space c = (code_of c = 32 \<or> 9 \<le> code_of c \<and> code_of c \<le> 13)"

function words_of :: "string \<Rightarrow> string list" where
  "words_of [] = []"
| "words_of (c # s) =
     (if is_space c then words_of s
      else (c # takeWhile (\<lambda>d. \<not> is_space d) s) # words_of (dropWhile (\<lambda>d. \<not> is_space d) s))"
  by pat_completeness auto

termination
  by (relation "measure length") (auto simp: less_Suc_eq_le length_dropWhile_le)

definition lines_of :: "string \<Rightarrow> string list" where
  "lines_of s =
     (let ls = split_on (CHR 0x0A) s;
          ls' = (if last ls = [] then butlast ls else ls)
      in map (\<lambda>l. if l \<noteq> [] \<and> last l = CHR 0x0D then butlast l else l) ls')"

definition mount_point :: "string \<Rightarrow> string option" where
  "mount_point line = (case words_of line of a # b # _ \<Rightarrow> Some b | _ \<Rightarrow> None)"

definition stale_mounts :: "string \<Rightarrow> string \<Rightarrow> string list" where
  "stale_mounts chroot mounts =
     sort_key (\<lambda>t. - int (length t))
       (filter (starts_with chroot) (List.map_filter mount_point (lines_of mounts)))"

definition unmount_stale :: "denv \<Rightarrow> string \<Rightarrow> unit node_task" where
  "unmount_stale env chroot =
     and_then (read_file env ''/proc/mounts'') (\<lambda>mounts.
     each (\<lambda>t. ignoring (sys_call env (\<lambda>s. (Inr (), log_effect (Unmounted t) s))))
       (stale_mounts chroot mounts))"

definition jailer_cleanup :: "denv \<Rightarrow> string \<Rightarrow> string \<Rightarrow> unit node_task" where
  "jailer_cleanup env chroot_base vm_id =
     (let chroot = chroot_base @ ''/firecracker/'' @ vm_id in
      and_then (ignoring (unmount_stale env chroot)) (\<lambda>_.
      ignoring (remove_dir_all env chroot)))"

section \<open>Snapshots\<close>

definition ensure_snapshot :: "denv \<Rightarrow> string \<Rightarrow> string \<Rightarrow> (string \<times> string) node_task" where
  "ensure_snapshot env snapshot_key sid =
     (let dir = path_join (path_join (pc_artifact_dir (d_cfg env)) ''.snapshots'') sid;
          vmstate = path_join dir ''vmstate.snap''; memory = path_join dir ''memory.snap'';
          fetch = (\<lambda>file key ctx. and_then (file_exists env file) (\<lambda>there.
             if there then finish () else with_context ctx (download env key file)))
      in and_then (fetch vmstate (snapshot_key @ ''/vmstate.snap'') ''downloading vmstate snapshot'') (\<lambda>_.
         and_then (fetch memory (snapshot_key @ ''/memory.snap'') ''downloading memory snapshot'') (\<lambda>_.
         finish (vmstate, memory))))"

definition restore_vm :: "denv \<Rightarrow> string \<Rightarrow> string \<times> string \<Rightarrow> string \<Rightarrow> (nat \<times> string) node_task" where
  "restore_vm env vm_id snapshot serial_log =
     (let sock = pc_sock_dir (d_cfg env) @ ''/'' @ vm_id @ ''.sock'' in
      and_then (spawn_firecracker_direct env vm_id sock serial_log) (\<lambda>pid.
      and_then (with_context ''loading snapshot into Firecracker''
        (load_snapshot env sock (fst snapshot) (snd snapshot))) (\<lambda>_.
      finish (pid, sock))))"

section \<open>Teardown\<close>

definition deprovision_metal :: "denv \<Rightarrow> string \<Rightarrow> vm_handle \<Rightarrow> unit node_task" where
  "deprovision_metal env sid h =
     and_then (modify (kill_process (vh_fc_pid h))) (\<lambda>_.
     and_then (modify (kill_process (vh_fc_pid h))) (\<lambda>_.
     and_then (ebpf_detach (vh_tap_name h)) (\<lambda>_.
     and_then (tc_remove env (vh_tap_name h)) (\<lambda>_.
     and_then (ignoring (delete_tap env (vh_tap_name h))) (\<lambda>_.
     and_then (cgroup_cleanup env sid) (\<lambda>_.
     and_then (ignoring (remove_dir_all env (pc_artifact_dir (d_cfg env) @ ''/'' @ sid))) (\<lambda>_.
     if vh_use_jailer h then jailer_cleanup env (vh_chroot_base h) (vh_vm_id h) else finish ())))))))"

section \<open>What a task leaves alone\<close>

lemma untouched_sys_call:
  assumes "\<And>s. v (bump s) = v s" "\<And>s. v (snd (f s)) = v s"
  shows "untouched v (sys_call env f)"
  unfolding sys_call_def using assms by (intro untouched_atomically) (simp split: option.split)

lemma untouched_locked:
  assumes "\<And>s. v (snd (f s)) = v s"
  shows "untouched v (locked f)"
  unfolding locked_def using assms by (intro untouched_atomically) (simp add: case_prod_unfold)

lemma untouched_modify: "(\<And>s. v (f s) = v s) \<Longrightarrow> untouched v (modify f)"
  unfolding modify_def by (intro untouched_locked) simp

lemma untouched_ignoring [untouched_intros]: "untouched v t \<Longrightarrow> untouched v (ignoring t)"
  unfolding ignoring_def by (intro untouched_intros)

lemma untouched_within [untouched_intros]: "untouched v t \<Longrightarrow> untouched v (within env d m t)"
  unfolding within_def by (intro untouched_intros) (simp_all split: option.split sum.split)

lemma untouched_if [untouched_intros]:
  "(b \<Longrightarrow> untouched v t) \<Longrightarrow> (\<not> b \<Longrightarrow> untouched v u) \<Longrightarrow> untouched v (if b then t else u)"
  by simp

lemma untouched_option [untouched_intros]:
  "(x = None \<Longrightarrow> untouched v t) \<Longrightarrow> (\<And>y. x = Some y \<Longrightarrow> untouched v (f y)) \<Longrightarrow>
   untouched v (case x of None \<Rightarrow> t | Some y \<Rightarrow> f y)"
  by (simp split: option.split)

lemma untouched_sum [untouched_intros]:
  "(\<And>a. x = Inl a \<Longrightarrow> untouched v (f a)) \<Longrightarrow> (\<And>b. x = Inr b \<Longrightarrow> untouched v (g b)) \<Longrightarrow>
   untouched v (case x of Inl a \<Rightarrow> f a | Inr b \<Rightarrow> g b)"
  by (simp split: sum.split)

lemma untouched_prod [untouched_intros]:
  "(\<And>a b. x = (a, b) \<Longrightarrow> untouched v (f a b)) \<Longrightarrow> untouched v (case x of (a, b) \<Rightarrow> f a b)"
  by (simp split: prod.split)

lemma untouched_Let [untouched_intros]: "untouched v (f x) \<Longrightarrow> untouched v (Let x f)"
  by simp

end
