(* ===== verification/Wagi.thy ===== *)
theory Wagi
  imports Machines
begin

text \<open>
  The Wasm HTTP shim (\<open>wasm_http.rs\<close>): the compile cache, starting to serve a module, what
  a request is to the module (its environment and its standard input), and what the bytes
  the module writes are as a response. Wasmtime is a parameter: \<open>d_compile\<close>,
  \<open>d_serialize\<close>, \<open>d_deserialize\<close>, and the outcome of a run. A compiled module is the
  string the compiler yields.
\<close>

section \<open>The compile cache\<close>

definition cache_path :: "string \<Rightarrow> string" where
  "cache_path wasm_path = wasm_path @ ''.compiled''"

definition compile_fresh :: "denv \<Rightarrow> string \<Rightarrow> string \<Rightarrow> string node_task" where
  "compile_fresh env wasm_path wasm_bytes =
     and_then (with_context ''wasm compile task panicked'' (sys_call env (\<lambda>s. (Inr (), s)))) (\<lambda>_.
     case d_compile env wasm_bytes of
       Inl e \<Rightarrow> bail (''compiling wasm module: '' @ e)
     | Inr m \<Rightarrow>
         and_then (case d_serialize env m of None \<Rightarrow> finish ()
                   | Some code \<Rightarrow> ignoring (write_file env (cache_path wasm_path)
                                     (d_sha256 env wasm_bytes @ code))) (\<lambda>_. finish m))"

definition compile_or_cache :: "denv \<Rightarrow> string \<Rightarrow> string node_task" where
  "compile_or_cache env wasm_path =
     and_then (with_context (''reading '' @ wasm_path) (read_file env wasm_path)) (\<lambda>wasm_bytes.
     and_then (attempt (read_file env (cache_path wasm_path))) (\<lambda>cached.
     case cached of
       Inl _ \<Rightarrow> compile_fresh env wasm_path wasm_bytes
     | Inr c \<Rightarrow>
         if 32 < length c \<and> take 32 c = d_sha256 env wasm_bytes
         then (case d_deserialize env (drop 32 c) of
                 Some m \<Rightarrow> finish m
               | None \<Rightarrow> and_then (ignoring (remove_file env (cache_path wasm_path))) (\<lambda>_.
                          compile_fresh env wasm_path wasm_bytes))
         else and_then (ignoring (remove_file env (cache_path wasm_path))) (\<lambda>_.
                compile_fresh env wasm_path wasm_bytes)))"

text \<open>The port of the shim; the accept loop runs from here on.\<close>

definition wasm_serve :: "denv \<Rightarrow> string \<Rightarrow> string \<Rightarrow> env_map \<Rightarrow> nat node_task" where
  "wasm_serve env wasm_path app_name vars =
     and_then (with_context ''wasmtime engine'' (sys_call env (\<lambda>s. (Inr (), s)))) (\<lambda>_.
     and_then (compile_or_cache env wasm_path) (\<lambda>m.
     with_context ''binding wasm HTTP listener''
       (sys_call env (\<lambda>s. let port = d_port env (set (map fst (n_shims s))) in
          (Inr port, s\<lparr>n_shims := n_shims s
             @ [(port, \<lparr>wv_module = m, wv_app_name = app_name, wv_env_vars = vars\<rparr>)]\<rparr>)))))"

section \<open>Requests\<close>

text \<open>A header value that is not visible ASCII reads as nothing.\<close>

record wasm_request =
  wr_method :: string
  wr_path :: string
  wr_query :: "string option"
  wr_headers :: "(string \<times> string option) list"
  wr_body :: "string option"

definition same_ignoring_case :: "string \<Rightarrow> string \<Rightarrow> bool" where
  "same_ignoring_case a b = (map ascii_lower a = map ascii_lower b)"

definition header_var :: "string \<Rightarrow> string" where
  "header_var name = ''HTTP_'' @ replace_char (CHR ''-'') (CHR ''_'') (map ascii_upper name)"

definition wagi_env :: "(string \<times> string) list \<Rightarrow> wasm_request \<Rightarrow> (string \<times> string) list" where
  "wagi_env user_vars req =
     [(''REQUEST_METHOD'', wr_method req), (''PATH_INFO'', wr_path req),
      (''QUERY_STRING'', or_default [] (wr_query req)), (''SERVER_PROTOCOL'', ''HTTP/1.1'')]
     @ concat (map (\<lambda>(name, v).
         (if same_ignoring_case name ''content-type'' then [(''CONTENT_TYPE'', or_default [] v)] else [])
         @ [(header_var name, or_default [] v)]) (wr_headers req))
     @ [(''CONTENT_LENGTH'', show_nat (length (or_default [] (wr_body req))))]
     @ user_vars"

section \<open>Responses\<close>

fun find_seq :: "string \<Rightarrow> string \<Rightarrow> nat option" where
  "find_seq needle [] = None"
| "find_seq needle (c # s) =
     (if starts_with needle (c # s) then Some 0 else map_option Suc (find_seq needle s))"

definition crlf :: string where
  "crlf = [CHR 0x0D, CHR 0x0A]"

definition split_on_blank_line :: "string \<Rightarrow> string \<times> string" where
  "split_on_blank_line bytes =
     (case find_seq (crlf @ crlf) bytes of
        Some pos \<Rightarrow> (take pos bytes, drop (pos + 4) bytes)
      | None \<Rightarrow>
          (case find_seq (newline @ newline) bytes of
             Some pos \<Rightarrow> (take pos bytes, drop (pos + 2) bytes)
           | None \<Rightarrow> ([], bytes)))"

definition split_once :: "char \<Rightarrow> string \<Rightarrow> (string \<times> string) option" where
  "split_once c s =
     (if c \<in> set s then Some (takeWhile (\<lambda>d. d \<noteq> c) s, tl (dropWhile (\<lambda>d. d \<noteq> c) s)) else None)"

definition status_of :: "string \<Rightarrow> nat" where
  "status_of v =
     (case words_of v of [] \<Rightarrow> 200 | w # _ \<Rightarrow> or_default 200 (parse_unsigned (2 ^ 16) w))"

fun wagi_headers ::
    "(string \<Rightarrow> string) \<Rightarrow> nat \<times> (string \<times> string) list \<Rightarrow> string list \<Rightarrow> nat \<times> (string \<times> string) list" where
  "wagi_headers trim acc [] = acc"
| "wagi_headers trim (status, headers) (l # ls) =
     wagi_headers trim
       (case split_once (CHR '':'') (trim l) of
          None \<Rightarrow> (status, headers)
        | Some (k, v) \<Rightarrow>
            if same_ignoring_case (trim k) ''status'' then (status_of (trim v), headers)
            else (status, headers @ [(trim k, trim v)])) ls"

definition has_content_type :: "(string \<times> string) list \<Rightarrow> bool" where
  "has_content_type headers = list_ex (\<lambda>(k, _). same_ignoring_case k ''content-type'') headers"

definition parse_wagi_response ::
    "(string \<Rightarrow> string) \<Rightarrow> string \<Rightarrow> string + nat \<times> (string \<times> string) list \<times> string" where
  "parse_wagi_response trim output =
     (case split_on_blank_line output of (header_bytes, body) \<Rightarrow>
        if \<not> valid_utf8 header_bytes then Inl ''response headers are not valid UTF-8''
        else
          (case wagi_headers trim (200, []) (lines_of header_bytes) of (status, headers) \<Rightarrow>
             Inr (status,
                  (if has_content_type headers then headers
                   else headers @ [(''content-type'', ''text/plain; charset=utf-8'')]), body)))"

text \<open>How a run of the module ended, and what it wrote.\<close>

datatype wasm_exit = ReturnedUnit | ExitCode int | Trapped string | NotStarted string

definition invoke_result ::
    "(string \<Rightarrow> string) \<Rightarrow> wasm_exit \<times> string \<Rightarrow> string + nat \<times> (string \<times> string) list \<times> string" where
  "invoke_result trim run =
     (case run of
        (ReturnedUnit, out) \<Rightarrow> parse_wagi_response trim out
      | (ExitCode c, out) \<Rightarrow>
          if c = 0 then parse_wagi_response trim out else Inl ''wasm execution failed''
      | (Trapped e, _) \<Rightarrow> Inl ''wasm execution failed''
      | (NotStarted e, _) \<Rightarrow> Inl e)"

record http_response =
  hr_status :: nat
  hr_headers :: "(string \<times> string) list"
  hr_body :: string

definition error_response :: "nat \<Rightarrow> string \<Rightarrow> http_response" where
  "error_response status msg =
     \<lparr>hr_status = status, hr_headers = [(''content-type'', ''text/plain'')], hr_body = msg\<rparr>"

text \<open>
  \<open>Response::builder()\<close>: a status outside 100 to 999 or a header the \<open>http\<close> crate refuses is
  an error, which the \<open>unwrap\<close> turns into a panic, here \<open>None\<close>.
\<close>

definition build_response ::
    "(string \<Rightarrow> string \<Rightarrow> bool) \<Rightarrow> nat \<Rightarrow> (string \<times> string) list \<Rightarrow> string \<Rightarrow> http_response option" where
  "build_response header_ok status headers body =
     (if 100 \<le> status \<and> status \<le> 999 \<and> list_all (\<lambda>(k, v). header_ok k v) headers
      then Some \<lparr>hr_status = status, hr_headers = headers, hr_body = body\<rparr> else None)"

datatype permit = Granted | QueueTimeout | SemaphoreClosed

datatype wasm_outcome = Finished "wasm_exit \<times> string" | TaskPanicked | TimedOut

text \<open>The response, and by how much the invocation counter grows.\<close>

definition dispatch ::
    "denv \<Rightarrow> (string \<Rightarrow> string \<Rightarrow> bool) \<Rightarrow> permit \<Rightarrow> wasm_outcome \<Rightarrow> http_response option \<times> nat" where
  "dispatch env header_ok p run =
     (case p of
        SemaphoreClosed \<Rightarrow> (Some (error_response 503 ''service shutting down''), 0)
      | QueueTimeout \<Rightarrow> (Some (error_response 503 ''too many concurrent requests''), 0)
      | Granted \<Rightarrow>
          (case run of
             TimedOut \<Rightarrow> Some (error_response 504 ''wasm execution timed out'')
           | TaskPanicked \<Rightarrow> Some (error_response 500 ''internal error'')
           | Finished r \<Rightarrow>
               (case invoke_result (d_trim env) r of
                  Inl e \<Rightarrow> Some (error_response 500 e)
                | Inr (status, headers, body) \<Rightarrow> build_response header_ok status headers body), 1))"

section \<open>Lemmas on responses\<close>

lemma find_seq_Some: "find_seq p s = Some n \<Longrightarrow> starts_with p (drop n s) \<and> n < length s"
  by (induction p s arbitrary: n rule: find_seq.induct) (auto split: if_splits)

lemma find_seq_None: "find_seq p s = None \<Longrightarrow> n < length s \<Longrightarrow> \<not> starts_with p (drop n s)"
proof (induction p s arbitrary: n rule: find_seq.induct)
  case (2 p c s)
  then show ?case by (cases n) (auto split: if_splits)
qed simp

lemma find_seq_first: "find_seq p s = Some n \<Longrightarrow> m < n \<Longrightarrow> \<not> starts_with p (drop m s)"
proof (induction p s arbitrary: n m rule: find_seq.induct)
  case (2 p c s)
  then show ?case by (cases m) (auto split: if_splits)
qed simp

lemma find_seqI:
  assumes "n < length s" "starts_with p (drop n s)" "\<And>m. m < n \<Longrightarrow> \<not> starts_with p (drop m s)"
  shows "find_seq p s = Some n"
proof (cases "find_seq p s")
  case None
  then show ?thesis using find_seq_None [of p s n] assms by blast
next
  case (Some k)
  then show ?thesis
    using find_seq_Some [of p s k] find_seq_first [of p s k n] assms
    by (metis linorder_neqE_nat)
qed

text \<open>A response always has a content type.\<close>

lemma parsed_has_content_type:
  "parse_wagi_response trim out = Inr (status, headers, body) \<Longrightarrow> has_content_type headers"
  by (auto simp: parse_wagi_response_def has_content_type_def same_ignoring_case_def
      split: prod.splits if_splits)

end
