(* ===== verification/Provision.thy ===== *)
theory Provision
  imports Rootfs Wagi
begin

text \<open>
  Provisioning (\<open>provision.rs\<close>): a Metal VM from its TAP index to its entry in the registry,
  a Wasm service from its download to its entry, the readiness probe, what is written and
  published at the end, the classification of failures and the rollback.
\<close>

section \<open>The readiness probe\<close>

definition probe_timeout :: "denv \<Rightarrow> nat" where
  "probe_timeout env = timeout_secs env ''STARTUP_PROBE_TIMEOUT_SECS'' 30"

definition probe_log_lines :: "denv \<Rightarrow> nat" where
  "probe_log_lines env = timeout_secs env ''STARTUP_PROBE_LOG_LINES'' 50"

definition probe_once :: "denv \<Rightarrow> unit node_task" where
  "probe_once env =
     sys_call env (\<lambda>s. (if d_answers env (n_calls s) then Inr () else Inl (Err ''connection refused''), s))"

text \<open>
  One attempt per tick of 500 ms: the attempt after \<open>k\<close> more ticks is the last one at the
  latest, the deadline having passed by then; it may have passed before if attempts are slow.
\<close>

fun probe_loop :: "denv \<Rightarrow> nat \<Rightarrow> unit node_task \<Rightarrow> unit node_task" where
  "probe_loop env k failure =
     and_then (attempt (probe_once env)) (\<lambda>r.
     case r of Inr _ \<Rightarrow> finish ()
     | Inl _ \<Rightarrow>
         (case k of 0 \<Rightarrow> failure
          | Suc k' \<Rightarrow>
              and_then (locked (\<lambda>s. (d_expired env ''probe'' (n_calls s), s))) (\<lambda>late.
              if late then failure else probe_loop env k' failure)))"

declare probe_loop.simps [simp del]

definition read_tail :: "denv \<Rightarrow> string \<Rightarrow> nat \<Rightarrow> string node_task" where
  "read_tail env path n =
     and_then (attempt (read_file env path)) (\<lambda>r.
     finish (case r of
         Inl _ \<Rightarrow> ''(serial log not available)''
       | Inr content \<Rightarrow>
           if valid_utf8 content
           then (let ls = lines_of content; tail = drop (length ls - n) ls in
                 concat (case tail of [] \<Rightarrow> [] | l # rest \<Rightarrow> l # map (\<lambda>x. newline @ x) rest))
           else ''(serial log not available)''))"

definition serial_rule :: string where
  "serial_rule = concat (replicate 39 [CHR 0xE2, CHR 0x94, CHR 0x80])"

definition probe_causes :: string where
  "probe_causes =
     newline @ newline @ ''Common causes:'' @ newline
     @ ''  - Application crashed on startup (panic, missing env var, segfault)'' @ newline
     @ ''  - Application listening on wrong port (check [service].port in liquid-metal.toml)'' @ newline
     @ ''  - HTTP server not started '' @ em_dash @ '' application bound TCP but never spoke HTTP'' @ newline
     @ ''  - Binary is glibc-linked on a musl rootfs (should have been caught by ELF check)''"

definition probe_failure :: "denv \<Rightarrow> string \<Rightarrow> string option \<Rightarrow> unit node_task" where
  "probe_failure env addr serial_log =
     and_then
       (case serial_log of
          None \<Rightarrow> finish []
        | Some path \<Rightarrow>
            and_then (read_tail env path (probe_log_lines env)) (\<lambda>out.
            finish (newline @ newline @ ''Last ''
              @ show_nat (min (probe_log_lines env) (length (lines_of out)))
              @ '' lines of serial console (kernel + app output):'' @ newline
              @ serial_rule @ newline @ out @ newline @ serial_rule))) (\<lambda>section_text.
     bail (''startup probe failed: service did not respond to HTTP GET / on '' @ addr
           @ '' within '' @ show_nat (probe_timeout env) @ ''s'' @ probe_causes @ section_text))"

definition startup_probe :: "denv \<Rightarrow> string \<Rightarrow> string option \<Rightarrow> unit node_task" where
  "startup_probe env addr serial_log =
     probe_loop env (2 * probe_timeout env) (probe_failure env addr serial_log)"

section \<open>Metal\<close>

record provisioned_service =
  ps_id :: string
  ps_engine :: engine
  ps_upstream :: "string option"
  ps_snapshot_key :: "string option"
  ps_tap_name :: "string option"
  ps_fc_pid :: "nat option"

definition hex_upper :: "nat \<Rightarrow> string" where
  "hex_upper n = map ascii_upper [hex_digit (n div 16), hex_digit (n mod 16)]"

text \<open>The index is below 3969, so either byte is one: two digits each.\<close>

definition guest_mac :: "nat \<Rightarrow> string" where
  "guest_mac idx = ''AA:FC:00:00:'' @ hex_upper (idx div 256) @ '':'' @ hex_upper (idx mod 256)"

text \<open>From an attached TAP to a started VM: its process id.\<close>

definition provision_metal_after_tap ::
    "denv \<Rightarrow> provision_event \<Rightarrow> metal_spec \<Rightarrow> string \<Rightarrow> string \<Rightarrow> string \<Rightarrow> string \<Rightarrow> string \<Rightarrow> string
     \<Rightarrow> nat node_task" where
  "provision_metal_after_tap env ev spec tap rootfs mac vm_id serial_log ip =
     (let cfg = d_cfg env in
      and_then (with_context ''attach TAP to bridge'' (attach_to_bridge env tap (pc_bridge cfg))) (\<lambda>_.
      and_then (with_context ''tc bandwidth'' (tc_apply env tap (ms_quota spec))) (\<lambda>_.
      and_then (with_context ''eBPF TC attach'' (ebpf_attach env tap)) (\<lambda>_.
      and_then
        (if pc_use_jailer cfg then with_context ''jailer spawn'' (jailer_spawn env vm_id rootfs serial_log)
         else (let sock = pc_sock_dir cfg @ ''/'' @ vm_id @ ''.sock'' in
               and_then (spawn_firecracker_direct env vm_id sock serial_log) (\<lambda>pid.
               finish (pid, sock, rootfs, pc_kernel_path cfg)))) (\<lambda>(pid, sock, rootfs_guest, kernel_guest).
      and_then (attempt
        (and_then (with_context ''cgroup limits''
           (cgroup_apply env (pe_service_id ev) pid (pc_rootfs_dev cfg) (ms_quota spec) (ms_memory_mb spec))) (\<lambda>_.
         with_context ''start VM''
           (start_vm env \<lparr>vc_sock_path = sock, vc_vcpu = ms_vcpu spec, vc_memory_mb = ms_memory_mb spec,
              vc_kernel_path = kernel_guest, vc_rootfs_path = rootfs_guest, vc_tap_name = tap,
              vc_guest_mac = mac, vc_guest_ip = ip, vc_gateway = GATEWAY\<rparr>)))) (\<lambda>post_spawn.
      case post_spawn of Inr _ \<Rightarrow> finish pid
      | Inl m \<Rightarrow> and_then (modify (kill_process pid)) (\<lambda>_. bail m)))))))"

definition handle_of :: "denv \<Rightarrow> string \<Rightarrow> nat \<Rightarrow> string \<Rightarrow> vm_handle" where
  "handle_of env tap pid vm_id =
     \<lparr>vh_tap_name = tap, vh_fc_pid = pid, vh_vm_id = vm_id,
      vh_use_jailer = pc_use_jailer (d_cfg env), vh_chroot_base = pc_chroot_base (d_cfg env)\<rparr>"

text \<open>Everything between the allocation of the index and the registration of the VM.\<close>

definition boot_metal ::
    "denv \<Rightarrow> provision_event \<Rightarrow> metal_spec \<Rightarrow> string \<Rightarrow> nat \<Rightarrow> (nat \<times> string) node_task" where
  "boot_metal env ev spec vm_id idx =
     (let tap = tap_name idx; sid = pe_service_id ev; progress = publish_progress env sid;
          serial_log = path_join (path_join (pc_artifact_dir (d_cfg env)) sid) ''serial.log'' in
      and_then (with_context ''TAP index pool exhausted''
        (case guest_ip idx of Inl e \<Rightarrow> bail e | Inr ip \<Rightarrow> finish ip)) (\<lambda>ip.
      let addr = ip @ '':'' @ show_nat (ms_port spec) in
      and_then (with_context ''ensuring base Alpine template'' (ensure_template env)) (\<lambda>template.
      and_then (progress Downloading ''Downloading user binary from object storage'') (\<lambda>_.
      and_then (progress Building ''Assembling rootfs image'') (\<lambda>_.
      and_then (with_context ''building rootfs''
        (build_rootfs env (ms_artifact_key spec) (ms_artifact_sha256 spec) sid (pe_env_vars ev) template
           (ms_port spec))) (\<lambda>rootfs.
      and_then (with_context ''create TAP'' (create_tap env tap)) (\<lambda>_.
      and_then (progress Booting ''Booting Firecracker VM'') (\<lambda>_.
      and_then (attempt (provision_metal_after_tap env ev spec tap rootfs (guest_mac idx) vm_id
                           serial_log ip)) (\<lambda>result.
      case result of
        Inl m \<Rightarrow> and_then (ignoring (delete_tap env tap)) (\<lambda>_. bail m)
      | Inr pid \<Rightarrow>
          and_then (progress HealthCheck ''Waiting for service to respond to HTTP requests'') (\<lambda>_.
          and_then (attempt (startup_probe env addr (Some serial_log))) (\<lambda>probe.
          case probe of
            Inr _ \<Rightarrow> finish (pid, addr)
          | Inl m \<Rightarrow>
              and_then (progress Failed (''Startup probe failed: '' @ m)) (\<lambda>_.
              and_then (modify (kill_process pid)) (\<lambda>_.
              and_then (deprovision_metal env sid (handle_of env tap pid vm_id)) (\<lambda>_.
              bail m))))))))))))))"

definition provision_metal ::
    "denv \<Rightarrow> provision_event \<Rightarrow> metal_spec \<Rightarrow> provisioned_service node_task" where
  "provision_metal env ev spec =
     and_then (fresh_uuid env) (\<lambda>vm_id.
     and_then (atomically allocate_tap_index) (\<lambda>idx.
     let tap = tap_name idx in
     and_then (attempt (with_tap_guard tap (boot_metal env ev spec vm_id idx))) (\<lambda>booted.
     case booted of
       Inl m \<Rightarrow> and_then (drop_tap_guard tap) (\<lambda>_. bail m)
     | Inr (pid, addr) \<Rightarrow>
         and_then (with_tap_guard tap
           (modify (register_vm (pe_service_id ev) (handle_of env tap pid vm_id)))) (\<lambda>_.
         and_then (publish_progress env (pe_service_id ev) Running
           (''VM is live '' @ em_dash @ '' dedicated Metal service running'')) (\<lambda>_.
         finish \<lparr>ps_id = vm_id, ps_engine = Metal, ps_upstream = Some addr, ps_snapshot_key = None,
                 ps_tap_name = Some tap, ps_fc_pid = Some pid\<rparr>)))))"

section \<open>Liquid\<close>

text \<open>The metadata a wake needs; the order of an object's fields does not matter.\<close>

definition liquid_metadata :: "denv \<Rightarrow> provision_event \<Rightarrow> json" where
  "liquid_metadata env ev =
     JObj [(''app_name'', JStr (pe_app_name ev)),
           (''env_vars'', JObj (map (\<lambda>(k, v). (k, JStr v)) (d_entries env (pe_env_vars ev)))),
           (''tenant_id'', JStr (pe_tenant_id ev))]"

definition localhost_addr :: "nat \<Rightarrow> string" where
  "localhost_addr port = ''127.0.0.1:'' @ show_nat port"

definition liquid_dir :: "denv \<Rightarrow> string \<Rightarrow> string" where
  "liquid_dir env sid = path_join (pc_artifact_dir (d_cfg env)) sid"

definition provision_liquid ::
    "denv \<Rightarrow> provision_event \<Rightarrow> liquid_spec \<Rightarrow> provisioned_service node_task" where
  "provision_liquid env ev spec =
     (let sid = pe_service_id ev; wasm = path_join (liquid_dir env sid) ''main.wasm'';
          progress = publish_progress env sid in
      and_then (fresh_uuid env) (\<lambda>svc_uuid.
      and_then (progress Downloading ''Downloading Wasm module from object storage'') (\<lambda>_.
      and_then (with_context ''downloading wasm from Object Storage''
        (download env (ls_artifact_key spec) wasm)) (\<lambda>_.
      and_then (case ls_artifact_sha256 spec of None \<Rightarrow> finish ()
                | Some expected \<Rightarrow>
                    and_then (progress Verifying ''Verifying artifact integrity'') (\<lambda>_.
                    with_context ''wasm integrity check'' (verify_artifact env wasm expected))) (\<lambda>_.
      and_then (with_context ''writing liquid metadata for wake recovery''
        (write_file env (path_join (liquid_dir env sid) ''metadata.json'')
           (d_show_json env (liquid_metadata env ev)))) (\<lambda>_.
      and_then (progress Starting ''Starting Wasmtime runtime'') (\<lambda>_.
      and_then (with_context ''starting wasm HTTP shim'' (wasm_serve env wasm (pe_app_name ev) (pe_env_vars ev))) (\<lambda>port.
      and_then (progress HealthCheck ''Verifying Wasm module responds to requests'') (\<lambda>_.
      and_then (with_context ''wasm HTTP readiness probe failed''
        (startup_probe env (localhost_addr port) None)) (\<lambda>_.
      and_then (modify (register_liquid sid
        \<lparr>lh_workspace_id = pe_tenant_id ev, lh_invocations = 0, lh_port = port\<rparr>)) (\<lambda>_.
      and_then (progress Running ''Wasm module is live'') (\<lambda>_.
      finish \<lparr>ps_id = svc_uuid, ps_engine = Liquid, ps_upstream = Some (localhost_addr port),
              ps_snapshot_key = None, ps_tap_name = None, ps_fc_pid = None\<rparr>))))))))))))"

section \<open>Failures\<close>

definition permanent_marks :: "string list" where
  "permanent_marks =
     [''artifact integrity failed'', ''startup probe failed'', ''readiness probe failed'',
      ''wasm http readiness probe failed'', ''invalid elf'', ''wasm compile'',
      ''not a valid wasm module'']"

definition classify_error :: "denv \<Rightarrow> string \<Rightarrow> failure_kind" where
  "classify_error env m =
     (if list_ex (\<lambda>mark. contains_str mark (d_lower env m)) permanent_marks then Permanent else Transient)"

definition mark_failed :: "denv \<Rightarrow> string \<Rightarrow> string \<Rightarrow> unit node_task" where
  "mark_failed env sid reason =
     ignoring (and_then (db_conn env) (\<lambda>_.
       case d_parse_uuid env sid of
         None \<Rightarrow> finish ()
       | Some u \<Rightarrow> ignoring (db_update env (\<lambda>r. sv_id r = u \<and> node_live r)
           (\<lambda>r. r\<lparr>sv_status := ''failed'', sv_failure_reason := Some reason,
                  nd_attempts := nd_attempts r + 1\<rparr>))))"

definition rollback_provision :: "denv \<Rightarrow> provision_event \<Rightarrow> string \<Rightarrow> failure_kind node_task" where
  "rollback_provision env ev m =
     (let sid = pe_service_id ev in
      and_then (publish_progress env sid Failed m) (\<lambda>_.
      and_then (mark_failed env sid m) (\<lambda>_.
      and_then
        (case pe_spec ev of
           SpecMetal _ \<Rightarrow>
             and_then (locked (take_vm sid)) (\<lambda>handle.
             case handle of None \<Rightarrow> finish ()
             | Some h \<Rightarrow>
                 and_then (modify (kill_process (vh_fc_pid h))) (\<lambda>_.
                 and_then (modify (release_tap_index (vh_tap_name h))) (\<lambda>_.
                 deprovision_metal env sid h)))
         | SpecLiquid _ \<Rightarrow> modify (remove_liquid sid)) (\<lambda>_.
      finish (classify_error env m)))))"

section \<open>Provisioning\<close>

definition record_provisioned :: "denv \<Rightarrow> uuid \<Rightarrow> provisioned_service \<Rightarrow> node_row list node_task" where
  "record_provisioned env u svc =
     and_then (with_context ''db pool'' (db_conn env)) (\<lambda>_.
     if ps_snapshot_key svc \<noteq> None then
       with_context ''writing snapshot_key + node_id to services''
         (db_update env (\<lambda>r. sv_id r = u)
            (\<lambda>r. r\<lparr>sv_status := ''ready'', nd_node_id := Some (pc_node_id (d_cfg env)),
                   sv_snapshot_key := ps_snapshot_key svc\<rparr>))
     else
       with_context ''writing upstream_addr + node_id to services''
         (db_update env (\<lambda>r. sv_id r = u)
            (\<lambda>r. r\<lparr>sv_upstream := ps_upstream svc, sv_status := ''running'',
                   nd_node_id := Some (pc_node_id (d_cfg env)), nd_tap_name := ps_tap_name svc,
                   nd_fc_pid := map_option (\<lambda>p. wrap_i32 (int p)) (ps_fc_pid svc),
                   nd_vm_id := (if ps_engine svc = Metal then Some (ps_id svc) else None)\<rparr>)))"

definition provision :: "denv \<Rightarrow> provision_event \<Rightarrow> provisioned_service node_task" where
  "provision env ev =
     and_then (publish_progress env (pe_service_id ev) Queued ''Picked up by daemon'') (\<lambda>_.
     and_then (case pe_spec ev of SpecMetal spec \<Rightarrow> provision_metal env ev spec
               | SpecLiquid spec \<Rightarrow> provision_liquid env ev spec) (\<lambda>svc.
     and_then (with_context ''invalid service_id UUID in event''
       (parsed_uuid env (pe_service_id ev))) (\<lambda>u.
     and_then (attempt (record_provisioned env u svc)) (\<lambda>db_result.
     case db_result of
       Inl m \<Rightarrow> and_then (rollback_provision env ev m) (\<lambda>_. bail m)
     | Inr _ \<Rightarrow>
         and_then
           (case ps_upstream svc of None \<Rightarrow> finish ()
            | Some addr \<Rightarrow>
                if pe_slug ev = [] then finish ()
                else ignoring (publish env subject_route_updated
                       (EvRouteUpdated \<lparr>ru_slug = pe_slug ev, ru_upstream_addr = addr\<rparr>))) (\<lambda>_.
         finish svc)))))"

end
