(* ===== verification/Wake.thy ===== *)
theory Wake
  imports Provision
begin

text \<open>
  Waking a service (\<open>wake.rs\<close>): a Metal VM from its snapshot, a Wasm service from the files
  its provisioning left on the node.
\<close>

section \<open>Metal, from a snapshot\<close>

text \<open>Up to the registration, after which the guard of the index is disarmed.\<close>

definition wake_boot ::
    "denv \<Rightarrow> wake_event \<Rightarrow> string \<times> string \<Rightarrow> string \<Rightarrow> string \<Rightarrow> string \<Rightarrow> nat node_task" where
  "wake_boot env ev snap tap vm_id addr =
     (let sid = wk_service_id ev; cfg = d_cfg env;
          serial_log = pc_artifact_dir cfg @ ''/'' @ sid @ ''/serial.log'' in
      and_then (with_context ''attach TAP'' (attach_to_bridge env tap (pc_bridge cfg))) (\<lambda>_.
      and_then (with_context ''tc'' (tc_apply env tap default_quota)) (\<lambda>_.
      and_then (with_context ''eBPF'' (ebpf_attach env tap)) (\<lambda>_.
      and_then (with_context ''restoring VM from snapshot'' (restore_vm env vm_id snap serial_log)) (\<lambda>(pid, sock).
      and_then (with_context ''cgroup limits''
        (cgroup_apply env sid pid (pc_rootfs_dev cfg) default_quota 128)) (\<lambda>_.
      and_then (attempt (probe_once env)) (\<lambda>alive.
      case alive of
        Inr _ \<Rightarrow> finish pid
      | Inl _ \<Rightarrow> bail (''wake health check timed out after 5s '' @ em_dash
                       @ '' app not listening on '' @ addr))))))))"

text \<open>What a wake records and announces, for either engine.\<close>

definition announce_wake :: "denv \<Rightarrow> wake_event \<Rightarrow> string \<Rightarrow> uuid node_task \<Rightarrow> unit node_task" where
  "announce_wake env ev addr service_uuid =
     and_then (with_context ''db pool'' (db_conn env)) (\<lambda>_.
     and_then service_uuid (\<lambda>u.
     and_then (with_context ''updating service status to running''
       (db_update env (\<lambda>r. sv_id r = u)
          (\<lambda>r. r\<lparr>sv_status := ''running'', sv_upstream := Some addr,
                 nd_node_id := Some (pc_node_id (d_cfg env))\<rparr>))) (\<lambda>_.
     ignoring (publish env subject_route_updated
       (EvRouteUpdated \<lparr>ru_slug = wk_slug ev, ru_upstream_addr = addr\<rparr>)))))"

definition read_port :: "denv \<Rightarrow> wake_event \<Rightarrow> int node_task" where
  "read_port env ev =
     and_then (with_context ''db pool'' (db_conn env)) (\<lambda>_.
     and_then (with_context ''invalid service_id'' (parsed_uuid env (wk_service_id ev))) (\<lambda>u.
     with_context ''reading service port''
       (and_then (db_select env (\<lambda>r. sv_id r = u)) (\<lambda>rows.
        case rows of [r] \<Rightarrow> finish (sv_port r)
        | _ \<Rightarrow> bail ''query returned an unexpected number of rows''))))"

definition wake_from_snapshot :: "denv \<Rightarrow> wake_event \<Rightarrow> unit node_task" where
  "wake_from_snapshot env ev =
     (let sid = wk_service_id ev in
      and_then (with_context ''downloading snapshot''
        (ensure_snapshot env (wk_snapshot_key ev) sid)) (\<lambda>snap.
      and_then (atomically allocate_tap_index) (\<lambda>idx.
      let tap = tap_name idx in
      and_then (attempt (with_tap_guard tap
        (and_then (with_context ''TAP index pool exhausted''
           (case guest_ip idx of Inl e \<Rightarrow> bail e | Inr ip \<Rightarrow> finish ip)) (\<lambda>ip.
         and_then (fresh_uuid env) (\<lambda>vm_id.
         and_then (read_port env ev) (\<lambda>port.
         let addr = ip @ '':'' @ show_int port in
         and_then (with_context ''create TAP for wake'' (create_tap env tap)) (\<lambda>_.
         and_then (attempt (wake_boot env ev snap tap vm_id addr)) (\<lambda>booted.
         case booted of
           Inr pid \<Rightarrow> finish (pid, vm_id, addr)
         | Inl m \<Rightarrow> and_then (ignoring (delete_tap env tap)) (\<lambda>_. bail m))))))))) (\<lambda>booted.
      case booted of
        Inl m \<Rightarrow> and_then (drop_tap_guard tap) (\<lambda>_. bail m)
      | Inr (pid, vm_id, addr) \<Rightarrow>
          and_then (with_tap_guard tap (modify (register_vm sid (handle_of env tap pid vm_id)))) (\<lambda>_.
          and_then (attempt (announce_wake env ev addr (parsed_uuid env sid))) (\<lambda>told.
          case told of
            Inr _ \<Rightarrow> finish ()
          | Inl m \<Rightarrow> and_then (ignoring (delete_tap env tap)) (\<lambda>_. bail m)))))))"

section \<open>Liquid, from zero\<close>

text \<open>\<open>serde_json::from_value\<close> into a map of strings: every value must be a string.\<close>

fun string_entries :: "(string \<times> json) list \<Rightarrow> (string \<times> string) list option" where
  "string_entries [] = Some []"
| "string_entries ((k, JStr v) # kvs) = map_option (\<lambda>es. (k, v) # es) (string_entries kvs)"
| "string_entries _ = None"

definition env_vars_of :: "json \<Rightarrow> env_map" where
  "env_vars_of metadata =
     (case json_get metadata ''env_vars'' of
        Some (JObj kvs) \<Rightarrow> (case string_entries kvs of None \<Rightarrow> Map.empty | Some es \<Rightarrow> map_of es)
      | _ \<Rightarrow> Map.empty)"

text \<open>The accept loop goes on if a step after the registration fails: the entry holds it.\<close>

definition wake_liquid :: "denv \<Rightarrow> wake_event \<Rightarrow> unit node_task" where
  "wake_liquid env ev =
     (let sid = wk_service_id ev; dir = liquid_dir env sid; wasm = path_join dir ''main.wasm'' in
      and_then (with_context (''reading liquid metadata '' @ em_dash
                  @ '' was this service provisioned with metadata.json?'')
        (read_file env (path_join dir ''metadata.json''))) (\<lambda>text.
      and_then (with_context ''parsing liquid metadata.json''
        (case d_parse_json env text of None \<Rightarrow> bail ''invalid JSON'' | Some j \<Rightarrow> finish j)) (\<lambda>metadata.
      and_then (file_exists env wasm) (\<lambda>there.
      if \<not> there then bail (''wasm binary not found at '' @ wasm @ '' '' @ em_dash
                             @ '' artifacts may have been cleaned up'')
      else
      and_then (with_context ''re-starting wasm HTTP shim'' (wasm_serve env wasm
                  (or_default ''unknown'' (get_str metadata ''app_name'')) (env_vars_of metadata))) (\<lambda>port.
      and_then (modify (register_liquid sid
        \<lparr>lh_workspace_id = or_default [] (get_str metadata ''tenant_id''), lh_invocations = 0,
         lh_port = port\<rparr>)) (\<lambda>_.
      announce_wake env ev (localhost_addr port)
        (with_context ''invalid service_id'' (parsed_uuid env sid))))))))"

end
