(* ===== verification/NodeTasks.thy ===== *)
theory NodeTasks
  imports Wake
begin

text \<open>
  The daemon's background tasks (\<open>tasks/\<close>), each as the body of one tick or one message:
  the crash watcher, the eBPF audit, the idle checker, the orphan sweep, the traffic pulse
  batch, the sweep of the Wasm registry, the suspension of a workspace, and the Wasm usage
  report. A tick that cannot reach the database does nothing.
\<close>

text \<open>A body whose error only ends the tick.\<close>

definition with_db :: "denv \<Rightarrow> unit node_task \<Rightarrow> unit node_task" where
  "with_db env t =
     and_then (attempt (db_conn env)) (\<lambda>r. case r of Inl _ \<Rightarrow> finish () | Inr _ \<Rightarrow> t)"

definition evict :: "denv \<Rightarrow> string \<Rightarrow> unit node_task" where
  "evict env slug = ignoring (publish env subject_route_removed (EvRouteRemoved \<lparr>rr_slug = slug\<rparr>))"

section \<open>Crash watcher\<close>

text \<open>
  The registered VMs whose process has ended, with the exit code when it is known
  (\<open>d_exit_code\<close> stands for what \<open>waitpid\<close> says of a child).
\<close>

definition dead_vms ::
    "(nat \<Rightarrow> int option) \<Rightarrow> node \<Rightarrow> (string \<times> vm_handle \<times> int option) list" where
  "dead_vms exit_code s =
     map (\<lambda>(sid, h). (sid, h, exit_code (vh_fc_pid h)))
       (filter (\<lambda>(sid, h). vh_fc_pid h \<notin> n_procs s) (n_registry s))"

definition collect_crashed ::
    "(nat \<Rightarrow> int option) \<Rightarrow> (string \<times> vm_handle \<times> int option) list node_task" where
  "collect_crashed exit_code =
     locked (\<lambda>s. (dead_vms exit_code s,
       s\<lparr>n_registry := fold (\<lambda>(sid, _). AList.delete sid) (dead_vms exit_code s) (n_registry s)\<rparr>))"

definition subject_service_crashed :: string where
  "subject_service_crashed = ''platform.service_crashed''"

definition report_crash :: "denv \<Rightarrow> string \<Rightarrow> int option \<Rightarrow> unit node_task" where
  "report_crash env sid code =
     with_db env
       (case d_parse_uuid env sid of
          None \<Rightarrow> finish ()
        | Some u \<Rightarrow>
            and_then (attempt (db_update env
              (\<lambda>r. sv_id r = u \<and> on_node env r \<and> sv_status r = ''running'' \<and> node_live r)
              (\<lambda>r. r\<lparr>sv_status := ''crashed'', sv_upstream := None\<rparr>))) (\<lambda>rows.
            case rows of
              Inr [r] \<Rightarrow>
                and_then (evict env (sv_slug r)) (\<lambda>_.
                ignoring (publish env subject_service_crashed
                  (EvServiceCrashed \<lparr>sc_service_id = sid, sc_slug = sv_slug r, sc_exit_code = code\<rparr>)))
            | _ \<Rightarrow> finish ()))"

definition release_and_tear_down :: "denv \<Rightarrow> string \<Rightarrow> vm_handle \<Rightarrow> unit node_task" where
  "release_and_tear_down env sid h =
     and_then (modify (release_tap_index (vh_tap_name h))) (\<lambda>_. deprovision_metal env sid h)"

definition crash_watch :: "denv \<Rightarrow> (nat \<Rightarrow> int option) \<Rightarrow> unit node_task" where
  "crash_watch env exit_code =
     and_then (collect_crashed exit_code) (\<lambda>crashed.
     and_then (each (\<lambda>(sid, h, code). report_crash env sid code) crashed) (\<lambda>_.
     each (\<lambda>(sid, h, code). release_and_tear_down env sid h) crashed))"

section \<open>eBPF audit\<close>

definition kill_unisolated :: "denv \<Rightarrow> string \<Rightarrow> unit node_task" where
  "kill_unisolated env tap =
     and_then (attempt (db_select env (\<lambda>r. nd_tap_name r = Some tap \<and> on_node env r
         \<and> sv_status r = ''running'' \<and> node_live r))) (\<lambda>rows.
     case rows of
       Inr [r] \<Rightarrow>
         and_then (case nd_fc_pid r of None \<Rightarrow> finish ()
                   | Some pid \<Rightarrow> modify (kill_process (nat pid))) (\<lambda>_.
         and_then (ignoring (db_update env (\<lambda>x. sv_id x = sv_id r \<and> node_live x)
           (\<lambda>x. x\<lparr>sv_status := ''crashed'', sv_upstream := None\<rparr>))) (\<lambda>_.
         and_then (ignoring (locked (take_vm (row_id env r)))) (\<lambda>_.
         ebpf_detach tap)))
     | _ \<Rightarrow> ebpf_detach tap)"

definition ebpf_audit :: "denv \<Rightarrow> unit node_task" where
  "ebpf_audit env =
     and_then (locked (\<lambda>s. (n_filters s, s))) (\<lambda>taps.
     and_then (audit_filters env taps) (\<lambda>missing.
     if missing = [] then finish () else with_db env (each (kill_unisolated env) missing)))"

section \<open>Idle checker\<close>

definition idle_since :: "denv \<Rightarrow> engine \<Rightarrow> int \<Rightarrow> node_row \<Rightarrow> bool" where
  "idle_since env eng idle_secs r =
     (sv_engine r = engine_as_str eng \<and> sv_status r = ''running'' \<and> on_node env r \<and> node_live r
      \<and> (case nd_last_request r of None \<Rightarrow> sv_created_at r | Some t \<Rightarrow> t) < d_now env - idle_secs)"

definition stop_row :: "node_row \<Rightarrow> node_row" where
  "stop_row r = r\<lparr>sv_status := ''stopped'', sv_upstream := None\<rparr>"

text \<open>Up to three attempts to publish; the service is put back if none succeeds.\<close>

fun publish_retry :: "denv \<Rightarrow> nat \<Rightarrow> string \<Rightarrow> event \<Rightarrow> bool node_task" where
  "publish_retry env 0 subject ev = finish False"
| "publish_retry env (Suc n) subject ev =
     and_then (attempt (jet_publish env subject ev)) (\<lambda>r.
     case r of Inr _ \<Rightarrow> finish True | Inl _ \<Rightarrow> publish_retry env n subject ev)"

definition idle_metal_row :: "denv \<Rightarrow> node_row \<Rightarrow> unit node_task" where
  "idle_metal_row env r =
     and_then (publish_retry env 3 subject_deprovision
       (EvDeprovision \<lparr>de_service_id = row_id env r, de_slug = sv_slug r, de_engine = Metal\<rparr>)) (\<lambda>published.
     if published then finish ()
     else ignoring (db_update env (\<lambda>x. sv_id x = sv_id r \<and> sv_status x = ''stopped'' \<and> node_live x)
            (\<lambda>x. x\<lparr>sv_status := ''running''\<rparr>)))"

definition idle_metal :: "denv \<Rightarrow> int \<Rightarrow> unit node_task" where
  "idle_metal env secs =
     (if 0 < secs then
        and_then (attempt (db_update env (idle_since env Metal secs) stop_row)) (\<lambda>rows.
        case rows of Inl _ \<Rightarrow> finish () | Inr rs \<Rightarrow> each (idle_metal_row env) rs)
      else finish ())"

definition idle_liquid_row :: "denv \<Rightarrow> node_row \<Rightarrow> unit node_task" where
  "idle_liquid_row env r =
     and_then (modify (remove_liquid (row_id env r))) (\<lambda>_. evict env (sv_slug r))"

definition idle_liquid :: "denv \<Rightarrow> int \<Rightarrow> unit node_task" where
  "idle_liquid env secs =
     (if 0 < secs then
        and_then (attempt (db_update env (idle_since env Liquid secs) stop_row)) (\<lambda>rows.
        case rows of Inl _ \<Rightarrow> finish () | Inr rs \<Rightarrow> each (idle_liquid_row env) rs)
      else finish ())"

definition liquid_idle_secs :: "denv \<Rightarrow> int" where
  "liquid_idle_secs env =
     or_default 300 (parse_i64 (env_or (d_vars env) ''LIQUID_IDLE_TIMEOUT_SECS'' ''300''))"

definition idle_check :: "denv \<Rightarrow> int \<Rightarrow> unit node_task" where
  "idle_check env idle_timeout_secs =
     with_db env (and_then (idle_metal env idle_timeout_secs) (\<lambda>_.
       idle_liquid env (liquid_idle_secs env)))"

section \<open>Orphan sweep\<close>

definition workspace_deleted :: "node \<Rightarrow> uuid \<Rightarrow> bool" where
  "workspace_deleted s wid =
     list_ex (\<lambda>w. ws_id w = wid \<and> ws_deleted_at w \<noteq> None) (n_workspaces s)"

definition sweep_orphans :: "denv \<Rightarrow> node_row list node_task" where
  "sweep_orphans env =
     sys_call env (\<lambda>s. update_services
       (\<lambda>r. workspace_deleted s (sv_workspace r) \<and> on_node env r
            \<and> sv_status r \<in> {''running'', ''provisioning''} \<and> node_live r) stop_row s)"

definition orphan_row :: "denv \<Rightarrow> node_row \<Rightarrow> unit node_task" where
  "orphan_row env r =
     (case engine_from_str (sv_engine r) of
        Inl _ \<Rightarrow> finish ()
      | Inr eng \<Rightarrow> ignoring (jet_publish env subject_deprovision
          (EvDeprovision \<lparr>de_service_id = row_id env r, de_slug = sv_slug r, de_engine = eng\<rparr>)))"

definition orphan_sweep :: "denv \<Rightarrow> unit node_task" where
  "orphan_sweep env =
     with_db env (and_then (attempt (sweep_orphans env)) (\<lambda>rows.
       case rows of Inl _ \<Rightarrow> finish () | Inr rs \<Rightarrow> each (orphan_row env) rs))"

section \<open>Traffic pulses\<close>

definition PULSE_PENDING_MAX :: nat where
  "PULSE_PENDING_MAX = 10000"

definition pulse_received :: "string list \<Rightarrow> string \<Rightarrow> string list" where
  "pulse_received pending slug =
     (if length pending < PULSE_PENDING_MAX then List.insert slug pending else pending)"

text \<open>The pending slugs are drained before anything can fail.\<close>

definition pulse_flush :: "denv \<Rightarrow> string list \<Rightarrow> unit node_task" where
  "pulse_flush env pending =
     (if pending = [] then finish ()
      else with_db env (ignoring (db_update env
        (\<lambda>r. sv_slug r \<in> set pending \<and> sv_status r = ''running'' \<and> node_live r)
        (\<lambda>r. r\<lparr>nd_last_request := Some (d_now env)\<rparr>))))"

section \<open>Wasm registry sweep\<close>

definition drop_liquids :: "(string \<Rightarrow> bool) \<Rightarrow> node \<Rightarrow> node" where
  "drop_liquids stale s =
     s\<lparr>n_liquid := filter (\<lambda>(sid, h). \<not> stale sid) (n_liquid s),
       n_shims := (let gone = map (lh_port \<circ> snd) (filter (\<lambda>(sid, h). stale sid) (n_liquid s))
                   in filter (\<lambda>(port, _). port \<notin> set gone) (n_shims s))\<rparr>"

definition registry_sweep :: "denv \<Rightarrow> unit node_task" where
  "registry_sweep env =
     and_then (locked (\<lambda>s. (map fst (n_liquid s), s))) (\<lambda>ids.
     if ids = [] then finish ()
     else with_db env
       (let uuids = List.map_filter (d_parse_uuid env) ids in
        and_then (attempt (db_select env (\<lambda>r. sv_id r \<in> set uuids \<and> on_node env r
            \<and> sv_status r = ''running'' \<and> node_live r))) (\<lambda>rows.
        case rows of Inl _ \<Rightarrow> finish ()
        | Inr rs \<Rightarrow> modify (drop_liquids (\<lambda>sid. sid \<notin> set (map (row_id env) rs))))))"

section \<open>Suspension\<close>

definition draining_row :: "node_row \<Rightarrow> node_row" where
  "draining_row r = r\<lparr>sv_status := ''draining''\<rparr>"

definition suspend_row :: "denv \<Rightarrow> node_row \<Rightarrow> unit node_task" where
  "suspend_row env r =
     (if sv_engine r = ''metal'' then
        and_then (locked (take_vm (row_id env r))) (\<lambda>handle.
        case handle of None \<Rightarrow> finish () | Some h \<Rightarrow> deprovision_metal env (row_id env r) h)
      else if sv_engine r = ''liquid'' then modify (remove_liquid (row_id env r))
      else finish ())"

definition suspend_workspace :: "denv \<Rightarrow> uuid \<Rightarrow> unit node_task" where
  "suspend_workspace env wid =
     and_then (attempt (db_update env (\<lambda>r. sv_workspace r = wid \<and> on_node env r
         \<and> sv_status r = ''running'' \<and> node_live r) draining_row)) (\<lambda>rows.
     case rows of
       Inl _ \<Rightarrow> finish ()
     | Inr rs \<Rightarrow>
         and_then (each (\<lambda>r. evict env (sv_slug r)) rs) (\<lambda>_.
         if rs = [] then finish ()
         else
           and_then (ignoring (db_update env (\<lambda>r. sv_workspace r = wid \<and> on_node env r
             \<and> sv_status r = ''draining'' \<and> node_live r)
             (\<lambda>r. r\<lparr>sv_status := ''suspended'', sv_upstream := None\<rparr>))) (\<lambda>_.
           each (suspend_row env) rs)))"

definition suspend_message :: "denv \<Rightarrow> suspend_event \<Rightarrow> unit node_task" where
  "suspend_message env ev =
     with_db env
       (case d_parse_uuid env (su_workspace_id ev) of None \<Rightarrow> finish ()
        | Some wid \<Rightarrow> suspend_workspace env wid)"

section \<open>Wasm usage\<close>

definition LIQUID_BACKLOG_MAX :: nat where
  "LIQUID_BACKLOG_MAX = 10000"

text \<open>
  One tick, under the lock of the registry: \<open>sends n\<close> says whether the \<open>n\<close>-th publish of the
  tick succeeds. The counters are drained, what could not be sent goes to the backlog.
\<close>

fun report_services ::
    "(nat \<Rightarrow> bool) \<Rightarrow> nat \<Rightarrow> (string \<times> nat) list \<Rightarrow> (string \<times> liquid_handle) list
     \<Rightarrow> (string \<times> nat) list \<times> liquid_usage_event list" where
  "report_services sends n backlog [] = (backlog, [])"
| "report_services sends n backlog ((sid, h) # reg) =
     (let total = (or_default 0 (map_of backlog sid) + lh_invocations h) mod 2 ^ 64;
          rest = AList.delete sid backlog in
      if total = 0 then report_services sends n rest reg
      else if sends n then
        (case report_services sends (Suc n) rest reg of (b, evs) \<Rightarrow>
          (b, \<lparr>lu_workspace_id = lh_workspace_id h, lu_service_id = sid, lu_invocations = total\<rparr> # evs))
      else report_services sends (Suc n) (AList.update sid total rest) reg)"

definition usage_tick ::
    "(nat \<Rightarrow> bool) \<Rightarrow> (string \<times> nat) list \<Rightarrow> (string \<times> liquid_handle) list
     \<Rightarrow> (string \<times> nat) list \<times> (string \<times> liquid_handle) list \<times> liquid_usage_event list" where
  "usage_tick sends backlog reg =
     (case report_services sends 0 backlog reg of (b, evs) \<Rightarrow>
        let kept = filter (\<lambda>(sid, _). sid \<in> set (map fst reg)) b in
        (if length kept \<le> LIQUID_BACKLOG_MAX then kept else [],
         map (\<lambda>(sid, h). (sid, h\<lparr>lh_invocations := 0\<rparr>)) reg, evs))"

end
