(* ===== verification/Daemon.thy ===== *)
theory Daemon
  imports NodeTasks
begin

text \<open>
  The daemon as a whole: the handlers of its three JetStream consumers and its shutdown
  (\<open>run.rs\<close>), the clean-up and recovery of its start (\<open>startup.rs\<close> and the clean-up
  functions of \<open>provision.rs\<close>). The semaphore that caps concurrent provisions only holds
  tasks back, so it is left out.
\<close>

section \<open>Messages\<close>

datatype ack = Ack | Nak "nat option"

text \<open>A payload that does not parse is acknowledged, so that it is not delivered again.\<close>

definition set_provisioning :: "denv \<Rightarrow> string \<Rightarrow> unit node_task" where
  "set_provisioning env sid =
     with_db env (case d_parse_uuid env sid of None \<Rightarrow> finish ()
       | Some u \<Rightarrow> ignoring (db_update env (\<lambda>r. sv_id r = u) (\<lambda>r. r\<lparr>sv_status := ''provisioning''\<rparr>)))"

definition provision_failed :: "denv \<Rightarrow> provision_event \<Rightarrow> string \<Rightarrow> nat \<Rightarrow> ack node_task" where
  "provision_failed env ev m delivered =
     and_then (rollback_provision env ev m) (\<lambda>kind.
     case kind of
       Permanent \<Rightarrow> finish Ack
     | Transient \<Rightarrow> and_then (set_provisioning env (pe_service_id ev)) (\<lambda>_.
         finish (Nak (Some (15 * delivered)))))"

definition provision_timeout :: "denv \<Rightarrow> nat" where
  "provision_timeout env = timeout_secs env ''PROVISION_TIMEOUT_SECS'' 600"

definition engine_enabled :: "features \<Rightarrow> engine \<Rightarrow> bool" where
  "engine_enabled f eng = (case eng of Metal \<Rightarrow> enable_metal f | Liquid \<Rightarrow> enable_liquid f)"

definition provision_message :: "denv \<Rightarrow> provision_event option \<Rightarrow> nat \<Rightarrow> ack node_task" where
  "provision_message env payload delivered =
     (case payload of
        None \<Rightarrow> finish Ack
      | Some ev \<Rightarrow>
          if \<not> engine_enabled (d_features env) (pe_engine ev) \<or> maintenance_mode (d_features env)
          then finish (Nak None)
          else
            and_then (timeout (\<lambda>s. d_expired env ''provision'' (n_calls s)) (provision env ev)) (\<lambda>r.
            case r of
              Some (Inr svc) \<Rightarrow> finish Ack
            | Some (Inl m) \<Rightarrow> provision_failed env ev m delivered
            | None \<Rightarrow> provision_failed env ev
                (''provision timed out after '' @ show_nat (provision_timeout env) @ ''s'') delivered))"

definition already_running :: "wake_event \<Rightarrow> node \<Rightarrow> bool" where
  "already_running ev s =
     (case wk_engine ev of
        Metal \<Rightarrow> map_of (n_registry s) (wk_service_id ev) \<noteq> None
      | Liquid \<Rightarrow> map_of (n_liquid s) (wk_service_id ev) \<noteq> None)"

definition wake_message :: "denv \<Rightarrow> wake_event option \<Rightarrow> nat \<Rightarrow> ack node_task" where
  "wake_message env payload delivered =
     (case payload of
        None \<Rightarrow> finish Ack
      | Some ev \<Rightarrow>
          and_then (locked (\<lambda>s. (already_running ev s, s))) (\<lambda>running.
          if running then finish Ack
          else
            and_then (attempt (case wk_engine ev of Metal \<Rightarrow> wake_from_snapshot env ev
                               | Liquid \<Rightarrow> wake_liquid env ev)) (\<lambda>r.
            case r of Inr _ \<Rightarrow> finish Ack | Inl _ \<Rightarrow> finish (Nak (Some (5 * delivered))))))"

definition deprovision_message :: "denv \<Rightarrow> deprovision_event option \<Rightarrow> ack node_task" where
  "deprovision_message env payload =
     (case payload of
        None \<Rightarrow> finish Ack
      | Some ev \<Rightarrow>
          let sid = de_service_id ev in
          and_then
            (case de_engine ev of
               Metal \<Rightarrow>
                 and_then (locked (take_vm sid)) (\<lambda>handle.
                 case handle of None \<Rightarrow> finish () | Some h \<Rightarrow> release_and_tear_down env sid h)
             | Liquid \<Rightarrow>
                 and_then (modify (remove_liquid sid)) (\<lambda>_.
                 ignoring (remove_dir_all env (pc_artifact_dir (d_cfg env) @ ''/'' @ sid)))) (\<lambda>_.
          and_then (evict env (de_slug ev)) (\<lambda>_. finish Ack)))"

section \<open>Shutdown\<close>

definition drain_registry :: "(string \<times> vm_handle) list node_task" where
  "drain_registry = locked (\<lambda>s. (n_registry s, s\<lparr>n_registry := []\<rparr>))"

definition stop_vm_row :: "denv \<Rightarrow> string \<Rightarrow> unit node_task" where
  "stop_vm_row env sid =
     (case d_parse_uuid env sid of
        None \<Rightarrow> finish ()
      | Some u \<Rightarrow>
          and_then (attempt (db_update env
            (\<lambda>r. sv_id r = u \<and> on_node env r \<and> sv_status r = ''running'' \<and> node_live r) stop_row)) (\<lambda>rows.
          case rows of Inr [r] \<Rightarrow> evict env (sv_slug r) | _ \<Rightarrow> finish ()))"

definition shutdown :: "denv \<Rightarrow> unit node_task" where
  "shutdown env =
     and_then drain_registry (\<lambda>vms.
     if vms = [] then finish ()
     else
       and_then (with_db env (each (\<lambda>(sid, h). stop_vm_row env sid) vms)) (\<lambda>_.
       each (\<lambda>(sid, h). release_and_tear_down env sid h) vms))"

section \<open>Start\<close>

text \<open>\<open>unwrap_or_default\<close>: a query that fails selects nothing.\<close>

definition select_or_none :: "denv \<Rightarrow> (node_row \<Rightarrow> bool) \<Rightarrow> node_row list node_task" where
  "select_or_none env p =
     and_then (attempt (db_select env p)) (\<lambda>r. finish (case r of Inl _ \<Rightarrow> [] | Inr rs \<Rightarrow> rs))"

definition update_or_none ::
    "denv \<Rightarrow> (node_row \<Rightarrow> bool) \<Rightarrow> (node_row \<Rightarrow> node_row) \<Rightarrow> node_row list node_task" where
  "update_or_none env p f =
     and_then (attempt (db_update env p f)) (\<lambda>r. finish (case r of Inl _ \<Rightarrow> [] | Inr rs \<Rightarrow> rs))"

definition finalize_stale :: "denv \<Rightarrow> string list node_task" where
  "finalize_stale env =
     and_then (attempt (db_conn env)) (\<lambda>c.
     case c of Inl _ \<Rightarrow> finish []
     | Inr _ \<Rightarrow>
         and_then (update_or_none env (\<lambda>r. on_node env r \<and> sv_status r = ''draining'' \<and> node_live r)
           (\<lambda>r. r\<lparr>sv_status := ''suspended'', sv_upstream := None\<rparr>)) (\<lambda>_.
         and_then (update_or_none env (\<lambda>r. on_node env r \<and> sv_engine r = ''liquid''
           \<and> sv_status r = ''running'' \<and> node_live r) stop_row) (\<lambda>rows.
         finish (map sv_slug rows))))"

definition cleanup_orphaned_taps :: "denv \<Rightarrow> unit node_task" where
  "cleanup_orphaned_taps env =
     with_db env
       (and_then (select_or_none env (holds_tap env [''running'', ''provisioning''])) (\<lambda>rows.
        let known = List.map_filter nd_tap_name rows in
        and_then (attempt (sys_call env (\<lambda>s. (Inr (n_bridged s), s)))) (\<lambda>entries.
        case entries of Inl _ \<Rightarrow> finish ()
        | Inr names \<Rightarrow>
            each (\<lambda>name. if \<not> starts_with ''tap'' name \<or> name \<in> set known then finish ()
                         else ignoring (command env [''ip'', ''link'', ''del'', name])) names)))"

definition present_here :: "denv \<Rightarrow> node_row \<Rightarrow> bool" where
  "present_here env r =
     (on_node env r \<and> sv_status r \<in> {''running'', ''provisioning''} \<and> node_live r)"

definition cleanup_orphaned_artifacts :: "denv \<Rightarrow> unit node_task" where
  "cleanup_orphaned_artifacts env =
     (let dir = pc_artifact_dir (d_cfg env) in
      with_db env
       (and_then (select_or_none env (present_here env)) (\<lambda>rows.
        let known = map (row_id env) rows in
        and_then (attempt (sys_call env (\<lambda>s. (Inr (d_listing env dir (n_files s)), s)))) (\<lambda>entries.
        case entries of Inl _ \<Rightarrow> finish ()
        | Inr names \<Rightarrow>
            each (\<lambda>name. if name \<in> set known then finish ()
                         else ignoring (remove_dir_all env (path_join dir name))) names))))"

definition cleanup_orphaned_cgroups :: "denv \<Rightarrow> unit node_task" where
  "cleanup_orphaned_cgroups env =
     with_db env
       (and_then (select_or_none env (present_here env)) (\<lambda>rows.
        let known = map (row_id env) rows in
        and_then (attempt (sys_call env (\<lambda>s. (Inr (n_cgroups s), s)))) (\<lambda>entries.
        case entries of Inl _ \<Rightarrow> finish ()
        | Inr paths \<Rightarrow>
            each (\<lambda>path. if path \<in> set (map (\<lambda>sid. CGROUP_BASE @ ''/'' @ sid) known) then finish ()
                         else ignoring (sys_call env (\<lambda>s. (Inr (), s\<lparr>n_cgroups := removeAll path (n_cgroups s)\<rparr>))))
              paths)))"

definition crash_row :: "node_row \<Rightarrow> node_row" where
  "crash_row r = r\<lparr>sv_status := ''crashed'', sv_upstream := None\<rparr>"

text \<open>The handle a stale row gives: the process id of a row without one is 0.\<close>

definition stale_handle :: "node_row \<Rightarrow> vm_handle" where
  "stale_handle r =
     \<lparr>vh_tap_name = or_default [] (nd_tap_name r),
      vh_fc_pid = wrap_u32 (or_default 0 (nd_fc_pid r)),
      vh_vm_id = or_default [] (nd_vm_id r), vh_use_jailer = False, vh_chroot_base = []\<rparr>"

definition clean_stale_row :: "denv \<Rightarrow> node_row \<Rightarrow> unit node_task" where
  "clean_stale_row env r =
     (let h = stale_handle r; sid = row_id env r in
      and_then (case nd_fc_pid r of None \<Rightarrow> finish ()
                | Some pid \<Rightarrow> modify (\<lambda>s. if nat pid \<in> n_procs s then kill_process (nat pid) s else s)) (\<lambda>_.
      and_then (ignoring (db_update env (\<lambda>x. sv_id x = sv_id r \<and> node_live x) crash_row)) (\<lambda>_.
      and_then (modify (release_tap_index (vh_tap_name h))) (\<lambda>_.
      deprovision_metal env sid h))))"

definition cleanup_stale_provisioning :: "denv \<Rightarrow> unit node_task" where
  "cleanup_stale_provisioning env =
     with_db env
       (and_then (select_or_none env (holds_tap env [''provisioning'', ''failed''])) (\<lambda>rows.
        each (clean_stale_row env) rows))"

definition run_cleanup :: "denv \<Rightarrow> string list node_task" where
  "run_cleanup env =
     and_then (finalize_stale env) (\<lambda>slugs.
     and_then (init_tap_indices env) (\<lambda>_.
     and_then (cleanup_orphaned_taps env) (\<lambda>_.
     and_then (cleanup_orphaned_artifacts env) (\<lambda>_.
     and_then (cleanup_orphaned_cgroups env) (\<lambda>_.
     and_then (cleanup_stale_provisioning env) (\<lambda>_. finish slugs))))))"

definition kill_unattached :: "denv \<Rightarrow> string \<times> string \<Rightarrow> unit node_task" where
  "kill_unattached env p =
     (let sid = snd p in
      and_then (case d_parse_uuid env sid of None \<Rightarrow> finish ()
                | Some u \<Rightarrow> ignoring (db_update env (\<lambda>r. sv_id r = u \<and> node_live r) crash_row)) (\<lambda>_.
      and_then (attempt (db_select env (\<lambda>r. row_id env r = sid \<and> nd_fc_pid r \<noteq> None))) (\<lambda>rows.
      case rows of
        Inr [r] \<Rightarrow> modify (kill_process (nat (or_default 0 (nd_fc_pid r))))
      | _ \<Rightarrow> finish ())))"

definition reattach_ebpf :: "denv \<Rightarrow> unit node_task" where
  "reattach_ebpf env =
     with_db env
       (and_then (select_or_none env (holds_tap env [''running''])) (\<lambda>rows.
        and_then (reattach_all env (map (\<lambda>r. (or_default [] (nd_tap_name r), row_id env r)) rows)) (\<lambda>failed.
        each (kill_unattached env) failed)))"

definition recoverable :: "denv \<Rightarrow> node_row \<Rightarrow> bool" where
  "recoverable env r = (holds_tap env [''running''] r \<and> nd_fc_pid r \<noteq> None)"

definition recovered_handle :: "denv \<Rightarrow> node_row \<Rightarrow> vm_handle" where
  "recovered_handle env r =
     \<lparr>vh_tap_name = or_default [] (nd_tap_name r), vh_fc_pid = wrap_u32 (or_default 0 (nd_fc_pid r)),
      vh_vm_id = or_default [] (nd_vm_id r), vh_use_jailer = pc_use_jailer (d_cfg env),
      vh_chroot_base = pc_chroot_base (d_cfg env)\<rparr>"

text \<open>A row without a VM id cannot be decoded: the driver panics.\<close>

definition rebuild_registry :: "denv \<Rightarrow> unit node_task" where
  "rebuild_registry env =
     with_db env
       (and_then (select_or_none env (recoverable env)) (\<lambda>rows.
        if list_ex (\<lambda>r. nd_vm_id r = None) rows then Done (Inl Panicked)
        else modify (fold (\<lambda>r. register_vm (row_id env r) (recovered_handle env r)) rows)))"

definition connect_nats_and_evict :: "denv \<Rightarrow> string list \<Rightarrow> unit node_task" where
  "connect_nats_and_evict env slugs =
     and_then (sys_call env (\<lambda>s. (Inr (), s))) (\<lambda>_. each (evict env) slugs)"

definition daemon_start :: "denv \<Rightarrow> unit node_task" where
  "daemon_start env =
     and_then (run_cleanup env) (\<lambda>slugs.
     and_then (reattach_ebpf env) (\<lambda>_.
     and_then (rebuild_registry env) (\<lambda>_.
     connect_nats_and_evict env slugs)))"

end
