(* ===== verification/Views.thy ===== *)
theory Views
  imports Daemon
begin

text \<open>
  What the parts of the daemon leave alone. A view of the node that does not look at its
  devices, files, cgroups, filters, call counter and log is not changed by anything that only
  acts on the host (\<open>host_view\<close>); one that looks neither at the tables nor at the registry of
  Wasm services is not changed by the database work and the Liquid engine either
  (\<open>memory_view\<close>). The locales are interpreted on the views the later theories use.
\<close>

lemma untouched_spec [untouched_intros]:
  "(\<And>m. untouched v (f m)) \<Longrightarrow> (\<And>l. untouched v (g l)) \<Longrightarrow>
   untouched v (case x of SpecMetal m \<Rightarrow> f m | SpecLiquid l \<Rightarrow> g l)"
  by (simp split: engine_spec.split)

lemma untouched_list [untouched_intros]:
  "untouched v t \<Longrightarrow> (\<And>y ys. untouched v (f y ys)) \<Longrightarrow>
   untouched v (case xs of [] \<Rightarrow> t | y # ys \<Rightarrow> f y ys)"
  by (simp split: list.split)

lemma untouched_artifact_error [untouched_intros]:
  "untouched v a \<Longrightarrow> untouched v b \<Longrightarrow> (\<And>x y. untouched v (c x y)) \<Longrightarrow> (\<And>x. untouched v (d x)) \<Longrightarrow>
   untouched v (case e of OpenFailed \<Rightarrow> a | ReadFailed \<Rightarrow> b | IntegrityFailed x y \<Rightarrow> c x y
     | GlibcBinary x \<Rightarrow> d x)"
  by (simp split: artifact_error.split)

lemma untouched_Done [untouched_intros]: "untouched v (Done r)"
  by simp

section \<open>Host only\<close>

locale host_view =
  fixes v :: "node \<Rightarrow> 'v"
  assumes bump: "v (bump s) = v s"
    and logged: "v (log_effect x s) = v s"
    and devices: "v (s\<lparr>n_devices := d\<rparr>) = v s"
    and bridged: "v (s\<lparr>n_bridged := b\<rparr>) = v s"
    and filters: "v (s\<lparr>n_filters := f\<rparr>) = v s"
    and cgroups: "v (s\<lparr>n_cgroups := c\<rparr>) = v s"
    and files: "v (s\<lparr>n_files := fs\<rparr>) = v s"
    and template: "v (s\<lparr>n_template := q\<rparr>) = v s"
begin

lemmas fields = bump logged devices bridged filters cgroups files template

lemmas call = untouched_sys_call [where v = v, OF bump]

lemma primitives [untouched_intros]:
  "untouched v (publish env subject ev)" "untouched v (jet_publish env subject ev)"
  "untouched v (command env argv)" "untouched v (read_file env path)"
  "untouched v (write_file env path c)" "untouched v (copy_file env path dst)"
  "untouched v (rename_file env path dst)" "untouched v (remove_file env path)"
  "untouched v (remove_dir_all env path)" "untouched v (directory_call env)"
  "untouched v (file_exists env path)" "untouched v (db_conn env)"
  "untouched v (db_select env p)" "untouched v (link_index env name)"
  "untouched v (fresh_uuid env)" "untouched v (parsed_uuid env u)"
  unfolding publish_def jet_publish_def command_def read_file_def write_file_def copy_file_def
    rename_file_def remove_file_def remove_dir_all_def directory_call_def file_exists_def
    db_conn_def db_select_def link_index_def fresh_uuid_def parsed_uuid_def
  by (intro call untouched_locked untouched_intros; simp add: fields command_effect_def
      split: option.split)+

lemma progress [untouched_intros]: "untouched v (publish_progress env sid step m)"
  unfolding publish_progress_def by (intro untouched_intros primitives)

lemma network [untouched_intros]:
  "untouched v (create_tap env tap)" "untouched v (attach_to_bridge env tap br)"
  "untouched v (delete_tap env tap)" "untouched v (ebpf_attach env tap)"
  "untouched v (ebpf_detach tap)" "untouched v (checked env c m argv)"
  unfolding create_tap_def attach_to_bridge_def delete_tap_def ebpf_attach_def ebpf_detach_def
    checked_def
  by (intro untouched_intros primitives call untouched_modify; simp add: fields)+

lemma bandwidth [untouched_intros]:
  "untouched v (tc_apply env tap q)" "untouched v (tc_remove env tap)"
  unfolding tc_apply_def tc_remove_def set_egress_def set_ingress_def
  by (intro untouched_intros primitives network)+

lemma control_group [untouched_intros]:
  "untouched v (cgroup_apply env sid pid dev q mb)" "untouched v (cgroup_cleanup env sid)"
  unfolding cgroup_apply_def cgroup_cleanup_def
  by (intro untouched_intros primitives call; simp add: fields)+

lemma firecracker [untouched_intros]:
  "untouched v (start_vm env c)" "untouched v (load_snapshot env sock vm m)"
proof -
  have put: "untouched v (fc_put env sock path body)" for sock path body
    unfolding fc_put_def by (intro untouched_intros call; simp add: fields)
  show "untouched v (start_vm env c)" unfolding start_vm_def by (intro untouched_intros put)
  show "untouched v (load_snapshot env sock vm m)" unfolding load_snapshot_def by (intro untouched_intros put)
qed

lemma staging [untouched_intros]:
  "untouched v (serial_log_files env log)" "untouched v (socket_appears env)"
  "untouched v (stage_artifact env src dst)" "untouched v (jailer_cleanup env base vm_id)"
  unfolding serial_log_files_def socket_appears_def stage_artifact_def jailer_cleanup_def
    unmount_stale_def
  by (intro untouched_intros primitives call; simp add: fields)+

lemma storage [untouched_intros]:
  "untouched v (download env key path)" "untouched v (ensure_snapshot env key sid)"
proof -
  show d: "untouched v (download env key path)" for key path
    unfolding download_def download_inner_def
    by (intro untouched_intros primitives call) (auto split: option.split)
  show "untouched v (ensure_snapshot env key sid)"
    unfolding ensure_snapshot_def by (intro untouched_intros primitives d)
qed

lemma assembling [untouched_intros]:
  "untouched v (verify_artifact env path sha)" "untouched v (run_cmd env argv)"
  "untouched v (elf_check env path)"
  unfolding verify_artifact_def run_cmd_def elf_check_def
  by (intro untouched_intros primitives call; simp add: fields)+

lemma rootfs [untouched_intros]:
  "untouched v (ensure_template env)"
  "untouched v (build_rootfs env key sha sid vars tpl port)"
  unfolding ensure_template_def init_template_def build_rootfs_def inject_into_rootfs_def Let_def
  by (intro untouched_intros primitives storage assembling untouched_locked untouched_modify;
      simp add: fields)+

lemma probing: "untouched v t \<Longrightarrow> untouched v (probe_loop env k t)"
proof (induction k)
  case 0
  then show ?case
    unfolding probe_loop.simps [of env 0] probe_once_def
    by (intro untouched_intros call) (simp_all split: sum.split)
next
  case (Suc k)
  show ?case
    unfolding probe_loop.simps [of env "Suc k"] probe_once_def
    by (intro untouched_intros call) (use Suc in \<open>simp_all add: untouched_intros untouched_locked\<close>)
qed

lemma probe [untouched_intros]: "untouched v (startup_probe env addr log)"
  unfolding startup_probe_def probe_failure_def read_tail_def
  by (intro untouched_intros primitives probing)

lemma reading [untouched_intros]:
  "untouched v (read_port env wev)" "untouched v (evict env slug)"
  "untouched v (select_or_none env p)" "untouched v (publish_retry env n subj ev)"
proof -
  show "untouched v (read_port env wev)" "untouched v (evict env slug)"
    "untouched v (select_or_none env p)"
    unfolding read_port_def evict_def select_or_none_def by (intro untouched_intros primitives)+
  show "untouched v (publish_retry env n subj ev)"
    by (induction n) (auto intro!: untouched_intros primitives split: sum.split)
qed

lemma with_connection [untouched_intros]: "untouched v t \<Longrightarrow> untouched v (with_db env t)"
  unfolding with_db_def by (intro untouched_intros primitives)

lemma auditing [untouched_intros]:
  "untouched v (audit_filters env taps)" "untouched v (reattach_all env xs)"
proof -
  have "untouched v (verify_filter env tap)" for tap
    unfolding verify_filter_def by (intro untouched_intros call) (simp add: fields)
  then show "untouched v (audit_filters env taps)"
    by (induction taps) (auto intro!: untouched_intros)
  show "untouched v (reattach_all env xs)"
    by (induction xs rule: reattach_all.induct) (auto intro!: untouched_intros network split: sum.split)
qed

lemma start_up [untouched_intros]:
  "untouched v (cleanup_orphaned_taps env)" "untouched v (cleanup_orphaned_artifacts env)"
  "untouched v (cleanup_orphaned_cgroups env)" "untouched v (connect_nats_and_evict env slugs)"
  unfolding cleanup_orphaned_taps_def cleanup_orphaned_artifacts_def cleanup_orphaned_cgroups_def
    connect_nats_and_evict_def
  by (intro untouched_intros primitives reading with_connection call; simp add: fields)+

end

section \<open>Neither the tables nor the Wasm services\<close>

locale memory_view = host_view +
  assumes services: "v (s\<lparr>n_services := a\<rparr>) = v s"
    and liquid: "v (s\<lparr>n_liquid := l\<rparr>) = v s"
    and shims: "v (s\<lparr>n_shims := sh\<rparr>) = v s"
begin

lemma updating [untouched_intros]: "untouched v (db_update env p f)"
  unfolding db_update_def
  by (intro call) (simp add: update_services_def services Let_def)

lemma updates [untouched_intros]:
  "untouched v (mark_failed env sid m)" "untouched v (record_provisioned env u svc)"
  "untouched v (report_crash env sid code)" "untouched v (set_provisioning env sid)"
  "untouched v (stop_vm_row env sid)" "untouched v (finalize_stale env)"
  unfolding mark_failed_def record_provisioned_def report_crash_def set_provisioning_def
    stop_vm_row_def finalize_stale_def update_or_none_def
  by (intro untouched_intros primitives reading with_connection updating)+

lemma announcing [untouched_intros]:
  "untouched v t \<Longrightarrow> untouched v (announce_wake env wev addr t)"
  unfolding announce_wake_def by (intro untouched_intros primitives updating)

lemma registries [untouched_intros]:
  "untouched v (modify (register_liquid sid h))" "untouched v (modify (remove_liquid sid))"
  "untouched v (modify (drop_liquids p))"
  by (intro untouched_modify; simp add: register_liquid_def remove_liquid_def drop_liquid_def
      drop_liquids_def liquid shims Let_def split: option.split)+

lemma serving [untouched_intros]: "untouched v (wasm_serve env path app vars)"
  unfolding wasm_serve_def compile_or_cache_def compile_fresh_def
  by (intro untouched_intros primitives call; simp add: shims Let_def)

lemma liquid_engine [untouched_intros]:
  "untouched v (provision_liquid env ev spec)" "untouched v (wake_liquid env wev)"
  unfolding provision_liquid_def wake_liquid_def
  by (intro untouched_intros primitives progress storage assembling probe updates announcing
      registries serving)+

lemma ticks:
  "untouched v (idle_check env secs)" "untouched v (orphan_sweep env)"
  "untouched v (pulse_flush env slugs)" "untouched v (registry_sweep env)"
  unfolding idle_check_def idle_metal_def idle_liquid_def idle_metal_row_def idle_liquid_row_def
    orphan_sweep_def sweep_orphans_def orphan_row_def pulse_flush_def registry_sweep_def
  by (intro untouched_intros primitives reading with_connection updating registries call
      untouched_locked; simp add: services update_services_def Let_def)+

end

section \<open>The views\<close>

text \<open>
  The index set and the registry of VMs; these and the processes; these and the rows of the
  tables.
\<close>

definition process_view :: "node \<Rightarrow> nat set \<times> (string \<times> vm_handle) list \<times> nat set" where
  "process_view s = (n_taps s, n_registry s, n_procs s)"

definition core_view :: "node \<Rightarrow> nat set \<times> (string \<times> vm_handle) list \<times> node_row list" where
  "core_view s = (n_taps s, n_registry s, n_services s)"

interpretation tap_memory: memory_view tap_view
  by unfold_locales (simp_all add: tap_view_def bump_def log_effect_def)

interpretation process_memory: memory_view process_view
  by unfold_locales (simp_all add: process_view_def bump_def log_effect_def)

interpretation core_host: host_view core_view
  by unfold_locales (simp_all add: core_view_def bump_def log_effect_def)

lemmas view_simps [simp] = tap_memory.fields process_memory.fields core_host.fields
  tap_memory.services tap_memory.liquid tap_memory.shims
  process_memory.services process_memory.liquid process_memory.shims

lemma kill_view [simp]: "tap_view (kill_process p s) = tap_view s" "core_view (kill_process p s) = core_view s"
  by (simp_all add: kill_process_def tap_view_def core_view_def)

section \<open>Processes come and go\<close>

lemma tap_processes [untouched_intros]:
  "untouched tap_view (spawn_process env argv)" "untouched tap_view (modify (kill_process pid))"
  unfolding spawn_process_def
  by (intro tap_memory.call untouched_modify;
      simp add: tap_view_def log_effect_def kill_process_def)+

lemma core_processes [untouched_intros]:
  "untouched core_view (spawn_process env argv)" "untouched core_view (modify (kill_process pid))"
  unfolding spawn_process_def
  by (intro core_host.call untouched_modify;
      simp add: core_view_def log_effect_def kill_process_def)+

lemma tap_spawn [untouched_intros]:
  "untouched tap_view (spawn_firecracker_direct env vm_id sock log)"
  "untouched tap_view (jailer_spawn env vm_id rootfs log)"
  unfolding spawn_firecracker_direct_def jailer_spawn_def by (intro untouched_intros)+

lemma tap_restore [untouched_intros]: "untouched tap_view (restore_vm env vm_id snap log)"
  unfolding restore_vm_def by (intro untouched_intros)

lemma tap_deprovision [untouched_intros]: "untouched tap_view (deprovision_metal env sid h)"
  unfolding deprovision_metal_def by (intro untouched_intros)

lemma core_deprovision [untouched_intros]: "untouched core_view (deprovision_metal env sid h)"
  unfolding deprovision_metal_def by (intro untouched_intros)

lemma tap_boot_metal [untouched_intros]: "untouched tap_view (boot_metal env ev spec vm_id idx)"
  unfolding boot_metal_def provision_metal_after_tap_def by (intro untouched_intros)

lemma tap_wake_boot [untouched_intros]: "untouched tap_view (wake_boot env wev snap tap vm_id addr)"
  unfolding wake_boot_def probe_once_def by (intro untouched_intros tap_memory.call; simp)

end
