(* ===== verification/Ownership.thy ===== *)
theory Ownership
  imports Views
begin

text \<open>
  Every handler and task of the daemon accounted for the TAP indices it allocates and takes
  over, at every suspension point. The rules below follow the structure of a task; a part
  that touches neither the index set nor the registry (\<open>untouched tap_view\<close>) owns at its
  end what it owned before.
\<close>

named_theorems acc_intros

abbreviation acc :: "(task_error + 'a \<Rightarrow> nat set \<Rightarrow> bool) \<Rightarrow> 'a node_task \<Rightarrow> nat set \<Rightarrow> bool" where
  "acc \<equiv> accounted taps_ok in_flight"

section \<open>Rules\<close>

lemma acc_done:
  "Q (Inr x) own \<Longrightarrow> acc Q (finish x) own" "Q (Inl (Err m)) own \<Longrightarrow> acc Q (bail m) own"
  "Q r own \<Longrightarrow> acc Q (Done r) own"
  by (simp_all add: accounts_finish)

lemma acc_quiet_then:
  assumes "untouched tap_view t" "\<And>e. Q (Inl e) own" "\<And>x. acc Q (f x) own"
  shows "acc Q (and_then t f) own"
  by (rule accounts_and_then, rule tap_untouched [OF assms(1)]) (auto simp: assms split: sum.split)

text \<open>A step that cannot fail.\<close>

lemma acc_modify_then:
  assumes "\<And>s. tap_view (f s) = tap_view s" "acc Q (g ()) own"
  shows "acc Q (and_then (modify f) g) own"
proof -
  have "taps_ok (f s) = taps_ok s" "in_flight (f s) = in_flight s" for s
    using taps_ok_view in_flight_view assms(1) by metis+
  then show ?thesis
    using assms(2) unfolding modify_def locked_def atomically_def
    by (auto intro!: handoverI [where own' = "\<lambda>_. own"])
qed

lemma acc_take_then:
  assumes "acc Q (f None) {}" "\<And>h i. tap_of h = Some i \<Longrightarrow> acc Q (f (Some h)) {i}"
  shows "acc Q (and_then (locked (take_vm sid)) f) {}"
  by (rule accounts_and_then, rule take_vm_accounts) (use assms in auto)

lemma acc_release_then:
  assumes "tap_of h = Some i" "i \<in> own" "acc Q (f ()) (own - {i})"
  shows "acc Q (and_then (modify (release_tap_index (vh_tap_name h))) f) own"
  by (rule accounts_and_then, rule release_accounts [OF assms(1,2)]) (use assms(3) in simp)

lemma acc_allocate_then:
  assumes "\<And>e. Q (Inl e) {}" "\<And>i. i < 2 ^ 32 \<Longrightarrow> acc Q (f i) {i}"
  shows "acc Q (and_then (atomically allocate_tap_index) f) {}"
  by (rule accounts_and_then, rule allocate_accounts) (use assms in auto)

lemma acc_guarded_then:
  assumes "untouched tap_view t" "i < 2 ^ 32" "Q (Inl Panicked) {}" "\<And>b. acc Q (f b) {i}"
  shows "acc Q (and_then (attempt (with_tap_guard (tap_name i) t)) f) {i}"
  by (rule accounts_and_then, rule accounts_attempt, rule tap_guarded [OF assms(1,2)])
     (use assms(3,4) in \<open>auto split: sum.split task_error.split\<close>)

lemma tap_name_of: "i < 2 ^ 32 \<Longrightarrow> tap_of (handle_of env (tap_name i) pid vm_id) = Some i"
  by (simp add: tap_of_def handle_of_def parse_tap_name)

section \<open>Handlers\<close>

definition nothing_owned :: "task_error + 'a \<Rightarrow> nat set \<Rightarrow> bool" where
  "nothing_owned r own = (own = {})"

lemma nothing_owned_simp [simp]: "nothing_owned r own = (own = {})"
  by (simp add: nothing_owned_def)

lemma acc_rollback: "acc nothing_owned (rollback_provision env ev m) {}"
proof -
  have metal: "acc nothing_owned (and_then (locked (take_vm sid)) (\<lambda>handle.
      case handle of None \<Rightarrow> finish ()
      | Some h \<Rightarrow>
          and_then (modify (kill_process (vh_fc_pid h))) (\<lambda>_.
          and_then (modify (release_tap_index (vh_tap_name h))) (\<lambda>_.
          deprovision_metal env sid h)))) {}" for sid
  proof (rule acc_take_then)
    fix h i assume h: "tap_of h = Some i"
    show "acc nothing_owned (case Some h of None \<Rightarrow> finish ()
      | Some h \<Rightarrow>
          and_then (modify (kill_process (vh_fc_pid h))) (\<lambda>_.
          and_then (modify (release_tap_index (vh_tap_name h))) (\<lambda>_.
          deprovision_metal env sid h))) {i}"
      by (simp only: option.case, rule acc_modify_then, simp add: kill_process_def tap_view_def,
          rule acc_release_then [OF h], simp)
         (intro tap_untouched untouched_intros, simp)
  qed (simp add: acc_done)
  have spec: "acc nothing_owned
      (case pe_spec ev of
         SpecMetal _ \<Rightarrow>
           and_then (locked (take_vm sid)) (\<lambda>handle.
           case handle of None \<Rightarrow> finish ()
           | Some h \<Rightarrow>
               and_then (modify (kill_process (vh_fc_pid h))) (\<lambda>_.
               and_then (modify (release_tap_index (vh_tap_name h))) (\<lambda>_.
               deprovision_metal env sid h)))
       | SpecLiquid _ \<Rightarrow> modify (remove_liquid sid)) {}" for sid
    using metal [of sid] tap_untouched [OF tap_memory.registries(2), of nothing_owned "{}" sid]
    by (cases "pe_spec ev") simp_all
  show ?thesis
    unfolding rollback_provision_def Let_def
    by (rule acc_quiet_then, rule tap_memory.progress, simp, rule acc_quiet_then, rule tap_memory.updates, simp,
        rule accounts_and_then, rule accounts_mono [OF spec])
       (auto simp: acc_done split: sum.split)
qed

lemma acc_provision_metal: "acc nothing_owned (provision_metal env ev spec) {}"
  unfolding provision_metal_def Let_def
proof (rule acc_quiet_then; (intro untouched_intros)?)
  fix vm_id
  show "acc nothing_owned (and_then (atomically allocate_tap_index) (\<lambda>idx.
     and_then (attempt (with_tap_guard (tap_name idx) (boot_metal env ev spec vm_id idx))) (\<lambda>booted.
     case booted of
       Inl m \<Rightarrow> and_then (drop_tap_guard (tap_name idx)) (\<lambda>_. bail m)
     | Inr (pid, addr) \<Rightarrow>
         and_then (with_tap_guard (tap_name idx)
           (modify (register_vm (pe_service_id ev) (handle_of env (tap_name idx) pid vm_id)))) (\<lambda>_.
         and_then (publish_progress env (pe_service_id ev) Running
           (''VM is live '' @ em_dash @ '' dedicated Metal service running'')) (\<lambda>_.
         finish \<lparr>ps_id = vm_id, ps_engine = Metal, ps_upstream = Some addr, ps_snapshot_key = None,
                 ps_tap_name = Some (tap_name idx), ps_fc_pid = Some pid\<rparr>))))) {}"
  proof (rule acc_allocate_then, simp)
    fix idx :: nat assume i: "idx < 2 ^ 32"
    let ?after = "\<lambda>booted. case booted of
       Inl m \<Rightarrow> and_then (drop_tap_guard (tap_name idx)) (\<lambda>_. bail m)
     | Inr (pid, addr) \<Rightarrow>
         and_then (with_tap_guard (tap_name idx)
           (modify (register_vm (pe_service_id ev) (handle_of env (tap_name idx) pid vm_id)))) (\<lambda>_.
         and_then (publish_progress env (pe_service_id ev) Running
           (''VM is live '' @ em_dash @ '' dedicated Metal service running'')) (\<lambda>_.
         finish \<lparr>ps_id = vm_id, ps_engine = Metal, ps_upstream = Some addr, ps_snapshot_key = None,
                 ps_tap_name = Some (tap_name idx), ps_fc_pid = Some pid\<rparr>))"
    show "acc nothing_owned (and_then (attempt (with_tap_guard (tap_name idx)
        (boot_metal env ev spec vm_id idx))) ?after) {idx}"
    proof -
      have after: "acc nothing_owned (?after booted) {idx}" for booted
      proof (cases booted)
        case (Inl m)
        then show ?thesis
          by simp (rule accounts_and_then, rule drop_guard_accounts [OF i], simp add: acc_done)
      next
        case (Inr p)
        obtain pid addr where "p = (pid, addr)" by fastforce
        then show ?thesis using Inr
          by simp (rule accounts_and_then, rule guarded_register_accounts [OF tap_name_of [OF i] i],
              simp, rule acc_quiet_then, (intro untouched_intros), simp, simp add: acc_done)
      qed
      show ?thesis
        by (rule acc_guarded_then [OF tap_boot_metal i]) (simp, rule after)
    qed
  qed
qed simp

lemma acc_then:
  assumes "acc nothing_owned t {}" "\<And>e. Q (Inl e) {}" "\<And>x. acc Q (f x) {}"
  shows "acc Q (and_then t f) {}"
  by (rule accounts_and_then, rule accounts_mono [OF assms(1)])
     (auto simp: assms(2,3) split: sum.split)

lemma acc_quiet: "untouched tap_view t \<Longrightarrow> acc nothing_owned t {}"
  by (rule tap_untouched) simp_all

lemma acc_attempt_nothing: "acc nothing_owned t {} \<Longrightarrow> acc nothing_owned (attempt t) {}"
  by (rule accounts_attempt, erule accounts_mono) (auto split: sum.split task_error.split)

lemma acc_provision: "acc nothing_owned (provision env ev) {}"
proof -
  have spec: "acc nothing_owned (case pe_spec ev of SpecMetal spec \<Rightarrow> provision_metal env ev spec
      | SpecLiquid spec \<Rightarrow> provision_liquid env ev spec) {}"
    by (cases "pe_spec ev") (simp_all add: acc_provision_metal acc_quiet tap_memory.liquid_engine)
  have tail: "acc nothing_owned
      (case r of
         Inl m \<Rightarrow> and_then (rollback_provision env ev m) (\<lambda>_. bail m)
       | Inr _ \<Rightarrow>
           and_then
             (case ps_upstream svc of None \<Rightarrow> finish ()
              | Some addr \<Rightarrow>
                  if pe_slug ev = [] then finish ()
                  else ignoring (publish env subject_route_updated
                         (EvRouteUpdated \<lparr>ru_slug = pe_slug ev, ru_upstream_addr = addr\<rparr>))) (\<lambda>_.
           finish svc)) {}" for r :: "string + node_row list" and svc
  proof (cases r)
    case (Inl m)
    then show ?thesis by simp (rule acc_then [OF acc_rollback], simp, simp add: acc_done)
  next
    case (Inr rows)
    then show ?thesis by simp (rule acc_quiet, intro untouched_intros)
  qed
  show ?thesis
    unfolding provision_def
    by (rule acc_quiet_then, rule tap_memory.progress, simp, rule acc_then [OF spec], simp,
        rule acc_quiet_then, (intro untouched_intros), simp,
        rule acc_quiet_then, (intro untouched_intros), simp, rule tail)
qed

lemma acc_wake_from_snapshot: "acc nothing_owned (wake_from_snapshot env ev) {}"
  unfolding wake_from_snapshot_def Let_def
proof (rule acc_quiet_then; (intro untouched_intros)?)
  fix snap :: "string \<times> string"
  let ?boot = "\<lambda>idx. and_then (with_context ''TAP index pool exhausted''
           (case guest_ip idx of Inl e \<Rightarrow> bail e | Inr ip \<Rightarrow> finish ip)) (\<lambda>ip.
         and_then (fresh_uuid env) (\<lambda>vm_id.
         and_then (read_port env ev) (\<lambda>port.
         and_then (with_context ''create TAP for wake'' (create_tap env (tap_name idx))) (\<lambda>_.
         and_then (attempt (wake_boot env ev snap (tap_name idx) vm_id (ip @ '':'' @ show_int port))) (\<lambda>booted.
         case booted of
           Inr pid \<Rightarrow> finish (pid, vm_id, ip @ '':'' @ show_int port)
         | Inl m \<Rightarrow> and_then (ignoring (delete_tap env (tap_name idx))) (\<lambda>_. bail m))))))"
  let ?tail = "\<lambda>idx booted. case booted of
        Inl m \<Rightarrow> and_then (drop_tap_guard (tap_name idx)) (\<lambda>_. bail m)
      | Inr (pid, vm_id, addr) \<Rightarrow>
          and_then (with_tap_guard (tap_name idx)
            (modify (register_vm (wk_service_id ev) (handle_of env (tap_name idx) pid vm_id)))) (\<lambda>_.
          and_then (attempt (announce_wake env ev addr (parsed_uuid env (wk_service_id ev)))) (\<lambda>told.
          case told of
            Inr _ \<Rightarrow> finish ()
          | Inl m \<Rightarrow> and_then (ignoring (delete_tap env (tap_name idx))) (\<lambda>_. bail m)))"
  have boot: "untouched tap_view (?boot idx)" for idx
    by (intro untouched_intros)
  have tail: "acc nothing_owned (?tail idx booted) {idx}" if i: "idx < 2 ^ 32" for idx booted
  proof (cases booted)
    case (Inl m)
    then show ?thesis
      by simp (rule accounts_and_then, rule drop_guard_accounts [OF i], simp add: acc_done)
  next
    case (Inr p)
    obtain pid vm_id addr where "p = (pid, vm_id, addr)" by (metis prod.collapse)
    then show ?thesis using Inr
      by simp (rule accounts_and_then, rule guarded_register_accounts [OF tap_name_of [OF i] i],
          simp, rule acc_quiet, intro untouched_intros)
  qed
  show "acc nothing_owned (and_then (atomically allocate_tap_index) (\<lambda>idx.
      and_then (attempt (with_tap_guard (tap_name idx) (?boot idx))) (?tail idx))) {}"
    by (rule acc_allocate_then, simp, rule acc_guarded_then [OF boot], assumption, simp,
        rule tail, assumption)
qed simp

section \<open>Messages and ticks\<close>

abbreviation safe :: "'a node_task \<Rightarrow> nat set \<Rightarrow> bool" where
  "safe t own \<equiv> acc (\<lambda>_ _. True) t own"

lemma safe_of: "acc nothing_owned t {} \<Longrightarrow> safe t {}"
  by (erule accounts_mono) simp

lemma acc_provision_failed: "acc nothing_owned (provision_failed env ev m n) {}"
  unfolding provision_failed_def
  by (rule acc_then [OF acc_rollback], simp)
     (auto intro!: acc_quiet untouched_intros acc_done split: failure_kind.split)

lemma acc_provision_message: "acc nothing_owned (provision_message env payload n) {}"
proof (cases payload)
  case None
  then show ?thesis by (simp add: provision_message_def acc_done)
next
  case (Some ev)
  have "acc nothing_owned (timeout b (provision env ev)) {}" for b
    by (rule accounts_timeout, rule accounts_mono [OF acc_provision])
       (auto split: sum.split task_error.split)
  then have "acc nothing_owned
      (and_then (timeout (\<lambda>s. d_expired env ''provision'' (n_calls s)) (provision env ev)) (\<lambda>r.
        case r of
          Some (Inr svc) \<Rightarrow> finish Ack
        | Some (Inl m) \<Rightarrow> provision_failed env ev m n
        | None \<Rightarrow> provision_failed env ev
            (''provision timed out after '' @ show_nat (provision_timeout env) @ ''s'') n)) {}"
    by (rule acc_then) (auto simp: acc_provision_failed acc_done split: option.split sum.split)
  then show ?thesis
    unfolding provision_message_def Some option.case
    by (cases "\<not> engine_enabled (d_features env) (pe_engine ev) \<or> maintenance_mode (d_features env)")
       (simp_all only: if_True if_False acc_done nothing_owned_simp)
qed

lemma acc_wake_message: "acc nothing_owned (wake_message env payload n) {}"
proof (cases payload)
  case None
  then show ?thesis by (simp add: wake_message_def acc_done)
next
  case (Some ev)
  have "acc nothing_owned (case wk_engine ev of Metal \<Rightarrow> wake_from_snapshot env ev
      | Liquid \<Rightarrow> wake_liquid env ev) {}"
    by (cases "wk_engine ev") (simp_all add: acc_wake_from_snapshot acc_quiet tap_memory.liquid_engine)
  then have "acc nothing_owned (and_then (attempt (case wk_engine ev of
        Metal \<Rightarrow> wake_from_snapshot env ev | Liquid \<Rightarrow> wake_liquid env ev)) (\<lambda>r.
      case r of Inr _ \<Rightarrow> finish Ack | Inl _ \<Rightarrow> finish (Nak (Some (5 * n))))) {}"
    by (intro acc_then acc_attempt_nothing) (auto simp: acc_done split: sum.split)
  then show ?thesis
    unfolding wake_message_def Some option.case
    by (intro acc_quiet_then untouched_locked) (simp_all add: acc_done)
qed

lemma acc_release_and_tear_down:
  assumes "tap_of h = Some i" "i \<in> own"
  shows "acc (\<lambda>r x. x = own - {i}) (release_and_tear_down env sid h) own"
  unfolding release_and_tear_down_def
  by (rule acc_release_then [OF assms], rule tap_untouched) (auto intro: untouched_intros)

lemma acc_deprovision_message: "acc nothing_owned (deprovision_message env payload) {}"
proof (cases payload)
  case None
  then show ?thesis by (simp add: deprovision_message_def acc_done)
next
  case (Some ev)
  have metal: "acc nothing_owned (and_then (locked (take_vm sid)) (\<lambda>handle.
      case handle of None \<Rightarrow> finish () | Some h \<Rightarrow> release_and_tear_down env sid h)) {}" for sid
  proof (rule acc_take_then)
    fix h i assume "tap_of h = Some i"
    then show "acc nothing_owned (case Some h of None \<Rightarrow> finish ()
        | Some h \<Rightarrow> release_and_tear_down env sid h) {i}"
      using accounts_mono [OF acc_release_and_tear_down [of h i "{i}"]] by fastforce
  qed (simp add: acc_done)
  have "acc nothing_owned
      (case de_engine ev of
         Metal \<Rightarrow>
           and_then (locked (take_vm sid)) (\<lambda>handle.
           case handle of None \<Rightarrow> finish () | Some h \<Rightarrow> release_and_tear_down env sid h)
       | Liquid \<Rightarrow>
           and_then (modify (remove_liquid sid)) (\<lambda>_.
           ignoring (remove_dir_all env (pc_artifact_dir (d_cfg env) @ ''/'' @ sid)))) {}" for sid
    by (cases "de_engine ev") (simp_all add: metal, intro acc_quiet untouched_intros)
  then show ?thesis
    unfolding deprovision_message_def Some option.case Let_def
    by (rule acc_then, simp) (intro acc_quiet untouched_intros)
qed

lemma forget_take: "acc nothing_owned (locked (take_vm sid)) {}"
proof -
  have "taps_ok (snd (take_vm sid s)) \<and> in_flight s \<subseteq> in_flight (snd (take_vm sid s))" if "taps_ok s" for s
  proof (cases "take_vm sid s")
    case (Pair r s')
    show ?thesis using take_vm_taps [OF that Pair] Pair by (cases r) auto
  qed
  then show ?thesis
    unfolding locked_def atomically_def
    by (auto intro!: handoverI [where own' = "\<lambda>_. {}"] simp: case_prod_unfold)
qed

lemma acc_suspend_row: "acc nothing_owned (suspend_row env r) {}"
proof -
  have "acc nothing_owned (and_then (locked (take_vm sid)) (\<lambda>handle.
      case handle of None \<Rightarrow> finish () | Some h \<Rightarrow> deprovision_metal env sid h)) {}" for sid
    by (rule acc_then [OF forget_take]) 
      (auto intro!: acc_quiet untouched_intros)
  then show ?thesis
    unfolding suspend_row_def by (auto intro!: acc_quiet untouched_intros acc_done)
qed

lemma acc_each: "(\<And>r. acc nothing_owned (f r) {}) \<Longrightarrow> acc nothing_owned (each f rs) {}"
  by (rule accounts_each) (auto simp: nothing_owned_def [abs_def])

lemma acc_with_db: "acc nothing_owned t {} \<Longrightarrow> acc nothing_owned (with_db env t) {}"
  unfolding with_db_def
  by (rule acc_quiet_then) (auto intro!: untouched_intros acc_done split: sum.split)

lemma acc_suspend_message: "acc nothing_owned (suspend_message env ev) {}"
proof -
  have suspended: "acc nothing_owned (each (suspend_row env) rs) {}" for rs
    by (rule acc_each) (rule acc_suspend_row)
  have rows: "acc nothing_owned
      (and_then (each (\<lambda>r. evict env (sv_slug r)) rs) (\<lambda>_.
         if rs = [] then finish ()
         else
           and_then (ignoring (db_update env p f)) (\<lambda>_. each (suspend_row env) rs))) {}" for rs p f
    by (rule acc_quiet_then, (intro untouched_intros), simp, split if_split, intro conjI impI,
        simp add: acc_done, rule acc_quiet_then, (intro untouched_intros), simp, rule suspended)
  show ?thesis
    unfolding suspend_message_def suspend_workspace_def
    by (intro acc_with_db)
       (auto intro!: acc_done acc_quiet_then untouched_intros rows suspended split: option.split sum.split)
qed

lemma acc_kill_unisolated: "acc nothing_owned (kill_unisolated env tap) {}"
proof -
  have row: "acc nothing_owned
      (and_then (case nd_fc_pid r of None \<Rightarrow> finish ()
                   | Some pid \<Rightarrow> modify (kill_process (nat pid))) (\<lambda>_.
         and_then (ignoring (db_update env p f)) (\<lambda>_.
         and_then (ignoring (locked (take_vm (row_id env r)))) (\<lambda>_.
         ebpf_detach tap)))) {}" for r :: node_row and p f
  proof (rule acc_quiet_then; (intro untouched_intros)?)
    show "acc nothing_owned (and_then (ignoring (db_update env p f)) (\<lambda>_.
         and_then (ignoring (locked (take_vm (row_id env r)))) (\<lambda>_. ebpf_detach tap))) {}"
      unfolding ignoring_def
      by (rule acc_quiet_then, (intro untouched_intros), simp, rule acc_then,
          rule acc_then, rule acc_attempt_nothing, rule forget_take, simp)
         (auto intro!: acc_done acc_quiet untouched_intros)
  qed simp
  show ?thesis
    unfolding kill_unisolated_def
    by (rule acc_quiet_then)
       (auto intro!: untouched_intros acc_quiet row split: sum.split list.split)
qed

lemma acc_ebpf_audit: "acc nothing_owned (ebpf_audit env) {}"
  unfolding ebpf_audit_def
  by (rule acc_quiet_then, rule untouched_locked, simp, simp,
      rule acc_quiet_then, rule tap_memory.auditing(1))
     (auto intro!: acc_done acc_with_db acc_each acc_kill_unisolated)

section \<open>Several VMs at once\<close>

definition taps_in :: "vm_handle list \<Rightarrow> nat set" where
  "taps_in hs = {i. Some i \<in> set (map tap_of hs)}"

definition all_owned :: "vm_handle list \<Rightarrow> nat set \<Rightarrow> bool" where
  "all_owned hs own =
     (distinct (map tap_of hs) \<and> None \<notin> set (map tap_of hs) \<and> own = taps_in hs)"

lemma take_many:
  assumes "taps_ok s"
  shows "taps_ok (s\<lparr>n_registry := filter (\<lambda>x. \<not> p x) (n_registry s)\<rparr>)"
    "in_flight (s\<lparr>n_registry := filter (\<lambda>x. \<not> p x) (n_registry s)\<rparr>) =
       in_flight s \<union> taps_in (map snd (filter p (n_registry s)))"
    "in_flight s \<inter> taps_in (map snd (filter p (n_registry s))) = {}"
    "all_owned (map snd (filter p (n_registry s))) (taps_in (map snd (filter p (n_registry s))))"
proof -
  let ?reg = "n_registry s"
  have d: "distinct (map (\<lambda>x. tap_of (snd x)) ?reg)" "distinct (map fst ?reg)"
    "set (map (\<lambda>x. tap_of (snd x)) ?reg) \<subseteq> Some ` n_taps s"
    using assms by (auto simp: taps_ok_def vm_taps_def)
  show "taps_ok (s\<lparr>n_registry := filter (\<lambda>x. \<not> p x) ?reg\<rparr>)"
    using assms d by (auto simp: taps_ok_def vm_taps_def distinct_map_filter)
  show "in_flight s \<inter> taps_in (map snd (filter p ?reg)) = {}"
    by (auto simp: in_flight_def held_taps_def taps_in_def vm_taps_def)
  have n: "None \<notin> tap_of ` snd ` set (filter p ?reg)" using d(3) by force
  then show "all_owned (map snd (filter p ?reg)) (taps_in (map snd (filter p ?reg)))"
    using d(1) by (simp add: all_owned_def distinct_map_filter comp_def image_image)
  have inj: "x = y" if "x \<in> set ?reg" "y \<in> set ?reg" "tap_of (snd x) = tap_of (snd y)" for x y
    using d(1) that by (auto simp: distinct_map inj_on_def)
  show "in_flight (s\<lparr>n_registry := filter (\<lambda>x. \<not> p x) ?reg\<rparr>) =
      in_flight s \<union> taps_in (map snd (filter p ?reg))"
    using d(3) by (auto simp: in_flight_def held_taps_def taps_in_def vm_taps_def dest: inj)
qed

lemma fold_delete: "fold (\<lambda>x. AList.delete (fst x)) xs reg = filter (\<lambda>y. fst y \<notin> fst ` set xs) reg"
  by (induction xs arbitrary: reg) (auto simp: AList.delete_eq filter_filter intro: filter_cong)

lemma acc_tear_down_all:
  assumes "all_owned (map h xs) own" "\<And>x. f x = release_and_tear_down env (sid x) (h x)"
  shows "safe (each f xs) own"
  using assms(1)
proof (induction xs arbitrary: own)
  case Nil
  then show ?case by (simp add: acc_done)
next
  case (Cons x xs)
  then obtain i where i: "tap_of (h x) = Some i"
    by (cases "tap_of (h x)") (auto simp: all_owned_def)
  have own: "i \<in> own" "all_owned (map h xs) (own - {i})"
    using Cons.prems i by (auto simp: all_owned_def taps_in_def)
  have "safe (and_then (f x) (\<lambda>_. each f xs)) own"
    unfolding assms(2) [of x]
    by (rule accounts_and_then, rule accounts_mono, rule acc_release_and_tear_down [OF i own(1)])
       (use Cons.IH [OF own(2)] in \<open>auto split: sum.split\<close>)
  then show ?case by simp
qed

lemma acc_crash_watch: "safe (crash_watch env code) {}"
proof -
  let ?h = "\<lambda>x. fst (snd x)"
  have collect: "acc (\<lambda>r own. case r of Inl e \<Rightarrow> False | Inr xs \<Rightarrow> all_owned (map ?h xs) own)
      (collect_crashed code) {}"
  proof -
    let ?own = "\<lambda>s. taps_in (map ?h (dead_vms code s))"
    let ?s' = "\<lambda>s. s\<lparr>n_registry := fold (\<lambda>(sid, _). AList.delete sid) (dead_vms code s) (n_registry s)\<rparr>"
    have taken: "taps_ok (?s' s) \<and> in_flight (?s' s) = in_flight s \<union> ?own s \<and>
        in_flight s \<inter> ?own s = {} \<and> all_owned (map ?h (dead_vms code s)) (?own s)"
      if ok: "taps_ok s" for s
    proof -
      let ?p = "\<lambda>x. vh_fc_pid (snd x) \<notin> n_procs s"
      have dead: "map ?h (dead_vms code s) = map snd (filter ?p (n_registry s))"
        "fst ` set (dead_vms code s) = fst ` set (filter ?p (n_registry s))"
        by (auto simp: dead_vms_def case_prod_unfold image_image comp_def)
      have "distinct (map fst (n_registry s))" using ok by (simp add: taps_ok_def)
      then have "(fst y \<notin> fst ` set (filter ?p (n_registry s))) = (\<not> ?p y)"
        if "y \<in> set (n_registry s)" for y
        using that by (auto simp: distinct_map inj_on_def)
      then have "fold (\<lambda>(sid, _). AList.delete sid) (dead_vms code s) (n_registry s) =
          filter (\<lambda>y. \<not> ?p y) (n_registry s)"
        using fold_delete [of "dead_vms code s" "n_registry s"] dead(2)
        by (simp add: case_prod_unfold cong: filter_cong)
      then show ?thesis using take_many [OF ok, of ?p] dead(1) by simp
    qed
    have "taps_ok (?s' s) \<and> ?own s \<subseteq> in_flight (?s' s) \<and> in_flight s \<subseteq> in_flight (?s' s) - ?own s \<and>
        all_owned (map ?h (dead_vms code s)) (?own s)" if "taps_ok s" for s
      using taken [OF that] by blast
    then show ?thesis
      unfolding collect_crashed_def locked_def atomically_def accounted.simps
      by (intro handoverI [where own' = ?own]) simp_all
  qed
  have rest: "safe (and_then (each (\<lambda>(sid, h, c). report_crash env sid c) xs) (\<lambda>_.
      each (\<lambda>(sid, h, c). release_and_tear_down env sid h) xs)) own"
    if "all_owned (map ?h xs) own" for xs :: "(string \<times> vm_handle \<times> int option) list" and own
    by (rule acc_quiet_then, (intro untouched_intros), simp,
        rule acc_tear_down_all [OF that, where sid = fst and env = env]) (simp add: case_prod_unfold)
  show ?thesis
    unfolding crash_watch_def
    by (rule accounts_and_then, rule accounts_mono [OF collect]) (auto intro: rest split: sum.splits)
qed

lemma acc_shutdown: "safe (shutdown env) {}"
proof -
  have drain: "acc (\<lambda>r own. case r of Inl e \<Rightarrow> False | Inr xs \<Rightarrow> all_owned (map snd xs) own)
      drain_registry {}"
  proof -
    have "taps_ok (s\<lparr>n_registry := []\<rparr>) \<and>
        taps_in (map snd (n_registry s)) \<subseteq> in_flight (s\<lparr>n_registry := []\<rparr>) \<and>
        in_flight s \<subseteq> in_flight (s\<lparr>n_registry := []\<rparr>) - taps_in (map snd (n_registry s)) \<and>
        all_owned (map snd (n_registry s)) (taps_in (map snd (n_registry s)))"
      if "taps_ok s" for s
      using take_many [OF that, of "\<lambda>_. True"] by auto
    then show ?thesis
      unfolding drain_registry_def locked_def atomically_def
      by (auto intro!: handoverI [where own' = "\<lambda>s. taps_in (map snd (n_registry s))"])
  qed
  have rest: "safe (if xs = [] then finish ()
      else and_then (with_db env (each (\<lambda>(sid, h). stop_vm_row env sid) xs)) (\<lambda>_.
        each (\<lambda>(sid, h). release_and_tear_down env sid h) xs)) own"
    if "all_owned (map snd xs) own" for xs :: "(string \<times> vm_handle) list" and own
    by (split if_split, intro conjI impI, simp add: acc_done,
        rule acc_quiet_then, (intro untouched_intros), simp,
        rule acc_tear_down_all [OF that, where sid = fst and env = env]) (simp add: case_prod_unfold)
  show ?thesis
    unfolding shutdown_def
    by (rule accounts_and_then, rule accounts_mono [OF drain]) (auto intro: rest split: sum.splits split del: if_split)
qed

end
