(* ===== verification/Fleet.thy ===== *)
theory Fleet
  imports Ownership
begin

text \<open>
  A daemon over its whole life: started, then any of its message handlers and ticks spawned
  at any time, polled one suspension point at a time in any order, dropped by an abort,
  while the database, the kernel and the other services change under it. The start decides
  which TAP indices are taken; from then on no interleaving gives an index two owners.
\<close>

section \<open>Runs of a daemon\<close>

definition discard :: "'a node_task \<Rightarrow> unit node_task" where
  "discard t = and_then t (\<lambda>_. finish ())"

inductive daemon_task :: "unit node_task \<Rightarrow> bool" where
  on_provision: "daemon_task (discard (provision_message env pev n))"
| on_wake: "daemon_task (discard (wake_message env wev n))"
| on_deprovision: "daemon_task (discard (deprovision_message env dev))"
| on_suspend: "daemon_task (suspend_message env sev)"
| crash_tick: "daemon_task (crash_watch env code)"
| audit_tick: "daemon_task (ebpf_audit env)"
| idle_tick: "daemon_task (idle_check env secs)"
| orphan_tick: "daemon_task (orphan_sweep env)"
| pulse_tick: "daemon_task (pulse_flush env slugs)"
| sweep_tick: "daemon_task (registry_sweep env)"
| usage_report: "daemon_task (modify (\<lambda>s. s\<lparr>n_liquid := fst (snd (usage_tick sends b (n_liquid s)))\<rparr>))"
| on_shutdown: "daemon_task (shutdown env)"

text \<open>
  The memory of a process that has just started, and the rows of its node: the live Metal
  rows that may still hold an index hold different ones, in range.
\<close>

definition fresh_memory :: "node \<Rightarrow> bool" where
  "fresh_memory s = (n_taps s = {} \<and> n_registry s = [])"

definition may_hold_tap :: "denv \<Rightarrow> node_row \<Rightarrow> bool" where
  "may_hold_tap env = holds_tap env [''running'', ''provisioning'', ''failed'']"

definition tap_rows :: "denv \<Rightarrow> node \<Rightarrow> node_row list" where
  "tap_rows env s = filter (may_hold_tap env) (n_services s)"

definition row_tap :: "node_row \<Rightarrow> nat option" where
  "row_tap r = Option.bind (nd_tap_name r) parse_tap"

definition tap_rows_ok :: "denv \<Rightarrow> node \<Rightarrow> bool" where
  "tap_rows_ok env s =
     (distinct (map row_tap (tap_rows env s)) \<and> distinct (map (row_id env) (tap_rows env s))
      \<and> list_all (\<lambda>r. case row_tap r of None \<Rightarrow> False | Some i \<Rightarrow> i \<le> MAX_TAP_INDEX) (tap_rows env s))"

text \<open>The two calls of \<open>init_tap_indices\<close> succeed.\<close>

definition init_reads :: "denv \<Rightarrow> node \<Rightarrow> bool" where
  "init_reads env s =
     (let n = n_calls (snd (run_task (finalize_stale env) s))
      in d_fault env n = None \<and> d_fault env (Suc n) = None)"

inductive daemon_run :: "node \<times> unit node_task list \<Rightarrow> bool" where
  boot: "fresh_memory s \<Longrightarrow> tap_rows_ok env s \<Longrightarrow> init_reads env s \<Longrightarrow>
     run_task (daemon_start env) s = (Inr (), s') \<Longrightarrow> daemon_run (s', [])"
| spawn: "daemon_run (s, ts) \<Longrightarrow> daemon_task t \<Longrightarrow> daemon_run (s, ts @ [t])"
| step: "daemon_run c \<Longrightarrow> pool_step c c' \<Longrightarrow> daemon_run c'"
| outside: "daemon_run (s, ts) \<Longrightarrow> tap_view s' = tap_view s \<Longrightarrow> daemon_run (s', ts)"

lemma safe_discard: "acc nothing_owned t {} \<Longrightarrow> safe (discard t) {}"
  unfolding discard_def by (rule acc_then) (auto simp: acc_done)

lemma safe_quiet: "untouched tap_view t \<Longrightarrow> safe t {}"
  by (rule tap_untouched) simp_all

lemmas task_safe =
  safe_discard [OF acc_provision_message] safe_discard [OF acc_wake_message]
  safe_discard [OF acc_deprovision_message] safe_of [OF acc_suspend_message]
  safe_of [OF acc_ebpf_audit] acc_crash_watch acc_shutdown tap_memory.ticks [THEN safe_quiet]

lemma daemon_task_safe: "daemon_task t \<Longrightarrow> safe t {}"
  by (induction rule: daemon_task.induct) (auto intro: task_safe safe_quiet [OF untouched_modify])

section \<open>Start\<close>

text \<open>
  The status \<open>crashed\<close> is not among those the table allows, so the update that writes it
  either finds no row or is refused.
\<close>

lemma crashed_refused: "\<not> service_status_check ''crashed''"
  by (simp add: service_status_check_def)

lemma update_crashed:
  assumes "\<And>r. sv_status (f r) = ''crashed''"
  shows "snd (update_services p f s) = s"
proof (cases "filter p (n_services s)")
  case Nil
  then have "update_where p f (n_services s) = n_services s"
    by (auto simp: update_where_def filter_empty_conv intro: map_idI)
  then show ?thesis using Nil by (simp add: update_services_def)
next
  case (Cons r rs)
  then show ?thesis using crashed_refused by (simp add: update_services_def assms)
qed

lemma core_crash [untouched_intros]: "untouched core_view (db_update env p crash_row)"
  unfolding db_update_def by (intro core_host.call) (simp add: update_crashed crash_row_def)

lemma core_select_or_none [untouched_intros]: "untouched core_view (select_or_none env p)"
  unfolding select_or_none_def by (intro untouched_intros) 

lemma core_with_db [untouched_intros]: "untouched core_view t \<Longrightarrow> untouched core_view (with_db env t)"
  unfolding with_db_def by (intro untouched_intros)

lemma core_reattach_all [untouched_intros]: "untouched core_view (reattach_all env xs)"
  by (induction xs rule: reattach_all.induct) (auto intro!: untouched_intros split: sum.split)

lemma core_start [untouched_intros]:
  "untouched core_view (cleanup_orphaned_taps env)"
  "untouched core_view (cleanup_orphaned_artifacts env)"
  "untouched core_view (cleanup_orphaned_cgroups env)"
  "untouched core_view (reattach_ebpf env)"
  "untouched core_view (connect_nats_and_evict env slugs)"
  unfolding cleanup_orphaned_taps_def cleanup_orphaned_artifacts_def cleanup_orphaned_cgroups_def
    reattach_ebpf_def kill_unattached_def connect_nats_and_evict_def evict_def
  by (intro untouched_intros core_host.call; simp)+

text \<open>What a query of the start sees, if it succeeds.\<close>

lemma run_db_conn:
  "run_task (db_conn env) s =
     (case d_fault env (n_calls s) of None \<Rightarrow> (Inr (), bump s) | Some m \<Rightarrow> (Inl (Err m), bump s))"
  by (simp add: db_conn_def sys_call_def split: option.split)

lemma run_db_select:
  "run_task (db_select env p) s =
     (case d_fault env (n_calls s) of
        None \<Rightarrow> (Inr (filter p (n_services s)), bump s) | Some m \<Rightarrow> (Inl (Err m), bump s))"
  by (simp add: db_select_def sys_call_def bump_def split: option.split)

lemma run_modify: "run_task (modify f) s = (Inr (), f s)"
  by (simp add: modify_def locked_def)

lemma run_select_or_none:
  assumes "run_task (select_or_none env p) s = (r, s')"
  shows "r = Inr [] \<or> r = Inr (filter p (n_services s))" "core_view s' = core_view s"
  using assms
  by (auto simp: select_or_none_def run_and_then run_attempt run_db_select split: option.splits)

lemma run_with_db:
  "run_task (with_db env t) s =
     (case run_task (db_conn env) s of
        (Inl (Err m), s') \<Rightarrow> (Inr (), s') | (Inl Panicked, s') \<Rightarrow> (Inl Panicked, s')
      | (Inr _, s') \<Rightarrow> run_task t s')"
  by (auto simp: with_db_def run_and_then run_attempt split: prod.splits sum.splits task_error.splits)

section \<open>The rows that hold an index\<close>

lemma filter_update_apart:
  assumes "\<And>r. p r \<Longrightarrow> \<not> q r \<and> \<not> q (f r)"
  shows "filter q (update_where p f xs) = filter q xs"
  using assms by (induction xs) (auto simp: update_where_def)

lemma finalize_keeps:
  assumes "run_task (finalize_stale env) s = (r, s')"
  shows "n_taps s' = n_taps s" "n_registry s' = n_registry s" "tap_rows env s' = tap_rows env s"
proof -
  let ?v = "\<lambda>s. (n_taps s, n_registry s, tap_rows env s)"
  have upd: "untouched ?v (update_or_none env p f)"
    if "\<And>r. p r \<Longrightarrow> \<not> may_hold_tap env r \<and> \<not> may_hold_tap env (f r)" for p f
  proof -
    have "?v (snd (update_services p f s)) = ?v s" for s
      using filter_update_apart [of p "may_hold_tap env" f "n_services s"] that
      by (simp add: tap_rows_def update_services_def Let_def)
    then show ?thesis
      unfolding update_or_none_def db_update_def
      by (intro untouched_intros untouched_sys_call) (simp add: bump_def tap_rows_def)
  qed
  have conn: "untouched ?v (db_conn env)"
    unfolding db_conn_def by (intro untouched_sys_call) (simp_all add: bump_def tap_rows_def)
  have "untouched ?v (finalize_stale env)"
    unfolding finalize_stale_def
    by (intro untouched_intros upd conn) (auto simp: may_hold_tap_def holds_tap_def stop_row_def)
  from untouched_run [OF this, of s] have "?v s' = ?v s" using assms by simp
  then show "n_taps s' = n_taps s" "n_registry s' = n_registry s" "tap_rows env s' = tap_rows env s"
    by simp_all
qed

lemma tap_rows_core: "core_view s' = core_view s \<Longrightarrow> tap_rows env s' = tap_rows env s"
  by (simp add: core_view_def tap_rows_def)

lemma holds_tap_filter:
  assumes "set ss \<subseteq> {''running'', ''provisioning'', ''failed''}"
  shows "filter (holds_tap env ss) (n_services s) = filter (\<lambda>r. sv_status r \<in> set ss) (tap_rows env s)"
  using assms by (auto simp: tap_rows_def may_hold_tap_def holds_tap_def intro!: filter_cong)

definition taps_with :: "denv \<Rightarrow> string list \<Rightarrow> node \<Rightarrow> nat set" where
  "taps_with env ss s =
     {i. \<exists>r\<in>set (tap_rows env s). sv_status r \<in> set ss \<and> row_tap r = Some i}"

lemma tap_indices_taps_with:
  assumes "set ss \<subseteq> {''running'', ''provisioning'', ''failed''}"
  shows "tap_indices_of (filter (holds_tap env ss) (n_services s)) = taps_with env ss s"
  unfolding holds_tap_filter [OF assms]
  by (force simp: tap_indices_of_def taps_with_def row_tap_def List.map_filter_def)

lemma init_taps:
  assumes "d_fault env (n_calls s) = None" "d_fault env (Suc (n_calls s)) = None"
    "run_task (init_tap_indices env) s = (r, s')"
  shows "n_taps s' = taps_with env [''running'', ''provisioning''] s" "n_registry s' = n_registry s"
    "n_services s' = n_services s"
proof -
  have "s' = (bump (bump s))\<lparr>n_taps := tap_indices_of (filter P (n_services s))\<rparr>"
    if "P = holds_tap env [''running'', ''provisioning'']" for P
    using assms unfolding init_tap_indices_def that [symmetric]
    by (simp add: ignoring_def run_and_then run_attempt run_db_conn run_db_select run_modify bump_def)
  then show "n_taps s' = taps_with env [''running'', ''provisioning''] s"
    "n_registry s' = n_registry s" "n_services s' = n_services s"
    using tap_indices_taps_with [of "[''running'', ''provisioning'']" env s]
    by (simp_all add: bump_def)
qed

section \<open>The clean-up only gives indices back\<close>

definition shrinks :: "nat set \<Rightarrow> 'a node_task \<Rightarrow> bool" where
  "shrinks X t =
     (\<forall>s r s'. run_task t s = (r, s') \<longrightarrow>
        n_registry s' = n_registry s \<and> n_services s' = n_services s
        \<and> n_taps s - X \<subseteq> n_taps s' \<and> n_taps s' \<subseteq> n_taps s)"

lemma shrinks_untouched: "untouched core_view t \<Longrightarrow> shrinks X t"
  unfolding shrinks_def
proof (intro allI impI)
  fix s r s' assume "untouched core_view t" "run_task t s = (r, s')"
  then have "core_view s' = core_view s" using untouched_run [of core_view t s] by simp
  then show "n_registry s' = n_registry s \<and> n_services s' = n_services s
      \<and> n_taps s - X \<subseteq> n_taps s' \<and> n_taps s' \<subseteq> n_taps s" by (auto simp: core_view_def)
qed

lemma shrinks_and_then: "shrinks X t \<Longrightarrow> (\<And>x. shrinks X (f x)) \<Longrightarrow> shrinks X (and_then t f)"
  unfolding shrinks_def run_and_then
  by (auto split: prod.splits sum.splits) (meson Diff_iff subsetD)+

lemma shrinks_release: "parse_tap name \<in> {None} \<union> Some ` X \<Longrightarrow> shrinks X (modify (release_tap_index name))"
  by (auto simp: shrinks_def run_modify release_tap_index_def free_tap_def split: option.split)

lemma shrinks_each: "(\<And>r. r \<in> set rs \<Longrightarrow> shrinks X (f r)) \<Longrightarrow> shrinks X (each f rs)"
  by (induction rs) (auto intro: shrinks_and_then shrinks_untouched)

lemma row_tap_stale: "nd_tap_name r \<noteq> None \<Longrightarrow> parse_tap (or_default [] (nd_tap_name r)) = row_tap r"
  by (auto simp: row_tap_def or_default_def)

lemma shrinks_clean_row:
  assumes "nd_tap_name r \<noteq> None" "row_tap r \<in> {None} \<union> Some ` X"
  shows "shrinks X (clean_stale_row env r)"
proof -
  have release: "shrinks X (modify (release_tap_index (or_default [] (nd_tap_name r))))"
    using assms row_tap_stale [of r] by (intro shrinks_release) simp
  have kill: "untouched core_view (modify (\<lambda>s. if p \<in> n_procs s then kill_process p s else s))" for p
    by (intro untouched_modify) simp
  show ?thesis
    unfolding clean_stale_row_def Let_def stale_handle_def vm_handle.simps
    by (intro shrinks_and_then release; intro shrinks_untouched untouched_intros kill)
qed

lemma taps_with_holding:
  assumes "r \<in> set (filter (holds_tap env ss) (n_services s))"
    "set ss \<subseteq> {''running'', ''provisioning'', ''failed''}"
  shows "nd_tap_name r \<noteq> None" "row_tap r \<in> {None} \<union> Some ` taps_with env ss s"
proof -
  show "nd_tap_name r \<noteq> None" using assms(1) by (simp add: holds_tap_def)
  show "row_tap r \<in> {None} \<union> Some ` taps_with env ss s"
    using assms(1) unfolding holds_tap_filter [OF assms(2)] taps_with_def by (cases "row_tap r") auto
qed

lemma cleanup_stale_shrinks:
  assumes "run_task (cleanup_stale_provisioning env) s = (r, s')"
  shows "n_registry s' = n_registry s" "n_services s' = n_services s" "n_taps s' \<subseteq> n_taps s"
    "n_taps s - taps_with env [''provisioning'', ''failed''] s \<subseteq> n_taps s'"
proof -
  have "n_registry s' = n_registry s \<and> n_services s' = n_services s \<and> n_taps s' \<subseteq> n_taps s
      \<and> n_taps s - X \<subseteq> n_taps s'"
    if X: "X = taps_with env ss s" and ss: "ss = [''provisioning'', ''failed'']" for X ss
  proof -
    have each: "shrinks X (each (clean_stale_row env) rows)"
      if "rows = [] \<or> rows = filter (holds_tap env ss) (n_services s)" for rows
    proof (rule shrinks_each)
      fix r assume "r \<in> set rows"
      then have "r \<in> set (filter (holds_tap env ss) (n_services s))" using that by auto
      then show "shrinks X (clean_stale_row env r)"
        using shrinks_clean_row taps_with_holding [of r env ss s] ss X by simp
    qed
    show ?thesis
    proof (cases "d_fault env (n_calls s)")
      case (Some m)
      then show ?thesis
        using assms unfolding cleanup_stale_provisioning_def
        by (auto simp: run_with_db run_db_conn bump_def)
    next
      case None
      obtain r1 s1 where sel: "run_task (select_or_none env (holds_tap env ss)) (bump s) = (r1, s1)"
        by fastforce
      have b: "n_services (bump s) = n_services s" "n_taps (bump s) = n_taps s"
        "n_registry (bump s) = n_registry s" by (simp_all add: bump_def)
      have c: "n_services s1 = n_services s" "n_taps s1 = n_taps s" "n_registry s1 = n_registry s"
        using run_select_or_none(2) [OF sel] b by (simp_all add: core_view_def)
      obtain rows where rows: "r1 = Inr rows" "rows = [] \<or> rows = filter (holds_tap env ss) (n_services s)"
        using run_select_or_none(1) [OF sel] b by auto
      have "run_task (each (clean_stale_row env) rows) s1 = (r, s')"
        using assms None sel rows(1) unfolding cleanup_stale_provisioning_def ss [symmetric]
        by (simp add: run_with_db run_db_conn run_and_then)
      then show ?thesis using each [OF rows(2)] c unfolding shrinks_def by metis
    qed
  qed
  then show "n_registry s' = n_registry s" "n_services s' = n_services s" "n_taps s' \<subseteq> n_taps s"
    "n_taps s - taps_with env [''provisioning'', ''failed''] s \<subseteq> n_taps s'"
    by blast+
qed

section \<open>The registry a start rebuilds\<close>

lemma fold_register:
  assumes "distinct (map k rows)" "k ` set rows \<inter> fst ` set (n_registry s) = {}"
  shows "fold (\<lambda>r. register_vm (k r) (h r)) rows s =
    s\<lparr>n_registry := n_registry s @ map (\<lambda>r. (k r, h r)) rows\<rparr>"
  using assms
proof (induction rows arbitrary: s)
  case (Cons r rows)
  have "register_vm (k r) (h r) s = s\<lparr>n_registry := n_registry s @ [(k r, h r)]\<rparr>"
    using Cons.prems AList_update_new [of "n_registry s" "k r" "h r"]
    by (simp add: register_vm_def map_of_eq_None_iff)
  moreover have "k ` set rows \<inter> fst ` set (n_registry s @ [(k r, h r)]) = {}" "distinct (map k rows)"
    using Cons.prems by auto
  ultimately show ?case using Cons.IH by simp
qed simp

lemma run_rebuild:
  assumes "run_task (rebuild_registry env) s = (Inr x, s')" "n_registry s = []"
    "distinct (map (row_id env) (filter (recoverable env) (n_services s)))"
  shows "n_taps s' = n_taps s"
    "n_registry s' = [] \<or> n_registry s' =
       map (\<lambda>r. (row_id env r, recovered_handle env r)) (filter (recoverable env) (n_services s))"
proof -
  let ?rows = "filter (recoverable env) (n_services s)"
  have "n_taps s' = n_taps s \<and> (n_registry s' = [] \<or> n_registry s' =
      map (\<lambda>r. (row_id env r, recovered_handle env r)) ?rows)"
  proof (cases "d_fault env (n_calls s)")
    case (Some m)
    then show ?thesis using assms by (auto simp: rebuild_registry_def run_with_db run_db_conn bump_def)
  next
    case None
    obtain r1 s1 where sel: "run_task (select_or_none env (recoverable env)) (bump s) = (r1, s1)"
      by fastforce
    have b: "n_services (bump s) = n_services s" "n_taps (bump s) = n_taps s"
      "n_registry (bump s) = n_registry s" by (simp_all add: bump_def)
    have c: "n_taps s1 = n_taps s" "n_registry s1 = []"
      using run_select_or_none(2) [OF sel] b assms(2) by (simp_all add: core_view_def)
    obtain rows where rows: "r1 = Inr rows" "rows = [] \<or> rows = ?rows"
      using run_select_or_none(1) [OF sel] b by auto
    have "run_task (if list_ex (\<lambda>r. nd_vm_id r = None) rows then Done (Inl Panicked)
        else modify (fold (\<lambda>r. register_vm (row_id env r) (recovered_handle env r)) rows)) s1 =
        (Inr x, s')"
      using assms(1) None sel rows(1)
      by (simp add: rebuild_registry_def run_with_db run_db_conn run_and_then)
    then have "s' = fold (\<lambda>r. register_vm (row_id env r) (recovered_handle env r)) rows s1"
      by (simp add: run_modify split: if_splits)
    moreover have "distinct (map (row_id env) rows)" using assms(3) rows(2) by auto
    ultimately have "s' = s1\<lparr>n_registry := map (\<lambda>r. (row_id env r, recovered_handle env r)) rows\<rparr>"
      using fold_register [of "row_id env" rows s1 "recovered_handle env"] c(2) by simp
    then show ?thesis using c rows(2) by auto
  qed
  then show "n_taps s' = n_taps s" "n_registry s' = [] \<or> n_registry s' =
      map (\<lambda>r. (row_id env r, recovered_handle env r)) ?rows" by blast+
qed

lemma run_bind:
  assumes "run_task (and_then t f) s = (Inr y, s2)"
  obtains x s1 where "run_task t s = (Inr x, s1)" "run_task (f x) s1 = (Inr y, s2)"
  using assms by (auto simp: run_and_then split: prod.splits sum.splits)

lemma core_kept: "untouched core_view t \<Longrightarrow> run_task t s = (r, s') \<Longrightarrow>
   n_taps s' = n_taps s \<and> n_registry s' = n_registry s \<and> n_services s' = n_services s"
  using untouched_run [of core_view t s] by (simp add: core_view_def)

text \<open>What a start leaves: the indices of the running and provisioning rows, less some of those
  it tears down, and the recoverable rows registered.\<close>

lemma start_leaves:
  assumes "fresh_memory s" "init_reads env s" "run_task (daemon_start env) s = (Inr (), s')"
    "distinct (map (row_id env) (tap_rows env s))"
  defines "R \<equiv> taps_with env [''running'', ''provisioning''] s"
    and "X \<equiv> taps_with env [''provisioning'', ''failed''] s"
    and "rows \<equiv> filter (\<lambda>r. sv_status r = ''running'' \<and> nd_fc_pid r \<noteq> None) (tap_rows env s)"
  shows "R - X \<subseteq> n_taps s'" "n_taps s' \<subseteq> R"
    "n_registry s' = [] \<or> n_registry s' = map (\<lambda>r. (row_id env r, recovered_handle env r)) rows"
proof -
  obtain slugs u where "run_task (run_cleanup env) s = (Inr slugs, u)"
    and rest: "run_task (and_then (reattach_ebpf env) (\<lambda>_. and_then (rebuild_registry env) (\<lambda>_.
      connect_nats_and_evict env slugs))) u = (Inr (), s')"
    using assms(3) unfolding daemon_start_def by (rule run_bind)
  then obtain sl s1 x2 s2 x3 s3 x4 s4 x5 s5 x6 s6 where
    c1: "run_task (finalize_stale env) s = (Inr sl, s1)" and
    c2: "run_task (init_tap_indices env) s1 = (Inr x2, s2)" and
    c3: "run_task (cleanup_orphaned_taps env) s2 = (Inr x3, s3)" and
    c4: "run_task (cleanup_orphaned_artifacts env) s3 = (Inr x4, s4)" and
    c5: "run_task (cleanup_orphaned_cgroups env) s4 = (Inr x5, s5)" and
    c6: "run_task (cleanup_stale_provisioning env) s5 = (Inr x6, u)"
    unfolding run_cleanup_def by (elim run_bind) (auto elim: run_bind)
  from rest obtain x7 s7 x8 s8 where
    c7: "run_task (reattach_ebpf env) u = (Inr x7, s7)" and
    c8: "run_task (rebuild_registry env) s7 = (Inr x8, s8)" and
    c9: "run_task (connect_nats_and_evict env slugs) s8 = (Inr (), s')"
    by (elim run_bind) auto
  note k1 = finalize_keeps [OF c1]
  have "d_fault env (n_calls s1) = None" "d_fault env (Suc (n_calls s1)) = None"
    using assms(2) c1 by (simp_all add: init_reads_def Let_def)
  note k2 = init_taps [OF this c2]
  note k = core_start [THEN core_kept]
  have s5: "n_taps s5 = n_taps s2" "n_registry s5 = n_registry s2" "n_services s5 = n_services s1"
    using k(1) [OF c3] k(2) [OF c4] k(3) [OF c5] k2(3) by simp_all
  have rows_eq: "tap_rows env x = tap_rows env s" if "n_services x = n_services s1" for x
    using that k1(3) by (simp add: tap_rows_def)
  have tw: "taps_with env ss x = taps_with env ss s" if "n_services x = n_services s1" for x ss
    using rows_eq [OF that] by (simp add: taps_with_def)
  have taps5: "n_taps s5 = R" "n_registry s5 = []"
    using s5 k2 tw [of s1] assms(1) k1 unfolding R_def fresh_memory_def by simp_all
  have s7: "n_registry s7 = []" "n_services s7 = n_services s1" "n_taps s7 \<subseteq> R" "R - X \<subseteq> n_taps s7"
    using cleanup_stale_shrinks [OF c6] k(4) [OF c7] taps5 s5(3) tw [of s5] unfolding X_def by simp_all
  have "filter (recoverable env) (n_services s7) = filter (\<lambda>r. sv_status r = ''running'' \<and> nd_fc_pid r \<noteq> None) (tap_rows env s7)"
    by (auto simp: tap_rows_def recoverable_def may_hold_tap_def holds_tap_def intro!: filter_cong)
  then have rec: "filter (recoverable env) (n_services s7) = rows"
    using rows_eq [OF s7(2)] by (simp add: rows_def)
  have "distinct (map (row_id env) (filter (recoverable env) (n_services s7)))"
    using assms(4) unfolding rec rows_def by (rule distinct_map_filter)
  from run_rebuild [OF c8 s7(1) this] have s8: "n_taps s8 = n_taps s7"
    "n_registry s8 = [] \<or> n_registry s8 = map (\<lambda>r. (row_id env r, recovered_handle env r)) rows"
    unfolding rec by blast+
  then show "R - X \<subseteq> n_taps s'" "n_taps s' \<subseteq> R"
    "n_registry s' = [] \<or> n_registry s' = map (\<lambda>r. (row_id env r, recovered_handle env r)) rows"
    using k(5) [OF c9] s7 by auto
qed

text \<open>The rows that keep an index keep different ones, so those of the running VMs survive.\<close>

lemma start_taps_ok:
  assumes "fresh_memory s" "tap_rows_ok env s" "init_reads env s"
    "run_task (daemon_start env) s = (Inr (), s')"
  shows "taps_ok s'"
proof -
  let ?rows = "filter (\<lambda>r. sv_status r = ''running'' \<and> nd_fc_pid r \<noteq> None) (tap_rows env s)"
  have d: "distinct (map row_tap (tap_rows env s))" "distinct (map (row_id env) (tap_rows env s))"
    and b: "\<forall>r\<in>set (tap_rows env s). \<exists>i. row_tap r = Some i \<and> i \<le> MAX_TAP_INDEX"
    using assms(2) by (auto simp: tap_rows_ok_def list_all_iff split: option.splits)
  note l = start_leaves [OF assms(1,3,4) d(2)]
  have max: "i \<le> MAX_TAP_INDEX" if "i \<in> taps_with env ss s" for i ss
    using that b by (auto simp: taps_with_def)
  then have le: "\<forall>i\<in>n_taps s'. i \<le> MAX_TAP_INDEX" using l(2) by blast
  then have fin: "finite (n_taps s')" using finite_nat_set_iff_bounded_le by blast
  show ?thesis
  proof (cases "n_registry s' = []")
    case True
    then show ?thesis using le fin by (simp add: taps_ok_def vm_taps_def)
  next
    case False
    then have reg: "n_registry s' = map (\<lambda>r. (row_id env r, recovered_handle env r)) ?rows"
      using l(3) by blast
    have tap: "tap_of (recovered_handle env r) = row_tap r" if "r \<in> set ?rows" for r
      using that row_tap_stale [of r]
      by (simp add: tap_of_def recovered_handle_def tap_rows_def may_hold_tap_def holds_tap_def)
    have vt: "vm_taps (n_registry s') = map row_tap ?rows"
      using tap by (auto simp: reg vm_taps_def comp_def)
    have "t \<in> Some ` n_taps s'" if t: "t \<in> set (map row_tap ?rows)" for t
    proof -
      obtain r where r: "r \<in> set (tap_rows env s)" "sv_status r = ''running''" "t = row_tap r"
        using t unfolding set_map set_filter by blast
      then obtain i where i: "row_tap r = Some i" using b by blast
      have "q = r" if "q \<in> set (tap_rows env s)" "row_tap q = Some i" for q
        using d(1) that r(1) i by (auto simp: distinct_map inj_on_def)
      then have "i \<notin> taps_with env [''provisioning'', ''failed''] s"
        using r(2) by (auto simp: taps_with_def)
      moreover have "i \<in> taps_with env [''running'', ''provisioning''] s"
        using r(1,2) i by (auto simp: taps_with_def)
      ultimately show ?thesis using l(1) r(3) i by blast
    qed
    moreover have "distinct (map row_tap ?rows)" "distinct (map (row_id env) ?rows)"
      using d(1) [THEN distinct_map_filter] d(2) [THEN distinct_map_filter] by blast+
    ultimately show ?thesis
      using le fin unfolding taps_ok_def vt by (auto simp: reg comp_def)
  qed
qed

section \<open>No two owners\<close>

lemma run_settled: "daemon_run c \<Longrightarrow> settled taps_ok in_flight (fst c) (snd c)"
proof (induction rule: daemon_run.induct)
  case (boot s env s')
  then show ?case by (auto simp: settled_def start_taps_ok)
next
  case (spawn s ts t)
  then show ?case using tap.settled_spawn daemon_task_safe by simp
next
  case (step c c')
  then show ?case using tap.settled_step by (metis prod.collapse)
next
  case (outside s ts s')
  then show ?case
    using taps_ok_view [of s' s] in_flight_view [of s' s] by (simp add: settled_def)
qed

text \<open>
  C2: however the daemon's handlers and background tasks interleave, are dropped or fail
  after a start, two registered VMs never have the same TAP index, every index of a
  registered VM is marked as taken and in the range of the address plan, and the next index
  handed out is one that no registered VM has.
\<close>

theorem tap_index_one_owner:
  assumes "daemon_run (s, ts)"
  shows "(\<forall>a ha b hb. map_of (n_registry s) a = Some ha \<longrightarrow> map_of (n_registry s) b = Some hb \<longrightarrow>
            vh_tap_name ha = vh_tap_name hb \<longrightarrow> a = b) \<and>
         (\<forall>a h. map_of (n_registry s) a = Some h \<longrightarrow>
            (\<exists>i\<le>MAX_TAP_INDEX. parse_tap (vh_tap_name h) = Some i \<and> i \<in> n_taps s)) \<and>
         (\<forall>i s'. allocate_tap_index s = (Inr i, s') \<longrightarrow>
            (\<forall>a h. map_of (n_registry s) a = Some h \<longrightarrow> vh_tap_name h \<noteq> tap_name i))"
proof -
  have ok: "taps_ok s" using run_settled [OF assms] by (simp add: settled_def)
  have taken: "\<exists>i\<le>MAX_TAP_INDEX. parse_tap (vh_tap_name h) = Some i \<and> i \<in> n_taps s"
    if "map_of (n_registry s) a = Some h" for a h
    using ok map_of_SomeD [OF that] by (fastforce simp: taps_ok_def vm_taps_def tap_of_def)
  have "a = b" if "map_of (n_registry s) a = Some ha" "map_of (n_registry s) b = Some hb"
    "vh_tap_name ha = vh_tap_name hb" for a ha b hb
    using ok map_of_SomeD [OF that(1)] map_of_SomeD [OF that(2)] that(3)
    by (fastforce simp: taps_ok_def vm_taps_def tap_of_def distinct_map inj_on_def)
  moreover have "vh_tap_name h \<noteq> tap_name i"
    if "allocate_tap_index s = (Inr i, s')" "map_of (n_registry s) a = Some h" for i s' a h
    using taken [OF that(2)] allocate_least(2,3) [OF ok that(1)] MAX_TAP_small parse_tap_name [of i]
    by fastforce
  ultimately show ?thesis using taken by blast
qed

end
