(* ===== verification/NodeExamples.thy ===== *)
theory NodeExamples
  imports Fleet
begin

text \<open>
  A concrete node on which the properties of the daemon are exercised, and runs of the
  daemon that show where it falls short of what it means to do.
\<close>

section \<open>A node\<close>

definition plain_features :: features where
  "plain_features = \<lparr>require_invite = False, enable_metal = True, enable_liquid = True,
     enforce_quotas = True, maintenance_mode = False\<rparr>"

definition plain_denv :: denv where
  "plain_denv =
     \<lparr>d_fault = (\<lambda>_. None), d_now = 1700000000, d_uuid = (\<lambda>_. ''vm''),
      d_parse_uuid = map_of [(''7'', 7), (''8'', 8)], d_uuid_error = (\<lambda>_. ''invalid''),
      d_uuid_str = (\<lambda>u. show_nat (unat u)), d_pid = (\<lambda>_. 4242), d_port = (\<lambda>_. 40000),
      d_status = (\<lambda>_. True), d_stderr = (\<lambda>_. []), d_entries = (\<lambda>_. []), d_listing = (\<lambda>_ _. []),
      d_objects = (\<lambda>_. Some ''wasm''), d_sha256 = (\<lambda>_. replicate 32 (CHR 0x30)), d_lower = (\<lambda>s. s),
      d_show_json = (\<lambda>_. ''json''), d_parse_json = (\<lambda>_. None), d_compile = Inr,
      d_serialize = Some, d_deserialize = Some, d_trim = (\<lambda>s. s), d_has_filter = (\<lambda>_. True),
      d_answers = (\<lambda>_. True), d_expired = (\<lambda>_ _. False), d_vars = Map.empty,
      d_features = plain_features, d_cfg = build_config Map.empty\<rparr>"

definition plain_row :: "uuid \<Rightarrow> string \<Rightarrow> string \<Rightarrow> string \<Rightarrow> int \<Rightarrow> node_row" where
  "plain_row sid slug status tap pid =
     \<lparr>sv_id = sid, sv_project = 3, sv_workspace = 2, sv_name = slug, sv_slug = slug,
      sv_engine = ''metal'', sv_status = status, sv_upstream = None, sv_artifact_key = Some ''k'',
      sv_commit_sha = None, sv_vcpu = 1, sv_memory_mb = 2048, sv_port = 80,
      sv_metal_tier = Some ''one'', sv_price_cents = Some 2000, sv_cycle_start = Some 1690000000,
      sv_snapshot_key = None, sv_failure_reason = None, sv_created_at = 1690000000,
      sv_deleted_at = None, nd_node_id = Some ''node-a'', nd_tap_name = Some tap,
      nd_fc_pid = Some pid, nd_vm_id = Some ''vm'', nd_attempts = 0, nd_last_request = None\<rparr>"

definition plain_node :: "node_row list \<Rightarrow> node" where
  "plain_node rows =
     \<lparr>n_services = rows, n_workspaces = [], n_taps = {}, n_registry = [], n_liquid = [],
      n_filters = [], n_devices = {''br0'', ''tap0'', ''tap1''}, n_bridged = [], n_procs = {100, 101},
      n_signalled_self = False, n_cgroups = [], n_files = Map.empty, n_shims = [], n_template = None,
      n_calls = 0, n_log = []\<rparr>"

definition two_vms :: node where
  "two_vms = plain_node [plain_row 7 ''a'' ''running'' ''tap0'' 100, plain_row 8 ''b'' ''running'' ''tap1'' 101]"

text \<open>Running a call, and a task that only logs an error.\<close>

lemma run_sys_call [simp]:
  "run_task (sys_call env f) s =
     (case d_fault env (n_calls s) of Some m \<Rightarrow> (Inl (Err m), bump s) | None \<Rightarrow> f (bump s))"
  by (simp add: sys_call_def)

lemma run_locked [simp]: "run_task (locked f) s = (case f s of (x, s') \<Rightarrow> (Inr x, s'))"
  by (simp add: locked_def)

lemma run_ignoring [simp]:
  "run_task (ignoring t) s =
     (case run_task t s of (Inl Panicked, s') \<Rightarrow> (Inl Panicked, s') | (_, s') \<Rightarrow> (Inr (), s'))"
  by (auto simp: ignoring_def run_and_then run_attempt split: prod.splits sum.splits task_error.splits)

lemmas run_step = run_and_then run_attempt run_with_context run_each run_holding run_modify

lemmas call_defs =
  db_conn_def db_select_def db_update_def update_services_def update_where_def command_def command_effect_def
  read_file_def write_file_def copy_file_def rename_file_def remove_file_def remove_dir_all_def
  directory_call_def file_exists_def publish_def jet_publish_def publish_progress_def
  log_effect_def bump_def kill_process_def

lemmas start_defs =
  daemon_start_def run_cleanup_def finalize_stale_def update_or_none_def select_or_none_def
  init_tap_indices_def cleanup_orphaned_taps_def cleanup_orphaned_artifacts_def
  cleanup_orphaned_cgroups_def cleanup_stale_provisioning_def reattach_ebpf_def rebuild_registry_def
  connect_nats_and_evict_def run_with_db holds_tap_def tap_indices_of_def ebpf_attach_def

definition plain_cfg :: provision_config where
  "plain_cfg = build_config Map.empty"

lemma plain_denv_simps [simp]:
  "d_fault plain_denv = (\<lambda>_. None)"
  "d_cfg plain_denv = plain_cfg" "d_uuid_str plain_denv u = show_nat (unat u)"
  "d_listing plain_denv = (\<lambda>_ _. [])" "d_status plain_denv = (\<lambda>_. True)"
  "d_parse_uuid plain_denv = map_of [(''7'', 7), (''8'', 8)]" "d_now plain_denv = 1700000000"
  by (simp_all add: plain_denv_def plain_cfg_def)

lemma plain_cfg_simps [simp]:
  "pc_node_id plain_cfg = ''node-a''" "pc_use_jailer plain_cfg = False"
  "pc_artifact_dir plain_cfg = ''/var/lib/liquid-metal/artifacts''"
  by (simp_all add: plain_cfg_def build_config_def env_or_def)

lemma tap_names: "tap_name 0 = ''tap0''" "tap_name 1 = ''tap1''"
  by code_simp+

lemma parse_taps [simp]: "parse_tap ''tap0'' = Some 0" "parse_tap ''tap1'' = Some 1"
  using parse_tap_name [of 0] parse_tap_name [of 1] by (simp_all add: tap_names [simplified])

lemma show_ids [simp]: "show_nat 7 = ''7''" "show_nat 8 = ''8''"
  by code_simp+

lemma or_default_simps [simp]: "or_default d None = d" "or_default d (Some x) = x"
  by (simp_all add: or_default_def)

lemmas row_defs = plain_node_def plain_row_def on_node_def node_live_def row_id_def row_tap_def

lemmas node_run_defs = row_defs start_defs call_defs run_step Let_def

lemma two_vms_start:
  "run_task (daemon_start plain_denv) two_vms = (Inr (), snd (run_task (daemon_start plain_denv) two_vms))"
  "n_registry (snd (run_task (daemon_start plain_denv) two_vms)) =
     [(''7'', handle_of plain_denv ''tap0'' 100 ''vm''), (''8'', handle_of plain_denv ''tap1'' 101 ''vm'')]"
  by (simp_all add: two_vms_def node_run_defs register_vm_def
      recoverable_def recovered_handle_def handle_of_def wrap_u32_def prod_eq_iff)

lemma two_vms_rows: "fresh_memory two_vms" "tap_rows_ok plain_denv two_vms" "init_reads plain_denv two_vms"
  by (simp_all add: two_vms_def row_defs fresh_memory_def tap_rows_ok_def tap_rows_def may_hold_tap_def
      holds_tap_def MAX_TAP_INDEX_def init_reads_def plain_denv_def list_all_iff)

lemma two_vms_runs: "daemon_run (snd (run_task (daemon_start plain_denv) two_vms), [])"
  by (rule daemon_run.boot [OF two_vms_rows two_vms_start(1)])

lemma tap_index_one_owner_witness:
  "\<exists>i\<le>MAX_TAP_INDEX. parse_tap (vh_tap_name (handle_of plain_denv ''tap1'' 101 ''vm'')) = Some i \<and>
     i \<in> n_taps (snd (run_task (daemon_start plain_denv) two_vms))"
proof -
  have "map_of (n_registry (snd (run_task (daemon_start plain_denv) two_vms))) ''8'' =
      Some (handle_of plain_denv ''tap1'' 101 ''vm'')"
    by (simp add: two_vms_start(2))
  with tap_index_one_owner [OF two_vms_runs] show ?thesis by blast
qed

section \<open>Starts that go wrong\<close>

text \<open>
  When the query of the indices fails, the set starts empty, and yet the running VMs are
  registered: the next VM gets the index, the device and the address of one of them.
\<close>

definition init_fails :: denv where
  "init_fails = plain_denv\<lparr>d_fault := (\<lambda>n. if n = 3 then Some ''timeout'' else None)\<rparr>"

lemma failed_init_shares_index:
  "map_of (n_registry (snd (run_task (daemon_start init_fails) two_vms))) ''7'' =
     Some (handle_of plain_denv ''tap0'' 100 ''vm'')"
  "fst (allocate_tap_index (snd (run_task (daemon_start init_fails) two_vms))) = Inr 0"
  by (simp_all add: init_fails_def two_vms_def node_run_defs register_vm_def recoverable_def
      recovered_handle_def handle_of_def wrap_u32_def allocate_tap_index_def MAX_TAP_INDEX_def)

text \<open>
  A failed row keeps the TAP name of its last VM. When the index has gone to another service
  since, the clean-up of the start gives the index of the running VM back and deletes its
  device. Here the failed row has no process id either: the daemon signals its own process
  group.
\<close>

definition stale_node :: node where
  "stale_node = plain_node [plain_row 7 ''a'' ''running'' ''tap0'' 100,
     (plain_row 8 ''b'' ''failed'' ''tap0'' 0)\<lparr>nd_fc_pid := None\<rparr>]"

lemma stale_row_tears_down_running_vm:
  "map fst (n_registry (snd (run_task (daemon_start plain_denv) stale_node))) = [''7'']"
  "n_taps (snd (run_task (daemon_start plain_denv) stale_node)) = {}"
  "''tap0'' \<notin> n_devices (snd (run_task (daemon_start plain_denv) stale_node))"
  "n_signalled_self (snd (run_task (daemon_start plain_denv) stale_node))"
  by (simp_all add: stale_node_def node_run_defs register_vm_def recoverable_def clean_stale_row_def
      recovered_handle_def stale_handle_def wrap_u32_def crash_row_def service_status_check_def
      release_tap_index_def free_tap_def deprovision_metal_def ebpf_detach_def tc_remove_def
      delete_tap_def link_index_def cgroup_cleanup_def kill_unattached_def)

end
