(* ===== verification/Lifecycle.thy ===== *)
theory Lifecycle
  imports Fleet
begin

text \<open>
  A Metal VM from its provision message to its end. \<open>leads v V t Q\<close> says what a task run
  from a state that shows \<open>V\<close> returns and shows when it ends; the rules follow the structure
  of a task, and a part that does not touch the view is passed over. With them: a message
  that provisions a VM leaves either the VM registered and running or nothing of it; what a
  successful provision records is what a restart of the daemon recovers; a shutdown leaves
  no VM; a crash is never recorded; the readiness probe ends.
\<close>

section \<open>What a task leads to\<close>

definition leads ::
    "('s \<Rightarrow> 'v) \<Rightarrow> 'v \<Rightarrow> ('s, 'a) task \<Rightarrow> (task_error + 'a \<Rightarrow> 'v \<Rightarrow> bool) \<Rightarrow> bool" where
  "leads v V t Q = (\<forall>s. v s = V \<longrightarrow> Q (fst (run_task t s)) (v (snd (run_task t s))))"

lemma leads_run: "leads v (v s) t Q \<Longrightarrow> run_task t s = (r, s') \<Longrightarrow> Q r (v s')"
  by (auto simp: leads_def)

lemma leads_mono: "leads v V t Q \<Longrightarrow> (\<And>r W. Q r W \<Longrightarrow> R r W) \<Longrightarrow> leads v V t R"
  by (simp add: leads_def)

lemma leads_done:
  "Q (Inr x) V \<Longrightarrow> leads v V (finish x) Q" "Q (Inl (Err m)) V \<Longrightarrow> leads v V (bail m) Q"
  "Q r V \<Longrightarrow> leads v V (Done r) Q"
  by (simp_all add: leads_def)

lemma leads_if:
  "(b \<Longrightarrow> leads v V t Q) \<Longrightarrow> (\<not> b \<Longrightarrow> leads v V u Q) \<Longrightarrow> leads v V (if b then t else u) Q"
  by simp

lemma leads_then:
  "leads v V t (\<lambda>r W. case r of Inl e \<Rightarrow> Q (Inl e) W | Inr x \<Rightarrow> leads v W (f x) Q)
   \<Longrightarrow> leads v V (and_then t f) Q"
  unfolding leads_def run_and_then by (fastforce split: prod.splits sum.splits)

lemma leads_quiet: "untouched v t \<Longrightarrow> (\<And>r. Q r V) \<Longrightarrow> leads v V t Q"
  by (simp add: leads_def untouched_run)

lemma leads_quiet_then:
  assumes "untouched v t" "\<And>e. Q (Inl e) V" "\<And>x. leads v V (f x) Q"
  shows "leads v V (and_then t f) Q"
  by (rule leads_then, rule leads_quiet [OF assms(1)]) (simp add: assms split: sum.split)

lemma leads_attempt:
  "leads v V t (\<lambda>r W. case r of Inl (Err m) \<Rightarrow> Q (Inr (Inl m)) W | Inl e \<Rightarrow> Q (Inl e) W
                              | Inr x \<Rightarrow> Q (Inr (Inr x)) W)
   \<Longrightarrow> leads v V (attempt t) Q"
  unfolding leads_def run_attempt by (fastforce split: prod.splits sum.splits task_error.splits)

lemma leads_attempt_then:
  "leads v V t (\<lambda>r W. case r of Inl (Err m) \<Rightarrow> leads v W (f (Inl m)) Q | Inl e \<Rightarrow> Q (Inl e) W
                              | Inr x \<Rightarrow> leads v W (f (Inr x)) Q)
   \<Longrightarrow> leads v V (and_then (attempt t) f) Q"
  by (rule leads_then, rule leads_attempt) (simp cong: sum.case_cong task_error.case_cong)

lemma leads_with_context:
  "leads v V t (\<lambda>r W. case r of Inl (Err m) \<Rightarrow> Q (Inl (Err (c @ '': '' @ m))) W | _ \<Rightarrow> Q r W)
   \<Longrightarrow> leads v V (with_context c t) Q"
  unfolding leads_def run_with_context by (fastforce split: prod.splits sum.splits task_error.splits)

lemma leads_holding:
  "leads v V t (\<lambda>r W. if r = Inl Panicked then \<forall>s. v s = W \<longrightarrow> Q r (v (d s)) else Q r W)
   \<Longrightarrow> leads v V (holding d t) Q"
  unfolding leads_def run_holding by (fastforce split: prod.splits)

lemma leads_modify_then:
  assumes "\<And>s. v s = V \<Longrightarrow> v (f s) = W" "leads v W (g ()) Q"
  shows "leads v V (and_then (modify f) g) Q"
  using assms unfolding leads_def by (simp add: run_and_then run_modify)

lemma leads_atomically:
  "(\<And>s. v s = V \<Longrightarrow> case f s of (r, s') \<Rightarrow> Q r (v s')) \<Longrightarrow> leads v V (atomically f) Q"
  by (fastforce simp: leads_def split: prod.splits)

lemma leads_atomically_then:
  assumes "\<And>s. v s = V \<Longrightarrow> case f s of (Inl e, s') \<Rightarrow> Q (Inl e) (v s')
                                  | (Inr x, s') \<Rightarrow> leads v (v s') (g x) Q"
  shows "leads v V (and_then (atomically f) g) Q"
  by (rule leads_then) (use assms in \<open>fastforce simp: leads_def split: prod.splits sum.splits\<close>)

lemma leads_locked_then:
  assumes "\<And>s. v s = V \<Longrightarrow> case f s of (x, s') \<Rightarrow> leads v (v s') (g x) Q"
  shows "leads v V (and_then (locked f) g) Q"
  unfolding locked_def
  by (rule leads_atomically_then) (use assms in \<open>fastforce split: prod.splits\<close>)


section \<open>Tasks without errors\<close>

text \<open>A task that logs its errors and goes on returns none.\<close>

named_theorems mild_intros

definition mild :: "('s, 'a) task \<Rightarrow> bool" where
  "mild t = (\<forall>s m. fst (run_task t s) \<noteq> Inl (Err m))"

lemma mild_finish [mild_intros]: "mild (finish x)"
  by (simp add: mild_def)

lemma mild_and_then [mild_intros]: "mild t \<Longrightarrow> (\<And>x. mild (f x)) \<Longrightarrow> mild (and_then t f)"
proof -
  assume t: "mild t" "\<And>x. mild (f x)"
  have "fst (run_task (and_then t f) s) \<noteq> Inl (Err m)" for s m
  proof (cases "run_task t s")
    case (Pair r s')
    then have "r \<noteq> Inl (Err m)" using t(1) unfolding mild_def by (metis fst_conv)
    then show ?thesis using Pair t(2) by (cases r) (auto simp: run_and_then mild_def)
  qed
  then show ?thesis by (simp add: mild_def)
qed

lemma mild_attempt [mild_intros]: "mild (attempt t)"
  unfolding mild_def run_attempt by (simp split: prod.split sum.split task_error.split)

lemma mild_ignoring [mild_intros]: "mild (ignoring t)"
  unfolding ignoring_def by (intro mild_intros)

lemma mild_locked [mild_intros]: "mild (locked f)"
  by (simp add: mild_def locked_def split: prod.split)

lemma mild_modify [mild_intros]: "mild (modify f)"
  unfolding modify_def by (rule mild_locked)

lemma mild_each [mild_intros]: "(\<And>r. mild (f r)) \<Longrightarrow> mild (each f rs)"
  by (induction rs) (auto intro!: mild_intros)

lemma mild_cases [mild_intros]:
  "mild a \<Longrightarrow> mild b \<Longrightarrow> mild (if c then a else b)"
  "mild a \<Longrightarrow> (\<And>y. mild (h y)) \<Longrightarrow> mild (case x of None \<Rightarrow> a | Some y \<Rightarrow> h y)"
  "(\<And>y. mild (k y)) \<Longrightarrow> (\<And>z. mild (l z)) \<Longrightarrow> mild (case w of Inl y \<Rightarrow> k y | Inr z \<Rightarrow> l z)"
  by (simp_all split: option.split sum.split)

lemma mild_daemon [mild_intros]:
  "mild (publish_progress env sid step m)" "mild (socket_appears env)" "mild (tc_remove env tap)"
  "mild (ebpf_detach tap)" "mild (cgroup_cleanup env sid)" "mild (jailer_cleanup env base vm_id)"
  "mild (evict env slug)" "mild (mark_failed env sid m)"
  unfolding publish_progress_def socket_appears_def tc_remove_def ebpf_detach_def cgroup_cleanup_def
    jailer_cleanup_def evict_def mark_failed_def Let_def
  by (intro mild_intros)+

lemma mild_with_db [mild_intros]: "mild t \<Longrightarrow> mild (with_db env t)"
  unfolding with_db_def by (intro mild_intros)

lemma mild_deprovision [mild_intros]: "mild (deprovision_metal env sid h)"
  unfolding deprovision_metal_def by (intro mild_intros)

lemma leads_mild_then:
  assumes "untouched v t" "mild t" "Q (Inl Panicked) V" "\<And>x. leads v V (f x) Q"
  shows "leads v V (and_then t f) Q"
  unfolding leads_def
proof (intro allI impI)
  fix s assume s: "v s = V"
  obtain r s' where r: "run_task t s = (r, s')" by fastforce
  have s': "v s' = V" using untouched_run [OF assms(1), of s] r s by simp
  show "Q (fst (run_task (and_then t f) s)) (v (snd (run_task (and_then t f) s)))"
  proof (cases r)
    case (Inl e)
    then have "e = Panicked" using assms(2) r unfolding mild_def by (metis fst_conv task_error.exhaust)
    then show ?thesis using Inl r s' assms(3) by (simp add: run_and_then)
  next
    case (Inr x)
    then show ?thesis using r s' assms(4) [of x] by (simp add: run_and_then leads_def)
  qed
qed

section \<open>Starting a VM\<close>

text \<open>
  \<open>all_or_none p V b\<close>: an error leaves the view \<open>V\<close>, a result of which \<open>b\<close> makes the process
  id adds the process \<open>p\<close>.
\<close>

type_synonym processes = "nat set \<times> (string \<times> vm_handle) list \<times> nat set"

definition all_or_none ::
    "nat \<Rightarrow> processes \<Rightarrow> ('a \<Rightarrow> nat) \<Rightarrow> task_error + 'a \<Rightarrow> processes \<Rightarrow> bool" where
  "all_or_none p V pid_of r W =
     (case r of
        Inl (Err m) \<Rightarrow> W = V
      | Inl Panicked \<Rightarrow> True
      | Inr x \<Rightarrow> pid_of x = p \<and> W = (fst V, fst (snd V), insert p (snd (snd V))))"

lemma all_or_none_simps [simp]:
  "all_or_none p V b (Inl e) W = (e = Panicked \<or> W = V)"
  "all_or_none p (T, R, P) b (Inr x) W = (b x = p \<and> W = (T, R, insert p P))"
  by (auto simp: all_or_none_def split: task_error.split)

definition fresh_pid :: "denv \<Rightarrow> nat set \<Rightarrow> bool" where
  "fresh_pid env procs = (d_pid env procs \<notin> procs \<and> d_pid env procs \<noteq> 0)"

definition without :: "nat \<Rightarrow> nat set \<Rightarrow> nat set" where
  "without p P = (if p = 0 then P else P - {p})"

lemma without_simps [simp]:
  "without p (without p P) = without p P" "p \<noteq> 0 \<Longrightarrow> p \<notin> P \<Longrightarrow> without p (insert p P) = P"
  "p \<notin> P \<Longrightarrow> without p P = P"
  by (auto simp: without_def)

lemma kill_leads:
  assumes "leads process_view (T, R, without p P) (g ()) Q"
  shows "leads process_view (T, R, P) (and_then (modify (kill_process p)) g) Q"
  by (rule leads_modify_then [where W = "(T, R, without p P)"])
     (use assms in \<open>simp_all add: process_view_def kill_process_def without_def\<close>)

lemma kill_new_leads:
  assumes "leads process_view (T, R, P) (g ()) Q" "p \<noteq> 0" "p \<notin> P"
  shows "leads process_view (T, R, insert p P) (and_then (modify (kill_process p)) g) Q"
  by (rule kill_leads) (use assms in simp)

lemma spawn_leads:
  assumes "\<And>e. Q (Inl e) (T, R, P)"
    "leads process_view (T, R, insert (d_pid env P) P) (f (d_pid env P)) Q"
  shows "leads process_view (T, R, P)
    (and_then (with_context c (spawn_process env argv)) f) Q"
  unfolding spawn_process_def sys_call_def
proof (rule leads_then, rule leads_with_context, rule leads_atomically)
  fix s assume "process_view s = (T, R, P)"
  then have "n_procs (bump s) = P" "\<And>p. process_view (log_effect (Ran argv)
      (bump s\<lparr>n_procs := insert p P\<rparr>)) = (T, R, insert p P)" "process_view (bump s) = (T, R, P)"
    by (simp_all add: process_view_def bump_def log_effect_def)
  then show "case case d_fault env (n_calls s) of Some m \<Rightarrow> (Inl (Err m), bump s)
      | None \<Rightarrow> (Inr (d_pid env (n_procs (bump s))), log_effect (Ran argv)
          (bump s\<lparr>n_procs := insert (d_pid env (n_procs (bump s))) (n_procs (bump s))\<rparr>)) of
      (r, s') \<Rightarrow> case r of
        Inl (Err m) \<Rightarrow> (case Inl (Err (c @ '': '' @ m)) of Inl e \<Rightarrow> Q (Inl e) (process_view s')
                       | Inr x \<Rightarrow> leads process_view (process_view s') (f x) Q)
      | _ \<Rightarrow> (case r of Inl e \<Rightarrow> Q (Inl e) (process_view s')
                       | Inr x \<Rightarrow> leads process_view (process_view s') (f x) Q)"
    using assms by (simp split: option.split)
qed

lemma socket_leads:
  assumes "d_pid env P = p" "fresh_pid env P" "Q (Inl Panicked) (T, R, insert p P)"
    "Q (Inr x) (T, R, insert p P)" "Q (Inl (Err m)) (T, R, P)"
  shows "leads process_view (T, R, insert p P) (and_then (socket_appears env) (\<lambda>ok.
      if ok then finish x else and_then (modify (kill_process p)) (\<lambda>_. bail m))) Q"
proof (rule leads_mild_then)
  fix ok
  show "leads process_view (T, R, insert p P)
      (if ok then finish x else and_then (modify (kill_process p)) (\<lambda>_. bail m)) Q"
    using assms by (cases ok) (auto simp: fresh_pid_def leads_done intro!: kill_new_leads)
qed (simp_all add: assms(3) mild_intros process_memory.staging)

lemma direct_leads:
  assumes "fresh_pid env P"
  shows "leads process_view (T, R, P) (spawn_firecracker_direct env vm_id sock log)
           (all_or_none (d_pid env P) (T, R, P) (\<lambda>pid. pid))"
  unfolding spawn_firecracker_direct_def Let_def
  by (rule leads_quiet_then, intro untouched_intros, simp,
      rule leads_quiet_then, intro untouched_intros, simp,
      rule spawn_leads, simp, rule socket_leads [OF refl assms])
     simp_all

lemma jailer_leads:
  assumes "fresh_pid env P"
  shows "leads process_view (T, R, P) (jailer_spawn env vm_id rootfs log)
           (all_or_none (d_pid env P) (T, R, P) fst)"
  unfolding jailer_spawn_def Let_def
  by (rule leads_quiet_then, intro untouched_intros, simp,
      rule leads_quiet_then, intro untouched_intros, simp,
      rule leads_quiet_then, intro untouched_intros, simp,
      rule leads_quiet_then, intro untouched_intros, simp,
      rule spawn_leads, simp, rule socket_leads [OF refl assms])
     simp_all

lemma spawned_leads:
  assumes "fresh_pid env P" "Q (Inl Panicked) (T, R, insert (d_pid env P) P)"
    "Q (Inr (d_pid env P)) (T, R, insert (d_pid env P) P)" "\<And>m. Q (Inl (Err m)) (T, R, P)"
    "untouched process_view t"
  shows "leads process_view (T, R, insert (d_pid env P) P)
     (and_then (attempt t) (\<lambda>r. case r of Inr _ \<Rightarrow> finish (d_pid env P)
      | Inl m \<Rightarrow> and_then (modify (kill_process (d_pid env P))) (\<lambda>_. bail m))) Q"
proof (rule leads_mild_then)
  fix r
  show "leads process_view (T, R, insert (d_pid env P) P)
      (case r of Inr _ \<Rightarrow> finish (d_pid env P)
       | Inl m \<Rightarrow> and_then (modify (kill_process (d_pid env P))) (\<lambda>_. bail m)) Q"
    using assms by (cases r) (auto simp: fresh_pid_def leads_done intro!: kill_new_leads)
qed (simp_all add: assms mild_intros untouched_intros)

lemma after_tap_leads:
  assumes "fresh_pid env P"
  shows "leads process_view (T, R, P)
     (provision_metal_after_tap env ev spec tap rootfs mac vm_id log ip)
     (all_or_none (d_pid env P) (T, R, P) (\<lambda>pid. pid))"
proof -
  let ?p = "d_pid env P" and ?cfg = "d_cfg env"
  let ?Q = "all_or_none ?p (T, R, P) (\<lambda>pid. pid)"
  have tail: "leads process_view (T, R, insert ?p P) (case (?p, rest) of
      (pid, sock, rootfs_guest, kernel_guest) \<Rightarrow>
        and_then (attempt
        (and_then (with_context ''cgroup limits''
           (cgroup_apply env (pe_service_id ev) pid (pc_rootfs_dev ?cfg) (ms_quota spec) (ms_memory_mb spec))) (\<lambda>_.
         with_context ''start VM''
           (start_vm env \<lparr>vc_sock_path = sock, vc_vcpu = ms_vcpu spec, vc_memory_mb = ms_memory_mb spec,
              vc_kernel_path = kernel_guest, vc_rootfs_path = rootfs_guest, vc_tap_name = tap,
              vc_guest_mac = mac, vc_guest_ip = ip, vc_gateway = GATEWAY\<rparr>)))) (\<lambda>post_spawn.
      case post_spawn of Inr _ \<Rightarrow> finish pid
      | Inl m \<Rightarrow> and_then (modify (kill_process pid)) (\<lambda>_. bail m))) ?Q" for rest
    unfolding prod.case
    by (cases rest, simp only: prod.case, rule spawned_leads [OF assms])
       (simp_all, intro untouched_intros)
  have direct: "leads process_view (T, R, P)
      (and_then (spawn_firecracker_direct env vm_id sock log) (\<lambda>pid. finish (pid, rest))) 
      (all_or_none ?p (T, R, P) fst)" for sock and rest :: "string \<times> string \<times> string"
    by (rule leads_then, rule leads_mono [OF direct_leads [OF assms]])
       (auto simp: leads_done split: sum.split)
  have jailed: "leads process_view (T, R, P) (with_context c (jailer_spawn env vm_id rootfs log))
      (all_or_none ?p (T, R, P) fst)" for c
    by (rule leads_with_context, rule leads_mono [OF jailer_leads [OF assms]])
       (auto split: sum.split task_error.split)
  show ?thesis
    unfolding provision_metal_after_tap_def Let_def
    by (rule leads_quiet_then, intro untouched_intros, simp,
        rule leads_quiet_then, intro untouched_intros, simp,
        rule leads_quiet_then, intro untouched_intros, simp,
        rule leads_then,
        rule leads_mono [where Q = "all_or_none ?p (T, R, P) fst"])
       (use direct jailed tail in \<open>auto split: sum.split\<close>)
qed

lemma deprovision_leads:
  assumes "vh_fc_pid h = p"
  shows "leads process_view (T, R, P) (deprovision_metal env sid h) (\<lambda>r W. W = (T, R, without p P))"
  unfolding deprovision_metal_def assms
  by (rule kill_leads, rule kill_leads, rule leads_quiet, intro untouched_intros) simp

lemma leads_mild:
  assumes "leads v V t (\<lambda>r W. Q W)" "mild t"
  shows "leads v V t (\<lambda>r W. case r of Inl e \<Rightarrow> e = Panicked | Inr x \<Rightarrow> Q W)"
  using assms unfolding leads_def mild_def by (auto split: sum.split) (metis task_error.exhaust)

lemma deprovision_then_leads:
  assumes "vh_fc_pid h = p" "\<And>W. Q (Inl Panicked) W" "leads process_view (T, R, without p P) (f ()) Q"
  shows "leads process_view (T, R, P) (and_then (deprovision_metal env sid h) f) Q"
  by (rule leads_then, rule leads_mono [OF leads_mild [OF deprovision_leads [OF assms(1)] mild_deprovision]])
     (use assms(2,3) in \<open>auto split: sum.split\<close>)

lemma probed_leads:
  assumes "fresh_pid env P" "d_pid env P = p"
  shows "leads process_view (T, R, insert p P)
     (and_then (publish_progress env sid HealthCheck msg) (\<lambda>_.
      and_then (attempt (startup_probe env addr log)) (\<lambda>probe.
      case probe of
        Inr _ \<Rightarrow> finish (p, addr)
      | Inl m \<Rightarrow>
          and_then (publish_progress env sid Failed (''Startup probe failed: '' @ m)) (\<lambda>_.
          and_then (modify (kill_process p)) (\<lambda>_.
          and_then (deprovision_metal env sid (handle_of env tap p vm_id)) (\<lambda>_.
          bail m)))))) (all_or_none p (T, R, P) fst)"
    (is "leads _ _ _ ?Q")
proof (rule leads_mild_then, intro untouched_intros, intro mild_intros, simp,
    rule leads_mild_then, intro untouched_intros, intro mild_intros, simp)
  have p: "p \<noteq> 0" "p \<notin> P" using assms by (auto simp: fresh_pid_def)
  fix probe :: "string + unit"
  show "leads process_view (T, R, insert p P) (case probe of
        Inr _ \<Rightarrow> finish (p, addr)
      | Inl m \<Rightarrow>
          and_then (publish_progress env sid Failed (''Startup probe failed: '' @ m)) (\<lambda>_.
          and_then (modify (kill_process p)) (\<lambda>_.
          and_then (deprovision_metal env sid (handle_of env tap p vm_id)) (\<lambda>_.
          bail m)))) ?Q"
  proof (cases probe)
    case (Inl m)
    show ?thesis
      unfolding Inl sum.case
      by (rule leads_mild_then, intro untouched_intros, intro mild_intros, simp,
          rule kill_new_leads [OF _ p], rule deprovision_then_leads [where p = p])
         (simp_all add: handle_of_def p leads_done)
  qed (simp add: leads_done)
qed

lemma outcome_then:
  assumes "leads process_view (T, R, P) t (all_or_none p (T, R, P) b)"
    "\<And>m. leads process_view (T, R, P) (f (Inl m)) Q"
    "\<And>x. b x = p \<Longrightarrow> leads process_view (T, R, insert p P) (f (Inr x)) Q"
    "\<And>W. Q (Inl Panicked) W"
  shows "leads process_view (T, R, P) (and_then (attempt t) f) Q"
  by (rule leads_attempt_then, rule leads_mono [OF assms(1)])
     (use assms(2-4) in \<open>auto split: sum.split task_error.split\<close>)

lemma boot_leads:
  assumes "fresh_pid env P"
  shows "leads process_view (T, R, P) (boot_metal env ev spec vm_id idx)
     (all_or_none (d_pid env P) (T, R, P) fst)"
  unfolding boot_metal_def Let_def
proof ((rule leads_quiet_then, (intro untouched_intros; fail), simp)+,
    rule outcome_then [OF after_tap_leads [OF assms]], simp_all only: sum.case)
  show "leads process_view (T, R, P) (and_then (ignoring (delete_tap env tap)) (\<lambda>_. bail m))
      (all_or_none (d_pid env P) (T, R, P) fst)" for tap m
    by (rule leads_quiet_then, intro untouched_intros) (simp_all add: leads_done)
qed (rule probed_leads [OF assms refl] | simp)+

section \<open>Provisioning a VM\<close>

text \<open>A new VM: its index, its process, and its entry in the registry.\<close>

definition vm_added ::
    "denv \<Rightarrow> string \<Rightarrow> nat \<Rightarrow> string \<Rightarrow> processes \<Rightarrow> processes" where
  "vm_added env sid idx vm_id V =
     (case V of (T, R, P) \<Rightarrow>
        (insert idx T, AList.update sid (handle_of env (tap_name idx) (d_pid env P) vm_id) R,
         insert (d_pid env P) P))"

definition new_vm :: "denv \<Rightarrow> string \<Rightarrow> processes \<Rightarrow> provisioned_service \<Rightarrow> processes \<Rightarrow> bool" where
  "new_vm env sid V svc W =
     (\<exists>idx. idx \<notin> fst V \<and> idx \<le> MAX_TAP_INDEX \<and> ps_tap_name svc = Some (tap_name idx)
        \<and> ps_fc_pid svc = Some (d_pid env (snd (snd V))) \<and> ps_engine svc = Metal
        \<and> ps_snapshot_key svc = None \<and> W = vm_added env sid idx (ps_id svc) V)"

definition provisions :: "denv \<Rightarrow> string \<Rightarrow> processes \<Rightarrow> task_error + provisioned_service \<Rightarrow> processes \<Rightarrow> bool" where
  "provisions env sid V r W =
     (case r of Inl (Err m) \<Rightarrow> W = V | Inl Panicked \<Rightarrow> True | Inr svc \<Rightarrow> new_vm env sid V svc W)"

lemma provisions_simps [simp]:
  "provisions env sid V (Inl e) W = (e = Panicked \<or> W = V)"
  "provisions env sid V (Inr svc) W = new_vm env sid V svc W"
  by (auto simp: provisions_def split: task_error.split)

lemma drop_guard_leads:
  assumes "i < 2 ^ 32" "i \<notin> T" "Q (Inl (Err m)) (T, R, P)"
  shows "leads process_view (insert i T, R, P) (and_then (drop_tap_guard (tap_name i)) (\<lambda>_. bail m)) Q"
  unfolding drop_tap_guard_def with_tap_guard_def
  using assms by (auto simp: leads_def run_and_then run_holding run_modify release_free free_tap_def process_view_def)

lemma register_leads:
  assumes "leads process_view (T, AList.update sid h R, P) (f ()) Q"
  shows "leads process_view (T, R, P) (and_then (with_tap_guard tap (modify (register_vm sid h))) f) Q"
  using assms unfolding with_tap_guard_def
  by (auto simp: leads_def run_and_then run_holding run_modify register_vm_def process_view_def)

lemma guarded_leads:
  assumes "leads v V t Q" "\<And>W. Q (Inl Panicked) W"
  shows "leads v V (with_tap_guard tap t) Q"
  unfolding with_tap_guard_def
  by (rule leads_holding, rule leads_mono [OF assms(1)]) (use assms(2) in auto)

lemma provision_metal_leads:
  assumes "taps_ok s\<^sub>0" "process_view s\<^sub>0 = (T, R, P)" "fresh_pid env P"
  shows "leads process_view (T, R, P) (provision_metal env ev spec)
     (provisions env (pe_service_id ev) (T, R, P))"
  unfolding provision_metal_def Let_def
proof (rule leads_quiet_then, intro untouched_intros, simp, rule leads_atomically_then)
  fix vm_id s
  let ?Q = "provisions env (pe_service_id ev) (T, R, P)" and ?p = "d_pid env P"
  let ?after = "\<lambda>idx booted. case booted of
       Inl m \<Rightarrow> and_then (drop_tap_guard (tap_name idx)) (\<lambda>_. bail m)
     | Inr (pid, addr) \<Rightarrow>
         and_then (with_tap_guard (tap_name idx)
           (modify (register_vm (pe_service_id ev) (handle_of env (tap_name idx) pid vm_id)))) (\<lambda>_.
         and_then (publish_progress env (pe_service_id ev) Running
           (''VM is live '' @ em_dash @ '' dedicated Metal service running'')) (\<lambda>_.
         finish \<lparr>ps_id = vm_id, ps_engine = Metal, ps_upstream = Some addr, ps_snapshot_key = None,
                 ps_tap_name = Some (tap_name idx), ps_fc_pid = Some pid\<rparr>))"
  assume s: "process_view s = (T, R, P)"
  then have ok: "taps_ok s" "n_taps s = T"
    using assms(1,2) taps_ok_view [of s s\<^sub>0] by (simp_all add: process_view_def tap_view_def)
  have after: "leads process_view (insert i T, R, P)
      (and_then (attempt (with_tap_guard (tap_name i) (boot_metal env ev spec vm_id i))) (?after i)) ?Q"
    if i: "i \<notin> T" "i \<le> MAX_TAP_INDEX" for i
  proof (rule outcome_then, rule guarded_leads, rule boot_leads [OF assms(3)])
    have "i < 2 ^ 32" using i MAX_TAP_small by simp
    then show "leads process_view (insert i T, R, P) (?after i (Inl m)) ?Q" for m
      using i by (simp add: drop_guard_leads)
    fix x :: "nat \<times> string" assume "fst x = ?p"
    then obtain addr where "x = (?p, addr)" by (cases x) simp
    moreover have "leads process_view (insert i T, R, insert ?p P) (?after i (Inr (?p, addr))) ?Q"
      unfolding sum.case prod.case
      by (rule register_leads, rule leads_mild_then, intro untouched_intros, intro mild_intros,
          simp, rule leads_done(1))
         (use i in \<open>auto simp: new_vm_def vm_added_def intro!: exI [of _ i]\<close>)
    ultimately show "leads process_view (insert i T, R, insert ?p P) (?after i (Inr x)) ?Q" by simp
  qed simp_all
  show "case allocate_tap_index s of
      (Inl e, s') \<Rightarrow> ?Q (Inl e) (process_view s')
    | (Inr i, s') \<Rightarrow> leads process_view (process_view s')
        (and_then (attempt (with_tap_guard (tap_name i) (boot_metal env ev spec vm_id i))) (?after i)) ?Q"
  proof (cases "allocate_tap_index s")
    case (Pair r s')
    show ?thesis
    proof (cases r)
      case (Inl e)
      then show ?thesis using Pair tap.acquire_err [of s e s'] s by simp
    next
      case (Inr i)
      then have i: "i \<notin> T" "i \<le> MAX_TAP_INDEX" "process_view s' = (insert i T, R, P)"
        using allocate_least [OF ok(1), of i s'] Pair ok(2) s by (auto simp: process_view_def)
      show ?thesis unfolding Pair Inr prod.case sum.case i(3) by (rule after [OF i(1,2)])
    qed
  qed
qed

section \<open>Rolling back\<close>

definition restores :: "processes \<Rightarrow> task_error + 'a \<Rightarrow> processes \<Rightarrow> bool" where
  "restores V r W = (case r of Inl e \<Rightarrow> e = Panicked | Inr x \<Rightarrow> W = V)"

lemma restores_simps [simp]:
  "restores V (Inl e) W = (e = Panicked)" "restores V (Inr x) W = (W = V)"
  by (simp_all add: restores_def)

definition maybe_added :: "denv \<Rightarrow> string \<Rightarrow> processes \<Rightarrow> processes \<Rightarrow> bool" where
  "maybe_added env sid V W =
     (W = V \<or> (\<exists>idx vm_id. idx \<notin> fst V \<and> idx \<le> MAX_TAP_INDEX \<and> W = vm_added env sid idx vm_id V))"

lemma AList_delete_update: "map_of xs k = None \<Longrightarrow> AList.delete k (AList.update k w xs) = xs"
  by (induction xs) (auto split: if_splits)

lemma take_added_leads:
  assumes "map_of R sid = None" "idx \<notin> T" "idx \<le> MAX_TAP_INDEX" "fresh_pid env P"
  shows "leads process_view (vm_added env sid idx vm_id (T, R, P))
     (and_then (locked (take_vm sid)) (\<lambda>handle.
      case handle of None \<Rightarrow> finish ()
      | Some h \<Rightarrow>
          and_then (modify (kill_process (vh_fc_pid h))) (\<lambda>_.
          and_then (modify (release_tap_index (vh_tap_name h))) (\<lambda>_.
          deprovision_metal env sid h)))) (restores (T, R, P))"
proof (rule leads_locked_then)
  let ?p = "d_pid env P"
  let ?h = "handle_of env (tap_name idx) ?p vm_id"
  have p: "?p \<noteq> 0" "?p \<notin> P" using assms(4) by (auto simp: fresh_pid_def)
  fix s assume s: "process_view s = vm_added env sid idx vm_id (T, R, P)"
  have "AList.delete sid (AList.update sid ?h R) = R"
    using assms(1) by (rule AList_delete_update)
  then have t: "take_vm sid s = (Some ?h, s\<lparr>n_registry := R\<rparr>)"
    "process_view (s\<lparr>n_registry := R\<rparr>) = (insert idx T, R, insert ?p P)"
    using s by (simp_all add: take_vm_def process_view_def vm_added_def AList.update_conv')
  have idx: "idx < 2 ^ 32" using assms(3) MAX_TAP_small by simp
  have tear_down: "leads process_view (T, R, P) (deprovision_metal env sid ?h) (restores (T, R, P))"
    by (rule leads_mono [OF leads_mild [OF deprovision_leads [of ?h ?p] mild_deprovision]])
       (use p in \<open>auto simp: handle_of_def split: sum.splits\<close>)
  have "leads process_view (insert idx T, R, insert ?p P)
      (and_then (modify (kill_process ?p)) (\<lambda>_.
       and_then (modify (release_tap_index (tap_name idx))) (\<lambda>_.
       deprovision_metal env sid ?h))) (restores (T, R, P))"
    using tear_down p assms(2)
    by (intro kill_new_leads leads_modify_then [where W = "(T, R, P)"])
       (auto simp: release_free [OF idx] free_tap_def process_view_def)
  then show "case take_vm sid s of (handle, s') \<Rightarrow> leads process_view (process_view s')
      (case handle of None \<Rightarrow> finish ()
      | Some h \<Rightarrow>
          and_then (modify (kill_process (vh_fc_pid h))) (\<lambda>_.
          and_then (modify (release_tap_index (vh_tap_name h))) (\<lambda>_.
          deprovision_metal env sid h))) (restores (T, R, P))"
    unfolding t(1) prod.case t(2) option.case by (simp add: handle_of_def)
qed

lemma rollback_leads:
  assumes "map_of R (pe_service_id ev) = None" "fresh_pid env P" "pe_spec ev = SpecMetal spec"
    "maybe_added env (pe_service_id ev) (T, R, P) W"
  shows "leads process_view W (rollback_provision env ev m) (restores (T, R, P))"
proof -
  have none: "leads process_view (T, R, P)
     (and_then (locked (take_vm (pe_service_id ev))) (\<lambda>handle.
      case handle of None \<Rightarrow> finish ()
      | Some h \<Rightarrow>
          and_then (modify (kill_process (vh_fc_pid h))) (\<lambda>_.
          and_then (modify (release_tap_index (vh_tap_name h))) (\<lambda>_.
          deprovision_metal env (pe_service_id ev) h)))) (restores (T, R, P))"
    by (rule leads_locked_then)
       (use assms(1) in \<open>auto simp: take_vm_def process_view_def AList_delete_none leads_done\<close>)
  show ?thesis
    unfolding rollback_provision_def Let_def assms(3) engine_spec.case
    by (rule leads_mild_then, intro untouched_intros, intro mild_intros, simp,
        rule leads_mild_then, intro untouched_intros, intro mild_intros, simp,
        rule leads_then, rule leads_mono [where Q = "restores (T, R, P)"])
       (use assms none in \<open>auto simp: maybe_added_def restores_def leads_done intro!: take_added_leads
          split: sum.splits\<close>)
qed

lemma record_untouched: "untouched process_view (record_provisioned env u svc)"
  by (intro untouched_intros)

text \<open>The end of a provisioning: an error may leave the VM for the rollback to find.\<close>

definition provision_end ::
    "denv \<Rightarrow> string \<Rightarrow> processes \<Rightarrow> task_error + provisioned_service \<Rightarrow> processes \<Rightarrow> bool" where
  "provision_end env sid V r W =
     (case r of Inl (Err m) \<Rightarrow> maybe_added env sid V W | Inl Panicked \<Rightarrow> True
      | Inr svc \<Rightarrow> new_vm env sid V svc W)"

lemma provision_end_simps [simp]:
  "provision_end env sid V (Inl Panicked) W"
  "provision_end env sid V (Inl (Err m)) W = maybe_added env sid V W"
  "provision_end env sid V (Inr svc) W = new_vm env sid V svc W"
  by (simp_all add: provision_end_def)

lemma new_vm_maybe: "new_vm env sid V svc W \<Longrightarrow> maybe_added env sid V W"
  by (auto simp: new_vm_def maybe_added_def)

lemma recorded_leads:
  assumes "new_vm env (pe_service_id ev) (T, R, P) svc W" "map_of R (pe_service_id ev) = None"
    "fresh_pid env P" "pe_spec ev = SpecMetal spec"
  shows "leads process_view W
     (and_then (with_context ''invalid service_id UUID in event''
       (parsed_uuid env (pe_service_id ev))) (\<lambda>u.
     and_then (attempt (record_provisioned env u svc)) (\<lambda>db_result.
     case db_result of
       Inl m \<Rightarrow> and_then (rollback_provision env ev m) (\<lambda>_. bail m)
     | Inr _ \<Rightarrow>
         and_then
           (case ps_upstream svc of None \<Rightarrow> finish ()
            | Some addr \<Rightarrow>
                if pe_slug ev = [] then finish ()
                else ignoring (publish env subject_route_updated
                       (EvRouteUpdated \<lparr>ru_slug = pe_slug ev, ru_upstream_addr = addr\<rparr>))) (\<lambda>_.
         finish svc)))) (provision_end env (pe_service_id ev) (T, R, P))"
    (is "leads _ _ _ ?Q")
proof (rule leads_quiet_then, intro untouched_intros)
  show "?Q (Inl e) W" for e
    using new_vm_maybe [OF assms(1)] by (cases e) simp_all
  fix u
  show "leads process_view W (and_then (attempt (record_provisioned env u svc)) (\<lambda>db_result.
     case db_result of
       Inl m \<Rightarrow> and_then (rollback_provision env ev m) (\<lambda>_. bail m)
     | Inr _ \<Rightarrow>
         and_then
           (case ps_upstream svc of None \<Rightarrow> finish ()
            | Some addr \<Rightarrow>
                if pe_slug ev = [] then finish ()
                else ignoring (publish env subject_route_updated
                       (EvRouteUpdated \<lparr>ru_slug = pe_slug ev, ru_upstream_addr = addr\<rparr>))) (\<lambda>_.
         finish svc))) ?Q"
  proof (rule leads_mild_then, intro untouched_intros, intro mild_intros, simp)
    fix db_result :: "string + node_row list"
    have undone: "leads process_view W (and_then (rollback_provision env ev m) (\<lambda>_. bail m)) ?Q" for m
      by (rule leads_then, rule leads_mono [OF rollback_leads [OF assms(2-4) new_vm_maybe [OF assms(1)]]])
         (auto simp: restores_def maybe_added_def leads_done split: sum.splits)
    have told: "leads process_view W (and_then
           (case ps_upstream svc of None \<Rightarrow> finish ()
            | Some addr \<Rightarrow>
                if pe_slug ev = [] then finish ()
                else ignoring (publish env subject_route_updated
                       (EvRouteUpdated \<lparr>ru_slug = pe_slug ev, ru_upstream_addr = addr\<rparr>))) (\<lambda>_.
         finish svc)) ?Q"
      by (rule leads_mild_then, intro untouched_intros, intro mild_intros, simp, rule leads_done(1))
         (simp add: assms(1))
    show "leads process_view W (case db_result of
       Inl m \<Rightarrow> and_then (rollback_provision env ev m) (\<lambda>_. bail m)
     | Inr _ \<Rightarrow>
         and_then
           (case ps_upstream svc of None \<Rightarrow> finish ()
            | Some addr \<Rightarrow>
                if pe_slug ev = [] then finish ()
                else ignoring (publish env subject_route_updated
                       (EvRouteUpdated \<lparr>ru_slug = pe_slug ev, ru_upstream_addr = addr\<rparr>))) (\<lambda>_.
         finish svc)) ?Q"
      using undone told by (cases db_result) simp_all
  qed
qed

lemma provision_leads:
  assumes "taps_ok s\<^sub>0" "process_view s\<^sub>0 = (T, R, P)" "map_of R (pe_service_id ev) = None"
    "fresh_pid env P" "pe_spec ev = SpecMetal spec"
  shows "leads process_view (T, R, P) (provision env ev) (provision_end env (pe_service_id ev) (T, R, P))"
  unfolding provision_def assms(5) engine_spec.case
proof (rule leads_mild_then, intro untouched_intros, intro mild_intros, simp, rule leads_then,
    rule leads_mono [OF provision_metal_leads [OF assms(1,2,4)]])
  fix r W assume r: "provisions env (pe_service_id ev) (T, R, P) r W"
  show "case r of
      Inl e \<Rightarrow> provision_end env (pe_service_id ev) (T, R, P) (Inl e) W
    | Inr svc \<Rightarrow> leads process_view W
     (and_then (with_context ''invalid service_id UUID in event''
       (parsed_uuid env (pe_service_id ev))) (\<lambda>u.
     and_then (attempt (record_provisioned env u svc)) (\<lambda>db_result.
     case db_result of
       Inl m \<Rightarrow> and_then (rollback_provision env ev m) (\<lambda>_. bail m)
     | Inr _ \<Rightarrow>
         and_then
           (case ps_upstream svc of None \<Rightarrow> finish ()
            | Some addr \<Rightarrow>
                if pe_slug ev = [] then finish ()
                else ignoring (publish env subject_route_updated
                       (EvRouteUpdated \<lparr>ru_slug = pe_slug ev, ru_upstream_addr = addr\<rparr>))) (\<lambda>_.
         finish svc)))) (provision_end env (pe_service_id ev) (T, R, P))"
  proof (cases r)
    case (Inl e)
    then show ?thesis using r by (cases e) (simp_all add: maybe_added_def)
  next
    case (Inr svc)
    then show ?thesis using r unfolding Inr sum.case
      by (intro recorded_leads [OF _ assms(3-5)]) simp
  qed
qed

section \<open>A provision message\<close>

lemma run_timeout:
  assumes "\<And>s. \<not> late s"
  shows "run_task (timeout late t) s =
     (case run_task t s of
        (Inl (Err m), s') \<Rightarrow> (Inr (Some (Inl m)), s')
      | (Inl Panicked, s') \<Rightarrow> (Inl Panicked, s')
      | (Inr x, s') \<Rightarrow> (Inr (Some (Inr x)), s'))"
  by (induction t arbitrary: s) (auto simp: assms split: sum.split task_error.split)

lemma leads_timeout_then:
  assumes "\<And>s. \<not> late s"
    "leads v V t (\<lambda>r W. case r of Inl (Err m) \<Rightarrow> leads v W (f (Some (Inl m))) Q | Inl e \<Rightarrow> Q (Inl e) W
                              | Inr x \<Rightarrow> leads v W (f (Some (Inr x))) Q)"
  shows "leads v V (and_then (timeout late t) f) Q"
  using assms(2) unfolding leads_def run_and_then run_timeout [OF assms(1)]
  by (fastforce split: prod.splits sum.splits task_error.splits)

definition acknowledged :: "denv \<Rightarrow> string \<Rightarrow> processes \<Rightarrow> task_error + ack \<Rightarrow> processes \<Rightarrow> bool" where
  "acknowledged env sid V r W =
     (case r of Inl e \<Rightarrow> True | Inr a \<Rightarrow> W = V \<or> a = Ack \<and> (\<exists>svc. new_vm env sid V svc W))"

lemma acknowledged_simps [simp]:
  "acknowledged env sid V (Inl e) W"
  "acknowledged env sid V (Inr a) W = (W = V \<or> a = Ack \<and> (\<exists>svc. new_vm env sid V svc W))"
  by (simp_all add: acknowledged_def)

lemma provision_failed_leads:
  assumes "map_of R (pe_service_id ev) = None" "fresh_pid env P" "pe_spec ev = SpecMetal spec"
    "maybe_added env (pe_service_id ev) (T, R, P) W"
  shows "leads process_view W (provision_failed env ev m n) (acknowledged env (pe_service_id ev) (T, R, P))"
  unfolding provision_failed_def
proof (rule leads_then, rule leads_mono [OF rollback_leads [OF assms]])
  fix r :: "task_error + failure_kind" and W'
  let ?Q = "acknowledged env (pe_service_id ev) (T, R, P)"
  assume r: "restores (T, R, P) r W'"
  have nak: "leads process_view (T, R, P) (and_then (set_provisioning env (pe_service_id ev)) (\<lambda>_.
      finish (Nak (Some (15 * n))))) ?Q"
    by (rule leads_quiet_then, intro untouched_intros, simp, rule leads_done(1)) simp
  show "case r of Inl e \<Rightarrow> ?Q (Inl e) W'
      | Inr kind \<Rightarrow> leads process_view W' (case kind of Permanent \<Rightarrow> finish Ack
          | Transient \<Rightarrow> and_then (set_provisioning env (pe_service_id ev)) (\<lambda>_.
              finish (Nak (Some (15 * n))))) ?Q"
    using r nak by (auto simp: restores_def leads_done split: sum.splits failure_kind.split)
qed

lemma provision_message_leads:
  assumes "taps_ok s\<^sub>0" "process_view s\<^sub>0 = (T, R, P)" "map_of R (pe_service_id ev) = None"
    "fresh_pid env P" "pe_spec ev = SpecMetal spec" "\<And>k. \<not> d_expired env ''provision'' k"
  shows "leads process_view (T, R, P) (provision_message env (Some ev) n)
     (acknowledged env (pe_service_id ev) (T, R, P))"
proof -
  let ?Q = "acknowledged env (pe_service_id ev) (T, R, P)"
  let ?f = "\<lambda>r. case r of
              Some (Inr svc) \<Rightarrow> finish Ack
            | Some (Inl m) \<Rightarrow> provision_failed env ev m n
            | None \<Rightarrow> provision_failed env ev
                (''provision timed out after '' @ show_nat (provision_timeout env) @ ''s'') n"
  have timed: "leads process_view (T, R, P)
      (and_then (timeout (\<lambda>s. d_expired env ''provision'' (n_calls s)) (provision env ev)) ?f) ?Q"
  proof (rule leads_timeout_then, rule assms(6), rule leads_mono [OF provision_leads [OF assms(1-5)]])
    fix r W assume r: "provision_end env (pe_service_id ev) (T, R, P) r W"
    show "case r of Inl (Err m) \<Rightarrow> leads process_view W (?f (Some (Inl m))) ?Q
        | Inl Panicked \<Rightarrow> ?Q (Inl Panicked) W
        | Inr x \<Rightarrow> leads process_view W (?f (Some (Inr x))) ?Q"
    proof (cases r)
      case (Inl e)
      then show ?thesis
        using r provision_failed_leads [OF assms(3-5), of T W] by (cases e) simp_all
    next
      case (Inr svc)
      then have "?Q (Inr Ack) W" using r by auto
      then show ?thesis using Inr by (simp add: leads_done(1))
    qed
  qed
  show ?thesis
    unfolding provision_message_def option.case
    by (rule leads_if, rule leads_done, simp, rule timed)
qed


end
