(* ===== verification/Records.thy ===== *)
theory Records
  imports Lifecycle
begin

text \<open>
  What the rest of the platform can rely on: the row of a provisioned VM is what a restart
  of the daemon needs to find it again; a shutdown ends, and leaves no VM; the readiness
  probe ends; a crash, however, never reaches the table.
\<close>

section \<open>Rows\<close>

lemma untouched_holding [untouched_intros]:
  "untouched v t \<Longrightarrow> (\<And>s. v (d s) = v s) \<Longrightarrow> untouched v (holding d t)"
  by (induction t) auto

interpretation rows_host: host_view n_services
  by unfold_locales (simp_all add: bump_def log_effect_def)

lemma rows_release [simp]: "n_services (release_tap_index tap s) = n_services s"
  by (simp add: release_tap_index_def free_tap_def split: option.split)

lemma rows_guard [untouched_intros]:
  "untouched n_services t \<Longrightarrow> untouched n_services (with_tap_guard tap t)"
  unfolding with_tap_guard_def by (rule untouched_holding, assumption, rule rows_release)

lemma rows_processes [untouched_intros]:
  "untouched n_services (spawn_process env argv)" "untouched n_services (modify (kill_process pid))"
  "untouched n_services (atomically allocate_tap_index)" "untouched n_services (drop_tap_guard tap)"
  "untouched n_services (modify (register_vm sid h))"
  unfolding spawn_process_def drop_tap_guard_def with_tap_guard_def
  by (intro untouched_intros untouched_modify untouched_atomically rows_host.call;
      simp add: log_effect_def kill_process_def allocate_tap_index_def register_vm_def Let_def)+

lemma rows_provision_metal [untouched_intros]:
  "untouched n_services (provision_metal env ev spec)"
  unfolding provision_metal_def boot_metal_def provision_metal_after_tap_def
    spawn_firecracker_direct_def jailer_spawn_def deprovision_metal_def
  by (intro untouched_intros)

text \<open>The row a successful provisioning writes.\<close>

definition provisioned_row :: "denv \<Rightarrow> provisioned_service \<Rightarrow> node_row \<Rightarrow> node_row" where
  "provisioned_row env svc r =
     r\<lparr>sv_upstream := ps_upstream svc, sv_status := ''running'',
       nd_node_id := Some (pc_node_id (d_cfg env)), nd_tap_name := ps_tap_name svc,
       nd_fc_pid := map_option (\<lambda>p. wrap_i32 (int p)) (ps_fc_pid svc),
       nd_vm_id := (if ps_engine svc = Metal then Some (ps_id svc) else None)\<rparr>"

definition recorded ::
    "denv \<Rightarrow> string \<Rightarrow> node_row list \<Rightarrow> task_error + provisioned_service \<Rightarrow> node_row list \<Rightarrow> bool" where
  "recorded env sid rows r W =
     (case r of Inl e \<Rightarrow> True
      | Inr svc \<Rightarrow> ps_snapshot_key svc \<noteq> None \<or> (\<exists>u. d_parse_uuid env sid = Some u \<and>
          W = update_where (\<lambda>r. sv_id r = u) (provisioned_row env svc) rows))"

lemma db_update_leads:
  assumes "\<And>e. Q (Inl e) V" "\<And>rows. Q (Inr rows) (update_where p f V)"
  shows "leads n_services V (db_update env p f) Q"
  unfolding db_update_def sys_call_def
proof (rule leads_atomically)
  fix s :: node assume "n_services s = V"
  then show "case case d_fault env (n_calls s) of Some m \<Rightarrow> (Inl (Err m), bump s)
      | None \<Rightarrow> update_services p f (bump s) of (r, s') \<Rightarrow> Q r (n_services s')"
    using assms by (simp add: update_services_def bump_def Let_def split: option.split)
qed

lemma record_leads:
  assumes "ps_snapshot_key svc = None"
  shows "leads n_services V (record_provisioned env u svc)
    (\<lambda>r W. case r of Inl e \<Rightarrow> True
      | Inr rows \<Rightarrow> W = update_where (\<lambda>r. sv_id r = u) (provisioned_row env svc) V)"
proof -
  have row: "(\<lambda>r. r\<lparr>sv_upstream := ps_upstream svc, sv_status := ''running'',
       nd_node_id := Some (pc_node_id (d_cfg env)), nd_tap_name := ps_tap_name svc,
       nd_fc_pid := map_option (\<lambda>p. wrap_i32 (int p)) (ps_fc_pid svc),
       nd_vm_id := (if ps_engine svc = Metal then Some (ps_id svc) else None)\<rparr>) = provisioned_row env svc"
    by (rule ext) (simp add: provisioned_row_def)
  have *: "(ps_snapshot_key svc \<noteq> None) = False" using assms by simp
  show ?thesis
    unfolding record_provisioned_def * if_False row
    by (rule leads_quiet_then, intro untouched_intros, simp, rule leads_with_context, rule db_update_leads)
       (auto split: task_error.split)
qed

lemma provision_rows:
  assumes "pe_spec ev = SpecMetal spec"
  shows "leads n_services V (provision env ev) (recorded env (pe_service_id ev) V)"
proof -
  let ?Q = "recorded env (pe_service_id ev) V"
  have told: "leads n_services W (and_then
           (case ps_upstream svc of None \<Rightarrow> finish ()
            | Some addr \<Rightarrow>
                if pe_slug ev = [] then finish ()
                else ignoring (publish env subject_route_updated
                       (EvRouteUpdated \<lparr>ru_slug = pe_slug ev, ru_upstream_addr = addr\<rparr>))) (\<lambda>_.
         finish svc)) ?Q" if "?Q (Inr svc) W" for svc W
    by (rule leads_quiet_then, intro untouched_intros) (use that in \<open>auto simp: recorded_def leads_done\<close>)
  have any: "leads n_services W (and_then t (\<lambda>x. bail m)) ?Q" for W m and t :: "'x node_task"
    by (auto simp: leads_def recorded_def run_and_then split: prod.split sum.split)
  have rest: "leads n_services V (and_then (attempt (record_provisioned env u svc)) (\<lambda>db_result.
     case db_result of
       Inl m \<Rightarrow> and_then (rollback_provision env ev m) (\<lambda>_. bail m)
     | Inr _ \<Rightarrow>
         and_then
           (case ps_upstream svc of None \<Rightarrow> finish ()
            | Some addr \<Rightarrow>
                if pe_slug ev = [] then finish ()
                else ignoring (publish env subject_route_updated
                       (EvRouteUpdated \<lparr>ru_slug = pe_slug ev, ru_upstream_addr = addr\<rparr>))) (\<lambda>_.
         finish svc))) ?Q" if u: "d_parse_uuid env (pe_service_id ev) = Some u" for u svc
  proof (rule leads_attempt_then)
    have "leads n_services V (record_provisioned env u svc) (\<lambda>r W. case r of Inl e \<Rightarrow> True
        | Inr rows \<Rightarrow> ?Q (Inr svc) W)"
    proof (cases "ps_snapshot_key svc")
      case None
      then show ?thesis
        using u by (intro leads_mono [OF record_leads]) (auto simp: recorded_def split: sum.splits)
    next
      case (Some k)
      then show ?thesis by (simp add: leads_def recorded_def split: sum.split)
    qed
    then show "leads n_services V (record_provisioned env u svc) (\<lambda>r W. case r of
        Inl (Err m) \<Rightarrow> leads n_services W (case Inl m of
           Inl m \<Rightarrow> and_then (rollback_provision env ev m) (\<lambda>_. bail m)
         | Inr x \<Rightarrow> and_then
           (case ps_upstream svc of None \<Rightarrow> finish ()
            | Some addr \<Rightarrow>
                if pe_slug ev = [] then finish ()
                else ignoring (publish env subject_route_updated
                       (EvRouteUpdated \<lparr>ru_slug = pe_slug ev, ru_upstream_addr = addr\<rparr>))) (\<lambda>_.
         finish svc)) ?Q
      | Inl Panicked \<Rightarrow> ?Q (Inl Panicked) W
      | Inr rows \<Rightarrow> leads n_services W (case Inr rows of
           Inl m \<Rightarrow> and_then (rollback_provision env ev m) (\<lambda>_. bail m)
         | Inr x \<Rightarrow> and_then
           (case ps_upstream svc of None \<Rightarrow> finish ()
            | Some addr \<Rightarrow>
                if pe_slug ev = [] then finish ()
                else ignoring (publish env subject_route_updated
                       (EvRouteUpdated \<lparr>ru_slug = pe_slug ev, ru_upstream_addr = addr\<rparr>))) (\<lambda>_.
         finish svc)) ?Q)"
      unfolding sum.case
      by (rule leads_mono) (auto intro: any told simp: recorded_def [of _ _ _ "Inl Panicked"] split: sum.splits task_error.split)
  qed
  have uuid: "leads n_services V (and_then (with_context c (parsed_uuid env (pe_service_id ev))) f) ?Q"
    if "\<And>u. d_parse_uuid env (pe_service_id ev) = Some u \<Longrightarrow> leads n_services V (f u) ?Q" for c f
  proof (cases "d_parse_uuid env (pe_service_id ev)")
    case None
    then show ?thesis by (simp add: parsed_uuid_def leads_def recorded_def run_and_then run_with_context)
  next
    case (Some u)
    then show ?thesis
      using that [of u] by (simp add: parsed_uuid_def leads_def run_and_then run_with_context)
  qed
  show ?thesis
    unfolding provision_def assms engine_spec.case
    by (rule leads_quiet_then, intro untouched_intros, simp add: recorded_def,
        rule leads_quiet_then, intro untouched_intros, simp add: recorded_def,
        rule uuid, rule rest)
qed

text \<open>
  C4: what a successful provisioning leaves in the table is enough for a restart: the handle
  the start of a daemon makes of the row is the handle of the VM that runs, process id and
  device included, and the row is running, on this node.
\<close>

theorem restart_recovers_vm:
  assumes "run_task (provision env ev) s = (Inr svc, s')" "pe_spec ev = SpecMetal spec"
    "taps_ok s" "map_of (n_registry s) (pe_service_id ev) = None" "fresh_pid env (n_procs s)"
    "d_pid env (n_procs s) < 2 ^ 32"
  shows "\<exists>u h. d_parse_uuid env (pe_service_id ev) = Some u \<and>
     map_of (n_registry s') (pe_service_id ev) = Some h \<and> vh_fc_pid h \<in> n_procs s' \<and>
     (\<forall>r\<in>set (n_services s'). sv_id r = u \<longrightarrow>
        recovered_handle env r = h \<and> sv_status r = ''running'' \<and> on_node env r)"
proof -
  let ?p = "d_pid env (n_procs s)"
  have "provision_end env (pe_service_id ev) (process_view s) (Inr svc) (process_view s')"
  proof (rule leads_run [of process_view s "provision env ev", OF _ assms(1)])
    show "leads process_view (process_view s) (provision env ev)
        (provision_end env (pe_service_id ev) (process_view s))"
      unfolding process_view_def [of s]
      by (rule provision_leads) (use assms in \<open>simp_all add: process_view_def\<close>)
  qed
  then obtain idx where svc: "ps_tap_name svc = Some (tap_name idx)" "ps_fc_pid svc = Some ?p"
      "ps_engine svc = Metal" "ps_snapshot_key svc = None"
    and s': "n_procs s' = insert ?p (n_procs s)"
      "n_registry s' = AList.update (pe_service_id ev)
         (handle_of env (tap_name idx) ?p (ps_id svc)) (n_registry s)"
    by (auto simp: new_vm_def vm_added_def process_view_def)
  obtain u where u: "d_parse_uuid env (pe_service_id ev) = Some u"
      "n_services s' = update_where (\<lambda>r. sv_id r = u) (provisioned_row env svc) (n_services s)"
    using leads_run [of n_services s "provision env ev", OF provision_rows [OF assms(2)] assms(1)] svc
    by (auto simp: recorded_def)
  have pid: "wrap_u32 (wrap_i32 (int ?p)) = ?p"
    using assms(6) by (auto simp: wrap_u32_def wrap_i32_def mod_simps)
  have row: "recovered_handle env (provisioned_row env svc r) = handle_of env (tap_name idx) ?p (ps_id svc)
      \<and> sv_status (provisioned_row env svc r) = ''running'' \<and> on_node env (provisioned_row env svc r)" for r
    by (simp add: recovered_handle_def handle_of_def provisioned_row_def svc on_node_def or_default_def pid)
  have "\<forall>r\<in>set (n_services s'). sv_id r = u \<longrightarrow> (\<exists>r\<^sub>0. r = provisioned_row env svc r\<^sub>0)"
    by (auto simp: u(2) update_where_def split: if_splits)
  then have "\<forall>r\<in>set (n_services s'). sv_id r = u \<longrightarrow>
      recovered_handle env r = handle_of env (tap_name idx) ?p (ps_id svc)
      \<and> sv_status r = ''running'' \<and> on_node env r"
    using row by metis
  then show ?thesis
    using u(1) s' by (auto simp: AList.update_conv' handle_of_def)
qed

section \<open>Tasks that cannot panic\<close>

named_theorems calm_intros

primrec calm :: "('s, 'a) task \<Rightarrow> bool" where
  "calm (Done r) = (r \<noteq> Inl Panicked)"
| "calm (Await g k e) = (\<forall>s. calm (k s))"

lemma calm_run: "calm t \<Longrightarrow> fst (run_task t s) \<noteq> Inl Panicked"
  by (induction t arbitrary: s) auto

lemma calm_finish [calm_intros]: "calm (finish x)" "calm (bail m)"
  by (simp_all add: finish_def bail_def)

lemma calm_and_then [calm_intros]: "calm t \<Longrightarrow> (\<And>x. calm (f x)) \<Longrightarrow> calm (and_then t f)"
  by (induction t) (auto split: sum.split)

lemma calm_attempt [calm_intros]: "calm t \<Longrightarrow> calm (attempt t)"
  by (induction t) (auto simp: finish_def split: sum.split task_error.split)

lemma calm_with_context [calm_intros]: "calm t \<Longrightarrow> calm (with_context c t)"
  by (induction t) (auto split: sum.split task_error.split)

lemma calm_locked [calm_intros]: "calm (locked f)" "calm (modify h)"
  by (simp_all add: locked_def modify_def atomically_def split: prod.split)

lemma calm_sys_call:
  "(\<And>s. fst (f s) \<noteq> Inl Panicked) \<Longrightarrow> calm (sys_call env f)"
  by (simp add: sys_call_def atomically_def split: option.split)

lemma calm_ignoring [calm_intros]: "calm t \<Longrightarrow> calm (ignoring t)"
  unfolding ignoring_def by (intro calm_intros)

lemma calm_cases [calm_intros]:
  "calm a \<Longrightarrow> calm b \<Longrightarrow> calm (if c then a else b)"
  "calm a \<Longrightarrow> (\<And>y. calm (h y)) \<Longrightarrow> calm (case x of None \<Rightarrow> a | Some y \<Rightarrow> h y)"
  "(\<And>y. calm (k y)) \<Longrightarrow> (\<And>z. calm (l z)) \<Longrightarrow> calm (case w of Inl y \<Rightarrow> k y | Inr z \<Rightarrow> l z)"
  "calm a \<Longrightarrow> (\<And>y ys. calm (m y ys)) \<Longrightarrow> calm (case zs of [] \<Rightarrow> a | y # ys \<Rightarrow> m y ys)"
  by (simp_all split: option.split sum.split list.split)

lemma calm_each [calm_intros]: "(\<And>r. calm (f r)) \<Longrightarrow> calm (each f rs)"
  by (induction rs) (auto intro!: calm_intros)

lemma calm_calls [calm_intros]:
  "calm (db_conn env)" "calm (db_update env p u)" "calm (publish env subject ev)"
  "calm (command env argv)" "calm (read_file env path)" "calm (remove_dir_all env path)"
  "calm (link_index env name)"
  unfolding db_conn_def db_update_def publish_def command_def read_file_def remove_dir_all_def
    link_index_def update_services_def Let_def
  by (intro calm_sys_call; simp split: option.split)+

lemma calm_tear_down [calm_intros]:
  "calm (with_db env t)" if "calm t" for t
  using that unfolding with_db_def by (intro calm_intros)

lemma calm_evict [calm_intros]: "calm (evict env slug)" "calm (release_and_tear_down env sid h)"
  unfolding evict_def release_and_tear_down_def deprovision_metal_def ebpf_detach_def tc_remove_def
    delete_tap_def cgroup_cleanup_def jailer_cleanup_def unmount_stale_def Let_def
  by (intro calm_intros calm_sys_call; simp)+

lemma total_run: "mild t \<Longrightarrow> calm t \<Longrightarrow> \<exists>x. fst (run_task t s) = Inr x"
  using calm_run [of t s] unfolding mild_def by (metis task_error.exhaust sum.exhaust)

section \<open>Shutdown\<close>

definition pids_of :: "(string \<times> vm_handle) list \<Rightarrow> nat set" where
  "pids_of vms = {p. p \<noteq> 0 \<and> (\<exists>(sid, h)\<in>set vms. vh_fc_pid h = p)}"

definition taps_of :: "(string \<times> vm_handle) list \<Rightarrow> nat set" where
  "taps_of vms = {i. \<exists>(sid, h)\<in>set vms. tap_of h = Some i}"

lemma torn_down_leads:
  "leads process_view (T, R, P) (release_and_tear_down env sid h)
     (\<lambda>r W. W = (T - taps_of [(sid, h)], R, P - pids_of [(sid, h)]))"
  unfolding release_and_tear_down_def
proof (rule leads_modify_then [where W = "(T - taps_of [(sid, h)], R, P)"])
  show "process_view (release_tap_index (vh_tap_name h) s) = (T - taps_of [(sid, h)], R, P)"
    if "process_view s = (T, R, P)" for s
    using that by (auto simp: process_view_def release_tap_index_def free_tap_def taps_of_def tap_of_def
        split: option.split)
  have "without (vh_fc_pid h) P = P - pids_of [(sid, h)]"
    by (auto simp: without_def pids_of_def)
  then show "leads process_view (T - taps_of [(sid, h)], R, P) (deprovision_metal env sid h)
      (\<lambda>r W. W = (T - taps_of [(sid, h)], R, P - pids_of [(sid, h)]))"
    using deprovision_leads [OF refl, of "T - taps_of [(sid, h)]" R P env sid h] by simp
qed

lemma mild_tear_down [mild_intros]: "mild (release_and_tear_down env sid h)"
  unfolding release_and_tear_down_def by (intro mild_intros)

lemma leads_total_then:
  assumes "leads v V t (\<lambda>r W. Q W)" "mild t" "calm t" "\<And>x W. Q W \<Longrightarrow> leads v W (f x) R"
  shows "leads v V (and_then t f) R"
  unfolding leads_def
proof (intro allI impI)
  fix s assume s: "v s = V"
  obtain x s' where "run_task t s = (Inr x, s')"
    using total_run [OF assms(2,3), of s] by (metis prod.collapse)
  then show "R (fst (run_task (and_then t f) s)) (v (snd (run_task (and_then t f) s)))"
    using assms(1) assms(4) [of "v s'" x] s by (auto simp: leads_def run_and_then)
qed

lemma torn_down_all:
  "leads process_view (T, R, P) (each (\<lambda>(sid, h). release_and_tear_down env sid h) vms)
     (\<lambda>r W. W = (T - taps_of vms, R, P - pids_of vms))"
proof (induction vms arbitrary: T P)
  case Nil
  show ?case by (simp add: leads_done taps_of_def pids_of_def)
next
  case (Cons x vms)
  obtain sid h where x: "x = (sid, h)" by fastforce
  have sets: "T - taps_of [x] - taps_of vms = T - taps_of (x # vms)"
    "P - pids_of [x] - pids_of vms = P - pids_of (x # vms)"
    by (auto simp: taps_of_def pids_of_def)
  have "leads process_view (T - taps_of [x], R, P - pids_of [x])
      (each (\<lambda>(sid, h). release_and_tear_down env sid h) vms)
      (\<lambda>r W. W = (T - taps_of (x # vms), R, P - pids_of (x # vms)))"
    using Cons.IH [of "T - taps_of [x]" "P - pids_of [x]"] by (simp only: sets)
  then show ?case
    unfolding each.simps x prod.case
    by (intro leads_total_then [OF torn_down_leads mild_tear_down]) (auto intro: calm_intros simp: x)
qed

lemma stop_rows_total:
  "mild (with_db env (each (\<lambda>(sid, h). stop_vm_row env sid) vms))"
  "calm (with_db env (each (\<lambda>(sid, h). stop_vm_row env sid) vms))"
  "untouched process_view (with_db env (each (\<lambda>(sid, h). stop_vm_row env sid) vms))"
proof -
  have "mild (stop_vm_row env sid)" "calm (stop_vm_row env sid)" for sid
    unfolding stop_vm_row_def
    by ((intro mild_intros calm_intros; auto split: list.split sum.split intro!: mild_intros calm_intros))+
  then show "mild (with_db env (each (\<lambda>(sid, h). stop_vm_row env sid) vms))"
    "calm (with_db env (each (\<lambda>(sid, h). stop_vm_row env sid) vms))"
    by (auto intro!: mild_with_db calm_tear_down mild_each calm_each split: prod.split)
qed (intro untouched_intros)

text \<open>
  C32: a shutdown ends without an error whichever calls fail, and leaves no VM: the registry is
  empty, the process of every VM in it is killed, and its index is given back.
\<close>

theorem shutdown_leaves_no_vm:
  "\<exists>s'. run_task (shutdown env) s = (Inr (), s') \<and> n_registry s' = [] \<and>
     n_procs s' = n_procs s - pids_of (n_registry s) \<and> n_taps s' = n_taps s - taps_of (n_registry s)"
proof -
  let ?vms = "n_registry s" and ?W = "(n_taps s - taps_of (n_registry s), [], n_procs s - pids_of (n_registry s))"
  let ?s = "s\<lparr>n_registry := []\<rparr>"
  have start: "run_task (shutdown env) s =
      run_task (if ?vms = [] then finish () else
        and_then (with_db env (each (\<lambda>(sid, h). stop_vm_row env sid) ?vms)) (\<lambda>_.
        each (\<lambda>(sid, h). release_and_tear_down env sid h) ?vms)) ?s"
    by (simp add: shutdown_def drain_registry_def run_and_then locked_def)
  have each: "mild (each (\<lambda>(sid, h). release_and_tear_down env sid h) ?vms)"
    "calm (each (\<lambda>(sid, h). release_and_tear_down env sid h) ?vms)"
    by (auto intro!: mild_each calm_each mild_tear_down calm_evict split: prod.split)
  have "leads process_view (process_view ?s)
      (and_then (with_db env (each (\<lambda>(sid, h). stop_vm_row env sid) ?vms)) (\<lambda>_.
        each (\<lambda>(sid, h). release_and_tear_down env sid h) ?vms)) (\<lambda>r W. r = Inr () \<and> W = ?W)"
  proof (rule leads_total_then [where Q = "\<lambda>W. W = process_view ?s"])
    show "leads process_view W (each (\<lambda>(sid, h). release_and_tear_down env sid h) ?vms)
        (\<lambda>r W. r = Inr () \<and> W = ?W)" if "W = process_view ?s" for W
      using torn_down_all [of "n_taps s" "[]" "n_procs s" env ?vms] total_run [OF each] that
      by (auto simp: leads_def process_view_def)
  qed (rule stop_rows_total leads_quiet | simp)+
  then have "fst (run_task (shutdown env) s) = Inr () \<and> process_view (snd (run_task (shutdown env) s)) = ?W"
    unfolding start leads_def
    by (auto simp: process_view_def pids_of_def taps_of_def)
  then show ?thesis
    by (metis (no_types, lifting) Pair_inject prod.collapse process_view_def)
qed

section \<open>Crashes\<close>

definition books_view :: "node \<Rightarrow> node_row list \<times> (string \<times> vm_handle) list" where
  "books_view s = (n_services s, n_registry s)"

interpretation books: host_view books_view
  by unfold_locales (simp_all add: books_view_def bump_def log_effect_def)

definition rows_and_log :: "node \<Rightarrow> node_row list \<times> node_effect list" where
  "rows_and_log s = (n_services s, n_log s)"

lemma rows_and_log_bump [simp]: "rows_and_log (bump s) = rows_and_log s"
  by (simp add: rows_and_log_def bump_def)

text \<open>An update that would write the status finds no row or is refused.\<close>

lemma crash_update:
  assumes "\<And>r. sv_status (f r) = ''crashed''"
  shows "fst (update_services p f s) = Inr [] \<or> (\<exists>m. fst (update_services p f s) = Inl (Err m))"
proof (cases "filter p (n_services s)")
  case (Cons r rs)
  then show ?thesis using crashed_refused by (simp add: update_services_def assms)
qed (simp add: update_services_def)

lemma crash_update_leads:
  assumes "\<And>r. sv_status (f r) = ''crashed''" "\<And>m. Q (Inl (Err m)) V" "Q (Inr []) V"
  shows "leads rows_and_log V (db_update env p f) Q"
  unfolding db_update_def sys_call_def
proof (rule leads_atomically)
  fix s assume s: "rows_and_log s = V"
  show "case case d_fault env (n_calls s) of Some m \<Rightarrow> (Inl (Err m), bump s)
      | None \<Rightarrow> update_services p f (bump s) of (r, s') \<Rightarrow> Q r (rows_and_log s')"
    using crash_update [of f p "bump s", OF assms(1)] update_crashed [of f p "bump s", OF assms(1)] assms(2,3) s
    by (cases "update_services p f (bump s)") (auto split: option.split)
qed

lemma report_leads:
  "leads rows_and_log V (report_crash env sid code) (\<lambda>r W. W = V)"
proof -
  have "untouched rows_and_log (db_conn env)"
    unfolding db_conn_def by (intro untouched_sys_call) simp_all
  then have conn: "untouched rows_and_log (attempt (db_conn env))" by (intro untouched_intros)
  let ?report = "\<lambda>rows. case rows of
              Inr [r] \<Rightarrow>
                and_then (evict env (sv_slug r)) (\<lambda>_.
                ignoring (publish env subject_service_crashed
                  (EvServiceCrashed \<lparr>sc_service_id = sid, sc_slug = sv_slug r, sc_exit_code = code\<rparr>)))
            | _ \<Rightarrow> finish ()"
  have "leads rows_and_log V (and_then (attempt (db_update env p
      (\<lambda>r. r\<lparr>sv_status := ''crashed'', sv_upstream := None\<rparr>))) ?report) (\<lambda>r W. W = V)" for p
    by (rule leads_attempt_then, rule crash_update_leads) (simp_all add: leads_done)
  then show ?thesis
    unfolding report_crash_def with_db_def
    by (intro leads_quiet_then [OF conn]) (auto simp: leads_done split: sum.split option.split)
qed

lemma books_tasks [untouched_intros]:
  "untouched books_view (report_crash env sid code)" "untouched books_view (release_and_tear_down env sid h)"
proof -
  have "untouched books_view (modify (kill_process p))" "untouched books_view (modify (release_tap_index tap))" for p tap
    by (intro untouched_modify; simp add: books_view_def kill_process_def release_tap_index_def free_tap_def
        split: option.split)+
  then show "untouched books_view (release_and_tear_down env sid h)"
    unfolding release_and_tear_down_def deprovision_metal_def by (intro untouched_intros)
  have "untouched books_view (db_update env p (\<lambda>r. r\<lparr>sv_status := ''crashed'', sv_upstream := None\<rparr>))" for p
    unfolding db_update_def by (intro books.call) (simp add: update_crashed)
  then show "untouched books_view (report_crash env sid code)"
    unfolding report_crash_def by (intro untouched_intros)
qed

text \<open>
  C34: a crash is forgotten. A round of the crash watcher takes every VM whose process has ended
  out of the registry, but changes no row, and the report of a crash publishes nothing: the
  status it writes is one the table refuses, so the service stays running, with its address
  in every route cache.
\<close>

theorem crashes_go_unrecorded:
  "n_services (snd (run_task (crash_watch env code) s)) = n_services s \<and>
   n_registry (snd (run_task (crash_watch env code) s)) =
     filter (\<lambda>(sid, h). sid \<notin> fst ` {(sid, h) \<in> set (n_registry s). vh_fc_pid h \<notin> n_procs s}) (n_registry s) \<and>
   (\<forall>sid c. n_log (snd (run_task (report_crash env sid c) s)) = n_log s)"
proof (intro conjI allI)
  have "leads rows_and_log (rows_and_log s) (report_crash env sid c) (\<lambda>r W. W = rows_and_log s)" for sid c
    by (rule report_leads)
  then show "n_log (snd (run_task (report_crash env sid c) s)) = n_log s" for sid c
    by (auto simp: leads_def rows_and_log_def)
  have rest: "untouched books_view (and_then (each (\<lambda>(sid, h, code). report_crash env sid code) crashed) (\<lambda>_.
     each (\<lambda>(sid, h, code). release_and_tear_down env sid h) crashed))" for crashed
    by (intro untouched_intros)
  have gone: "fst ` set (dead_vms code s) =
      fst ` {(sid, h) \<in> set (n_registry s). vh_fc_pid h \<notin> n_procs s}"
    by (force simp: dead_vms_def)
  have "fold (\<lambda>(sid, _). AList.delete sid) (dead_vms code s) (n_registry s) =
      filter (\<lambda>y. fst y \<notin> fst ` set (dead_vms code s)) (n_registry s)"
    using fold_delete [of "dead_vms code s" "n_registry s"] by (simp add: case_prod_unfold)
  then have "books_view (snd (run_task (crash_watch env code) s)) = (n_services s,
      filter (\<lambda>y. fst y \<notin> fst ` set (dead_vms code s)) (n_registry s))"
    unfolding crash_watch_def run_and_then [of "collect_crashed code"]
    using untouched_run [OF rest, of "dead_vms code s"]
    by (simp add: books_view_def collect_crashed_def locked_def run_atomically)
  then show "n_services (snd (run_task (crash_watch env code) s)) = n_services s"
    "n_registry (snd (run_task (crash_watch env code) s)) =
     filter (\<lambda>(sid, h). sid \<notin> fst ` {(sid, h) \<in> set (n_registry s). vh_fc_pid h \<notin> n_procs s}) (n_registry s)"
    unfolding gone [symmetric] by (simp_all add: books_view_def case_prod_unfold)
qed

section \<open>The readiness probe\<close>

text \<open>The calls a task makes, at most.\<close>

lemma probe_loop_ends:
  assumes "\<And>s. \<exists>m. fst (run_task failure s) = Inl (Err m) \<and> starts_with p m \<and>
             n_calls (snd (run_task failure s)) \<le> Suc (n_calls s) \<and> n_calls s \<le> n_calls (snd (run_task failure s))"
  shows "case run_task (probe_loop env k failure) s of (r, s') \<Rightarrow>
     n_calls s < n_calls s' \<and> n_calls s' \<le> n_calls s + k + 2 \<and>
     (r = Inr () \<and> d_answers env (n_calls s') \<or> (\<exists>m. r = Inl (Err m) \<and> starts_with p m))"
proof (induction k arbitrary: s)
  case 0
  then show ?case
    using assms [of "bump s"]
    by (auto simp: probe_loop.simps [of env 0] probe_once_def run_and_then run_attempt sys_call_def bump_def
        split: option.split prod.splits)
next
  case (Suc k)
  then show ?case
    using assms [of "bump s"] Suc [of "bump s"]
    by (auto simp: probe_loop.simps [of env "Suc k"] probe_once_def run_and_then run_attempt sys_call_def bump_def
        locked_def split: option.split prod.splits)
qed


end
