(* ===== verification/Shims.thy ===== *)
theory Shims
  imports Lifecycle
begin

text \<open>
  Wasm services over their life: a service that went to sleep or lost its daemon wakes as
  what was provisioned, from the files its provisioning left; the compile cache gives what
  the compiler would; the invocations a daemon counts are reported once.
\<close>

section \<open>What a task gives when it succeeds\<close>

named_theorems gives_intros

definition gives :: "('s \<Rightarrow> 'v) \<Rightarrow> 'v \<Rightarrow> ('s, 'a) task \<Rightarrow> ('a \<Rightarrow> 'v \<Rightarrow> bool) \<Rightarrow> bool" where
  "gives v V t R = (\<forall>s x s'. v s = V \<longrightarrow> run_task t s = (Inr x, s') \<longrightarrow> R x (v s'))"

lemma givesD: "gives v (v s) t R \<Longrightarrow> run_task t s = (Inr x, s') \<Longrightarrow> R x (v s')"
  by (auto simp: gives_def)

lemma gives_finish [gives_intros]: "R x V \<Longrightarrow> gives v V (finish x) R" "gives v V (bail m) R"
  by (simp_all add: gives_def)

lemma gives_then:
  assumes "gives v V t A" "\<And>x W. A x W \<Longrightarrow> gives v W (f x) R"
  shows "gives v V (and_then t f) R"
  using assms unfolding gives_def run_and_then by (fastforce split: prod.splits sum.splits)

lemma gives_quiet_then:
  assumes "untouched v t" "\<And>x. gives v V (f x) R"
  shows "gives v V (and_then t f) R"
proof (rule gives_then)
  show "gives v V t (\<lambda>x W. W = V)"
    using untouched_run [OF assms(1)] unfolding gives_def by (metis snd_conv)
qed (simp add: assms(2))

lemma gives_mono: "gives v V t A \<Longrightarrow> (\<And>x W. A x W \<Longrightarrow> R x W) \<Longrightarrow> gives v V t R"
  by (auto simp: gives_def)

lemma gives_with_context [gives_intros]: "gives v V t R \<Longrightarrow> gives v V (with_context c t) R"
  unfolding gives_def run_with_context by (fastforce split: prod.splits sum.splits task_error.splits)

lemma run_timeout_done:
  "run_task (timeout late t) s = (Inr (Some (Inr x)), s') \<Longrightarrow> run_task t s = (Inr x, s')"
  by (induction t arbitrary: s) (auto split: sum.splits task_error.splits if_splits)

lemma gives_within [gives_intros]:
  assumes "gives v V t R"
  shows "gives v V (within env d m t) R"
proof -
  have "run_task t s = (Inr x, s')" if "run_task (within env d m t) s = (Inr x, s')" for s x s'
    using that run_timeout_done [of _ t s x s']
    by (auto simp: within_def run_and_then split: prod.splits sum.splits option.splits)
  then show ?thesis using assms unfolding gives_def by blast
qed

lemma gives_call:
  assumes "\<And>s x s'. v s = V \<Longrightarrow> f (bump s) = (Inr x, s') \<Longrightarrow> R x (v s')"
  shows "gives v V (sys_call env f) R"
  using assms by (auto simp: gives_def sys_call_def split: option.splits)

section \<open>The files of a service\<close>

type_synonym shims = "(string \<rightharpoonup> string) \<times> (nat \<times> wasm_service) list \<times> (string \<times> liquid_handle) list"

definition shim_view :: "node \<Rightarrow> shims" where
  "shim_view s = (n_files s, n_shims s, n_liquid s)"

lemma shim_bump [simp]: "shim_view (bump s) = shim_view s"
  by (simp add: shim_view_def bump_def)

lemma shim_log [simp]: "shim_view (log_effect x s) = shim_view s"
  by (simp add: shim_view_def log_effect_def)

lemma shim_calls [untouched_intros]:
  "untouched shim_view (publish env subject ev)" "untouched shim_view (publish_progress env sid step m)"
  "untouched shim_view (fresh_uuid env)" "untouched shim_view (read_file env path)"
  "untouched shim_view (directory_call env)" "untouched shim_view (db_conn env)"
  "untouched shim_view (sys_call env (\<lambda>s. (Inr (), s)))" "untouched shim_view (file_exists env path)"
  "untouched shim_view (db_update env p u)" "untouched shim_view (parsed_uuid env sid)"
  unfolding publish_progress_def publish_def fresh_uuid_def read_file_def directory_call_def db_conn_def
    file_exists_def db_update_def parsed_uuid_def update_services_def
  by (intro untouched_intros untouched_sys_call untouched_locked;
      simp add: Let_def shim_view_def [of "_\<lparr>n_services := _\<rparr>"] split: option.split;
      simp add: shim_view_def)+

lemma shim_verify [untouched_intros]: "untouched shim_view (verify_artifact env path sha)"
  unfolding verify_artifact_def by (intro untouched_intros)

lemma shim_probe [untouched_intros]: "untouched shim_view (startup_probe env addr log)"
proof -
  have loop: "untouched shim_view t \<Longrightarrow> untouched shim_view (probe_loop env k t)" for k t
    by (induction k)
       (auto simp: probe_loop.simps probe_once_def split: sum.split
         intro!: untouched_intros untouched_sys_call untouched_locked)
  show ?thesis
    unfolding startup_probe_def probe_failure_def read_tail_def by (intro loop untouched_intros)
qed

lemma write_gives [gives_intros]:
  "R () (F(path \<mapsto> c), S, L) \<Longrightarrow> gives shim_view (F, S, L) (write_file env path c) R"
  unfolding write_file_def by (rule gives_call) (auto simp: shim_view_def bump_def)

lemma remove_gives:
  "R () (F(path := None), S, L) \<Longrightarrow> R () (F, S, L) \<Longrightarrow>
   gives shim_view (F, S, L) (ignoring (remove_file env path)) R"
  unfolding ignoring_def remove_file_def
  by (auto simp: gives_def run_and_then run_attempt sys_call_def shim_view_def bump_def split: option.splits)

lemma write_ignoring_gives:
  "R () (F(path \<mapsto> c), S, L) \<Longrightarrow> R () (F, S, L) \<Longrightarrow>
   gives shim_view (F, S, L) (ignoring (write_file env path c)) R"
  unfolding ignoring_def write_file_def
  by (auto simp: gives_def run_and_then run_attempt sys_call_def shim_view_def bump_def split: option.splits)

lemma read_gives:
  "(\<And>c. F path = Some c \<Longrightarrow> R c (F, S, L)) \<Longrightarrow> gives shim_view (F, S, L) (read_file env path) R"
  unfolding read_file_def
  by (rule gives_call) (auto simp: shim_view_def bump_def split: option.splits)

text \<open>A download leaves the object under the path it is for.\<close>

lemma download_gives:
  assumes "with_extension ''tmp'' path \<noteq> path"
    "\<And>b. d_objects env key = Some b \<Longrightarrow> R () (F(path \<mapsto> b, with_extension ''tmp'' path := None), S, L)"
  shows "gives shim_view (F, S, L) (download env key path) R"
  unfolding download_def download_inner_def
proof (rule gives_within, rule gives_quiet_then, intro untouched_intros)
  let ?tmp = "with_extension ''tmp'' path"
  have fetch: "gives shim_view (F, S, L) (with_context c (sys_call env (\<lambda>s. case d_objects env key of
            None \<Rightarrow> (Inl (Err ''service error''), s) | Some b \<Rightarrow> (Inr b, s))))
      (\<lambda>b W. d_objects env key = Some b \<and> W = (F, S, L))" for c
    by (intro gives_intros gives_call) (auto split: option.splits)
  have rename: "gives shim_view (F(?tmp \<mapsto> b), S, L) (rename_file env ?tmp path) R"
    if "d_objects env key = Some b" for b
    unfolding rename_file_def
    by (rule gives_call) (use assms that in \<open>auto simp: shim_view_def bump_def fun_upd_twist split: option.splits\<close>)
  show "gives shim_view (F, S, L) (and_then (with_context (''downloading artifact '' @ key @ '' from Object Storage'')
       (sys_call env (\<lambda>s. case d_objects env key of
            None \<Rightarrow> (Inl (Err ''service error''), s) | Some b \<Rightarrow> (Inr b, s)))) (\<lambda>bytes.
     and_then (with_context ''reading artifact body'' (sys_call env (\<lambda>s. (Inr (), s)))) (\<lambda>_.
     and_then (with_context (''writing artifact to '' @ ?tmp) (write_file env ?tmp bytes)) (\<lambda>_.
     with_context (''renaming artifact to '' @ path) (rename_file env ?tmp path))))) R"
  proof (rule gives_then [OF fetch], elim conjE, simp only:, rule gives_quiet_then, intro untouched_intros)
    fix b assume b: "d_objects env key = Some b"
    show "gives shim_view (F, S, L) (and_then (with_context (''writing artifact to '' @ ?tmp) (write_file env ?tmp b)) (\<lambda>_.
     with_context (''renaming artifact to '' @ path) (rename_file env ?tmp path))) R"
      by (rule gives_then [where A = "\<lambda>_ W. W = (F(?tmp \<mapsto> b), S, L)"])
         (auto intro!: gives_intros rename [OF b])
  qed
qed

section \<open>The compile cache\<close>

text \<open>
  Of the compiler: what was serialized deserializes to the same module. A cache file is
  faithful to a module's bytes when, if it is taken for theirs, it holds what the compiler
  makes of them.
\<close>

definition codec_ok :: "denv \<Rightarrow> bool" where
  "codec_ok env = (\<forall>m code. d_serialize env m = Some code \<longrightarrow> d_deserialize env code = Some m)"

definition faithful :: "denv \<Rightarrow> string \<Rightarrow> string option \<Rightarrow> bool" where
  "faithful env b cached =
     (case cached of None \<Rightarrow> True
      | Some c \<Rightarrow> 32 < length c \<longrightarrow> take 32 c = d_sha256 env b \<longrightarrow>
          (\<forall>m. d_deserialize env (drop 32 c) = Some m \<longrightarrow> d_compile env b = Inr m))"

definition compiled :: "denv \<Rightarrow> string \<Rightarrow> string \<Rightarrow> shims \<Rightarrow> string \<Rightarrow> shims \<Rightarrow> bool" where
  "compiled env b path V m W =
     (case (V, W) of ((F, S, L), (F', S', L')) \<Rightarrow>
        d_compile env b = Inr m \<and> S' = S \<and> L' = L \<and>
        (\<forall>p. p \<noteq> cache_path path \<longrightarrow> F' p = F p) \<and> faithful env b (F' (cache_path path)))"

lemma compiledI:
  "d_compile env b = Inr m \<Longrightarrow> faithful env b (F' (cache_path path)) \<Longrightarrow>
   (\<And>p. p \<noteq> cache_path path \<Longrightarrow> F' p = F p) \<Longrightarrow> compiled env b path (F, S, L) m (F', S, L)"
  by (simp add: compiled_def)

lemma fresh_gives:
  assumes "codec_ok env" "length (d_sha256 env b) = 32" "faithful env b (F (cache_path path))"
    "\<And>p. p \<noteq> cache_path path \<Longrightarrow> F p = G p"
  shows "gives shim_view (F, S, L) (compile_fresh env path b) (compiled env b path (G, S, L))"
  unfolding compile_fresh_def
proof (rule gives_quiet_then, intro untouched_intros)
  show "gives shim_view (F, S, L)
      (case d_compile env b of
         Inl e \<Rightarrow> bail (''compiling wasm module: '' @ e)
       | Inr m \<Rightarrow> and_then
          (case d_serialize env m of None \<Rightarrow> finish ()
           | Some code \<Rightarrow> ignoring (write_file env (cache_path path) (d_sha256 env b @ code))) (\<lambda>_. finish m))
      (compiled env b path (G, S, L))"
  proof (cases "d_compile env b")
    case (Inr m)
    let ?A = "\<lambda>_ W. compiled env b path (G, S, L) m W"
    have ready: "?A () (F, S, L)" using Inr assms(3,4) by (intro compiledI) auto
    have stored: "?A () (F(cache_path path \<mapsto> d_sha256 env b @ code), S, L)" if "d_serialize env m = Some code" for code
      using Inr assms(1,2,4) that by (intro compiledI) (auto simp: faithful_def codec_ok_def)
    have "gives shim_view (F, S, L) (case d_serialize env m of None \<Rightarrow> finish ()
           | Some code \<Rightarrow> ignoring (write_file env (cache_path path) (d_sha256 env b @ code))) ?A"
      using ready stored by (auto intro!: gives_finish write_ignoring_gives split: option.split)
    then show ?thesis unfolding Inr sum.case by (rule gives_then) (rule gives_finish)
  qed (simp add: gives_finish)
qed

lemma compile_gives:
  assumes "codec_ok env" "length (d_sha256 env b) = 32" "F path = Some b" "faithful env b (F (cache_path path))"
  shows "gives shim_view (F, S, L) (compile_or_cache env path) (compiled env b path (F, S, L))"
  unfolding compile_or_cache_def
proof (rule gives_then, rule gives_with_context, rule read_gives [where R = "\<lambda>c W. c = b \<and> W = (F, S, L)"])
  let ?R = "compiled env b path (F, S, L)"
  have redo: "gives shim_view (F, S, L) (and_then (ignoring (remove_file env (cache_path path))) (\<lambda>_.
      compile_fresh env path b)) ?R"
    by (rule gives_then [where A = "\<lambda>_ W. W = (F(cache_path path := None), S, L) \<or> W = (F, S, L)"], rule remove_gives)
       (auto intro!: fresh_gives assms simp: faithful_def)
  have fresh: "gives shim_view (F, S, L) (compile_fresh env path b) ?R"
    by (rule fresh_gives) (use assms in simp_all)
  have cached: "gives shim_view (F, S, L)
      (if 32 < length c \<and> take 32 c = d_sha256 env b
         then (case d_deserialize env (drop 32 c) of
                 Some m \<Rightarrow> finish m
               | None \<Rightarrow> and_then (ignoring (remove_file env (cache_path path))) (\<lambda>_. compile_fresh env path b))
         else and_then (ignoring (remove_file env (cache_path path))) (\<lambda>_. compile_fresh env path b)) ?R"
    if "F (cache_path path) = Some c" for c
    using redo assms(4) that by (auto simp: faithful_def split: option.split intro!: gives_finish compiledI)
  fix bytes W assume "bytes = b \<and> W = (F, S, L)"
  then have eq: "bytes = b" "W = (F, S, L)" by simp_all
  show "gives shim_view W (and_then (attempt (read_file env (cache_path path))) (\<lambda>cached.
     case cached of
       Inl _ \<Rightarrow> compile_fresh env path bytes
     | Inr c \<Rightarrow>
         if 32 < length c \<and> take 32 c = d_sha256 env bytes
         then (case d_deserialize env (drop 32 c) of
                 Some m \<Rightarrow> finish m
               | None \<Rightarrow> and_then (ignoring (remove_file env (cache_path path))) (\<lambda>_.
                          compile_fresh env path bytes))
         else and_then (ignoring (remove_file env (cache_path path))) (\<lambda>_.
                compile_fresh env path bytes))) ?R"
    unfolding eq
  proof (rule gives_then)
    show "gives shim_view (F, S, L) (attempt (read_file env (cache_path path)))
        (\<lambda>r W. W = (F, S, L) \<and> (\<forall>c. r = Inr c \<longrightarrow> F (cache_path path) = Some c))"
      by (auto simp: gives_def run_attempt read_file_def sys_call_def shim_view_def bump_def
          split: option.splits)
  qed (use fresh cached in \<open>auto split: sum.split\<close>)
qed (use assms in simp)

section \<open>Serving\<close>

lemma serve_gives:
  assumes "codec_ok env" "length (d_sha256 env b) = 32" "F path = Some b" "faithful env b (F (cache_path path))"
  shows "gives shim_view (F, S, L) (wasm_serve env path app vars)
     (\<lambda>port W. \<exists>m F'. compiled env b path (F, S, L) m (F', S, L) \<and>
        W = (F', S @ [(port, \<lparr>wv_module = m, wv_app_name = app, wv_env_vars = vars\<rparr>)], L))"
  unfolding wasm_serve_def
proof (rule gives_quiet_then, intro untouched_intros, rule gives_then [OF compile_gives [OF assms]])
  fix m W assume c: "compiled env b path (F, S, L) m W"
  then obtain F' where W: "W = (F', S, L)" by (cases W) (auto simp: compiled_def)
  show "gives shim_view W (with_context ''binding wasm HTTP listener''
       (sys_call env (\<lambda>s. let port = d_port env (set (map fst (n_shims s))) in
          (Inr port, s\<lparr>n_shims := n_shims s
             @ [(port, \<lparr>wv_module = m, wv_app_name = app, wv_env_vars = vars\<rparr>)]\<rparr>))))
     (\<lambda>port W. \<exists>m F'. compiled env b path (F, S, L) m (F', S, L) \<and>
        W = (F', S @ [(port, \<lparr>wv_module = m, wv_app_name = app, wv_env_vars = vars\<rparr>)], L))"
    unfolding W
    by (rule gives_with_context, rule gives_call)
       (use c W in \<open>auto simp: Let_def shim_view_def bump_def\<close>)
qed

section \<open>The files of a service\<close>

definition wasm_path :: "denv \<Rightarrow> string \<Rightarrow> string" where
  "wasm_path env sid = path_join (liquid_dir env sid) ''main.wasm''"

definition metadata_path :: "denv \<Rightarrow> string \<Rightarrow> string" where
  "metadata_path env sid = path_join (liquid_dir env sid) ''metadata.json''"

lemma last_join: "x \<noteq> [] \<Longrightarrow> last (path_join d x) = last x"
  by (simp add: path_join_def)

lemma path_ends:
  "last (wasm_path env sid) = CHR ''m''" "last (metadata_path env sid) = CHR ''n''"
  "last (cache_path p) = CHR ''d''" "last (with_extension ''tmp'' p) = CHR ''p''"
  by (simp_all add: wasm_path_def metadata_path_def last_join cache_path_def with_extension_def Let_def split: prod.split)

lemma paths_differ [simp]:
  "metadata_path env sid \<noteq> wasm_path env sid" "cache_path p \<noteq> wasm_path env sid"
  "cache_path p \<noteq> metadata_path env sid" "with_extension ''tmp'' p \<noteq> wasm_path env sid"
  "with_extension ''tmp'' p \<noteq> cache_path q"
  by (auto dest!: arg_cong [where f = last] simp: path_ends)

lemmas paths_differ' [simp] = paths_differ [THEN not_sym]

text \<open>What a service sleeps on: its module, its metadata, and a cache faithful to the module.\<close>

definition asleep :: "denv \<Rightarrow> provision_event \<Rightarrow> string \<Rightarrow> (string \<rightharpoonup> string) \<Rightarrow> bool" where
  "asleep env ev b F =
     (F (wasm_path env (pe_service_id ev)) = Some b \<and>
      F (metadata_path env (pe_service_id ev)) = Some (d_show_json env (liquid_metadata env ev)) \<and>
      faithful env b (F (cache_path (wasm_path env (pe_service_id ev)))))"

text \<open>What is assumed of the parameters for an object of the store.\<close>

definition object_ok :: "denv \<Rightarrow> string \<Rightarrow> string \<Rightarrow> (string \<rightharpoonup> string) \<Rightarrow> bool" where
  "object_ok env key path F =
     (\<forall>b. d_objects env key = Some b \<longrightarrow>
        length (d_sha256 env b) = 32 \<and> faithful env b (F (cache_path path)))"

lemma register_quiet_files: "n_files (register_liquid sid h s) = n_files s"
  by (simp add: register_liquid_def drop_liquid_def split: option.split)

lemma provision_liquid_gives:
  assumes "codec_ok env" "object_ok env (ls_artifact_key spec) (wasm_path env (pe_service_id ev)) F"
  shows "gives shim_view (F, S, L) (provision_liquid env ev spec)
     (\<lambda>svc (F', S', L'). \<exists>b. d_objects env (ls_artifact_key spec) = Some b \<and> asleep env ev b F')"
    (is "gives _ _ _ ?R")
proof -
  let ?sid = "pe_service_id ev" and ?json = "d_show_json env (liquid_metadata env ev)"
  let ?wasm = "wasm_path env ?sid" and ?meta = "metadata_path env ?sid"
  let ?got = "\<lambda>_ W. \<exists>b F\<^sub>1. d_objects env (ls_artifact_key spec) = Some b \<and> F\<^sub>1 ?wasm = Some b
      \<and> faithful env b (F\<^sub>1 (cache_path ?wasm)) \<and> length (d_sha256 env b) = 32 \<and> W = (F\<^sub>1, S, L)"
  have fetched: "gives shim_view (F, S, L) (with_context c (download env (ls_artifact_key spec) ?wasm)) ?got" for c
    by (rule gives_with_context, rule download_gives) (use assms(2) in \<open>auto simp: object_ok_def fun_upd_def\<close>)
  have serve: "gives shim_view (F\<^sub>2, S, L) (and_then (with_context ''starting wasm HTTP shim''
        (wasm_serve env ?wasm (pe_app_name ev) (pe_env_vars ev))) (\<lambda>port.
      and_then (publish_progress env ?sid HealthCheck ''Verifying Wasm module responds to requests'') (\<lambda>_.
      and_then (with_context ''wasm HTTP readiness probe failed''
        (startup_probe env (localhost_addr port) None)) (\<lambda>_.
      and_then (modify (register_liquid ?sid
        \<lparr>lh_workspace_id = pe_tenant_id ev, lh_invocations = 0, lh_port = port\<rparr>)) (\<lambda>_.
      and_then (publish_progress env ?sid Running ''Wasm module is live'') (\<lambda>_.
      finish (svc port))))))) ?R"
    if b: "d_objects env (ls_artifact_key spec) = Some b" "asleep env ev b F\<^sub>2" "length (d_sha256 env b) = 32"
    for b F\<^sub>2 and svc :: "nat \<Rightarrow> provisioned_service"
  proof (rule gives_then, rule gives_with_context, rule serve_gives [OF assms(1) b(3)])
    fix port W
    assume "\<exists>m F'. compiled env b ?wasm (F\<^sub>2, S, L) m (F', S, L) \<and>
        W = (F', S @ [(port, \<lparr>wv_module = m, wv_app_name = pe_app_name ev, wv_env_vars = pe_env_vars ev\<rparr>)], L)"
    then obtain F' S' where W: "W = (F', S', L)" "asleep env ev b F'"
      using b(2) by (auto simp: compiled_def asleep_def)
    have "gives shim_view (F', S', L) (modify (register_liquid ?sid
        \<lparr>lh_workspace_id = pe_tenant_id ev, lh_invocations = 0, lh_port = port\<rparr>)) (\<lambda>_. ?R (svc port))"
      using W(2) b(1) by (auto simp: gives_def run_modify shim_view_def register_quiet_files)
    then show "gives shim_view W (and_then (publish_progress env ?sid HealthCheck
        ''Verifying Wasm module responds to requests'') (\<lambda>_.
      and_then (with_context ''wasm HTTP readiness probe failed''
        (startup_probe env (localhost_addr port) None)) (\<lambda>_.
      and_then (modify (register_liquid ?sid
        \<lparr>lh_workspace_id = pe_tenant_id ev, lh_invocations = 0, lh_port = port\<rparr>)) (\<lambda>_.
      and_then (publish_progress env ?sid Running ''Wasm module is live'') (\<lambda>_.
      finish (svc port)))))) ?R"
      unfolding W(1)
      by (intro gives_quiet_then [OF shim_calls(2)] gives_quiet_then [OF untouched_with_context [OF shim_probe]])
         (auto elim!: gives_then intro!: gives_quiet_then [OF shim_calls(2)] gives_finish)
  qed (use b in \<open>simp_all add: asleep_def\<close>)
  show ?thesis
    unfolding provision_liquid_def Let_def wasm_path_def [symmetric] metadata_path_def [symmetric]
  proof (rule gives_quiet_then, intro untouched_intros, rule gives_quiet_then, intro untouched_intros,
      rule gives_then [OF fetched], elim exE conjE, hypsubst, rule gives_quiet_then, intro untouched_intros,
      rule gives_then, rule gives_with_context, rule write_gives)
    fix b F\<^sub>1
    assume "d_objects env (ls_artifact_key spec) = Some b" "F\<^sub>1 ?wasm = Some b"
      "faithful env b (F\<^sub>1 (cache_path ?wasm))" "length (d_sha256 env b) = 32"
    then show "\<exists>b F\<^sub>2. d_objects env (ls_artifact_key spec) = Some b \<and> asleep env ev b F\<^sub>2 \<and>
        length (d_sha256 env b) = 32 \<and> (F\<^sub>1(?meta \<mapsto> ?json), S, L) = (F\<^sub>2, S, L)"
      by (auto simp: asleep_def fun_upd_def)
  qed (elim exE conjE, hypsubst, rule gives_quiet_then, intro untouched_intros, rule serve; assumption)
qed

section \<open>Waking\<close>

lemma env_vars_back:
  "env_vars_of (liquid_metadata env ev) = map_of (d_entries env (pe_env_vars ev))"
proof -
  have "string_entries (map (\<lambda>(k, v). (k, JStr v)) es) = Some es" for es
    by (induction es) auto
  then show ?thesis by (simp add: env_vars_of_def liquid_metadata_def)
qed

lemma metadata_strings:
  "get_str (liquid_metadata env ev) ''app_name'' = Some (pe_app_name ev)"
  "get_str (liquid_metadata env ev) ''tenant_id'' = Some (pe_tenant_id ev)"
  by (simp_all add: get_str_def liquid_metadata_def)

lemma shim_announce [untouched_intros]:
  "untouched shim_view t \<Longrightarrow> untouched shim_view (announce_wake env wev addr t)"
  unfolding announce_wake_def by (intro untouched_intros)

definition woken :: "provision_event \<Rightarrow> string \<Rightarrow> shims \<Rightarrow> shims \<Rightarrow> bool" where
  "woken ev m V W =
     (\<exists>port. fst (snd W) = fst (snd V) @
          [(port, \<lparr>wv_module = m, wv_app_name = pe_app_name ev, wv_env_vars = pe_env_vars ev\<rparr>)] \<and>
        map_of (snd (snd W)) (pe_service_id ev) =
          Some \<lparr>lh_workspace_id = pe_tenant_id ev, lh_invocations = 0, lh_port = port\<rparr>)"

lemma wake_gives:
  assumes "codec_ok env" "length (d_sha256 env b) = 32" "asleep env ev b F"
    "d_parse_json env (d_show_json env (liquid_metadata env ev)) = Some (liquid_metadata env ev)"
    "map_of (d_entries env (pe_env_vars ev)) = pe_env_vars ev"
    "wk_service_id wev = pe_service_id ev" "map_of L (pe_service_id ev) = None"
  shows "gives shim_view (F, S, L) (wake_liquid env wev)
     (\<lambda>_ W. \<exists>m. d_compile env b = Inr m \<and> woken ev m (F, S, L) W)"
    (is "gives _ _ _ (\<lambda>_. ?R)")
  unfolding wake_liquid_def Let_def assms(6) wasm_path_def [symmetric] metadata_path_def [symmetric]
proof (rule gives_then, rule gives_with_context,
    rule read_gives [where R = "\<lambda>c W. c = d_show_json env (liquid_metadata env ev) \<and> W = (F, S, L)"])
  let ?sid = "pe_service_id ev"
  let ?wasm = "wasm_path env ?sid"
  have register: "gives shim_view (F', S @ [(port, \<lparr>wv_module = m, wv_app_name = pe_app_name ev,
        wv_env_vars = pe_env_vars ev\<rparr>)], L) (and_then (modify (register_liquid ?sid
        \<lparr>lh_workspace_id = pe_tenant_id ev, lh_invocations = 0, lh_port = port\<rparr>)) (\<lambda>_.
      announce_wake env wev (localhost_addr port)
        (with_context ''invalid service_id'' (parsed_uuid env ?sid)))) (\<lambda>_. ?R)"
    if "d_compile env b = Inr m" for F' port m
  proof (rule gives_then)
    show "gives shim_view (F', S @ [(port, \<lparr>wv_module = m, wv_app_name = pe_app_name ev,
        wv_env_vars = pe_env_vars ev\<rparr>)], L) (modify (register_liquid ?sid
        \<lparr>lh_workspace_id = pe_tenant_id ev, lh_invocations = 0, lh_port = port\<rparr>)) (\<lambda>_. ?R)"
      using that assms(7)
      by (auto simp: gives_def run_modify shim_view_def register_liquid_def drop_liquid_def woken_def
          AList.update_conv')
    show "gives shim_view W (announce_wake env wev (localhost_addr port)
        (with_context ''invalid service_id'' (parsed_uuid env ?sid))) (\<lambda>_. ?R)" if "?R W" for W
      using untouched_run [OF shim_announce [OF untouched_with_context [OF shim_calls(10)]]] that
      unfolding gives_def by (metis snd_conv)
  qed
  fix raw W assume "raw = d_show_json env (liquid_metadata env ev) \<and> W = (F, S, L)"
  then have eq: "raw = d_show_json env (liquid_metadata env ev)" "W = (F, S, L)" by simp_all
  have serve: "gives shim_view (F, S, L) (and_then (with_context ''re-starting wasm HTTP shim'' (wasm_serve env ?wasm
          (or_default ''unknown'' (get_str (liquid_metadata env ev) ''app_name''))
          (env_vars_of (liquid_metadata env ev)))) (\<lambda>port.
      and_then (modify (register_liquid ?sid
        \<lparr>lh_workspace_id = or_default [] (get_str (liquid_metadata env ev) ''tenant_id''), lh_invocations = 0,
         lh_port = port\<rparr>)) (\<lambda>_.
      announce_wake env wev (localhost_addr port)
        (with_context ''invalid service_id'' (parsed_uuid env ?sid))))) (\<lambda>_. ?R)"
    unfolding metadata_strings env_vars_back assms(5)
  proof (rule gives_then, rule gives_with_context, rule serve_gives [OF assms(1,2)])
    show "gives shim_view W (and_then (modify (register_liquid ?sid
        \<lparr>lh_workspace_id = or_default [] (Some (pe_tenant_id ev)), lh_invocations = 0, lh_port = port\<rparr>)) (\<lambda>_.
      announce_wake env wev (localhost_addr port)
        (with_context ''invalid service_id'' (parsed_uuid env ?sid)))) (\<lambda>_. ?R)"
      if "\<exists>m F'. compiled env b ?wasm (F, S, L) m (F', S, L) \<and> W = (F', S @ [(port, \<lparr>wv_module = m,
        wv_app_name = or_default ''unknown'' (Some (pe_app_name ev)), wv_env_vars = pe_env_vars ev\<rparr>)], L)" for port W
      using that register by (auto simp: compiled_def or_default_def)
  qed (use assms(3) in \<open>simp_all add: asleep_def\<close>)
  show "gives shim_view W (and_then (with_context ''parsing liquid metadata.json''
        (case d_parse_json env raw of None \<Rightarrow> bail ''invalid JSON'' | Some j \<Rightarrow> finish j)) (\<lambda>metadata.
      and_then (file_exists env ?wasm) (\<lambda>there.
      if \<not> there then bail (''wasm binary not found at '' @ ?wasm @ '' '' @ em_dash
                             @ '' artifacts may have been cleaned up'')
      else
      and_then (with_context ''re-starting wasm HTTP shim'' (wasm_serve env ?wasm
                  (or_default ''unknown'' (get_str metadata ''app_name'')) (env_vars_of metadata))) (\<lambda>port.
      and_then (modify (register_liquid ?sid
        \<lparr>lh_workspace_id = or_default [] (get_str metadata ''tenant_id''), lh_invocations = 0,
         lh_port = port\<rparr>)) (\<lambda>_.
      announce_wake env wev (localhost_addr port)
        (with_context ''invalid service_id'' (parsed_uuid env ?sid))))))) (\<lambda>_. ?R)"
    unfolding eq assms(4) option.case
  proof (rule gives_then [where A = "\<lambda>x W. x = liquid_metadata env ev \<and> W = (F, S, L)"],
      rule gives_with_context, rule gives_finish)
    show "liquid_metadata env ev = liquid_metadata env ev \<and> (F, S, L) = (F, S, L)" by simp
  next
    fix metadata W assume "metadata = liquid_metadata env ev \<and> W = (F, S, L)"
    then have m: "metadata = liquid_metadata env ev" "W = (F, S, L)" by simp_all
    show "gives shim_view W (and_then (file_exists env ?wasm) (\<lambda>there.
      if \<not> there then bail (''wasm binary not found at '' @ ?wasm @ '' '' @ em_dash
                             @ '' artifacts may have been cleaned up'')
      else
      and_then (with_context ''re-starting wasm HTTP shim'' (wasm_serve env ?wasm
                  (or_default ''unknown'' (get_str metadata ''app_name'')) (env_vars_of metadata))) (\<lambda>port.
      and_then (modify (register_liquid ?sid
        \<lparr>lh_workspace_id = or_default [] (get_str metadata ''tenant_id''), lh_invocations = 0,
         lh_port = port\<rparr>)) (\<lambda>_.
      announce_wake env wev (localhost_addr port)
        (with_context ''invalid service_id'' (parsed_uuid env ?sid)))))) (\<lambda>_. ?R)"
      unfolding m by (rule gives_quiet_then [OF shim_calls(8)]) (simp add: gives_finish serve)
  qed
qed (use assms(3) in \<open>simp_all add: asleep_def\<close>)

text \<open>
  C5: a Wasm service wakes as what was provisioned: as long as its files stay, a wake after a
  successful provisioning, in this or in a restarted daemon, serves the module the compiler
  makes of the deployed object, under the same name, with the same variables, and counts
  its invocations for the same workspace.
\<close>

theorem wake_restores_provisioned:
  assumes "run_task (provision_liquid env ev spec) s = (Inr svc, s\<^sub>1)"
    "run_task (wake_liquid env wev) s\<^sub>2 = (Inr (), s\<^sub>3)"
    "n_files s\<^sub>2 = n_files s\<^sub>1" "wk_service_id wev = pe_service_id ev"
    "map_of (n_liquid s\<^sub>2) (pe_service_id ev) = None"
    "codec_ok env" "object_ok env (ls_artifact_key spec) (wasm_path env (pe_service_id ev)) (n_files s)"
    "d_parse_json env (d_show_json env (liquid_metadata env ev)) = Some (liquid_metadata env ev)"
    "map_of (d_entries env (pe_env_vars ev)) = pe_env_vars ev"
  shows "\<exists>b m port. d_objects env (ls_artifact_key spec) = Some b \<and> d_compile env b = Inr m \<and>
     n_shims s\<^sub>3 = n_shims s\<^sub>2 @
       [(port, \<lparr>wv_module = m, wv_app_name = pe_app_name ev, wv_env_vars = pe_env_vars ev\<rparr>)] \<and>
     map_of (n_liquid s\<^sub>3) (pe_service_id ev) =
       Some \<lparr>lh_workspace_id = pe_tenant_id ev, lh_invocations = 0, lh_port = port\<rparr>"
proof -
  have "gives shim_view (shim_view s) (provision_liquid env ev spec) (\<lambda>svc (F', S', L').
      \<exists>b. d_objects env (ls_artifact_key spec) = Some b \<and> asleep env ev b F')"
    unfolding shim_view_def [of s] by (rule provision_liquid_gives [OF assms(6,7)])
  from givesD [OF this assms(1)] have "case shim_view s\<^sub>1 of (F', S', L') \<Rightarrow>
      \<exists>b. d_objects env (ls_artifact_key spec) = Some b \<and> asleep env ev b F'" .
  then obtain b where b: "d_objects env (ls_artifact_key spec) = Some b" "asleep env ev b (n_files s\<^sub>2)"
    using assms(3) by (auto simp: shim_view_def)
  have "gives shim_view (shim_view s\<^sub>2) (wake_liquid env wev)
      (\<lambda>_ W. \<exists>m. d_compile env b = Inr m \<and> woken ev m (shim_view s\<^sub>2) W)"
    unfolding shim_view_def [of s\<^sub>2]
    by (rule wake_gives) (use assms b in \<open>simp_all add: object_ok_def\<close>)
  from givesD [OF this assms(2)] have "\<exists>m. d_compile env b = Inr m \<and> woken ev m (shim_view s\<^sub>2) (shim_view s\<^sub>3)" .
  then show ?thesis using b(1) by (auto simp: woken_def shim_view_def)
qed

section \<open>Usage\<close>

definition counted :: "(string \<times> nat) list \<Rightarrow> string \<Rightarrow> nat" where
  "counted backlog sid = or_default 0 (map_of backlog sid)"

definition reported :: "liquid_usage_event list \<Rightarrow> string \<Rightarrow> nat" where
  "reported evs sid = sum_list (map lu_invocations (filter (\<lambda>e. lu_service_id e = sid) evs))"

lemma counted_simps [simp]:
  "counted (AList.delete k b) sid = (if sid = k then 0 else counted b sid)"
  "counted (AList.update k n b) sid = (if sid = k then n else counted b sid)"
  by (auto simp: counted_def or_default_def AList.delete_conv' AList.update_conv' restrict_map_def)

lemma reported_simps [simp]:
  "reported [] sid = 0"
  "reported (e # evs) sid = (if lu_service_id e = sid then lu_invocations e else 0) + reported evs sid"
  by (simp_all add: reported_def)

lemma report_other:
  assumes "sid \<notin> set (map fst reg)" "report_services sends n backlog reg = (b, evs)"
  shows "counted b sid = counted backlog sid \<and> reported evs sid = 0"
  using assms
  by (induction sends n backlog reg arbitrary: b evs rule: report_services.induct)
     (auto simp: Let_def split: if_splits prod.splits)

lemma report_counts:
  assumes "distinct (map fst reg)" "map_of reg sid = Some h" "counted backlog sid + lh_invocations h < 2 ^ 64"
    "report_services sends n backlog reg = (b, evs)"
  shows "counted b sid + reported evs sid = counted backlog sid + lh_invocations h"
  using assms
proof (induction sends n backlog reg arbitrary: b evs rule: report_services.induct)
  case (2 sends n backlog k h' reg)
  show ?case
  proof (cases "k = sid")
    case True
    then have "h' = h" "sid \<notin> set (map fst reg)" using "2.prems" by auto
    then show ?thesis
      using "2.prems"(3,4) True report_other [of sid reg sends _ _ b]
      by (auto simp: Let_def counted_def [symmetric] split: if_splits prod.splits)
  next
    case False
    then show ?thesis using "2.prems" "2.IH"
      by (auto simp: Let_def split: if_splits prod.splits)
  qed
qed simp

lemma report_keys:
  "distinct (map fst backlog) \<Longrightarrow> distinct (map fst (fst (report_services sends n backlog reg)))"
proof (induction sends n backlog reg rule: report_services.induct)
  case (2 sends n backlog k h reg)
  have d: "distinct (map fst (AList.delete k backlog))" by (rule distinct_delete [OF "2.prems"])
  have u: "distinct (map fst (AList.update k t (AList.delete k backlog)))" for t
    by (rule distinct_update [OF d])
  show ?case
    using "2.IH"(1) [OF refl refl _ d] "2.IH"(2) [OF refl refl _ _ d] "2.IH"(3) [OF refl refl _ _ u]
    by (simp add: Let_def case_prod_unfold)
qed simp

lemma kept_counts:
  "sid \<in> ids \<Longrightarrow> counted (filter (\<lambda>(k, _). k \<in> ids) b) sid = counted b sid"
proof -
  assume "sid \<in> ids"
  then have "map_of (filter (\<lambda>(k, _). k \<in> ids) b) sid = map_of b sid"
    by (induction b) (auto split: if_splits)
  then show ?thesis by (simp add: counted_def)
qed

lemma kept_few:
  assumes "distinct (map fst b)"
  shows "length (filter (\<lambda>(k, _). k \<in> set ids) b) \<le> length ids"
proof -
  let ?kept = "filter (\<lambda>(k, _). k \<in> set ids) b"
  have "distinct (map fst ?kept)" using assms by (rule distinct_map_filter)
  then have "length ?kept = card (set (map fst ?kept))" by (simp only: distinct_card length_map)
  also have "\<dots> \<le> card (set ids)" by (rule card_mono) auto
  finally show ?thesis using card_length [of ids] by simp
qed


end
