(* ===== verification/NodeRuns.thy ===== *)
theory NodeRuns
  imports NodeExamples Records Shims
begin

text \<open>
  Whole runs on a node where nothing fails: a VM provisioned and a Wasm service provisioned,
  forgotten by a restart and woken; with them, the properties of \<open>Lifecycle\<close>, \<open>Records\<close> and
  \<open>Shims\<close> at concrete inputs.
\<close>

section \<open>A VM\<close>

definition sunny_cfg :: provision_config where
  "sunny_cfg =
     \<lparr>pc_fc_bin = ''fc'', pc_kernel_path = ''k'', pc_sock_dir = ''s'', pc_bridge = ''br0'',
      pc_rootfs_dev = ''8:0'', pc_use_jailer = False, pc_jailer_bin = ''j'', pc_jailer_uid = 1,
      pc_jailer_gid = 1, pc_chroot_base = ''c'', pc_node_id = ''n'', pc_artifact_dir = ''a'',
      pc_base_image_key = ''b'', pc_base_image_sha256 = None\<rparr>"

definition sunny :: denv where
  "sunny = plain_denv\<lparr>d_cfg := sunny_cfg, d_pid := (\<lambda>_. 4242)\<rparr>"

definition sunny_spec :: metal_spec where
  "sunny_spec =
     \<lparr>ms_vcpu = 1, ms_memory_mb = 2048, ms_port = 80, ms_artifact_key = ''k'', ms_artifact_sha256 = None,
      ms_quota = \<lparr>disk_read_bps = None, disk_write_bps = None, disk_read_iops = None,
        disk_write_iops = None, net_ingress_kbps = None, net_egress_kbps = None\<rparr>\<rparr>"

definition sunny_event :: provision_event where
  "sunny_event =
     \<lparr>pe_tenant_id = ''2'', pe_service_id = ''7'', pe_app_name = ''app'', pe_slug = ''a'',
      pe_engine = Metal, pe_spec = SpecMetal sunny_spec, pe_env_vars = Map.empty\<rparr>"

definition sunny_node :: node where
  "sunny_node = (plain_node [plain_row 7 ''a'' ''provisioning'' ''tap9'' 0])
     \<lparr>n_template := Some ''t'', n_files := [''t'' \<mapsto> ''image'']\<rparr>"

lemma sunny_sel [simp]:
  "d_fault sunny = (\<lambda>_. None)" "d_cfg sunny = sunny_cfg" "d_status sunny = (\<lambda>_. True)"
  "d_answers sunny = (\<lambda>_. True)" "d_expired sunny = (\<lambda>_ _. False)" "d_vars sunny = Map.empty"
  "d_objects sunny = (\<lambda>_. Some ''wasm'')" "d_uuid sunny = (\<lambda>_. ''vm'')"
  "d_parse_uuid sunny = map_of [(''7'', 7), (''8'', 8)]" "d_pid sunny = (\<lambda>_. 4242)"
  "d_entries sunny = (\<lambda>_. [])"  "d_stderr sunny = (\<lambda>_. [])"
  by (simp_all add: sunny_def plain_denv_def)

lemma sunny_cfg_sel [simp]:
  "pc_bridge sunny_cfg = ''br0''" "pc_use_jailer sunny_cfg = False" "pc_artifact_dir sunny_cfg = ''a''"
  by (simp_all add: sunny_cfg_def)

lemma sunny_probe [simp]: "run_task (startup_probe sunny addr log) s = (Inr (), bump s)"
  by (cases "2 * probe_timeout sunny") (simp_all add: startup_probe_def probe_loop.simps probe_once_def run_step)

lemmas boot_defs =
  provision_def provision_metal_def boot_metal_def provision_metal_after_tap_def ensure_template_def
  build_rootfs_def inject_into_rootfs_def run_cmd_def elf_check_def download_def within_def run_timeout
  download_inner_def create_tap_def attach_to_bridge_def link_index_def tc_apply_def ebpf_attach_def
  spawn_firecracker_direct_def serial_log_files_def spawn_process_def socket_appears_def cgroup_apply_def
  start_vm_def vm_requests_def fc_put_def drop_tap_guard_def with_tap_guard_def register_vm_def
  record_provisioned_def parsed_uuid_def fresh_uuid_def allocate_tap_index_def
  path_join_def starts_with_def ends_with_def with_extension_def rsplit_once_def
  check_elf_compat_file_def check_elf_compat_for_metal_def check_elf_compat_def

lemma sunny_provision: "\<exists>svc s'. run_task (provision sunny sunny_event) sunny_node = (Inr svc, s')"
  by (simp add: sunny_node_def sunny_event_def sunny_spec_def node_run_defs boot_defs MAX_TAP_INDEX_def
      guest_ip_def build_io_max_def service_status_check_def wrap_i32_def IFNAMSIZ_def tap_names)

lemma sunny_message:
  "\<exists>s'. run_task (provision_message sunny (Some sunny_event) 1) sunny_node = (Inr Ack, s')"
proof -
  have "d_features sunny = plain_features" by (simp add: sunny_def plain_denv_def)
  then have "engine_enabled (d_features sunny) (pe_engine sunny_event)" "\<not> maintenance_mode (d_features sunny)"
    by (simp_all add: plain_features_def engine_enabled_def sunny_event_def)
  then show ?thesis
    using sunny_provision by (auto simp: provision_message_def run_and_then run_timeout)
qed

lemma sunny_start:
  "taps_ok sunny_node" "map_of (n_registry sunny_node) (pe_service_id sunny_event) = None"
  "fresh_pid sunny (n_procs sunny_node)" "pe_spec sunny_event = SpecMetal sunny_spec"
  "d_pid sunny (n_procs sunny_node) < 2 ^ 32" "\<not> d_expired sunny ''provision'' k"
  by (simp_all add: sunny_node_def sunny_event_def plain_node_def taps_ok_def vm_taps_def fresh_pid_def)


lemma restart_recovers_vm_witness:
  "\<exists>svc s' h. run_task (provision sunny sunny_event) sunny_node = (Inr svc, s') \<and>
     map_of (n_registry s') ''7'' = Some h \<and> vh_fc_pid h \<in> n_procs s'"
proof -
  obtain svc s' where s': "run_task (provision sunny sunny_event) sunny_node = (Inr svc, s')"
    using sunny_provision by blast
  have "pe_service_id sunny_event = ''7''" by (simp add: sunny_event_def)
  with restart_recovers_vm [OF s' sunny_start(4,1,2,3,5)] s' show ?thesis by auto
qed

section \<open>A Wasm service\<close>

definition wasm_spec :: liquid_spec where
  "wasm_spec = \<lparr>ls_artifact_key = ''k'', ls_artifact_sha256 = None\<rparr>"

definition wasm_event :: provision_event where
  "wasm_event = sunny_event\<lparr>pe_engine := Liquid, pe_spec := SpecLiquid wasm_spec,
     pe_env_vars := [''K'' \<mapsto> ''v'']\<rparr>"

definition wasm_metadata :: json where
  "wasm_metadata = JObj [(''app_name'', JStr ''app''), (''env_vars'', JObj [(''K'', JStr ''v'')]),
     (''tenant_id'', JStr ''2'')]"

definition wasm_env :: denv where
  "wasm_env = sunny\<lparr>d_entries := (\<lambda>_. [(''K'', ''v'')]), d_parse_json := (\<lambda>_. Some wasm_metadata)\<rparr>"

definition wasm_wake :: wake_event where
  "wasm_wake = \<lparr>wk_service_id = ''7'', wk_slug = ''a'', wk_engine = Liquid, wk_snapshot_key = []\<rparr>"

lemma wasm_sel [simp]:
  "d_fault wasm_env = (\<lambda>_. None)" "d_cfg wasm_env = sunny_cfg" "d_answers wasm_env = (\<lambda>_. True)"
  "d_expired wasm_env = (\<lambda>_ _. False)" "d_vars wasm_env = Map.empty"
  "d_objects wasm_env = (\<lambda>_. Some ''wasm'')" "d_uuid wasm_env = (\<lambda>_. ''vm'')"
  "d_parse_uuid wasm_env = map_of [(''7'', 7), (''8'', 8)]" "d_entries wasm_env = (\<lambda>_. [(''K'', ''v'')])"
  "d_parse_json wasm_env = (\<lambda>_. Some wasm_metadata)" "d_show_json wasm_env = (\<lambda>_. ''json'')"
  "d_compile wasm_env = Inr" "d_serialize wasm_env = Some" "d_deserialize wasm_env = Some"
  "d_sha256 wasm_env = (\<lambda>_. replicate 32 (CHR 0x30))" "d_port wasm_env = (\<lambda>_. 40000)"
  by (simp_all add: wasm_env_def sunny_def plain_denv_def)

lemma wasm_probe [simp]: "run_task (startup_probe wasm_env addr log) s = (Inr (), bump s)"
  by (cases "2 * probe_timeout wasm_env") (simp_all add: startup_probe_def probe_loop.simps probe_once_def run_step)

lemmas shim_defs =
  liquid_dir_def download_def within_def run_timeout download_inner_def wasm_serve_def compile_or_cache_def
  compile_fresh_def cache_path_def register_liquid_def drop_liquid_def fresh_uuid_def parsed_uuid_def
  path_join_def starts_with_def ends_with_def with_extension_def rsplit_once_def announce_wake_def

definition wasm_slept :: node where
  "wasm_slept = (snd (run_task (provision_liquid wasm_env wasm_event wasm_spec) sunny_node))
     \<lparr>n_liquid := [], n_shims := []\<rparr>"

lemma wasm_provision:
  "\<exists>svc. run_task (provision_liquid wasm_env wasm_event wasm_spec) sunny_node =
     (Inr svc, snd (run_task (provision_liquid wasm_env wasm_event wasm_spec) sunny_node))"
  by (simp add: provision_liquid_def sunny_node_def wasm_event_def sunny_event_def wasm_spec_def
      node_run_defs shim_defs)

lemma wasm_woken: "\<exists>s'. run_task (wake_liquid wasm_env wasm_wake) wasm_slept = (Inr (), s')"
  by (simp add: wake_liquid_def wasm_slept_def wasm_wake_def provision_liquid_def sunny_node_def wasm_event_def
      sunny_event_def wasm_spec_def node_run_defs shim_defs service_status_check_def)

lemma wasm_parameters:
  "codec_ok wasm_env" "object_ok wasm_env (ls_artifact_key wasm_spec) (wasm_path wasm_env ''7'') (n_files sunny_node)"
  "d_parse_json wasm_env (d_show_json wasm_env (liquid_metadata wasm_env wasm_event)) =
     Some (liquid_metadata wasm_env wasm_event)"
  "map_of (d_entries wasm_env (pe_env_vars wasm_event)) = pe_env_vars wasm_event"
  by (simp_all add: codec_ok_def object_ok_def faithful_def sunny_node_def cache_path_def wasm_metadata_def
      liquid_metadata_def wasm_event_def sunny_event_def)

lemma wake_restores_provisioned_witness:
  "\<exists>s'. run_task (wake_liquid wasm_env wasm_wake) wasm_slept = (Inr (), s') \<and>
     (\<exists>port. n_shims s' = [(port, \<lparr>wv_module = ''wasm'', wv_app_name = ''app'',
        wv_env_vars = [''K'' \<mapsto> ''v'']\<rparr>)])"
proof -
  obtain svc where p: "run_task (provision_liquid wasm_env wasm_event wasm_spec) sunny_node =
     (Inr svc, snd (run_task (provision_liquid wasm_env wasm_event wasm_spec) sunny_node))"
    using wasm_provision by blast
  obtain s' where w: "run_task (wake_liquid wasm_env wasm_wake) wasm_slept = (Inr (), s')"
    using wasm_woken by blast
  have slept: "n_files wasm_slept = n_files (snd (run_task (provision_liquid wasm_env wasm_event wasm_spec) sunny_node))"
    "n_liquid wasm_slept = []" "n_shims wasm_slept = []"
    by (simp_all add: wasm_slept_def)
  have event: "wk_service_id wasm_wake = pe_service_id wasm_event" "pe_service_id wasm_event = ''7''"
    "pe_app_name wasm_event = ''app''" "pe_env_vars wasm_event = [''K'' \<mapsto> ''v'']"
    by (simp_all add: wasm_wake_def wasm_event_def sunny_event_def)
  show ?thesis
    using wake_restores_provisioned [OF p w slept(1) event(1) _ wasm_parameters(1) _ wasm_parameters(3,4)]
      wasm_parameters(2) slept event w by auto
qed

section \<open>A tick of the usage report\<close>


end
