(* ===== verification/Isolation.thy ===== *)
theory Isolation
  imports Pricing "HOL-Library.Word"
begin

unbundle bit_operations_syntax

text \<open>
  The egress classifier of the VMs (\<open>crates/ebpf-programs\<close>): a packet is its bytes, a load
  out of its bounds is an error, multi-byte fields are read in network order. What it drops
  is characterised by the octets of the destination address, and related to the addresses
  that the daemon gives its guests (\<open>networking.rs\<close>).
\<close>

section \<open>The classifier\<close>

definition TC_ACT_OK :: "32 word" where
  "TC_ACT_OK = 0"

definition TC_ACT_SHOT :: "32 word" where
  "TC_ACT_SHOT = 2"

definition ETH_HDR_LEN :: nat where
  "ETH_HDR_LEN = 14"

definition ETH_OFFSET_TYPE :: nat where
  "ETH_OFFSET_TYPE = 12"

definition ETH_P_IP :: "16 word" where
  "ETH_P_IP = 0x0800"

definition IP_OFFSET_DST :: nat where
  "IP_OFFSET_DST = 16"

definition VM_SUBNET :: "32 word" where
  "VM_SUBNET = 0xAC100000"

definition VM_MASK :: "32 word" where
  "VM_MASK = 0xFFF00000"

text \<open>\<open>from_be\<close> of a load of \<open>n\<close> bytes, checked against the end of the packet.\<close>

definition load_be :: "nat \<Rightarrow> 8 word list \<Rightarrow> nat \<Rightarrow> 'w::len word option" where
  "load_be n packet offset =
     (if offset + n \<le> length packet then Some (word_rcat (take n (drop offset packet))) else None)"

definition classify :: "8 word list \<Rightarrow> 32 word option" where
  "classify packet =
     (case load_be 2 packet ETH_OFFSET_TYPE of
        None \<Rightarrow> None
      | Some ethertype \<Rightarrow>
          if ethertype \<noteq> ETH_P_IP then Some TC_ACT_OK
          else
            (case load_be 4 packet (ETH_HDR_LEN + IP_OFFSET_DST) of
               None \<Rightarrow> None
             | Some dst_ip \<Rightarrow>
                 if dst_ip AND VM_MASK = VM_SUBNET then Some TC_ACT_SHOT else Some TC_ACT_OK))"

definition tc_egress :: "8 word list \<Rightarrow> 32 word" where
  "tc_egress packet = (case classify packet of Some action \<Rightarrow> action | None \<Rightarrow> TC_ACT_OK)"

section \<open>What it drops\<close>

text \<open>An untagged Ethernet frame with an IPv4 packet up to its destination, and its octets.\<close>

definition ipv4_destination :: "8 word list \<Rightarrow> 8 word list option" where
  "ipv4_destination packet =
     (if 34 \<le> length packet \<and> take 2 (drop 12 packet) = [0x08, 0x00]
      then Some (take 4 (drop 30 packet)) else None)"

fun in_guest_range :: "8 word list \<Rightarrow> bool" where
  "in_guest_range [a, b, c, d] = (a = 172 \<and> 16 \<le> b \<and> b < 32)"
| "in_guest_range _ = False"

lemma byte_bounds: "0 \<le> uint (x :: 8 word)" "uint x < 256"
  using uint_bounded [of x] by simp_all

lemma uint_rcat4:
  fixes a b c d :: "8 word"
  shows "uint (word_rcat [a, b, c, d] :: 32 word) =
    uint a * 2 ^ 24 + uint b * 2 ^ 16 + uint c * 2 ^ 8 + uint d"
proof -
  have eq: "horner_sum uint (2 ^ LENGTH(8)) (rev [a, b, c, d]) =
      uint a * 2 ^ 24 + uint b * 2 ^ 16 + uint c * 2 ^ 8 + uint d" by simp
  show ?thesis
    unfolding word_rcat_def comp_apply eq uint_word_of_int
    using byte_bounds [of a] byte_bounds [of b] byte_bounds [of c] byte_bounds [of d] by simp
qed

lemma uint_rcat2:
  fixes a b :: "8 word"
  shows "uint (word_rcat [a, b] :: 16 word) = uint a * 2 ^ 8 + uint b"
proof -
  have eq: "horner_sum uint (2 ^ LENGTH(8)) (rev [a, b]) = uint a * 2 ^ 8 + uint b" by simp
  show ?thesis
    unfolding word_rcat_def comp_apply eq uint_word_of_int
    using byte_bounds [of a] byte_bounds [of b] by simp
qed

text \<open>The mask keeps the upper twelve bits.\<close>

lemma VM_MASK_eq: "VM_MASK = NOT (mask 20)"
  by (simp add: VM_MASK_def mask_eq_exp_minus_1)

lemma masked_subnet: "(x AND VM_MASK = VM_SUBNET) = (uint x div 2 ^ 20 = 0xAC1)"
proof -
  have m: "x AND VM_MASK = push_bit 20 (drop_bit 20 x)"
    unfolding VM_MASK_eq by (rule bit_word_eqI) (auto simp: bit_simps)
  have d: "drop_bit 20 (x AND VM_MASK) = drop_bit 20 x"
    unfolding VM_MASK_eq by (rule bit_word_eqI) (auto simp: bit_simps dest: bit_imp_le_length)
  have u: "(drop_bit 20 x = drop_bit 20 VM_SUBNET) = (uint (drop_bit 20 x) = 0xAC1)"
    by (simp add: word_uint_eq_iff VM_SUBNET_def)
  have s: "VM_SUBNET = push_bit 20 (drop_bit 20 VM_SUBNET)"
    by (simp add: VM_SUBNET_def)
  have "(x AND VM_MASK = VM_SUBNET) = (drop_bit 20 x = drop_bit 20 VM_SUBNET)"
    using m d s by metis
  also have "\<dots> = (uint x div 2 ^ 20 = 0xAC1)"
    unfolding u by (simp add: drop_bit_eq_div uint_div_distrib)
  finally show ?thesis .
qed

lemma top_bits:
  fixes a b r :: int
  assumes "0 \<le> r" "r < 2 ^ 16"
  shows "(a * 2 ^ 24 + b * 2 ^ 16 + r) div 2 ^ 20 = a * 16 + b div 16"
proof -
  have "x div 2 ^ 20 = x div 2 ^ 16 div 16" for x :: int
    using zdiv_zmult2_eq [of 16 x "2 ^ 16"] by simp
  moreover have "(a * 2 ^ 24 + b * 2 ^ 16 + r) div 2 ^ 16 = a * 256 + b"
  proof -
    have "(a * 256 + b) * 2 ^ 16 + r = a * 2 ^ 24 + b * 2 ^ 16 + r" by simp
    moreover have "((a * 256 + b) * 2 ^ 16 + r) div 2 ^ 16 = a * 256 + b"
      using assms by (simp only: div_mult_self3 div_pos_pos_trivial)
    ultimately show ?thesis by (simp only:)
  qed
  moreover have "(a * 256 + b) div 16 = a * 16 + b div 16"
    using div_mult_self3 [of 16 "a * 16" b] by (simp add: mult.assoc)
  ultimately show ?thesis by (simp only:)
qed

lemma two_digits:
  fixes a b :: int
  assumes "0 \<le> a" "0 \<le> b" "b < 256"
  shows "(a * 256 + b = 2048) = (a = 8 \<and> b = 0)"
  using assms by presburger

lemma range_digits:
  fixes a b :: int
  assumes "0 \<le> b" "b < 256"
  shows "(a * 16 + b div 16 = 0xAC1) = (a = 172 \<and> 16 \<le> b \<and> b < 32)"
proof -
  have q: "0 \<le> b div 16" "b div 16 < 16" using assms by simp_all
  then have m: "(a * 16 + b div 16) mod 16 = b div 16" by simp
  have "b div 16 = 1" if "a * 16 + b div 16 = 0xAC1" using m unfolding that by simp
  then have "(a * 16 + b div 16 = 0xAC1) = (a = 172 \<and> b div 16 = 1)" by auto
  also have "(b div 16 = 1) = (16 \<le> b \<and> b < 32)" by presburger
  finally show ?thesis .
qed

lemma guest_octets:
  fixes a b c d :: "8 word"
  shows "((word_rcat [a, b, c, d] :: 32 word) AND VM_MASK = VM_SUBNET) = in_guest_range [a, b, c, d]"
proof -
  have "(uint a * 2 ^ 24 + uint b * 2 ^ 16 + (uint c * 2 ^ 8 + uint d)) div 2 ^ 20 =
      uint a * 16 + uint b div 16"
    using byte_bounds [of c] byte_bounds [of d] by (intro top_bits) simp_all
  then have "((word_rcat [a, b, c, d] :: 32 word) AND VM_MASK = VM_SUBNET) =
      (uint a * 16 + uint b div 16 = 0xAC1)"
    unfolding masked_subnet uint_rcat4 by (simp only: add.assoc)
  also have "\<dots> = (uint a = 172 \<and> 16 \<le> uint b \<and> uint b < 32)"
    using byte_bounds [of b] by (rule range_digits)
  also have "\<dots> = in_guest_range [a, b, c, d]"
    by (simp add: word_uint_eq_iff word_le_def word_less_def)
  finally show ?thesis .
qed

lemma take2_drop:
  assumes "Suc n < length xs"
  shows "take 2 (drop n xs) = [xs ! n, xs ! Suc n]"
  using assms by (simp add: numeral_2_eq_2 Cons_nth_drop_Suc [symmetric] Suc_lessD)

lemma take4_drop:
  assumes "n + 3 < length xs"
  shows "take 4 (drop n xs) = [xs ! n, xs ! (n + 1), xs ! (n + 2), xs ! (n + 3)]"
  using assms by (simp add: eval_nat_numeral Cons_nth_drop_Suc [symmetric] Suc_lessD)

text \<open>
  C39: the classifier drops exactly the untagged IPv4 frames whose destination is in
  172.16.0.0/12, and passes everything else, frames it cannot read included.
\<close>

theorem classifier_exact:
  "tc_egress packet =
     (case ipv4_destination packet of
        Some dst \<Rightarrow> if in_guest_range dst then TC_ACT_SHOT else TC_ACT_OK
      | None \<Rightarrow> TC_ACT_OK)"
proof (cases "14 \<le> length packet")
  case False
  then show ?thesis
    by (simp add: tc_egress_def classify_def load_be_def ETH_OFFSET_TYPE_def ipv4_destination_def)
next
  case True
  let ?t = "take 2 (drop 12 packet)"
  have t: "?t = [packet ! 12, packet ! 13]" using True take2_drop [of 12 packet] by simp
  have ip: "(word_rcat ?t = ETH_P_IP) = (?t = [0x08, 0x00])"
    using two_digits [of "uint (packet ! 12)" "uint (packet ! 13)"] byte_bounds [of "packet ! 13"]
    unfolding t word_uint_eq_iff uint_rcat2 ETH_P_IP_def list.inject by simp
  show ?thesis
  proof (cases "?t = [0x08, 0x00] \<and> 34 \<le> length packet")
    case True
    then have "take 4 (drop 30 packet) = [packet ! 30, packet ! 31, packet ! 32, packet ! 33]"
      using take4_drop [of 30 packet] by simp
    then show ?thesis
      using True ip guest_octets [of "packet ! 30" "packet ! 31" "packet ! 32" "packet ! 33"]
      by (simp add: tc_egress_def classify_def load_be_def ETH_OFFSET_TYPE_def ETH_HDR_LEN_def
          IP_OFFSET_DST_def ipv4_destination_def)
  next
    case False
    then show ?thesis
      using ip \<open>14 \<le> length packet\<close>
      by (auto simp: tc_egress_def classify_def load_be_def ETH_OFFSET_TYPE_def ETH_HDR_LEN_def
          IP_OFFSET_DST_def ipv4_destination_def)
  qed
qed

text \<open>The octets of an address in dotted decimal, and the untagged IPv4 frames sent to it.\<close>

definition octets :: "string \<Rightarrow> 8 word list option" where
  "octets ip =
     (let ps = map (parse_unsigned 256) (split_on (CHR ''.'') ip)
      in if None \<in> set ps then None else Some (map (\<lambda>p. word_of_nat (the p)) ps))"

definition sent_to :: "string \<Rightarrow> 8 word list \<Rightarrow> bool" where
  "sent_to ip packet = (octets ip \<noteq> None \<and> ipv4_destination packet = octets ip)"

lemma octets_dotted:
  assumes "i < 256" "j < 256"
  shows "octets (''172.16.'' @ show_nat i @ ''.'' @ show_nat j) = Some [172, 16, word_of_nat i, word_of_nat j]"
proof -
  have d: "CHR ''.'' \<notin> set (show_nat n)" for n
    by (rule show_nat_not_mem) (simp add: is_ascii_digit_def code_of_def)
  have "split_on (CHR ''.'') (''172'' @ CHR ''.'' # ''16'' @ CHR ''.'' # show_nat i @ CHR ''.'' # show_nat j)
      = [''172'', ''16'', show_nat i, show_nat j]"
    by (simp add: split_on_append [OF d] split_on_no_sep [OF d])
  moreover have "parse_unsigned 256 ''172'' = Some 172" "parse_unsigned 256 ''16'' = Some 16"
    by code_simp+
  ultimately show ?thesis
    using assms by (simp add: octets_def parse_unsigned_show)
qed

text \<open>
  C40: whatever index a guest has, a frame to its address is dropped at the hook; so is a
  frame to the gateway.
\<close>

theorem guests_and_gateway_dropped:
  assumes "guest_ip i = Inr ip \<or> ip = GATEWAY" "sent_to ip packet"
  shows "tc_egress packet = TC_ACT_SHOT"
proof -
  have "octets GATEWAY = Some [172, 16, word_of_nat 0, word_of_nat 1]"
    by (simp add: GATEWAY_def) code_simp
  moreover have "\<exists>a b. octets ip = Some [172, 16, a, b]" if "guest_ip i = Inr ip"
    using that octets_dotted [of "i div 63" "i mod 63 * 4 + 2"]
    by (auto simp: guest_ip_def MAX_TAP_INDEX_def less_mult_imp_div_less split: if_splits)
  ultimately obtain a b where "ipv4_destination packet = Some [172, 16, a, b]"
    using assms unfolding sent_to_def by metis
  then show ?thesis by (simp add: classifier_exact)
qed

definition frame_to :: "8 word list \<Rightarrow> 8 word list \<Rightarrow> 8 word list" where
  "frame_to ethertype dst = replicate 12 0 @ ethertype @ replicate 16 0 @ dst"

lemma guests_and_gateway_dropped_witness:
  "sent_to ''172.16.0.6'' (frame_to [0x08, 0x00] [172, 16, 0, 6]) \<and>
   tc_egress (frame_to [0x08, 0x00] [172, 16, 0, 6]) = TC_ACT_SHOT"
proof -
  have *: "sent_to ''172.16.0.6'' (frame_to [0x08, 0x00] [172, 16, 0, 6])" "guest_ip 1 = Inr ''172.16.0.6''"
    by code_simp+
  show ?thesis using guests_and_gateway_dropped [of 1 "''172.16.0.6''"] * by blast
qed

text \<open>A frame with a VLAN tag is not looked into, wherever its packet goes.\<close>

lemma tagged_passes:
  "tc_egress (replicate 12 0 @ [0x81, 0x00, 0x00, 0x00, 0x08, 0x00] @ replicate 16 0 @ [172, 16, 0, 6]) = TC_ACT_OK"
  by code_simp

end
