(* ===== verification/Flux.thy ===== *)
theory Flux
  imports EnvVars Deployments Async
begin

text \<open>
  The command-line client (\<open>crates/cli\<close>): its configuration (\<open>config.rs\<close>), its HTTP client
  with retries (\<open>client.rs\<close>), the build of an artifact (\<open>toml_config.rs\<close>, \<open>docker.rs\<close>), and
  \<open>flux deploy\<close> (\<open>commands/service/deploy.rs\<close>) with the event stream it follows. The desk it
  runs on is its files, the number of calls made, and the log of what it ran and sent; what
  a call answers, and what a command does to the files, is up to the environment.
\<close>

section \<open>The desk\<close>

datatype api_body =
    NoBody
  | UploadUrlBody string string string
  | DeployBody deploy_request

datatype desk_effect =
    Executed "string list"
  | Sent string string "string option" api_body
  | Uploaded string nat string
  | Slept nat

record desk =
  dk_files :: "string \<rightharpoonup> string"
  dk_calls :: nat
  dk_log :: "desk_effect list"

record flux_config =
  fx_token :: "string option"
  fx_api_url :: "string option"
  fx_workspace_id :: "string option"
  fx_access_token :: "string option"

text \<open>The \<open>dockerfile\<close> key may be a boolean, a string, or (ignored) anything else.\<close>

datatype toml_value = TomlBool bool | TomlStr string | TomlOther

record build_section =
  bs_command :: "string option"
  bs_output :: "string option"
  bs_dockerfile :: "toml_value option"

record project_config =
  pj_name :: string
  pj_engine :: string
  pj_project_id :: "string option"
  pj_port :: "nat option"
  pj_tier :: "string option"
  pj_build :: "build_section option"

text \<open>
  \<open>c_fault\<close> says which calls fail, \<open>c_reply\<close> what an HTTP exchange answers (its status, and
  its body if it can be read), \<open>c_exit\<close> whether a command succeeds and \<open>c_changes\<close> what it
  does to the files, \<open>c_chunks\<close> what a stream yields; \<open>c_status_line\<close> is a status with its
  reason phrase, \<open>c_lossy\<close> bytes as text, \<open>c_debug\<close> a string as \<open>{:?}\<close> prints it.
\<close>

record cli_env =
  c_fault :: "nat \<Rightarrow> string option"
  c_reply :: "nat \<Rightarrow> nat \<times> string option"
  c_status_line :: "nat \<Rightarrow> string"
  c_exit :: "nat \<Rightarrow> bool"
  c_stderr :: "nat \<Rightarrow> string"
  c_changes :: "nat \<Rightarrow> (string \<rightharpoonup> string) \<Rightarrow> (string \<rightharpoonup> string)"
  c_chunks :: "nat \<Rightarrow> (string + string) list"
  c_lossy :: "string \<Rightarrow> string"
  c_uuid :: string
  c_rand :: "nat \<Rightarrow> nat"
  c_temp_dir :: string
  c_own_pid :: nat
  c_parse_toml :: "string \<Rightarrow> string + project_config"
  c_parse_json :: "string \<Rightarrow> json option"
  c_digest :: "string \<Rightarrow> string"
  c_lower :: "string \<Rightarrow> string"
  c_debug :: "string \<Rightarrow> string"
  c_uni_lower :: "string \<Rightarrow> string"
  c_uni_alnum :: "string \<Rightarrow> bool"

type_synonym 'a desk_task = "(desk, 'a) task"

definition counted_call :: "desk \<Rightarrow> desk" where
  "counted_call s = s\<lparr>dk_calls := Suc (dk_calls s)\<rparr>"

text \<open>A call that leaves the process; what it does, it may have done even if it fails.\<close>

definition desk_call :: "cli_env \<Rightarrow> (desk \<Rightarrow> (task_error + 'a) \<times> desk) \<Rightarrow> 'a desk_task" where
  "desk_call env f =
     atomically (\<lambda>s. case c_fault env (dk_calls s) of
         Some m \<Rightarrow> (Inl (Err m), snd (f (counted_call s)))
       | None \<Rightarrow> f (counted_call s))"

definition noted :: "desk_effect \<Rightarrow> desk \<Rightarrow> desk" where
  "noted x s = s\<lparr>dk_log := dk_log s @ [x]\<rparr>"

definition read_desk :: "cli_env \<Rightarrow> string \<Rightarrow> string desk_task" where
  "read_desk env path =
     desk_call env (\<lambda>s. case dk_files s path of
         None \<Rightarrow> (Inl (Err ''No such file or directory (os error 2)''), s)
       | Some b \<Rightarrow> (Inr b, s))"

definition execute :: "cli_env \<Rightarrow> string list \<Rightarrow> bool desk_task" where
  "execute env argv =
     desk_call env (\<lambda>s. (Inr (c_exit env (dk_calls s)),
       noted (Executed argv) (s\<lparr>dk_files := c_changes env (dk_calls s) (dk_files s)\<rparr>)))"

definition dash :: string where
  "dash = [CHR 0xE2, CHR 0x80, CHR 0x94]"

definition quoted :: "string \<Rightarrow> string" where
  "quoted x = [CHR 0x22] @ x @ [CHR 0x22]"

section \<open>Configuration\<close>

definition override :: "string option \<Rightarrow> string option \<Rightarrow> string option" where
  "override var v = (case var of None \<Rightarrow> v | Some x \<Rightarrow> Some x)"

definition load_flux_config :: "(string \<rightharpoonup> string) \<Rightarrow> flux_config \<Rightarrow> flux_config" where
  "load_flux_config vars cfg =
     cfg\<lparr>fx_token := override (vars ''FLUX_TOKEN'') (fx_token cfg),
         fx_access_token := override (vars ''FLUX_ACCESS_TOKEN'') (fx_access_token cfg),
         fx_api_url := override (vars ''API_URL'') (fx_api_url cfg),
         fx_workspace_id := override (vars ''FLUX_WORKSPACE_ID'') (fx_workspace_id cfg)\<rparr>"

definition api_url :: "flux_config \<Rightarrow> string" where
  "api_url cfg = or_default ''https://api.liquidmetal.dev'' (fx_api_url cfg)"

definition require_token :: "flux_config \<Rightarrow> string desk_task" where
  "require_token cfg =
     (case fx_token cfg of Some t \<Rightarrow> finish t
      | None \<Rightarrow> bail (''not logged in '' @ dash @ '' run: flux login''))"

definition flux_config_path :: "(string \<rightharpoonup> string) \<Rightarrow> string option \<Rightarrow> string option" where
  "flux_config_path vars home =
     (case vars ''FLUX_CONFIG_FILE'' of
        Some custom \<Rightarrow> Some custom
      | None \<Rightarrow>
          map_option (\<lambda>dir. dir @ ''/flux/config.yaml'')
            (case vars ''XDG_CONFIG_HOME'' of Some d \<Rightarrow> Some d
             | None \<Rightarrow> map_option (\<lambda>h. h @ ''/.config'') home))"

section \<open>The HTTP client\<close>

definition MAX_RETRIES :: nat where
  "MAX_RETRIES = 3"

definition RETRY_BASE_MS :: nat where
  "RETRY_BASE_MS = 500"

definition is_retryable_status :: "nat \<Rightarrow> bool" where
  "is_retryable_status status = (500 \<le> status \<and> status \<le> 599 \<or> status = 408)"

text \<open>The subtraction saturates at 0; nothing here reaches \<open>2 ^ 64\<close>.\<close>

definition retry_delay :: "nat \<Rightarrow> nat \<Rightarrow> nat" where
  "retry_delay n rand_val =
     (let base = RETRY_BASE_MS * 2 ^ n; jitter_range = base div 4;
          jitter = (if 0 < jitter_range then rand_val mod (jitter_range * 2) - jitter_range else 0)
      in base + jitter)"

definition api_error_message :: "cli_env \<Rightarrow> nat \<times> string option \<Rightarrow> string" where
  "api_error_message env resp =
     (case Option.bind (snd resp) (c_parse_json env) of
        None \<Rightarrow> show_nat (fst resp)
      | Some j \<Rightarrow>
          let msg = or_default [] (get_str j ''message''); code = or_default [] (get_str j ''error'') in
          if msg \<noteq> [] then show_nat (fst resp) @ '': '' @ msg @ '' ('' @ code @ '')''
          else show_nat (fst resp))"

definition exchange :: "cli_env \<Rightarrow> desk_effect \<Rightarrow> (nat \<times> string option) desk_task" where
  "exchange env request = desk_call env (\<lambda>s. (Inr (c_reply env (dk_calls s)), noted request s))"

definition sleep :: "cli_env \<Rightarrow> nat \<Rightarrow> unit desk_task" where
  "sleep env n =
     atomically (\<lambda>s. (Inr (), noted (Slept (retry_delay n (c_rand env (dk_calls s)))) s))"

text \<open>The attempts that are left, the number of this one, and the last error.\<close>

fun send_attempts ::
    "cli_env \<Rightarrow> desk_effect \<Rightarrow> nat \<Rightarrow> nat \<Rightarrow> string \<Rightarrow> (nat \<times> string option) desk_task" where
  "send_attempts env request 0 n last_err = bail last_err"
| "send_attempts env request (Suc left) n last_err =
     and_then (attempt (exchange env request)) (\<lambda>r.
     let again = (\<lambda>m. and_then (if n + 1 < MAX_RETRIES then sleep env n else finish ()) (\<lambda>_.
                     send_attempts env request left (n + 1) m)) in
     case r of
       Inr resp \<Rightarrow>
         if is_success (fst resp) then finish resp
         else if \<not> is_retryable_status (fst resp) then bail (api_error_message env resp)
         else again (api_error_message env resp)
     | Inl e \<Rightarrow> again (''request failed: '' @ e))"

definition send_with_retry :: "cli_env \<Rightarrow> desk_effect \<Rightarrow> (nat \<times> string option) desk_task" where
  "send_with_retry env request = send_attempts env request MAX_RETRIES 0 []"

definition decoded :: "(json \<Rightarrow> 'a option) \<Rightarrow> cli_env \<Rightarrow> nat \<times> string option \<Rightarrow> 'a desk_task" where
  "decoded conv env resp =
     (case Option.bind (Option.bind (snd resp) (c_parse_json env)) conv of
        None \<Rightarrow> bail ''error decoding response body'' | Some x \<Rightarrow> finish x)"

definition post :: "(json \<Rightarrow> 'a option) \<Rightarrow> cli_env \<Rightarrow> flux_config \<Rightarrow> string \<Rightarrow> api_body \<Rightarrow> 'a desk_task" where
  "post conv env cfg path body =
     and_then (send_with_retry env (Sent ''POST'' (api_url cfg @ path) (fx_token cfg) body)) (decoded conv env)"

definition get_stream :: "cli_env \<Rightarrow> flux_config \<Rightarrow> string \<Rightarrow> (string + string) list desk_task" where
  "get_stream env cfg path =
     and_then (exchange env (Sent ''GET'' (api_url cfg @ path) (fx_token cfg) NoBody)) (\<lambda>resp.
     if is_success (fst resp) then atomically (\<lambda>s. (Inr (c_chunks env (dk_calls s)), s))
     else bail (api_error_message env resp))"

section \<open>Building\<close>

definition load_project :: "cli_env \<Rightarrow> project_config desk_task" where
  "load_project env =
     and_then (attempt (read_desk env ''liquid-metal.toml'')) (\<lambda>raw.
     case raw of
       Inl _ \<Rightarrow> bail (''no liquid-metal.toml found'' @ [CHR 0x0A] @ [CHR 0x0A]
         @ ''Run `flux init` to set up this directory as a Liquid Metal service.'')
     | Inr text \<Rightarrow> (case c_parse_toml env text of Inl e \<Rightarrow> bail e | Inr cfg \<Rightarrow> finish cfg))"

definition dockerfile_path :: "build_section \<Rightarrow> string option" where
  "dockerfile_path b =
     (case bs_dockerfile b of
        Some (TomlBool True) \<Rightarrow> Some ''Dockerfile''
      | Some (TomlStr path) \<Rightarrow> Some path
      | _ \<Rightarrow> None)"

text \<open>Dropping a \<open>DockerCleanup\<close>: errors are ignored.\<close>

definition docker_cleanup :: "cli_env \<Rightarrow> string \<Rightarrow> string \<Rightarrow> string option \<Rightarrow> unit desk_task" where
  "docker_cleanup env container img temp =
     and_then (attempt (execute env [''docker'', ''rm'', ''-f'', container])) (\<lambda>_.
     and_then (attempt (execute env [''docker'', ''rmi'', img])) (\<lambda>_.
     case temp of None \<Rightarrow> finish ()
     | Some path \<Rightarrow>
         and_then (attempt (desk_call env (\<lambda>s. (Inr (), s\<lparr>dk_files := (dk_files s)(path := None)\<rparr>)))) (\<lambda>_.
         finish ())))"

definition extract_binary ::
    "cli_env \<Rightarrow> string \<Rightarrow> string \<Rightarrow> string \<Rightarrow> string \<Rightarrow> string \<Rightarrow> unit desk_task" where
  "extract_binary env dockerfile output img container temp =
     and_then (execute env [''docker'', ''build'', ''-t'', img, ''-f'', dockerfile, ''.'']) (\<lambda>built.
     if \<not> built then bail ''Dockerfile build failed'' else
     and_then (atomically (\<lambda>s. (Inr (c_stderr env (dk_calls s)), s))) (\<lambda>stderr.
     and_then (execute env [''docker'', ''create'', ''--name'', container, img]) (\<lambda>created.
     if \<not> created then bail (''failed to create container for extraction: '' @ stderr) else
     and_then (execute env [''docker'', ''cp'', container @ '':'' @ output, temp]) (\<lambda>copied.
     if \<not> copied then bail (''Binary not found at '' @ [CHR 0x27] @ output @ [CHR 0x27]
       @ '' inside the Docker image.'' @ [CHR 0x0A]
       @ ''Make sure your Dockerfile copies the compiled binary to this path.'') else
     and_then (read_desk env temp) (\<lambda>bytes.
     if bytes = [] then
       bail (''Extracted binary is empty (0 bytes) '' @ dash @ '' check your Dockerfile build'')
     else finish ())))))"

definition build_via_dockerfile :: "cli_env \<Rightarrow> string \<Rightarrow> string \<Rightarrow> string \<Rightarrow> string desk_task" where
  "build_via_dockerfile env slug dockerfile output =
     and_then (attempt (execute env [''docker'', ''version'', ''--format'', ''{{.Server.Version}}''])) (\<lambda>version.
     if version \<noteq> Inr True then
       bail (''Docker is not installed or not running.'' @ [CHR 0x0A] @ [CHR 0x0A]
         @ ''Dockerfile builds require Docker. Install it from:'' @ [CHR 0x0A]
         @ ''https://docs.docker.com/get-docker/'' @ [CHR 0x0A] @ [CHR 0x0A]
         @ ''Alternatively, replace [build].dockerfile with a [build].command'' @ [CHR 0x0A]
         @ ''that builds natively.'')
     else
       (let img = ''lm-build-'' @ slug; container = ''lm-extract-'' @ slug;
            temp = c_temp_dir env @ ''/lm-extract-'' @ slug @ ''-'' @ show_nat (c_own_pid env) in
        and_then (attempt (extract_binary env dockerfile output img container temp)) (\<lambda>r.
        case r of
          Inl m \<Rightarrow> and_then (docker_cleanup env container img (Some temp)) (\<lambda>_. bail m)
        | Inr _ \<Rightarrow> and_then (docker_cleanup env container img None) (\<lambda>_. finish temp))))"

record build_result =
  br_artifact_path :: string
  br_sha256_hex :: string

definition hash_artifact :: "cli_env \<Rightarrow> string \<Rightarrow> build_result desk_task" where
  "hash_artifact env path =
     and_then (read_desk env path) (\<lambda>bytes.
     finish \<lparr>br_artifact_path = path, br_sha256_hex = sha256_hex (c_digest env) bytes\<rparr>)"

definition no_command_text :: "string \<Rightarrow> string" where
  "no_command_text engine =
     (let (target, ext) = (if engine = ''liquid'' then (''wasm32-wasip1'', ''.wasm'')
                           else (''x86_64-unknown-linux-musl'', [])) in
      engine @ '' deploys require an explicit [build].command in liquid-metal.toml'' @ [CHR 0x0A] @ [CHR 0x0A]
      @ ''Run `flux init --engine '' @ engine @ ''` to generate one, or add it manually:'' @ [CHR 0x0A] @ [CHR 0x0A]
      @ ''[build]'' @ [CHR 0x0A]
      @ ''command = '' @ quoted (''cargo build --target '' @ target @ '' --release'') @ [CHR 0x0A]
      @ ''output  = '' @ quoted (''target/'' @ target @ ''/release/your-binary'' @ ext))"

definition native_build ::
    "cli_env \<Rightarrow> string \<Rightarrow> string option \<Rightarrow> string option \<Rightarrow> build_result desk_task" where
  "native_build env engine cmd output =
     (let path = or_default (if engine = ''metal'' then ''app'' else ''main.wasm'') output in
      case cmd of
        None \<Rightarrow> bail (no_command_text engine)
      | Some c \<Rightarrow>
          and_then (execute env [''sh'', ''-c'', c]) (\<lambda>ok.
          if \<not> ok then bail ''build failed'' else
          and_then (atomically (\<lambda>s. (Inr (dk_files s path \<noteq> None), s))) (\<lambda>there.
          if \<not> there then bail (''build succeeded but artifact not found at: '' @ path)
          else hash_artifact env path)))"

definition run_build :: "cli_env \<Rightarrow> project_config \<Rightarrow> build_result desk_task" where
  "run_build env cfg =
     (let engine = c_lower env (pj_engine cfg);
          cmd = Option.bind (pj_build cfg) bs_command; output = Option.bind (pj_build cfg) bs_output in
      if engine \<noteq> ''liquid'' \<and> engine \<noteq> ''metal'' then
        bail (''unknown engine '' @ c_debug env engine @ '' '' @ dash @ '' expected '' @ quoted ''liquid''
          @ '' or '' @ quoted ''metal'')
      else
        (case Option.bind (pj_build cfg) dockerfile_path of
           Some dockerfile \<Rightarrow>
             (case output of
                None \<Rightarrow> bail (''[build].output is required with dockerfile builds '' @ dash
                  @ '' it specifies the binary path inside the container (e.g. '' @ quoted ''/app/myapp'' @ '')'')
              | Some out \<Rightarrow>
                  if cmd \<noteq> None then bail ''[build].dockerfile and [build].command are mutually exclusive''
                  else
                    and_then (build_via_dockerfile env
                      (slugify (c_uni_lower env) (c_uni_alnum env) (pj_name cfg)) dockerfile out) (\<lambda>path.
                    hash_artifact env path))
         | None \<Rightarrow> native_build env engine cmd output))"

section \<open>Following a deployment\<close>

text \<open>The first event of the buffer and the rest, when a blank line ends one.\<close>

fun until_blank :: "string \<Rightarrow> (string \<times> string) option" where
  "until_blank (a # b # s) =
     (if a = CHR 0x0A \<and> b = CHR 0x0A then Some ([], s)
      else map_option (\<lambda>(x, y). (a # x, y)) (until_blank (b # s)))"
| "until_blank _ = None"

lemma until_blank_shorter: "until_blank s = Some (x, y) \<Longrightarrow> length y < length s"
  by (induction s arbitrary: x y rule: until_blank.induct) (auto split: if_splits)

datatype follow = WentLive string | DeployFailed string | StreamEnded

definition event_data :: "string \<Rightarrow> string option" where
  "event_data raw =
     (case List.map_filter (strip_prefix ''data: '') (str_lines raw) of [] \<Rightarrow> None | d # _ \<Rightarrow> Some d)"

definition event_outcome :: "cli_env \<Rightarrow> string \<Rightarrow> follow option" where
  "event_outcome env raw =
     (case Option.bind (event_data raw) (c_parse_json env) of
        None \<Rightarrow> None
      | Some j \<Rightarrow>
          let step = or_default ''...'' (get_str j ''step''); msg = or_default [] (get_str j ''message'') in
          if step = ''running'' \<or> step = ''ready'' then Some (WentLive msg)
          else if step = ''failed'' then Some (DeployFailed msg) else None)"

function take_events :: "cli_env \<Rightarrow> string \<Rightarrow> follow option \<times> string" where
  "take_events env buf =
     (case until_blank buf of
        None \<Rightarrow> (None, buf)
      | Some (raw, rest) \<Rightarrow>
          (case event_outcome env raw of Some f \<Rightarrow> (Some f, rest) | None \<Rightarrow> take_events env rest))"
  by pat_completeness auto

termination
  by (relation "measure (\<lambda>(env, buf). length buf)") (auto dest: until_blank_shorter)

declare take_events.simps [simp del]

definition SSE_BUF_LIMIT :: nat where
  "SSE_BUF_LIMIT = 10485760"

text \<open>A chunk is turned into text by itself.\<close>

fun follow_stream :: "cli_env \<Rightarrow> string \<Rightarrow> (string + string) list \<Rightarrow> follow desk_task" where
  "follow_stream env buf [] = finish StreamEnded"
| "follow_stream env buf (Inl e # chunks) = bail e"
| "follow_stream env buf (Inr bytes # chunks) =
     (let buf' = buf @ c_lossy env bytes in
      if SSE_BUF_LIMIT < length buf' then
        bail (''deploy event stream exceeded 10MB '' @ dash @ '' connection may be corrupt'')
      else (case take_events env buf' of
              (Some f, _) \<Rightarrow> finish f
            | (None, rest) \<Rightarrow> follow_stream env rest chunks))"

section \<open>Deploying\<close>

text \<open>
  The result of \<open>flux_deploy\<close> is what the stream told, \<open>None\<close> in JSON mode, where it is not
  opened; after \<open>DeployFailed\<close> the process exits with status 1.
\<close>

record upload_url =
  uu_upload_url :: string
  uu_artifact_key :: string

definition upload_url_of :: "json \<Rightarrow> upload_url option" where
  "upload_url_of j =
     Option.bind (req_field json_str j ''upload_url'') (\<lambda>u.
     map_option (\<lambda>k. \<lparr>uu_upload_url = u, uu_artifact_key = k\<rparr>) (req_field json_str j ''artifact_key''))"

text \<open>The inner object of the response: all four of its fields are required.\<close>

definition deployed_id :: "json \<Rightarrow> string option" where
  "deployed_id j =
     Option.bind (json_get j ''service'') (\<lambda>s.
     if list_all (\<lambda>k. req_field json_str s k \<noteq> None) [''id'', ''name'', ''slug'', ''status'']
     then req_field json_str s ''id'' else None)"

text \<open>The file is opened, then read once; a read that fails reads nothing.\<close>

definition elf_check_artifact :: "cli_env \<Rightarrow> string \<Rightarrow> unit desk_task" where
  "elf_check_artifact env path =
     and_then (with_context (''opening artifact for ELF check: '' @ path) (read_desk env path)) (\<lambda>bytes.
     and_then (attempt (read_desk env path)) (\<lambda>r.
     case check_elf_compat_file (Some bytes)
            (case r of Inl _ \<Rightarrow> None | Inr b \<Rightarrow> Some (min 65536 (length b))) of
       None \<Rightarrow> Done (Inl Panicked)
     | Some (Inl (GlibcBinary interp)) \<Rightarrow> bail (glibc_message interp)
     | Some _ \<Rightarrow> finish ()))"

definition upload :: "cli_env \<Rightarrow> string \<Rightarrow> string \<Rightarrow> unit desk_task" where
  "upload env url path =
     and_then (read_desk env path) (\<lambda>meta.
     and_then (read_desk env path) (\<lambda>bytes.
     and_then (exchange env (Uploaded url (length meta) bytes)) (\<lambda>resp.
     if is_success (fst resp) then finish ()
     else bail (''upload failed (HTTP '' @ c_status_line env (fst resp) @ '')''))))"

definition send_artifact ::
    "cli_env \<Rightarrow> flux_config \<Rightarrow> project_config \<Rightarrow> string \<Rightarrow> string \<Rightarrow> build_result \<Rightarrow> string desk_task" where
  "send_artifact env cfg pj engine project_id built =
     and_then (post upload_url_of env cfg ''/deployments/upload-url''
       (UploadUrlBody engine (c_uuid env) project_id)) (\<lambda>url.
     and_then (upload env (uu_upload_url url) (br_artifact_path built)) (\<lambda>_.
     post deployed_id env cfg ''/deployments''
       (DeployBody \<lparr>dr_name = pj_name pj, dr_slug = pj_name pj, dr_engine = engine,
          dr_project_id = project_id, dr_artifact_key = uu_artifact_key url,
          dr_sha256 = br_sha256_hex built, dr_port = pj_port pj, dr_tier = pj_tier pj\<rparr>)))"

definition flux_deploy :: "cli_env \<Rightarrow> flux_config \<Rightarrow> bool \<Rightarrow> bool \<Rightarrow> follow option desk_task" where
  "flux_deploy env cfg json_mode skip_elf_check =
     and_then (require_token cfg) (\<lambda>_.
     and_then (load_project env) (\<lambda>pj.
     if pj_name pj = [] then bail ''liquid-metal.toml: [service].name is required'' else
     let project_id = or_default [] (pj_project_id pj); engine = c_lower env (pj_engine pj) in
     if project_id = [] then bail ''liquid-metal.toml: [service].project_id is required''
     else if engine = ''metal'' \<and> pj_port pj = None then
       bail ''metal deploys require [service].port in liquid-metal.toml''
     else
       and_then (run_build env pj) (\<lambda>built.
       and_then (if engine = ''metal'' \<and> \<not> skip_elf_check then elf_check_artifact env (br_artifact_path built)
                 else finish ()) (\<lambda>_.
       and_then (send_artifact env cfg pj engine project_id built) (\<lambda>service_id.
       if json_mode then finish None
       else
         and_then (get_stream env cfg (''/deployments/'' @ service_id @ ''/stream'')) (\<lambda>chunks.
         and_then (follow_stream env [] chunks) (\<lambda>f. finish (Some f))))))))"

end
