(* ===== verification/Retries.thy ===== *)
theory Retries
  imports Flux
begin

text \<open>
  What a run of the client leaves in its log: how often a request is sent and how long the
  client waits in between, and what stands behind every deploy request it sends.
\<close>

section \<open>Retries\<close>

lemma run_desk_call [run_task_simps]:
  "run_task (desk_call env f) s =
     (case c_fault env (dk_calls s) of
        Some m \<Rightarrow> (Inl (Err m), snd (f (counted_call s)))
      | None \<Rightarrow> f (counted_call s))"
  by (simp add: desk_call_def)

lemma desk_views [simp]:
  "dk_log (counted_call s) = dk_log s" "dk_files (counted_call s) = dk_files s"
  "dk_log (noted x s) = dk_log s @ [x]" "dk_files (noted x s) = dk_files s"
  by (simp_all add: counted_call_def noted_def)

lemma retry_delay_bounds:
  "retry_delay 0 r \<in> {500..624}" "retry_delay 1 r \<in> {1000..1249}"
  "retry_delay (Suc 0) r \<in> {1000..1249}"
  using mod_less_divisor [of 250 r] mod_less_divisor [of 500 r]
  by (auto simp: retry_delay_def RETRY_BASE_MS_def Let_def)

text \<open>
  One attempt: the request is sent, and then either it is over or the next one follows.
\<close>

definition ended :: "task_error + (nat \<times> string option) \<Rightarrow> bool" where
  "ended r = (case r of Inl e \<Rightarrow> e \<noteq> Panicked | Inr resp \<Rightarrow> is_success (fst resp))"

lemma run_exchange:
  "\<exists>r s'. run_task (attempt (exchange env q)) s = (Inr r, s') \<and> dk_log s' = dk_log s @ [q]"
  by (auto simp: exchange_def run_task_simps split: option.splits)

lemma one_attempt:
  obtains r s' where "run_task (send_attempts env q (Suc left) n m) s = (r, s')"
      and "ended r" and "dk_log s' = dk_log s @ [q]"
  | m' s' where "run_task (send_attempts env q (Suc left) n m) s =
        run_task (and_then (if n + 1 < MAX_RETRIES then sleep env n else finish ())
          (\<lambda>_. send_attempts env q left (n + 1) m')) s'"
      and "dk_log s' = dk_log s @ [q]"
proof -
  obtain r s' where x: "run_task (attempt (exchange env q)) s = (Inr r, s')"
      and l: "dk_log s' = dk_log s @ [q]"
    using run_exchange by blast
  show thesis
  proof (cases r)
    case (Inl e)
    with x l show thesis by (auto simp: run_and_then Let_def intro: that)
  next
    case (Inr resp)
    show thesis
    proof (cases "is_success (fst resp)")
      case True
      with x l Inr show thesis by (auto simp: run_and_then Let_def ended_def intro: that(1))
    next
      case no: False
      show thesis
      proof (cases "is_retryable_status (fst resp)")
        case True
        with no x l Inr show thesis by (auto simp: run_and_then Let_def intro: that(2))
      next
        case False
        with no x l Inr show thesis by (auto simp: run_and_then Let_def ended_def intro: that(1))
      qed
    qed
  qed
qed

lemma run_sleep: "run_task (sleep env n) s = (Inr (), noted (Slept (retry_delay n (c_rand env (dk_calls s)))) s)"
  by (simp add: sleep_def)

text \<open>
  C37: one request of the client is sent at most three times, with waits of 500 to 624 ms and
  1000 to 1249 ms in between; what comes back is a success status or an error, never a panic.
\<close>

theorem retries_bounded:
  "\<exists>d\<^sub>0 d\<^sub>1. d\<^sub>0 \<in> {500..624} \<and> d\<^sub>1 \<in> {1000..1249}
     \<and> dk_log (snd (run_task (send_with_retry env q) s)) \<in>
         {dk_log s @ [q], dk_log s @ [q, Slept d\<^sub>0, q], dk_log s @ [q, Slept d\<^sub>0, q, Slept d\<^sub>1, q]}
     \<and> ended (fst (run_task (send_with_retry env q) s))"
proof -
  let ?run = "\<lambda>left n m s. run_task (send_attempts env q left n m) s"
  have last: "ended (fst (?run 1 2 m t)) \<and> dk_log (snd (?run 1 2 m t)) = dk_log t @ [q]" for m t
    by (cases rule: one_attempt [of env q 0 2 m t])
      (simp_all add: run_and_then MAX_RETRIES_def ended_def)
  have second: "ended (fst (?run 2 1 m t)) \<and> (\<exists>d \<in> {1000..1249}. dk_log (snd (?run 2 1 m t)) \<in>
      {dk_log t @ [q], dk_log t @ [q, Slept d, q]})" for m t
  proof (cases rule: one_attempt [of env q 1 1 m t])
    case (1 r s')
    then show ?thesis by (intro conjI bexI [of _ 1000]) (simp_all add: numeral_2_eq_2 del: send_attempts.simps)
  next
    case (2 m' s')
    let ?d = "retry_delay 1 (c_rand env (dk_calls s'))"
    have run: "?run 2 1 m t = ?run 1 2 m' (noted (Slept ?d) s')"
      using 2(1) by (simp add: MAX_RETRIES_def run_and_then run_sleep numeral_2_eq_2 del: send_attempts.simps)
    show ?thesis
      using last [of m' "noted (Slept ?d) s'"] 2(2)
        retry_delay_bounds(2) [of "c_rand env (dk_calls s')"]
      unfolding run by (intro conjI bexI [of _ ?d]) simp_all
  qed
  show ?thesis
  proof (cases rule: one_attempt [of env q 2 0 "[]" s])
    case (1 r s')
    then show ?thesis
      by (intro exI [of _ 500] exI [of _ 1000]) (simp add: send_with_retry_def MAX_RETRIES_def numeral_3_eq_3 numeral_2_eq_2 del: send_attempts.simps)
  next
    case (2 m' s')
    let ?d = "retry_delay 0 (c_rand env (dk_calls s'))"
    have run: "run_task (send_with_retry env q) s = ?run 2 1 m' (noted (Slept ?d) s')"
      using 2(1) by (simp add: send_with_retry_def MAX_RETRIES_def run_and_then run_sleep numeral_eq_Suc del: send_attempts.simps)
    obtain d where "d \<in> {1000..1249}" and "dk_log (snd (run_task (send_with_retry env q) s)) \<in>
        {dk_log s @ [q, Slept ?d, q], dk_log s @ [q, Slept ?d, q, Slept d, q]}"
      using second [of m' "noted (Slept ?d) s'"] 2(2) unfolding run by auto
    moreover have "ended (fst (run_task (send_with_retry env q) s))"
      using second [of m' "noted (Slept ?d) s'"] unfolding run by simp
    ultimately show ?thesis
      using retry_delay_bounds(1) [of "c_rand env (dk_calls s')"]
      by (intro exI [of _ ?d] exI [of _ d]) auto
  qed
qed

section \<open>What the log grows by\<close>

definition grown :: "(desk_effect \<Rightarrow> bool) \<Rightarrow> desk_effect list \<Rightarrow> desk \<Rightarrow> bool" where
  "grown P l s = (\<exists>xs. dk_log s = l @ xs \<and> list_all P xs)"

lemma grown_more [simp]:
  "grown P l s \<Longrightarrow> P x \<Longrightarrow> grown P l (noted x s)"
  "grown P l (counted_call s) = grown P l s"
  "grown P l (s\<lparr>dk_files := m\<rparr>) = grown P l s"
  by (auto simp: grown_def)

lemma grown_start: "grown P (dk_log s) s"
  by (simp add: grown_def)

named_theorems grows

lemmas [grows] = steady_finish steady_and_then steady_attempt steady_with_context

lemma steady_desk_call [grows]:
  "(\<And>s. I s \<Longrightarrow> I (counted_call s)) \<Longrightarrow> (\<And>s. I s \<Longrightarrow> I (snd (f s))) \<Longrightarrow> steady I (desk_call env f)"
  by (auto simp: desk_call_def intro!: steady_atomically split: option.split)

lemma steady_read_desk [grows]: "steady (grown P l) (read_desk env path)"
  by (auto simp: read_desk_def intro!: grows split: option.split)

lemma steady_execute [grows]: "P (Executed argv) \<Longrightarrow> steady (grown P l) (execute env argv)"
  by (auto simp: execute_def intro!: grows)

lemma steady_exchange [grows]: "P q \<Longrightarrow> steady (grown P l) (exchange env q)"
  by (auto simp: exchange_def intro!: grows)

lemma steady_sleep [grows]: "(\<And>d. P (Slept d)) \<Longrightarrow> steady (grown P l) (sleep env n)"
  by (auto simp: sleep_def intro!: steady_atomically)

lemma steady_looked [grows]: "steady I (atomically (\<lambda>s. (f s, s)))"
  by (auto intro: steady_atomically)

lemma steady_send_attempts [grows]:
  "P q \<Longrightarrow> (\<And>d. P (Slept d)) \<Longrightarrow> steady (grown P l) (send_attempts env q left n m)"
  by (induction env q left n m rule: send_attempts.induct)
    (auto simp: Let_def intro!: grows split: sum.split)

lemma steady_post [grows]:
  "P (Sent ''POST'' (api_url cfg @ path) (fx_token cfg) body) \<Longrightarrow> (\<And>d. P (Slept d))
   \<Longrightarrow> steady (grown P l) (post conv env cfg path body)"
  by (auto simp: post_def send_with_retry_def decoded_def intro!: grows split: option.split)

text \<open>Everything but a deploy request.\<close>

definition harmless :: "desk_effect \<Rightarrow> bool" where
  "harmless x = (case x of Sent _ _ _ (DeployBody _) \<Rightarrow> False | _ \<Rightarrow> True)"

lemma harmless_simps [simp]:
  "harmless (Executed argv)" "harmless (Slept d)" "harmless (Uploaded u n b)"
  "harmless (Sent m u t NoBody)" "harmless (Sent m u t (UploadUrlBody x y z))"
  "\<not> harmless (Sent m u t (DeployBody rq))"
  by (simp_all add: harmless_def)

lemma steady_docker_cleanup [grows]: "steady (grown harmless l) (docker_cleanup env c i t)"
  by (auto simp: docker_cleanup_def intro!: grows split: option.split)

lemma steady_build [grows]: "steady (grown harmless l) (run_build env cfg)"
  unfolding run_build_def Let_def native_build_def hash_artifact_def build_via_dockerfile_def
    extract_binary_def
  by (auto intro!: grows split: option.split sum.split)

lemma steady_load [grows]: "steady (grown P l) (load_project env)"
  by (auto simp: load_project_def intro!: grows split: sum.split)

lemma steady_elf [grows]: "steady (grown P l) (elf_check_artifact env path)"
  by (auto simp: elf_check_artifact_def intro!: grows split: option.split sum.split artifact_error.split)

lemma steady_upload [grows]: "steady (grown harmless l) (upload env url path)"
  by (auto simp: upload_def intro!: grows)

lemma steady_follow [grows]: "steady I (follow_stream env buf chunks)"
  by (induction env buf chunks rule: follow_stream.induct) (auto simp: Let_def split: prod.split option.split)

lemma steady_stream [grows]: "steady (grown harmless l) (get_stream env cfg path)"
  by (auto simp: get_stream_def intro!: grows)

section \<open>What is deployed is what was built\<close>

lemma untouched_desk_call [untouched_intros]:
  "(\<And>s. v (counted_call s) = v s) \<Longrightarrow> (\<And>s. v (snd (f s)) = v s) \<Longrightarrow> untouched v (desk_call env f)"
  by (simp add: desk_call_def atomically_def split: option.split)

lemma untouched_looked [untouched_intros]: "untouched v (atomically (\<lambda>s. (f s, s)))"
  by (simp add: atomically_def)

lemma untouched_desk [untouched_intros]:
  "untouched dk_files (read_desk env path)"
  "untouched dk_files (exchange env q)"
  "untouched dk_files (sleep env n)"
  by (auto simp: read_desk_def exchange_def sleep_def atomically_def intro!: untouched_intros split: option.split)

lemma untouched_send_attempts [untouched_intros]:
  "untouched dk_files (send_attempts env q left n m)"
  by (induction env q left n m rule: send_attempts.induct)
    (auto simp: Let_def intro!: untouched_intros split: sum.split)

lemma untouched_sending [untouched_intros]:
  "untouched dk_files (post conv env cfg path body)"
  "untouched dk_files (elf_check_artifact env path)"
  by (auto simp: post_def send_with_retry_def decoded_def elf_check_artifact_def
      intro!: untouched_intros split: option.split sum.split artifact_error.split)

lemma read_desk_gives:
  "run_task (read_desk env path) s = (Inr b, s') \<Longrightarrow> dk_files s path = Some b \<and> dk_files s' = dk_files s"
  by (auto simp: read_desk_def run_task_simps split: option.splits)

definition matches :: "cli_env \<Rightarrow> build_result \<Rightarrow> desk \<Rightarrow> bool" where
  "matches env b s = (\<exists>bytes. dk_files s (br_artifact_path b) = Some bytes
     \<and> br_sha256_hex b = sha256_hex (c_digest env) bytes)"

lemma hash_artifact_matches:
  "run_task (hash_artifact env path) s = (Inr b, s') \<Longrightarrow> matches env b s'"
  by (auto simp: hash_artifact_def matches_def run_and_then dest: read_desk_gives split: prod.splits sum.splits)

lemma run_build_matches:
  assumes "run_task (run_build env cfg) s = (Inr b, s')"
  shows "matches env b s'"
  using assms unfolding run_build_def native_build_def Let_def
  by (auto simp: run_and_then dest: hash_artifact_matches split: prod.splits sum.splits option.splits if_splits)

lemma elf_check_passed:
  assumes "run_task (elf_check_artifact env path) s = (Inr (), s')" and "\<And>k. c_fault env k = None"
    and "dk_files s path = Some bytes"
  shows "\<not> (\<exists>e. check_elf_compat_file (Some bytes) (Some (min 65536 (length bytes))) = Some (Inl e))"
  using assms
  by (auto simp: elf_check_artifact_def read_desk_def run_task_simps check_elf_compat_file_def
      check_elf_compat_for_metal_def
      split: option.splits sum.splits artifact_error.splits elf_compat.splits)

lemma upload_logs:
  assumes "run_task (upload env url path) s = (Inr (), s')" and "dk_files s path = Some bytes"
  shows "Uploaded url (length bytes) bytes \<in> set (dk_log s')"
  using assms
  by (auto simp: upload_def exchange_def run_task_simps dest!: read_desk_gives
      split: prod.splits sum.splits option.splits if_splits)

text \<open>
  Every deploy request of the log has an upload before it that is all right for it.
\<close>

definition careful :: "(string \<Rightarrow> deploy_request \<Rightarrow> bool) \<Rightarrow> desk \<Rightarrow> bool" where
  "careful ok s = (\<forall>pre m u t rq post. dk_log s = pre @ Sent m u t (DeployBody rq) # post \<longrightarrow>
     (\<exists>url bytes. Uploaded url (length bytes) bytes \<in> set pre \<and> ok bytes rq))"

lemma careful_grown:
  assumes "grown P (dk_log s) s'" and "careful ok s"
    and P: "\<And>m u t rq. P (Sent m u t (DeployBody rq)) \<Longrightarrow>
      \<exists>url bytes. Uploaded url (length bytes) bytes \<in> set (dk_log s) \<and> ok bytes rq"
  shows "careful ok s'"
  unfolding careful_def
proof (intro allI impI)
  fix pre m u t rq post
  assume l: "dk_log s' = pre @ Sent m u t (DeployBody rq) # post"
  from assms(1) obtain xs where xs: "dk_log s' = dk_log s @ xs" "list_all P xs"
    by (auto simp: grown_def)
  with l have "dk_log s @ xs = pre @ Sent m u t (DeployBody rq) # post" by simp
  then consider us where "dk_log s = pre @ us" "us @ xs = Sent m u t (DeployBody rq) # post"
    | us where "pre = dk_log s @ us" "xs = us @ Sent m u t (DeployBody rq) # post"
    by (metis append_eq_append_conv2)
  then show "\<exists>url bytes. Uploaded url (length bytes) bytes \<in> set pre \<and> ok bytes rq"
  proof cases
    case (1 us)
    show ?thesis
    proof (cases us)
      case Nil
      with 1 xs(2) have "P (Sent m u t (DeployBody rq))" by simp
      with P Nil 1(1) show ?thesis by simp
    next
      case (Cons a us')
      with 1 assms(2) show ?thesis by (auto simp: careful_def)
    qed
  next
    case (2 us)
    with xs(2) P [of m u t rq] show ?thesis by auto
  qed
qed

lemma run_grown: "steady (grown P (dk_log s)) t \<Longrightarrow> grown P (dk_log s) (snd (run_task t s))"
  by (rule steady_run) (simp_all add: grown_start)

lemma careful_harmless:
  "steady (grown harmless (dk_log s)) t \<Longrightarrow> careful ok s \<Longrightarrow> careful ok (snd (run_task t s))"
  by (rule careful_grown [OF run_grown [where P = harmless]]) simp_all

lemma run_then:
  assumes "Q (snd (run_task t s))" and "\<And>x s'. run_task t s = (Inr x, s') \<Longrightarrow> Q s' \<Longrightarrow> Q (snd (run_task (f x) s'))"
  shows "Q (snd (run_task (and_then t f) s))"
proof (cases "run_task t s")
  case (Pair r s')
  with assms show ?thesis by (cases r) (simp_all add: run_and_then)
qed

lemma careful_then:
  assumes "steady (grown harmless (dk_log s)) t" and "careful ok s"
    and "\<And>x s'. run_task t s = (Inr x, s') \<Longrightarrow> careful ok s' \<Longrightarrow> careful ok (snd (run_task (f x) s'))"
  shows "careful ok (snd (run_task (and_then t f) s))"
  by (rule run_then [where Q = "careful ok"], rule careful_harmless [OF assms(1,2)], rule assms(3))

lemma same_files: "untouched dk_files t \<Longrightarrow> run_task t s = (r, s') \<Longrightarrow> dk_files s' = dk_files s"
  using untouched_run [of dk_files t s] by simp

lemma send_artifact_careful:
  assumes "careful ok s" and held: "dk_files s (br_artifact_path b) = Some bytes"
    and ok: "\<And>key. ok bytes \<lparr>dr_name = pj_name pj, dr_slug = pj_name pj, dr_engine = engine,
          dr_project_id = project_id, dr_artifact_key = key,
          dr_sha256 = br_sha256_hex b, dr_port = pj_port pj, dr_tier = pj_tier pj\<rparr>"
  shows "careful ok (snd (run_task (send_artifact env cfg pj engine project_id b) s))"
  unfolding send_artifact_def
proof (rule careful_then [OF _ assms(1)])
  fix url s\<^sub>1
  assume r1: "run_task (post upload_url_of env cfg ''/deployments/upload-url''
      (UploadUrlBody engine (c_uuid env) project_id)) s = (Inr url, s\<^sub>1)" and c1: "careful ok s\<^sub>1"
  have f1: "dk_files s\<^sub>1 (br_artifact_path b) = Some bytes"
    using same_files [OF untouched_sending(1) r1] held by simp
  show "careful ok (snd (run_task (and_then (upload env (uu_upload_url url) (br_artifact_path b)) (\<lambda>_.
     post deployed_id env cfg ''/deployments''
       (DeployBody \<lparr>dr_name = pj_name pj, dr_slug = pj_name pj, dr_engine = engine,
          dr_project_id = project_id, dr_artifact_key = uu_artifact_key url,
          dr_sha256 = br_sha256_hex b, dr_port = pj_port pj, dr_tier = pj_tier pj\<rparr>))) s\<^sub>1))"
    (is "careful ok (snd (run_task (and_then _ (\<lambda>_. post _ _ _ _ (DeployBody ?rq))) _))")
  proof (rule careful_then [OF steady_upload c1])
    fix x s\<^sub>2
    assume r2: "run_task (upload env (uu_upload_url url) (br_artifact_path b)) s\<^sub>1 = (Inr x, s\<^sub>2)"
      and c2: "careful ok s\<^sub>2"
    have up: "Uploaded (uu_upload_url url) (length bytes) bytes \<in> set (dk_log s\<^sub>2)"
      using upload_logs [OF _ f1] r2 by simp
    let ?P = "\<lambda>y. harmless y \<or> y = Sent ''POST'' (api_url cfg @ ''/deployments'') (fx_token cfg) (DeployBody ?rq)"
    show "careful ok (snd (run_task (post deployed_id env cfg ''/deployments'' (DeployBody ?rq)) s\<^sub>2))"
    proof (rule careful_grown [OF run_grown c2, where P = ?P])
      show "steady (grown ?P (dk_log s\<^sub>2)) (post deployed_id env cfg ''/deployments'' (DeployBody ?rq))"
        by (rule steady_post) simp_all
    qed (use up ok in auto)
  qed
qed (auto intro!: grows)

text \<open>What a deploy request that \<open>flux deploy\<close> sends is all right for: the bytes uploaded.\<close>

definition deployable ::
    "cli_env \<Rightarrow> bool \<Rightarrow> string \<Rightarrow> deploy_request \<Rightarrow> bool" where
  "deployable env skip_elf_check bytes rq =
     (dr_sha256 rq = sha256_hex (c_digest env) bytes \<and> dr_name rq \<noteq> [] \<and> dr_project_id rq \<noteq> []
      \<and> (dr_engine rq = ''liquid'' \<or> dr_engine rq = ''metal'' \<and> dr_port rq \<noteq> None
          \<and> (skip_elf_check \<or> (\<exists>k. c_fault env k \<noteq> None)
              \<or> (\<forall>e. check_elf_compat_file (Some bytes) (Some (min 65536 (length bytes))) \<noteq> Some (Inl e)))))"

lemma run_build_engine:
  assumes "run_task (run_build env cfg) s = (Inr b, s')"
  shows "c_lower env (pj_engine cfg) = ''liquid'' \<or> c_lower env (pj_engine cfg) = ''metal''"
  using assms by (auto simp: run_build_def Let_def split: if_splits)

lemma careful_if:
  "(b \<Longrightarrow> careful ok (snd (run_task t s))) \<Longrightarrow> (\<not> b \<Longrightarrow> careful ok (snd (run_task u s)))
   \<Longrightarrow> careful ok (snd (run_task (if b then t else u) s))"
  by simp

lemma flux_deploy_careful:
  fixes env :: cli_env and skip :: bool
  defines "ok \<equiv> deployable env skip"
  assumes "careful ok s"
  shows "careful ok (snd (run_task (flux_deploy env cfg json_mode skip) s))"
  unfolding flux_deploy_def Let_def
proof (rule careful_then [OF _ assms(2)], goal_cases)
  case 1
  show ?case by (auto simp: require_token_def split: option.split)
next
  case (2 tok s\<^sub>1)
  show ?case
  proof (rule careful_then [OF steady_load 2(2)], intro careful_if, goal_cases)
    case (4 pj s\<^sub>2)
    show ?case
    proof (rule careful_then [OF steady_build 4(2)], rule careful_then, goal_cases)
      case (3 b s\<^sub>3 x s\<^sub>4)
      obtain bytes where held: "dk_files s\<^sub>3 (br_artifact_path b) = Some bytes"
        and sha: "br_sha256_hex b = sha256_hex (c_digest env) bytes"
        using run_build_matches [OF 3(1)] by (auto simp: matches_def)
      have ok: "ok bytes \<lparr>dr_name = pj_name pj, dr_slug = pj_name pj,
          dr_engine = c_lower env (pj_engine pj), dr_project_id = or_default [] (pj_project_id pj),
          dr_artifact_key = key, dr_sha256 = br_sha256_hex b, dr_port = pj_port pj,
          dr_tier = pj_tier pj\<rparr>" for key
        using 3(3) 4(3-5) run_build_engine [OF 3(1)] sha
        by (auto simp: ok_def deployable_def dest: elf_check_passed [OF _ _ held] split: if_splits)
      have "dk_files s\<^sub>4 = dk_files s\<^sub>3"
        using 3(3) by (auto dest: same_files [OF untouched_sending(2)] split: if_splits)
      with held have "dk_files s\<^sub>4 (br_artifact_path b) = Some bytes" by simp
      then have "careful ok (snd (run_task (send_artifact env cfg pj (c_lower env (pj_engine pj))
          (or_default [] (pj_project_id pj)) b) s\<^sub>4))"
        by (rule send_artifact_careful [OF 3(4)]) (rule ok)
      then show ?case
      proof (rule run_then [where Q = "careful ok"], goal_cases)
        case (1 sid s\<^sub>5)
        then show ?case by (intro careful_harmless) (auto intro!: grows)
      qed
    qed (auto intro!: grows)
  qed simp_all
qed

lemma hex_digit_lower: "n < 16 \<Longrightarrow> hex_digit n \<in> set ''0123456789abcdef''"
proof -
  have "list_all (\<lambda>n. hex_digit n \<in> set ''0123456789abcdef'') [0..<16]" by code_simp
  then show "n < 16 \<Longrightarrow> ?thesis" by (simp add: list_all_iff del: set_simps)
qed

lemma hex_encode_lower: "set (hex_encode bs) \<subseteq> set ''0123456789abcdef''"
proof
  fix c assume "c \<in> set (hex_encode bs)"
  then obtain b where "c = hex_digit (code_of b div 16) \<or> c = hex_digit (code_of b mod 16)"
    by (auto simp: hex_encode_def)
  moreover have "code_of b div 16 < 16" using code_of_lt [of b] by (simp add: div_less_iff_less_mult)
  moreover have "code_of b mod 16 < 16" by simp
  ultimately show "c \<in> set ''0123456789abcdef''" by (metis hex_digit_lower)
qed


section \<open>A run\<close>

definition tried_project :: project_config where
  "tried_project = \<lparr>pj_name = ''a'', pj_engine = ''liquid'', pj_project_id = Some ''p'',
     pj_port = None, pj_tier = None,
     pj_build = Some \<lparr>bs_command = Some ''make'', bs_output = None, bs_dockerfile = None\<rparr>\<rparr>"

text \<open>A build that writes \<open>main.wasm\<close>; the first answer is an error of the server.\<close>

definition tried_env :: cli_env where
  "tried_env = \<lparr>c_fault = (\<lambda>_. None), c_reply = (\<lambda>k. if k = 8 then (503, None) else (200, Some ''x'')),
     c_status_line = show_nat, c_exit = (\<lambda>_. True), c_stderr = (\<lambda>_. []),
     c_changes = (\<lambda>_ m. m(''main.wasm'' \<mapsto> ''wasm'')), c_chunks = (\<lambda>_. []), c_lossy = (\<lambda>b. b),
     c_uuid = ''d'', c_rand = (\<lambda>_. 200), c_temp_dir = ''/tmp'', c_own_pid = 1,
     c_parse_toml = (\<lambda>_. Inr tried_project),
     c_parse_json = (\<lambda>_. Some (JObj [(''upload_url'', JStr ''u''), (''artifact_key'', JStr ''k''),
       (''service'', JObj [(''id'', JStr ''s''), (''name'', JStr ''a''), (''slug'', JStr ''a''),
         (''status'', JStr ''provisioning'')])])),
     c_digest = (\<lambda>b. b), c_lower = (\<lambda>x. x), c_debug = (\<lambda>x. x), c_uni_lower = (\<lambda>x. x),
     c_uni_alnum = (\<lambda>_. True)\<rparr>"

definition tried_config :: flux_config where
  "tried_config = \<lparr>fx_token = Some ''t'', fx_api_url = Some ''h'', fx_workspace_id = None,
     fx_access_token = None\<rparr>"

definition tried_desk :: desk where
  "tried_desk = \<lparr>dk_files = [''liquid-metal.toml'' \<mapsto> ''toml''], dk_calls = 0, dk_log = []\<rparr>"

definition tried_request :: deploy_request where
  "tried_request = \<lparr>dr_name = ''a'', dr_slug = ''a'', dr_engine = ''liquid'', dr_project_id = ''p'',
     dr_artifact_key = ''k'', dr_sha256 = ''7761736d'', dr_port = None, dr_tier = None\<rparr>"

definition tried_uploads :: "desk_effect list" where
  "tried_uploads = [Executed [''sh'', ''-c'', ''make''],
     Sent ''POST'' ''h/deployments/upload-url'' (Some ''t'') (UploadUrlBody ''liquid'' ''d'' ''p''),
     Uploaded ''u'' 4 ''wasm'']"

lemma tried_run:
  "dk_log (snd (run_task (flux_deploy tried_env tried_config True False) tried_desk))
   = tried_uploads @ Sent ''POST'' ''h/deployments'' (Some ''t'') (DeployBody tried_request) #
       [Slept 575, Sent ''POST'' ''h/deployments'' (Some ''t'') (DeployBody tried_request)]"
  by code_simp


end
