(* ===== verification/Spec2Isabelle.thy ===== *)
theory Spec2Isabelle
  imports Platform Tenants RateLimit Examples ProxyExamples NodeRuns Isolation Retries
begin

text \<open>
  Liquid Metal, a small hosting platform, verified: its control plane, its proxy and the
  daemon of its nodes.

  The API (\<open>crates/api\<close>) keeps workspaces, services and a credit ledger in Postgres,
  queues provision, deprovision and suspend events in an outbox table, and is driven by its
  users, by Stripe's webhooks and by background tasks. A daemon on every node
  (\<open>crates/daemon\<close>) takes these events from NATS, boots Firecracker VMs and Wasm services,
  writes their addresses into the \<open>services\<close> table and announces them. The proxy
  (\<open>crates/proxy\<close>) caches the addresses, sends every request to the service its host names,
  wakes sleeping services and meters. A classifier in the kernel (\<open>crates/ebpf-programs\<close>)
  keeps VMs apart. The command line (\<open>crates/cli\<close>) builds artifacts and deploys them through
  the API. The library \<open>crates/common\<close> holds what all programs share.

  Theories, in the order of their imports.

  Foundations and the shared library:
  \<^item> \<open>Prelude\<close>: machine integers (an \<open>i64\<close> is an \<open>int\<close> in range, \<open>wrap_i64\<close> is what
    release arithmetic does), strings as UTF-8 bytes, decimal text, tables as lists of rows.
  \<^item> \<open>Events\<close>, \<open>Pricing\<close>, \<open>Artifact\<close>: the files of \<open>crates/common/src\<close> (\<open>events.rs\<close>;
    \<open>pricing.rs\<close>, \<open>features.rs\<close>, \<open>config.rs\<close>, \<open>networking.rs\<close>, \<open>slugify\<close>; \<open>artifact.rs\<close>).
  \<^item> \<open>Schema\<close>, \<open>Json\<close>, \<open>Procs\<close>: the tables as the migrations leave them, \<open>serde_json\<close>
    values, and processes: a state monad over the tables, the log of outside effects and a
    counter of calls, each of which the environment may make fail; transactions, with
    rollback on error and the aborted state of a Postgres transaction.

  The API, one definition per SQL statement (\<open>sql_\<close> and its purpose), one per transaction,
  one per handler, in the order of the code's calls:
  \<^item> \<open>ApiAuth\<close>: \<open>routes/mod.rs\<close>, \<open>routes/api_keys.rs\<close>, \<open>envelope.rs\<close>, the reads of
    \<open>vault.rs\<close>. \<open>Stripe\<close>: \<open>stripe.rs\<close>. \<open>Billing\<close>, \<open>BillingApi\<close>: \<open>billing.rs\<close>.
    \<open>Services\<close>: \<open>routes/services.rs\<close>. \<open>Deployments\<close>: \<open>routes/deployments.rs\<close>.
    \<open>Outbox\<close>: \<open>outbox.rs\<close>. \<open>Accounts\<close>: \<open>routes/auth.rs\<close>, \<open>users.rs\<close>, \<open>workspaces.rs\<close>,
    \<open>projects.rs\<close>. \<open>Domains\<close>: \<open>routes/domains.rs\<close>, \<open>acme.rs\<close>, \<open>cert_manager.rs\<close>,
    \<open>certs.rs\<close>. \<open>EnvVars\<close>: \<open>routes/env.rs\<close>, \<open>project_env.rs\<close>, \<open>logs.rs\<close>; what Vault holds is
    what it held at the start with the logged writes applied. \<open>RateLimit\<close>: \<open>rate_limit.rs\<close>.
  \<^item> \<open>Ledger\<close>: the books, and the contract \<open>money_frame\<close> of an invariant on them.
    \<open>Charges\<close>, \<open>Releases\<close>, \<open>Delivery\<close>, \<open>Shared\<close>, \<open>Tenants\<close>: what money handlers, service
    handlers, the outbox poller, the shared library and the sign-in do. \<open>Frames\<close>,
    \<open>Handlers\<close>, \<open>Integrity\<close>, \<open>Platform\<close>: the invariants over all handlers, keys and
    references of the schema included, and histories of requests. \<open>Samples\<close>, \<open>Examples\<close>:
    concrete runs.

  The proxy:
  \<^item> \<open>Routes\<close>: \<open>cache.rs\<close>, \<open>db.rs\<close>, \<open>tls.rs\<close>, \<open>main.rs\<close>: the caches, their warm-up,
    reconciliation and subscriptions. \<open>Router\<close>: \<open>router.rs\<close>, a request as a state machine
    whose transitions are the stretches between two locks or calls.
  \<^item> \<open>Proxy\<close>: any number of requests interleaved with the background tasks, the messages,
    the database's own changes and the clock, and the routing invariant. \<open>Traffic\<close>: the end
    of requests, metering, semaphores, pulses, reconciliation. \<open>ProxyExamples\<close>: runs.

  The daemon:
  \<^item> \<open>Async\<close>: a future as a tree of suspension points with the drop code of the values it
    holds; running one alone, and pools of them polled, dropped and interleaved at every
    point; the locale \<open>resources\<close>, in which what tasks own stays disjoint.
  \<^item> \<open>Node\<close>: a node's devices, processes, files, registries, tables and log, and the calls
    on them. \<open>Taps\<close>: TAP indices as a resource. \<open>Host\<close>: \<open>netlink.rs\<close>, \<open>tc.rs\<close>,
    \<open>cgroup.rs\<close>, \<open>ebpf.rs\<close>, \<open>firecracker.rs\<close>. \<open>Machines\<close>: \<open>storage.rs\<close>, \<open>verify.rs\<close>,
    \<open>jailer.rs\<close>, \<open>snapshot.rs\<close>, \<open>deprovision.rs\<close>. \<open>Rootfs\<close>: \<open>rootfs.rs\<close>. \<open>Wagi\<close>:
    \<open>wasm_http.rs\<close>. \<open>Provision\<close>: \<open>provision.rs\<close>. \<open>Wake\<close>: \<open>wake.rs\<close>. \<open>NodeTasks\<close>:
    \<open>tasks/\<close>. \<open>Daemon\<close>: \<open>run.rs\<close>, \<open>startup.rs\<close>.
  \<^item> \<open>Views\<close>: the locales \<open>host_view\<close> and \<open>memory_view\<close> of what the parts leave alone.
    \<open>Ownership\<close>: every handler and task accounts for its TAP indices. \<open>Fleet\<close>: a daemon
    over its whole life. \<open>Lifecycle\<close>, \<open>Records\<close>: a VM from its provision message to the
    restart, crash or shutdown that ends it. \<open>Shims\<close>: Wasm services, their cache, waking
    and usage. \<open>NodeExamples\<close>, \<open>NodeRuns\<close>: concrete nodes and runs.
  \<^item> \<open>Isolation\<close>: the eBPF classifier (\<open>ebpf-programs/src/main.rs\<close>) on frames as bytes.

  The command line:
  \<^item> \<open>Flux\<close>: \<open>cli/src/config.rs\<close>, \<open>client.rs\<close>, \<open>toml_config.rs\<close>, \<open>docker.rs\<close> and
    \<open>commands/service/deploy.rs\<close>, on a desk of files, commands run and requests sent.
    \<open>Retries\<close>: how often a request is sent, and what was uploaded before a deploy request.

  How to read a property. Of a handler of the API, \<open>m w = (r, w')\<close> is one run of the handler
  \<open>m\<close>, from the world \<open>w\<close> to the result \<open>r\<close> (an error or a value) and the world \<open>w'\<close>; \<open>w_db\<close>
  is the tables, \<open>w_log\<close> the effects. Of the daemon, \<open>run_task t s = (r, s')\<close> is one run of
  the task \<open>t\<close> with nothing in between, and \<open>daemon_run (s, ts)\<close> a reachable state \<open>s\<close> with
  the tasks \<open>ts\<close> under way. Which calls fail is part of the environment, so a property
  without a hypothesis on it holds for every pattern of faults. Certificate rounds, the
  5 s check of a wake and the polling for a socket are one call each.

  Bounds: amounts of Stripe have at most eight digits (\<open>amounts_ok\<close>), which keeps them exact
  in micro-credits; \<open>bill_liquid_effect\<close> assumes at most \<open>2 ^ 44\<close> invocations and
  \<open>invoice_effect\<close> sums below \<open>2 ^ 62\<close>, so that the wrap-around of the code does not occur. A
  request of the proxy makes 18 transitions and one per 50 ms of the wake timeout; a
  readiness probe makes two attempts per second of its timeout, which is why fuel of that
  size is enough for it. Process ids are below \<open>2 ^ 32\<close>, never 0 and never one in use.

  Not modelled: the web dashboard and the CLI's other commands (clients of the API:
  templates, argument parsing, output); the wiring of the programs (listeners, pools, migrations, metrics, logs);
  in the daemon the semaphore that holds provisions back, the health and lag reports, disk
  checks and the PID lock, and the kernel beyond the devices, processes and files it is
  asked about; the connections of a Wasm service, whose runs are a parameter. JSON text,
  SHA-256, HMAC, uuid, calendar and Unicode tables, Wasmtime, OpenSSL and the rate limiter's
  buckets are parameters of the environment.
\<close>

section \<open>Properties of the whole platform\<close>

text \<open>
  C1: along every history of requests, webhooks, background tasks and polls, whatever calls
  fail in each, the balance of a workspace is the sum of its ledger entries, every entry
  records the balance after it, and no Stripe session is credited twice.
\<close>

theorem platform_books:
  assumes "reachable w0 w" and "ledger_ok (w_db w0)" and "x \<in> set (t_workspaces (w_db w))"
  shows "ws_balance x = sum_list (map le_amount (entries_of (ws_id x) (t_ledger (w_db w)))) \<and>
    running 0 (entries_of (ws_id x) (t_ledger (w_db w))) \<and>
    distinct (sessions (t_ledger (w_db w)))"
proof -
  have "ledger_ok (w_db w)" using assms(1,2) by induction (simp_all add: perform_books)
  moreover have "(ws_id x, ws_balance x) \<in> set (accounts (w_db w))"
    using assms(3) by (auto simp: accounts_def)
  ultimately show ?thesis by (auto simp: ledger_ok_def books_ok_def)
qed

definition books_db :: db where
  "books_db = (sample_db 5000000 ''owner'' [])\<lparr>t_ledger := [topup_entry]\<rparr>"

lemma books_db_ok: "ledger_ok books_db"
  by (simp add: books_db_def sample_defs topup_entry_def ledger_ok_def books_ok_def accounts_def
      entries_of_def sessions_def List.map_filter_simps exact_i64_def in_i64_def)

lemma idle_aggregation:
  "w_db (perform sample_env AggregateUsage (world_of books_db)) = books_db"
  by (simp add: after_def aggregate_once_def aggregate_txn_def run_defs sql_unbilled_liquid_def
      books_db_def sample_defs)

lemma platform_books_witness:
  "ws_balance (sample_workspace 5000000) = sum_list (map le_amount (entries_of 2
     (t_ledger (w_db (perform sample_env AggregateUsage (world_of books_db))))))"
proof -
  have "reachable (world_of books_db) (perform sample_env AggregateUsage (world_of books_db))"
    by (rule reachable.request, rule reachable.start) simp
  from platform_books [OF this, of "sample_workspace 5000000"] books_db_ok idle_aggregation
  show ?thesis by (simp add: books_db_def sample_defs)
qed

text \<open>
  C18: along every history, every deployment on record has the artifact its service has now:
  no sequence of requests gives a rollback an older artifact to go to.
\<close>

theorem platform_artifacts:
  assumes "reachable w0 w" and "artifacts_ok (w_db w0)"
  shows "artifacts_ok (w_db w)"
  using assms by induction (simp_all add: perform_artifacts)

lemma platform_artifacts_witness:
  "artifacts_ok (w_db (perform sample_env (PollOutbox 50) (world_of
     ((sample_db 0 ''owner'' [sample_service 7 ''s'' ''running''])\<lparr>t_deployments := [sample_deployment 7]\<rparr>))))"
  (is "artifacts_ok (w_db (perform _ _ ?w))")
proof (rule platform_artifacts [where ?w0.0 = ?w])
  show "reachable ?w (perform sample_env (PollOutbox 50) ?w)"
    by (rule reachable.request, rule reachable.start) simp
  show "artifacts_ok (w_db ?w)"
    by (simp add: artifacts_ok_def service_exists_def sample_deployment_def sample_defs)
qed


definition dns_env :: env where
  "dns_env = sample_env\<lparr>e_cname := (\<lambda>_. Some [''s.liquidmetal.dev.''])\<rparr>"

definition waiting_domain :: domain_row where
  "waiting_domain = \<lparr>dm_id = 9, dm_project = 3, dm_service = Some 7, dm_domain = ''a.io'',
     dm_is_verified = False, dm_verification_type = ''cname'', dm_verification_token = ''token'',
     dm_tls_status = ''pending'', dm_created_at = 1690000000, dm_deleted_at = None\<rparr>"

definition domain_db :: db where
  "domain_db = (sample_db 0 ''owner'' [sample_service 7 ''s'' ''running''])\<lparr>t_domains := [waiting_domain]\<rparr>"

lemma domain_db_schema: "schema_ok domain_db"
  by (simp add: schema_defs check_defs domain_db_def waiting_domain_def sample_defs)


text \<open>
  C29: A domain is verified only by DNS. If after a request of any kind, from any reachable
  state, a domain is marked as verified that was not before, the request was a verification
  by an owner or admin of the workspace of the service the domain is bound to, with the
  write scope, and the answers of DNS at that request vouched for this domain, this service
  and this token; nothing else about the domain has changed.
\<close>

theorem domains_verified_by_dns:
  assumes w: "reachable w0 w" "schema_ok (w_db w0)"
    and x: "x \<in> set (t_domains (w_db (perform env r w)))" "dm_is_verified x"
    and new: "\<And>m. m \<in> set (t_domains (w_db w)) \<Longrightarrow> dm_id m = dm_id x \<Longrightarrow> \<not> dm_is_verified m"
  shows "\<exists>caller i name m. r = VerifyDomain caller i name \<and> scope_allowed caller ''write'' \<and>
    dns_vouches env (w_db w) caller m \<and> x = m\<lparr>dm_is_verified := True\<rparr>"
proof -
  define V where "V = (\<lambda>m. (dm_id m, dm_domain m)) ` {m \<in> set (t_domains (w_db w)). dm_is_verified m}"
  have "verified_within V (w_db w)" by (auto simp: verified_within_def V_def)
  moreover have "(dm_id x, dm_domain x) \<notin> V" using new by (auto simp: V_def)
  ultimately have "verifies r"
    using x perform_verified unfolding verified_within_def by blast
  then obtain caller i name where r: "r = VerifyDomain caller i name" by (cases r) auto
  have "x \<notin> set (t_domains (w_db w))" using new x(2) by blast
  with x(1) have "w_db (snd (verify_domain env caller i name w)) \<noteq> w_db w"
    by (auto simp: r after_def)
  with verify_domain_effect [of w env caller i name] obtain m where m: "dns_vouches env (w_db w) caller m"
      "scope_allowed caller ''write''"
    and d: "w_db (perform env r w) = (w_db w)\<lparr>t_domains := update_where (\<lambda>x. dm_id x = dm_id m)
       (\<lambda>x. x\<lparr>dm_is_verified := True\<rparr>) (t_domains (w_db w))\<rparr>"
    by (auto simp: idle_or_def r after_def)
  obtain m' where m': "m' \<in> set (t_domains (w_db w))"
    "x = (if dm_id m' = dm_id m then m'\<lparr>dm_is_verified := True\<rparr> else m')"
    using x(1) unfolding d by (auto simp: in_update_where)
  then have "dm_id m' = dm_id m" using new [OF m'(1)] x(2) by (auto split: if_splits)
  moreover have "distinct (map dm_id (t_domains (w_db w)))"
    using reachable_schema [OF w] by (simp add: schema_ok_def keys_ok_def)
  moreover have "m \<in> set (t_domains (w_db w))" using m(1) by (simp add: dns_vouches_def)
  ultimately have "m' = m" using m'(1) by (simp add: distinct_map inj_on_def)
  then show ?thesis using m m' r by auto
qed

lemma domain_db_verified:
  "t_domains (w_db (perform dns_env (VerifyDomain (sample_caller ''write'') ''7'' ''a.io'') (world_of domain_db))) =
   [waiting_domain\<lparr>dm_is_verified := True\<rparr>]"
  by (simp add: after_def verify_domain_def run_defs require_scope_def scope_allowed_def Let_def
      sql_domain_for_def opt_row_def require_workspace_role_def workspace_role_rank_def
      verify_domain_dns_def env_or_def trim_end_char_def sql_set_verified_def domain_db_def dns_env_def
      waiting_domain_def sample_defs table_simps)

lemma domains_verified_by_dns_witness:
  "\<exists>m. dns_vouches dns_env domain_db (sample_caller ''write'') m \<and>
     waiting_domain\<lparr>dm_is_verified := True\<rparr> = m\<lparr>dm_is_verified := True\<rparr>"
proof -
  have "\<exists>caller i name m. VerifyDomain (sample_caller ''write'') ''7'' ''a.io'' = VerifyDomain caller i name \<and>
    scope_allowed caller ''write'' \<and> dns_vouches dns_env (w_db (world_of domain_db)) caller m \<and>
    waiting_domain\<lparr>dm_is_verified := True\<rparr> = m\<lparr>dm_is_verified := True\<rparr>"
  proof (rule domains_verified_by_dns [OF reachable.start])
    show "schema_ok (w_db (world_of domain_db))" by (simp add: world_of_def domain_db_schema)
    show "waiting_domain\<lparr>dm_is_verified := True\<rparr> \<in> set (t_domains (w_db (perform dns_env
        (VerifyDomain (sample_caller ''write'') ''7'' ''a.io'') (world_of domain_db))))"
      by (simp only: domain_db_verified list.set_intros)
  qed (simp_all add: world_of_def domain_db_def waiting_domain_def)
  then show ?thesis by (auto simp: world_of_def)
qed


end
